(* ===== verification/Prelude.thy ===== *)
theory Prelude
  imports Complex_Main "HOL-Library.Multiset" "HOL-Library.Word"
begin

text \<open>
  Shared vocabulary of the KisTA development: simulated time, the outcome of a call that may
  report an error, the 32 and 64 bit counters, and the lemmas
  on lists and results that several components use.

  \<^item> \<open>sc_time\<close> is the SystemC time type: a non-negative number of resolution ticks. Sums of times
    are taken to stay below the 64 bits of the library; a difference is written with
    \<open>sc_minus\<close>, which wraps like the unsigned 64 bit subtraction it stands for.
  \<^item> \<open>SC_REPORT_ERROR\<close> keeps its default SystemC action in KisTA, which is to throw: a call that
    reaches it ends there. Its outcome is \<open>Inl (Report_Error what)\<close>; a use of an indeterminate
    value or an invalidated iterator is \<open>Inl (Undefined_Behaviour what)\<close>.
  \<^item> A C++ \<open>double\<close> is a value of \<open>double\<close> (theory \<open>Doubles\<close>): a rational number or a non-finite one.
\<close>

named_theorems result_simps

type_synonym sc_time = nat
type_synonym u32 = "32 word"
type_synonym u64 = "64 word"
type_synonym link_ptr = nat

datatype failure = Report_Error string | Undefined_Behaviour string

type_synonym 'a result = "failure + 'a"

definition sc_minus :: "sc_time \<Rightarrow> sc_time \<Rightarrow> sc_time" where
  "sc_minus a b = (if b \<le> a then a - b else a + 2 ^ 64 - b)"

text \<open>
  The time resolution is the SystemC default of one picosecond: \<open>sc_time(v, SC_NS)\<close> rounds to the
  nearest tick and \<open>to_seconds()\<close> divides by the ticks of a second.
\<close>

definition sc_time_ns :: "rat \<Rightarrow> sc_time" where
  "sc_time_ns v = nat \<lfloor>v * 1000 + 1 / 2\<rfloor>"

definition to_seconds :: "sc_time \<Rightarrow> rat" where
  "to_seconds t = of_nat t / 10 ^ 12"

definition report :: "string \<Rightarrow> 'a result" where
  "report m = Inl (Report_Error m)"

definition undef :: "string \<Rightarrow> 'a result" where
  "undef m = Inl (Undefined_Behaviour m)"

definition check :: "bool \<Rightarrow> string \<Rightarrow> unit result" where
  "check b m = (if b then Inr () else report m)"

definition rbind :: "'a result \<Rightarrow> ('a \<Rightarrow> 'b result) \<Rightarrow> 'b result" where
  "rbind m f = (case m of Inl e \<Rightarrow> Inl e | Inr x \<Rightarrow> f x)"

definition rmap :: "('a \<Rightarrow> 'b) \<Rightarrow> 'a result \<Rightarrow> 'b result" where
  "rmap f m = rbind m (\<lambda>x. Inr (f x))"

definition is_ok :: "'a result \<Rightarrow> bool" where
  "is_ok m = (case m of Inl _ \<Rightarrow> False | Inr _ \<Rightarrow> True)"

text \<open>Results: evaluation on a known outcome, and inversion of a successful one.\<close>

lemma rbind_Inl [simp, result_simps]: "rbind (Inl e) f = Inl e"
  by (simp add: rbind_def)

lemma rbind_Inr [simp, result_simps]: "rbind (Inr x) f = f x"
  by (simp add: rbind_def)

lemma rmap_Inl [simp, result_simps]: "rmap f (Inl e) = Inl e"
  by (simp add: rmap_def)

lemma rmap_Inr [simp, result_simps]: "rmap f (Inr x) = Inr (f x)"
  by (simp add: rmap_def)

lemma rbind_eq_Inr [result_simps]: "rbind m f = Inr y \<longleftrightarrow> (\<exists>x. m = Inr x \<and> f x = Inr y)"
  by (cases m) auto

lemma rmap_eq_Inr [result_simps]: "rmap f m = Inr y \<longleftrightarrow> (\<exists>x. m = Inr x \<and> f x = y)"
  by (cases m) auto

lemma check_True [simp, result_simps]: "check True m = Inr ()"
  by (simp add: check_def)

lemma check_False [simp, result_simps]: "check False m = report m"
  by (simp add: check_def)

lemma check_eq_Inr [simp, result_simps]: "check b m = Inr u \<longleftrightarrow> b"
  by (simp add: check_def report_def)

lemma check_eq_Inl [result_simps]: "check b m = Inl e \<longleftrightarrow> \<not> b \<and> e = Report_Error m"
  by (auto simp: check_def report_def)

lemma rbind_report [simp, result_simps]: "rbind (report m) f = report m"
  by (simp add: report_def)

lemma rbind_undef [simp, result_simps]: "rbind (undef m) f = undef m"
  by (simp add: undef_def)

lemma rmap_report [simp, result_simps]: "rmap f (report m) = report m"
  by (simp add: report_def)

lemma rmap_undef [simp, result_simps]: "rmap f (undef m) = undef m"
  by (simp add: undef_def)

lemma rbind_check: "rbind (check b m) f = (if b then f () else report m)"
  by (simp add: check_def)

lemma report_neq_Inr [simp, result_simps]: "report m \<noteq> Inr x" "Inr x \<noteq> report m"
  by (simp_all add: report_def)

lemma undef_neq_Inr [simp, result_simps]: "undef m \<noteq> Inr x" "Inr x \<noteq> undef m"
  by (simp_all add: undef_def)

lemma report_eq_report [simp, result_simps]: "(report a = report b) = (a = b)"
  by (simp add: report_def)

lemma undef_neq_report [simp, result_simps]: "undef a \<noteq> report b" "report b \<noteq> undef a"
  by (simp_all add: undef_def report_def)

lemma is_ok_simps [simp, result_simps]:
  "is_ok (Inr x)" "\<not> is_ok (Inl e)" "\<not> is_ok (report m)" "\<not> is_ok (undef m)"
  by (simp_all add: is_ok_def report_def undef_def)

lemma is_ok_check [simp, result_simps]: "is_ok (check b m) \<longleftrightarrow> b"
  by (simp add: check_def)

lemma is_ok_iff: "is_ok m \<longleftrightarrow> (\<exists>x. m = Inr x)"
  by (cases m) auto

text \<open>Times.\<close>

lemma sc_minus_le [simp]: "b \<le> a \<Longrightarrow> sc_minus a b = a - b"
  by (simp add: sc_minus_def)

lemma sc_minus_self [simp]: "sc_minus a a = 0"
  by simp

lemma sc_time_ns_nat [simp]: "sc_time_ns (of_nat n) = n * 1000"
proof -
  have "\<lfloor>(of_nat (n * 1000) :: rat) + 1 / 2\<rfloor> = int (n * 1000)"
    by (rule floor_unique) simp_all
  then show ?thesis by (simp add: sc_time_ns_def)
qed

lemma sc_time_ns_0 [simp]: "sc_time_ns 0 = 0"
  using sc_time_ns_nat [of 0] by simp

lemma sc_time_ns_unsigned [simp]: "sc_time_ns (unsigned (w :: 'a::len word)) = unat w * 1000"
  using sc_time_ns_nat [of "unat w"] by simp

lemma to_seconds_mono: "to_seconds a \<le> to_seconds b \<longleftrightarrow> a \<le> b"
  by (simp add: to_seconds_def divide_le_cancel)

lemma to_seconds_nonneg [simp]: "0 \<le> to_seconds a"
  by (simp add: to_seconds_def)

lemma to_seconds_add: "to_seconds (a + b) = to_seconds a + to_seconds b"
  by (simp add: to_seconds_def add_divide_distrib)

text \<open>Rounding up the quotient of two times.\<close>

definition ceil_div :: "nat \<Rightarrow> nat \<Rightarrow> nat" where
  "ceil_div a b = (if a mod b = 0 then a div b else Suc (a div b))"

lemma ceil_div_ge: "0 < b \<Longrightarrow> a \<le> ceil_div a b * b"
proof -
  assume b: "0 < b"
  have e: "a div b * b + a mod b = a" by (rule div_mult_mod_eq)
  have m: "a mod b < b" using b by simp
  show ?thesis
  proof (cases "a mod b = 0")
    case True
    with e show ?thesis unfolding ceil_div_def by simp
  next
    case False
    have "ceil_div a b * b = b + a div b * b" using False by (simp add: ceil_div_def)
    with e m show ?thesis by linarith
  qed
qed

lemma ceil_div_less: "0 < b \<Longrightarrow> ceil_div a b * b < a + b"
proof -
  assume b: "0 < b"
  have e: "a div b * b + a mod b = a" by (rule div_mult_mod_eq)
  show ?thesis
  proof (cases "a mod b = 0")
    case True
    then have "ceil_div a b * b = a div b * b" by (simp add: ceil_div_def del: mult_div_mod_eq)
    with e b show ?thesis by linarith
  next
    case False
    have "ceil_div a b * b = b + a div b * b" using False by (simp add: ceil_div_def)
    with e False show ?thesis by linarith
  qed
qed

lemma ceil_div_ceiling: "0 < b \<Longrightarrow> int (ceil_div a b) = \<lceil>(of_nat a :: rat) / of_nat b\<rceil>"
proof -
  assume b: "0 < b"
  have up: "(of_nat a :: rat) \<le> of_nat (ceil_div a b * b)"
    using ceil_div_ge [OF b] by (simp only: of_nat_le_iff)
  have "(of_nat (ceil_div a b * b) :: rat) < of_nat (a + b)"
    using ceil_div_less [OF b] by (simp only: of_nat_less_iff)
  then have lo: "(of_nat (ceil_div a b) - 1) * of_nat b < (of_nat a :: rat)"
    by (simp add: algebra_simps)
  show ?thesis
    by (rule ceiling_unique [symmetric]) (use b up lo in \<open>simp_all add: field_simps\<close>)
qed

lemma ceil_div_mono: "a \<le> c \<Longrightarrow> ceil_div a b \<le> ceil_div c b"
proof (cases "b = 0")
  case False
  assume "a \<le> c"
  then have "\<lceil>(of_nat a :: rat) / of_nat b\<rceil> \<le> \<lceil>(of_nat c :: rat) / of_nat b\<rceil>"
    by (intro ceiling_mono divide_right_mono) simp_all
  with False have "int (ceil_div a b) \<le> int (ceil_div c b)"
    by (simp add: ceil_div_ceiling)
  then show ?thesis by simp
qed (simp add: ceil_div_def)

text \<open>Lists.\<close>

lemma find_Some_mem: "find P xs = Some x \<Longrightarrow> x \<in> set xs \<and> P x"
  by (induction xs) (auto split: if_splits)

lemma find_first_sorted:
  "sorted (map f xs) \<Longrightarrow> find P xs = Some x \<Longrightarrow> y \<in> set xs \<Longrightarrow> P y \<Longrightarrow> f x \<le> f y"
  by (induction xs) (auto split: if_splits)

lemma find_None_all: "find P xs = None \<Longrightarrow> y \<in> set xs \<Longrightarrow> \<not> P y"
  by (induction xs) (auto split: if_splits)

lemma sum_list_map_nth: "i < length xs \<Longrightarrow> (f :: 'a \<Rightarrow> nat) (xs ! i) \<le> sum_list (map f xs)"
  by (rule member_le_sum_list) auto

text \<open>Maps ordered by their key: the assignment \<open>m[k] = v\<close> of a \<open>std::map\<close>.\<close>

fun table_set :: "'k::linorder \<Rightarrow> 'v \<Rightarrow> ('k \<times> 'v) list \<Rightarrow> ('k \<times> 'v) list" where
  "table_set k v [] = [(k, v)]"
| "table_set k v ((k', v') # t) =
     (if k < k' then (k, v) # (k', v') # t
      else if k = k' then (k, v) # t
      else (k', v') # table_set k v t)"

lemma map_of_table_set: "sorted_wrt (<) (map fst t) \<Longrightarrow> map_of (table_set k v t) = (map_of t)(k \<mapsto> v)"
  by (induction k v t rule: table_set.induct) (auto simp: fun_eq_iff)

lemma sorted_table_set:
  "sorted_wrt (<) (map fst t) \<Longrightarrow> sorted_wrt (<) (map fst (table_set k v t))
     \<and> set (map fst (table_set k v t)) = insert k (set (map fst t))"
  by (induction k v t rule: table_set.induct) auto

text \<open>Counters.\<close>

lemma u32_bound: "unat (w :: u32) < 2 ^ 32"
  by (rule order_less_le_trans [OF unsigned_less]) simp

end
