(* ===== verification/Sim_Phase.thy ===== *)
theory Sim_Phase
  imports Prelude
begin

text \<open>
  The phases of a SystemC run and the guards of \<open>utils.cpp\<close> that tie a KisTA call to a phase,
  the unit conversion factors, the validator of \<open>utils.cpp\<close> and the global functional monitor
  and parameters built on it.

  \<open>sim_env\<close> is what the code asks the SystemC kernel: \<open>sc_get_status()\<close> (one of the bits of the
  status word), \<open>sc_is_running()\<close> and \<open>sc_time_stamp()\<close>.
\<close>

datatype sim_status =
  SC_ELABORATION | SC_BEFORE_END_OF_ELABORATION | SC_END_OF_ELABORATION
| SC_START_OF_SIMULATION | SC_RUNNING | SC_PAUSED | SC_STOPPED | SC_END_OF_SIMULATION

record sim_env =
  sc_status :: sim_status
  sc_running :: bool
  sc_now :: sc_time

subsection \<open>Phase guards\<close>

definition check_call_before_sim_start :: "sim_env \<Rightarrow> string \<Rightarrow> unit result" where
  "check_call_before_sim_start e call_name =
     check (sc_status e \<notin> {SC_START_OF_SIMULATION, SC_RUNNING, SC_STOPPED, SC_PAUSED,
                              SC_END_OF_SIMULATION})
       (call_name @ '' has to be called before simulation start.'')"

definition check_call_at_elaboration :: "sim_env \<Rightarrow> string \<Rightarrow> unit result" where
  "check_call_at_elaboration e call_name =
     check (sc_status e = SC_ELABORATION)
       (call_name @ '' has to be called at elaboration time (before sc_start).'')"

definition check_call_after_sim_start :: "sim_env \<Rightarrow> string \<Rightarrow> unit result" where
  "check_call_after_sim_start e call_name =
     check (sc_status e \<notin> {SC_ELABORATION, SC_BEFORE_END_OF_ELABORATION, SC_END_OF_ELABORATION})
       (call_name @ '' has to be called after simulation start.'')"

definition before_sim :: "sim_env \<Rightarrow> bool" where
  "before_sim e \<longleftrightarrow>
     sc_status e \<in> {SC_ELABORATION, SC_BEFORE_END_OF_ELABORATION, SC_END_OF_ELABORATION}"

lemma check_before_ok [simp, result_simps]:
  "check_call_before_sim_start e n = Inr u \<longleftrightarrow> before_sim e"
  by (cases "sc_status e") (simp_all add: check_call_before_sim_start_def before_sim_def)

lemma check_after_ok [simp, result_simps]:
  "check_call_after_sim_start e n = Inr u \<longleftrightarrow> \<not> before_sim e"
  by (simp add: check_call_after_sim_start_def before_sim_def)

lemma check_elab_ok [simp, result_simps]:
  "check_call_at_elaboration e n = Inr u \<longleftrightarrow> sc_status e = SC_ELABORATION"
  by (simp add: check_call_at_elaboration_def)

lemma check_elab_before: "sc_status e = SC_ELABORATION \<Longrightarrow> before_sim e"
  by (simp add: before_sim_def)

lemma rbind_before:
  "rbind (check_call_before_sim_start e n) f =
     (if before_sim e then f ()
      else report (n @ '' has to be called before simulation start.''))"
  by (cases "sc_status e") (simp_all add: check_call_before_sim_start_def before_sim_def rbind_check)

lemma rbind_after:
  "rbind (check_call_after_sim_start e n) f =
     (if before_sim e then report (n @ '' has to be called after simulation start.'') else f ())"
  by (simp add: check_call_after_sim_start_def before_sim_def rbind_check)

subsection \<open>Worst case communication flag\<close>

definition enable_worst_case_communication :: "sim_env \<Rightarrow> bool \<Rightarrow> bool result" where
  "enable_worst_case_communication e flag =
     rbind (check_call_before_sim_start e ''enable_worst_case_communication'') (\<lambda>_. Inr True)"

definition disable_worst_case_communication :: "sim_env \<Rightarrow> bool \<Rightarrow> bool result" where
  "disable_worst_case_communication e flag =
     rbind (check_call_before_sim_start e ''disable_worst_case_communication'') (\<lambda>_. Inr False)"

subsection \<open>Unit conversion\<close>

definition conv_data_rate_factor :: "char \<Rightarrow> rat result" where
  "conv_data_rate_factor unit =
     (if unit = CHR ''b'' then Inr 1
      else if unit = CHR ''B'' then Inr (125 / 10 ^ 3)
      else if unit = CHR ''K'' \<or> unit = CHR ''k'' then Inr (1 / 10 ^ 3)
      else if unit = CHR ''M'' then Inr (1 / 10 ^ 6)
      else if unit = CHR ''G'' then Inr (1 / 10 ^ 9)
      else if unit = CHR ''T'' then Inr (1 / 10 ^ 12)
      else report ''Unknown unit'')"

definition conv_isu_factor :: "char \<Rightarrow> rat result" where
  "conv_isu_factor unit =
     (if unit = CHR ''-'' \<or> unit = CHR 0x00 then Inr 1
      else if unit = CHR ''K'' \<or> unit = CHR ''k'' then Inr (1 / 10 ^ 3)
      else if unit = CHR ''M'' then Inr (1 / 10 ^ 6)
      else if unit = CHR ''G'' then Inr (1 / 10 ^ 9)
      else if unit = CHR ''T'' then Inr (1 / 10 ^ 12)
      else if unit = CHR ''m'' then Inr (10 ^ 3)
      else if unit = CHR ''u'' then Inr (10 ^ 6)
      else if unit = CHR ''n'' then Inr (10 ^ 9)
      else if unit = CHR ''p'' then Inr (10 ^ 12)
      else if unit = CHR ''f'' then Inr (10 ^ 15)
      else report ''Unknown unit'')"

lemma conv_data_rate_factor_pos: "conv_data_rate_factor u = Inr r \<Longrightarrow> 0 < r \<and> r \<le> 1"
  by (auto simp: conv_data_rate_factor_def split: if_splits)

lemma conv_isu_factor_pos: "conv_isu_factor u = Inr r \<Longrightarrow> 0 < r"
  by (auto simp: conv_isu_factor_def split: if_splits)

subsection \<open>Validators\<close>

record validator_t =
  validation_t :: string
  v_OK :: bool
  n_failures :: u32
  n_failures_threshold :: u32

definition new_validator :: "string \<Rightarrow> validator_t" where
  "new_validator name =
     \<lparr>validation_t = name, v_OK = True, n_failures = 0, n_failures_threshold = 1\<rparr>"

definition set_failure :: "validator_t \<Rightarrow> validator_t" where
  "set_failure v =
     (let n = n_failures v + 1 in
      v\<lparr>n_failures := n, v_OK := (if n \<ge> n_failures_threshold v then False else v_OK v)\<rparr>)"

definition set_failure_threshold :: "u32 \<Rightarrow> validator_t \<Rightarrow> validator_t result" where
  "set_failure_threshold t v =
     rbind (check (\<not> t < 1) ''The failures threshold has to be at least 1 or more.'')
       (\<lambda>_. Inr (v\<lparr>n_failures_threshold := t\<rparr>))"

definition get_n_failures :: "validator_t \<Rightarrow> u32" where
  "get_n_failures v = n_failures v"

definition failed :: "validator_t \<Rightarrow> bool" where
  "failed v = (\<not> v_OK v)"

definition validated :: "validator_t \<Rightarrow> bool" where
  "validated v = v_OK v"

definition validator_end_of_simulation :: "validator_t \<Rightarrow> unit result" where
  "validator_end_of_simulation v =
     check (\<not> failed v) (''Validation of '' @ validation_t v @ '' FAILED.'')"

lemma set_failure_failed: "failed v \<Longrightarrow> failed (set_failure v)"
  by (simp add: failed_def set_failure_def Let_def)

lemma set_failure_threshold_frame [simp]:
  "n_failures_threshold (set_failure v) = n_failures_threshold v"
  by (simp add: set_failure_def Let_def)

lemma n_failures_count: "n_failures ((set_failure ^^ k) v) = n_failures v + of_nat k"
  by (induction k) (simp_all add: set_failure_def Let_def)

lemma threshold_count [simp]:
  "n_failures_threshold ((set_failure ^^ k) v) = n_failures_threshold v"
  by (induction k) simp_all

lemma set_failure_OK:
  "v_OK (set_failure v) \<longleftrightarrow> v_OK v \<and> n_failures v + 1 < n_failures_threshold v"
  by (auto simp add: set_failure_def Let_def not_le)

lemma of_nat_less_word_iff:
  "k < 2 ^ 32 \<Longrightarrow> (of_nat k :: u32) < t \<longleftrightarrow> k < unat t"
  by (simp add: word_less_nat_alt unat_of_nat take_bit_eq_mod)

lemma validated_fresh_count:
  assumes "1 \<le> unat t"
  shows "v_OK ((set_failure ^^ k) ((new_validator n)\<lparr>n_failures_threshold := t\<rparr>)) \<longleftrightarrow> k < unat t"
proof (induction k)
  case 0
  then show ?case using assms by (simp add: new_validator_def)
next
  case (Suc k)
  have bound: "unat t < 2 ^ 32" using unsigned_less [of t] by simp
  show ?case
  proof (cases "k < unat t")
    case True
    with bound have k: "Suc k < 2 ^ 32 \<or> Suc k = 2 ^ 32" by linarith
    with True bound have "Suc k < 2 ^ 32" by linarith
    then have "(of_nat (Suc k) :: u32) < t \<longleftrightarrow> Suc k < unat t"
      by (rule of_nat_less_word_iff)
    with Suc True show ?thesis
      by (simp add: set_failure_OK n_failures_count new_validator_def add.commute)
  next
    case False
    with Suc show ?thesis by (simp add: set_failure_OK)
  qed
qed

subsection \<open>The global functional monitor and parameters\<close>

type_synonym functionality_monitor = "validator_t option"

definition enable_functional_validation ::
    "sim_env \<Rightarrow> functionality_monitor \<Rightarrow> functionality_monitor result" where
  "enable_functional_validation e m =
     rbind (check_call_before_sim_start e ''enable_functional_validation'') (\<lambda>_.
       if m = None then Inr (Some (new_validator ''FUNCTIONALITY''))
       else report ''The function enable_functional_validation must be called only once'')"

definition functional_validation_enabled :: "functionality_monitor \<Rightarrow> bool" where
  "functional_validation_enabled m = (m \<noteq> None)"

definition set_functional_failure_threshold ::
    "sim_env \<Rightarrow> u32 \<Rightarrow> functionality_monitor \<Rightarrow> functionality_monitor result" where
  "set_functional_failure_threshold e t m =
     (case m of
        Some v \<Rightarrow>
          rbind (check_call_before_sim_start e ''set_functional_failure_limit'') (\<lambda>_.
            rmap Some (set_failure_threshold t v))
      | None \<Rightarrow> Inr None)"

definition set_functional_failure ::
    "sim_env \<Rightarrow> functionality_monitor \<Rightarrow> functionality_monitor result" where
  "set_functional_failure e m =
     (case m of
        Some v \<Rightarrow>
          rbind (check_call_after_sim_start e ''set_functional_failure'') (\<lambda>_.
            Inr (Some (set_failure v)))
      | None \<Rightarrow> Inr None)"

definition get_functional_failures :: "functionality_monitor \<Rightarrow> u32" where
  "get_functional_failures m = (case m of Some v \<Rightarrow> get_n_failures v | None \<Rightarrow> 0)"

type_synonym param_value_t = "string list"
type_synonym global_parameters_t = "string \<rightharpoonup> param_value_t option"

definition declare_global_parameter ::
    "string \<Rightarrow> param_value_t option \<Rightarrow> global_parameters_t \<Rightarrow> global_parameters_t" where
  "declare_global_parameter name v g = g(name \<mapsto> v)"

text \<open>Looking a parameter up with \<open>operator[]\<close> inserts a null entry when it is missing.\<close>

definition get_global_parameter ::
    "string \<Rightarrow> global_parameters_t \<Rightarrow> param_value_t option \<times> global_parameters_t" where
  "get_global_parameter name g =
     (case g name of Some v \<Rightarrow> (v, g) | None \<Rightarrow> (None, g(name \<mapsto> None)))"

lemma get_declared_parameter:
  "get_global_parameter n (declare_global_parameter n v g) = (v, declare_global_parameter n v g)"
  by (simp add: get_global_parameter_def declare_global_parameter_def)

lemma get_other_parameter:
  "m \<noteq> n \<Longrightarrow> fst (get_global_parameter m (declare_global_parameter n v g))
             = fst (get_global_parameter m g)"
  by (simp add: get_global_parameter_def declare_global_parameter_def split: option.splits)

subsection \<open>Properties\<close>

text \<open>
  A validator whose threshold was set to a value of at least one, as the setter requires, is
  validated exactly as long as fewer failures than the threshold were set, whatever their number: a
  failed validator stays failed even after its 32 bit counter wraps.
\<close>
theorem validator_threshold_exact:
  assumes "set_failure_threshold t (new_validator n) = Inr v"
  shows "validated ((set_failure ^^ k) v) \<longleftrightarrow> k < unat t"
proof -
  from assms have "\<not> t < 1" and v: "v = (new_validator n)\<lparr>n_failures_threshold := t\<rparr>"
    by (simp_all add: set_failure_threshold_def rbind_check split: if_splits)
  then have "1 \<le> unat t" by (simp add: word_less_nat_alt)
  then show ?thesis using validated_fresh_count [of t k n] by (simp add: v validated_def)
qed

theorem validator_threshold_exact_witness:
  "validated ((set_failure ^^ 2) ((new_validator ''v'')\<lparr>n_failures_threshold := 3\<rparr>)) \<and>
   \<not> validated ((set_failure ^^ 3) ((new_validator ''v'')\<lparr>n_failures_threshold := 3\<rparr>))"
proof -
  have ok: "set_failure_threshold 3 (new_validator ''v'') =
      Inr ((new_validator ''v'')\<lparr>n_failures_threshold := 3\<rparr>)"
    by (simp add: set_failure_threshold_def rbind_check)
  show ?thesis using validator_threshold_exact [OF ok, of 2] validator_threshold_exact [OF ok, of 3]
    by simp
qed

end
