(* ===== verification/Doubles.thy ===== *)
theory Doubles
  imports Prelude
begin

text \<open>
  C++ \<open>double\<close> values: finite ones as exact rational numbers (rounding is not modelled), with the
  infinities and the not-a-number that the operations of the library produce, e.g. a ratio of two
  times with a zero divisor. The two signed zeros are one value.
\<close>

datatype double = Fin rat | PosInf | NegInf | NaN

named_theorems double_simps

definition dsigned :: "rat \<Rightarrow> double" where
  "dsigned s = (if 0 < s then PosInf else if s < 0 then NegInf else NaN)"

fun dneg :: "double \<Rightarrow> double" where
  "dneg (Fin a) = Fin (- a)"
| "dneg PosInf = NegInf"
| "dneg NegInf = PosInf"
| "dneg NaN = NaN"

fun dadd :: "double \<Rightarrow> double \<Rightarrow> double" where
  "dadd (Fin a) (Fin b) = Fin (a + b)"
| "dadd NaN _ = NaN"
| "dadd _ NaN = NaN"
| "dadd PosInf NegInf = NaN"
| "dadd NegInf PosInf = NaN"
| "dadd PosInf _ = PosInf"
| "dadd _ PosInf = PosInf"
| "dadd NegInf _ = NegInf"
| "dadd _ NegInf = NegInf"

definition dsub :: "double \<Rightarrow> double \<Rightarrow> double" where
  "dsub a b = dadd a (dneg b)"

fun dmul :: "double \<Rightarrow> double \<Rightarrow> double" where
  "dmul (Fin a) (Fin b) = Fin (a * b)"
| "dmul NaN _ = NaN"
| "dmul _ NaN = NaN"
| "dmul (Fin a) PosInf = dsigned a"
| "dmul (Fin a) NegInf = dsigned (- a)"
| "dmul PosInf (Fin a) = dsigned a"
| "dmul NegInf (Fin a) = dsigned (- a)"
| "dmul PosInf PosInf = PosInf"
| "dmul NegInf NegInf = PosInf"
| "dmul PosInf NegInf = NegInf"
| "dmul NegInf PosInf = NegInf"

fun ddiv :: "double \<Rightarrow> double \<Rightarrow> double" where
  "ddiv (Fin a) (Fin b) = (if b = 0 then dsigned a else Fin (a / b))"
| "ddiv NaN _ = NaN"
| "ddiv _ NaN = NaN"
| "ddiv (Fin a) _ = Fin 0"
| "ddiv PosInf (Fin b) = (if b < 0 then NegInf else PosInf)"
| "ddiv NegInf (Fin b) = (if b < 0 then PosInf else NegInf)"
| "ddiv _ _ = NaN"

fun dless :: "double \<Rightarrow> double \<Rightarrow> bool" where
  "dless (Fin a) (Fin b) = (a < b)"
| "dless NaN _ = False"
| "dless _ NaN = False"
| "dless PosInf _ = False"
| "dless _ PosInf = True"
| "dless _ NegInf = False"
| "dless NegInf _ = True"

definition dle :: "double \<Rightarrow> double \<Rightarrow> bool" where
  "dle a b = (dless a b \<or> (a = b \<and> a \<noteq> NaN))"

definition finite_double :: "double \<Rightarrow> bool" where
  "finite_double d = (case d of Fin _ \<Rightarrow> True | _ \<Rightarrow> False)"

definition dsum :: "double list \<Rightarrow> double" where
  "dsum = foldl dadd (Fin 0)"

text \<open>The quotient \<open>t1/t2\<close> of two times is a double.\<close>

definition sc_ratio :: "sc_time \<Rightarrow> sc_time \<Rightarrow> double" where
  "sc_ratio a b = ddiv (Fin (of_nat a)) (Fin (of_nat b))"

lemma dsub_Fin [simp, double_simps]: "dsub (Fin a) (Fin b) = Fin (a - b)"
  by (simp add: dsub_def)

lemma ddiv_Fin [simp, double_simps]: "b \<noteq> 0 \<Longrightarrow> ddiv (Fin a) (Fin b) = Fin (a / b)"
  by simp

lemma dle_Fin [simp, double_simps]: "dle (Fin a) (Fin b) \<longleftrightarrow> a \<le> b"
  by (auto simp: dle_def)

lemma finite_double_iff: "finite_double d \<longleftrightarrow> (\<exists>r. d = Fin r)"
  by (cases d) (simp_all add: finite_double_def)

lemma sc_ratio_Fin [simp]: "0 < b \<Longrightarrow> sc_ratio a b = Fin (of_nat a / of_nat b)"
  by (simp add: sc_ratio_def)

lemma sc_ratio_finite: "finite_double (sc_ratio a b) \<longleftrightarrow> 0 < b"
  by (auto simp: sc_ratio_def finite_double_def dsigned_def)

lemma sc_ratio_less:
  "0 < b \<Longrightarrow> 0 < d \<Longrightarrow> dless (sc_ratio a b) (sc_ratio c d) \<longleftrightarrow> a * d < c * b"
proof -
  assume "0 < b" "0 < d"
  then have "dless (sc_ratio a b) (sc_ratio c d) \<longleftrightarrow> (of_nat (a * d) :: rat) < of_nat (c * b)"
    by (simp add: field_simps)
  then show ?thesis by (simp only: of_nat_less_iff)
qed

lemma foldl_dadd_Fin: "foldl dadd (Fin r) (map (\<lambda>x. Fin (f x)) xs) = Fin (r + sum_list (map f xs))"
  by (induction xs arbitrary: r) (simp_all add: add.assoc)

lemma dsum_Fin: "dsum (map (\<lambda>x. Fin (f x)) xs) = Fin (sum_list (map f xs))"
  by (simp add: dsum_def foldl_dadd_Fin)

lemma dless_irrefl [simp]: "\<not> dless a a"
  by (cases a) simp_all

lemma dless_asym: "dless a b \<Longrightarrow> \<not> dless b a"
  by (cases a; cases b) simp_all

lemma dless_trans: "dless a b \<Longrightarrow> dless b c \<Longrightarrow> dless a c"
  by (cases a; cases b; cases c) simp_all

text \<open>
  Conversions to integers. The product and the quotient of a time and a double are rounded to the
  nearest tick; a double is truncated to an unsigned integer. A value that the target cannot hold is
  undefined behaviour.
\<close>

definition to_ticks :: "double \<Rightarrow> sc_time result" where
  "to_ticks d =
     (case d of
        Fin x \<Rightarrow> (if - 1 < x + 1 / 2 \<and> x + 1 / 2 < 2 ^ 64 then Inr (nat \<lfloor>x + 1 / 2\<rfloor>)
                  else undef ''time out of range'')
      | _ \<Rightarrow> undef ''time out of range'')"

definition sc_times :: "double \<Rightarrow> sc_time \<Rightarrow> sc_time result" where
  "sc_times d t = to_ticks (dmul (Fin (of_nat t)) d)"

definition sc_over :: "sc_time \<Rightarrow> double \<Rightarrow> sc_time result" where
  "sc_over t d = to_ticks (ddiv (Fin (of_nat t)) d)"

definition to_u32 :: "double \<Rightarrow> u32 result" where
  "to_u32 d =
     (case d of
        Fin x \<Rightarrow> (if - 1 < x \<and> x < 2 ^ 32 then Inr (of_nat (nat \<lfloor>x\<rfloor>)) else undef ''conversion out of range'')
      | _ \<Rightarrow> undef ''conversion out of range'')"

definition of_u32 :: "u32 \<Rightarrow> double" where
  "of_u32 w = Fin (of_nat (unat w))"

lemma to_ticks_nat: "n < 2 ^ 64 \<Longrightarrow> to_ticks (Fin (of_nat n)) = Inr n"
proof -
  assume n: "n < 2 ^ 64"
  have "\<lfloor>(of_nat n :: rat) + 1 / 2\<rfloor> = int n" by (rule floor_unique) simp_all
  moreover have "(of_nat (n + 1) :: rat) \<le> of_nat (2 ^ 64)" using n by (simp only: of_nat_le_iff)
  ultimately show ?thesis by (simp add: to_ticks_def)
qed

lemma sc_times_u32: "unat w * t < 2 ^ 64 \<Longrightarrow> sc_times (of_u32 w) t = Inr (unat w * t)"
  using to_ticks_nat [of "unat w * t"] by (simp add: sc_times_def of_u32_def mult.commute)

lemma to_ticks_le:
  assumes "to_ticks (Fin x) = Inr t" "x \<le> of_nat n"
  shows "t \<le> n"
proof -
  have "t = nat \<lfloor>x + 1 / 2\<rfloor>" using assms(1) by (simp add: to_ticks_def split: if_splits)
  moreover have "\<lfloor>x + 1 / 2\<rfloor> \<le> int n"
    using assms(2) by (subst floor_le_iff) simp
  ultimately show ?thesis by simp
qed

lemma to_ticks_ok: "0 \<le> x \<Longrightarrow> x \<le> of_nat n \<Longrightarrow> n < 2 ^ 64 \<Longrightarrow> \<exists>t \<le> n. to_ticks (Fin x) = Inr t"
proof -
  assume x: "0 \<le> x" "x \<le> of_nat n" and n: "n < 2 ^ 64"
  have "(of_nat (n + 1) :: rat) \<le> of_nat (2 ^ 64)" using n by (simp only: of_nat_le_iff)
  then have "x + 1 / 2 < 2 ^ 64" using x(2) by simp
  with x(1) have "to_ticks (Fin x) = Inr (nat \<lfloor>x + 1 / 2\<rfloor>)" by (simp add: to_ticks_def)
  with to_ticks_le [OF this x(2)] show ?thesis by blast
qed

end
