(* ===== verification/Processing_Element.thy ===== *)
theory Processing_Element
  imports Doubles Sim_Phase
begin

text \<open>
  \<open>processing_element.cpp\<close>: the clock and instruction characterisation of a processor, the delays
  of communication inside it, its network interface and scheduler links, and its energy and power
  figures. A link to another object is its name; what another object answers (the energy its
  scheduler and tasks consumed, the last simulation time its scheduler recorded) is an argument.
\<close>

record processing_element =
  pe_name :: string
  mapped_scheduler :: "string option"
  PE_busy_sig :: bool
  clock_period_ns :: u32
  cpi :: u32
  netif_p :: "string option"
  IntraComDelay_bit :: sc_time
  MaxIntraCommDelay_bit :: sc_time
  bound_comm_res_p :: "string option"
  static_power_cons_watt :: double
  jules_per_instruction :: double
  pe_power_averaging_time :: sc_time
  peak_dyn_power_watts :: double
  instruction_time :: sc_time
  dynamic_energy_J :: double
  static_energy_J :: double
  total_energy_J :: double
  total_average_power_watts :: double
  av_power_watts :: double
  max_av_power_watts :: double

text \<open>
  \<open>peak_dyn_power_watts\<close> and \<open>instruction_time\<close> are set at the end of elaboration; before it the
  former is indeterminate: the argument of the constructor.
\<close>

definition new_processing_element :: "double \<Rightarrow> string \<Rightarrow> processing_element" where
  "new_processing_element raw_peak name =
     \<lparr>pe_name = name, mapped_scheduler = None, PE_busy_sig = False, clock_period_ns = 20, cpi = 1,
      netif_p = None, IntraComDelay_bit = 0, MaxIntraCommDelay_bit = 0, bound_comm_res_p = None,
      static_power_cons_watt = Fin 1, jules_per_instruction = Fin (5 / 10 ^ 8),
      pe_power_averaging_time = 10 ^ 12, peak_dyn_power_watts = raw_peak, instruction_time = 0,
      dynamic_energy_J = Fin 0, static_energy_J = Fin 0, total_energy_J = Fin 0,
      total_average_power_watts = Fin 0, av_power_watts = Fin 0, max_av_power_watts = Fin 0\<rparr>"

text \<open>The three setters below report with an empty message after the start of the simulation.\<close>

definition set_clock_period_ns ::
    "sim_env \<Rightarrow> u32 \<Rightarrow> processing_element \<Rightarrow> processing_element result" where
  "set_clock_period_ns e v pe =
     rbind (check (before_sim e) '''') (\<lambda>_. Inr (pe\<lparr>clock_period_ns := v\<rparr>))"

definition set_CPI :: "sim_env \<Rightarrow> u32 \<Rightarrow> processing_element \<Rightarrow> processing_element result" where
  "set_CPI e v pe = rbind (check (before_sim e) '''') (\<lambda>_. Inr (pe\<lparr>cpi := v\<rparr>))"

definition set_has_netif :: "sim_env \<Rightarrow> processing_element \<Rightarrow> processing_element result" where
  "set_has_netif e pe =
     rbind (check (before_sim e) '''') (\<lambda>_. Inr (pe\<lparr>netif_p := Some (pe_name pe @ ''_netif'')\<rparr>))"

definition set_static_power_consumption ::
    "sim_env \<Rightarrow> double \<Rightarrow> processing_element \<Rightarrow> processing_element result" where
  "set_static_power_consumption e w pe =
     rbind (check_call_before_sim_start e ''set_static_power_consumption'')
       (\<lambda>_. Inr (pe\<lparr>static_power_cons_watt := w\<rparr>))"

definition set_energy_consumption_per_instruction ::
    "sim_env \<Rightarrow> double \<Rightarrow> processing_element \<Rightarrow> processing_element result" where
  "set_energy_consumption_per_instruction e j pe =
     rbind (check_call_before_sim_start e ''set_energy_consumption_per_instruction'')
       (\<lambda>_. Inr (pe\<lparr>jules_per_instruction := j\<rparr>))"

definition has_netif :: "processing_element \<Rightarrow> bool" where
  "has_netif pe = (netif_p pe \<noteq> None)"

definition get_netif :: "processing_element \<Rightarrow> string result" where
  "get_netif pe =
     (case netif_p pe of
        None \<Rightarrow> report (''Trying to access network interface of PE '' @ pe_name pe @
                  '' throw a NULL pointer. Ensure that has_netif for such PE before accessing it.'')
      | Some n \<Rightarrow> Inr n)"

definition getIntraComP2Pdelay :: "u32 \<Rightarrow> processing_element \<Rightarrow> sc_time" where
  "getIntraComP2Pdelay message_size pe = unat message_size * IntraComDelay_bit pe"

definition getIntraComMaxP2Pdelay :: "u32 \<Rightarrow> processing_element \<Rightarrow> sc_time" where
  "getIntraComMaxP2Pdelay message_size pe = unat message_size * MaxIntraCommDelay_bit pe"

definition setIntraComP2Pdelay_per_bit :: "sc_time \<Rightarrow> processing_element \<Rightarrow> processing_element" where
  "setIntraComP2Pdelay_per_bit t pe = pe\<lparr>IntraComDelay_bit := t\<rparr>"

definition setIntraComMaxP2Pdelay_per_bit ::
    "sc_time \<Rightarrow> processing_element \<Rightarrow> processing_element" where
  "setIntraComMaxP2Pdelay_per_bit t pe = pe\<lparr>MaxIntraCommDelay_bit := t\<rparr>"

definition set_power_averaging_time ::
    "sim_env \<Rightarrow> sc_time \<Rightarrow> processing_element \<Rightarrow> processing_element result" where
  "set_power_averaging_time e t pe =
     rbind (check_call_before_sim_start e ''set_power_averaging_time'')
       (\<lambda>_. Inr (pe\<lparr>pe_power_averaging_time := t\<rparr>))"

text \<open>The product \<open>cpi*clock_period_ns\<close> is a 32 bit one.\<close>

definition calculate_instruction_values :: "processing_element \<Rightarrow> processing_element" where
  "calculate_instruction_values pe =
     (let p = of_nat (unat (cpi pe * clock_period_ns pe)) in
      pe\<lparr>instruction_time := sc_time_ns p,
         peak_dyn_power_watts := ddiv (dmul (jules_per_instruction pe) (Fin (10 ^ 9))) (Fin p)\<rparr>)"

definition map_scheduler ::
    "sim_env \<Rightarrow> string \<Rightarrow> processing_element \<Rightarrow> processing_element result" where
  "map_scheduler e s pe =
     rbind (check_call_before_sim_start e ''map_scheduler'')
       (\<lambda>_. Inr (pe\<lparr>mapped_scheduler := Some s\<rparr>))"

definition pe_get_scheduler :: "sim_env \<Rightarrow> processing_element \<Rightarrow> string option result" where
  "pe_get_scheduler e pe =
     rbind (check_call_before_sim_start e ''check_call_after_sim_start'')
       (\<lambda>_. Inr (mapped_scheduler pe))"

text \<open>The mapped branch of \<open>get_utilization\<close> has no return statement.\<close>

definition pe_get_utilization :: "sim_env \<Rightarrow> processing_element \<Rightarrow> double result" where
  "pe_get_utilization e pe =
     rbind (check_call_after_sim_start e ''get_utilization'') (\<lambda>_.
       if mapped_scheduler pe = None then Inr (Fin 0) else undef ''missing return value'')"

subsection \<open>Energy and power\<close>

definition get_consumed_dynamic_energy_J ::
    "sim_env \<Rightarrow> double \<Rightarrow> double list \<Rightarrow> processing_element \<Rightarrow> processing_element result" where
  "get_consumed_dynamic_energy_J e sched_energy task_energies pe =
     rbind (check_call_after_sim_start e ''get_consumed_dynamic_energy_J'') (\<lambda>_.
       case mapped_scheduler pe of
         None \<Rightarrow> Inr pe
       | Some _ \<Rightarrow> Inr (pe\<lparr>dynamic_energy_J := foldl dadd sched_energy task_energies\<rparr>))"

definition get_consumed_static_energy_J ::
    "sim_env \<Rightarrow> sc_time \<Rightarrow> processing_element \<Rightarrow> processing_element result" where
  "get_consumed_static_energy_J e last_simulation_time pe =
     rbind (check_call_after_sim_start e ''get_consumed_static_energy_J'') (\<lambda>_.
       if sc_status e = SC_STOPPED then
         (case mapped_scheduler pe of
            None \<Rightarrow> undef ''null scheduler''
          | Some _ \<Rightarrow> Inr (pe\<lparr>static_energy_J :=
              dmul (static_power_cons_watt pe) (Fin (to_seconds last_simulation_time))\<rparr>))
       else if sc_running e then
         (if sc_now e > 0 then
            Inr (pe\<lparr>static_energy_J :=
              dmul (static_power_cons_watt pe) (Fin (to_seconds (sc_now e)))\<rparr>)
          else Inr (pe\<lparr>static_energy_J := Fin 0\<rparr>))
       else Inr (pe\<lparr>static_energy_J := Fin 0\<rparr>))"

definition pe_get_consumed_energy_J ::
    "sim_env \<Rightarrow> sc_time \<Rightarrow> double \<Rightarrow> double list \<Rightarrow> processing_element \<Rightarrow> processing_element result" where
  "pe_get_consumed_energy_J e lst sched_energy task_energies pe =
     rbind (get_consumed_dynamic_energy_J e sched_energy task_energies pe) (\<lambda>pe1.
     rbind (get_consumed_static_energy_J e lst pe1) (\<lambda>pe2.
       Inr (pe2\<lparr>total_energy_J := dadd (dynamic_energy_J pe2) (static_energy_J pe2)\<rparr>)))"

definition power_accounter_start ::
    "sim_env \<Rightarrow> sc_time \<Rightarrow> double \<Rightarrow> double list \<Rightarrow> processing_element
       \<Rightarrow> (processing_element \<times> double) result" where
  "power_accounter_start e lst se tes pe =
     rmap (\<lambda>pe1. (pe1, total_energy_J pe1)) (pe_get_consumed_energy_J e lst se tes pe)"

text \<open>One round of \<open>power_accounter_proc\<close>; \<open>prev\<close> is its local, which the loop never updates.\<close>

definition power_accounter_round ::
    "sim_env \<Rightarrow> sc_time \<Rightarrow> double \<Rightarrow> double list \<Rightarrow> processing_element \<times> double
       \<Rightarrow> (processing_element \<times> double) result" where
  "power_accounter_round e lst se tes st =
     (case st of (pe, prev) \<Rightarrow>
       rmap (\<lambda>pe1.
         let av = ddiv (dsub (total_energy_J pe1) prev)
                    (Fin (to_seconds (pe_power_averaging_time pe1)))
         in (pe1\<lparr>av_power_watts := av,
                max_av_power_watts :=
                  (if dless (max_av_power_watts pe1) av then av else max_av_power_watts pe1)\<rparr>, prev))
         (pe_get_consumed_energy_J e lst se tes pe))"

definition get_peak_dyn_power_W :: "sim_env \<Rightarrow> processing_element \<Rightarrow> double result" where
  "get_peak_dyn_power_W e pe =
     rbind (check_call_after_sim_start e ''get_peak_dyn_power_W'')
       (\<lambda>_. Inr (peak_dyn_power_watts pe))"

definition get_total_average_power_W ::
    "sim_env \<Rightarrow> sc_time \<Rightarrow> double \<Rightarrow> double list \<Rightarrow> processing_element \<Rightarrow> processing_element result" where
  "get_total_average_power_W e lst se tes pe =
     rbind (check_call_after_sim_start e ''get_total_average_power_W'') (\<lambda>_.
       if sc_status e = SC_STOPPED then
         rmap (\<lambda>pe1. pe1\<lparr>total_average_power_watts :=
                 ddiv (total_energy_J pe1) (Fin (to_seconds lst))\<rparr>)
           (pe_get_consumed_energy_J e lst se tes pe)
       else if sc_running e then
         (if sc_now e > 0 then
            rmap (\<lambda>pe1. pe1\<lparr>total_average_power_watts :=
                    ddiv (total_energy_J pe1) (Fin (to_seconds (sc_now e)))\<rparr>)
              (pe_get_consumed_energy_J e lst se tes pe)
          else Inr (pe\<lparr>total_average_power_watts := Fin 0\<rparr>))
       else Inr (pe\<lparr>total_average_power_watts := Fin 0\<rparr>))"

definition get_curr_average_power_W :: "sim_env \<Rightarrow> processing_element \<Rightarrow> double result" where
  "get_curr_average_power_W e pe =
     rbind (check_call_after_sim_start e ''get_curr_average_power_W'')
       (\<lambda>_. Inr (av_power_watts pe))"

definition get_peak_av_power_W :: "sim_env \<Rightarrow> processing_element \<Rightarrow> double result" where
  "get_peak_av_power_W e pe =
     rbind (check_call_after_sim_start e ''get_peak_av_power_W'')
       (\<lambda>_. Inr (max_av_power_watts pe))"

text \<open>Lemmas: the energy split, and the maximum of the averaged power.\<close>

lemma pe_energy_running:
  assumes "mapped_scheduler pe = Some s" "sc_running e" "sc_status e = SC_RUNNING" "0 < sc_now e"
    and "static_power_cons_watt pe = Fin w"
  shows "\<exists>pe'. pe_get_consumed_energy_J e lst (Fin se) (map (\<lambda>t. Fin (f t)) ts) pe = Inr pe' \<and>
           total_energy_J pe' =
             Fin (se + sum_list (map f ts) + w * to_seconds (sc_now e))"
  using assms
  by (simp add: pe_get_consumed_energy_J_def get_consumed_dynamic_energy_J_def
      get_consumed_static_energy_J_def rbind_after before_sim_def foldl_dadd_Fin)

lemma dynamic_energy_frame:
  "get_consumed_dynamic_energy_J e se tes pe = Inr pe' \<Longrightarrow>
     max_av_power_watts pe' = max_av_power_watts pe"
  by (auto simp: get_consumed_dynamic_energy_J_def rbind_after split: if_splits option.splits)

lemma static_energy_frame:
  "get_consumed_static_energy_J e lst pe = Inr pe' \<Longrightarrow>
     max_av_power_watts pe' = max_av_power_watts pe"
  by (auto simp: get_consumed_static_energy_J_def rbind_after split: if_splits option.splits)

lemma energy_frame:
  assumes "pe_get_consumed_energy_J e lst se tes pe = Inr pe'"
  shows "max_av_power_watts pe' = max_av_power_watts pe"
proof -
  from assms obtain pe1 pe2 where
    "get_consumed_dynamic_energy_J e se tes pe = Inr pe1"
    "get_consumed_static_energy_J e lst pe1 = Inr pe2"
    "pe' = pe2\<lparr>total_energy_J := dadd (dynamic_energy_J pe2) (static_energy_J pe2)\<rparr>"
    unfolding pe_get_consumed_energy_J_def rbind_eq_Inr by auto
  then show ?thesis by (simp add: dynamic_energy_frame static_energy_frame)
qed

lemma power_round_max_mono:
  assumes "power_accounter_round e lst se tes (pe, prev) = Inr (pe', prev')"
  shows "prev' = prev \<and> \<not> dless (max_av_power_watts pe') (max_av_power_watts pe) \<and>
    \<not> dless (max_av_power_watts pe') (av_power_watts pe')"
proof -
  from assms obtain pe1 where one: "pe_get_consumed_energy_J e lst se tes pe = Inr pe1"
    unfolding power_accounter_round_def by (auto simp: rmap_eq_Inr)
  show ?thesis using assms dless_asym [of "max_av_power_watts pe"]
    by (auto simp: power_accounter_round_def one Let_def energy_frame [OF one] split: if_splits)
qed

end
