(* ===== verification/Sched_Types.thy ===== *)
theory Sched_Types
  imports Prelude
begin

text \<open>
  Scheduler and task states of \<open>sched_types.hpp\<close> and the operations of \<open>sched_types.cpp\<close>: the
  enumerations with their C++ order, the scheduler type (policy, sub-policies, triggering), its
  equality, its comparison (the key order of the tables of static analyses and of scheduling time
  calculators), its printed form, and the registration of user policies.
\<close>

datatype scheduler_policy_t =
  STATIC_SCHEDULING | RANDOM_SCHEDULING | PSEUDO_RANDOM_SCHEDULING | CYCLE_EXECUTIVE
| STATIC_PRIORITIES | DYNAMIC_PRIORITIES | USER_SCHEDULER_POLICY | SHORTCUT_RR | SHORTCUT_EDF
| SHORTCUT_RMS | UNKNOWN_SCHED_POLICY

datatype static_priorities_policy_t =
  USER_PRIORITIES | DEADLINE_MONOTONIC | RATE_MONOTONIC | DENSITY_MONOTONIC
| USER_AUTOMATIC_STATIC_PRIORITIES | UNKNOWN_PRIORITY_BASED_SCHED_POLICY

datatype dynamic_priorities_policy_t =
  EARLIEST_DEADLINE_FIRST | USER_DYNAMIC_PRIORITY_POLICY
| UNKNOWN_DYNAMIC_PRIORITY_BASED_SCHED_POLICY

datatype scheduler_triggering_policy_t =
  PREEMPTIVE | COOPERATIVE | NON_PREEMPTIVE | UNKNOWN_TRIGGERING_POLICY

datatype task_state_t =
  EXECUTING | WAIT_PERIOD | WAIT_COMM_SYNC | READY | INACTIVE_WAIT_PERIOD
| INACTIVE_WAIT_COMM_SYNC | FINISHED

datatype sched_state_t = SCHEDULING | INNACTIVE

text \<open>The numeric value of an enumerator, and the linear order C++ compares enumerators with.\<close>

fun policy_value :: "scheduler_policy_t \<Rightarrow> nat" where
  "policy_value STATIC_SCHEDULING = 0"
| "policy_value RANDOM_SCHEDULING = 1"
| "policy_value PSEUDO_RANDOM_SCHEDULING = 2"
| "policy_value CYCLE_EXECUTIVE = 3"
| "policy_value STATIC_PRIORITIES = 4"
| "policy_value DYNAMIC_PRIORITIES = 5"
| "policy_value USER_SCHEDULER_POLICY = 6"
| "policy_value SHORTCUT_RR = 7"
| "policy_value SHORTCUT_EDF = 8"
| "policy_value SHORTCUT_RMS = 9"
| "policy_value UNKNOWN_SCHED_POLICY = 10"

fun static_value :: "static_priorities_policy_t \<Rightarrow> nat" where
  "static_value USER_PRIORITIES = 0"
| "static_value DEADLINE_MONOTONIC = 1"
| "static_value RATE_MONOTONIC = 2"
| "static_value DENSITY_MONOTONIC = 3"
| "static_value USER_AUTOMATIC_STATIC_PRIORITIES = 4"
| "static_value UNKNOWN_PRIORITY_BASED_SCHED_POLICY = 5"

fun dynamic_value :: "dynamic_priorities_policy_t \<Rightarrow> nat" where
  "dynamic_value EARLIEST_DEADLINE_FIRST = 0"
| "dynamic_value USER_DYNAMIC_PRIORITY_POLICY = 1"
| "dynamic_value UNKNOWN_DYNAMIC_PRIORITY_BASED_SCHED_POLICY = 2"

fun triggering_value :: "scheduler_triggering_policy_t \<Rightarrow> nat" where
  "triggering_value PREEMPTIVE = 0"
| "triggering_value COOPERATIVE = 1"
| "triggering_value NON_PREEMPTIVE = 2"
| "triggering_value UNKNOWN_TRIGGERING_POLICY = 3"

lemma policy_value_inj: "policy_value a = policy_value b \<Longrightarrow> a = b"
  by (cases a; cases b) simp_all

lemma static_value_inj: "static_value a = static_value b \<Longrightarrow> a = b"
  by (cases a; cases b) simp_all

lemma dynamic_value_inj: "dynamic_value a = dynamic_value b \<Longrightarrow> a = b"
  by (cases a; cases b) simp_all

lemma triggering_value_inj: "triggering_value a = triggering_value b \<Longrightarrow> a = b"
  by (cases a; cases b) simp_all

instantiation scheduler_policy_t :: linorder
begin
definition less_eq_scheduler_policy_t :: "scheduler_policy_t \<Rightarrow> scheduler_policy_t \<Rightarrow> bool" where
  "less_eq_scheduler_policy_t a b = (policy_value a \<le> policy_value b)"
definition less_scheduler_policy_t :: "scheduler_policy_t \<Rightarrow> scheduler_policy_t \<Rightarrow> bool" where
  "less_scheduler_policy_t a b = (policy_value a < policy_value b)"
instance
  by intro_classes
    (auto simp: less_eq_scheduler_policy_t_def less_scheduler_policy_t_def policy_value_inj)
end

instantiation static_priorities_policy_t :: linorder
begin
definition less_eq_static_priorities_policy_t ::
    "static_priorities_policy_t \<Rightarrow> static_priorities_policy_t \<Rightarrow> bool" where
  "less_eq_static_priorities_policy_t a b = (static_value a \<le> static_value b)"
definition less_static_priorities_policy_t ::
    "static_priorities_policy_t \<Rightarrow> static_priorities_policy_t \<Rightarrow> bool" where
  "less_static_priorities_policy_t a b = (static_value a < static_value b)"
instance
  by intro_classes
    (auto simp: less_eq_static_priorities_policy_t_def less_static_priorities_policy_t_def
       static_value_inj)
end

instantiation dynamic_priorities_policy_t :: linorder
begin
definition less_eq_dynamic_priorities_policy_t ::
    "dynamic_priorities_policy_t \<Rightarrow> dynamic_priorities_policy_t \<Rightarrow> bool" where
  "less_eq_dynamic_priorities_policy_t a b = (dynamic_value a \<le> dynamic_value b)"
definition less_dynamic_priorities_policy_t ::
    "dynamic_priorities_policy_t \<Rightarrow> dynamic_priorities_policy_t \<Rightarrow> bool" where
  "less_dynamic_priorities_policy_t a b = (dynamic_value a < dynamic_value b)"
instance
  by intro_classes
    (auto simp: less_eq_dynamic_priorities_policy_t_def less_dynamic_priorities_policy_t_def
       dynamic_value_inj)
end

instantiation scheduler_triggering_policy_t :: linorder
begin
definition less_eq_scheduler_triggering_policy_t ::
    "scheduler_triggering_policy_t \<Rightarrow> scheduler_triggering_policy_t \<Rightarrow> bool" where
  "less_eq_scheduler_triggering_policy_t a b = (triggering_value a \<le> triggering_value b)"
definition less_scheduler_triggering_policy_t ::
    "scheduler_triggering_policy_t \<Rightarrow> scheduler_triggering_policy_t \<Rightarrow> bool" where
  "less_scheduler_triggering_policy_t a b = (triggering_value a < triggering_value b)"
instance
  by intro_classes
    (auto simp: less_eq_scheduler_triggering_policy_t_def
       less_scheduler_triggering_policy_t_def triggering_value_inj)
end

lemmas enum_less_defs =
  less_scheduler_policy_t_def less_static_priorities_policy_t_def
  less_dynamic_priorities_policy_t_def less_scheduler_triggering_policy_t_def

lemmas enum_value_injs =
  policy_value_inj static_value_inj dynamic_value_inj triggering_value_inj

subsection \<open>The scheduler type\<close>

record scheduler_t =
  scheduler_policy :: scheduler_policy_t
  static_priorities_policy :: static_priorities_policy_t
  dynamic_priorities_policy :: dynamic_priorities_policy_t
  scheduler_triggering_policy :: scheduler_triggering_policy_t

definition scheduler_t_eq :: "scheduler_t \<Rightarrow> scheduler_t \<Rightarrow> bool" where
  "scheduler_t_eq lhs rhs =
     (scheduler_policy lhs = scheduler_policy rhs \<and>
      static_priorities_policy lhs = static_priorities_policy rhs \<and>
      dynamic_priorities_policy lhs = dynamic_priorities_policy rhs \<and>
      scheduler_triggering_policy lhs = scheduler_triggering_policy rhs)"

definition scheduler_t_less :: "scheduler_t \<Rightarrow> scheduler_t \<Rightarrow> bool" where
  "scheduler_t_less lhs rhs =
     (if scheduler_triggering_policy lhs < scheduler_triggering_policy rhs then True
      else if scheduler_policy lhs < scheduler_policy rhs then True
      else (case scheduler_policy lhs of
              STATIC_PRIORITIES \<Rightarrow> static_priorities_policy lhs < static_priorities_policy rhs
            | DYNAMIC_PRIORITIES \<Rightarrow> dynamic_priorities_policy lhs < dynamic_priorities_policy rhs
            | _ \<Rightarrow> False))"

text \<open>
  The name tables are global vectors that user code extends; a value beyond its table prints as
  \<open>user\<close>.
\<close>

record policy_names =
  scheduler_policy_name :: "string list"
  static_priorities_policy_name :: "string list"
  dynamic_priorities_policy_name :: "string list"
  scheduler_triggering_policy_name :: "string list"

definition initial_policy_names :: policy_names where
  "initial_policy_names =
     \<lparr>scheduler_policy_name =
        [''static'', ''random'', ''pseudo-random'', ''cycle executive'', ''static priorities'',
         ''dynamic priorities''],
      static_priorities_policy_name =
        [''user'', ''deadline monotonic'', ''rate monotonic'', ''density monotonic''],
      dynamic_priorities_policy_name = [''EDF''],
      scheduler_triggering_policy_name = [''PREEMPTIVE'', ''COOPERATIVE'', ''NON-PREEMPTIVE'']\<rparr>"

definition name_or_user :: "nat \<Rightarrow> string list \<Rightarrow> string" where
  "name_or_user v names = (if v + 1 > length names then ''user'' else names ! v)"

definition scheduler_t_to_string :: "policy_names \<Rightarrow> scheduler_t \<Rightarrow> string" where
  "scheduler_t_to_string g s =
     ''('' @ name_or_user (policy_value (scheduler_policy s)) (scheduler_policy_name g)
     @ (if scheduler_policy s = STATIC_PRIORITIES
        then '','' @ name_or_user (static_value (static_priorities_policy s))
                      (static_priorities_policy_name g) else '''')
     @ (if scheduler_policy s = DYNAMIC_PRIORITIES
        then '','' @ name_or_user (dynamic_value (dynamic_priorities_policy s))
                      (dynamic_priorities_policy_name g) else '''')
     @ '','' @ name_or_user (triggering_value (scheduler_triggering_policy s))
                (scheduler_triggering_policy_name g) @ '')''"

definition add_scheduler_policy :: "string \<Rightarrow> policy_names \<Rightarrow> nat \<times> policy_names" where
  "add_scheduler_policy n g =
     (let l = scheduler_policy_name g @ [n] in (length l - 1, g\<lparr>scheduler_policy_name := l\<rparr>))"

definition add_static_scheduler_policy :: "string \<Rightarrow> policy_names \<Rightarrow> nat \<times> policy_names" where
  "add_static_scheduler_policy n g =
     (let l = static_priorities_policy_name g @ [n]
      in (length l - 1, g\<lparr>static_priorities_policy_name := l\<rparr>))"

definition add_dynamic_scheduler_policy :: "string \<Rightarrow> policy_names \<Rightarrow> nat \<times> policy_names" where
  "add_dynamic_scheduler_policy n g =
     (let l = dynamic_priorities_policy_name g @ [n]
      in (length l - 1, g\<lparr>dynamic_priorities_policy_name := l\<rparr>))"

lemma scheduler_t_eq_iff [simp]: "scheduler_t_eq a b \<longleftrightarrow> a = (b :: scheduler_t)"
  by (cases a; cases b) (auto simp: scheduler_t_eq_def)

lemma scheduler_t_less_irrefl: "\<not> scheduler_t_less a a"
  by (auto simp: scheduler_t_less_def split: scheduler_policy_t.splits)

lemma name_or_user_appended [simp]: "name_or_user (length l) (l @ [n]) = n"
  by (simp add: name_or_user_def)

lemma name_or_user_old: "v < length l \<Longrightarrow> name_or_user v (l @ [n]) = name_or_user v l"
  by (simp add: name_or_user_def nth_append)

text \<open>
  Comparing two scheduler types that differ in the triggering policy one way and in the policy the
  other way: the comparison holds in both directions.
\<close>

lemma scheduler_t_less_both:
  assumes "scheduler_triggering_policy a < scheduler_triggering_policy b"
    and "scheduler_policy b < scheduler_policy a"
  shows "scheduler_t_less a b \<and> scheduler_t_less b a"
  using assms by (simp add: scheduler_t_less_def)

text \<open>
  On scheduler types with one triggering policy and one policy, the comparison is a strict order,
  whose incomparable elements are those with the same relevant sub-policy.
\<close>

definition same_class :: "scheduler_t \<Rightarrow> scheduler_t \<Rightarrow> bool" where
  "same_class a b \<longleftrightarrow> scheduler_triggering_policy a = scheduler_triggering_policy b \<and>
     scheduler_policy a = scheduler_policy b"

lemma scheduler_t_less_asym_same_class:
  "same_class a b \<Longrightarrow> scheduler_t_less a b \<Longrightarrow> \<not> scheduler_t_less b a"
  by (auto simp: scheduler_t_less_def same_class_def split: scheduler_policy_t.splits)

lemma scheduler_t_less_trans_same_class:
  "same_class a b \<Longrightarrow> same_class b c \<Longrightarrow> scheduler_t_less a b \<Longrightarrow> scheduler_t_less b c
     \<Longrightarrow> scheduler_t_less a c"
  by (auto simp: scheduler_t_less_def same_class_def split: scheduler_policy_t.splits)

end
