(* ===== verification/Task_Info.thy ===== *)
theory Task_Info
  imports Processing_Element Sched_Types
begin

text \<open>
  \<open>task_info_t.cpp\<close> without its state machine (theory \<open>Task_FSM\<close>): construction and registration of
  a task, the attributes the modeller sets, the static figures, the accounting of occupation time,
  energy and response times, and the comparators the schedulers sort tasks with.

  \<open>task_info_t\<close> is a task object. A signal field is the value readers see; a write made by a
  process is its value after the update phase of the same delta cycle. A pointer to another object
  is its name. Members no constructor sets are taken from \<open>raw\<close>, the storage of the object.
\<close>

datatype task_role_t = SYSTEM_TASK | ENV_TASK

datatype app_visibility_t = UNSET_APP_VISIBILITY | SET_IMPLICIT_APPS | SET_EXPLICIT_APPS

record task_info_t =
  task_name :: string
  kista_id :: nat
  task_role :: task_role_t
  app_p :: "string option"
  sched_p :: "string option"
  WCET :: sc_time
  WCEI :: u64
  Period :: sc_time
  Deadline :: sc_time
  WCET_set :: bool
  WCEI_set :: bool
  is_periodic_flag :: bool
  priority :: u32
  state_signal :: task_state_t
  consumption_signal :: bool
  waiting_period_signal :: bool
  waiting_comm_sync_signal :: bool
  active_signal :: bool
  finished_flag :: bool
  miss_deadline_flag :: bool
  left_consume_time :: sc_time
  current_absolute_deadline :: sc_time
  occupation_time :: sc_time
  occupation_interval_start_time :: sc_time
  prev_inc_state :: task_state_t
  task_consumed_energy_J :: double
  max_response_time_var :: sc_time
  location_of_max_response_time_var :: sc_time
  last_release_time :: sc_time
  awaits_release :: bool

text \<open>
  The last two fields are the local and the control point of \<open>account_response_times_proc\<close>.

  The global tables a task registers in: \<open>applications\<close> maps an application to the names of its
  tasks, \<open>task_vector\<close> lists the system tasks by identifier.
\<close>

record kista_globals =
  app_visibility :: app_visibility_t
  applications_by_name :: "string \<rightharpoonup> string list"
  n_applications :: nat
  task_vector :: "string list"

definition initial_globals :: kista_globals where
  "initial_globals =
     \<lparr>app_visibility = UNSET_APP_VISIBILITY, applications_by_name = Map.empty,
      n_applications = 0, task_vector = []\<rparr>"

definition new_application :: "string \<Rightarrow> kista_globals \<Rightarrow> kista_globals" where
  "new_application n g =
     g\<lparr>n_applications := (if applications_by_name g n = None then Suc (n_applications g)
                          else n_applications g),
       applications_by_name := (applications_by_name g)(n \<mapsto> [])\<rparr>"

subsection \<open>Construction\<close>

definition construct_members :: "task_info_t \<Rightarrow> string \<Rightarrow> task_info_t" where
  "construct_members raw name =
     raw\<lparr>task_name := name, WCET := 0, Period := 0, Deadline := 0, consumption_signal := False,
         waiting_period_signal := False, waiting_comm_sync_signal := False, active_signal := False,
         left_consume_time := 0, current_absolute_deadline := 0, occupation_time := 0,
         occupation_interval_start_time := 0, max_response_time_var := 0,
         location_of_max_response_time_var := 0\<rparr>"

definition task_init ::
    "task_role_t \<Rightarrow> task_info_t \<Rightarrow> kista_globals \<Rightarrow> task_info_t \<times> kista_globals" where
  "task_init role_par t g =
     (if role_par = SYSTEM_TASK then
        (t\<lparr>task_role := role_par, priority := 255, consumption_signal := False,
           waiting_period_signal := False, waiting_comm_sync_signal := False,
           state_signal := READY, occupation_time := 0, occupation_interval_start_time := 0,
           task_consumed_energy_J := Fin 0, Deadline := 0, Period := 0, is_periodic_flag := False,
           miss_deadline_flag := False, active_signal := False, finished_flag := False,
           WCET_set := False, WCEI_set := False, kista_id := length (task_vector g)\<rparr>,
         g\<lparr>task_vector := task_vector g @ [task_name t]\<rparr>)
      else (t\<lparr>task_role := role_par\<rparr>, g))"

definition new_task_info ::
    "task_info_t \<Rightarrow> string \<Rightarrow> task_role_t \<Rightarrow> kista_globals \<Rightarrow> (task_info_t \<times> kista_globals) result" where
  "new_task_info raw name role_par g =
     rbind (if role_par = SYSTEM_TASK then
              (case app_visibility g of
                 UNSET_APP_VISIBILITY \<Rightarrow> Inr (g\<lparr>app_visibility := SET_IMPLICIT_APPS\<rparr>)
               | SET_IMPLICIT_APPS \<Rightarrow> Inr g
               | SET_EXPLICIT_APPS \<Rightarrow> report (''While creating task '' @ name))
            else Inr g) (\<lambda>g1.
       Inr (task_init role_par ((construct_members raw name)\<lparr>app_p := None\<rparr>) g1))"

definition new_task_info_of_app ::
    "task_info_t \<Rightarrow> string \<Rightarrow> string \<Rightarrow> task_role_t \<Rightarrow> kista_globals
       \<Rightarrow> (task_info_t \<times> kista_globals) result" where
  "new_task_info_of_app raw name app_name role_par g =
     rbind (if role_par = SYSTEM_TASK then
              (case app_visibility g of
                 UNSET_APP_VISIBILITY \<Rightarrow> Inr (g\<lparr>app_visibility := SET_EXPLICIT_APPS\<rparr>)
               | SET_IMPLICIT_APPS \<Rightarrow> report (''While creating task '' @ name)
               | SET_EXPLICIT_APPS \<Rightarrow> Inr g)
            else Inr g) (\<lambda>g1.
       if n_applications g1 = 0 then
         report (''While creating task '' @ name @ ''. The aplication list is empty.'')
       else
         (case applications_by_name g1 app_name of
            None \<Rightarrow> report (''While creating task '' @ name @ ''. Application'' @ app_name @
                       '' not found in the application list.'')
          | Some ts \<Rightarrow>
              Inr (task_init role_par ((construct_members raw name)\<lparr>app_p := Some app_name\<rparr>)
                (g1\<lparr>applications_by_name := (applications_by_name g1)(app_name \<mapsto>
                     (if name \<in> set ts then ts else ts @ [name]))\<rparr>))))"

definition is_system_task :: "task_info_t \<Rightarrow> bool" where
  "is_system_task t = (task_role t = SYSTEM_TASK)"

definition is_env_task :: "task_info_t \<Rightarrow> bool" where
  "is_env_task t = (task_role t = ENV_TASK)"

subsection \<open>Attributes\<close>

definition check_before_simulation :: "sim_env \<Rightarrow> string \<Rightarrow> task_info_t \<Rightarrow> unit result" where
  "check_before_simulation e call_name t =
     check (sc_status e \<notin> {SC_START_OF_SIMULATION, SC_RUNNING, SC_STOPPED, SC_PAUSED,
                              SC_END_OF_SIMULATION})
       (''Call to '' @ call_name @ '' for task '' @ task_name t @
        '' has to be done before the simulation start.'')"

definition set_WCET :: "sim_env \<Rightarrow> sc_time \<Rightarrow> task_info_t \<Rightarrow> task_info_t result" where
  "set_WCET e x t =
     rbind (check_before_simulation e ''set_WCET'' t) (\<lambda>_. Inr (t\<lparr>WCET := x, WCET_set := True\<rparr>))"

definition set_WCEI :: "sim_env \<Rightarrow> u64 \<Rightarrow> task_info_t \<Rightarrow> task_info_t result" where
  "set_WCEI e x t =
     rbind (check_before_simulation e ''set_WCEI'' t) (\<lambda>_. Inr (t\<lparr>WCEI := x, WCEI_set := True\<rparr>))"

definition set_Period :: "sim_env \<Rightarrow> sc_time \<Rightarrow> task_info_t \<Rightarrow> task_info_t result" where
  "set_Period e x t =
     rbind (check_before_simulation e ''set_Period'' t) (\<lambda>_.
     rbind (check (x \<noteq> 0) '' to 0.'') (\<lambda>_.
       let t1 = t\<lparr>Period := x, is_periodic_flag := True\<rparr> in
       Inr (if Deadline t1 = 0 then t1\<lparr>Deadline := Period t1\<rparr> else t1)))"

text \<open>A zero deadline and one beyond the period only raise warnings.\<close>

definition set_Deadline :: "sim_env \<Rightarrow> sc_time \<Rightarrow> task_info_t \<Rightarrow> task_info_t result" where
  "set_Deadline e x t =
     rbind (check_before_simulation e ''set_Deadline'' t) (\<lambda>_. Inr (t\<lparr>Deadline := x\<rparr>))"

definition set_priority :: "sim_env \<Rightarrow> u32 \<Rightarrow> task_info_t \<Rightarrow> task_info_t result" where
  "set_priority e pr t =
     rbind (check_before_simulation e ''set_priority'' t) (\<lambda>_.
     rbind (check (pr \<noteq> 0) '' user priority cannot be 0 (value reserved).'') (\<lambda>_.
       Inr (t\<lparr>priority := pr\<rparr>)))"

definition is_periodic :: "task_info_t \<Rightarrow> bool" where
  "is_periodic t = is_periodic_flag t"

definition deadline_settled :: "task_info_t \<Rightarrow> bool" where
  "deadline_settled t = (Deadline t > 0)"

definition utilization :: "task_info_t \<Rightarrow> double result" where
  "utilization t =
     (if is_periodic t then Inr (sc_ratio (WCET t) (Period t))
      else report (''No period has been settled for task '' @ task_name t @
             ''. Therefore, utilization cannot be statically calculated.''))"

definition density :: "task_info_t \<Rightarrow> double result" where
  "density t =
     (if deadline_settled t then Inr (sc_ratio (WCET t) (Deadline t))
      else report (''No deadline has been settled for task '' @ task_name t @
             ''. Therefore, density cannot be statically calculated.''))"

definition miss_deadline :: "task_info_t \<Rightarrow> bool" where
  "miss_deadline t = miss_deadline_flag t"

text \<open>\<open>WCEI*CPI*clock_period_ns\<close> is a 64 bit product.\<close>

definition task_end_of_elaboration :: "processing_element \<Rightarrow> task_info_t \<Rightarrow> task_info_t" where
  "task_end_of_elaboration pe t =
     (if is_system_task t then
        (let t1 = (if \<not> WCET_set t \<and> WCEI_set t
                   then t\<lparr>WCET := sc_time_ns (of_nat (unat
                          (WCEI t * ucast (cpi pe) * ucast (clock_period_ns pe))))\<rparr>
                   else t)
         in if is_periodic_flag t1 then
              (if Deadline t1 = 0 then t1\<lparr>current_absolute_deadline := Period t1\<rparr>
               else t1\<lparr>current_absolute_deadline := Deadline t1\<rparr>)
            else t1)
      else t)"

text \<open>
  \<open>ceil(now/Period)*Period - now\<close>: with a zero period the ceiling is that of a non-finite double and
  its conversion to a time is not defined.
\<close>

definition get_time_to_next_deadline :: "sc_time \<Rightarrow> task_info_t \<Rightarrow> sc_time result" where
  "get_time_to_next_deadline now t =
     (if Period t = 0 then undef ''time from a non-finite double''
      else Inr (sc_minus (ceil_div now (Period t) * Period t) now))"

text \<open>
  \<open>gen_release_event\<close> of a periodic task waits for a period and notifies, for ever: the times of its
  first \<open>n\<close> notifications when it starts at \<open>now\<close>.
\<close>

fun gen_release_event :: "sc_time \<Rightarrow> nat \<Rightarrow> task_info_t \<Rightarrow> sc_time list" where
  "gen_release_event now 0 t = []"
| "gen_release_event now (Suc n) t =
     (if is_periodic_flag t
      then (now + Period t) # gen_release_event (now + Period t) n t else [])"

subsection \<open>Occupation time and energy\<close>

definition update_energy ::
    "sim_env \<Rightarrow> processing_element option \<Rightarrow> task_info_t \<Rightarrow> task_info_t result" where
  "update_energy e PE t =
     (case PE of
        None \<Rightarrow> undef ''null processing element''
      | Some pe \<Rightarrow> rmap (\<lambda>p. t\<lparr>task_consumed_energy_J :=
                              dmul (Fin (to_seconds (occupation_time t))) p\<rparr>)
                    (get_peak_dyn_power_W e pe))"

definition account_occupation_time_proc ::
    "sim_env \<Rightarrow> processing_element option \<Rightarrow> task_info_t \<Rightarrow> task_info_t result" where
  "account_occupation_time_proc e PE t =
     (if state_signal t = EXECUTING then
        Inr (t\<lparr>occupation_interval_start_time := sc_now e, prev_inc_state := EXECUTING\<rparr>)
      else
        rmap (\<lambda>t1. t1\<lparr>prev_inc_state := state_signal t1\<rparr>)
          (if prev_inc_state t = EXECUTING then
             update_energy e PE (t\<lparr>occupation_time := occupation_time t +
                sc_minus (sc_now e) (occupation_interval_start_time t)\<rparr>)
           else Inr t))"

definition task_end_of_simulation ::
    "sim_env \<Rightarrow> sched_state_t \<Rightarrow> processing_element option \<Rightarrow> task_info_t \<Rightarrow> task_info_t result" where
  "task_end_of_simulation e sched_state PE t =
     (if (state_signal t = EXECUTING \<and> prev_inc_state t = EXECUTING \<and> sched_state = INNACTIVE)
         \<or> (state_signal t = READY \<and> prev_inc_state t = EXECUTING \<and> sched_state = SCHEDULING)
      then update_energy e PE (t\<lparr>occupation_time := occupation_time t +
             sc_minus (sc_now e) (occupation_interval_start_time t)\<rparr>)
      else Inr t)"

definition get_consumed_energy_J :: "sim_env \<Rightarrow> task_info_t \<Rightarrow> double result" where
  "get_consumed_energy_J e t =
     rbind (check_call_after_sim_start e ''get_consumed_energy_J'')
       (\<lambda>_. Inr (task_consumed_energy_J t))"

subsection \<open>Response times\<close>

datatype response_event = End_Response | Task_Release

text \<open>
  \<open>account_response_times_proc\<close> waits in turn for the end of a response and for the next release; an
  event it is not waiting for is lost.
\<close>

definition account_response_start :: "sc_time \<Rightarrow> task_info_t \<Rightarrow> task_info_t" where
  "account_response_start now t =
     t\<lparr>max_response_time_var := 0, last_release_time := now, awaits_release := False\<rparr>"

definition account_response_step ::
    "sc_time \<times> response_event \<Rightarrow> task_info_t \<Rightarrow> task_info_t" where
  "account_response_step ev t =
     (case ev of
        (now, End_Response) \<Rightarrow>
          (if awaits_release t then t
           else
             (let current = sc_minus now (last_release_time t);
                  t1 = (if current > max_response_time_var t
                        then t\<lparr>max_response_time_var := current,
                               location_of_max_response_time_var := last_release_time t\<rparr>
                        else t)
              in t1\<lparr>awaits_release := True\<rparr>))
      | (now, Task_Release) \<Rightarrow>
          (if awaits_release t then t\<lparr>last_release_time := now, awaits_release := False\<rparr> else t))"

definition max_response_time :: "sim_env \<Rightarrow> task_info_t \<Rightarrow> sc_time result" where
  "max_response_time e t =
     (if \<not> is_periodic t
      then report (''Reading worst case response time is supported for periodic tasks.'' @
             task_name t @ '' is not periodic. Check its declaration.'')
      else if sc_status e = SC_STOPPED then Inr (max_response_time_var t)
      else if sc_running e then Inr (max_response_time_var t)
      else Inr 0)"

definition worst_case_response_time :: "sim_env \<Rightarrow> task_info_t \<Rightarrow> sc_time result" where
  "worst_case_response_time e t = max_response_time e t"

definition location_of_worst_case_response_time :: "sim_env \<Rightarrow> task_info_t \<Rightarrow> sc_time result" where
  "location_of_worst_case_response_time e t =
     (if \<not> is_periodic t
      then report (''Reading location of worst case response time is supported for periodic tasks.''
             @ task_name t @ '' is not periodic. Check its declaration.'')
      else if sc_status e = SC_STOPPED then Inr (location_of_max_response_time_var t)
      else if sc_running e then Inr (location_of_max_response_time_var t)
      else report (''Reading location of worst case response time of task '' @ task_name t @
             '' before simulation start. 0 time will be reported''))"

definition avg_response_time :: "task_info_t \<Rightarrow> sc_time result" where
  "avg_response_time t = report ''Avg. response times not implemented yet''"

definition std_dev_response_time :: "task_info_t \<Rightarrow> sc_time result" where
  "std_dev_response_time t = report ''std_dev_response_time not implemented yet''"

subsection \<open>Comparators\<close>

definition less_than_by_user_priority :: "task_info_t \<Rightarrow> task_info_t \<Rightarrow> bool" where
  "less_than_by_user_priority t1 t2 = (priority t1 < priority t2)"

definition less_than_by_period :: "task_info_t \<Rightarrow> task_info_t \<Rightarrow> bool" where
  "less_than_by_period t1 t2 = (Period t1 < Period t2)"

definition less_than_by_deadline :: "task_info_t \<Rightarrow> task_info_t \<Rightarrow> bool" where
  "less_than_by_deadline t1 t2 = (Deadline t1 < Deadline t2)"

definition less_than_by_density :: "task_info_t \<Rightarrow> task_info_t \<Rightarrow> bool result" where
  "less_than_by_density t1 t2 =
     rbind (density t1) (\<lambda>d1. rbind (density t2) (\<lambda>d2. Inr (dless d2 d1)))"

subsection \<open>Lemmas\<close>

lemma rbind_before_simulation:
  "rbind (check_before_simulation e n t) f =
     (if before_sim e then f ()
      else report (''Call to '' @ n @ '' for task '' @ task_name t @
             '' has to be done before the simulation start.''))"
  by (cases "sc_status e") (simp_all add: check_before_simulation_def before_sim_def rbind_check)

lemmas task_setter_defs =
  set_WCET_def set_WCEI_def set_Period_def set_Deadline_def set_priority_def

lemma task_setters_before:
  "set_WCET e x t = Inr t' \<Longrightarrow> before_sim e"
  "set_WCEI e y t = Inr t' \<Longrightarrow> before_sim e"
  "set_Period e x t = Inr t' \<Longrightarrow> before_sim e"
  "set_Deadline e x t = Inr t' \<Longrightarrow> before_sim e"
  "set_priority e pr t = Inr t' \<Longrightarrow> before_sim e"
  by (simp_all add: task_setter_defs rbind_before_simulation split: if_splits)

lemma set_Period_ok:
  "before_sim e \<Longrightarrow> 0 < p \<Longrightarrow> set_Period e p t =
     Inr (t\<lparr>Period := p, is_periodic_flag := True,
            Deadline := (if Deadline t = 0 then p else Deadline t)\<rparr>)"
  by (simp add: set_Period_def rbind_before_simulation Let_def)

lemma set_Deadline_ok: "before_sim e \<Longrightarrow> set_Deadline e d t = Inr (t\<lparr>Deadline := d\<rparr>)"
  by (simp add: set_Deadline_def rbind_before_simulation)

text \<open>
  The well-formedness of a task under elaboration: a periodic task has a positive period, its
  priority is not the reserved zero. Every setter keeps it, and construction establishes it.
\<close>

definition task_wf :: "task_info_t \<Rightarrow> bool" where
  "task_wf t \<longleftrightarrow> (is_periodic_flag t \<longrightarrow> 0 < Period t) \<and> priority t \<noteq> 0"

lemma task_init_wf: "task_wf (fst (task_init SYSTEM_TASK t g))"
  by (simp add: task_init_def task_wf_def)

lemma set_WCET_wf: "set_WCET e x t = Inr t' \<Longrightarrow> task_wf t \<Longrightarrow> task_wf t'"
  by (auto simp: set_WCET_def rbind_before_simulation task_wf_def split: if_splits)

lemma set_WCEI_wf: "set_WCEI e x t = Inr t' \<Longrightarrow> task_wf t \<Longrightarrow> task_wf t'"
  by (auto simp: set_WCEI_def rbind_before_simulation task_wf_def split: if_splits)

lemma set_Period_wf: "set_Period e x t = Inr t' \<Longrightarrow> task_wf t \<Longrightarrow> task_wf t'"
  by (auto simp: set_Period_def rbind_before_simulation rbind_check task_wf_def Let_def
      split: if_splits)

lemma set_Deadline_wf: "set_Deadline e x t = Inr t' \<Longrightarrow> task_wf t \<Longrightarrow> task_wf t'"
  by (auto simp: set_Deadline_def rbind_before_simulation task_wf_def split: if_splits)

lemma set_priority_wf: "set_priority e pr t = Inr t' \<Longrightarrow> task_wf t \<Longrightarrow> task_wf t'"
  by (auto simp: set_priority_def rbind_before_simulation rbind_check task_wf_def
      split: if_splits)

lemma task_end_of_elaboration_wf: "task_wf t \<Longrightarrow> task_wf (task_end_of_elaboration pe t)"
  by (simp add: task_end_of_elaboration_def task_wf_def Let_def)

lemmas task_wf_intros =
  task_init_wf set_WCET_wf set_WCEI_wf set_Period_wf set_Deadline_wf set_priority_wf
  task_end_of_elaboration_wf

text \<open>The time to the next deadline: below the period, and landing on a multiple of it.\<close>

lemma time_to_next_deadline_value:
  "0 < Period t \<Longrightarrow> get_time_to_next_deadline now t =
     Inr (ceil_div now (Period t) * Period t - now)"
  using ceil_div_ge by (simp add: get_time_to_next_deadline_def)

lemma time_to_next_deadline_bounds:
  assumes "0 < Period t"
  shows "\<exists>d. get_time_to_next_deadline now t = Inr d \<and> d < Period t \<and> Period t dvd now + d"
proof -
  let ?d = "ceil_div now (Period t) * Period t - now"
  have "now + ?d = ceil_div now (Period t) * Period t" using ceil_div_ge [OF assms] by simp
  then have "Period t dvd now + ?d" by simp
  moreover have "?d < Period t" using ceil_div_less [OF assms, of now] assms by linarith
  ultimately show ?thesis using time_to_next_deadline_value [OF assms] by blast
qed

text \<open>The comparators, on tasks whose keys are defined.\<close>

lemma density_ok: "0 < Deadline t \<Longrightarrow> density t = Inr (Fin (of_nat (WCET t) / of_nat (Deadline t)))"
  by (simp add: density_def deadline_settled_def)

lemma less_than_by_density_eq:
  assumes "0 < Deadline t1" "0 < Deadline t2"
  shows "less_than_by_density t1 t2 = Inr (WCET t2 * Deadline t1 < WCET t1 * Deadline t2)"
  using sc_ratio_less [OF assms(2,1)] assms
  by (simp add: less_than_by_density_def density_def deadline_settled_def del: sc_ratio_Fin)

subsubsection \<open>Occupation over an execution\<close>

text \<open>
  \<open>account_occupation_time_proc\<close> runs at every change of the state signal. A trace lists the instants
  of the changes with the new state; \<open>executing_time\<close> is what the trace says of the time spent
  executing.
\<close>

fun occupation_run ::
    "sim_env \<Rightarrow> processing_element option \<Rightarrow> (sc_time \<times> task_state_t) list \<Rightarrow> task_info_t
       \<Rightarrow> task_info_t result" where
  "occupation_run e PE [] t = Inr t"
| "occupation_run e PE ((now, s) # tr) t =
     rbind (account_occupation_time_proc (e\<lparr>sc_now := now\<rparr>) PE (t\<lparr>state_signal := s\<rparr>))
       (occupation_run e PE tr)"

fun executing_time :: "(sc_time \<times> task_state_t) list \<Rightarrow> sc_time" where
  "executing_time ((a, s) # (b, s') # tr) =
     (if s = EXECUTING then b - a else 0) + executing_time ((b, s') # tr)"
| "executing_time _ = 0"

lemma account_to_executing:
  "account_occupation_time_proc e PE (t\<lparr>state_signal := EXECUTING\<rparr>) =
     Inr (t\<lparr>state_signal := EXECUTING, occupation_interval_start_time := sc_now e,
            prev_inc_state := EXECUTING\<rparr>)"
  by (simp add: account_occupation_time_proc_def)

lemma account_idle:
  "s \<noteq> EXECUTING \<Longrightarrow> prev_inc_state t \<noteq> EXECUTING \<Longrightarrow>
     account_occupation_time_proc e PE (t\<lparr>state_signal := s\<rparr>) =
       Inr (t\<lparr>state_signal := s, prev_inc_state := s\<rparr>)"
  by (simp add: account_occupation_time_proc_def)

lemma account_from_executing:
  "s \<noteq> EXECUTING \<Longrightarrow> prev_inc_state t = EXECUTING \<Longrightarrow> \<not> before_sim e \<Longrightarrow>
   occupation_interval_start_time t \<le> sc_now e \<Longrightarrow>
     account_occupation_time_proc e (Some pe) (t\<lparr>state_signal := s\<rparr>) =
       Inr (t\<lparr>state_signal := s,
              occupation_time := occupation_time t + (sc_now e - occupation_interval_start_time t),
              task_consumed_energy_J :=
                dmul (Fin (to_seconds (occupation_time t +
                       (sc_now e - occupation_interval_start_time t)))) (peak_dyn_power_watts pe),
              prev_inc_state := s\<rparr>)"
  by (simp add: account_occupation_time_proc_def update_energy_def get_peak_dyn_power_W_def
      rbind_after)

text \<open>
  With the last change at \<open>(a, s)\<close> accounted for, the rest of the trace adds the executing time from
  there on.
\<close>

lemma occupation_run_from:
  assumes "\<not> before_sim e" "sorted (map fst ((a, s) # tr))" "distinct_adj (map snd ((a, s) # tr))"
    and "prev_inc_state t = s" "s = EXECUTING \<Longrightarrow> occupation_interval_start_time t = a"
  shows "\<exists>t'. occupation_run e (Some pe) tr t = Inr t' \<and>
           occupation_time t' = occupation_time t + executing_time ((a, s) # tr) \<and>
           prev_inc_state t' = snd (last ((a, s) # tr)) \<and>
           (snd (last ((a, s) # tr)) = EXECUTING \<longrightarrow>
              occupation_interval_start_time t' = fst (last ((a, s) # tr))) \<and>
           state_signal t' = (if tr = [] then state_signal t else snd (last tr))"
  using assms(2-)
proof (induction tr arbitrary: a s t)
  case Nil
  then show ?case by simp
next
  case (Cons x tr)
  obtain b s' where x: "x = (b, s')" by fastforce
  let ?e = "e\<lparr>sc_now := b\<rparr>"
  have run: "\<not> before_sim ?e" using assms(1) by (simp add: before_sim_def)
  have ab: "a \<le> b" and srt: "sorted (map fst ((b, s') # tr))"
    and adj: "distinct_adj (map snd ((b, s') # tr))" and ne: "s \<noteq> s'"
    using Cons.prems x by auto
  have "\<exists>t1. account_occupation_time_proc ?e (Some pe) (t\<lparr>state_signal := s'\<rparr>) = Inr t1 \<and>
    occupation_time t1 = occupation_time t + (if s = EXECUTING then b - a else 0) \<and>
    prev_inc_state t1 = s' \<and> (s' = EXECUTING \<longrightarrow> occupation_interval_start_time t1 = b) \<and>
    state_signal t1 = s'"
  proof (cases "s' = EXECUTING")
    case True
    with ne account_to_executing [of ?e "Some pe" t] show ?thesis by auto
  next
    case False
    show ?thesis
    proof (cases "s = EXECUTING")
      case True
      with False Cons.prems ab run account_from_executing [of s' t ?e pe] show ?thesis by auto
    next
      case ns: False
      with False Cons.prems account_idle [of s' t ?e "Some pe"] show ?thesis by auto
    qed
  qed
  then obtain t1 where t1:
    "account_occupation_time_proc ?e (Some pe) (t\<lparr>state_signal := s'\<rparr>) = Inr t1"
    "occupation_time t1 = occupation_time t + (if s = EXECUTING then b - a else 0)"
    "prev_inc_state t1 = s'" "s' = EXECUTING \<Longrightarrow> occupation_interval_start_time t1 = b"
    "state_signal t1 = s'" by blast
  obtain t' where t': "occupation_run e (Some pe) tr t1 = Inr t'"
    "occupation_time t' = occupation_time t1 + executing_time ((b, s') # tr)"
    "prev_inc_state t' = snd (last ((b, s') # tr))"
    "snd (last ((b, s') # tr)) = EXECUTING \<longrightarrow>
       occupation_interval_start_time t' = fst (last ((b, s') # tr))"
    "state_signal t' = (if tr = [] then state_signal t1 else snd (last tr))"
    using Cons.IH [OF srt adj t1(3,4)] by blast
  have run_eq: "occupation_run e (Some pe) (x # tr) t = Inr t'"
    using t1(1) t'(1) by (simp add: x)
  have time_eq: "occupation_time t' = occupation_time t + executing_time ((a, s) # x # tr)"
    using t'(2) t1(2) by (simp add: x)
  have last_eq: "last ((a, s) # x # tr) = last ((b, s') # tr)" by (simp add: x)
  have state_eq: "state_signal t' = snd (last (x # tr))"
    using t'(5) t1(5) by (simp add: x)
  show ?case
    unfolding last_eq
  proof (intro exI [of _ t'] conjI)
    show "state_signal t' = (if x # tr = [] then state_signal t else snd (last (x # tr)))"
      by (simp only: state_eq list.distinct if_False)
  qed (fact run_eq time_eq t'(3) t'(4))+
qed

subsubsection \<open>Responses over an execution\<close>

text \<open>
  The responses an event trace contains, as pairs of release and end: after a release the first end
  is the one that counts.
\<close>

fun responses :: "bool \<Rightarrow> sc_time \<Rightarrow> (sc_time \<times> response_event) list \<Rightarrow> (sc_time \<times> sc_time) list" where
  "responses awaiting r [] = []"
| "responses False r ((now, End_Response) # evs) = (r, now) # responses True r evs"
| "responses False r ((now, Task_Release) # evs) = responses False r evs"
| "responses True r ((now, End_Response) # evs) = responses True r evs"
| "responses True r ((now, Task_Release) # evs) = responses False now evs"

definition response_lengths :: "(sc_time \<times> sc_time) list \<Rightarrow> sc_time list" where
  "response_lengths rs = map (\<lambda>(r, x). x - r) rs"

lemma response_end_lost [simp]:
  "awaits_release t \<Longrightarrow> account_response_step (now, End_Response) t = t"
  by (simp add: account_response_step_def)

lemma response_release [simp]:
  "awaits_release t \<Longrightarrow> account_response_step (now, Task_Release) t =
     t\<lparr>last_release_time := now, awaits_release := False\<rparr>"
  by (simp add: account_response_step_def)

lemma response_release_lost [simp]:
  "\<not> awaits_release t \<Longrightarrow> account_response_step (now, Task_Release) t = t"
  by (simp add: account_response_step_def)

lemma response_end_fields:
  assumes "\<not> awaits_release t" "last_release_time t \<le> now"
  defines "t' \<equiv> account_response_step (now, End_Response) t"
  shows "max_response_time_var t' = max (now - last_release_time t) (max_response_time_var t)"
    "awaits_release t'" "last_release_time t' = last_release_time t"
  using assms by (auto simp: account_response_step_def Let_def)

lemma fold_response_fold_max:
  assumes "sorted (map fst evs)" "\<forall>ev \<in> set evs. last_release_time t \<le> fst ev"
  shows "max_response_time_var (fold account_response_step evs t) =
           fold max (response_lengths (responses (awaits_release t) (last_release_time t) evs))
             (max_response_time_var t)"
  using assms
proof (induction evs arbitrary: t)
  case Nil
  then show ?case by (simp add: response_lengths_def)
next
  case (Cons ev evs)
  obtain now k where ev: "ev = (now, k)" by fastforce
  have le: "last_release_time t \<le> now" using Cons.prems ev by simp
  show ?case
  proof (cases k)
    case End_Response
    show ?thesis
    proof (cases "awaits_release t")
      case True
      with Cons.IH [of t] Cons.prems End_Response ev show ?thesis by simp
    next
      case False
      note fields = response_end_fields [OF False le]
      with Cons.IH [of "account_response_step (now, End_Response) t"] Cons.prems End_Response ev False
      show ?thesis by (simp add: response_lengths_def)
    qed
  next
    case Task_Release
    with Cons ev show ?thesis
      by (cases "awaits_release t") simp_all
  qed
qed

lemma fold_response_max:
  assumes "sorted (map fst evs)" "\<forall>ev \<in> set evs. last_release_time t \<le> fst ev"
  shows "max_response_time_var (fold account_response_step evs t) =
           Max (set (max_response_time_var t #
             response_lengths (responses (awaits_release t) (last_release_time t) evs)))"
  by (simp only: fold_response_fold_max [OF assms] Max.set_eq_fold)

subsection \<open>Properties\<close>

lemma executing_time_snoc:
  "tr \<noteq> [] \<Longrightarrow> executing_time (tr @ [(T, s)]) =
     executing_time tr + (if snd (last tr) = EXECUTING then T - fst (last tr) else 0)"
proof (induction tr)
  case (Cons x tr)
  note IH = Cons.IH
  obtain a r where x: "x = (a, r)" by fastforce
  show ?case
  proof (cases tr)
    case Nil
    then show ?thesis by (simp add: x)
  next
    case (Cons y ys)
    obtain b q where y: "y = (b, q)" by fastforce
    from IH Cons show ?thesis by (simp add: x y)
  qed
qed simp

lemma end_of_simulation_last_interval:
  assumes "\<not> before_sim e" "occupation_interval_start_time t \<le> sc_now e"
    "state_signal t = EXECUTING" "prev_inc_state t = EXECUTING"
  shows "\<exists>t'. task_end_of_simulation e INNACTIVE (Some pe) t = Inr t' \<and>
    occupation_time t' = occupation_time t + (sc_now e - occupation_interval_start_time t)"
  using assms
  by (simp add: task_end_of_simulation_def update_energy_def get_peak_dyn_power_W_def rbind_after)

lemma end_of_simulation_none:
  "state_signal t \<noteq> EXECUTING \<Longrightarrow> task_end_of_simulation e INNACTIVE PE t = Inr t"
  by (simp add: task_end_of_simulation_def)

text \<open>
  C18: The occupation time of a task is the time it spent executing. For every trace of changes of
  the state signal, seen by \<open>account_occupation_time_proc\<close> in time order, followed by the end of the
  simulation at \<open>T\<close> with the scheduler inactive, the accumulated occupation is the sum of the lengths
  of the intervals the task was in the executing state, the last open one included.
\<close>
theorem occupation_time_is_executing_time:
  assumes "\<not> before_sim e" "tr \<noteq> []" "sorted (map fst tr)" "distinct_adj (map snd tr)"
    and "prev_inc_state t \<noteq> EXECUTING" "fst (last tr) \<le> T"
  shows "\<exists>t1 t2. occupation_run e (Some pe) tr t = Inr t1 \<and>
           occupation_time t1 = occupation_time t + executing_time tr \<and>
           task_end_of_simulation (e\<lparr>sc_now := T\<rparr>) INNACTIVE (Some pe) t1 = Inr t2 \<and>
           occupation_time t2 = occupation_time t + executing_time (tr @ [(T, FINISHED)])"
proof -
  obtain a s tr' where tr: "tr = (a, s) # tr'" using assms(2) by (cases tr) auto
  let ?ea = "e\<lparr>sc_now := a\<rparr>" and ?eT = "e\<lparr>sc_now := T\<rparr>"
  have runT: "\<not> before_sim ?eT" using assms(1) by (simp add: before_sim_def)
  have "\<exists>t0. account_occupation_time_proc ?ea (Some pe) (t\<lparr>state_signal := s\<rparr>) = Inr t0 \<and>
      occupation_time t0 = occupation_time t \<and> prev_inc_state t0 = s \<and> state_signal t0 = s \<and>
      (s = EXECUTING \<longrightarrow> occupation_interval_start_time t0 = a)"
  proof (cases "s = EXECUTING")
    case True
    then show ?thesis by (simp add: account_to_executing)
  next
    case False
    then show ?thesis using assms(5) by (simp add: account_idle)
  qed
  then obtain t0 where
    t0: "account_occupation_time_proc ?ea (Some pe) (t\<lparr>state_signal := s\<rparr>) = Inr t0"
      "occupation_time t0 = occupation_time t" "prev_inc_state t0 = s" "state_signal t0 = s"
      "s = EXECUTING \<Longrightarrow> occupation_interval_start_time t0 = a" by blast
  obtain t1 where t1: "occupation_run e (Some pe) tr' t0 = Inr t1"
    "occupation_time t1 = occupation_time t0 + executing_time tr"
    "prev_inc_state t1 = snd (last tr)"
    "snd (last tr) = EXECUTING \<longrightarrow> occupation_interval_start_time t1 = fst (last tr)"
    "state_signal t1 = (if tr' = [] then state_signal t0 else snd (last tr'))"
    using occupation_run_from [of e a s tr' t0 pe] assms(1,3,4) t0(3,5) tr by blast
  have st: "state_signal t1 = snd (last tr)" using t1(5) t0(4) tr by simp
  have run: "occupation_run e (Some pe) tr t = Inr t1" using t0(1) t1(1) tr by simp
  note snoc = executing_time_snoc [OF assms(2), of T FINISHED]
  show ?thesis
  proof (cases "snd (last tr) = EXECUTING")
    case True
    then show ?thesis
      using run st t0(2) t1(2-4) snoc assms(6)
        end_of_simulation_last_interval [OF runT, of t1 pe] by auto
  next
    case False
    then show ?thesis
      using run st t0(2) t1(2) snoc end_of_simulation_none [of t1 ?eT "Some pe"] by auto
  qed
qed

definition example_env :: sim_env where
  "example_env = \<lparr>sc_status = SC_RUNNING, sc_running = True, sc_now = 0\<rparr>"

definition example_elab :: sim_env where
  "example_elab = \<lparr>sc_status = SC_ELABORATION, sc_running = False, sc_now = 0\<rparr>"

definition example_task :: task_info_t where
  "example_task =
     \<lparr>task_name = ''t'', kista_id = 0, task_role = SYSTEM_TASK, app_p = None, sched_p = None,
      WCET = 0, WCEI = 0, Period = 0, Deadline = 0, WCET_set = False, WCEI_set = False,
      is_periodic_flag = False, priority = 255, state_signal = READY, consumption_signal = False,
      waiting_period_signal = False, waiting_comm_sync_signal = False, active_signal = False,
      finished_flag = False, miss_deadline_flag = False, left_consume_time = 0,
      current_absolute_deadline = 0, occupation_time = 0, occupation_interval_start_time = 0,
      prev_inc_state = READY, task_consumed_energy_J = Fin 0, max_response_time_var = 0,
      location_of_max_response_time_var = 0, last_release_time = 0, awaits_release = False\<rparr>"

theorem occupation_time_is_executing_time_witness:
  "\<exists>t1 t2. occupation_run example_env (Some (new_processing_element (Fin 1) ''p''))
              [(0, READY), (3, EXECUTING), (8, READY), (10, EXECUTING)] example_task = Inr t1 \<and>
     occupation_time t1 = 5 \<and>
     task_end_of_simulation (example_env\<lparr>sc_now := 12\<rparr>) INNACTIVE
       (Some (new_processing_element (Fin 1) ''p'')) t1 = Inr t2 \<and> occupation_time t2 = 7"
  using occupation_time_is_executing_time [of example_env
      "[(0, READY), (3, EXECUTING), (8, READY), (10, EXECUTING)]" example_task 12
      "new_processing_element (Fin 1) ''p''"]
  by (simp add: example_env_def example_task_def before_sim_def)

text \<open>
  The worst response time a task reports is the maximum of the responses its events contain
  (each release with the first end of response after it), zero when there is none, and it is
  reported for a stopped or a running simulation alike.
\<close>
theorem max_response_time_is_maximum:
  assumes "sorted (map fst evs)" "\<forall>ev \<in> set evs. start \<le> fst ev" "is_periodic t"
    and "sc_status e = SC_STOPPED \<or> sc_running e"
  shows "max_response_time e (fold account_response_step evs (account_response_start start t)) =
           Inr (Max (set (0 # response_lengths (responses False start evs))))"
proof -
  have per: "is_periodic (fold account_response_step evs t') = is_periodic t'" for t'
  proof (induction evs arbitrary: t')
    case (Cons ev evs)
    have "is_periodic (account_response_step ev t') = is_periodic t'"
      by (cases ev; cases "snd ev")
        (auto simp: account_response_step_def is_periodic_def Let_def)
    with Cons show ?case by simp
  qed simp
  have "is_periodic (account_response_start start t)"
    using assms(3) by (simp add: account_response_start_def is_periodic_def)
  then show ?thesis
    using fold_response_max [of evs "account_response_start start t"] assms per
    by (auto simp: max_response_time_def account_response_start_def)
qed

theorem max_response_time_is_maximum_witness:
  "max_response_time example_env (fold account_response_step
     [(4, End_Response), (10, Task_Release), (17, End_Response), (18, End_Response)]
     (account_response_start 0 (example_task\<lparr>is_periodic_flag := True, Period := 10\<rparr>))) = Inr 7"
  using max_response_time_is_maximum [of
      "[(4, End_Response), (10, Task_Release), (17, End_Response), (18, End_Response)]" 0
      "example_task\<lparr>is_periodic_flag := True, Period := 10\<rparr>" example_env]
  by (simp add: is_periodic_def example_env_def response_lengths_def)

text \<open>
  A deadline the user sets and a period may be given in either order: both orders end in the same
  task, periodic, with the user's deadline and not the period as its deadline.
\<close>
theorem period_deadline_order:
  assumes "before_sim e" "0 < p" "0 < d"
  shows "rbind (set_Period e p t) (set_Deadline e d) =
           Inr (t\<lparr>Period := p, is_periodic_flag := True, Deadline := d\<rparr>)
       \<and> rbind (set_Deadline e d t) (set_Period e p) =
           Inr (t\<lparr>Period := p, is_periodic_flag := True, Deadline := d\<rparr>)"
  using assms by (simp add: set_Period_ok set_Deadline_ok)

theorem period_deadline_order_witness:
  "rbind (set_Period example_elab 10 example_task) (set_Deadline example_elab 7) =
     rbind (set_Deadline example_elab 7 example_task) (set_Period example_elab 10)"
  using period_deadline_order [of example_elab 10 7 example_task]
  by (simp add: example_elab_def before_sim_def)

text \<open>
  The time to the next deadline the EDF dispatcher reads is the least delay that lands on a
  multiple of the period: it is below the period, and zero exactly at the instants of release.
\<close>
theorem time_to_next_deadline_least:
  assumes "0 < Period t"
  shows "\<exists>d. get_time_to_next_deadline now t = Inr d \<and> d < Period t \<and> Period t dvd now + d
           \<and> (d = 0 \<longleftrightarrow> Period t dvd now)"
proof -
  obtain d where d: "get_time_to_next_deadline now t = Inr d" "d < Period t" "Period t dvd now + d"
    using time_to_next_deadline_bounds [OF assms] by blast
  have "d = 0" if "Period t dvd now"
  proof -
    from that d(3) have "Period t dvd d" by (simp add: dvd_add_right_iff)
    with d(2) show ?thesis by (metis dvd_imp_le not_less neq0_conv)
  qed
  moreover have "Period t dvd now" if "d = 0" using d(3) that by simp
  ultimately show ?thesis using d by blast
qed

theorem time_to_next_deadline_least_witness:
  "\<exists>d. get_time_to_next_deadline 23 (example_task\<lparr>Period := 10\<rparr>) = Inr d \<and> d < 10 \<and> 10 dvd 23 + d"
  using time_to_next_deadline_least [of "example_task\<lparr>Period := 10\<rparr>" 23] by auto

text \<open>
  A model is either made of tasks of the implicit application or of tasks of declared ones: after
  a system task was created in one style, creating one in the other style reports an error.
\<close>
theorem application_styles_exclusive:
  "(new_task_info raw n SYSTEM_TASK g = Inr (t, g') \<longrightarrow>
      \<not> is_ok (new_task_info_of_app raw' n' a SYSTEM_TASK g'))
   \<and> (new_task_info_of_app raw n a SYSTEM_TASK g = Inr (t, g') \<longrightarrow>
      \<not> is_ok (new_task_info raw' n' SYSTEM_TASK g'))"
  by (auto simp: new_task_info_def new_task_info_of_app_def task_init_def
      split: app_visibility_t.splits option.splits if_splits)

theorem application_styles_exclusive_witness:
  "\<exists>t g. new_task_info example_task ''a'' SYSTEM_TASK initial_globals = Inr (t, g) \<and>
     \<not> is_ok (new_task_info_of_app example_task ''b'' ''app'' SYSTEM_TASK g)"
proof -
  obtain t g where ok: "new_task_info example_task ''a'' SYSTEM_TASK initial_globals = Inr (t, g)"
    by (simp add: new_task_info_def initial_globals_def task_init_def)
  then show ?thesis
    using application_styles_exclusive [of example_task "''a''" initial_globals t g example_task
        "''b''" "''app''"] by blast
qed

end
