(* ===== verification/Task_FSM.thy ===== *)
theory Task_FSM
  imports Task_Info
begin

text \<open>
  The state machine of a task, \<open>task_info_t::update_state_proc\<close>: one pass of its loop, from a
  resumption to the next \<open>wait\<close>, and the step relation of the process under an environment (the task
  body and the scheduler) that changes the signals it is sensitive to.

  In a delta cycle any of the signals may change together; the process resumes when an edge it waits
  for occurs and reads the new values. An edge nobody waits for is lost.
\<close>

datatype signal_edge =
  Active_Pos | Active_Neg | Consumption_Neg | Period_Pos | Period_Neg | Comm_Pos | Comm_Neg

datatype sched_notification =
  Running_Task_To_Wait_State | Completion | Innactive_Task_Ends_Wait

datatype fsm_outcome =
  Fsm_Wait task_info_t "sched_notification list" "signal_edge list"
| Fsm_Error string
| Fsm_Spin

text \<open>
  \<open>Fsm_Wait t ns es\<close>: the pass wrote the state signal (in \<open>t\<close>), notified its scheduler of \<open>ns\<close> and
  waits for one of the edges \<open>es\<close> (none: a \<open>wait()\<close> nothing ends). \<open>Fsm_Spin\<close>: the pass ends without
  a \<open>wait\<close> and the loop repeats in the same instant.
\<close>

abbreviation executing_wait :: "signal_edge list" where
  "executing_wait \<equiv> [Active_Neg, Consumption_Neg, Period_Pos, Comm_Pos]"

definition update_state_proc :: "task_info_t \<Rightarrow> fsm_outcome" where
  "update_state_proc t =
     (case state_signal t of
        EXECUTING \<Rightarrow>
          (if waiting_period_signal t \<and> active_signal t then
             Fsm_Wait (t\<lparr>state_signal := WAIT_PERIOD\<rparr>) [Running_Task_To_Wait_State]
               [Period_Neg, Active_Neg]
           else if waiting_period_signal t \<and> active_signal t = False then
             Fsm_Wait (t\<lparr>state_signal := INACTIVE_WAIT_PERIOD\<rparr>) [Running_Task_To_Wait_State]
               [Active_Pos, Period_Neg]
           else if waiting_comm_sync_signal t \<and> active_signal t then
             Fsm_Wait (t\<lparr>state_signal := WAIT_COMM_SYNC\<rparr>) [Running_Task_To_Wait_State]
               [Comm_Neg, Active_Neg]
           else if waiting_comm_sync_signal t \<and> active_signal t = False then
             Fsm_Wait (t\<lparr>state_signal := INACTIVE_WAIT_COMM_SYNC\<rparr>) [Running_Task_To_Wait_State]
               [Comm_Neg, Active_Pos]
           else if finished_flag t \<and> consumption_signal t = False then
             Fsm_Wait (t\<lparr>state_signal := FINISHED\<rparr>) [Completion] []
           else if (active_signal t = True \<and> consumption_signal t = False)
                   \<or> active_signal t = False then
             Fsm_Wait (t\<lparr>state_signal := READY\<rparr>) [] [Active_Pos]
           else Fsm_Error ''Unexpected transition from -Execution- task state.'')
      | WAIT_PERIOD \<Rightarrow>
          (if waiting_period_signal t = False then
             Fsm_Wait (t\<lparr>state_signal := EXECUTING\<rparr>) [] executing_wait
           else if active_signal t = False then
             Fsm_Wait (t\<lparr>state_signal := INACTIVE_WAIT_PERIOD\<rparr>) [] [Active_Pos, Period_Neg]
           else Fsm_Error ''Unexpected transition from EXECUTION state for task '')
      | WAIT_COMM_SYNC \<Rightarrow>
          (if waiting_comm_sync_signal t = False then
             Fsm_Wait (t\<lparr>state_signal := EXECUTING\<rparr>) [] executing_wait
           else if active_signal t = False then
             Fsm_Wait (t\<lparr>state_signal := INACTIVE_WAIT_COMM_SYNC\<rparr>) [] [Comm_Neg, Active_Pos]
           else Fsm_Error ''Unknown triggering event in COMMUNICATING state for task.'')
      | READY \<Rightarrow>
          (if active_signal t then
             Fsm_Wait (t\<lparr>state_signal := EXECUTING\<rparr>) [] executing_wait
           else Fsm_Spin)
      | INACTIVE_WAIT_PERIOD \<Rightarrow>
          (if waiting_period_signal t = False \<and> active_signal t then
             Fsm_Wait (t\<lparr>state_signal := EXECUTING\<rparr>) [] executing_wait
           else if waiting_period_signal t = False \<and> active_signal t = False then
             Fsm_Wait (t\<lparr>state_signal := READY\<rparr>) [Innactive_Task_Ends_Wait] [Active_Pos]
           else if active_signal t \<and> waiting_period_signal t then
             Fsm_Wait (t\<lparr>state_signal := WAIT_PERIOD\<rparr>) [] [Period_Neg, Active_Neg]
           else Fsm_Error ''Unknown transition from INACTIVE WAITING state for task.'')
      | INACTIVE_WAIT_COMM_SYNC \<Rightarrow>
          (if waiting_comm_sync_signal t = False \<and> active_signal t then
             Fsm_Wait (t\<lparr>state_signal := EXECUTING\<rparr>) [] executing_wait
           else if waiting_comm_sync_signal t = False then
             Fsm_Wait (t\<lparr>state_signal := READY\<rparr>) [Innactive_Task_Ends_Wait] [Active_Pos]
           else if active_signal t \<and> waiting_comm_sync_signal t then
             Fsm_Wait (t\<lparr>state_signal := WAIT_COMM_SYNC\<rparr>) [] [Comm_Neg, Active_Neg]
           else Fsm_Error ''Unknown transition from INACTIVE COMMUNICATION/SYNCHRONIZATION state for task.'')
      | FINISHED \<Rightarrow>
          Fsm_Error (''Task '' @ task_name t @ '' trying to execute after having reached FINISHED state''))"

subsection \<open>The process under its environment\<close>

record task_inputs =
  in_active :: bool
  in_consumption :: bool
  in_period :: bool
  in_comm :: bool
  in_finished :: bool

definition drive :: "task_inputs \<Rightarrow> task_info_t \<Rightarrow> task_info_t" where
  "drive i t =
     t\<lparr>active_signal := in_active i, consumption_signal := in_consumption i,
       waiting_period_signal := in_period i, waiting_comm_sync_signal := in_comm i,
       finished_flag := in_finished i\<rparr>"

fun edge_occurs :: "task_info_t \<Rightarrow> task_info_t \<Rightarrow> signal_edge \<Rightarrow> bool" where
  "edge_occurs t t' Active_Pos = (\<not> active_signal t \<and> active_signal t')"
| "edge_occurs t t' Active_Neg = (active_signal t \<and> \<not> active_signal t')"
| "edge_occurs t t' Consumption_Neg = (consumption_signal t \<and> \<not> consumption_signal t')"
| "edge_occurs t t' Period_Pos = (\<not> waiting_period_signal t \<and> waiting_period_signal t')"
| "edge_occurs t t' Period_Neg = (waiting_period_signal t \<and> \<not> waiting_period_signal t')"
| "edge_occurs t t' Comm_Pos = (\<not> waiting_comm_sync_signal t \<and> waiting_comm_sync_signal t')"
| "edge_occurs t t' Comm_Neg = (waiting_comm_sync_signal t \<and> \<not> waiting_comm_sync_signal t')"

text \<open>The process suspended with its task and the edges it waits for, or failed.\<close>

datatype fsm_config = Suspended task_info_t "signal_edge list" | Failed

definition after_pass :: "fsm_outcome \<Rightarrow> fsm_config" where
  "after_pass r = (case r of Fsm_Wait t _ es \<Rightarrow> Suspended t es | _ \<Rightarrow> Failed)"

inductive fsm_step :: "fsm_config \<Rightarrow> task_inputs \<Rightarrow> fsm_config \<Rightarrow> bool" where
  fsm_stay: "\<not> list_ex (edge_occurs t (drive i t)) es \<Longrightarrow>
     fsm_step (Suspended t es) i (Suspended (drive i t) es)"
| fsm_resume: "list_ex (edge_occurs t (drive i t)) es \<Longrightarrow>
     fsm_step (Suspended t es) i (after_pass (update_state_proc (drive i t)))"

text \<open>Initially the task is ready and inactive, and the process waits to be granted the processor.\<close>

inductive fsm_reachable :: "fsm_config \<Rightarrow> bool" where
  fsm_initial: "state_signal t = READY \<Longrightarrow> \<not> active_signal t \<Longrightarrow>
     fsm_reachable (Suspended t [Active_Pos])"
| fsm_next: "fsm_reachable c \<Longrightarrow> fsm_step c i c' \<Longrightarrow> fsm_reachable c'"

inductive_cases fsm_step_suspended: "fsm_step (Suspended t es) i c"

inductive_simps fsm_step_simp: "fsm_step (Suspended t es) i c"

lemma drive_simps [simp]:
  "active_signal (drive i t) = in_active i" "consumption_signal (drive i t) = in_consumption i"
  "waiting_period_signal (drive i t) = in_period i"
  "waiting_comm_sync_signal (drive i t) = in_comm i" "finished_flag (drive i t) = in_finished i"
  "state_signal (drive i t) = state_signal t" "task_name (drive i t) = task_name t"
  by (simp_all add: drive_def)

text \<open>
  The invariant of a suspended process: what it waits for is determined by its state, and the waiting
  states agree with the signals that brought the task there.
\<close>

definition fsm_inv :: "fsm_config \<Rightarrow> bool" where
  "fsm_inv c =
     (case c of
        Failed \<Rightarrow> False
      | Suspended t es \<Rightarrow>
          (case state_signal t of
             EXECUTING \<Rightarrow> es = executing_wait
           | WAIT_PERIOD \<Rightarrow> set es = {Period_Neg, Active_Neg} \<and> waiting_period_signal t \<and>
               active_signal t
           | WAIT_COMM_SYNC \<Rightarrow> set es = {Comm_Neg, Active_Neg} \<and> waiting_comm_sync_signal t \<and>
               active_signal t
           | READY \<Rightarrow> es = [Active_Pos]
           | INACTIVE_WAIT_PERIOD \<Rightarrow> set es = {Period_Neg, Active_Pos} \<and> waiting_period_signal t \<and>
               \<not> active_signal t
           | INACTIVE_WAIT_COMM_SYNC \<Rightarrow> set es = {Comm_Neg, Active_Pos} \<and>
               waiting_comm_sync_signal t \<and> \<not> active_signal t
           | FINISHED \<Rightarrow> es = []))"

lemma list_ex_pair: "set es = {a, b} \<Longrightarrow> list_ex P es \<longleftrightarrow> P a \<or> P b"
  by (simp add: list_ex_iff)

lemma fsm_inv_stay:
  "fsm_inv (Suspended t es) \<Longrightarrow> \<not> list_ex (edge_occurs t (drive i t)) es \<Longrightarrow>
     fsm_inv (Suspended (drive i t) es)"
  by (cases "state_signal t") (simp_all add: fsm_inv_def list_ex_pair)

lemma fsm_inv_resume:
  assumes "fsm_inv (Suspended t es)" "list_ex (edge_occurs t (drive i t)) es"
  shows "fsm_inv (after_pass (update_state_proc (drive i t)))"
  using assms
  by (cases "state_signal t")
    (auto simp add: fsm_inv_def list_ex_pair update_state_proc_def after_pass_def)

lemma fsm_inv_step: "fsm_inv c \<Longrightarrow> fsm_step c i c' \<Longrightarrow> fsm_inv c'"
  by (erule fsm_step.cases) (auto intro: fsm_inv_stay fsm_inv_resume)

lemma fsm_reachable_inv: "fsm_reachable c \<Longrightarrow> fsm_inv c"
  by (induction rule: fsm_reachable.induct) (simp_all add: fsm_inv_def fsm_inv_step [unfolded fsm_inv_def])

subsection \<open>Properties\<close>

definition waiting_states :: "task_state_t set" where
  "waiting_states =
     {WAIT_PERIOD, WAIT_COMM_SYNC, INACTIVE_WAIT_PERIOD, INACTIVE_WAIT_COMM_SYNC}"


definition granted :: task_inputs where
  "granted = \<lparr>in_active = True, in_consumption = False, in_period = False, in_comm = False,
              in_finished = False\<rparr>"

lemma example_granted:
  "fsm_reachable (Suspended ((drive granted example_task)\<lparr>state_signal := EXECUTING\<rparr>) executing_wait)"
proof (rule fsm_next)
  show "fsm_reachable (Suspended example_task [Active_Pos])"
    by (rule fsm_initial) (simp_all add: example_task_def)
  show "fsm_step (Suspended example_task [Active_Pos]) granted
          (Suspended ((drive granted example_task)\<lparr>state_signal := EXECUTING\<rparr>) executing_wait)"
    by (simp add: fsm_step_simp example_task_def granted_def drive_def update_state_proc_def
        after_pass_def)
qed


text \<open>
  The scheduler is told of exactly the transitions it must react to. A pass notifies a running task
  entering a wait exactly when it leaves the executing state for a waiting one, the completion exactly
  when the task becomes finished, and the end of an inactive wait exactly when an inactive waiting
  task becomes ready; no pass notifies anything else.
\<close>
theorem task_fsm_notifications:
  assumes "update_state_proc t = Fsm_Wait t' ns es"
  shows "ns = (if state_signal t = EXECUTING \<and> state_signal t' \<in> waiting_states
               then [Running_Task_To_Wait_State]
               else if state_signal t' = FINISHED then [Completion]
               else if state_signal t \<in> {INACTIVE_WAIT_PERIOD, INACTIVE_WAIT_COMM_SYNC}
                       \<and> state_signal t' = READY
               then [Innactive_Task_Ends_Wait] else [])"
  using assms
  by (cases "state_signal t")
    (auto simp add: update_state_proc_def waiting_states_def split: if_splits)

theorem task_fsm_notifications_witness:
  "update_state_proc (example_task\<lparr>state_signal := EXECUTING, waiting_comm_sync_signal := True\<rparr>) =
     Fsm_Wait (example_task\<lparr>state_signal := INACTIVE_WAIT_COMM_SYNC, waiting_comm_sync_signal := True\<rparr>)
       [Running_Task_To_Wait_State] [Comm_Neg, Active_Pos]"
proof -
  let ?t = "example_task\<lparr>state_signal := EXECUTING, waiting_comm_sync_signal := True\<rparr>"
  have pass: "update_state_proc ?t =
    Fsm_Wait (?t\<lparr>state_signal := INACTIVE_WAIT_COMM_SYNC\<rparr>) [Running_Task_To_Wait_State]
      [Comm_Neg, Active_Pos]"
    by (simp add: update_state_proc_def example_task_def)
  from task_fsm_notifications [OF pass] pass show ?thesis by simp
qed

lemma step_on_edge:
  "list_ex (edge_occurs t (drive i t)) es \<Longrightarrow>
     fsm_step (Suspended t es) i c \<longleftrightarrow> c = after_pass (update_state_proc (drive i t))"
  by (auto simp: fsm_step_simp)

text \<open>
  When the wait of a task ends in the very delta the scheduler takes the processor away, an active
  wait (for the period or for a communication) makes the task executing although it is not active
  any more, and leaves it waiting for edges among which the one that grants the processor again is
  missing.
\<close>
theorem wait_end_with_preemption:
  assumes "active_signal t" "\<not> in_active i"
  shows "(waiting_period_signal t \<and> \<not> in_period i \<longrightarrow>
      (fsm_step (Suspended (t\<lparr>state_signal := WAIT_PERIOD\<rparr>) [Period_Neg, Active_Neg]) i c \<longleftrightarrow>
         c = Suspended ((drive i t)\<lparr>state_signal := EXECUTING\<rparr>) executing_wait))
   \<and> (waiting_comm_sync_signal t \<and> \<not> in_comm i \<longrightarrow>
      (fsm_step (Suspended (t\<lparr>state_signal := WAIT_COMM_SYNC\<rparr>) [Comm_Neg, Active_Neg]) i c \<longleftrightarrow>
         c = Suspended ((drive i t)\<lparr>state_signal := EXECUTING\<rparr>) executing_wait))"
proof (intro conjI impI)
  assume w: "waiting_period_signal t \<and> \<not> in_period i"
  let ?t = "t\<lparr>state_signal := WAIT_PERIOD\<rparr>"
  have "after_pass (update_state_proc (drive i ?t)) =
      Suspended ((drive i t)\<lparr>state_signal := EXECUTING\<rparr>) executing_wait"
    using w by (simp add: update_state_proc_def after_pass_def) (simp add: drive_def)
  then show "fsm_step (Suspended ?t [Period_Neg, Active_Neg]) i c \<longleftrightarrow>
      c = Suspended ((drive i t)\<lparr>state_signal := EXECUTING\<rparr>) executing_wait"
    using w by (subst step_on_edge) simp_all
next
  assume w: "waiting_comm_sync_signal t \<and> \<not> in_comm i"
  let ?t = "t\<lparr>state_signal := WAIT_COMM_SYNC\<rparr>"
  have "after_pass (update_state_proc (drive i ?t)) =
      Suspended ((drive i t)\<lparr>state_signal := EXECUTING\<rparr>) executing_wait"
    using w by (simp add: update_state_proc_def after_pass_def) (simp add: drive_def)
  then show "fsm_step (Suspended ?t [Comm_Neg, Active_Neg]) i c \<longleftrightarrow>
      c = Suspended ((drive i t)\<lparr>state_signal := EXECUTING\<rparr>) executing_wait"
    using w by (subst step_on_edge) simp_all
qed

definition preempting :: task_inputs where
  "preempting = granted\<lparr>in_active := False\<rparr>"

theorem wait_end_with_preemption_witness:
  "fsm_step (Suspended (example_task\<lparr>waiting_period_signal := True, active_signal := True,
        state_signal := WAIT_PERIOD\<rparr>) [Period_Neg, Active_Neg]) preempting
     (Suspended (example_task\<lparr>state_signal := EXECUTING\<rparr>) executing_wait)"
proof -
  have d: "drive preempting (example_task\<lparr>waiting_period_signal := True, active_signal := True\<rparr>) =
      example_task"
    by (simp add: drive_def preempting_def granted_def example_task_def)
  show ?thesis
    using wait_end_with_preemption [of
        "example_task\<lparr>waiting_period_signal := True, active_signal := True\<rparr>" preempting
        "Suspended (example_task\<lparr>state_signal := EXECUTING\<rparr>) executing_wait"] d
    by (simp add: preempting_def granted_def)
qed

end
