(* ===== verification/Auxiliar.thy ===== *)
theory Auxiliar
  imports Prelude
begin

text \<open>
  The number theoretic templates of \<open>auxiliar.hpp\<close>, instantiated the way the library uses them: at
  \<open>unsigned long long int\<close>, a 64 bit word. \<open>gcd2\<close> is the Euclidean loop; \<open>lcm2\<close> divides first and
  multiplies after, and the product may wrap; \<open>lcm_periods\<close> folds \<open>lcm2\<close> over a vector of periods.
\<close>

function gcd2 :: "u64 \<Rightarrow> u64 \<Rightarrow> u64" where
  "gcd2 m n = (if m = 0 then n else gcd2 (n mod m) m)"
  by pat_completeness auto

termination gcd2
proof (relation "measure (\<lambda>(m, n). unat m)", goal_cases)
  case 1
  show ?case by simp
next
  case (2 m n)
  then have "0 < unat m" by (simp add: unat_gt_0)
  then show ?case by (simp add: unat_mod_distrib)
qed

declare gcd2.simps [simp del]

definition lcm2 :: "u64 \<Rightarrow> u64 \<Rightarrow> u64 result" where
  "lcm2 m n =
     (let g = gcd2 m n in
      if g = 0 then undef ''division by zero''
      else if m > n then Inr ((m div g) * n)
      else Inr ((n div g) * m))"

fun lcm_from :: "u64 \<Rightarrow> u64 list \<Rightarrow> u64 result" where
  "lcm_from r [] = Inr r"
| "lcm_from r (p # ps) = rbind (lcm2 r p) (\<lambda>r'. lcm_from r' ps)"

fun lcm_periods :: "u64 list \<Rightarrow> u64 result" where
  "lcm_periods [] = report ''Trying to obtain the least common multiple of an empty list of periods.''"
| "lcm_periods [p] = Inr p"
| "lcm_periods (p # q # ps) = rbind (lcm2 p q) (\<lambda>r. lcm_from r ps)"

text \<open>The loop computes the greatest common divisor of the numbers the words stand for.\<close>

lemma gcd2_unat: "unat (gcd2 m n) = gcd (unat m) (unat n)"
proof (induction m n rule: gcd2.induct)
  case (1 m n)
  show ?case
  proof (cases "m = 0")
    case True
    then show ?thesis by (simp add: gcd2.simps)
  next
    case False
    then have "unat (gcd2 m n) = gcd (unat n mod unat m) (unat m)"
      using 1 by (simp add: gcd2.simps [of m n] unat_mod_distrib)
    also have "\<dots> = gcd (unat m) (unat n)"
      by (metis gcd.commute gcd_red_nat)
    finally show ?thesis .
  qed
qed

lemma gcd2_eq_0 [simp]: "gcd2 m n = 0 \<longleftrightarrow> m = 0 \<and> n = 0"
proof -
  have "gcd2 m n = 0 \<longleftrightarrow> unat (gcd2 m n) = 0" by (simp add: unat_eq_zero)
  then show ?thesis by (simp add: gcd2_unat unat_eq_zero)
qed

lemma lcm2_mult_nat: "(0::nat) < gcd a b \<Longrightarrow> a div gcd a b * b = lcm a b"
  by (simp add: lcm_nat_def dvd_div_mult)

lemma lcm2_unat:
  assumes "m \<noteq> 0 \<or> n \<noteq> 0"
  shows "\<exists>r. lcm2 m n = Inr r \<and> unat r = lcm (unat m) (unat n) mod 2 ^ 64"
proof -
  let ?g = "gcd2 m n"
  have g: "?g \<noteq> 0" using assms by auto
  have pos: "0 < gcd (unat m) (unat n)" using assms by (auto simp: unat_eq_zero)
  have a: "unat ((m div ?g) * n) = lcm (unat m) (unat n) mod 2 ^ 64"
    using lcm2_mult_nat [OF pos]
    by (simp add: unat_word_ariths(2) unat_div_distrib gcd2_unat)
  have b: "unat ((n div ?g) * m) = lcm (unat m) (unat n) mod 2 ^ 64"
    using lcm2_mult_nat [of "unat n" "unat m"] pos
    by (simp add: unat_word_ariths(2) unat_div_distrib gcd2_unat gcd.commute lcm.commute)
  show ?thesis using g a b by (auto simp: lcm2_def Let_def)
qed

lemma lcm2_exact:
  assumes "m \<noteq> 0" "n \<noteq> 0" "lcm (unat m) (unat n) < 2 ^ 64"
  shows "\<exists>r. lcm2 m n = Inr r \<and> unat r = lcm (unat m) (unat n) \<and> r \<noteq> 0"
proof -
  obtain r where r: "lcm2 m n = Inr r" "unat r = lcm (unat m) (unat n)"
    using lcm2_unat [of m n] assms by auto
  then have "unat r \<noteq> 0" using assms(1,2) by (simp add: unat_eq_zero)
  then have "r \<noteq> 0" by auto
  with r show ?thesis by blast
qed

lemma Lcm_insert_dvd_less:
  "finite A \<Longrightarrow> (0::nat) \<notin> insert a A \<Longrightarrow> Lcm (insert a A) < k \<Longrightarrow> Lcm A < k"
proof -
  assume fin: "finite A" and z: "(0::nat) \<notin> insert a A" and k: "Lcm (insert a A) < k"
  have "Lcm A dvd Lcm (insert a A)" by simp
  moreover have "Lcm (insert a A) \<noteq> 0" using fin z by (simp add: Lcm_0_iff)
  ultimately show "Lcm A < k" using k by (meson dvd_imp_le le_less_trans neq0_conv)
qed

text \<open>
  The running value of the fold divides the final one, so no intermediate product wraps when the
  least common multiple itself fits 64 bits.
\<close>

lemma lcm_from_exact:
  assumes "r \<noteq> 0" "0 \<notin> set ps" "Lcm (insert (unat r) (unat ` set ps)) < 2 ^ 64"
  shows "\<exists>h. lcm_from r ps = Inr h \<and> unat h = Lcm (insert (unat r) (unat ` set ps))"
  using assms
proof (induction ps arbitrary: r)
  case Nil
  then show ?case by simp
next
  case (Cons p ps)
  let ?L = "lcm (unat r) (unat p)" and ?T = "unat ` set ps"
  have all: "Lcm (insert (unat r) (unat ` set (p # ps))) = lcm ?L (Lcm ?T)"
    by (simp add: lcm.assoc)
  have nz: "Lcm ?T \<noteq> 0" using Cons.prems by (auto simp: Lcm_0_iff unat_eq_zero)
  have "?L dvd lcm ?L (Lcm ?T)" by simp
  moreover have "lcm ?L (Lcm ?T) \<noteq> 0" using Cons.prems nz by (simp add: unat_eq_zero)
  ultimately have "?L < 2 ^ 64"
    using Cons.prems(3) all by (metis dvd_imp_le le_less_trans neq0_conv)
  then obtain q where q: "lcm2 r p = Inr q" "unat q = ?L" "q \<noteq> 0"
    using lcm2_exact [of r p] Cons.prems by auto
  have "\<exists>h. lcm_from q ps = Inr h \<and> unat h = Lcm (insert (unat q) ?T)"
    using Cons.IH [of q] Cons.prems q all by simp
  then show ?case using q all by simp
qed

lemma lcm_periods_exact:
  assumes "ps \<noteq> []" "0 \<notin> set ps" "Lcm (unat ` set ps) < 2 ^ 64"
  shows "\<exists>h. lcm_periods ps = Inr h \<and> unat h = Lcm (unat ` set ps)"
proof (cases ps rule: lcm_periods.cases)
  case (3 p q qs)
  have "lcm_periods ps = lcm_from p (q # qs)" using 3 by simp
  then show ?thesis using lcm_from_exact [of p "q # qs"] assms 3 by auto
qed (use assms in simp_all)

lemma lcm_periods_nonempty_ok:
  "ps \<noteq> [] \<Longrightarrow> 0 \<notin> set ps \<Longrightarrow> Lcm (unat ` set ps) < 2 ^ 64 \<Longrightarrow> is_ok (lcm_periods ps)"
  using lcm_periods_exact by (fastforce simp: is_ok_iff)

end
