(* ===== verification/Taskset.thy ===== *)
theory Taskset
  imports Auxiliar Task_Info
begin

text \<open>
  \<open>taskset_by_name_t.cpp\<close>: the figures of a set of tasks. A task set is the list of the names of its
  tasks in the order of the name map, and a store gives the task object of each name.
\<close>

type_synonym task_store = "string \<Rightarrow> task_info_t"
type_synonym taskset = "string list"

text \<open>The check of the phase comes first: during the simulation the call is an error.\<close>

definition taskset_is_periodic :: "sim_env \<Rightarrow> task_store \<Rightarrow> taskset \<Rightarrow> bool result" where
  "taskset_is_periodic e st ts =
     (if sc_running e
      then report ''is_period(taskset) function must be invoked before the beginning of the simulation''
      else Inr (list_all (\<lambda>n. is_periodic (st n)) ts))"

text \<open>Periods in whole nanoseconds; each is inserted at the front of the vector.\<close>

definition period_ns :: "task_info_t \<Rightarrow> u64" where
  "period_ns t = of_nat (nat \<lfloor>to_seconds (Period t) * 10 ^ 9\<rfloor>)"

definition get_hyperperiod :: "sim_env \<Rightarrow> task_store \<Rightarrow> taskset \<Rightarrow> sc_time result" where
  "get_hyperperiod e st ts =
     rbind (taskset_is_periodic e st ts) (\<lambda>p.
     rbind (check p ''Task set is not periodic. Therefore, it is not possible to calculate an hyperperiod for it.'') (\<lambda>_.
     rbind (lcm_periods (fold (\<lambda>n ps. period_ns (st n) # ps) ts [])) (\<lambda>l.
       Inr (sc_time_ns (of_nat (unat l))))))"

text \<open>The two sums end at the first task without a period (a deadline).\<close>

fun sum_results :: "double \<Rightarrow> double result list \<Rightarrow> double result" where
  "sum_results acc [] = Inr acc"
| "sum_results acc (r # rs) = rbind r (\<lambda>d. sum_results (dadd acc d) rs)"

definition taskset_utilization :: "task_store \<Rightarrow> taskset \<Rightarrow> double result" where
  "taskset_utilization st ts = sum_results (Fin 0) (map (\<lambda>n. utilization (st n)) ts)"

definition taskset_density :: "task_store \<Rightarrow> taskset \<Rightarrow> double result" where
  "taskset_density st ts = sum_results (Fin 0) (map (\<lambda>n. density (st n)) ts)"

subsection \<open>Lemmas\<close>

lemma fold_front: "fold (\<lambda>n ps. f n # ps) ts ps = rev (map f ts) @ ps"
  by (induction ts arbitrary: ps) simp_all

lemma sum_results_ok:
  "sum_results (Fin a) (map (\<lambda>n. Inr (Fin (f n))) ts) = Inr (Fin (a + sum_list (map f ts)))"
  by (induction ts arbitrary: a) (simp_all add: add.assoc)

lemma sum_results_error: "Inl x \<in> set rs \<Longrightarrow> \<not> is_ok (sum_results a rs)"
proof (induction rs arbitrary: a)
  case (Cons r rs)
  then show ?case by (cases r) auto
qed simp

text \<open>A period the modeller gives in whole nanoseconds is its number of nanoseconds, exactly.\<close>

lemma period_ns_exact:
  assumes "1000 dvd Period t" "Period t div 1000 < 2 ^ 64"
  shows "unat (period_ns t) = Period t div 1000"
proof -
  obtain k where k: "Period t = 1000 * k" using assms(1) by (rule dvdE)
  have "to_seconds (Period t) * 10 ^ 9 = (of_nat k :: rat)"
    by (simp add: k to_seconds_def)
  then have "period_ns t = of_nat k" by (simp add: period_ns_def)
  moreover have "k < 2 ^ 64" using assms(2) k by simp
  ultimately show ?thesis
    using k by (simp add: unat_of_nat take_bit_eq_mod)
qed

definition utilization_of :: "task_info_t \<Rightarrow> rat" where
  "utilization_of t = of_nat (WCET t) / of_nat (Period t)"

lemma utilization_ok:
  "is_periodic t \<Longrightarrow> 0 < Period t \<Longrightarrow> utilization t = Inr (Fin (utilization_of t))"
  by (simp add: utilization_def utilization_of_def)

lemma taskset_utilization_ok:
  assumes "\<And>n. n \<in> set ts \<Longrightarrow> is_periodic (st n) \<and> 0 < Period (st n)"
  shows "taskset_utilization st ts = Inr (Fin (\<Sum>n\<leftarrow>ts. utilization_of (st n)))"
proof -
  have "map (\<lambda>n. utilization (st n)) ts = map (\<lambda>n. Inr (Fin (utilization_of (st n)))) ts"
    using assms utilization_ok by (intro map_cong) simp_all
  then show ?thesis by (simp only: taskset_utilization_def sum_results_ok) simp
qed

subsection \<open>Properties\<close>


definition example_store :: task_store where
  "example_store n =
     (if n = ''a'' then example_task\<lparr>task_name := n, Period := 4000, is_periodic_flag := True,
                          Deadline := 4000, WCET := 1000\<rparr>
      else example_task\<lparr>task_name := n, Period := 6000, is_periodic_flag := True,
                          Deadline := 6000, WCET := 2000\<rparr>)"


end
