(* ===== verification/Static_Analysis.thy ===== *)
theory Static_Analysis
  imports Taskset
begin

text \<open>
  \<open>static_sched_analysis.cpp\<close>: the analyses that a scheduler runs on its task set at the end of
  elaboration, the table that attaches them to scheduler types, and \<open>scheduler::static_analysis\<close>,
  which runs them.

  A function pointer is a value of \<open>SAFPTR\<close>; the functions a user attaches are interpreted by a
  parameter. The C++ \<open>std::map\<close> tables are association lists searched with the equivalence that
  \<open>operator<\<close> induces.
\<close>

datatype SAFPTR = Full_Utilization_Bound | Liu_And_Layland | Precise_Bound | User_Analysis nat

definition key_equiv :: "scheduler_t \<Rightarrow> scheduler_t \<Rightarrow> bool" where
  "key_equiv a b = (\<not> scheduler_t_less a b \<and> \<not> scheduler_t_less b a)"

fun table_find :: "scheduler_t \<Rightarrow> (scheduler_t \<times> 'f) list \<Rightarrow> 'f option" where
  "table_find k [] = None"
| "table_find k ((k', f) # t) = (if key_equiv k' k then Some f else table_find k t)"

fun table_put :: "scheduler_t \<Rightarrow> 'f \<Rightarrow> (scheduler_t \<times> 'f) list \<Rightarrow> (scheduler_t \<times> 'f) list" where
  "table_put k f [] = [(k, f)]"
| "table_put k f ((k', g) # t) =
     (if key_equiv k' k then (k', f) # t else (k', g) # table_put k f t)"

record analysis_globals =
  static_sched_analysis_enabled_flag :: bool
  common_static_analysis :: "SAFPTR option"
  static_analysis_table :: "(scheduler_t \<times> SAFPTR option) list"

subsection \<open>The analyses\<close>

definition full_utilization_bound :: "sim_env \<Rightarrow> task_store \<Rightarrow> taskset \<Rightarrow> unit result" where
  "full_utilization_bound e st ts =
     rbind (taskset_is_periodic e st ts) (\<lambda>p.
       if p then
         rbind (taskset_utilization st ts) (\<lambda>u.
           check (\<not> dle (Fin 1) u) ''Passing full utilization bound...FAILED.'')
       else Inr ())"

text \<open>The bound \<open>(pow(2.0, 1.0/N) - 1.0) * N\<close>; with \<open>N = 0\<close> it is not a number.\<close>

definition ll_bound :: "nat \<Rightarrow> real" where
  "ll_bound N = (2 powr (1 / real N) - 1) * real N"

definition ll_exceeded :: "nat \<Rightarrow> double \<Rightarrow> bool" where
  "ll_exceeded N u =
     (N \<noteq> 0 \<and> (case u of Fin r \<Rightarrow> of_rat r \<ge> ll_bound N | PosInf \<Rightarrow> True | _ \<Rightarrow> False))"

definition Liu_and_Layland_bound :: "task_store \<Rightarrow> taskset \<Rightarrow> unit result" where
  "Liu_and_Layland_bound st ts =
     rbind (taskset_utilization st ts) (\<lambda>u.
       check (\<not> ll_exceeded (length ts) u)
         ''Checking Liu&Layland utilization bound ( U <= N (2^(1/N) -1) )...FAILED.'')"

definition precise_bound :: "task_store \<Rightarrow> taskset \<Rightarrow> unit result" where
  "precise_bound st ts =
     report ''Precise schedulability_analysis ...This schedulability analysis is not implemented.''"

definition run_analysis ::
    "(nat \<Rightarrow> task_store \<Rightarrow> taskset \<Rightarrow> unit result) \<Rightarrow> sim_env \<Rightarrow> task_store \<Rightarrow> taskset \<Rightarrow> SAFPTR
       \<Rightarrow> unit result" where
  "run_analysis user e st ts f =
     (case f of
        Full_Utilization_Bound \<Rightarrow> full_utilization_bound e st ts
      | Liu_And_Layland \<Rightarrow> Liu_and_Layland_bound st ts
      | Precise_Bound \<Rightarrow> precise_bound st ts
      | User_Analysis i \<Rightarrow> user i st ts)"

subsection \<open>Attaching\<close>

definition rate_monotonic_key :: scheduler_t where
  "rate_monotonic_key =
     \<lparr>scheduler_policy = STATIC_PRIORITIES, static_priorities_policy = RATE_MONOTONIC,
      dynamic_priorities_policy = USER_DYNAMIC_PRIORITY_POLICY,
      scheduler_triggering_policy = PREEMPTIVE\<rparr>"

definition attach_default_available_static_analysis :: "analysis_globals \<Rightarrow> analysis_globals" where
  "attach_default_available_static_analysis g =
     g\<lparr>common_static_analysis := Some Full_Utilization_Bound,
       static_analysis_table :=
         table_put rate_monotonic_key (Some Liu_And_Layland) (static_analysis_table g)\<rparr>"

definition enable_sched_static_analysis :: "analysis_globals \<Rightarrow> analysis_globals" where
  "enable_sched_static_analysis g =
     (attach_default_available_static_analysis g)\<lparr>static_sched_analysis_enabled_flag := True\<rparr>"

definition disable_sched_static_analysis :: "analysis_globals \<Rightarrow> analysis_globals" where
  "disable_sched_static_analysis g = g\<lparr>static_sched_analysis_enabled_flag := False\<rparr>"

definition is_static_analysis_enabled :: "analysis_globals \<Rightarrow> bool" where
  "is_static_analysis_enabled g = static_sched_analysis_enabled_flag g"

definition attach_static_analysis :: "SAFPTR option \<Rightarrow> analysis_globals \<Rightarrow> analysis_globals" where
  "attach_static_analysis f g = g\<lparr>common_static_analysis := f\<rparr>"

definition attach_static_analysis_for ::
    "SAFPTR option \<Rightarrow> scheduler_t \<Rightarrow> analysis_globals \<Rightarrow> analysis_globals" where
  "attach_static_analysis_for f k g =
     g\<lparr>static_analysis_table := table_put k f (static_analysis_table g)\<rparr>"

definition static_analysis ::
    "(nat \<Rightarrow> task_store \<Rightarrow> taskset \<Rightarrow> unit result) \<Rightarrow> sim_env \<Rightarrow> analysis_globals \<Rightarrow> task_store
       \<Rightarrow> taskset \<Rightarrow> scheduler_t \<Rightarrow> unit result" where
  "static_analysis user e g st ts k =
     (case common_static_analysis g of
        None \<Rightarrow> undef ''null function''
      | Some f \<Rightarrow>
          rbind (run_analysis user e st ts f) (\<lambda>_.
            case table_find k (static_analysis_table g) of
              None \<Rightarrow> Inr ()
            | Some None \<Rightarrow>
                report ''NULL static analysis function was retrieved for the configured scheduling policy''
            | Some (Some h) \<Rightarrow> run_analysis user e st ts h))"

subsection \<open>Lemmas\<close>

lemma key_equiv_refl [simp]: "key_equiv k k"
  by (simp add: key_equiv_def scheduler_t_less_irrefl)

lemma table_find_put_same [simp]: "table_find k (table_put k f t) = Some f"
  by (induction t) auto

lemma ll_bound_iff:
  assumes "0 < N" "0 \<le> r"
  shows "ll_bound N \<le> of_rat r \<longleftrightarrow> 2 \<le> (of_rat r / real N + 1) ^ N"
proof -
  let ?x = "of_rat r / real N + (1 :: real)"
  have root: "(2 powr (1 / real N)) ^ N = (2 :: real)"
    using assms(1) by (simp add: powr_powr flip: powr_realpow)
  have pos: "0 \<le> ?x" using assms(2) by (simp add: add_nonneg_nonneg)
  have "ll_bound N \<le> of_rat r \<longleftrightarrow> 2 powr (1 / real N) \<le> ?x"
    using assms(1) by (simp add: ll_bound_def field_simps)
  also have "\<dots> \<longleftrightarrow> (2 powr (1 / real N)) ^ N \<le> ?x ^ N"
    using pos assms(1) by (intro power_mono_iff [symmetric]) simp_all
  finally show ?thesis by (simp only: root)
qed

lemma ll_bound_rat:
  assumes "0 < N" "0 \<le> r"
  shows "ll_bound N \<le> of_rat r \<longleftrightarrow> 2 \<le> (r / of_nat N + 1) ^ N"
proof -
  have "(of_rat r / real N + 1) ^ N = (of_rat ((r / of_nat N + 1) ^ N) :: real)"
    by (simp add: of_rat_add of_rat_divide of_rat_power)
  moreover have "(2 :: real) = of_rat 2" by simp
  ultimately show ?thesis
    using ll_bound_iff [OF assms] by (simp only: of_rat_less_eq)
qed

text \<open>The bound never exceeds one: \<open>(1 + 1/N) ^ N\<close> is at least two.\<close>

lemma ll_bound_le_one: "0 < N \<Longrightarrow> ll_bound N \<le> 1"
proof -
  assume N: "0 < N"
  have "1 + real N * (1 / real N) \<le> (1 + 1 / real N) ^ N"
    by (rule Bernoulli_inequality) (use N in \<open>simp add: field_simps\<close>)
  then have "2 \<le> (of_rat 1 / real N + 1) ^ N" using N by (simp add: add.commute)
  then show ?thesis using ll_bound_iff [OF N, of 1] by simp
qed

lemma key_equiv_rate_monotonic:
  "key_equiv rate_monotonic_key k \<longleftrightarrow>
     scheduler_triggering_policy k = PREEMPTIVE \<and> scheduler_policy k = STATIC_PRIORITIES \<and>
     static_priorities_policy k = RATE_MONOTONIC"
  by (cases "scheduler_triggering_policy k"; cases "scheduler_policy k";
      cases "static_priorities_policy k")
    (simp_all add: key_equiv_def scheduler_t_less_def rate_monotonic_key_def enum_less_defs)

subsection \<open>Properties\<close>

definition initial_analysis_globals :: analysis_globals where
  "initial_analysis_globals =
     \<lparr>static_sched_analysis_enabled_flag = False, common_static_analysis = None,
      static_analysis_table = []\<rparr>"

text \<open>
  The Liu and Layland test of a periodic task set is decided exactly: with the utilisation \<open>U\<close> of
  its \<open>N\<close> tasks it reports an error if and only if \<open>(U/N + 1)^N >= 2\<close>, a rational condition that
  needs no root; and it is the stronger test: whenever it passes, the full utilisation test passes.
\<close>
theorem liu_layland_decides:
  assumes "ts \<noteq> []" "\<not> sc_running e"
    and "\<forall>n \<in> set ts. is_periodic (st n) \<and> 0 < Period (st n)"
  defines "U \<equiv> (\<Sum>n\<leftarrow>ts. utilization_of (st n))"
  shows "(is_ok (Liu_and_Layland_bound st ts) \<longleftrightarrow> (U / of_nat (length ts) + 1) ^ length ts < 2)
       \<and> (is_ok (Liu_and_Layland_bound st ts) \<longrightarrow> is_ok (full_utilization_bound e st ts))"
proof -
  let ?N = "length ts"
  have N: "0 < ?N" using assms(1) by simp
  have U: "taskset_utilization st ts = Inr (Fin U)"
    unfolding U_def using assms(3) by (intro taskset_utilization_ok) blast
  have nonneg: "0 \<le> U" unfolding U_def by (rule sum_list_nonneg) (auto simp: utilization_of_def)
  have ll: "is_ok (Liu_and_Layland_bound st ts) \<longleftrightarrow> of_rat U < ll_bound ?N"
    using assms(1) by (simp add: Liu_and_Layland_bound_def U ll_exceeded_def not_le)
  have full: "is_ok (full_utilization_bound e st ts) \<longleftrightarrow> U < 1"
    using assms(2,3)
    by (simp add: full_utilization_bound_def taskset_is_periodic_def list_all_iff U not_le)
  have "of_rat U < ll_bound ?N \<longleftrightarrow> (U / of_nat ?N + 1) ^ ?N < 2"
    using ll_bound_rat [OF N nonneg] by linarith
  moreover have "U < 1" if "of_rat U < ll_bound ?N"
  proof -
    have "of_rat U < (1 :: real)" using that ll_bound_le_one [OF N] by linarith
    then show ?thesis by simp
  qed
  ultimately show ?thesis using ll full by simp
qed

theorem liu_layland_decides_witness:
  "is_ok (Liu_and_Layland_bound example_store [''a'', ''b'']) \<and>
   is_ok (full_utilization_bound example_elab example_store [''a'', ''b''])"
proof -
  have "\<forall>n \<in> set [''a'', ''b'']. is_periodic (example_store n) \<and> 0 < Period (example_store n)"
    by (simp add: example_store_def is_periodic_def)
  then show ?thesis
    using liu_layland_decides [of "[''a'', ''b'']" example_elab example_store]
    by (simp add: example_elab_def example_store_def utilization_of_def power2_eq_square)
qed

text \<open>
  The analyses enabled by default run the Liu and Layland test for exactly the preemptive
  schedulers with rate monotonic static priorities, whatever dynamic sub-policy they carry, and the
  full utilisation test alone for every other scheduler.
\<close>
theorem default_static_analysis:
  "static_analysis user e (enable_sched_static_analysis initial_analysis_globals) st ts k =
     rbind (full_utilization_bound e st ts) (\<lambda>_.
       if scheduler_triggering_policy k = PREEMPTIVE \<and> scheduler_policy k = STATIC_PRIORITIES
          \<and> static_priorities_policy k = RATE_MONOTONIC
       then Liu_and_Layland_bound st ts else Inr ())"
proof (cases "full_utilization_bound e st ts")
  case (Inr u)
  then show ?thesis
    by (simp add: static_analysis_def enable_sched_static_analysis_def run_analysis_def
        attach_default_available_static_analysis_def initial_analysis_globals_def
        key_equiv_rate_monotonic)
qed (simp add: static_analysis_def enable_sched_static_analysis_def run_analysis_def
      attach_default_available_static_analysis_def initial_analysis_globals_def)

end
