(* ===== verification/Dispatch.thy ===== *)
theory Dispatch
  imports Taskset
begin

text \<open>
  The scheduler object of \<open>scheduler.hpp\<close>, its constructors, and the dispatcher, \<open>scheduler::dispatch\<close>,
  with the contract the scheduler process relies on.

  A scheduler refers to its tasks by name. \<open>it_dyn_sched\<close> is the position of the iterator in the task
  set, the end iterator being its length. \<open>past_task_info\<close> and \<open>current_task_info\<close> are the locals of
  \<open>scheduler_proc\<close>.
\<close>

datatype taskset_ptr = Indeterminate_Ptr | Null_Ptr | Taskset taskset

datatype SCHTIME_FPTR =
  Sched_Time_Constant | Sched_Time_Proportional_To_Assigned_Tasks
| Sched_Time_Proportional_To_Ready_Tasks | User_Calculator nat

record scheduler =
  sched_name :: string
  tick_timer_delay :: sc_time
  last_tick :: sc_time
  next_tick :: sc_time
  t_slicing_flag :: bool
  sched_triggering_policy :: scheduler_triggering_policy_t
  sched_policy :: scheduler_policy_t
  sched_static_policy :: static_priorities_policy_t
  sched_dynamic_policy :: dynamic_priorities_policy_t
  sched_t :: scheduler_t
  tasks_assigned :: taskset_ptr
  total_n_tasks :: nat
  tasks_by_priority :: "string list"
  it_static_sched :: nat
  it_dyn_sched :: nat
  static_schedule_by_task_names :: "string list"
  static_schedule_by_task_info_pointers :: "string list"
  static_comm_schedule :: "link_ptr list"
  static_comm_schedule_by_name :: "string list"
  static_comm_schedule_by_task_names :: "(string \<times> string) list"
  sched_state :: sched_state_t
  sched_consumption_signal :: bool
  sched_comp_time :: sc_time
  n_schedulings :: u64
  n_context_changes :: u64
  last_simulation_time :: sc_time
  sched_PE :: "string option"
  scheduling_time :: sc_time
  scheduling_time_set_flag :: bool
  scheduling_time_calculator :: "SCHTIME_FPTR option"
  sufficient_global_sim_time_factor :: u32
  sched_consumed_energy_J :: double
  past_task_info :: "string option"
  current_task_info :: "string option"

text \<open>
  The raw constructor does not set the task set; \<open>raw\<close> is the storage of the object, from which
  \<open>total_n_tasks\<close>, the iterators and the compact scheduler type come before elaboration. Both
  constructors make the full utilisation bound the common analysis (theory \<open>Scheduler\<close>).
\<close>

definition new_scheduler ::
    "scheduler \<Rightarrow> string \<Rightarrow> sc_time \<Rightarrow> bool \<Rightarrow> scheduler_triggering_policy_t \<Rightarrow> scheduler_policy_t
       \<Rightarrow> scheduler" where
  "new_scheduler raw name ttimer_delay time_slicing tp sp =
     raw\<lparr>sched_name := name, tick_timer_delay := ttimer_delay, last_tick := 0, next_tick := 0,
         sched_triggering_policy := tp, t_slicing_flag := time_slicing, sched_policy := sp,
         sched_static_policy := USER_PRIORITIES, sched_dynamic_policy := EARLIEST_DEADLINE_FIRST,
         sufficient_global_sim_time_factor := 0, sched_consumption_signal := False,
         sched_state := INNACTIVE, sched_comp_time := 0, n_schedulings := 0, n_context_changes := 0,
         sched_PE := None, scheduling_time := 0, scheduling_time_set_flag := False,
         scheduling_time_calculator := None, sched_consumed_energy_J := Fin 0,
         last_simulation_time := 0, tasks_by_priority := [], static_schedule_by_task_names := [],
         static_schedule_by_task_info_pointers := [], static_comm_schedule := [],
         static_comm_schedule_by_name := [], static_comm_schedule_by_task_names := [],
         tasks_assigned := Indeterminate_Ptr, past_task_info := None, current_task_info := None\<rparr>"

definition new_scheduler_with_tasks ::
    "scheduler \<Rightarrow> taskset \<Rightarrow> string \<Rightarrow> sc_time \<Rightarrow> bool \<Rightarrow> scheduler_triggering_policy_t
       \<Rightarrow> scheduler_policy_t \<Rightarrow> scheduler" where
  "new_scheduler_with_tasks raw ts name ttimer_delay time_slicing tp sp =
     (new_scheduler raw name ttimer_delay time_slicing tp sp)\<lparr>tasks_assigned := Taskset ts\<rparr>"

definition assigned :: "scheduler \<Rightarrow> taskset result" where
  "assigned s = (case tasks_assigned s of Taskset ts \<Rightarrow> Inr ts | _ \<Rightarrow> undef ''task set pointer'')"

subsection \<open>The dispatcher\<close>

definition is_ready :: "task_store \<Rightarrow> string \<Rightarrow> bool" where
  "is_ready st n = (state_signal (st n) = READY)"

text \<open>
  The cycle executive advances the iterator, with wrap around, at every visited task, and stops after
  the first ready one or after as many visits as tasks; \<open>visited\<close> is the value of
  \<open>return_task_info\<close>, indeterminate before the first visit.
\<close>

definition circular_next :: "taskset \<Rightarrow> nat \<Rightarrow> nat" where
  "circular_next ts i = (if Suc i = length ts then 0 else Suc i)"

fun cycle_loop ::
    "(string \<Rightarrow> bool) \<Rightarrow> taskset \<Rightarrow> nat \<Rightarrow> nat \<Rightarrow> string option \<Rightarrow> string option \<times> nat" where
  "cycle_loop ready ts 0 i visited = (visited, i)"
| "cycle_loop ready ts (Suc k) i visited =
     (if ready (ts ! i) then (Some (ts ! i), circular_next ts i)
      else cycle_loop ready ts k (circular_next ts i) (Some (ts ! i)))"

definition dispatch_cycle :: "(string \<Rightarrow> bool) \<Rightarrow> taskset \<times> nat \<Rightarrow> (string \<times> taskset \<times> nat) result" where
  "dispatch_cycle ready st =
     (case st of (ts, i) \<Rightarrow>
       (case cycle_loop ready ts (length ts) i None of
          (None, _) \<Rightarrow> undef ''return_task_info''
        | (Some t, j) \<Rightarrow> Inr (t, ts, j)))"

definition dispatch_static :: "string list \<times> nat \<Rightarrow> (string \<times> string list \<times> nat) result" where
  "dispatch_static st =
     (case st of (sched, i) \<Rightarrow>
        if i < length sched
        then Inr (sched ! i, sched, (if Suc i = length sched then 0 else Suc i))
        else undef ''index out of range'')"

text \<open>The most priority task is the default; the first ready one in the order of priority wins.\<close>

definition dispatch_priority :: "(string \<Rightarrow> bool) \<Rightarrow> string list \<Rightarrow> (string \<times> string list) result" where
  "dispatch_priority ready tbp =
     (case tbp of
        [] \<Rightarrow> undef ''index out of range''
      | t # _ \<Rightarrow> (case find ready tbp of Some r \<Rightarrow> Inr (r, tbp) | None \<Rightarrow> Inr (t, tbp)))"

text \<open>
  The loop of the EDF dispatcher over the ready tasks. Its state: \<open>first_ready_task_found\<close>, which the
  code does not initialise (the flag of the first call), the shortest time, and the task to return.
  A task that beats the shortest time is taken, but the shortest time is not updated.
\<close>

fun edf_loop ::
    "(string \<Rightarrow> bool) \<Rightarrow> (string \<Rightarrow> sc_time result) \<Rightarrow> taskset \<Rightarrow> bool \<times> sc_time \<times> string option
       \<Rightarrow> (bool \<times> sc_time \<times> string option) result" where
  "edf_loop ready ttd [] acc = Inr acc"
| "edf_loop ready ttd (t # ts) (found, shortest, ret) =
     (if ready t then
        rbind (ttd t) (\<lambda>d.
          if found
          then edf_loop ready ttd ts (found, shortest, (if shortest > d then Some t else ret))
          else edf_loop ready ttd ts (True, d, Some t))
      else edf_loop ready ttd ts (found, shortest, ret))"

text \<open>
  With no ready task the second search compares the first task with itself at every position, since
  the loop does not advance \<open>curr_task_info\<close>: it returns the first task.
\<close>

definition edf_none_ready :: "(string \<Rightarrow> sc_time result) \<Rightarrow> taskset \<Rightarrow> string result" where
  "edf_none_ready ttd ts =
     (case ts of
        [] \<Rightarrow> undef ''end iterator''
      | t # rest \<Rightarrow>
          rbind (ttd t) (\<lambda>shortest.
            foldl (\<lambda>r _. rbind r (\<lambda>_. rbind (ttd t) (\<lambda>d. if shortest > d then Inr t else r)))
              (Inr t) rest))"

definition dispatch_edf ::
    "bool \<Rightarrow> (string \<Rightarrow> sc_time result) \<Rightarrow> (string \<Rightarrow> bool) \<Rightarrow> taskset \<Rightarrow> (string \<times> taskset) result" where
  "dispatch_edf flag ttd ready ts =
     (if ts = [] then undef ''end iterator''
      else
        rbind (edf_loop ready ttd ts (flag, 0, None)) (\<lambda>(found, _, ret).
          if found then
            (case ret of Some t \<Rightarrow> Inr (t, ts) | None \<Rightarrow> undef ''return_task_info'')
          else rmap (\<lambda>t. (t, ts)) (edf_none_ready ttd ts)))"

definition dispatch ::
    "bool \<Rightarrow> sc_time \<Rightarrow> task_store \<Rightarrow> scheduler \<Rightarrow> (string \<times> scheduler) result" where
  "dispatch flag now st s =
     (case sched_policy s of
        STATIC_SCHEDULING \<Rightarrow>
          rmap (\<lambda>(t, _, i). (t, s\<lparr>it_static_sched := i\<rparr>))
            (dispatch_static (static_schedule_by_task_info_pointers s, it_static_sched s))
      | CYCLE_EXECUTIVE \<Rightarrow>
          rbind (assigned s) (\<lambda>ts.
            rmap (\<lambda>(t, _, i). (t, s\<lparr>it_dyn_sched := i\<rparr>))
              (dispatch_cycle (is_ready st) (ts, it_dyn_sched s)))
      | STATIC_PRIORITIES \<Rightarrow>
          rmap (\<lambda>(t, _). (t, s)) (dispatch_priority (is_ready st) (tasks_by_priority s))
      | RANDOM_SCHEDULING \<Rightarrow> report ''RANDOM scheduling not implemented yet.''
      | PSEUDO_RANDOM_SCHEDULING \<Rightarrow> report ''PSEUDO-RANDOM scheduling not implemented yet.''
      | DYNAMIC_PRIORITIES \<Rightarrow>
          (case sched_dynamic_policy s of
             EARLIEST_DEADLINE_FIRST \<Rightarrow>
               rbind (assigned s) (\<lambda>ts.
                 rmap (\<lambda>(t, _). (t, s\<lparr>it_dyn_sched := length ts\<rparr>))
                   (dispatch_edf flag (\<lambda>n. get_time_to_next_deadline now (st n)) (is_ready st) ts))
           | _ \<Rightarrow> report (''Unknown or non-supported dynamic dispatch policy settled in scheduler ''
                    @ sched_name s @ ''. Please, review it.''))
      | _ \<Rightarrow> report (''Unknown or non-supported dispatch policy settled in scheduler ''
               @ sched_name s @ ''. Please, review it.''))"

end
