(* ===== verification/Dispatch_Contract.thy ===== *)
theory Dispatch_Contract
  imports Dispatch
begin

text \<open>
  The contract of a dispatching rule, as a locale: a rule picks a task of the set it serves, keeps its
  state well formed, and picks a ready task whenever the set has one. The cycle executive, the static
  priorities and the EDF rule (when its flag starts as false) are shown to satisfy it; the scheduler
  process rests on the contract alone.
\<close>

text \<open>The tasks a rule grants over a sequence of schedulings, each with its own ready tasks.\<close>

fun picks ::
    "(('t \<Rightarrow> bool) \<Rightarrow> 'st \<Rightarrow> ('t \<times> 'st) result) \<Rightarrow> ('t \<Rightarrow> bool) list \<Rightarrow> 'st \<Rightarrow> ('t list \<times> 'st) result"
  where
  "picks pick [] s = Inr ([], s)"
| "picks pick (r # rs) s =
     rbind (pick r s) (\<lambda>(t, s1). rmap (\<lambda>(ts, s2). (t # ts, s2)) (picks pick rs s1))"

locale dispatcher =
  fixes pick :: "('t \<Rightarrow> bool) \<Rightarrow> 'st \<Rightarrow> ('t \<times> 'st) result"
    and members :: "'st \<Rightarrow> 't set"
    and ok :: "'st \<Rightarrow> bool"
  assumes pick_total: "ok s \<Longrightarrow> \<exists>t s'. pick ready s = Inr (t, s')"
    and pick_member: "ok s \<Longrightarrow> pick ready s = Inr (t, s') \<Longrightarrow> t \<in> members s"
    and pick_ok: "ok s \<Longrightarrow> pick ready s = Inr (t, s') \<Longrightarrow> ok s'"
    and pick_members: "ok s \<Longrightarrow> pick ready s = Inr (t, s') \<Longrightarrow> members s' = members s"
    and pick_ready: "ok s \<Longrightarrow> pick ready s = Inr (t, s') \<Longrightarrow> x \<in> members s \<Longrightarrow> ready x \<Longrightarrow> ready t"
begin

lemma pick_obtain:
  assumes "ok s"
  obtains t s' where "pick ready s = Inr (t, s')" "t \<in> members s" "ok s'" "members s' = members s"
    "(\<exists>x \<in> members s. ready x) \<longrightarrow> ready t"
  using pick_total [OF assms, of ready] pick_member pick_ok pick_members pick_ready assms by metis

lemma picks_work_conserving:
  "ok s \<Longrightarrow> \<exists>ts s'. picks pick rs s = Inr (ts, s') \<and> length ts = length rs \<and> ok s' \<and>
     members s' = members s \<and> set ts \<subseteq> members s \<and>
     (\<forall>k < length rs. (\<exists>x \<in> members s. (rs ! k) x) \<longrightarrow> (rs ! k) (ts ! k))"
proof (induction rs arbitrary: s)
  case (Cons r rs)
  obtain t s1 where t: "pick r s = Inr (t, s1)" "t \<in> members s" "ok s1" "members s1 = members s"
    "(\<exists>x \<in> members s. r x) \<longrightarrow> r t" using pick_obtain [OF Cons.prems] by blast
  obtain ts s2 where ts: "picks pick rs s1 = Inr (ts, s2)" "length ts = length rs" "ok s2"
    "members s2 = members s1" "set ts \<subseteq> members s1"
    "\<forall>k < length rs. (\<exists>x \<in> members s1. (rs ! k) x) \<longrightarrow> (rs ! k) (ts ! k)"
    using Cons.IH [OF t(3)] by blast
  have "\<forall>k < length (r # rs). (\<exists>x \<in> members s. ((r # rs) ! k) x) \<longrightarrow> ((r # rs) ! k) ((t # ts) ! k)"
    using t(4,5) ts(6) by (simp add: nth_Cons split: nat.splits)
  then show ?case using t ts by (intro exI [of _ "t # ts"] exI [of _ s2]) simp
qed simp

end

subsection \<open>The cycle executive\<close>

definition cycle_ok :: "taskset \<times> nat \<Rightarrow> bool" where
  "cycle_ok st = (snd st < length (fst st))"

lemma mod_index: "i < length ts \<Longrightarrow> k mod length ts < length ts"
  by (rule mod_less_divisor) linarith

lemma circular_next_mod: "i < length ts \<Longrightarrow> circular_next ts i = Suc i mod length ts"
  by (auto simp: circular_next_def)

lemma cycle_loop_found:
  assumes "i < length ts" "m < k" "ready (ts ! ((i + m) mod length ts))"
    "\<forall>j < m. \<not> ready (ts ! ((i + j) mod length ts))"
  shows "cycle_loop ready ts k i v =
           (Some (ts ! ((i + m) mod length ts)), Suc (i + m) mod length ts)"
  using assms
proof (induction k arbitrary: i m v)
  case (Suc k)
  show ?case
  proof (cases m)
    case 0
    with Suc.prems show ?thesis by (simp add: circular_next_mod)
  next
    case (Suc m')
    let ?i = "circular_next ts i"
    have i: "?i = Suc i mod length ts" using Suc.prems(1) by (rule circular_next_mod)
    have lt: "?i < length ts" unfolding i using Suc.prems(1) by (rule mod_index)
    have sh: "(?i + j) mod length ts = (i + Suc j) mod length ts" for j
      by (simp add: i mod_add_left_eq)
    have nr: "\<not> ready (ts ! i)" using Suc.prems(1,4) Suc by fastforce
    have "cycle_loop ready ts k ?i (Some (ts ! i)) =
        (Some (ts ! ((?i + m') mod length ts)), Suc (?i + m') mod length ts)"
      by (rule Suc.IH) (use Suc.prems Suc lt sh in auto)
    then show ?thesis using nr Suc sh [of m'] sh [of "Suc m'"] by simp
  qed
qed simp

lemma cycle_loop_none:
  assumes "i < length ts" "\<forall>j < k. \<not> ready (ts ! ((i + j) mod length ts))"
  shows "cycle_loop ready ts k i v =
           (if k = 0 then v else Some (ts ! ((i + (k - 1)) mod length ts)), (i + k) mod length ts)"
  using assms
proof (induction k arbitrary: i v)
  case (Suc k)
  let ?i = "circular_next ts i"
  have i: "?i = Suc i mod length ts" using Suc.prems(1) by (rule circular_next_mod)
  have lt: "?i < length ts" unfolding i using Suc.prems(1) by (rule mod_index)
  have sh: "(?i + j) mod length ts = (i + Suc j) mod length ts" for j
    by (simp add: i mod_add_left_eq)
  have nr: "\<not> ready (ts ! i)" using Suc.prems by fastforce
  have ih: "cycle_loop ready ts k ?i (Some (ts ! i)) =
      (if k = 0 then Some (ts ! i) else Some (ts ! ((?i + (k - 1)) mod length ts)), (?i + k) mod length ts)"
    by (rule Suc.IH) (use Suc.prems lt sh in auto)
  show ?case using nr ih sh [of "k - 1"] sh [of k] Suc.prems(1) by (cases k) auto
qed simp

text \<open>The first ready task, counted circularly from the iterator.\<close>

lemma first_ready_offset:
  assumes "i < length ts" "x \<in> set ts" "ready x"
  obtains m where "m < length ts" "ready (ts ! ((i + m) mod length ts))"
    "\<forall>j < m. \<not> ready (ts ! ((i + j) mod length ts))"
proof -
  let ?n = "length ts" and ?P = "\<lambda>m. ready (ts ! ((i + m) mod length ts))"
  obtain p where p: "p < ?n" "ts ! p = x" using assms(2) by (auto simp: in_set_conv_nth)
  let ?d = "(p + ?n - i) mod ?n"
  have "(i + ?d) mod ?n = (i + (p + ?n - i)) mod ?n" by (simp add: mod_add_right_eq)
  also have "\<dots> = p" using p assms(1) by simp
  finally have "?P ?d" using p assms(3) by simp
  then have P: "?P (LEAST m. ?P m)" by (rule LeastI)
  have "(LEAST m. ?P m) \<le> ?d" using \<open>?P ?d\<close> by (rule Least_le)
  moreover have "?d < ?n" using assms(1) by (rule mod_index)
  ultimately have "(LEAST m. ?P m) < ?n" by simp
  then show thesis using P not_less_Least [where P = ?P] by (intro that) auto
qed

lemma dispatch_cycle_ready:
  assumes "i < length ts" "m < length ts" "ready (ts ! ((i + m) mod length ts))"
    "\<forall>j < m. \<not> ready (ts ! ((i + j) mod length ts))"
  shows "dispatch_cycle ready (ts, i) =
           Inr (ts ! ((i + m) mod length ts), ts, Suc (i + m) mod length ts)"
  using cycle_loop_found [OF assms] by (simp add: dispatch_cycle_def)

lemma dispatch_cycle_none_ready:
  assumes "i < length ts" "\<forall>x \<in> set ts. \<not> ready x"
  shows "dispatch_cycle ready (ts, i) = Inr (ts ! ((i + (length ts - 1)) mod length ts), ts, i)"
proof -
  have "\<forall>j < length ts. \<not> ready (ts ! ((i + j) mod length ts))"
    using assms(2) nth_mem [OF mod_index [OF assms(1)]] by blast
  from cycle_loop_none [OF assms(1) this, of None] show ?thesis
    using assms(1) by (auto simp: dispatch_cycle_def)
qed

lemma dispatch_cycle_cases:
  assumes "cycle_ok (ts, i)"
  shows "\<exists>t j. dispatch_cycle ready (ts, i) = Inr (t, ts, j) \<and> t \<in> set ts \<and> j < length ts \<and>
           ((\<exists>x \<in> set ts. ready x) \<longrightarrow> ready t)"
proof -
  have i: "i < length ts" using assms by (simp add: cycle_ok_def)
  show ?thesis
  proof (cases "\<exists>x \<in> set ts. ready x")
    case True
    then obtain m where m: "m < length ts" "ready (ts ! ((i + m) mod length ts))"
      "\<forall>j < m. \<not> ready (ts ! ((i + j) mod length ts))"
      using first_ready_offset [OF i] by blast
    have "ts ! ((i + m) mod length ts) \<in> set ts" by (rule nth_mem [OF mod_index [OF i]])
    moreover have "Suc (i + m) mod length ts < length ts" by (rule mod_index [OF i])
    ultimately show ?thesis using dispatch_cycle_ready [OF i m] m(2) by blast
  next
    case False
    have "ts ! ((i + (length ts - 1)) mod length ts) \<in> set ts"
      by (rule nth_mem [OF mod_index [OF i]])
    then show ?thesis using dispatch_cycle_none_ready [OF i, of ready] i False by blast
  qed
qed

interpretation cycle: dispatcher dispatch_cycle "\<lambda>st. set (fst st)" cycle_ok
proof
  fix s :: "taskset \<times> nat" and ready t s' x
  assume ok: "cycle_ok s"
  obtain ts i where s: "s = (ts, i)" by fastforce
  note cases = dispatch_cycle_cases [OF ok [unfolded s], of ready]
  show "\<exists>t s'. dispatch_cycle ready s = Inr (t, s')" using cases s by blast
  assume pick: "dispatch_cycle ready s = Inr (t, s')"
  show "t \<in> set (fst s)" "cycle_ok s'" "set (fst s') = set (fst s)"
    using cases pick by (auto simp: s cycle_ok_def)
  assume "x \<in> set (fst s)" "ready x"
  then show "ready t" using cases pick by (auto simp: s)
qed

subsection \<open>Static priorities\<close>

interpretation prio: dispatcher dispatch_priority set "\<lambda>tbp. tbp \<noteq> []"
proof
  fix s :: "string list" and ready t s' x
  assume ok: "s \<noteq> []"
  then obtain a r where s: "s = a # r" by (cases s) auto
  show "\<exists>t s'. dispatch_priority ready s = Inr (t, s')"
    by (simp add: dispatch_priority_def s split: option.splits)
  assume pick: "dispatch_priority ready s = Inr (t, s')"
  show "t \<in> set s" "s' \<noteq> []" "set s' = set s"
    using pick find_Some_mem [of ready s t]
    by (auto simp: dispatch_priority_def s split: option.splits if_splits)
  assume "x \<in> set s" "ready x"
  then show "ready t"
    using pick find_None_all [of ready s x] find_Some_mem [of ready s t]
    by (auto simp: dispatch_priority_def s split: option.splits)
qed

lemma dispatch_priority_value:
  "tbp \<noteq> [] \<Longrightarrow> dispatch_priority ready tbp =
     Inr ((case find ready tbp of Some r \<Rightarrow> r | None \<Rightarrow> hd tbp), tbp)"
  by (cases tbp) (auto simp: dispatch_priority_def split: option.splits)

subsection \<open>Earliest deadline first\<close>

text \<open>What the loop returns, started with the flag false and with every time to deadline defined.\<close>

lemma edf_loop_found:
  "edf_loop ready (\<lambda>n. Inr (f n)) ts (True, d, Some a) =
     Inr (True, d, Some (last (a # filter (\<lambda>t. ready t \<and> f t < d) ts)))"
  by (induction ts arbitrary: a) auto

lemma edf_loop_search:
  "edf_loop ready (\<lambda>n. Inr (f n)) ts (False, d0, None) =
     (case dropWhile (\<lambda>t. \<not> ready t) ts of
        [] \<Rightarrow> Inr (False, d0, None)
      | a # r \<Rightarrow> Inr (True, f a, Some (last (a # filter (\<lambda>t. ready t \<and> f t < f a) r))))"
  by (induction ts) (auto simp: edf_loop_found)

lemma edf_none_ready_first: "edf_none_ready (\<lambda>n. Inr (f n)) (t # ts) = Inr t"
proof -
  have "foldl (\<lambda>r _. rbind r (\<lambda>_. rbind (Inr (f t)) (\<lambda>d. if f t > d then Inr t else r))) (Inr t) ts
      = Inr t"
    by (induction ts) simp_all
  then show ?thesis by (simp add: edf_none_ready_def)
qed

lemma dropWhile_empty_iff: "dropWhile P xs = [] \<longleftrightarrow> (\<forall>x \<in> set xs. P x)"
  by (simp add: dropWhile_eq_Nil_conv)

lemma dispatch_edf_value:
  assumes "ts \<noteq> []"
  shows "dispatch_edf False (\<lambda>n. Inr (f n)) ready ts =
     (case filter ready ts of
        [] \<Rightarrow> Inr (hd ts, ts)
      | a # r \<Rightarrow> Inr (last (a # filter (\<lambda>t. f t < f a) r), ts))"
proof (cases "dropWhile (\<lambda>t. \<not> ready t) ts")
  case Nil
  then have "filter ready ts = []" by (simp add: dropWhile_empty_iff filter_empty_conv)
  moreover obtain t r where "ts = t # r" using assms by (cases ts) auto
  ultimately show ?thesis using Nil edf_none_ready_first [of f t r]
    by (simp add: dispatch_edf_def edf_loop_search)
next
  case (Cons a r)
  then have "ts = takeWhile (\<lambda>t. \<not> ready t) ts @ a # r"
    by (metis takeWhile_dropWhile_id)
  moreover have "filter ready (takeWhile (\<lambda>t. \<not> ready t) ts) = []"
    by (auto simp: filter_empty_conv dest: set_takeWhileD)
  moreover have "ready a" using Cons hd_dropWhile [of "\<lambda>t. \<not> ready t" ts] by simp
  ultimately have fl: "filter ready ts = a # filter ready r"
    by (metis append_Nil filter.simps(2) filter_append)
  have "filter (\<lambda>t. f t < f a) (filter ready r) = filter (\<lambda>t. ready t \<and> f t < f a) r"
    by (simp add: conj_commute)
  then show ?thesis using Cons assms
    by (simp add: dispatch_edf_def edf_loop_search fl)
qed

lemma last_filter_mem: "last (a # filter P r) \<in> set (a # r)"
  by (metis insert_iff last_in_set list.set(2) list.simps(3) filter_is_subset subsetD)

lemma dispatch_edf_cases:
  assumes "ts \<noteq> []"
  shows "\<exists>t. dispatch_edf False (\<lambda>n. Inr (f n)) ready ts = Inr (t, ts) \<and> t \<in> set ts \<and>
           ((\<exists>x \<in> set ts. ready x) \<longrightarrow> ready t)"
proof (cases "filter ready ts")
  case Nil
  then show ?thesis using assms by (auto simp: dispatch_edf_value filter_empty_conv)
next
  case (Cons a r)
  define t where "t = last (a # filter (\<lambda>t. f t < f a) r)"
  have "t \<in> set (filter ready ts)" unfolding Cons t_def by (rule last_filter_mem)
  then have "t \<in> set ts" "ready t" by simp_all
  moreover have "dispatch_edf False (\<lambda>n. Inr (f n)) ready ts = Inr (t, ts)"
    unfolding dispatch_edf_value [OF assms] Cons t_def by simp
  ultimately show ?thesis by blast
qed

interpretation edf: dispatcher "dispatch_edf False (\<lambda>n. Inr (f n))" set "\<lambda>ts. ts \<noteq> []"
  for f :: "string \<Rightarrow> nat"
proof
  fix s :: taskset and ready t s' x
  assume ok: "s \<noteq> []"
  note cases = dispatch_edf_cases [OF ok, of f ready]
  show "\<exists>t s'. dispatch_edf False (\<lambda>n. Inr (f n)) ready s = Inr (t, s')" using cases by blast
  assume pick: "dispatch_edf False (\<lambda>n. Inr (f n)) ready s = Inr (t, s')"
  show "t \<in> set s" "s' \<noteq> []" "set s' = set s" using cases pick ok by auto
  assume "x \<in> set s" "ready x"
  then show "ready t" using cases pick by auto
qed

subsection \<open>The dispatcher of a scheduler\<close>

text \<open>The configurations the dispatcher is called in: its rule is supported and its state prepared.\<close>

definition dispatch_wf :: "task_store \<Rightarrow> taskset \<Rightarrow> scheduler \<Rightarrow> bool" where
  "dispatch_wf st ts s \<longleftrightarrow> tasks_assigned s = Taskset ts \<and> ts \<noteq> [] \<and>
     (case sched_policy s of
        CYCLE_EXECUTIVE \<Rightarrow> it_dyn_sched s < length ts
      | STATIC_PRIORITIES \<Rightarrow> set (tasks_by_priority s) = set ts
      | DYNAMIC_PRIORITIES \<Rightarrow> sched_dynamic_policy s = EARLIEST_DEADLINE_FIRST \<and>
          (\<forall>n \<in> set ts. 0 < Period (st n))
      | _ \<Rightarrow> False)"

lemma edf_loop_cong:
  "(\<And>n. n \<in> set ts \<Longrightarrow> ttd n = ttd' n) \<Longrightarrow> edf_loop ready ttd ts acc = edf_loop ready ttd' ts acc"
proof (induction ts arbitrary: acc)
  case (Cons t ts)
  obtain found shortest ret where acc: "acc = (found, shortest, ret)" by (cases acc) auto
  have "ttd t = ttd' t" using Cons.prems by simp
  then show ?case using Cons by (cases "ttd' t") (simp_all add: acc)
qed simp

lemma dispatch_edf_cong:
  assumes "\<And>n. n \<in> set ts \<Longrightarrow> ttd n = ttd' n"
  shows "dispatch_edf flag ttd ready ts = dispatch_edf flag ttd' ready ts"
proof -
  have loop: "edf_loop ready ttd ts (flag, 0, None) = edf_loop ready ttd' ts (flag, 0, None)"
    using assms by (rule edf_loop_cong)
  have none: "edf_none_ready ttd ts = edf_none_ready ttd' ts"
    using assms by (cases ts) (simp_all add: edf_none_ready_def)
  show ?thesis unfolding dispatch_edf_def loop none ..
qed

text \<open>The time to the next deadline of a task with a positive period.\<close>

definition deadline_delay :: "sc_time \<Rightarrow> task_store \<Rightarrow> string \<Rightarrow> nat" where
  "deadline_delay now st n = ceil_div now (Period (st n)) * Period (st n) - now"

lemma dispatch_edf_store:
  assumes "\<forall>n \<in> set ts. 0 < Period (st n)"
  shows "dispatch_edf flag (\<lambda>n. get_time_to_next_deadline now (st n)) ready ts =
           dispatch_edf flag (\<lambda>n. Inr (deadline_delay now st n)) ready ts"
  by (rule dispatch_edf_cong)
    (use assms in \<open>simp add: time_to_next_deadline_value deadline_delay_def\<close>)

lemma dispatch_cycle_eq:
  "sched_policy s = CYCLE_EXECUTIVE \<Longrightarrow> tasks_assigned s = Taskset ts \<Longrightarrow>
     dispatch flag now st s = rmap (\<lambda>(t, _, i). (t, s\<lparr>it_dyn_sched := i\<rparr>))
       (dispatch_cycle (is_ready st) (ts, it_dyn_sched s))"
  by (simp add: dispatch_def assigned_def)

lemma dispatch_priority_eq:
  "sched_policy s = STATIC_PRIORITIES \<Longrightarrow>
     dispatch flag now st s =
       rmap (\<lambda>(t, _). (t, s)) (dispatch_priority (is_ready st) (tasks_by_priority s))"
  by (simp add: dispatch_def)

lemma dispatch_edf_eq:
  "sched_policy s = DYNAMIC_PRIORITIES \<Longrightarrow> sched_dynamic_policy s = EARLIEST_DEADLINE_FIRST \<Longrightarrow>
   tasks_assigned s = Taskset ts \<Longrightarrow> \<forall>n \<in> set ts. 0 < Period (st n) \<Longrightarrow>
     dispatch flag now st s = rmap (\<lambda>(t, _). (t, s\<lparr>it_dyn_sched := length ts\<rparr>))
       (dispatch_edf flag (\<lambda>n. Inr (deadline_delay now st n)) (is_ready st) ts)"
  by (simp add: dispatch_def assigned_def dispatch_edf_store)

lemma dispatch_wf_step:
  assumes "dispatch_wf st ts s"
  shows "\<exists>t s'. dispatch False now st s = Inr (t, s') \<and> t \<in> set ts \<and> dispatch_wf st ts s' \<and>
           ((\<exists>x \<in> set ts. is_ready st x) \<longrightarrow> is_ready st t) \<and> (\<exists>i. s' = s\<lparr>it_dyn_sched := i\<rparr>)"
proof (cases "sched_policy s")
  case CYCLE_EXECUTIVE
  then have ok: "tasks_assigned s = Taskset ts" "cycle_ok (ts, it_dyn_sched s)" "ts \<noteq> []"
    using assms by (simp_all add: dispatch_wf_def cycle_ok_def)
  obtain t j where d: "dispatch_cycle (is_ready st) (ts, it_dyn_sched s) = Inr (t, ts, j)"
    "t \<in> set ts" "j < length ts" "(\<exists>x \<in> set ts. is_ready st x) \<longrightarrow> is_ready st t"
    using dispatch_cycle_cases [OF ok(2)] by blast
  have "dispatch_wf st ts (s\<lparr>it_dyn_sched := j\<rparr>)"
    using ok d(3) CYCLE_EXECUTIVE by (simp add: dispatch_wf_def)
  then show ?thesis using d dispatch_cycle_eq [OF CYCLE_EXECUTIVE ok(1)] by auto
next
  case STATIC_PRIORITIES
  have set: "set (tasks_by_priority s) = set ts" "ts \<noteq> []"
    using assms STATIC_PRIORITIES by (simp_all add: dispatch_wf_def)
  then have "tasks_by_priority s \<noteq> []" by (metis set_empty)
  from prio.pick_obtain [OF this, of "is_ready st"] obtain t s1 where
    d: "dispatch_priority (is_ready st) (tasks_by_priority s) = Inr (t, s1)" "t \<in> set ts"
    "(\<exists>x \<in> set ts. is_ready st x) \<longrightarrow> is_ready st t" using set by metis
  have "\<exists>i. s = s\<lparr>it_dyn_sched := i\<rparr>" by (rule exI [of _ "it_dyn_sched s"]) simp
  moreover have "dispatch False now st s = Inr (t, s)"
    using d(1) by (simp add: dispatch_priority_eq [OF STATIC_PRIORITIES])
  ultimately show ?thesis using assms d(2,3) by blast
next
  case DYNAMIC_PRIORITIES
  then have ok: "tasks_assigned s = Taskset ts" "ts \<noteq> []" "\<forall>n \<in> set ts. 0 < Period (st n)"
    "sched_dynamic_policy s = EARLIEST_DEADLINE_FIRST"
    using assms by (simp_all add: dispatch_wf_def)
  obtain t where d: "dispatch_edf False (\<lambda>n. Inr (deadline_delay now st n)) (is_ready st) ts = Inr (t, ts)"
    "t \<in> set ts" "(\<exists>x \<in> set ts. is_ready st x) \<longrightarrow> is_ready st t"
    using dispatch_edf_cases [OF ok(2), of "deadline_delay now st" "is_ready st"] by blast
  have "dispatch_wf st ts (s\<lparr>it_dyn_sched := length ts\<rparr>)"
    using ok DYNAMIC_PRIORITIES by (simp add: dispatch_wf_def)
  then show ?thesis using d dispatch_edf_eq [OF DYNAMIC_PRIORITIES ok(4,1,3)] by auto
qed (use assms in \<open>simp_all add: dispatch_wf_def\<close>)

subsection \<open>Properties\<close>


definition raw_scheduler :: scheduler where
  "raw_scheduler =
     \<lparr>sched_name = ''s'', tick_timer_delay = 0, last_tick = 0, next_tick = 0,
      t_slicing_flag = False, sched_triggering_policy = NON_PREEMPTIVE,
      sched_policy = CYCLE_EXECUTIVE, sched_static_policy = USER_PRIORITIES,
      sched_dynamic_policy = EARLIEST_DEADLINE_FIRST, sched_t = \<lparr>scheduler_policy = CYCLE_EXECUTIVE, static_priorities_policy = USER_PRIORITIES,
        dynamic_priorities_policy = EARLIEST_DEADLINE_FIRST,
        scheduler_triggering_policy = NON_PREEMPTIVE\<rparr>, tasks_assigned = Null_Ptr,
      total_n_tasks = 0, tasks_by_priority = [], it_static_sched = 0, it_dyn_sched = 0,
      static_schedule_by_task_names = [], static_schedule_by_task_info_pointers = [],
      static_comm_schedule = [], static_comm_schedule_by_name = [],
      static_comm_schedule_by_task_names = [], sched_state = INNACTIVE,
      sched_consumption_signal = False, sched_comp_time = 0, n_schedulings = 0,
      n_context_changes = 0, last_simulation_time = 0, sched_PE = None, scheduling_time = 0,
      scheduling_time_set_flag = False, scheduling_time_calculator = None,
      sufficient_global_sim_time_factor = 0, sched_consumed_energy_J = Fin 0,
      past_task_info = None, current_task_info = None\<rparr>"

definition example_sched :: scheduler where
  "example_sched =
     new_scheduler_with_tasks raw_scheduler [''a'', ''b''] ''s'' 10 False NON_PREEMPTIVE
       CYCLE_EXECUTIVE"


lemma cycle_fair_gen:
  assumes "i < length ts" "d < length rs" "\<forall>r \<in> set rs. r (ts ! ((i + d) mod length ts))"
    "d < length ts"
  shows "\<exists>chosen st'. picks dispatch_cycle rs (ts, i) = Inr (chosen, st') \<and>
           ts ! ((i + d) mod length ts) \<in> set chosen"
  using assms
proof (induction rs arbitrary: i d)
  case (Cons r rs)
  let ?n = "length ts" and ?x = "ts ! ((i + d) mod length ts)"
  have "?x \<in> set ts" by (rule nth_mem [OF mod_index [OF Cons.prems(1)]])
  then obtain m where m: "m < ?n" "r (ts ! ((i + m) mod ?n))"
    "\<forall>j < m. \<not> r (ts ! ((i + j) mod ?n))"
    using first_ready_offset [OF Cons.prems(1), of ?x r] Cons.prems(3) by auto
  have md: "m \<le> d"
  proof (rule ccontr)
    assume "\<not> m \<le> d"
    with m(3) Cons.prems(3) show False by simp
  qed
  let ?i = "Suc (i + m) mod ?n"
  have i: "?i < ?n" by (rule mod_index [OF Cons.prems(1)])
  have pick: "dispatch_cycle r (ts, i) = Inr (ts ! ((i + m) mod ?n), ts, ?i)"
    by (rule dispatch_cycle_ready [OF Cons.prems(1) m])
  obtain ts' st' where rest: "picks dispatch_cycle rs (ts, ?i) = Inr (ts', st')"
    using cycle.picks_work_conserving [of "(ts, ?i)" rs] i by (auto simp: cycle_ok_def)
  show ?case
  proof (cases "m = d")
    case True
    then show ?thesis using pick rest by simp
  next
    case False
    then have d': "d - Suc m < length rs" "d - Suc m < ?n" using md Cons.prems(2,4) by auto
    have "(?i + (d - Suc m)) mod ?n = (Suc (i + m) + (d - Suc m)) mod ?n"
      by (rule mod_add_left_eq)
    moreover have "Suc (i + m) + (d - Suc m) = i + d" using md False by simp
    ultimately have eq: "(?i + (d - Suc m)) mod ?n = (i + d) mod ?n" by simp
    have "\<exists>chosen st'. picks dispatch_cycle rs (ts, ?i) = Inr (chosen, st') \<and>
        ts ! ((?i + (d - Suc m)) mod ?n) \<in> set chosen"
    proof (rule Cons.IH [OF i d'(1) _ d'(2)])
      show "\<forall>q \<in> set rs. q (ts ! ((?i + (d - Suc m)) mod ?n))"
        unfolding eq using Cons.prems(3) by auto
    qed
    then show ?thesis using pick eq by auto
  qed
qed simp

text \<open>
  C17: The cycle executive is fair: over as many schedulings as there are tasks, from any position of
  its iterator, every task that is ready at each of them is granted the processor.
\<close>
theorem cycle_executive_fair:
  assumes "i < length ts" "length rs = length ts" "x \<in> set ts" "\<forall>r \<in> set rs. r x"
  shows "\<exists>chosen st'. picks dispatch_cycle rs (ts, i) = Inr (chosen, st') \<and> x \<in> set chosen"
proof -
  let ?n = "length ts"
  obtain p where p: "p < ?n" "ts ! p = x" using assms(3) by (auto simp: in_set_conv_nth)
  let ?d = "(p + ?n - i) mod ?n"
  have "(i + ?d) mod ?n = (i + (p + ?n - i)) mod ?n" by (simp add: mod_add_right_eq)
  also have "\<dots> = p" using p assms(1) by simp
  finally have x: "ts ! ((i + ?d) mod ?n) = x" using p by simp
  have "?d < ?n" by (rule mod_index [OF assms(1)])
  then show ?thesis using cycle_fair_gen [of i ts ?d rs] assms x by simp
qed

theorem cycle_executive_fair_witness:
  "\<exists>chosen st'. picks dispatch_cycle [\<lambda>_. True, \<lambda>t. t \<noteq> ''a'', \<lambda>_. True]
      ([''a'', ''b'', ''c''], 1) = Inr (chosen, st') \<and> ''c'' \<in> set chosen"
  using cycle_executive_fair [of 1 "[''a'', ''b'', ''c'']"
      "[\<lambda>_. True, \<lambda>t. t \<noteq> ''a'', \<lambda>_. True]" "''c''"] by simp

text \<open>
  With no ready task the cycle executive does not move on: it returns the task just before its
  iterator, counted circularly, and leaves the iterator where it was, at every such scheduling.
\<close>
theorem cycle_executive_idle:
  assumes "sched_policy s = CYCLE_EXECUTIVE" "tasks_assigned s = Taskset ts"
    and "it_dyn_sched s < length ts" "\<forall>x \<in> set ts. \<not> is_ready st x"
  shows "dispatch flag now st s =
           Inr (ts ! ((it_dyn_sched s + (length ts - 1)) mod length ts), s)"
  using dispatch_cycle_none_ready [OF assms(3,4)] dispatch_cycle_eq [OF assms(1,2)] by simp

theorem cycle_executive_idle_witness:
  "dispatch False 0 (\<lambda>n. example_task\<lparr>state_signal := WAIT_PERIOD\<rparr>) example_sched =
     Inr (''b'', example_sched)"
  using cycle_executive_idle [of example_sched "[''a'', ''b'']"
      "\<lambda>n. example_task\<lparr>state_signal := WAIT_PERIOD\<rparr>" False 0]
  by (simp add: example_sched_def new_scheduler_with_tasks_def new_scheduler_def is_ready_def
      raw_scheduler_def)

text \<open>
  Under EDF with its flag read as false the dispatcher takes the last ready task whose time to the
  next deadline is below that of the FIRST ready task, or the first ready task when there is none.
  The choice is the earliest deadline when at most two tasks are ready; with three it need not be.
\<close>
theorem edf_choice:
  fixes now :: sc_time
  assumes "sched_policy s = DYNAMIC_PRIORITIES" "sched_dynamic_policy s = EARLIEST_DEADLINE_FIRST"
    and "tasks_assigned s = Taskset ts" "\<forall>n \<in> set ts. 0 < Period (st n)"
    and "filter (is_ready st) ts = a # r"
  defines "f \<equiv> deadline_delay now st"
  shows "dispatch False now st s =
           Inr (last (a # filter (\<lambda>t. f t < f a) r), s\<lparr>it_dyn_sched := length ts\<rparr>)
       \<and> (length r \<le> 1 \<longrightarrow> (\<forall>x \<in> set (a # r). f (last (a # filter (\<lambda>t. f t < f a) r)) \<le> f x))"
proof -
  have "ts \<noteq> []" using assms(5) by auto
  from dispatch_edf_value [OF this, of f "is_ready st"] assms(5)
  have "dispatch_edf False (\<lambda>n. Inr (f n)) (is_ready st) ts =
      Inr (last (a # filter (\<lambda>t. f t < f a) r), ts)" by simp
  then have "dispatch False now st s =
      Inr (last (a # filter (\<lambda>t. f t < f a) r), s\<lparr>it_dyn_sched := length ts\<rparr>)"
    using dispatch_edf_eq [OF assms(1-4)] unfolding f_def by simp
  moreover have "\<forall>x \<in> set (a # r). f (last (a # filter (\<lambda>t. f t < f a) r)) \<le> f x"
    if "length r \<le> 1"
  proof (cases r)
    case (Cons b r')
    then show ?thesis using that by simp
  qed simp
  ultimately show ?thesis by blast
qed

definition edf_store :: task_store where
  "edf_store n =
     example_task\<lparr>Period := (if n = ''a'' then 30 else if n = ''b'' then 10 else 20)\<rparr>"

theorem edf_choice_witness:
  "dispatch False 1 edf_store
     (example_sched\<lparr>sched_policy := DYNAMIC_PRIORITIES, tasks_assigned := Taskset [''a'', ''b'', ''c'']\<rparr>)
   = Inr (''c'', example_sched\<lparr>sched_policy := DYNAMIC_PRIORITIES,
       tasks_assigned := Taskset [''a'', ''b'', ''c''], it_dyn_sched := 3\<rparr>) \<and>
   deadline_delay 1 edf_store ''b'' < deadline_delay 1 edf_store ''c''"
  using edf_choice [of "example_sched\<lparr>sched_policy := DYNAMIC_PRIORITIES,
        tasks_assigned := Taskset [''a'', ''b'', ''c'']\<rparr>" "[''a'', ''b'', ''c'']" edf_store "''a''"
      "[''b'', ''c'']" 1]
  by (simp add: example_sched_def new_scheduler_with_tasks_def new_scheduler_def is_ready_def
      edf_store_def deadline_delay_def ceil_div_def example_task_def raw_scheduler_def)

end
