(* ===== verification/Scheduler.thy ===== *)
theory Scheduler
  imports Static_Analysis Dispatch_Contract
begin

text \<open>
  The operations of \<open>scheduler.cpp\<close> other than the dispatcher: configuration, the checks and the
  preparation at the end of elaboration, the scheduling times of \<open>scheduler_penalties.cpp\<close> and
  \<open>scheduling_time_calculators.cpp\<close>, and the reports.

  \<open>sched_globals\<close> holds the globals these files share. \<open>std::sort\<close> is a parameter: the standard says
  that it permutes the vector into an order in which no element precedes a smaller one, and leaves
  the order of equivalent elements open.
\<close>

record sched_globals =
  scheduling_times_enabled_flag :: bool
  common_scheduling_time_calculator :: "SCHTIME_FPTR option"
  scheduling_time_calculator_table :: "(scheduler_t \<times> SCHTIME_FPTR option) list"
  global_scheduling_time :: sc_time
  global_sim_time :: sc_time

definition initial_sched_globals :: sched_globals where
  "initial_sched_globals =
     \<lparr>scheduling_times_enabled_flag = False, common_scheduling_time_calculator = None,
      scheduling_time_calculator_table = [], global_scheduling_time = 0,
      global_sim_time = sc_time_ns (10 ^ 12)\<rparr>"

subsection \<open>Configuration\<close>

definition set_triggering_policy ::
    "sim_env \<Rightarrow> scheduler_triggering_policy_t \<Rightarrow> scheduler \<Rightarrow> scheduler result" where
  "set_triggering_policy e p s =
     (if sc_running e then report ''. This has to be done before the simulation starts.''
      else Inr (s\<lparr>sched_triggering_policy := p\<rparr>))"

definition set_preemptive :: "sim_env \<Rightarrow> scheduler \<Rightarrow> scheduler result" where
  "set_preemptive e s = set_triggering_policy e PREEMPTIVE s"

definition set_cooperative :: "sim_env \<Rightarrow> scheduler \<Rightarrow> scheduler result" where
  "set_cooperative e s = set_triggering_policy e COOPERATIVE s"

definition set_non_preemptive :: "sim_env \<Rightarrow> scheduler \<Rightarrow> scheduler result" where
  "set_non_preemptive e s = set_triggering_policy e NON_PREEMPTIVE s"

definition enable_time_slicing :: "sim_env \<Rightarrow> scheduler \<Rightarrow> scheduler result" where
  "enable_time_slicing e s =
     (if sc_running e then report '' has to be set before the simulation starts.''
      else Inr (s\<lparr>t_slicing_flag := True\<rparr>))"

definition set_tick_timer_delay :: "sim_env \<Rightarrow> sc_time \<Rightarrow> scheduler \<Rightarrow> scheduler result" where
  "set_tick_timer_delay e d s =
     (if sc_running e then report '' has to be set before the simulation starts.''
      else Inr (s\<lparr>tick_timer_delay := d\<rparr>))"

definition set_policy :: "sim_env \<Rightarrow> scheduler_policy_t \<Rightarrow> scheduler \<Rightarrow> scheduler result" where
  "set_policy e p s =
     (if sc_running e
      then report '' has to be set and configured before the simulation starts.''
      else Inr (s\<lparr>sched_policy := p\<rparr>))"

definition set_static_schedule :: "string list \<Rightarrow> scheduler \<Rightarrow> scheduler" where
  "set_static_schedule sch s = s\<lparr>static_schedule_by_task_names := sch\<rparr>"

definition set_static_schedule_by_task_ptrs :: "string list \<Rightarrow> scheduler \<Rightarrow> scheduler" where
  "set_static_schedule_by_task_ptrs sch s = s\<lparr>static_schedule_by_task_info_pointers := sch\<rparr>"

definition set_static_priorities_policy ::
    "sim_env \<Rightarrow> static_priorities_policy_t \<Rightarrow> scheduler \<Rightarrow> scheduler result" where
  "set_static_priorities_policy e p s =
     rmap (\<lambda>s1. s1\<lparr>sched_static_policy := p\<rparr>) (set_policy e STATIC_PRIORITIES s)"

definition set_rate_monotonic :: "sim_env \<Rightarrow> scheduler \<Rightarrow> scheduler result" where
  "set_rate_monotonic e s = set_static_priorities_policy e RATE_MONOTONIC s"

definition set_deadline_monotonic :: "sim_env \<Rightarrow> scheduler \<Rightarrow> scheduler result" where
  "set_deadline_monotonic e s = set_static_priorities_policy e DEADLINE_MONOTONIC s"

definition set_density_monotonic :: "sim_env \<Rightarrow> scheduler \<Rightarrow> scheduler result" where
  "set_density_monotonic e s = set_static_priorities_policy e DENSITY_MONOTONIC s"

definition set_dynamic_priorities_policy ::
    "sim_env \<Rightarrow> dynamic_priorities_policy_t \<Rightarrow> scheduler \<Rightarrow> scheduler result" where
  "set_dynamic_priorities_policy e p s =
     rmap (\<lambda>s1. s1\<lparr>sched_dynamic_policy := p\<rparr>) (set_policy e DYNAMIC_PRIORITIES s)"

definition set_earliest_deadline_first :: "sim_env \<Rightarrow> scheduler \<Rightarrow> scheduler result" where
  "set_earliest_deadline_first e s = set_dynamic_priorities_policy e EARLIEST_DEADLINE_FIRST s"

definition set_Round_Robin :: "sim_env \<Rightarrow> scheduler \<Rightarrow> scheduler result" where
  "set_Round_Robin e s =
     rbind (set_preemptive e s) (\<lambda>s1. rbind (set_policy e CYCLE_EXECUTIVE s1) (enable_time_slicing e))"

definition is_preemptive :: "scheduler \<Rightarrow> bool" where
  "is_preemptive s = (sched_triggering_policy s = PREEMPTIVE)"

definition is_cooperative :: "scheduler \<Rightarrow> bool" where
  "is_cooperative s = (sched_triggering_policy s = COOPERATIVE)"

definition is_non_preemptive :: "scheduler \<Rightarrow> bool" where
  "is_non_preemptive s = (sched_triggering_policy s = NON_PREEMPTIVE)"

definition allocate :: "sim_env \<Rightarrow> taskset_ptr \<Rightarrow> scheduler \<Rightarrow> scheduler result" where
  "allocate e ts s =
     (if sc_status e = SC_ELABORATION then Inr (s\<lparr>tasks_assigned := ts\<rparr>)
      else report (''Scheduler '' @ sched_name s @
             '': allocate() has to be called at elaboration time (before the sc_start).''))"

definition map_to ::
    "sim_env \<Rightarrow> processing_element \<Rightarrow> scheduler \<Rightarrow> (scheduler \<times> processing_element) result" where
  "map_to e pe s =
     (if sc_status e = SC_ELABORATION then
        rmap (\<lambda>pe1. (s\<lparr>sched_PE := Some (pe_name pe)\<rparr>, pe1)) (map_scheduler e (sched_name s) pe)
      else report (''Scheduler '' @ sched_name s @
             '': map_to() has to be called at elaboration time (before the sc_start).''))"

definition set_static_comm_scheduling :: "sim_env \<Rightarrow> link_ptr list \<Rightarrow> scheduler \<Rightarrow> scheduler result" where
  "set_static_comm_scheduling e l s =
     rbind (check_call_before_sim_start e ''set_static_comm_scheduling by llink'')
       (\<lambda>_. Inr (s\<lparr>static_comm_schedule := l\<rparr>))"

definition set_static_comm_scheduling_by_name ::
    "sim_env \<Rightarrow> string list \<Rightarrow> scheduler \<Rightarrow> scheduler result" where
  "set_static_comm_scheduling_by_name e l s =
     rbind (check_call_before_sim_start e ''set_static_comm_scheduling by link names'')
       (\<lambda>_. Inr (s\<lparr>static_comm_schedule_by_name := l\<rparr>))"

definition set_static_comm_scheduling_by_task_names ::
    "sim_env \<Rightarrow> (string \<times> string) list \<Rightarrow> scheduler \<Rightarrow> scheduler result" where
  "set_static_comm_scheduling_by_task_names e l s =
     rbind (check_call_before_sim_start e ''set_static_comm_scheduling by task link names'')
       (\<lambda>_. Inr (s\<lparr>static_comm_schedule_by_task_names := l\<rparr>))"

subsection \<open>Scheduling times\<close>

definition enable_scheduling_times :: "sched_globals \<Rightarrow> sched_globals" where
  "enable_scheduling_times g = g\<lparr>scheduling_times_enabled_flag := True\<rparr>"

definition disable_scheduling_times :: "sched_globals \<Rightarrow> sched_globals" where
  "disable_scheduling_times g = g\<lparr>scheduling_times_enabled_flag := False\<rparr>"

definition are_scheduling_times_enabled :: "sched_globals \<Rightarrow> bool" where
  "are_scheduling_times_enabled g = scheduling_times_enabled_flag g"

definition set_common_scheduling_time_calculator ::
    "SCHTIME_FPTR option \<Rightarrow> sched_globals \<Rightarrow> sched_globals" where
  "set_common_scheduling_time_calculator f g = g\<lparr>common_scheduling_time_calculator := f\<rparr>"

definition set_scheduling_time_calculator_for ::
    "SCHTIME_FPTR option \<Rightarrow> scheduler_t \<Rightarrow> sched_globals \<Rightarrow> sched_globals" where
  "set_scheduling_time_calculator_for f k g =
     g\<lparr>scheduling_time_calculator_table := table_put k f (scheduling_time_calculator_table g)\<rparr>"

definition get_scheduling_time_calculator_for ::
    "scheduler_t \<Rightarrow> sched_globals \<Rightarrow> SCHTIME_FPTR option" where
  "get_scheduling_time_calculator_for k g =
     (case table_find k (scheduling_time_calculator_table g) of None \<Rightarrow> None | Some f \<Rightarrow> f)"

definition set_scheduler_scheduling_time_calculator ::
    "sim_env \<Rightarrow> SCHTIME_FPTR option \<Rightarrow> scheduler \<Rightarrow> scheduler result" where
  "set_scheduler_scheduling_time_calculator e f s =
     rbind (check_call_at_elaboration e ''set_scheduling_time(sc_time time) (scheduler method)'')
       (\<lambda>_. Inr (s\<lparr>scheduling_time_calculator := f\<rparr>))"

definition set_scheduler_scheduling_time :: "sim_env \<Rightarrow> sc_time \<Rightarrow> scheduler \<Rightarrow> scheduler result" where
  "set_scheduler_scheduling_time e t s =
     rbind (check_call_at_elaboration e ''set_scheduling_time(sc_time time) (scheduler method)'')
       (\<lambda>_. Inr (s\<lparr>scheduling_time := t, scheduling_time_set_flag := True\<rparr>))"

definition set_global_scheduling_time :: "sim_env \<Rightarrow> sc_time \<Rightarrow> sched_globals \<Rightarrow> sched_globals result" where
  "set_global_scheduling_time e t g =
     rbind (check_call_at_elaboration e ''set_scheduling_time(sc_time time)'')
       (\<lambda>_. Inr (g\<lparr>global_scheduling_time := t\<rparr>))"

text \<open>The key of the second table entry is a local with only its policy set.\<close>

definition set_default_scheduling_time_calculators ::
    "scheduler_t \<Rightarrow> sched_globals \<Rightarrow> sched_globals" where
  "set_default_scheduling_time_calculators raw g =
     set_scheduling_time_calculator_for (Some Sched_Time_Constant)
       (raw\<lparr>scheduler_policy := STATIC_SCHEDULING\<rparr>)
       (set_common_scheduling_time_calculator (Some Sched_Time_Proportional_To_Ready_Tasks) g)"

definition sched_time_constant :: "sched_globals \<Rightarrow> sc_time" where
  "sched_time_constant g = global_scheduling_time g"

definition sched_time_proportional_to_assigned_tasks :: "sched_globals \<Rightarrow> taskset \<Rightarrow> sc_time" where
  "sched_time_proportional_to_assigned_tasks g ts = global_scheduling_time g * length ts"

definition sched_time_proportional_to_ready_tasks ::
    "sched_globals \<Rightarrow> task_store \<Rightarrow> taskset \<Rightarrow> sc_time" where
  "sched_time_proportional_to_ready_tasks g st ts =
     global_scheduling_time g *
       length (filter (\<lambda>n. active_signal (st n) \<or> state_signal (st n) = READY
                          \<or> state_signal (st n) = EXECUTING) ts)"

definition apply_calculator ::
    "(nat \<Rightarrow> scheduler \<Rightarrow> sc_time result) \<Rightarrow> sched_globals \<Rightarrow> task_store \<Rightarrow> scheduler \<Rightarrow> SCHTIME_FPTR
       \<Rightarrow> sc_time result" where
  "apply_calculator user g st s f =
     (case f of
        Sched_Time_Constant \<Rightarrow> Inr (sched_time_constant g)
      | Sched_Time_Proportional_To_Assigned_Tasks \<Rightarrow>
          rmap (sched_time_proportional_to_assigned_tasks g) (assigned s)
      | Sched_Time_Proportional_To_Ready_Tasks \<Rightarrow>
          rmap (sched_time_proportional_to_ready_tasks g st) (assigned s)
      | User_Calculator i \<Rightarrow> user i s)"

definition check_scheduling_time :: "sc_time \<Rightarrow> scheduler \<Rightarrow> unit result" where
  "check_scheduling_time t s =
     (if t_slicing_flag s
      then check (\<not> t > tick_timer_delay s)
             (''Scheduler '' @ sched_name s @ '' : Scheduling time is bigger than tick timer delay, so there is no chance for tasks execution.'')
      else Inr ())"

subsection \<open>The end of elaboration\<close>

text \<open>Only a priority of zero is an error; a repeated priority is a warning.\<close>

definition check_priorities :: "task_store \<Rightarrow> taskset \<Rightarrow> scheduler \<Rightarrow> unit result" where
  "check_priorities st ts s =
     check (filter (\<lambda>n. priority (st n) = 0) ts = [])
       ('' task(s) assigned with priority 0 (which is reserved) assigned to scheduler '' @ sched_name s)"

definition check_and_prepare_static_schedule :: "taskset \<Rightarrow> scheduler \<Rightarrow> scheduler result" where
  "check_and_prepare_static_schedule ts s =
     (let names = static_schedule_by_task_names s; ptrs = static_schedule_by_task_info_pointers s in
      rbind (check (\<not> (length names = 0 \<and> length ptrs = 0))
               (''Scheduler '' @ sched_name s @ '' : No static schedule was provided.'')) (\<lambda>_.
      rbind (if length names \<noteq> 0 \<and> length ptrs \<noteq> 0 then
               (if length names \<noteq> length ptrs
                then report (''Scheduler '' @ sched_name s @ '' : Non coherent schedules were provided both, by task names, and by pointers'')
                else check (list_all (\<lambda>i. names ! i = ptrs ! i) [0..<length ptrs])
                       (''Scheduler '' @ sched_name s @ '' : static schedules by task names and by pointers to task information handlers were provided, but they are not coherent.''))
             else Inr ()) (\<lambda>_.
      rbind (if length names \<noteq> 0
             then rbind (check (list_all (\<lambda>n. n \<in> set ts) names)
                    (''Scheduler '' @ sched_name s @ '' : Task does not belong to the task set assigned to the scheduler.''))
                    (\<lambda>_. Inr (ptrs @ names))
             else Inr ptrs) (\<lambda>ptrs1.
      rbind (check (list_all (\<lambda>n. n \<in> set ptrs1) ts)
               (''Scheduler '' @ sched_name s @ '' : Task is present in the task set assigned to the scheduler, but not in the static schedule.''))
        (\<lambda>_. Inr (s\<lparr>static_schedule_by_task_info_pointers := ptrs1, it_static_sched := 0\<rparr>))))))"

definition compact_type :: "scheduler \<Rightarrow> scheduler_t" where
  "compact_type s =
     \<lparr>scheduler_policy = sched_policy s, static_priorities_policy = sched_static_policy s,
      dynamic_priorities_policy = sched_dynamic_policy s,
      scheduler_triggering_policy = sched_triggering_policy s\<rparr>"

text \<open>
  Before the end of elaboration: the tasks learn their scheduler, and a scheduler without a processing
  element gets a new one, named \<open>fresh\<close>.
\<close>

definition sched_before_end_of_elaboration ::
    "string \<Rightarrow> task_store \<Rightarrow> scheduler \<Rightarrow> (scheduler \<times> task_store) result" where
  "sched_before_end_of_elaboration fresh st s =
     (case tasks_assigned s of
        Indeterminate_Ptr \<Rightarrow> undef ''task set pointer''
      | Null_Ptr \<Rightarrow> report (''Scheduler '' @ sched_name s @ '': Unexpected error. Tasks assigned pointer is NULL.'')
      | Taskset ts \<Rightarrow>
          Inr (s\<lparr>sched_t := compact_type s, total_n_tasks := length ts,
                 sched_PE := (case sched_PE s of None \<Rightarrow> Some fresh | Some p \<Rightarrow> Some p)\<rparr>,
               (\<lambda>n. if n \<in> set ts then (st n)\<lparr>sched_p := Some (sched_name s)\<rparr> else st n)))"

text \<open>The comparison of two tasks under each policy of static priorities.\<close>

definition density_less :: "task_info_t \<Rightarrow> task_info_t \<Rightarrow> bool" where
  "density_less t1 t2 = (case less_than_by_density t1 t2 of Inr b \<Rightarrow> b | Inl _ \<Rightarrow> False)"

definition sort_by_policy ::
    "((string \<Rightarrow> string \<Rightarrow> bool) \<Rightarrow> string list \<Rightarrow> string list) \<Rightarrow> task_store \<Rightarrow> scheduler
       \<Rightarrow> string list \<Rightarrow> string list result" where
  "sort_by_policy std_sort st s tbp =
     (case sched_static_policy s of
        USER_PRIORITIES \<Rightarrow> Inr (std_sort (\<lambda>a b. less_than_by_user_priority (st a) (st b)) tbp)
      | RATE_MONOTONIC \<Rightarrow> Inr (std_sort (\<lambda>a b. less_than_by_period (st a) (st b)) tbp)
      | DEADLINE_MONOTONIC \<Rightarrow> Inr (std_sort (\<lambda>a b. less_than_by_deadline (st a) (st b)) tbp)
      | DENSITY_MONOTONIC \<Rightarrow>
          (if 2 \<le> length tbp \<and> \<not> list_all (\<lambda>n. deadline_settled (st n)) tbp
           then report ''No deadline has been settled for task''
           else Inr (std_sort (\<lambda>a b. density_less (st a) (st b)) tbp))
      | _ \<Rightarrow> report (''Unknown or non-supported static dispatch policy settled in scheduler '' @ sched_name s))"

definition sched_end_of_elaboration_policy ::
    "((string \<Rightarrow> string \<Rightarrow> bool) \<Rightarrow> string list \<Rightarrow> string list)
       \<Rightarrow> (nat \<Rightarrow> task_store \<Rightarrow> taskset \<Rightarrow> unit result) \<Rightarrow> sim_env \<Rightarrow> analysis_globals \<Rightarrow> task_store
       \<Rightarrow> taskset \<Rightarrow> scheduler \<Rightarrow> scheduler result" where
  "sched_end_of_elaboration_policy std_sort user e ag st ts s =
     (if sched_policy s = STATIC_SCHEDULING then check_and_prepare_static_schedule ts s
      else
        rbind (if sched_policy s = STATIC_PRIORITIES \<or> sched_policy s = DYNAMIC_PRIORITIES
               then check_priorities st ts s else Inr ()) (\<lambda>_.
        rbind (sort_by_policy std_sort st s (ts @ tasks_by_priority s)) (\<lambda>tbp.
        rbind (if is_static_analysis_enabled ag
               then static_analysis user e ag st ts (compact_type s) else Inr ()) (\<lambda>_.
          Inr (s\<lparr>tasks_by_priority := tbp, it_dyn_sched := 0\<rparr>)))))"

text \<open>
  The choice of the scheduling time: the local \<open>sched_t\<close> of \<open>end_of_elaboration\<close> hides the member of
  that name and is not initialised, so the key of the table lookup is the argument \<open>raw\<close>.
\<close>

definition select_scheduling_time :: "scheduler_t \<Rightarrow> sched_globals \<Rightarrow> scheduler \<Rightarrow> scheduler" where
  "select_scheduling_time raw g s =
     (if scheduling_time_calculator s = None then
        (let s1 = s\<lparr>scheduling_time_calculator := get_scheduling_time_calculator_for raw g\<rparr> in
         if scheduling_time_calculator s1 = None then
           (let s2 = s1\<lparr>scheduling_time_calculator := common_scheduling_time_calculator g\<rparr> in
            if scheduling_time_calculator s2 = None then
              (if scheduling_time_set_flag s2 = False
               then s2\<lparr>scheduling_time := global_scheduling_time g\<rparr> else s2)
            else s2)
         else s1)
      else s)"

definition get_WCET_of :: "task_store \<Rightarrow> string list \<Rightarrow> sc_time" where
  "get_WCET_of st ns = sum_list (map (\<lambda>n. WCET (st n)) ns)"

definition set_global_simulation_time_limit ::
    "sim_env \<Rightarrow> sc_time \<Rightarrow> sched_globals \<Rightarrow> sched_globals result" where
  "set_global_simulation_time_limit e t g =
     (if sc_status e \<in> {SC_RUNNING, SC_PAUSED, SC_STOPPED}
      then report ''Global simulation time has to be settled before the simulation start.''
      else Inr (g\<lparr>global_sim_time := t\<rparr>))"

definition requested_simulation_time ::
    "sim_env \<Rightarrow> task_store \<Rightarrow> taskset \<Rightarrow> scheduler \<Rightarrow> sc_time result" where
  "requested_simulation_time e st ts s =
     (let k = unat (sufficient_global_sim_time_factor s) in
      if sched_policy s = STATIC_SCHEDULING
      then Inr (k * get_WCET_of st (static_schedule_by_task_info_pointers s))
      else if sched_policy s = CYCLE_EXECUTIVE then Inr (k * get_WCET_of st ts)
      else rbind (taskset_is_periodic e st ts) (\<lambda>p.
             if p then rmap (\<lambda>h. k * h) (get_hyperperiod e st ts) else Inr 0))"

definition revise_simulation_time ::
    "sim_env \<Rightarrow> task_store \<Rightarrow> taskset \<Rightarrow> scheduler \<Rightarrow> sched_globals \<Rightarrow> sched_globals result" where
  "revise_simulation_time e st ts s g =
     (if sufficient_global_sim_time_factor s > 0
      then rbind (requested_simulation_time e st ts s) (\<lambda>t.
             if t > global_sim_time g then set_global_simulation_time_limit e t g else Inr g)
      else Inr g)"

definition sched_end_of_elaboration_times ::
    "scheduler_t \<Rightarrow> sim_env \<Rightarrow> task_store \<Rightarrow> taskset \<Rightarrow> scheduler \<Rightarrow> sched_globals
       \<Rightarrow> (scheduler \<times> sched_globals) result" where
  "sched_end_of_elaboration_times raw e st ts s g =
     (let s1 = select_scheduling_time raw g s in
      rbind (if scheduling_time_calculator s1 = None
             then check_scheduling_time (scheduling_time s1) s1 else Inr ()) (\<lambda>_.
        rmap (\<lambda>g1. (s1, g1)) (revise_simulation_time e st ts s1 g)))"

definition set_sufficient_global_simulation_time ::
    "sim_env \<Rightarrow> task_store \<Rightarrow> u32 \<Rightarrow> scheduler \<Rightarrow> scheduler result" where
  "set_sufficient_global_simulation_time e st n s =
     (if sc_status e = SC_ELABORATION then
        rbind (check (n \<noteq> 0) (''Scheduler '' @ sched_name s @
                 '': set_sufficient_global_simulation_time(0) invalid.'')) (\<lambda>_.
        rbind (if sched_policy s = STATIC_SCHEDULING \<or> sched_policy s = CYCLE_EXECUTIVE then Inr True
               else rbind (assigned s) (taskset_is_periodic e st)) (\<lambda>ok.
          Inr (if ok then s\<lparr>sufficient_global_sim_time_factor := n\<rparr> else s)))
      else report (''Scheduler '' @ sched_name s @
             '': set_sufficient_global_simulation_time(n) has to be called at elaboration time (before the sc_start).''))"

end
