(* ===== verification/Scheduler_Proc.thy ===== *)
theory Scheduler_Proc
  imports Scheduler
begin

text \<open>
  \<open>scheduler::scheduler_proc\<close> as the three sections between its waits, the events it waits for, the
  step relation of a scheduler with the tasks it controls, and the reports of a scheduler.

  A round of the process: \<open>sched_resume\<close> (the scheduler computes) up to the wait for the scheduling
  time, or for two delta cycles; \<open>sched_grant\<close> up to the wait for a triggering event; \<open>sched_retire\<close>,
  which takes the processor away, followed by the next round.
\<close>

datatype sched_event =
  Yield_Event | Completion_Event | Tick_Timer_Event | Running_Task_To_Wait_State_Event
| Innactive_Task_Ends_Wait_Event

definition scheduler_event_trigger_list :: "scheduler \<Rightarrow> sched_event list" where
  "scheduler_event_trigger_list s =
     (if sched_policy s = STATIC_SCHEDULING then [Yield_Event]
      else if is_preemptive s then
        [Yield_Event, Completion_Event, Tick_Timer_Event, Running_Task_To_Wait_State_Event,
         Innactive_Task_Ends_Wait_Event]
      else if is_cooperative s then [Yield_Event, Completion_Event]
      else [Completion_Event])"

text \<open>The check at the start of the process, when it prints the configuration.\<close>

definition sched_proc_start :: "scheduler \<Rightarrow> unit result" where
  "sched_proc_start s =
     (if sched_policy s = STATIC_SCHEDULING
      then check (\<not> (static_schedule_by_task_names s = [] \<and>
                      static_schedule_by_task_info_pointers s = []))
             ('' : No static schedule was provided for scheduler '' @ sched_name s @ ''.'')
      else Inr ())"

text \<open>
  The result of \<open>sched_resume\<close>: the scheduler, whether \<open>sc_stop\<close> was called, and whether the round is
  one with a scheduling time.
\<close>

definition sched_resume ::
    "(nat \<Rightarrow> scheduler \<Rightarrow> sc_time result) \<Rightarrow> sim_env \<Rightarrow> sched_globals \<Rightarrow> task_store \<Rightarrow> scheduler
       \<Rightarrow> (scheduler \<times> bool \<times> bool) result" where
  "sched_resume user e g st s =
     (let s1 = s\<lparr>sched_state := SCHEDULING, sched_consumption_signal := True\<rparr>;
          stop = (sc_now e \<ge> global_sim_time g) in
      if are_scheduling_times_enabled g then
        rbind (case scheduling_time_calculator s1 of
                 Some f \<Rightarrow> rmap (\<lambda>t. s1\<lparr>scheduling_time := t\<rparr>) (apply_calculator user g st s1 f)
               | None \<Rightarrow> Inr s1) (\<lambda>s2.
        rbind (if t_slicing_flag s2 then check_scheduling_time (scheduling_time s2) s2 else Inr ())
          (\<lambda>_. Inr (s2, stop, True)))
      else Inr (s1, stop, False))"

definition sched_grant ::
    "bool \<Rightarrow> sc_time \<Rightarrow> bool \<Rightarrow> task_store \<Rightarrow> scheduler \<Rightarrow> (scheduler \<times> task_store) result" where
  "sched_grant flag now timed st s =
     (let s1 = (if timed then s\<lparr>sched_comp_time := sched_comp_time s + scheduling_time s\<rparr> else s) in
      rmap (\<lambda>(t, s2).
        (s2\<lparr>n_context_changes :=
              (case past_task_info s2 of
                 Some p \<Rightarrow> (if t \<noteq> p then n_context_changes s2 + 1 else n_context_changes s2)
               | None \<Rightarrow> n_context_changes s2),
            past_task_info := Some t, current_task_info := Some t,
            n_schedulings := n_schedulings s2 + 1, sched_state := INNACTIVE,
            sched_consumption_signal := False\<rparr>,
         st(t := (st t)\<lparr>active_signal := True\<rparr>)))
        (dispatch flag now st s1))"

definition sched_retire :: "task_store \<Rightarrow> scheduler \<Rightarrow> task_store" where
  "sched_retire st s =
     (case current_task_info s of
        Some t \<Rightarrow> st(t := (st t)\<lparr>active_signal := False\<rparr>)
      | None \<Rightarrow> st)"

subsection \<open>The tick timer\<close>

text \<open>One round of \<open>gen_tick_timer_event\<close> notifies and waits for the tick timer delay.\<close>

definition gen_tick_timer_event :: "sc_time \<Rightarrow> scheduler \<Rightarrow> (scheduler \<times> sc_time) option" where
  "gen_tick_timer_event now s =
     (if t_slicing_flag s
      then Some (s\<lparr>last_tick := now, next_tick := now + tick_timer_delay s\<rparr>, tick_timer_delay s)
      else None)"

subsection \<open>Reports\<close>

definition sched_end_of_simulation :: "sim_env \<Rightarrow> scheduler \<Rightarrow> scheduler" where
  "sched_end_of_simulation e s = s\<lparr>last_simulation_time := sc_now e\<rparr>"

definition utilization_report :: "sim_env \<Rightarrow> scheduler \<Rightarrow> sc_time \<Rightarrow> double" where
  "utilization_report e s t =
     (if sc_status e = SC_STOPPED then sc_ratio t (last_simulation_time s)
      else if sc_running e \<and> sc_now e > 0 then sc_ratio t (sc_now e)
      else Fin 0)"

definition get_task_utilization ::
    "sim_env \<Rightarrow> task_store \<Rightarrow> string \<Rightarrow> scheduler \<Rightarrow> double result" where
  "get_task_utilization e st n s =
     rbind (assigned s) (\<lambda>ts.
     rbind (check (n \<in> set ts) (n @ '' is not a task assigned to scheduler '' @ sched_name s @ ''.'')) (\<lambda>_.
       Inr (utilization_report e s (occupation_time (st n)))))"

definition get_tasks_utilization :: "sim_env \<Rightarrow> task_store \<Rightarrow> scheduler \<Rightarrow> double result" where
  "get_tasks_utilization e st s =
     rbind (assigned s) (\<lambda>ts.
       Inr (utilization_report e s (sum_list (map (\<lambda>n. occupation_time (st n)) ts))))"

definition get_scheduler_utilization :: "sim_env \<Rightarrow> scheduler \<Rightarrow> double" where
  "get_scheduler_utilization e s = utilization_report e s (sched_comp_time s)"

definition get_platform_utilization :: "sim_env \<Rightarrow> task_store \<Rightarrow> scheduler \<Rightarrow> double result" where
  "get_platform_utilization e st s =
     rmap (\<lambda>u. dadd u (get_scheduler_utilization e s)) (get_tasks_utilization e st s)"

definition assess_starvation_of :: "sim_env \<Rightarrow> task_store \<Rightarrow> string \<Rightarrow> scheduler \<Rightarrow> bool result" where
  "assess_starvation_of e st n s =
     rbind (assigned s) (\<lambda>ts.
     rbind (check (n \<in> set ts) (n @ '' is not a task assigned to scheduler '' @ sched_name s @ ''.'')) (\<lambda>_.
       if sc_status e = SC_STOPPED then Inr (occupation_time (st n) = 0)
       else report ''asses starvations methods can be called only at the end of the simulation.''))"

definition assess_starvation :: "task_store \<Rightarrow> scheduler \<Rightarrow> bool result" where
  "assess_starvation st s = rmap (list_ex (\<lambda>n. occupation_time (st n) = 0)) (assigned s)"

definition miss_deadlines :: "task_store \<Rightarrow> scheduler \<Rightarrow> bool result" where
  "miss_deadlines st s = rmap (list_ex (\<lambda>n. miss_deadline (st n))) (assigned s)"

definition sched_get_consumed_energy_J ::
    "sim_env \<Rightarrow> processing_element option \<Rightarrow> scheduler \<Rightarrow> (scheduler \<times> double) result" where
  "sched_get_consumed_energy_J e PE s =
     rbind (check_call_after_sim_start e ''get_consumed_energy_J'') (\<lambda>_.
       case PE of
         None \<Rightarrow> undef ''null processing element''
       | Some pe \<Rightarrow>
           rmap (\<lambda>p. let en = dmul (Fin (to_seconds (sched_comp_time s))) p
                      in (s\<lparr>sched_consumed_energy_J := en\<rparr>, en))
             (get_peak_dyn_power_W e pe))"

subsection \<open>A scheduler with its tasks\<close>

datatype sched_phase = Not_Started | Computing bool | Granted

record sched_config =
  the_sched :: scheduler
  the_tasks :: task_store
  the_phase :: sched_phase

text \<open>
  What the rest of the model may do to the tasks at any moment: everything except to write the active
  signal of a task of this scheduler, which only this process does.
\<close>

definition tasks_move :: "taskset \<Rightarrow> task_store \<Rightarrow> task_store \<Rightarrow> bool" where
  "tasks_move ts st st' \<longleftrightarrow> (\<forall>n \<in> set ts. active_signal (st' n) = active_signal (st n))"

inductive sched_step ::
    "(nat \<Rightarrow> scheduler \<Rightarrow> sc_time result) \<Rightarrow> taskset \<Rightarrow> sched_config \<Rightarrow> sched_config \<Rightarrow> bool"
  for user ts where
  step_start:
    "the_phase c = Not_Started \<Longrightarrow> ts \<noteq> [] \<Longrightarrow> sched_proc_start (the_sched c) = Inr () \<Longrightarrow>
     sched_resume user e g (the_tasks c) (the_sched c) = Inr (s', stop, timed) \<Longrightarrow>
     sched_step user ts c (c\<lparr>the_sched := s', the_phase := Computing timed\<rparr>)"
| step_grant:
    "the_phase c = Computing timed \<Longrightarrow>
     sched_grant flag now timed (the_tasks c) (the_sched c) = Inr (s', st') \<Longrightarrow>
     sched_step user ts c (c\<lparr>the_sched := s', the_tasks := st', the_phase := Granted\<rparr>)"
| step_trigger:
    "the_phase c = Granted \<Longrightarrow> ev \<in> set (scheduler_event_trigger_list (the_sched c)) \<Longrightarrow>
     st' = sched_retire (the_tasks c) (the_sched c) \<Longrightarrow>
     sched_resume user e g st' (the_sched c) = Inr (s', stop, timed) \<Longrightarrow>
     sched_step user ts c (c\<lparr>the_sched := s', the_tasks := st', the_phase := Computing timed\<rparr>)"
| step_tasks:
    "tasks_move ts (the_tasks c) st' \<Longrightarrow> sched_step user ts c (c\<lparr>the_tasks := st'\<rparr>)"

inductive sched_reachable ::
    "(nat \<Rightarrow> scheduler \<Rightarrow> sc_time result) \<Rightarrow> taskset \<Rightarrow> sched_config \<Rightarrow> bool"
  for user ts where
  reach_init: "the_phase c = Not_Started \<Longrightarrow> \<forall>n \<in> set ts. \<not> active_signal (the_tasks c n) \<Longrightarrow>
     n_schedulings (the_sched c) = 0 \<Longrightarrow> n_context_changes (the_sched c) = 0 \<Longrightarrow>
     sched_reachable user ts c"
| reach_step: "sched_reachable user ts c \<Longrightarrow> sched_step user ts c c' \<Longrightarrow> sched_reachable user ts c'"

inductive_cases sched_step_cases: "sched_step user ts c c'"

text \<open>The processor is with the current task while it is granted, and with none otherwise.\<close>

definition sched_inv :: "taskset \<Rightarrow> sched_config \<Rightarrow> bool" where
  "sched_inv ts c \<longleftrightarrow>
     (case the_phase c of
        Granted \<Rightarrow> (\<exists>t. current_task_info (the_sched c) = Some t \<and> sched_state (the_sched c) = INNACTIVE \<and>
                     (\<forall>n \<in> set ts. active_signal (the_tasks c n) \<longleftrightarrow> n = t))
      | Computing _ \<Rightarrow> sched_state (the_sched c) = SCHEDULING \<and>
                     (\<forall>n \<in> set ts. \<not> active_signal (the_tasks c n))
      | Not_Started \<Rightarrow> (\<forall>n \<in> set ts. \<not> active_signal (the_tasks c n)))"

lemma sched_resume_state:
  "sched_resume user e g st s = Inr (s', stop, timed) \<Longrightarrow>
     sched_state s' = SCHEDULING \<and> (\<exists>t. s' = s\<lparr>sched_state := SCHEDULING,
       sched_consumption_signal := True, scheduling_time := t\<rparr>)"
proof -
  assume r: "sched_resume user e g st s = Inr (s', stop, timed)"
  have self: "\<exists>t. s\<lparr>sched_state := SCHEDULING, sched_consumption_signal := True\<rparr> =
      s\<lparr>sched_state := SCHEDULING, sched_consumption_signal := True, scheduling_time := t\<rparr>"
    by (rule exI [of _ "scheduling_time s"]) simp
  show ?thesis
    using r self
    by (auto simp add: sched_resume_def Let_def rbind_eq_Inr rmap_eq_Inr
        split: if_splits option.splits)
qed

lemma dispatch_frame:
  "dispatch flag now st s = Inr (t, s') \<Longrightarrow>
     n_schedulings s' = n_schedulings s \<and> n_context_changes s' = n_context_changes s \<and>
     past_task_info s' = past_task_info s \<and> sched_comp_time s' = sched_comp_time s"
  by (auto simp: dispatch_def rmap_eq_Inr rbind_eq_Inr
      split: scheduler_policy_t.splits dynamic_priorities_policy_t.splits)

lemma sched_grant_effect:
  assumes "sched_grant flag now timed st s = Inr (s', st')"
  shows "\<exists>t s2. dispatch flag now st (if timed
             then s\<lparr>sched_comp_time := sched_comp_time s + scheduling_time s\<rparr> else s) = Inr (t, s2) \<and>
           current_task_info s' = Some t \<and> past_task_info s' = Some t \<and> sched_state s' = INNACTIVE \<and>
           n_schedulings s' = n_schedulings s + 1 \<and>
           (n_context_changes s' = n_context_changes s \<or>
            n_context_changes s' = n_context_changes s + 1 \<and> past_task_info s \<noteq> None) \<and>
           st' = st(t := (st t)\<lparr>active_signal := True\<rparr>)"
proof -
  let ?s1 = "if timed then s\<lparr>sched_comp_time := sched_comp_time s + scheduling_time s\<rparr> else s"
  from assms obtain t s2 where d: "dispatch flag now st ?s1 = Inr (t, s2)"
    by (auto simp only: sched_grant_def Let_def rmap_eq_Inr)
  note fr = dispatch_frame [OF d]
  show ?thesis
    by (intro exI [of _ t] exI [of _ s2] conjI d)
      (use assms fr in \<open>auto simp add: sched_grant_def Let_def d split: option.splits if_splits\<close>)
qed

lemma sched_retire_inactive:
  assumes "current_task_info s = Some t" "\<forall>n \<in> set ts. active_signal (st n) \<longleftrightarrow> n = t"
  shows "\<forall>n \<in> set ts. \<not> active_signal (sched_retire st s n)"
  using assms by (simp add: sched_retire_def)

lemma sched_inv_step: "sched_inv ts c \<Longrightarrow> sched_step user ts c c' \<Longrightarrow> sched_inv ts c'"
proof (erule sched_step_cases, goal_cases)
  case (1 e g s' stop timed)
  then show ?case using sched_resume_state [OF 1(6)] by (simp add: sched_inv_def)
next
  case (2 timed flag now s' st')
  then show ?case using sched_grant_effect [OF 2(4)] by (auto simp: sched_inv_def)
next
  case (3 ev e g s' stop timed)
  then show ?case
    using sched_resume_state [OF 3(5)] sched_retire_inactive
    by (fastforce simp: sched_inv_def)
next
  case (4 st')
  then show ?case
    by (cases "the_phase c") (simp_all add: sched_inv_def tasks_move_def)
qed

lemma sched_reachable_inv: "sched_reachable user ts c \<Longrightarrow> sched_inv ts c"
proof (induction rule: sched_reachable.induct)
  case (reach_init c)
  then show ?case by (simp add: sched_inv_def)
next
  case (reach_step c c')
  then show ?case using sched_inv_step by blast
qed

end
