(* ===== verification/Priority_Order.thy ===== *)
theory Priority_Order
  imports Scheduler_Proc
begin

text \<open>
  The order of the static priorities: the contract of \<open>std::sort\<close> as a locale, its interpretation on a
  stable insertion sort, and what the contract gives the dispatcher, whichever order of equivalent
  tasks a particular library chooses.
\<close>

text \<open>The comparators \<open>std::sort\<close> accepts: strict weak orders on the elements it sorts.\<close>

definition strict_weak_on :: "'a set \<Rightarrow> ('a \<Rightarrow> 'a \<Rightarrow> bool) \<Rightarrow> bool" where
  "strict_weak_on A lt \<longleftrightarrow>
     (\<forall>x \<in> A. \<not> lt x x) \<and>
     (\<forall>x \<in> A. \<forall>y \<in> A. \<forall>z \<in> A. lt x y \<longrightarrow> lt y z \<longrightarrow> lt x z) \<and>
     (\<forall>x \<in> A. \<forall>y \<in> A. \<forall>z \<in> A. \<not> lt x y \<longrightarrow> \<not> lt y z \<longrightarrow> \<not> lt x z)"

locale std_sort =
  fixes srt :: "('a \<Rightarrow> 'a \<Rightarrow> bool) \<Rightarrow> 'a list \<Rightarrow> 'a list"
  assumes sort_mset: "strict_weak_on (set xs) lt \<Longrightarrow> mset (srt lt xs) = mset xs"
    and sort_sorted: "strict_weak_on (set xs) lt \<Longrightarrow> sorted_wrt (\<lambda>a b. \<not> lt b a) (srt lt xs)"
begin

lemma sort_set: "strict_weak_on (set xs) lt \<Longrightarrow> set (srt lt xs) = set xs"
  using sort_mset by (metis set_mset_mset)

lemma sort_empty: "strict_weak_on (set xs) lt \<Longrightarrow> srt lt xs = [] \<longleftrightarrow> xs = []"
  using sort_set by (metis set_empty)

text \<open>The first element with a property, in sorted order: none with the property is smaller.\<close>

lemma sort_find_minimal:
  assumes "strict_weak_on (set xs) lt" "find P (srt lt xs) = Some t" "x \<in> set xs" "P x"
  shows "\<not> lt x t"
proof -
  have "sorted_wrt (\<lambda>a b. \<not> lt b a) ys \<Longrightarrow> find P ys = Some t \<Longrightarrow> x \<in> set ys \<Longrightarrow>
      x = t \<or> \<not> lt x t" for ys
    using assms(4) by (induction ys) (auto split: if_splits)
  moreover have "t \<in> set xs" using assms(1,2) find_Some_mem sort_set by metis
  then have "\<not> lt t t" using assms(1) by (simp add: strict_weak_on_def)
  ultimately show ?thesis
    using sort_sorted [OF assms(1)] assms(1-3) sort_set by metis
qed

end

subsection \<open>A sort that keeps the order of equivalent elements\<close>

fun insert_wrt :: "('a \<Rightarrow> 'a \<Rightarrow> bool) \<Rightarrow> 'a \<Rightarrow> 'a list \<Rightarrow> 'a list" where
  "insert_wrt lt x [] = [x]"
| "insert_wrt lt x (y # ys) = (if lt y x then y # insert_wrt lt x ys else x # y # ys)"

fun insertion_sort :: "('a \<Rightarrow> 'a \<Rightarrow> bool) \<Rightarrow> 'a list \<Rightarrow> 'a list" where
  "insertion_sort lt [] = []"
| "insertion_sort lt (x # xs) = insert_wrt lt x (insertion_sort lt xs)"

lemma insert_wrt_mset [simp]: "mset (insert_wrt lt x xs) = add_mset x (mset xs)"
  by (induction xs) auto

lemma insertion_sort_mset [simp]: "mset (insertion_sort lt xs) = mset xs"
  by (induction xs) auto

lemma insert_wrt_set [simp]: "set (insert_wrt lt x xs) = insert x (set xs)"
  by (induction xs) auto

lemma insertion_sort_set [simp]: "set (insertion_sort lt xs) = set xs"
  by (induction xs) auto

lemma strict_weak_on_subset: "strict_weak_on A lt \<Longrightarrow> B \<subseteq> A \<Longrightarrow> strict_weak_on B lt"
  unfolding strict_weak_on_def by blast

lemma strict_weak_asym:
  "strict_weak_on A lt \<Longrightarrow> x \<in> A \<Longrightarrow> y \<in> A \<Longrightarrow> lt x y \<Longrightarrow> \<not> lt y x"
  unfolding strict_weak_on_def by blast

lemma insert_wrt_sorted:
  assumes "strict_weak_on (insert x (set xs)) lt" "sorted_wrt (\<lambda>a b. \<not> lt b a) xs"
  shows "sorted_wrt (\<lambda>a b. \<not> lt b a) (insert_wrt lt x xs)"
  using assms
proof (induction xs)
  case (Cons y ys)
  have sub: "strict_weak_on (insert x (set ys)) lt"
    using Cons.prems(1) by (rule strict_weak_on_subset) auto
  show ?case
  proof (cases "lt y x")
    case True
    then have "\<not> lt x y" using Cons.prems(1) by (intro strict_weak_asym) auto
    then show ?thesis using True Cons sub by auto
  next
    case False
    have "\<not> lt z x" if "z \<in> set ys" for z
      using Cons.prems that False unfolding strict_weak_on_def sorted_wrt.simps
      by (meson insertI1 insertI2 list.set_intros)
    then show ?thesis using False Cons.prems(2) by auto
  qed
qed simp

interpretation insertion: std_sort insertion_sort
proof
  fix xs :: "'a list" and lt
  assume sw: "strict_weak_on (set xs) lt"
  show "mset (insertion_sort lt xs) = mset xs" by simp
  from sw show "sorted_wrt (\<lambda>a b. \<not> lt b a) (insertion_sort lt xs)"
  proof (induction xs)
    case (Cons x xs)
    have "strict_weak_on (set xs) lt" using Cons.prems by (rule strict_weak_on_subset) auto
    then have "sorted_wrt (\<lambda>a b. \<not> lt b a) (insertion_sort lt xs)" by (rule Cons.IH)
    then show ?case using Cons.prems by (simp add: insert_wrt_sorted)
  qed simp
qed

subsection \<open>The comparators of the schedulers\<close>

text \<open>Which of two tasks a policy of static priorities puts first.\<close>

definition prioritary :: "static_priorities_policy_t \<Rightarrow> task_info_t \<Rightarrow> task_info_t \<Rightarrow> bool" where
  "prioritary p a b =
     (case p of
        RATE_MONOTONIC \<Rightarrow> Period a < Period b
      | DEADLINE_MONOTONIC \<Rightarrow> Deadline a < Deadline b
      | DENSITY_MONOTONIC \<Rightarrow> WCET b * Deadline a < WCET a * Deadline b
      | _ \<Rightarrow> priority a < priority b)"

definition policy_ready :: "static_priorities_policy_t \<Rightarrow> task_store \<Rightarrow> taskset \<Rightarrow> bool" where
  "policy_ready p st ts \<longleftrightarrow>
     p \<in> {USER_PRIORITIES, RATE_MONOTONIC, DEADLINE_MONOTONIC, DENSITY_MONOTONIC} \<and>
     (p = DENSITY_MONOTONIC \<longrightarrow> (\<forall>n \<in> set ts. 0 < Deadline (st n)))"

lemma key_strict_weak: "strict_weak_on A (\<lambda>a b. (f a :: 'k :: linorder) < f b)"
  unfolding strict_weak_on_def by auto

lemma density_less_eq:
  "0 < Deadline a \<Longrightarrow> 0 < Deadline b \<Longrightarrow> density_less a b \<longleftrightarrow> WCET b * Deadline a < WCET a * Deadline b"
  by (simp add: density_less_def less_than_by_density_eq)

lemma density_strict_weak:
  assumes "\<forall>n \<in> A. 0 < Deadline (st n)"
  shows "strict_weak_on A (\<lambda>a b. density_less (st a) (st b))"
proof -
  define f where "f n = - (of_nat (WCET (st n)) / of_nat (Deadline (st n)) :: rat)" for n
  have "density_less (st a) (st b) \<longleftrightarrow> f a < f b" if "a \<in> A" "b \<in> A" for a b
  proof -
    have pos: "0 < Deadline (st a)" "0 < Deadline (st b)" using assms that by auto
    then have "f a < f b \<longleftrightarrow>
        (of_nat (WCET (st b) * Deadline (st a)) :: rat) < of_nat (WCET (st a) * Deadline (st b))"
      by (simp add: f_def field_simps)
    then show ?thesis using density_less_eq [OF pos] by (simp only: of_nat_less_iff)
  qed
  then show ?thesis using key_strict_weak [of A f] by (simp add: strict_weak_on_def)
qed

text \<open>The sort at the end of elaboration orders the tasks by the policy.\<close>

lemma sort_by_policy_ok:
  assumes "policy_ready (sched_static_policy s) st ts"
  shows "\<exists>lt. sort_by_policy srt st s ts = Inr (srt lt ts) \<and> strict_weak_on (set ts) lt \<and>
           (\<forall>a \<in> set ts. \<forall>b \<in> set ts. lt a b \<longleftrightarrow> prioritary (sched_static_policy s) (st a) (st b))"
proof (cases "sched_static_policy s")
  case USER_PRIORITIES
  then show ?thesis
    by (intro exI [of _ "\<lambda>a b. less_than_by_user_priority (st a) (st b)"])
      (simp add: sort_by_policy_def less_than_by_user_priority_def prioritary_def key_strict_weak)
next
  case RATE_MONOTONIC
  then show ?thesis
    by (intro exI [of _ "\<lambda>a b. less_than_by_period (st a) (st b)"])
      (simp add: sort_by_policy_def less_than_by_period_def prioritary_def key_strict_weak)
next
  case DEADLINE_MONOTONIC
  then show ?thesis
    by (intro exI [of _ "\<lambda>a b. less_than_by_deadline (st a) (st b)"])
      (simp add: sort_by_policy_def less_than_by_deadline_def prioritary_def key_strict_weak)
next
  case DENSITY_MONOTONIC
  then have "\<forall>n \<in> set ts. 0 < Deadline (st n)" using assms by (simp add: policy_ready_def)
  then show ?thesis using DENSITY_MONOTONIC
    by (intro exI [of _ "\<lambda>a b. density_less (st a) (st b)"])
      (simp add: sort_by_policy_def prioritary_def density_strict_weak density_less_eq
        deadline_settled_def list_all_iff)
qed (use assms in \<open>simp_all add: policy_ready_def\<close>)

end
