(* ===== verification/Scheduler_Props.thy ===== *)
theory Scheduler_Props
  imports Priority_Order
begin

text \<open>
  The properties of a scheduler as a whole: mutual exclusion of its tasks, the order of the static
  priorities, the static schedules, the simulation time it asks for and its reports.
\<close>

text \<open>
  C1: The processor is never granted twice. In every state a scheduler and its tasks can reach, at most
  one task of the scheduler is active, and one is active only while the scheduler itself is inactive,
  between a grant and the next triggering event.
\<close>
theorem processor_mutual_exclusion:
  assumes "sched_reachable user ts c" "n \<in> set ts" "active_signal (the_tasks c n)"
  shows "sched_state (the_sched c) = INNACTIVE \<and>
    (\<forall>m \<in> set ts. active_signal (the_tasks c m) \<longrightarrow> m = n)"
proof -
  have "sched_inv ts c" using assms(1) by (rule sched_reachable_inv)
  then show ?thesis using assms(2,3)
    by (cases "the_phase c") (auto simp: sched_inv_def)
qed

definition idle_globals :: sched_globals where
  "idle_globals = initial_sched_globals"

definition started :: sched_config where
  "started = \<lparr>the_sched = example_sched, the_tasks = example_store, the_phase = Not_Started\<rparr>"

definition no_calculator :: "nat \<Rightarrow> scheduler \<Rightarrow> sc_time result" where
  "no_calculator i s = Inr 0"

lemma example_reachable:
  "\<exists>s' st'. sched_reachable no_calculator [''a'', ''b'']
     \<lparr>the_sched = s', the_tasks = st', the_phase = Granted\<rparr> \<and> active_signal (st' ''a'')"
proof -
  let ?s1 = "example_sched\<lparr>sched_state := SCHEDULING, sched_consumption_signal := True\<rparr>"
  have init: "sched_reachable no_calculator [''a'', ''b''] started"
    by (rule reach_init)
      (simp_all add: started_def example_store_def example_task_def example_sched_def
        new_scheduler_with_tasks_def new_scheduler_def)
  have resume: "sched_resume no_calculator example_env initial_sched_globals (the_tasks started)
      (the_sched started) = Inr (?s1, False, False)"
    by (simp add: sched_resume_def Let_def are_scheduling_times_enabled_def
        initial_sched_globals_def example_env_def started_def sc_time_ns_def)
  have one: "sched_reachable no_calculator [''a'', ''b'']
      (started\<lparr>the_sched := ?s1, the_phase := Computing False\<rparr>)"
    by (rule reach_step [OF init], rule step_start [OF _ _ _ resume])
      (simp_all add: started_def sched_proc_start_def example_sched_def
        new_scheduler_with_tasks_def new_scheduler_def)
  have d: "dispatch False 0 example_store ?s1 = Inr (''a'', ?s1\<lparr>it_dyn_sched := 1\<rparr>)"
    by (simp add: dispatch_def assigned_def example_sched_def new_scheduler_with_tasks_def
        new_scheduler_def raw_scheduler_def dispatch_cycle_def is_ready_def example_store_def
        example_task_def circular_next_def)
  obtain s' where g: "sched_grant False 0 False example_store ?s1 =
      Inr (s', example_store(''a'' := (example_store ''a'')\<lparr>active_signal := True\<rparr>))"
    using d by (simp add: sched_grant_def Let_def)
  have two: "sched_reachable no_calculator [''a'', ''b'']
      (started\<lparr>the_sched := s',
         the_tasks := example_store(''a'' := (example_store ''a'')\<lparr>active_signal := True\<rparr>),
         the_phase := Granted\<rparr>)"
    using reach_step [OF one step_grant, of False False 0 s'
        "example_store(''a'' := (example_store ''a'')\<lparr>active_signal := True\<rparr>)"] g
    by (simp add: started_def)
  then show ?thesis
    by (intro exI [of _ s']
        exI [of _ "example_store(''a'' := (example_store ''a'')\<lparr>active_signal := True\<rparr>)"])
      (simp add: started_def)
qed

theorem processor_mutual_exclusion_witness:
  "\<exists>c :: sched_config. active_signal (the_tasks c ''a'') \<and> sched_state (the_sched c) = INNACTIVE \<and>
     (\<forall>m \<in> set [''a'', ''b'']. active_signal (the_tasks c m) \<longrightarrow> m = ''a'')"
proof -
  obtain s' st' where r: "sched_reachable no_calculator [''a'', ''b'']
     \<lparr>the_sched = s', the_tasks = st', the_phase = Granted\<rparr>" "active_signal (st' ''a'')"
    using example_reachable by blast
  show ?thesis
    by (rule exI [of _ "\<lparr>the_sched = s', the_tasks = st', the_phase = Granted\<rparr>"])
      (use processor_mutual_exclusion [OF r(1), of "''a''"] r(2) in simp)
qed

text \<open>
  C12: Static priorities serve the most priority ready task. After the end of elaboration sorted the
  tasks (by user priority, period, deadline or density, with any sort that keeps the promise of
  \<open>std::sort\<close>), every dispatch returns, when some task is ready, a ready one such that no ready
  task comes strictly before it in the order of the policy.
\<close>
theorem static_priorities_dispatch:
  assumes "std_sort srt" "policy_ready (sched_static_policy s) st ts" "ts \<noteq> []"
    and "sched_policy s = STATIC_PRIORITIES" "tasks_by_priority s = []"
    and "sched_end_of_elaboration_policy srt user e ag st ts s = Inr s'"
  shows "\<exists>t. dispatch flag now st' s' = Inr (t, s') \<and> t \<in> set ts \<and>
    (\<forall>x \<in> set ts. is_ready st' x \<longrightarrow>
       is_ready st' t \<and> \<not> prioritary (sched_static_policy s) (st x) (st t))"
proof -
  obtain lt where lt: "sort_by_policy srt st s ts = Inr (srt lt ts)" "strict_weak_on (set ts) lt"
    "\<forall>a \<in> set ts. \<forall>b \<in> set ts. lt a b \<longleftrightarrow> prioritary (sched_static_policy s) (st a) (st b)"
    using sort_by_policy_ok [OF assms(2), of srt] by blast
  have s': "tasks_by_priority s' = srt lt ts" "sched_policy s' = STATIC_PRIORITIES"
    using assms(4-6) lt(1)
    by (auto simp: sched_end_of_elaboration_policy_def rbind_eq_Inr split: if_splits)
  have set: "set (srt lt ts) = set ts" "srt lt ts \<noteq> []"
    using std_sort.sort_set [OF assms(1) lt(2)] std_sort.sort_empty [OF assms(1) lt(2)] assms(3)
    by auto
  define t where "t = (case find (is_ready st') (srt lt ts) of Some r \<Rightarrow> r | None \<Rightarrow> hd (srt lt ts))"
  have t: "dispatch_priority (is_ready st') (srt lt ts) = Inr (t, srt lt ts)"
    using dispatch_priority_value [OF set(2)] by (simp add: t_def)
  have mem: "t \<in> set ts"
    using set find_Some_mem [of "is_ready st'" "srt lt ts"] hd_in_set [OF set(2)]
    by (auto simp: t_def split: option.splits)
  have min: "is_ready st' t \<and> \<not> lt x t" if x: "x \<in> set ts" "is_ready st' x" for x
  proof (cases "find (is_ready st') (srt lt ts)")
    case None
    then show ?thesis using find_None_all [OF None, of x] x set by simp
  next
    case (Some r)
    then show ?thesis
      using find_Some_mem [OF Some] std_sort.sort_find_minimal [OF assms(1) lt(2) Some] x
      by (simp add: t_def)
  qed
  have "dispatch flag now st' s' = Inr (t, s')"
    using t by (simp add: dispatch_priority_eq [OF s'(2)] s'(1))
  then show ?thesis using mem min lt(3) by blast
qed

definition rm_sched :: scheduler where
  "rm_sched = example_sched\<lparr>sched_policy := STATIC_PRIORITIES, sched_static_policy := RATE_MONOTONIC\<rparr>"

theorem static_priorities_dispatch_witness:
  "\<exists>s' t. sched_end_of_elaboration_policy insertion_sort (\<lambda>_ _ _. Inr ()) example_elab
       initial_analysis_globals example_store [''b'', ''a''] rm_sched = Inr s' \<and>
     dispatch False 0 example_store s' = Inr (t, s') \<and>
     \<not> Period (example_store ''a'') < Period (example_store t)"
proof -
  let ?s' = "rm_sched\<lparr>tasks_by_priority := [''a'', ''b''], it_dyn_sched := 0\<rparr>"
  have e: "sched_end_of_elaboration_policy insertion_sort (\<lambda>_ _ _. Inr ()) example_elab
      initial_analysis_globals example_store [''b'', ''a''] rm_sched = Inr ?s'"
    by (simp add: sched_end_of_elaboration_policy_def rm_sched_def example_sched_def
        new_scheduler_with_tasks_def new_scheduler_def check_priorities_def example_store_def
        example_task_def sort_by_policy_def less_than_by_period_def is_static_analysis_enabled_def
        initial_analysis_globals_def)
  have p: "policy_ready (sched_static_policy rm_sched) example_store [''b'', ''a'']"
    "sched_policy rm_sched = STATIC_PRIORITIES" "tasks_by_priority rm_sched = []"
    by (simp_all add: policy_ready_def rm_sched_def example_sched_def new_scheduler_with_tasks_def
        new_scheduler_def)
  obtain t where t: "dispatch False 0 example_store ?s' = Inr (t, ?s')"
    "\<forall>x \<in> set [''b'', ''a'']. is_ready example_store x \<longrightarrow>
       \<not> prioritary (sched_static_policy rm_sched) (example_store x) (example_store t)"
    using static_priorities_dispatch [OF insertion.std_sort_axioms p(1) _ p(2,3) e, of False 0 example_store]
    by auto
  have "is_ready example_store ''a''" by (simp add: is_ready_def example_store_def example_task_def)
  then have "\<not> prioritary (sched_static_policy rm_sched) (example_store ''a'') (example_store t)"
    using t(2) by simp
  then show ?thesis using e t(1) by (auto simp: prioritary_def rm_sched_def)
qed

subsection \<open>Static schedules\<close>

lemma picks_static_from:
  "i + k \<le> length sch \<Longrightarrow> k < length sch - i \<or> k = length sch - i \<Longrightarrow> i < length sch \<Longrightarrow>
   picks (\<lambda>_. dispatch_static) (replicate k r) (sch, i) =
     Inr (take k (drop i sch), sch, (if i + k = length sch then 0 else i + k))"
proof (induction k arbitrary: i)
  case (Suc k)
  have hd: "take (Suc k) (drop i sch) = sch ! i # take k (drop (Suc i) sch)"
    using Suc.prems by (simp add: Cons_nth_drop_Suc [symmetric])
  show ?case
  proof (cases "Suc i = length sch")
    case True
    then have k: "k = 0" using Suc.prems by simp
    show ?thesis using Suc.prems True hd unfolding k by (simp add: dispatch_static_def)
  next
    case False
    then have "picks (\<lambda>_. dispatch_static) (replicate k r) (sch, Suc i) =
        Inr (take k (drop (Suc i) sch), sch, (if Suc i + k = length sch then 0 else Suc i + k))"
      using Suc.prems by (intro Suc.IH) auto
    moreover have "dispatch_static (sch, i) = Inr (sch ! i, sch, Suc i)"
      using Suc.prems False by (simp add: dispatch_static_def)
    ultimately show ?thesis using hd by simp
  qed
qed simp

text \<open>
  A static schedule that passes the checks of the end of elaboration serves its whole task set: as
  many dispatches as the schedule has positions return its tasks in order and end where they
  started, every task of the set is among them, and with a schedule by names nothing else is.
\<close>
theorem static_schedule_round:
  assumes "check_and_prepare_static_schedule ts s = Inr s'" "ts \<noteq> []"
  defines "sch \<equiv> static_schedule_by_task_info_pointers s'"
  shows "picks (\<lambda>_. dispatch_static) (replicate (length sch) r) (sch, it_static_sched s') =
           Inr (sch, sch, it_static_sched s')
       \<and> set ts \<subseteq> set sch
       \<and> (static_schedule_by_task_info_pointers s = [] \<longrightarrow> set sch = set ts)"
proof -
  let ?names = "static_schedule_by_task_names s"
  let ?ptrs = "static_schedule_by_task_info_pointers s"
  have s': "sch = ?ptrs @ ?names" "it_static_sched s' = 0" "set ts \<subseteq> set (?ptrs @ ?names)"
    "set ?names \<subseteq> set ts"
    using assms(1)
    by (auto simp: check_and_prepare_static_schedule_def Let_def rbind_eq_Inr list_all_iff sch_def
        subset_iff split: if_splits)
  have ne: "sch \<noteq> []" using s'(1,3) assms(2) by auto
  have "picks (\<lambda>_. dispatch_static) (replicate (length sch) r) (sch, 0) = Inr (sch, sch, 0)"
    using picks_static_from [of 0 "length sch" sch r] ne by simp
  then show ?thesis using s' by auto
qed

theorem static_schedule_round_witness:
  "\<exists>s'. check_and_prepare_static_schedule [''a'', ''b'']
       (example_sched\<lparr>static_schedule_by_task_names := [''a'', ''b'', ''a'']\<rparr>) = Inr s' \<and>
     set (static_schedule_by_task_info_pointers s') = {''a'', ''b''}"
proof -
  let ?s = "example_sched\<lparr>static_schedule_by_task_names := [''a'', ''b'', ''a'']\<rparr>"
  let ?s' = "?s\<lparr>static_schedule_by_task_info_pointers := [''a'', ''b'', ''a''], it_static_sched := 0\<rparr>"
  have ok: "check_and_prepare_static_schedule [''a'', ''b''] ?s = Inr ?s'"
    by (simp add: check_and_prepare_static_schedule_def Let_def example_sched_def
        new_scheduler_with_tasks_def new_scheduler_def)
  show ?thesis
    using static_schedule_round [OF ok] ok
    by (simp add: example_sched_def new_scheduler_with_tasks_def new_scheduler_def)
qed

subsection \<open>Simulation time and reports\<close>

lemma revise_simulation_time_max:
  assumes "revise_simulation_time e st ts s g = Inr g'" "sufficient_global_sim_time_factor s > 0"
  shows "\<exists>t. requested_simulation_time e st ts s = Inr t \<and>
           global_sim_time g' = max t (global_sim_time g)"
proof -
  from assms obtain t where t: "requested_simulation_time e st ts s = Inr t"
    "(if t > global_sim_time g then set_global_simulation_time_limit e t g else Inr g) = Inr g'"
    by (auto simp only: revise_simulation_time_def if_True rbind_eq_Inr)
  then have "global_sim_time g' = max t (global_sim_time g)"
    by (auto simp: set_global_simulation_time_limit_def split: if_splits)
  then show ?thesis using t(1) by blast
qed

lemma requested_cycle:
  "sched_policy s = CYCLE_EXECUTIVE \<Longrightarrow> requested_simulation_time e st ts s =
     Inr (unat (sufficient_global_sim_time_factor s) * get_WCET_of st ts)"
  by (simp add: requested_simulation_time_def)

lemma requested_periodic:
  "sched_policy s \<notin> {STATIC_SCHEDULING, CYCLE_EXECUTIVE} \<Longrightarrow> taskset_is_periodic e st ts = Inr True \<Longrightarrow>
   get_hyperperiod e st ts = Inr h \<Longrightarrow> requested_simulation_time e st ts s =
     Inr (unat (sufficient_global_sim_time_factor s) * h)"
  by (simp add: requested_simulation_time_def Let_def)

text \<open>
  A scheduler never shortens the simulation and obtains what it asks for: when the end of
  elaboration succeeds the global limit is at least the old one, and with a factor \<open>k\<close> set it covers
  \<open>k\<close> times the accumulated worst case of a cycle executive, or \<open>k\<close> hyperperiods of a periodic task
  set under priorities.
\<close>
theorem sufficient_simulation_time:
  assumes "sched_end_of_elaboration_times raw e st ts s g = Inr (s', g')"
  shows "global_sim_time g \<le> global_sim_time g' \<and>
    (let k = unat (sufficient_global_sim_time_factor s) in
     (sched_policy s = CYCLE_EXECUTIVE \<longrightarrow> k * get_WCET_of st ts \<le> global_sim_time g') \<and>
     (sched_policy s \<notin> {STATIC_SCHEDULING, CYCLE_EXECUTIVE} \<longrightarrow>
        taskset_is_periodic e st ts = Inr True \<longrightarrow>
        (\<forall>h. get_hyperperiod e st ts = Inr h \<longrightarrow> k * h \<le> global_sim_time g')))"
proof -
  let ?k = "unat (sufficient_global_sim_time_factor s)"
  obtain s1 where s1: "sufficient_global_sim_time_factor s1 = sufficient_global_sim_time_factor s"
    "sched_policy s1 = sched_policy s" "revise_simulation_time e st ts s1 g = Inr g'"
  proof
    let ?s1 = "select_scheduling_time raw g s"
    show "sufficient_global_sim_time_factor ?s1 = sufficient_global_sim_time_factor s"
      "sched_policy ?s1 = sched_policy s"
      by (simp_all add: select_scheduling_time_def Let_def)
    show "revise_simulation_time e st ts ?s1 g = Inr g'"
      using assms by (auto simp: sched_end_of_elaboration_times_def Let_def rbind_eq_Inr rmap_eq_Inr)
  qed
  have limit: "set_global_simulation_time_limit e t g = Inr g' \<Longrightarrow> global_sim_time g' = t" for t
    by (auto simp: set_global_simulation_time_limit_def split: if_splits)
  show ?thesis
  proof (cases "sufficient_global_sim_time_factor s > 0")
    case False
    then have "sufficient_global_sim_time_factor s = 0" by (simp add: word_gt_0)
    then show ?thesis using s1 by (simp add: revise_simulation_time_def)
  next
    case True
    then obtain t where t: "requested_simulation_time e st ts s1 = Inr t"
      "global_sim_time g' = max t (global_sim_time g)"
      using revise_simulation_time_max [OF s1(3)] s1(1) by auto
    have "sched_policy s = CYCLE_EXECUTIVE \<longrightarrow> t = ?k * get_WCET_of st ts"
      using t(1) s1(1,2) requested_cycle [of s1 e st ts] by simp
    moreover have "t = ?k * h" if "sched_policy s \<notin> {STATIC_SCHEDULING, CYCLE_EXECUTIVE}"
      "taskset_is_periodic e st ts = Inr True" "get_hyperperiod e st ts = Inr h" for h
      using t(1) s1(1,2) requested_periodic [of s1 e st ts h] that by simp
    ultimately show ?thesis using t(2) by (simp add: Let_def)
  qed
qed

theorem sufficient_simulation_time_witness:
  "\<exists>s' g'. sched_end_of_elaboration_times rate_monotonic_key example_elab example_store
       [''a'', ''b''] (example_sched\<lparr>sufficient_global_sim_time_factor := 5\<rparr>)
       (initial_sched_globals\<lparr>global_sim_time := 1\<rparr>) = Inr (s', g') \<and>
     15000 \<le> global_sim_time g'"
proof -
  let ?s = "example_sched\<lparr>sufficient_global_sim_time_factor := 5\<rparr>"
  let ?g = "initial_sched_globals\<lparr>global_sim_time := 1\<rparr>"
  have sel: "select_scheduling_time rate_monotonic_key ?g ?s = ?s"
    by (simp add: select_scheduling_time_def Let_def example_sched_def new_scheduler_with_tasks_def
        new_scheduler_def initial_sched_globals_def get_scheduling_time_calculator_for_def)
  have req: "requested_simulation_time example_elab example_store [''a'', ''b''] ?s = Inr 15000"
    by (simp add: requested_simulation_time_def Let_def example_sched_def
        new_scheduler_with_tasks_def new_scheduler_def get_WCET_of_def example_store_def)
  have rev: "revise_simulation_time example_elab example_store [''a'', ''b''] ?s ?g =
      Inr (?g\<lparr>global_sim_time := 15000\<rparr>)"
    unfolding revise_simulation_time_def req
    by (simp add: set_global_simulation_time_limit_def example_elab_def)
  have r: "sched_end_of_elaboration_times rate_monotonic_key example_elab
      example_store [''a'', ''b''] ?s ?g = Inr (?s, ?g\<lparr>global_sim_time := 15000\<rparr>)"
    unfolding sched_end_of_elaboration_times_def sel Let_def rev
    by (simp add: check_scheduling_time_def example_sched_def new_scheduler_with_tasks_def
        new_scheduler_def)
  show ?thesis
    using sufficient_simulation_time [OF r] r
    by (simp add: Let_def example_sched_def new_scheduler_with_tasks_def new_scheduler_def
        get_WCET_of_def example_store_def)
qed

text \<open>
  The utilisation of all the tasks is the sum of the utilisations of the tasks, at any moment of a
  running simulation after time zero and after its end, and adding the scheduler's own gives that of
  the platform.
\<close>
theorem utilizations_add_up:
  assumes "tasks_assigned s = Taskset ts"
    and "sc_status e = SC_STOPPED \<and> 0 < last_simulation_time s \<or>
         sc_status e = SC_RUNNING \<and> sc_running e \<and> 0 < sc_now e"
  shows "\<exists>us. map (\<lambda>n. get_task_utilization e st n s) ts = map (\<lambda>u. Inr (Fin u)) us \<and>
    get_tasks_utilization e st s = Inr (Fin (sum_list us)) \<and>
    get_platform_utilization e st s =
      Inr (dadd (Fin (sum_list us)) (get_scheduler_utilization e s))"
proof -
  define T where "T = (if sc_status e = SC_STOPPED then last_simulation_time s else sc_now e)"
  define us :: "rat list" where "us = map (\<lambda>n. of_nat (occupation_time (st n)) / of_nat T) ts"
  have T: "0 < T" and rep: "utilization_report e s t = sc_ratio t T" for t
    using assms(2) by (auto simp: T_def utilization_report_def)
  have one: "map (\<lambda>n. get_task_utilization e st n s) ts = map (\<lambda>u. Inr (Fin u)) us"
    using T by (simp add: us_def get_task_utilization_def assigned_def assms(1) rep)
  have "(of_nat (\<Sum>n\<leftarrow>ts. occupation_time (st n)) :: rat) / of_nat T = sum_list us"
    unfolding us_def by (induction ts) (simp_all add: add_divide_distrib)
  then have all: "get_tasks_utilization e st s = Inr (Fin (sum_list us))"
    using T by (simp add: get_tasks_utilization_def assigned_def assms(1) rep)
  then show ?thesis using one by (auto simp: get_platform_utilization_def)
qed

theorem utilizations_add_up_witness:
  "\<exists>us. get_tasks_utilization (example_env\<lparr>sc_now := 10\<rparr>) example_store example_sched =
     Inr (Fin (sum_list us))"
  using utilizations_add_up [of example_sched "[''a'', ''b'']" "example_env\<lparr>sc_now := 10\<rparr>" example_store]
  by (auto simp: example_sched_def new_scheduler_with_tasks_def example_env_def)

end
