(* ===== verification/User_Constructs.thy ===== *)
theory User_Constructs
  imports Scheduler_Proc
begin

text \<open>
  \<open>user_task_constructs.cpp\<close>: what the body of a task calls. \<open>consume\<close> models computation, \<open>yield\<close>
  gives the processor back, \<open>wait_period\<close> ends a job of a periodic task. Each call is cut at its
  waits; the instants the SystemC kernel resumes it at are arguments.
\<close>

subsection \<open>Consumption\<close>

definition consume_begin :: "sc_time \<Rightarrow> task_info_t \<Rightarrow> task_info_t" where
  "consume_begin comp_time t =
     t\<lparr>left_consume_time := comp_time, finished_flag := False, consumption_signal := True\<rparr>"

text \<open>
  A round of the preemptive loop: granted at \<open>start\<close>, the wait for the time left or for the falling
  edge of the active signal ends at the earlier of both; \<open>preempted\<close> is the instant of the edge.
\<close>

definition consume_resumption :: "sc_time \<Rightarrow> sc_time option \<Rightarrow> task_info_t \<Rightarrow> sc_time" where
  "consume_resumption start preempted t =
     (case preempted of
        None \<Rightarrow> start + left_consume_time t
      | Some p \<Rightarrow> min (start + left_consume_time t) p)"

definition consume_round ::
    "sc_time \<Rightarrow> sc_time option \<Rightarrow> task_info_t \<Rightarrow> task_info_t \<times> bool" where
  "consume_round start preempted t =
     (let consumed = sc_minus (consume_resumption start preempted t) start;
          t1 = t\<lparr>consumption_signal := False\<rparr> in
      if left_consume_time t > consumed
      then (t1\<lparr>left_consume_time := left_consume_time t - consumed, consumption_signal := True\<rparr>, False)
      else (t1\<lparr>left_consume_time := 0\<rparr>, True))"

text \<open>
  The loop over the windows in which the processor is granted: the task, whether the call returned,
  and the time it computed.
\<close>

fun consume_loop ::
    "(sc_time \<times> sc_time option) list \<Rightarrow> task_info_t \<Rightarrow> task_info_t \<times> bool \<times> sc_time" where
  "consume_loop [] t = (t, False, 0)"
| "consume_loop ((start, p) # ws) t =
     (let spent = sc_minus (consume_resumption start p t) start in
      (case consume_round start p t of
         (t1, True) \<Rightarrow> (t1\<lparr>finished_flag := True\<rparr>, True, spent)
       | (t1, False) \<Rightarrow> (case consume_loop ws t1 of (t2, fin, c) \<Rightarrow> (t2, fin, spent + c))))"

text \<open>Without preemption the call waits for the whole time.\<close>

definition consume_non_preemptive :: "sc_time \<Rightarrow> task_info_t \<Rightarrow> task_info_t \<times> bool \<times> sc_time" where
  "consume_non_preemptive comp_time t =
     ((consume_begin comp_time t)\<lparr>consumption_signal := False, finished_flag := True\<rparr>, True, comp_time)"

definition consume ::
    "scheduler \<Rightarrow> (sc_time \<times> sc_time option) list \<Rightarrow> sc_time \<Rightarrow> task_info_t
       \<Rightarrow> task_info_t \<times> bool \<times> sc_time" where
  "consume s windows comp_time t =
     (if is_preemptive s then consume_loop windows (consume_begin comp_time t)
      else consume_non_preemptive comp_time t)"

definition consume_WCET ::
    "scheduler \<Rightarrow> (sc_time \<times> sc_time option) list \<Rightarrow> task_info_t \<Rightarrow> task_info_t \<times> bool \<times> sc_time" where
  "consume_WCET s windows t = consume s windows (WCET t) t"

subsection \<open>Yield\<close>

text \<open>Up to the wait for the active signal, with what is notified; and after it.\<close>

definition yield_begin :: "scheduler \<Rightarrow> task_info_t \<Rightarrow> (task_info_t \<times> sched_event list) result" where
  "yield_begin s t =
     (if sched_policy s = STATIC_SCHEDULING then Inr (t\<lparr>finished_flag := False\<rparr>, [Yield_Event])
      else if is_non_preemptive s
        then report (''Task '' @ task_name t @ '' performing a yield() call, while executed in the scheduler ''
               @ sched_name s @ '', which is configured as NON-PREEMPTIVE.'')
      else if is_cooperative s \<or> is_preemptive s
        then Inr (t\<lparr>finished_flag := False\<rparr>, [Yield_Event])
      else Inr (t, []))"

definition yield_end :: "task_info_t \<Rightarrow> task_info_t" where
  "yield_end t = t\<lparr>finished_flag := True\<rparr>"

subsection \<open>The end of a period\<close>

text \<open>
  Up to the wait for the release: the task and whether it waits. The end of the response is notified
  in every case; a missed deadline is recorded and the task goes on at once.
\<close>

definition wait_period_begin :: "sc_time \<Rightarrow> task_info_t \<Rightarrow> (task_info_t \<times> bool) result" where
  "wait_period_begin now t =
     (let t1 = t\<lparr>finished_flag := False\<rparr> in
      rbind (check (is_periodic t1) (''Calling wait_period method in task '' @ task_name t @
               '', which is not periodic, is forbidden.'')) (\<lambda>_.
        if now > current_absolute_deadline t1
        then Inr (t1\<lparr>miss_deadline_flag := True\<rparr>, False)
        else Inr (t1\<lparr>waiting_period_signal := True\<rparr>, True)))"

definition wait_period_end :: "task_info_t \<Rightarrow> task_info_t" where
  "wait_period_end t =
     t\<lparr>current_absolute_deadline := current_absolute_deadline t + Period t,
       waiting_period_signal := False, finished_flag := True\<rparr>"

definition wait_period :: "sc_time \<Rightarrow> task_info_t \<Rightarrow> task_info_t result" where
  "wait_period now t = rmap (\<lambda>(t1, _). wait_period_end t1) (wait_period_begin now t)"

text \<open>The jobs of a task that calls \<open>wait_period\<close> at the given instants.\<close>

fun wait_periods :: "sc_time list \<Rightarrow> task_info_t \<Rightarrow> task_info_t result" where
  "wait_periods [] t = Inr t"
| "wait_periods (c # cs) t = rbind (wait_period c t) (wait_periods cs)"

subsection \<open>Lemmas\<close>

lemma consume_round_spent:
  fixes t :: task_info_t
  assumes "\<forall>q. p = Some q \<longrightarrow> start \<le> q"
  defines "spent \<equiv> sc_minus (consume_resumption start p t) start"
  shows "spent = (case p of None \<Rightarrow> left_consume_time t | Some q \<Rightarrow> min (left_consume_time t) (q - start))"
    "spent \<le> left_consume_time t"
    "snd (consume_round start p t) \<longleftrightarrow> spent = left_consume_time t"
    "left_consume_time (fst (consume_round start p t)) = left_consume_time t - spent"
  using assms(1)
  by (cases p; auto simp: spent_def consume_resumption_def consume_round_def Let_def)+

text \<open>How long a window can serve a demand.\<close>

fun window_time :: "(sc_time \<times> sc_time option) list \<Rightarrow> sc_time \<Rightarrow> sc_time" where
  "window_time [] d = 0"
| "window_time ((start, p) # ws) d =
     (let c = (case p of None \<Rightarrow> d | Some q \<Rightarrow> min d (q - start)) in
      if c = d then d else c + window_time ws (d - c))"

lemma window_time_le: "window_time ws d \<le> d"
proof (induction ws arbitrary: d)
  case (Cons w ws)
  obtain start p where w: "w = (start, p)" by fastforce
  define c where "c = (case p of None \<Rightarrow> d | Some q \<Rightarrow> min d (q - start))"
  have "c \<le> d" by (auto simp: c_def split: option.splits)
  then show ?case using Cons.IH [of "d - c"] unfolding w window_time.simps c_def [symmetric] Let_def
    by (cases "c = d") simp_all
qed simp

lemma consume_loop_exact:
  assumes "\<forall>(start, p) \<in> set ws. \<forall>q. p = Some q \<longrightarrow> start \<le> q" "0 < left_consume_time t"
  shows "\<exists>t'. consume_loop ws t = (t', window_time ws (left_consume_time t) = left_consume_time t,
             window_time ws (left_consume_time t)) \<and>
           left_consume_time t' = left_consume_time t - window_time ws (left_consume_time t) \<and>
           (window_time ws (left_consume_time t) = left_consume_time t \<longrightarrow>
              finished_flag t' \<and> \<not> consumption_signal t')"
  using assms
proof (induction ws arbitrary: t)
  case (Cons w ws)
  obtain start p where w: "w = (start, p)" by fastforce
  let ?d = "left_consume_time t"
  define c where "c = sc_minus (consume_resumption start p t) start"
  have win: "\<forall>q. p = Some q \<longrightarrow> start \<le> q" using Cons.prems(1) w by simp
  note sp = consume_round_spent [OF win, of t, folded c_def]
  obtain t1 fin where r: "consume_round start p t = (t1, fin)" by fastforce
  show ?case
  proof (cases "c = ?d")
    case True
    then have "fin" "left_consume_time t1 = 0" "\<not> consumption_signal t1"
      using sp(3,4) r by (auto simp: consume_round_def Let_def split: if_splits)
    then show ?thesis using True r sp(1) by (simp add: w c_def [symmetric])
  next
    case False
    then have f: "\<not> fin" and left: "left_consume_time t1 = ?d - c" "0 < ?d - c"
      using sp(2-4) r by auto
    from Cons.IH [of t1] Cons.prems(1) left obtain t' where
      ih: "consume_loop ws t1 = (t', window_time ws (?d - c) = ?d - c, window_time ws (?d - c))"
      "left_consume_time t' = (?d - c) - window_time ws (?d - c)"
      "window_time ws (?d - c) = ?d - c \<longrightarrow> finished_flag t' \<and> \<not> consumption_signal t'" by auto
    have "window_time (w # ws) ?d = c + window_time ws (?d - c)"
      using False sp(1) by (simp add: w Let_def)
    then show ?thesis using f r ih sp(2) window_time_le [of ws "?d - c"]
      by (auto simp: w c_def [symmetric])
  qed
qed simp

lemma wait_period_value:
  "is_periodic t \<Longrightarrow> wait_period now t =
     Inr (t\<lparr>miss_deadline_flag := (miss_deadline_flag t \<or> now > current_absolute_deadline t),
            current_absolute_deadline := current_absolute_deadline t + Period t,
            waiting_period_signal := False, finished_flag := True\<rparr>)"
  by (auto simp: wait_period_def wait_period_begin_def wait_period_end_def Let_def is_periodic_def)

lemma wait_periods_value:
  assumes "is_periodic t"
  shows "\<exists>t'. wait_periods cs t = Inr t' \<and> Period t' = Period t \<and> is_periodic t' \<and>
           current_absolute_deadline t' = current_absolute_deadline t + length cs * Period t \<and>
           (miss_deadline_flag t' \<longleftrightarrow> miss_deadline_flag t \<or>
             (\<exists>k < length cs. cs ! k > current_absolute_deadline t + k * Period t))"
  using assms
proof (induction cs arbitrary: t)
  case (Cons c cs)
  let ?t = "t\<lparr>miss_deadline_flag := (miss_deadline_flag t \<or> c > current_absolute_deadline t),
    current_absolute_deadline := current_absolute_deadline t + Period t,
    waiting_period_signal := False, finished_flag := True\<rparr>"
  have "is_periodic ?t" using Cons.prems by (simp add: is_periodic_def)
  from Cons.IH [OF this] obtain t' where
    ih: "wait_periods cs ?t = Inr t'" "Period t' = Period t" "is_periodic t'"
    "current_absolute_deadline t' = current_absolute_deadline t + Period t + length cs * Period t"
    "miss_deadline_flag t' \<longleftrightarrow> (miss_deadline_flag t \<or> c > current_absolute_deadline t) \<or>
       (\<exists>k < length cs. cs ! k > current_absolute_deadline t + Period t + k * Period t)" by auto
  have "(\<exists>k < length (c # cs). (c # cs) ! k > current_absolute_deadline t + k * Period t) \<longleftrightarrow>
      c > current_absolute_deadline t \<or>
      (\<exists>k < length cs. cs ! k > current_absolute_deadline t + Period t + k * Period t)"
    by (simp add: Ex_less_Suc2 add.assoc)
  then show ?case using ih wait_period_value [OF Cons.prems, of c] by auto
qed simp

subsection \<open>Properties\<close>

text \<open>
  C15: A preemptable computation takes exactly the time it was asked for. Whatever windows the scheduler
  grants, \<open>consume\<close> computes the granted time up to its argument, keeps the rest as the time left, and
  returns exactly when the windows supplied it all, then marked as finished and not consuming.
\<close>
theorem consume_exact:
  assumes "is_preemptive s" "0 < d" "\<forall>(start, p) \<in> set ws. \<forall>q. p = Some q \<longrightarrow> start \<le> q"
  shows "\<exists>t'. consume s ws d t = (t', window_time ws d = d, window_time ws d)
           \<and> left_consume_time t' = d - window_time ws d
           \<and> window_time ws d \<le> d
           \<and> (window_time ws d = d \<longrightarrow> finished_flag t' \<and> \<not> consumption_signal t')"
  using consume_loop_exact [OF assms(3), of "consume_begin d t"] assms(1,2) window_time_le [of ws d]
  by (auto simp: consume_def consume_begin_def)

theorem consume_exact_witness:
  "\<exists>t'. consume (example_sched\<lparr>sched_triggering_policy := PREEMPTIVE\<rparr>)
     [(0, Some 4), (10, Some 13), (20, None)] 9 example_task = (t', True, 9)"
  using consume_exact [of "example_sched\<lparr>sched_triggering_policy := PREEMPTIVE\<rparr>" 9
      "[(0, Some 4), (10, Some 13), (20, None)]" example_task]
  by (auto simp: is_preemptive_def Let_def)

text \<open>
  C19: A missed deadline is reported if and only if there was one. When a periodic task ends its jobs at
  the instants \<open>cs\<close>, its flag is raised exactly when some job \<open>k\<close> ends after its own absolute deadline,
  the first deadline plus \<open>k\<close> periods; a late job does not shift the deadlines of the next ones.
\<close>
theorem miss_deadline_exact:
  assumes "is_periodic t" "\<not> miss_deadline t" "current_absolute_deadline t = D"
  shows "\<exists>t'. wait_periods cs t = Inr t' \<and>
    (miss_deadline t' \<longleftrightarrow> (\<exists>k < length cs. cs ! k > D + k * Period t))"
  using wait_periods_value [OF assms(1), of cs] assms(2,3) by (auto simp: miss_deadline_def)

theorem miss_deadline_exact_witness:
  "\<exists>t'. wait_periods [8, 25, 28] (example_task\<lparr>Period := 10, is_periodic_flag := True,
       current_absolute_deadline := 10\<rparr>) = Inr t' \<and> miss_deadline t'"
proof -
  let ?t = "example_task\<lparr>Period := 10, is_periodic_flag := True, current_absolute_deadline := 10\<rparr>"
  obtain t' where t': "wait_periods [8, 25, 28] ?t = Inr t'"
    "miss_deadline t' \<longleftrightarrow> (\<exists>k < length [8, 25, 28 :: nat]. [8, 25, 28] ! k > 10 + k * Period ?t)"
    using miss_deadline_exact [of ?t 10 "[8, 25, 28]"]
    by (auto simp: is_periodic_def miss_deadline_def example_task_def)
  have "[8, 25, 28 :: nat] ! 1 > 10 + 1 * Period ?t" by simp
  then have "miss_deadline t'" unfolding t'(2) by (intro exI [of _ 1]) simp
  then show ?thesis using t'(1) by blast
qed

text \<open>
  A yield is honoured by every scheduler that reacts to it and refused by the others: it notifies
  the yield event exactly when that event is in the trigger list of the scheduler, and reports an
  error otherwise, for the three triggering policies.
\<close>
theorem yield_matches_triggers:
  assumes "sched_triggering_policy s \<noteq> UNKNOWN_TRIGGERING_POLICY"
  shows "yield_begin s t =
    (if Yield_Event \<in> set (scheduler_event_trigger_list s)
     then Inr (t\<lparr>finished_flag := False\<rparr>, [Yield_Event])
     else report (''Task '' @ task_name t @ '' performing a yield() call, while executed in the scheduler ''
               @ sched_name s @ '', which is configured as NON-PREEMPTIVE.''))"
  using assms
  by (cases "sched_triggering_policy s")
    (simp_all add: yield_begin_def scheduler_event_trigger_list_def is_preemptive_def
      is_cooperative_def is_non_preemptive_def)

theorem yield_matches_triggers_witness:
  "\<not> is_ok (yield_begin example_sched example_task)"
  using yield_matches_triggers [of example_sched example_task]
  by (simp add: example_sched_def new_scheduler_with_tasks_def new_scheduler_def
      scheduler_event_trigger_list_def is_preemptive_def is_cooperative_def)

end
