(* ===== verification/Load_Analysis.thy ===== *)
theory Load_Analysis
  imports Doubles
begin

text \<open>
  \<open>load_analysis/load_analysis.cpp\<close>: the precise test of a set of loads with unique priorities. The
  loads are listed in the order of their keys, the lower number first, as the map holds them.
\<close>

record load_unit =
  lu_name :: string
  lu_priority :: nat
  lu_period :: sc_time
  wc_load :: sc_time
  rel_deadline :: sc_time
  wc_response :: sc_time

definition load_unit_less :: "load_unit \<Rightarrow> load_unit \<Rightarrow> bool" where
  "load_unit_less lhs rhs = (if lu_priority lhs < lu_priority rhs then True else False)"

text \<open>
  The interference of the loads that are left in the iteration, at the guess \<open>R\<close>: the number of
  triggers is the ceiling of the quotient, converted to an \<open>unsigned int\<close>.
\<close>

fun interference :: "sc_time \<Rightarrow> load_unit list \<Rightarrow> sc_time result" where
  "interference R [] = Inr 0"
| "interference R (h # hs) =
     (if lu_period h = 0 \<or> ceil_div R (lu_period h) \<ge> 2 ^ 32
      then undef ''conversion out of range''
      else rmap (\<lambda>i. ceil_div R (lu_period h) * wc_load h + i) (interference R hs))"

definition relative_difference :: "sc_time \<Rightarrow> sc_time \<Rightarrow> double" where
  "relative_difference R R_next =
     (if R_next > R then sc_ratio (R_next - R) R_next else sc_ratio (R - R_next) R)"

text \<open>
  The fixed point loop. \<open>hps\<close> are the loads from the iterator \<open>hp_load_it\<close> to the assessed one: the
  iterator is set to the first load before the loop and not inside it, so it is at the assessed load
  from the second iteration on. \<open>left\<close> counts down the 1000 iterations allowed; past them the program
  exits. The result is the pair \<open>(R, R_next)\<close>.
\<close>

fun fixed_point_loop :: "nat \<Rightarrow> sc_time \<Rightarrow> load_unit list \<Rightarrow> (sc_time \<times> sc_time) result" where
  "fixed_point_loop left R_next hps =
     (let R = R_next in
      rbind (interference R hps) (\<lambda>I.
        let R_next = R + I in
        case left of
          0 \<Rightarrow> report ''Reached the maximum number of iterations''
        | Suc k \<Rightarrow>
            (if dless (Fin (1 / 100)) (relative_difference R R_next)
             then fixed_point_loop k R_next []
             else Inr (R, R_next))))"

declare fixed_point_loop.simps [simp del]

definition response_of :: "load_unit list \<Rightarrow> load_unit \<Rightarrow> sc_time result" where
  "response_of hps l =
     (let R0 = wc_load l + sum_list (map wc_load hps) in
      rmap (\<lambda>(R, R_next). if R_next > R then R_next else R) (fixed_point_loop 1000 R0 hps))"

text \<open>
  The loop over the loads: \<open>done\<close> those assessed, with their responses stored, \<open>ok\<close> the result so far.
\<close>

fun assess_loop ::
    "bool \<Rightarrow> bool \<Rightarrow> load_unit list \<Rightarrow> load_unit list \<Rightarrow> (bool \<times> load_unit list) result" where
  "assess_loop immediate ok done [] = Inr (ok, done)"
| "assess_loop immediate ok done (l # ls) =
     rbind (response_of done l) (\<lambda>R.
       let ok1 = (if R > rel_deadline l then False else ok);
           done1 = done @ [l\<lparr>wc_response := R\<rparr>] in
       if immediate \<and> \<not> ok1 then Inr (False, done1 @ ls)
       else assess_loop immediate ok1 done1 ls)"

definition assess_precise_bound ::
    "bool \<Rightarrow> load_unit list \<Rightarrow> (bool \<times> load_unit list) result" where
  "assess_precise_bound immediate loaders =
     (if length loaders < 1
      then report ''Loaders list empty when calling precise load analysis''
      else assess_loop immediate True [] loaders)"

definition assess_precise_bound_multiset :: "load_unit list \<Rightarrow> bool result" where
  "assess_precise_bound_multiset loaders =
     report ''Precisse bound for a load set supporting loaders with same priorities not implemented yet.''"

subsection \<open>Lemmas\<close>

lemma interference_value:
  "\<forall>h \<in> set hps. 0 < lu_period h \<and> ceil_div R (lu_period h) < 2 ^ 32 \<Longrightarrow>
     interference R hps = Inr (\<Sum>h\<leftarrow>hps. ceil_div R (lu_period h) * wc_load h)"
  by (induction hps) simp_all

lemma relative_difference_self: "\<not> dless (Fin (1 / 100)) (relative_difference R R)"
proof (cases "R = 0")
  case True
  then show ?thesis by (simp add: relative_difference_def sc_ratio_def dsigned_def)
qed (simp add: relative_difference_def)

lemma fixed_point_second:
  "fixed_point_loop (Suc k) R [] = Inr (R, R)"
  using relative_difference_self [of R] by (simp add: fixed_point_loop.simps Let_def)

text \<open>Two iterations at most: the loop ends with the first guess plus its interference.\<close>

lemma fixed_point_value:
  assumes "interference R0 hps = Inr I" "2 \<le> k"
  shows "\<exists>R. fixed_point_loop k R0 hps = Inr (R, R0 + I) \<and> R \<le> R0 + I"
proof -
  obtain k' where k: "k = Suc (Suc k')" using assms(2) by (metis Suc_le_D numeral_2_eq_2 Suc_le_mono)
  show ?thesis
    using assms(1)
    by (subst fixed_point_loop.simps) (simp add: k Let_def fixed_point_second)
qed

text \<open>The response the analysis computes for a load under the loads of higher priority.\<close>

definition first_guess :: "load_unit list \<Rightarrow> load_unit \<Rightarrow> sc_time" where
  "first_guess hps l = wc_load l + (\<Sum>h\<leftarrow>hps. wc_load h)"

definition closed_response :: "load_unit list \<Rightarrow> load_unit \<Rightarrow> sc_time" where
  "closed_response hps l =
     first_guess hps l + (\<Sum>h\<leftarrow>hps. ceil_div (first_guess hps l) (lu_period h) * wc_load h)"

lemma ceil_div_bound: "0 < p \<Longrightarrow> R \<le> n * p \<Longrightarrow> ceil_div R p \<le> n"
proof -
  assume p: "0 < p" and le: "R \<le> n * p"
  have "ceil_div R p * p < (n + 1) * p" using ceil_div_less [OF p, of R] le by simp
  then show ?thesis by (metis Suc_eq_plus1 less_Suc_eq_le mult_less_cancel2)
qed

lemma response_of_value:
  assumes "\<forall>h \<in> set hps. 0 < lu_period h \<and> ceil_div (first_guess hps l) (lu_period h) < 2 ^ 32"
  shows "response_of hps l = Inr (closed_response hps l)"
proof -
  note I = interference_value [OF assms]
  obtain R where "fixed_point_loop 1000 (first_guess hps l) hps = Inr (R, closed_response hps l)"
    "R \<le> closed_response hps l"
    using fixed_point_value [OF I, of 1000] by (auto simp: closed_response_def)
  then show ?thesis by (auto simp: response_of_def first_guess_def Let_def)
qed

text \<open>Only the loads and periods of the higher priority loads enter a response.\<close>

lemma interference_cong:
  "map (\<lambda>h. (wc_load h, lu_period h)) hs = map (\<lambda>h. (wc_load h, lu_period h)) hs' \<Longrightarrow>
     interference R hs = interference R hs'"
proof (induction hs arbitrary: hs')
  case (Cons h hs)
  then show ?case by (cases hs') auto
qed simp

lemma response_of_cong:
  assumes "map (\<lambda>h. (wc_load h, lu_period h)) hs = map (\<lambda>h. (wc_load h, lu_period h)) hs'"
  shows "response_of hs l = response_of hs' l"
proof -
  have "map fst (map (\<lambda>h. (wc_load h, lu_period h)) hs) = map fst (map (\<lambda>h. (wc_load h, lu_period h)) hs')"
    by (simp only: assms)
  then have loads: "map wc_load hs = map wc_load hs'" by (simp add: comp_def)
  have "fixed_point_loop k R hs = fixed_point_loop k R hs'" for k R
    by (simp only: fixed_point_loop.simps [of k R] interference_cong [OF assms])
  then show ?thesis by (simp only: response_of_def loads)
qed

text \<open>
  The closed form of the whole analysis: the responses of the loads in order, each under those before
  it; and the condition that the triggers of every interference fit the 32 bit counter.
\<close>

fun closed_responses :: "load_unit list \<Rightarrow> load_unit list \<Rightarrow> sc_time list" where
  "closed_responses pre [] = []"
| "closed_responses pre (l # ls) = closed_response pre l # closed_responses (pre @ [l]) ls"

fun triggers_ok :: "load_unit list \<Rightarrow> load_unit list \<Rightarrow> bool" where
  "triggers_ok pre [] = True"
| "triggers_ok pre (l # ls) =
     (list_all (\<lambda>h. 0 < lu_period h \<and> ceil_div (first_guess pre l) (lu_period h) < 2 ^ 32) pre
      \<and> triggers_ok (pre @ [l]) ls)"

definition deadlines_met :: "load_unit list \<Rightarrow> load_unit list \<Rightarrow> bool" where
  "deadlines_met pre ls = list_all2 (\<lambda>R l. R \<le> rel_deadline l) (closed_responses pre ls) ls"

lemma deadlines_met_Nil [simp]: "deadlines_met pre []"
  by (simp add: deadlines_met_def)

lemma deadlines_met_Cons [simp]:
  "deadlines_met pre (l # ls) \<longleftrightarrow>
     closed_response pre l \<le> rel_deadline l \<and> deadlines_met (pre @ [l]) ls"
  by (simp add: deadlines_met_def)

lemma response_of_done:
  assumes "list_all (\<lambda>h. 0 < lu_period h \<and> ceil_div (first_guess pre l) (lu_period h) < 2 ^ 32) pre"
    and "map (\<lambda>h. (wc_load h, lu_period h)) done = map (\<lambda>h. (wc_load h, lu_period h)) pre"
  shows "response_of done l = Inr (closed_response pre l)"
  using response_of_value [of pre l] response_of_cong [OF assms(2), of l] assms(1)
  by (simp add: list_all_iff)

lemma assess_loop_all:
  assumes "triggers_ok pre ls"
    and "map (\<lambda>h. (wc_load h, lu_period h)) done = map (\<lambda>h. (wc_load h, lu_period h)) pre"
  shows "\<exists>ls'. assess_loop False ok done ls = Inr (ok \<and> deadlines_met pre ls, ls') \<and>
           map wc_response ls' = map wc_response done @ closed_responses pre ls"
  using assms
proof (induction ls arbitrary: pre "done" ok)
  case (Cons l ls)
  let ?R = "closed_response pre l"
  have R: "response_of done l = Inr ?R"
    by (rule response_of_done) (use Cons.prems in simp_all)
  obtain ls' where
    "assess_loop False (if ?R > rel_deadline l then False else ok) (done @ [l\<lparr>wc_response := ?R\<rparr>]) ls =
       Inr ((if ?R > rel_deadline l then False else ok) \<and> deadlines_met (pre @ [l]) ls, ls')"
    "map wc_response ls' =
       map wc_response (done @ [l\<lparr>wc_response := ?R\<rparr>]) @ closed_responses (pre @ [l]) ls"
    using Cons.IH [of "pre @ [l]" "done @ [l\<lparr>wc_response := ?R\<rparr>]"] Cons.prems by auto
  then show ?case using R by (auto simp: Let_def)
qed simp

lemma assess_loop_immediate:
  assumes "triggers_ok pre ls"
    and "map (\<lambda>h. (wc_load h, lu_period h)) done = map (\<lambda>h. (wc_load h, lu_period h)) pre"
  shows "\<exists>ls'. assess_loop True True done ls = Inr (deadlines_met pre ls, ls')"
  using assms
proof (induction ls arbitrary: pre "done")
  case (Cons l ls)
  let ?R = "closed_response pre l"
  have R: "response_of done l = Inr ?R"
    by (rule response_of_done) (use Cons.prems in simp_all)
  show ?case
  proof (cases "?R > rel_deadline l")
    case True
    then show ?thesis using R by (simp add: Let_def)
  next
    case False
    obtain ls' where "assess_loop True True (done @ [l\<lparr>wc_response := ?R\<rparr>]) ls =
        Inr (deadlines_met (pre @ [l]) ls, ls')"
      using Cons.IH [of "pre @ [l]" "done @ [l\<lparr>wc_response := ?R\<rparr>]"] Cons.prems by auto
    then show ?thesis using R False by (simp add: Let_def)
  qed
qed simp

subsection \<open>Properties\<close>

text \<open>
  C22: The analysis always ends after at most two iterations per load, far from its limit, and its
  result has a closed form: with \<open>G\<close> the load of a task and of all those before it, the response
  stored is \<open>G\<close> plus, for each of those, its load times the ceiling of \<open>G\<close> over its period; the answer
  is whether every response meets its deadline, the same with and without immediate exit.
\<close>
theorem load_analysis_closed_form:
  assumes "ls \<noteq> []" "triggers_ok [] ls"
  shows "(\<exists>ls'. assess_precise_bound False ls = Inr (deadlines_met [] ls, ls') \<and>
            map wc_response ls' = closed_responses [] ls)
       \<and> (\<exists>ls'. assess_precise_bound True ls = Inr (deadlines_met [] ls, ls'))"
  using assess_loop_all [OF assms(2), of "[]" True] assess_loop_immediate [OF assms(2), of "[]"]
    assms(1)
  by (auto simp: assess_precise_bound_def not_less_eq_eq Suc_le_eq)

definition load :: "nat \<Rightarrow> sc_time \<Rightarrow> sc_time \<Rightarrow> sc_time \<Rightarrow> load_unit" where
  "load p T C D =
     \<lparr>lu_name = ''l'', lu_priority = p, lu_period = T, wc_load = C, rel_deadline = D,
      wc_response = 0\<rparr>"

theorem load_analysis_closed_form_witness:
  "\<exists>ls'. assess_precise_bound False [load 1 3 2 3, load 2 20 3 9] = Inr (True, ls') \<and>
     map wc_response ls' = [2, 9]"
  using load_analysis_closed_form [of "[load 1 3 2 3, load 2 20 3 9]"]
  by (simp add: load_def first_guess_def closed_response_def ceil_div_def)

text \<open>The equation of the exact response under fixed priorities.\<close>

definition response_equation :: "load_unit list \<Rightarrow> load_unit \<Rightarrow> sc_time \<Rightarrow> bool" where
  "response_equation hps l w \<longleftrightarrow>
     w = wc_load l + (\<Sum>h\<leftarrow>hps. ceil_div w (lu_period h) * wc_load h)"

lemma ceil_div_one: "0 < w \<Longrightarrow> w \<le> p \<Longrightarrow> ceil_div w p = 1"
  by (cases "w = p") (auto simp: ceil_div_def)

text \<open>
  When a load completes within the first period of all those before it, the sum of the loads is
  the solution of the response equation, yet the response the analysis stores is larger, by the
  whole load of those before it.
\<close>
theorem load_analysis_pessimistic:
  assumes "0 < first_guess hps l" "\<forall>h \<in> set hps. first_guess hps l \<le> lu_period h"
  shows "response_equation hps l (first_guess hps l) \<and>
    response_of hps l = Inr (first_guess hps l + (\<Sum>h\<leftarrow>hps. wc_load h))"
proof -
  have one: "ceil_div (first_guess hps l) (lu_period h) = 1" if "h \<in> set hps" for h
    using assms that by (intro ceil_div_one) auto
  then have sum: "(\<Sum>h\<leftarrow>hps. ceil_div (first_guess hps l) (lu_period h) * wc_load h) =
      (\<Sum>h\<leftarrow>hps. wc_load h)"
    by (intro arg_cong [where f = sum_list] map_cong) simp_all
  have "response_of hps l = Inr (closed_response hps l)"
    by (rule response_of_value) (use assms one in fastforce)
  then show ?thesis
    using sum by (simp add: closed_response_def response_equation_def first_guess_def)
qed

theorem load_analysis_pessimistic_witness:
  "response_equation [load 1 100 10 100] (load 2 100 20 35) 30 \<and>
   response_of [load 1 100 10 100] (load 2 100 20 35) = Inr 40"
  using load_analysis_pessimistic [of "[load 1 100 10 100]" "load 2 100 20 35"]
  by (simp add: first_guess_def load_def)

text \<open>
  The analysis is not a safe test. Two loads of periods 10 and 10 and loads 5 and 4 leave a third
  of load 10 no response below 100, but the analysis stores the response 37 for it and accepts its
  deadline of 50.
\<close>
theorem load_analysis_optimistic:
  "\<exists>ls'. assess_precise_bound False [load 1 10 5 10, load 2 10 4 20, load 3 200 10 50] = Inr (True, ls')
     \<and> map wc_response ls' = [5, 14, 37]
     \<and> (\<nexists>w. response_equation [load 1 10 5 10, load 2 10 4 20] (load 3 200 10 50) w \<and> w < 100)"
proof -
  let ?ls = "[load 1 10 5 10, load 2 10 4 20, load 3 200 10 50]"
  have ok: "triggers_ok [] ?ls" "deadlines_met [] ?ls"
    by (simp_all add: load_def first_guess_def closed_response_def ceil_div_def)
  have "100 \<le> w" if "response_equation [load 1 10 5 10, load 2 10 4 20] (load 3 200 10 50) w" for w
  proof -
    have w: "w = 10 + ceil_div w 10 * 9"
      using that by (simp add: response_equation_def load_def)
    moreover have "w \<le> ceil_div w 10 * 10" using ceil_div_ge [of 10 w] by simp
    ultimately show ?thesis by linarith
  qed
  then show ?thesis
    using assess_loop_all [OF ok(1), of "[]" True] ok(2)
    by (force simp: assess_precise_bound_def not_less load_def first_guess_def closed_response_def
        ceil_div_def)
qed

end
