(* ===== verification/Throughput_Monitor.thy ===== *)
theory Throughput_Monitor
  imports Doubles Sim_Phase
begin

text \<open>
  \<open>synch_comm/throughput_monitor.cpp\<close>: the monitor that fifo buffers annotate with every transfer.
  A unit argument is the string the caller passes; comparing its first character follows \<open>strncmp\<close>.
\<close>

record throughput_monitor =
  activated :: bool
  cur_time :: sc_time
  prev_time :: sc_time
  cur_lag :: sc_time
  prev_lag :: sc_time
  data_size :: u32
  n_devents :: u64
  stationary :: bool
  lag_matches :: u32

definition new_throughput_monitor :: "u32 \<Rightarrow> throughput_monitor" where
  "new_throughput_monitor sz =
     \<lparr>activated = False, cur_time = 0, prev_time = 0, cur_lag = 0, prev_lag = 0, data_size = sz,
      n_devents = 0, stationary = False, lag_matches = 0\<rparr>"

definition set_data_size :: "u32 \<Rightarrow> throughput_monitor \<Rightarrow> throughput_monitor" where
  "set_data_size sz m = m\<lparr>data_size := sz\<rparr>"

definition annotate_data_event :: "sc_time \<Rightarrow> throughput_monitor \<Rightarrow> throughput_monitor" where
  "annotate_data_event now m0 =
     (let m = m0\<lparr>n_devents := n_devents m0 + 1\<rparr> in
      if n_devents m = 1 then m\<lparr>cur_time := now, cur_lag := sc_minus now (prev_time m)\<rparr>
      else if n_devents m \<ge> 2 then
        (let m1 = m\<lparr>cur_time := now, prev_lag := cur_lag m, cur_lag := sc_minus now (prev_time m)\<rparr>;
             m2 = (if cur_lag m1 = prev_lag m1 then
                     (let k = (if lag_matches m1 < 1000000 then lag_matches m1 + 1 else lag_matches m1)
                      in m1\<lparr>lag_matches := k, stationary := (if k \<ge> 2 then True else stationary m1)\<rparr>)
                   else m1\<lparr>lag_matches := 0, stationary := False\<rparr>)
         in m2\<lparr>prev_time := now\<rparr>)
      else m)"

definition first_char :: "string \<Rightarrow> char" where
  "first_char u = (case u of [] \<Rightarrow> CHR 0x00 | c # _ \<Rightarrow> c)"

definition bit_unit :: "string \<Rightarrow> bool" where
  "bit_unit u = (length u = 0 \<or> first_char u = CHR ''b'')"

definition hertz_unit :: "string \<Rightarrow> bool" where
  "hertz_unit u = (length u = 0 \<or> first_char u = CHR ''H'' \<or> first_char u = CHR ''h'')"

definition get_throughput :: "string \<Rightarrow> throughput_monitor \<Rightarrow> double result" where
  "get_throughput u m =
     (if n_devents m > 0 then
        (if cur_time m = 0 then Inr (Fin (- 1))
         else if bit_unit u
           then Inr (ddiv (Fin (of_nat (unat (n_devents m)))) (Fin (to_seconds (cur_time m))))
         else rmap (\<lambda>f. ddiv (Fin (f * of_nat (unat (n_devents m)))) (Fin (to_seconds (cur_time m))))
                (conv_data_rate_factor (first_char u)))
      else Inr (Fin 0))"

definition get_stationary_throughput :: "string \<Rightarrow> throughput_monitor \<Rightarrow> double result" where
  "get_stationary_throughput u m =
     (if n_devents m > 1 then
        (if cur_time m = 0 then Inr (Fin (- 1))
         else if bit_unit u
           then Inr (ddiv (Fin (of_nat (unat (data_size m)))) (Fin (to_seconds (cur_lag m))))
         else rmap (\<lambda>f. ddiv (Fin (f * of_nat (unat (data_size m)))) (Fin (to_seconds (cur_lag m))))
                (conv_data_rate_factor (first_char u)))
      else Inr (Fin 0))"

definition get_normalized_throughput :: "string \<Rightarrow> throughput_monitor \<Rightarrow> double result" where
  "get_normalized_throughput u m =
     (if n_devents m > 0 then
        (if cur_time m = 0 then Inr (Fin (- 1))
         else if hertz_unit u
           then Inr (ddiv (Fin (of_nat (unat (n_devents m)))) (Fin (to_seconds (cur_time m))))
         else rmap (\<lambda>f. ddiv (Fin (f * of_nat (unat (n_devents m)))) (Fin (to_seconds (cur_time m))))
                (conv_isu_factor (first_char u)))
      else Inr (Fin 0))"

definition get_normalized_stationary_throughput :: "string \<Rightarrow> throughput_monitor \<Rightarrow> double result" where
  "get_normalized_stationary_throughput u m =
     (if n_devents m > 1 then
        (if cur_time m = 0 then Inr (Fin (- 1))
         else if hertz_unit u then Inr (ddiv (Fin 1) (Fin (to_seconds (cur_lag m))))
         else rmap (\<lambda>f. ddiv (Fin f) (Fin (to_seconds (cur_lag m))))
                (conv_isu_factor (first_char u)))
      else Inr (Fin 0))"

definition get_period :: "throughput_monitor \<Rightarrow> sc_time" where
  "get_period m = (if n_devents m > 1 then (if cur_time m = 0 then 0 else cur_lag m) else 0)"

definition get_period_in :: "string \<Rightarrow> throughput_monitor \<Rightarrow> rat result" where
  "get_period_in u m =
     rmap (\<lambda>f. to_seconds (get_period m) * f) (conv_isu_factor (first_char u))"

subsection \<open>Lemmas\<close>

text \<open>
  The lags the monitor measures: the first two from time zero, since the first event does not move
  the previous time, and each later one from the event before.
\<close>

definition lag :: "sc_time list \<Rightarrow> nat \<Rightarrow> sc_time" where
  "lag ts i = (if i < 2 then ts ! i else ts ! i - ts ! (i - 1))"

definition monitor_run :: "throughput_monitor \<Rightarrow> sc_time list \<Rightarrow> throughput_monitor" where
  "monitor_run m ts = fold annotate_data_event ts m"

lemma monitor_run_snoc: "monitor_run m (ts @ [t]) = annotate_data_event t (monitor_run m ts)"
  by (simp add: monitor_run_def)

lemma lag_snoc: "i < length ts \<Longrightarrow> lag (ts @ [t]) i = lag ts i"
  by (simp add: lag_def nth_append)

definition monitor_inv :: "sc_time list \<Rightarrow> throughput_monitor \<Rightarrow> bool" where
  "monitor_inv ts m \<longleftrightarrow>
     (let n = length ts in
      n_devents m = of_nat n \<and>
      cur_time m = (if n = 0 then 0 else last ts) \<and>
      cur_lag m = (if n = 0 then 0 else lag ts (n - 1)) \<and>
      prev_time m = (if n < 2 then 0 else last ts) \<and>
      (stationary m \<longleftrightarrow> lag_matches m \<ge> 2) \<and> lag_matches m \<le> 1000000 \<and>
      (lag_matches m \<ge> 1 \<longleftrightarrow> n \<ge> 2 \<and> lag ts (n - 1) = lag ts (n - 2)) \<and>
      (lag_matches m \<ge> 2 \<longleftrightarrow> n \<ge> 3 \<and> lag ts (n - 1) = lag ts (n - 2) \<and> lag ts (n - 2) = lag ts (n - 3)))"

lemma monitor_inv_new: "monitor_inv [] (new_throughput_monitor sz)"
  by (simp add: monitor_inv_def new_throughput_monitor_def)

lemma count_word: "Suc n < 2 ^ 64 \<Longrightarrow> (of_nat n + 1 :: u64) = 1 \<longleftrightarrow> n = 0"
  "1 \<le> n \<Longrightarrow> Suc n < 2 ^ 64 \<Longrightarrow> (of_nat n + 1 :: u64) \<ge> 2"
proof -
  assume lt: "Suc n < 2 ^ 64"
  have e: "(of_nat n + 1 :: u64) = of_nat (Suc n)" by simp
  have u: "unat (of_nat (Suc n) :: u64) = Suc n"
    using lt by (simp add: unat_of_nat take_bit_eq_mod del: of_nat_Suc)
  show "(of_nat n + 1 :: u64) = 1 \<longleftrightarrow> n = 0"
  proof
    assume "(of_nat n + 1 :: u64) = 1"
    then have "unat (of_nat (Suc n) :: u64) = 1" by (simp add: e [symmetric] del: of_nat_Suc)
    with u show "n = 0" by simp
  qed simp
next
  assume "1 \<le> n" and lt: "Suc n < 2 ^ 64"
  have e: "(of_nat n + 1 :: u64) = of_nat (Suc n)" by simp
  have "unat (of_nat (Suc n) :: u64) = Suc n"
    using lt by (simp add: unat_of_nat take_bit_eq_mod del: of_nat_Suc)
  with \<open>1 \<le> n\<close> show "(of_nat n + 1 :: u64) \<ge> 2"
    unfolding e by (simp add: word_le_nat_alt del: of_nat_Suc)
qed

text \<open>One step of the count of matches: it saturates, and counts at least one and at least two.\<close>

lemma match_step:
  assumes "k \<le> (1000000 :: u32)"
  defines "k' \<equiv> if k < 1000000 then k + 1 else k"
  shows "k' \<le> 1000000" "k' \<ge> 1" "k' \<ge> 2 \<longleftrightarrow> k \<ge> 1"
proof -
  have k: "unat k \<le> 1000000" using assms(1) by (simp add: word_le_nat_alt)
  have u: "unat k' = (if unat k < 1000000 then unat k + 1 else unat k)"
    using k by (auto simp: k'_def word_less_nat_alt unat_word_ariths)
  show "k' \<le> 1000000" "k' \<ge> 1" "k' \<ge> 2 \<longleftrightarrow> k \<ge> 1"
    using k u by (auto simp: word_le_nat_alt)
qed

lemma annotate_first:
  assumes "monitor_inv [] m"
  shows "monitor_inv [t] (annotate_data_event t m)"
  using assms by (simp add: monitor_inv_def annotate_data_event_def lag_def)

lemma annotate_next:
  assumes inv: "monitor_inv ts m" and n: "1 \<le> length ts" "Suc (length ts) < 2 ^ 64"
    and sorted: "sorted (ts @ [t])"
  shows "monitor_inv (ts @ [t]) (annotate_data_event t m)"
proof -
  let ?n = "length ts"
  note I = inv [unfolded monitor_inv_def Let_def]
  have ev: "n_devents m + 1 \<noteq> 1" "n_devents m + 1 \<ge> 2"
    using I count_word(1) [OF n(2)] count_word(2) [OF n] n(1) by auto
  have "last ts \<in> set ts" using n(1) by (intro last_in_set) auto
  then have last: "last ts \<le> t" using sorted by (simp add: sorted_append)
  have new_lag: "sc_minus t (prev_time m) = lag (ts @ [t]) ?n"
  proof (cases "?n < 2")
    case True
    then show ?thesis using I by (simp add: lag_def)
  next
    case False
    have "ts \<noteq> []" using n(1) by auto
    then have "ts ! (?n - 1) = last ts" by (simp add: last_conv_nth)
    then show ?thesis using I False last by (simp add: lag_def nth_append)
  qed
  have old: "lag (ts @ [t]) (?n - 1) = lag ts (?n - 1)" "lag (ts @ [t]) (?n - 2) = lag ts (?n - 2)"
    using n(1) by (simp_all add: lag_snoc)
  have cur: "cur_lag m = lag ts (?n - 1)" using I n(1) by auto
  show ?thesis
  proof (cases "lag (ts @ [t]) ?n = lag ts (?n - 1)")
    case True
    define k where "k = (if lag_matches m < 1000000 then lag_matches m + 1 else lag_matches m)"
    have k: "k \<le> 1000000" "k \<ge> 1" "k \<ge> 2 \<longleftrightarrow> lag_matches m \<ge> 1"
      using match_step [of "lag_matches m"] I by (auto simp: k_def)
    have two: "k \<ge> 2 \<longleftrightarrow> ?n \<ge> 2 \<and> lag ts (?n - 1) = lag ts (?n - 2)"
      using k(3) I by blast
    have st: "k \<ge> 2" if "stationary m"
    proof -
      have "?n \<ge> 3 \<and> lag ts (?n - 1) = lag ts (?n - 2)" using I that by blast
      then show ?thesis using two by simp
    qed
    have val: "annotate_data_event t m = m\<lparr>n_devents := n_devents m + 1, cur_time := t,
        prev_lag := cur_lag m, cur_lag := lag (ts @ [t]) ?n, lag_matches := k,
        stationary := (if k \<ge> 2 then True else stationary m), prev_time := t\<rparr>"
      using ev new_lag True cur by (simp add: annotate_data_event_def Let_def k_def)
    have stat: "(if k \<ge> 2 then True else stationary m) \<longleftrightarrow> k \<ge> 2" using st by auto
    show ?thesis
      unfolding monitor_inv_def Let_def val stat
      using I n(1) k(1,2) two True old by simp (use n(1) in auto)
  next
    case False
    have val: "annotate_data_event t m = m\<lparr>n_devents := n_devents m + 1, cur_time := t,
        prev_lag := cur_lag m, cur_lag := lag (ts @ [t]) ?n, lag_matches := 0,
        stationary := False, prev_time := t\<rparr>"
      using ev new_lag False cur by (simp add: annotate_data_event_def Let_def)
    show ?thesis
      unfolding monitor_inv_def Let_def val
      using I n False old by auto
  qed
qed

lemma monitor_run_inv:
  "length ts < 2 ^ 64 \<Longrightarrow> sorted ts \<Longrightarrow> monitor_inv ts (monitor_run (new_throughput_monitor sz) ts)"
proof (induction ts rule: rev_induct)
  case Nil
  then show ?case by (simp add: monitor_run_def monitor_inv_new)
next
  case (snoc t ts)
  have IH: "monitor_inv ts (monitor_run (new_throughput_monitor sz) ts)"
    by (rule snoc.IH) (use snoc.prems in \<open>simp_all add: sorted_append\<close>)
  show ?case
  proof (cases ts)
    case Nil
    then show ?thesis using annotate_first [OF monitor_inv_new]
      by (simp add: monitor_run_def)
  next
    case (Cons a r)
    then have "1 \<le> length ts" by simp
    then show ?thesis
      unfolding monitor_run_snoc using IH snoc.prems by (intro annotate_next) simp_all
  qed
qed

subsection \<open>Properties\<close>

text \<open>
  A monitor says that a transfer is stationary exactly when its last three lags are equal, the first
  two lags of a run being measured from time zero. Hence a stream of period \<open>P\<close> whose first event is
  at \<open>P\<close> is recognised from its fifth event on, and its period is reported from the third.
\<close>
theorem stationary_exact:
  assumes "sorted ts" "length ts < 2 ^ 64"
  defines "n \<equiv> length ts"
  shows "stationary (monitor_run (new_throughput_monitor sz) ts) \<longleftrightarrow>
           3 \<le> n \<and> lag ts (n - 1) = lag ts (n - 2) \<and> lag ts (n - 2) = lag ts (n - 3)"
  using monitor_run_inv [OF assms(2,1), of sz] by (simp add: monitor_inv_def Let_def n_def)

theorem stationary_exact_witness:
  "stationary (monitor_run (new_throughput_monitor 8) [10, 20, 30, 40, 50]) \<and>
   \<not> stationary (monitor_run (new_throughput_monitor 8) [10, 20, 30, 40])"
  using stationary_exact [of "[10, 20, 30, 40, 50]" 8] stationary_exact [of "[10, 20, 30, 40]" 8]
  by (simp add: lag_def)

end
