(* ===== verification/Links.thy ===== *)
theory Links
  imports Prelude "HOL-Library.Option_ord"
begin

text \<open>
  \<open>link_t.hpp\<close> and \<open>logic_link.cpp\<close>: links between two addresses, bound directly or by name, early or
  late, and the global tables of logic links. The class template is a record polymorphic in its
  address type; the null address is \<open>None\<close>, the least one.

  A logic link object is known by its address, a \<open>link_ptr\<close>.
\<close>

record 'a link_t =
  src :: "'a option"
  dest :: "'a option"
  link_name :: string
  src_elem_name :: string
  dest_elem_name :: string

definition link_init :: "'a link_t \<Rightarrow> 'a link_t" where
  "link_init l = l\<lparr>src := None, dest := None\<rparr>"

definition empty_link :: "'a link_t" where
  "empty_link = \<lparr>src = None, dest = None, link_name = '''', src_elem_name = '''', dest_elem_name = ''''\<rparr>"

text \<open>The four constructors.\<close>

definition new_link :: "'a link_t" where
  "new_link = link_init empty_link"

definition new_link_named :: "string \<Rightarrow> 'a link_t" where
  "new_link_named n = link_init (empty_link\<lparr>link_name := n\<rparr>)"

definition new_link_bound :: "string \<Rightarrow> 'a option \<Rightarrow> 'a option \<Rightarrow> 'a link_t" where
  "new_link_bound n s d = (link_init (empty_link\<lparr>link_name := n\<rparr>))\<lparr>src := s, dest := d\<rparr>"

definition new_link_by_names :: "string \<Rightarrow> string \<Rightarrow> string \<Rightarrow> 'a link_t" where
  "new_link_by_names n s d =
     (link_init (empty_link\<lparr>link_name := n\<rparr>))\<lparr>src_elem_name := s, dest_elem_name := d\<rparr>"

definition resolved :: "'a link_t \<Rightarrow> bool" where
  "resolved l = (src l \<noteq> None \<and> dest l \<noteq> None)"

definition bind :: "'a option \<Rightarrow> 'a option \<Rightarrow> 'a link_t \<Rightarrow> 'a link_t" where
  "bind s d l = l\<lparr>src := s, dest := d\<rparr>"

text \<open>The argument \<open>addr\<close> is the instance of \<open>get_address_by_elem_name\<close> for the address type.\<close>

definition bind_by_names ::
    "(string \<Rightarrow> 'a result) \<Rightarrow> string \<Rightarrow> string \<Rightarrow> 'a link_t \<Rightarrow> 'a link_t result" where
  "bind_by_names addr s d l =
     (let l1 = l\<lparr>src_elem_name := s, dest_elem_name := d\<rparr> in
      rbind (addr (src_elem_name l1)) (\<lambda>a.
      rbind (addr (dest_elem_name l1)) (\<lambda>b.
        Inr (l1\<lparr>src := Some a, dest := Some b\<rparr>))))"

text \<open>An end without address and without name stays unresolved, with a warning.\<close>

definition resolve_bind_by_name :: "(string \<Rightarrow> 'a result) \<Rightarrow> 'a link_t \<Rightarrow> 'a link_t result" where
  "resolve_bind_by_name addr l =
     (if \<not> resolved l then
        rbind (if src l = None \<and> length (src_elem_name l) \<noteq> 0
               then rmap (\<lambda>a. l\<lparr>src := Some a\<rparr>) (addr (src_elem_name l)) else Inr l) (\<lambda>l1.
          if dest l1 = None \<and> length (dest_elem_name l1) \<noteq> 0
          then rmap (\<lambda>b. l1\<lparr>dest := Some b\<rparr>) (addr (dest_elem_name l1)) else Inr l1)
      else Inr l)"

definition link_less :: "('a::linorder) link_t \<Rightarrow> 'a link_t \<Rightarrow> bool" where
  "link_less l m = (if src l < src m then True else if dest l < dest m then True else False)"

definition link_eq :: "'a link_t \<Rightarrow> 'a link_t \<Rightarrow> bool" where
  "link_eq l m = (src l = src m \<and> dest l = dest m)"

definition is_intracomm :: "'a link_t \<Rightarrow> bool" where
  "is_intracomm l = (src l = dest l)"

subsection \<open>Logic links\<close>

text \<open>
  The address of a task by its name: a system task first, then one of the environment. The tables map
  a name to the address of the task.
\<close>

definition get_task_address ::
    "(string \<rightharpoonup> 'a) \<Rightarrow> (string \<rightharpoonup> 'a) \<Rightarrow> string \<Rightarrow> 'a result" where
  "get_task_address system env n =
     (case system n of
        Some a \<Rightarrow> Inr a
      | None \<Rightarrow> (case env n of
                   Some a \<Rightarrow> Inr a
                 | None \<Rightarrow> report (''Logic address (task info pointer) could not be obtained for task '' @ n)))"

record 'a link_tables =
  sys_conn :: "link_ptr list"
  sys_conn_by_name :: "string \<rightharpoonup> link_ptr"
  link_at :: "link_ptr \<Rightarrow> 'a link_t"

text \<open>Every constructor of \<open>logic_link_info_t\<close> builds its link, at the address \<open>p\<close>, and registers it.\<close>

definition new_logic_link :: "link_ptr \<Rightarrow> 'a link_t \<Rightarrow> 'a link_tables \<Rightarrow> 'a link_tables" where
  "new_logic_link p l g =
     g\<lparr>sys_conn := sys_conn g @ [p], sys_conn_by_name := (sys_conn_by_name g)(link_name l \<mapsto> p),
       link_at := (link_at g)(p := l)\<rparr>"

subsection \<open>Properties\<close>

text \<open>
  Late binding is early binding. A link constructed with the names of its ends and resolved at the
  end of elaboration is the link bound by these names at once, with the same error when a name has
  no address; and resolving never changes an end that has an address.
\<close>
theorem late_binding_is_early:
  assumes "s \<noteq> ''''" "d \<noteq> ''''"
  shows "resolve_bind_by_name addr (new_link_by_names n s d) = bind_by_names addr s d (new_link_named n)
    \<and> (resolve_bind_by_name addr l = Inr l' \<longrightarrow>
         (src l \<noteq> None \<longrightarrow> src l' = src l) \<and> (dest l \<noteq> None \<longrightarrow> dest l' = dest l))"
proof
  show "resolve_bind_by_name addr (new_link_by_names n s d) = bind_by_names addr s d (new_link_named n)"
    using assms
    by (cases "addr s"; cases "addr d")
      (simp_all add: resolve_bind_by_name_def new_link_by_names_def bind_by_names_def Let_def
        new_link_named_def resolved_def link_init_def empty_link_def)
  show "resolve_bind_by_name addr l = Inr l' \<longrightarrow>
         (src l \<noteq> None \<longrightarrow> src l' = src l) \<and> (dest l \<noteq> None \<longrightarrow> dest l' = dest l)"
    by (auto simp: resolve_bind_by_name_def rbind_eq_Inr rmap_eq_Inr split: if_splits)
qed

theorem late_binding_is_early_witness:
  "resolve_bind_by_name (get_task_address [''a'' \<mapsto> 1] [''env'' \<mapsto> 2]) (new_link_by_names ''l'' ''env'' ''a'') =
     Inr \<lparr>src = Some (2::nat), dest = Some 1, link_name = ''l'', src_elem_name = ''env'',
          dest_elem_name = ''a''\<rparr>"
  using late_binding_is_early [of "''env''" "''a''" "get_task_address [''a'' \<mapsto> (1::nat)] [''env'' \<mapsto> 2]" "''l''"]
  by (simp add: bind_by_names_def get_task_address_def new_link_named_def link_init_def
      empty_link_def Let_def)

text \<open>
  The order of links, the key order of the table of connection types, holds in both directions for
  exactly the pairs of links whose sources and destinations are ordered in opposite ways, and holds
  in neither exactly for equal ends.
\<close>
theorem link_order_conflicts:
  "(link_less l m \<and> link_less m l \<longleftrightarrow>
      src l < src m \<and> dest m < dest l \<or> src m < src l \<and> dest l < dest m)
   \<and> (\<not> link_less l m \<and> \<not> link_less m l \<longleftrightarrow> link_eq l m)"
  by (auto simp: link_less_def link_eq_def)

end
