(* ===== verification/Network_Interface.thy ===== *)
theory Network_Interface
  imports Links Sim_Phase
begin

text \<open>
  \<open>network_interface.cpp\<close>: the network interface of a processing element, its transmission buffer, the
  queue of send requests ordered by request time, the choice of the next request, with or without a
  static schedule of the communications, the preparation of such a schedule, and the process that
  serves the requests.

  The queue is a multimap from request times: a list ordered by key, where a new entry goes after
  those with its key. Pointers to logic links, physical links, communication resources and semaphores
  are addresses.
\<close>

record send_message_request_t =
  req_logic_link :: link_ptr
  req_comm_res :: nat
  req_phy_link :: nat
  message_size :: u32
  completed_transactions_p :: nat
  request_time :: sc_time

type_synonym send_req_queue_t = "(sc_time \<times> send_message_request_t) list"

record network_interface =
  finite_buffer_flag :: bool
  tx_buffer_size :: u32
  cur_data_in_tx_buffer :: u32
  room_in_tx_buffer :: u32
  owner_PE :: string
  send_queue :: send_req_queue_t
  ni_static_comm_schedule :: "link_ptr list"
  ni_static_comm_schedule_by_name :: "string list"
  ni_static_comm_schedule_by_task_names :: "(string \<times> string) list"

subsection \<open>Construction and the transmission buffer\<close>

definition new_network_interface :: "string \<Rightarrow> network_interface" where
  "new_network_interface pe =
     \<lparr>finite_buffer_flag = False, tx_buffer_size = 0, cur_data_in_tx_buffer = 0,
      room_in_tx_buffer = 0, owner_PE = pe, send_queue = [], ni_static_comm_schedule = [],
      ni_static_comm_schedule_by_name = [], ni_static_comm_schedule_by_task_names = []\<rparr>"

text \<open>
  The constructor with a size tests the counter of the buffer, not the size, before it is set, and
  does not set the flag of the finite buffer: both are those of the storage, \<open>raw\<close>. Its error branch
  reads the owner, also not set.
\<close>

definition new_network_interface_sized ::
    "network_interface \<Rightarrow> string \<Rightarrow> u32 \<Rightarrow> network_interface result" where
  "new_network_interface_sized raw pe sz =
     (if cur_data_in_tx_buffer raw = 0 then undef ''owner_PE''
      else Inr ((new_network_interface pe)\<lparr>finite_buffer_flag := finite_buffer_flag raw,
             tx_buffer_size := sz, cur_data_in_tx_buffer := 0, room_in_tx_buffer := sz\<rparr>))"

definition set_tx_buffer_size :: "sim_env \<Rightarrow> u32 \<Rightarrow> network_interface \<Rightarrow> network_interface result" where
  "set_tx_buffer_size e sz ni =
     (if sc_status e \<in> {SC_START_OF_SIMULATION, SC_RUNNING, SC_STOPPED, SC_PAUSED, SC_END_OF_SIMULATION}
      then report ''''
      else Inr (ni\<lparr>finite_buffer_flag := True, tx_buffer_size := sz, cur_data_in_tx_buffer := 0,
                   room_in_tx_buffer := sz\<rparr>))"

subsection \<open>Requests\<close>

fun multimap_insert :: "'k::linorder \<Rightarrow> 'v \<Rightarrow> ('k \<times> 'v) list \<Rightarrow> ('k \<times> 'v) list" where
  "multimap_insert k v [] = [(k, v)]"
| "multimap_insert k v ((k', v') # q) =
     (if k < k' then (k, v) # (k', v') # q else (k', v') # multimap_insert k v q)"

text \<open>
  What \<open>request_sending\<close> does from its guard on: \<open>None\<close> is the wait for \<open>send_request_completed\<close>,
  after which the guard is tested again. The event \<open>send_request_ev\<close> is notified once, before.
\<close>

definition request_sending :: "send_message_request_t \<Rightarrow> network_interface \<Rightarrow> network_interface option" where
  "request_sending r ni =
     (if finite_buffer_flag ni \<and> message_size r > room_in_tx_buffer ni then None
      else Some (ni\<lparr>send_queue := multimap_insert (request_time r) r (send_queue ni),
                    room_in_tx_buffer := room_in_tx_buffer ni - message_size r,
                    cur_data_in_tx_buffer := cur_data_in_tx_buffer ni + message_size r\<rparr>))"

definition there_is_static_comm_scheduling :: "sim_env \<Rightarrow> network_interface \<Rightarrow> bool result" where
  "there_is_static_comm_scheduling e ni =
     rmap (\<lambda>_. ni_static_comm_schedule ni \<noteq> [])
       (check_call_after_sim_start e ''there_is_static_comm_scheduling'')"

definition first_index :: "('a \<Rightarrow> bool) \<Rightarrow> 'a list \<Rightarrow> nat option" where
  "first_index P xs = (if list_ex P xs then Some (length (takeWhile (\<lambda>x. \<not> P x) xs)) else None)"

text \<open>The position, among the simultaneous requests, of the one the static schedule selects.\<close>

fun static_comm_dispatch :: "link_ptr list \<Rightarrow> send_message_request_t list \<Rightarrow> nat result" where
  "static_comm_dispatch [] rs = report ''Pending synchronous communication send requests: none of then were found in the static communication schedule!.''"
| "static_comm_dispatch (l # ls) rs =
     (case first_index (\<lambda>r. l = req_logic_link r) rs of
        Some i \<Rightarrow> Inr i
      | None \<Rightarrow> static_comm_dispatch ls rs)"

definition synch_requests :: "send_req_queue_t \<Rightarrow> send_message_request_t list" where
  "synch_requests q = (case q of [] \<Rightarrow> [] | (k, _) # _ \<Rightarrow> map snd (takeWhile (\<lambda>(k', _). k' = k) q))"

text \<open>The position in the queue of the request to serve, and the dispatch, which takes it out.\<close>

definition dispatch_choice :: "sim_env \<Rightarrow> network_interface \<Rightarrow> nat result" where
  "dispatch_choice e ni =
     (let q = send_queue ni in
      if length q > 1 then
        (if length (synch_requests q) > 1 then
           rbind (there_is_static_comm_scheduling e ni) (\<lambda>b.
             if b then static_comm_dispatch (ni_static_comm_schedule ni) (synch_requests q)
             else Inr 0)
         else Inr 0)
      else if length q = 1 then Inr 0
      else report (''Unexpected situation. Dispatch of a new communication in the PE '' @ owner_PE ni
             @ '' network interface was triggered while its sending queue is empty.''))"

definition netif_dispatch ::
    "sim_env \<Rightarrow> network_interface \<Rightarrow> (send_message_request_t \<times> network_interface) result" where
  "netif_dispatch e ni =
     rmap (\<lambda>i. (snd (send_queue ni ! i),
               ni\<lparr>send_queue := take i (send_queue ni) @ drop (Suc i) (send_queue ni)\<rparr>))
       (dispatch_choice e ni)"

definition netif_comm_delay ::
    "bool \<Rightarrow> (send_message_request_t \<Rightarrow> sc_time) \<Rightarrow> (send_message_request_t \<Rightarrow> sc_time)
       \<Rightarrow> send_message_request_t \<Rightarrow> sc_time" where
  "netif_comm_delay worst_case max_delay current_delay r =
     (if worst_case then max_delay r else current_delay r)"

text \<open>The end of a transfer gives the room back.\<close>

definition transfer_end :: "send_message_request_t \<Rightarrow> network_interface \<Rightarrow> network_interface" where
  "transfer_end r ni =
     ni\<lparr>room_in_tx_buffer := room_in_tx_buffer ni + message_size r,
        cur_data_in_tx_buffer := cur_data_in_tx_buffer ni - message_size r\<rparr>"

subsection \<open>Static schedules of communications\<close>

definition netif_set_static_comm_scheduling ::
    "sim_env \<Rightarrow> link_ptr list \<Rightarrow> network_interface \<Rightarrow> network_interface result" where
  "netif_set_static_comm_scheduling e l ni =
     rmap (\<lambda>_. ni\<lparr>ni_static_comm_schedule := l\<rparr>)
       (check_call_before_sim_start e ''set_static_comm_scheduling (by llink_set_t)'')"

definition netif_set_static_comm_scheduling_by_name ::
    "sim_env \<Rightarrow> string list \<Rightarrow> network_interface \<Rightarrow> network_interface result" where
  "netif_set_static_comm_scheduling_by_name e l ni =
     rmap (\<lambda>_. ni\<lparr>ni_static_comm_schedule_by_name := l\<rparr>)
       (check_call_before_sim_start e ''set_static_comm_scheduling (by llink_set_by_name_t)'')"

definition netif_set_static_comm_scheduling_by_task_names ::
    "sim_env \<Rightarrow> (string \<times> string) list \<Rightarrow> network_interface \<Rightarrow> network_interface result" where
  "netif_set_static_comm_scheduling_by_task_names e l ni =
     rmap (\<lambda>_. ni\<lparr>ni_static_comm_schedule_by_task_names := l\<rparr>)
       (check_call_before_sim_start e ''set_static_comm_scheduling (by llink_set_t)'')"

definition compare_schedules :: "link_ptr list \<Rightarrow> link_ptr list \<Rightarrow> string \<Rightarrow> unit result" where
  "compare_schedules s1 s2 types =
     (if length s1 \<noteq> length s2
      then report (''Sizes of the static communication schedules, specified '' @ types @ '', do not match.'')
      else check (list_all (\<lambda>i. s1 ! i = s2 ! i) [0..<length s1])
             (''Mismatch found in the static communication schedules, specified '' @ types))"

fun get_static_comm_schedule_from_names ::
    "'a link_tables \<Rightarrow> string list \<Rightarrow> link_ptr list result" where
  "get_static_comm_schedule_from_names g [] = Inr []"
| "get_static_comm_schedule_from_names g (n # ns) =
     (case sys_conn_by_name g n of
        None \<Rightarrow> report (''System level connection '' @ n @ '' doest not exist in the model.'')
      | Some p \<Rightarrow> rmap (\<lambda>ps. p # ps) (get_static_comm_schedule_from_names g ns))"

fun connections_between ::
    "(string \<Rightarrow> 'a result) \<Rightarrow> 'a link_tables \<Rightarrow> string \<Rightarrow> string \<Rightarrow> link_ptr list \<Rightarrow> link_ptr list result" where
  "connections_between addr g s d [] = Inr []"
| "connections_between addr g s d (p # ps) =
     rbind (addr s) (\<lambda>a.
     rbind (if src (link_at g p) = Some a then rmap (\<lambda>b. dest (link_at g p) = Some b) (addr d)
            else Inr False) (\<lambda>m.
       rmap (\<lambda>ls. if m then p # ls else ls) (connections_between addr g s d ps)))"

text \<open>
  Every connection between the two tasks is scheduled. With no connection at all in the model the names
  are not even looked up.
\<close>

fun get_static_comm_schedule_from_task_names ::
    "(string \<Rightarrow> 'a result) \<Rightarrow> 'a link_tables \<Rightarrow> (string \<times> string) list \<Rightarrow> link_ptr list result" where
  "get_static_comm_schedule_from_task_names addr g [] = Inr []"
| "get_static_comm_schedule_from_task_names addr g ((s, d) # ps) =
     rbind (connections_between addr g s d (sys_conn g)) (\<lambda>ls.
     rbind (check (ls \<noteq> []) (''System level connection (src task='' @ s @ '',dest task='' @ d @ '') doest not exist in the model.''))
       (\<lambda>_. rmap (\<lambda>qs. ls @ qs) (get_static_comm_schedule_from_task_names addr g ps)))"

definition check_and_prepare_comm_static_schedule ::
    "(string \<Rightarrow> 'a result) \<Rightarrow> 'a link_tables \<Rightarrow> network_interface \<Rightarrow> network_interface result" where
  "check_and_prepare_comm_static_schedule addr g ni =
     (let s1 = ni_static_comm_schedule ni; n2 = ni_static_comm_schedule_by_name ni;
          n3 = ni_static_comm_schedule_by_task_names ni in
      if s1 = [] \<and> n2 = [] \<and> n3 = [] then Inr ni
      else
        rbind (if n2 \<noteq> [] then get_static_comm_schedule_from_names g n2 else Inr []) (\<lambda>s2.
        rbind (if n3 \<noteq> [] then get_static_comm_schedule_from_task_names addr g n3 else Inr []) (\<lambda>s3.
          if s1 \<noteq> [] \<and> n2 \<noteq> [] \<and> n3 \<noteq> [] then
            rbind (compare_schedules s1 s2 ''by logic links and by their names'') (\<lambda>_.
              rmap (\<lambda>_. ni) (compare_schedules s1 s3 ''by logic links and by their src and dest task names''))
          else if s1 \<noteq> [] \<and> n2 \<noteq> [] then
            rmap (\<lambda>_. ni) (compare_schedules s1 s2 ''by logic links and by their names'')
          else if s1 \<noteq> [] \<and> n3 \<noteq> [] then
            rmap (\<lambda>_. ni) (compare_schedules s1 s3 ''by logic links and by their src and dest task names'')
          else if n2 \<noteq> [] \<and> n3 \<noteq> [] then
            rmap (\<lambda>_. ni\<lparr>ni_static_comm_schedule := s2\<rparr>)
              (compare_schedules s2 s3 ''by logic link names and by their src and dest task names'')
          else if n2 \<noteq> [] then Inr (ni\<lparr>ni_static_comm_schedule := s2\<rparr>)
          else if n3 \<noteq> [] then Inr (ni\<lparr>ni_static_comm_schedule := s3\<rparr>)
          else Inr ni)))"

subsection \<open>The process and its requesters\<close>

text \<open>
  \<open>network_interface_proc\<close>: before its first test, waiting for \<open>send_request_ev\<close>, resumed by it, in the
  wait for the delay of a transfer, or ended by an error report. A transfer begun in this delta cycle
  (flag \<open>False\<close>) cannot end in it. \<open>waiting_requests\<close> are the calls of \<open>request_sending\<close> suspended on
  \<open>send_request_completed\<close>, \<open>woken_requests\<close> those resumed by it. The two flags are the notifications
  for the next delta cycle. \<open>accepted\<close> and \<open>completed\<close> record the requests that entered the queue and
  those whose semaphore was posted.
\<close>

datatype netif_phase =
  Netif_Start | Await_Request | Netif_Woken | Transferring send_message_request_t bool | Netif_Error failure

record netif_config =
  the_netif :: network_interface
  netif_phase :: netif_phase
  send_request_ev :: bool
  send_request_completed :: bool
  waiting_requests :: "send_message_request_t list"
  woken_requests :: "send_message_request_t list"
  accepted :: "send_message_request_t multiset"
  completed :: "send_message_request_t multiset"

definition netif_dispatch_step :: "sim_env \<Rightarrow> netif_config \<Rightarrow> netif_config" where
  "netif_dispatch_step e c =
     (case netif_dispatch e (the_netif c) of
        Inr (r, ni) \<Rightarrow>
          c\<lparr>the_netif := ni, netif_phase := Transferring r False, send_request_completed := True\<rparr>
      | Inl f \<Rightarrow> c\<lparr>netif_phase := Netif_Error f\<rparr>)"

text \<open>The head of the loop: it waits only if the queue is empty, and dispatches after one wait.\<close>

definition netif_loop_head :: "sim_env \<Rightarrow> netif_config \<Rightarrow> netif_config" where
  "netif_loop_head e c =
     (if send_queue (the_netif c) = [] then c\<lparr>netif_phase := Await_Request\<rparr> else netif_dispatch_step e c)"

text \<open>A call of \<open>request_sending\<close> at its guard, the first time or resumed.\<close>

definition request_step :: "send_message_request_t \<Rightarrow> netif_config \<Rightarrow> netif_config" where
  "request_step r c =
     (case request_sending r (the_netif c) of
        Some ni \<Rightarrow> c\<lparr>the_netif := ni, accepted := add_mset r (accepted c)\<rparr>
      | None \<Rightarrow> c\<lparr>waiting_requests := waiting_requests c @ [r]\<rparr>)"

text \<open>The end of a delta cycle, when no process is left to run in it: the notifications take effect.\<close>

definition delta_end :: "netif_config \<Rightarrow> netif_config" where
  "delta_end c =
     c\<lparr>netif_phase := (case netif_phase c of
          Await_Request \<Rightarrow> (if send_request_ev c then Netif_Woken else Await_Request)
        | Transferring r _ \<Rightarrow> Transferring r True
        | p \<Rightarrow> p),
       send_request_ev := False, send_request_completed := False,
       woken_requests := (if send_request_completed c then waiting_requests c else []),
       waiting_requests := (if send_request_completed c then [] else waiting_requests c)\<rparr>"

inductive netif_internal :: "sim_env \<Rightarrow> netif_config \<Rightarrow> netif_config \<Rightarrow> bool" for e where
  netif_begin:
    "netif_phase c = Netif_Start \<Longrightarrow> netif_internal e c (netif_loop_head e c)"
| netif_wake:
    "netif_phase c = Netif_Woken \<Longrightarrow> netif_internal e c (netif_dispatch_step e c)"
| netif_transfer_end:
    "netif_phase c = Transferring r True \<Longrightarrow>
     netif_internal e c (netif_loop_head e (c\<lparr>the_netif := transfer_end r (the_netif c),
                                             completed := add_mset r (completed c)\<rparr>))"
| netif_retry:
    "woken_requests c = ws @ r # vs \<Longrightarrow>
     netif_internal e c (request_step r (c\<lparr>woken_requests := ws @ vs\<rparr>))"
| netif_delta:
    "netif_phase c \<notin> {Netif_Start, Netif_Woken} \<Longrightarrow> woken_requests c = [] \<Longrightarrow>
     netif_internal e c (delta_end c)"

text \<open>A task may call \<open>request_sending\<close> at any moment.\<close>

inductive netif_reachable :: "sim_env \<Rightarrow> network_interface \<Rightarrow> netif_config \<Rightarrow> bool" for e ni where
  netif_initial:
    "netif_reachable e ni \<lparr>the_netif = ni, netif_phase = Netif_Start, send_request_ev = False,
       send_request_completed = False, waiting_requests = [], woken_requests = [],
       accepted = {#}, completed = {#}\<rparr>"
| netif_call:
    "netif_reachable e ni c \<Longrightarrow> netif_reachable e ni (request_step r (c\<lparr>send_request_ev := True\<rparr>))"
| netif_next: "netif_reachable e ni c \<Longrightarrow> netif_internal e c c' \<Longrightarrow> netif_reachable e ni c'"

inductive_cases netif_internal_cases: "netif_internal e c c'"

end
