(* ===== verification/Netif_Props.thy ===== *)
theory Netif_Props
  imports Network_Interface
begin

text \<open>
  The network interface keeps its promises: the order of service, as an interface that the queue
  provides and any server of requests may rely on; the accounting of the transmission buffer; no
  request lost with an unbounded buffer, and the blocked requests of a bounded one.
\<close>

subsection \<open>The contract of a queue of timed requests\<close>

fun serve :: "('q \<Rightarrow> ('r \<times> 'q) result) \<Rightarrow> nat \<Rightarrow> 'q \<Rightarrow> ('r list \<times> 'q) result" where
  "serve get 0 q = Inr ([], q)"
| "serve get (Suc n) q =
     rbind (get q) (\<lambda>(r, q1). rmap (\<lambda>(rs, q2). (r # rs, q2)) (serve get n q1))"

locale request_queue =
  fixes put :: "'r \<Rightarrow> 'q \<Rightarrow> 'q option"
    and get :: "'q \<Rightarrow> ('r \<times> 'q) result"
    and wf :: "'q \<Rightarrow> bool"
    and pending :: "'q \<Rightarrow> 'r multiset"
    and time :: "'r \<Rightarrow> sc_time"
  assumes put_law: "wf q \<Longrightarrow> put r q = Some q' \<Longrightarrow> wf q' \<and> pending q' = add_mset r (pending q)"
    and get_law: "wf q \<Longrightarrow> get q = Inr (r, q') \<Longrightarrow>
      wf q' \<and> pending q = add_mset r (pending q') \<and> (\<forall>x \<in># pending q'. time r \<le> time x)"
begin

lemma serve_sorted:
  "wf q \<Longrightarrow> serve get n q = Inr (rs, q') \<Longrightarrow>
     wf q' \<and> pending q = mset rs + pending q' \<and> sorted (map time rs)
     \<and> (\<forall>r \<in> set rs. \<forall>x \<in># pending q'. time r \<le> time x)"
proof (induction n arbitrary: q rs)
  case (Suc n)
  obtain r q1 rs1 where g: "get q = Inr (r, q1)" "serve get n q1 = Inr (rs1, q')" "rs = r # rs1"
    using Suc.prems(2) by (auto simp: rbind_eq_Inr rmap_eq_Inr)
  note law = get_law [OF Suc.prems(1) g(1)]
  note IH = Suc.IH [OF conjunct1 [OF law] g(2)]
  have "set rs1 \<subseteq> set_mset (pending q1)" using IH by simp
  then have "\<forall>x \<in> set rs1. time r \<le> time x" using law by blast
  moreover have "\<forall>x \<in># pending q'. time r \<le> time x" using law IH by simp
  ultimately show ?case using law IH g(3) by simp
qed simp

lemma serve_length: "serve get n q = Inr (rs, q') \<Longrightarrow> length rs = n"
  by (induction n arbitrary: q rs) (auto simp: rbind_eq_Inr rmap_eq_Inr)

lemma serve_all:
  assumes "wf q" "serve get (size (pending q)) q = Inr (rs, q')"
  shows "mset rs = pending q" "sorted (map time rs)" "pending q' = {#}"
proof -
  note s = serve_sorted [OF assms]
  have "size (mset rs) = size (pending q)" using serve_length [OF assms(2)] by simp
  moreover have "size (pending q) = size (mset rs) + size (pending q')" using s by simp
  ultimately show e: "pending q' = {#}" by simp
  show "mset rs = pending q" "sorted (map time rs)" using s e by simp_all
qed

end

text \<open>The queue of a network interface provides it.\<close>

definition netif_wf :: "network_interface \<Rightarrow> bool" where
  "netif_wf ni \<longleftrightarrow> sorted (map fst (send_queue ni)) \<and> (\<forall>(k, r) \<in> set (send_queue ni). k = request_time r)"

definition netif_pending :: "network_interface \<Rightarrow> send_message_request_t multiset" where
  "netif_pending ni = mset (map snd (send_queue ni))"

lemma multimap_insert_mset: "mset (multimap_insert k v q) = add_mset (k, v) (mset q)"
  by (induction k v q rule: multimap_insert.induct) auto

lemma multimap_insert_set: "set (multimap_insert k v q) = insert (k, v) (set q)"
  by (metis multimap_insert_mset set_mset_add_mset_insert set_mset_mset)

lemma multimap_insert_sorted:
  "sorted (map fst q) \<Longrightarrow> sorted (map fst (multimap_insert k v q))"
proof (induction k v q rule: multimap_insert.induct)
  case (2 k v k' v' q)
  show ?case
  proof (cases "k < k'")
    case True
    then show ?thesis using 2 by force
  next
    case False
    then show ?thesis using 2 by (fastforce simp: multimap_insert_set)
  qed
qed simp

lemma netif_put:
  assumes "netif_wf ni" "request_sending r ni = Some ni'"
  shows "netif_wf ni' \<and> netif_pending ni' = add_mset r (netif_pending ni)"
proof -
  have q: "send_queue ni' = multimap_insert (request_time r) r (send_queue ni)"
    using assms(2) by (auto simp: request_sending_def split: if_splits)
  have "mset (send_queue ni') = add_mset (request_time r, r) (mset (send_queue ni))"
    unfolding q by (rule multimap_insert_mset)
  then have "netif_pending ni' = add_mset r (netif_pending ni)"
    by (simp add: netif_pending_def)
  then show ?thesis
    using assms(1) by (auto simp: netif_wf_def q multimap_insert_set multimap_insert_sorted)
qed

lemma first_index_Some:
  "first_index P xs = Some i \<Longrightarrow> i < length xs \<and> P (xs ! i) \<and> (\<forall>j < i. \<not> P (xs ! j))"
proof -
  assume a: "first_index P xs = Some i"
  then have i: "i = length (takeWhile (\<lambda>x. \<not> P x) xs)" and ex: "\<exists>x \<in> set xs. P x"
    by (auto simp: first_index_def list_ex_iff split: if_splits)
  then have lt: "i < length xs"
    by (metis length_takeWhile_le le_neq_implies_less takeWhile_eq_all_conv takeWhile_eq_take take_all_iff
        le_refl)
  moreover have "P (xs ! i)" using lt i nth_length_takeWhile by fastforce
  moreover have "\<forall>j < i. \<not> P (xs ! j)" using i by (metis nth_mem set_takeWhileD takeWhile_nth)
  ultimately show ?thesis by blast
qed

lemma first_index_None: "first_index P xs = None \<Longrightarrow> x \<in> set xs \<Longrightarrow> \<not> P x"
  by (auto simp: first_index_def list_ex_iff split: if_splits)

lemma static_comm_dispatch_ok:
  assumes "static_comm_dispatch ls rs = Inr i"
  shows "i < length rs \<and> (\<exists>ms l ns. ls = ms @ l # ns \<and> l = req_logic_link (rs ! i)
     \<and> (\<forall>r \<in> set rs. req_logic_link r \<notin> set ms) \<and> (\<forall>j < i. req_logic_link (rs ! j) \<noteq> l))"
  using assms
proof (induction ls)
  case (Cons l ls)
  show ?case
  proof (cases "first_index (\<lambda>r. l = req_logic_link r) rs")
    case None
    then have no: "\<forall>r \<in> set rs. req_logic_link r \<noteq> l"
      using first_index_None [OF None] by blast
    from Cons None obtain ms m ns where "i < length rs" "ls = ms @ m # ns"
      "m = req_logic_link (rs ! i)" "\<forall>r \<in> set rs. req_logic_link r \<notin> set ms"
      "\<forall>j < i. req_logic_link (rs ! j) \<noteq> m"
      by auto
    with no show ?thesis
      by (intro conjI exI [of _ "l # ms"] exI [of _ m] exI [of _ ns]) simp_all
  next
    case (Some k)
    then have "i = k" using Cons.prems by simp
    then show ?thesis
      using first_index_Some [OF Some]
      by (intro conjI exI [of _ "[]"] exI [of _ l] exI [of _ ls]) auto
  qed
qed (simp add: static_comm_dispatch.simps)

text \<open>What a dispatch returns: one of the simultaneous requests at the front of the queue.\<close>

lemma synch_requests_nth:
  assumes "i < length (synch_requests q)"
  shows "synch_requests q ! i = snd (q ! i) \<and> i < length q \<and> fst (q ! i) = fst (hd q)"
proof (cases q)
  case (Cons x q')
  obtain k v where x: "x = (k, v)" by fastforce
  let ?T = "takeWhile (\<lambda>(k', _). k' = k) q"
  have s: "synch_requests q = map snd ?T" by (simp add: synch_requests_def Cons x)
  then have i: "i < length ?T" using assms by simp
  have n: "?T ! i = q ! i" using i by (rule takeWhile_nth)
  have "fst (?T ! i) = k" using nth_mem [OF i] set_takeWhileD by fastforce
  moreover have "synch_requests q ! i = snd (?T ! i)" unfolding s using i by (rule nth_map)
  moreover have "i < length q"
    using i length_takeWhile_le [of "\<lambda>(k', _). k' = k" q] by linarith
  moreover have "fst (hd q) = k" by (simp add: Cons x)
  ultimately show ?thesis unfolding n by simp
qed (use assms in \<open>simp add: synch_requests_def\<close>)

lemma synch_requests_pos: "q \<noteq> [] \<Longrightarrow> 0 < length (synch_requests q)"
  by (cases q) (auto simp: synch_requests_def)

lemma dispatch_choice_ok:
  assumes "dispatch_choice e ni = Inr i"
  defines "rs \<equiv> synch_requests (send_queue ni)"
  shows "i < length rs"
    "length rs > 1 \<Longrightarrow> ni_static_comm_schedule ni \<noteq> [] \<Longrightarrow>
       static_comm_dispatch (ni_static_comm_schedule ni) rs = Inr i"
    "length rs = 1 \<or> ni_static_comm_schedule ni = [] \<Longrightarrow> i = 0"
proof -
  let ?q = "send_queue ni"
  have ne: "?q \<noteq> []" using assms(1) by (auto simp: dispatch_choice_def Let_def)
  then have pos: "0 < length rs" unfolding rs_def by (rule synch_requests_pos)
  have "length rs - 1 < length ?q"
    using synch_requests_nth [of "length rs - 1" ?q] pos by (simp add: rs_def)
  then have le: "length rs \<le> length ?q" by linarith
  consider (free) "length rs = 1 \<or> ni_static_comm_schedule ni = []" "i = 0"
    | (static) "length rs > 1" "ni_static_comm_schedule ni \<noteq> []"
        "static_comm_dispatch (ni_static_comm_schedule ni) rs = Inr i"
  proof (cases "length rs > 1")
    case True
    then have "1 < length ?q" using le by simp
    then have "rbind (there_is_static_comm_scheduling e ni) (\<lambda>b.
        if b then static_comm_dispatch (ni_static_comm_schedule ni) rs else Inr 0) = Inr i"
      using assms(1) True unfolding rs_def by (simp add: dispatch_choice_def Let_def)
    then obtain b where b: "there_is_static_comm_scheduling e ni = Inr b"
      "(if b then static_comm_dispatch (ni_static_comm_schedule ni) rs else Inr 0) = Inr i"
      unfolding rbind_eq_Inr by blast
    have "b \<longleftrightarrow> ni_static_comm_schedule ni \<noteq> []"
      using b(1) by (auto simp: there_is_static_comm_scheduling_def rmap_eq_Inr)
    then show ?thesis
      using True static free b(2) by (cases b) auto
  next
    case False
    then have "i = 0" using assms(1) by (auto simp: dispatch_choice_def Let_def rs_def split: if_splits)
    then show ?thesis using free pos False by simp
  qed
  then have all: "i < length rs \<and>
     (length rs > 1 \<longrightarrow> ni_static_comm_schedule ni \<noteq> [] \<longrightarrow>
        static_comm_dispatch (ni_static_comm_schedule ni) rs = Inr i) \<and>
     (length rs = 1 \<or> ni_static_comm_schedule ni = [] \<longrightarrow> i = 0)"
    using pos by cases (auto dest: static_comm_dispatch_ok)
  then show "i < length rs"
    "length rs > 1 \<Longrightarrow> ni_static_comm_schedule ni \<noteq> [] \<Longrightarrow>
       static_comm_dispatch (ni_static_comm_schedule ni) rs = Inr i"
    "length rs = 1 \<or> ni_static_comm_schedule ni = [] \<Longrightarrow> i = 0"
    by blast+
qed

lemma mset_remove_nth: "i < length q \<Longrightarrow> mset q = add_mset (q ! i) (mset (take i q @ drop (Suc i) q))"
  by (metis Cons_nth_drop_Suc append_take_drop_id mset.simps(2) mset_append union_mset_add_mset_right)

lemma sorted_remove_nth: "sorted (map f q) \<Longrightarrow> sorted (map f (take i q @ drop (Suc i) q))"
proof -
  assume s: "sorted (map f q)"
  have "sorted (map f (take i q))" "sorted (map f (drop (Suc i) q))"
    using s by (simp_all add: take_map [symmetric] drop_map [symmetric] sorted_wrt_take sorted_wrt_drop)
  moreover have "\<forall>x \<in> set (take i q). \<forall>y \<in> set (drop (Suc i) q). f x \<le> f y"
  proof (intro ballI)
    fix x y assume "x \<in> set (take i q)" "y \<in> set (drop (Suc i) q)"
    moreover have "set (drop (Suc i) q) \<subseteq> set (drop i q)" by (rule set_drop_subset_set_drop) simp
    moreover have "sorted (map f (take i q @ drop i q))" using s by simp
    ultimately show "f x \<le> f y" unfolding map_append sorted_append by auto
  qed
  ultimately show ?thesis by (auto simp: sorted_append)
qed

lemma netif_get:
  assumes "netif_wf ni" "netif_dispatch e ni = Inr (r, ni')"
  shows "netif_wf ni' \<and> netif_pending ni = add_mset r (netif_pending ni') \<and>
    (\<forall>x \<in># netif_pending ni'. request_time r \<le> request_time x)"
proof -
  let ?q = "send_queue ni"
  obtain i where i: "dispatch_choice e ni = Inr i" "r = snd (?q ! i)"
    "ni' = ni\<lparr>send_queue := take i ?q @ drop (Suc i) ?q\<rparr>"
    using assms(2) by (auto simp: netif_dispatch_def rmap_eq_Inr)
  have wfq: "\<forall>p \<in> set ?q. fst p = request_time (snd p)" using assms(1) by (auto simp: netif_wf_def)
  note n = synch_requests_nth [OF dispatch_choice_ok(1) [OF i(1)]]
  have wf': "netif_wf ni'"
    using assms(1) sorted_remove_nth [of fst ?q i] set_take_subset [of i ?q] set_drop_subset [of "Suc i" ?q]
    unfolding netif_wf_def i(3) by auto
  have m: "mset (map snd ?q) = add_mset r (netif_pending ni')"
    using arg_cong [OF mset_remove_nth, of i ?q "image_mset snd"] n
    by (simp add: netif_pending_def i(2,3))
  have least: "request_time r \<le> request_time x" if "x \<in># netif_pending ni'" for x
  proof -
    have "x \<in> snd ` set (take i ?q @ drop (Suc i) ?q)"
      using that by (simp add: netif_pending_def i(3) image_Un)
    then have "x \<in> snd ` set ?q"
      using set_take_subset [of i ?q] set_drop_subset [of "Suc i" ?q] by auto
    then obtain k where k: "(k, x) \<in> set ?q" by force
    have "fst (hd ?q) \<le> k"
      using assms(1) k by (cases ?q) (auto simp: netif_wf_def)
    moreover have "fst (?q ! i) = request_time r" unfolding i(2)
      by (rule bspec [OF wfq]) (use n in simp)
    moreover have "k = request_time x" using bspec [OF wfq k] by simp
    ultimately show ?thesis using n by simp
  qed
  show ?thesis using wf' m least by (simp add: netif_pending_def)
qed

interpretation netif_queue: request_queue request_sending "netif_dispatch e" netif_wf netif_pending request_time
  for e
  by unfold_locales (use netif_put netif_get in blast)+

subsection \<open>Reachable states\<close>

definition in_transfer :: "netif_config \<Rightarrow> send_message_request_t multiset" where
  "in_transfer c = (case netif_phase c of Transferring r _ \<Rightarrow> {#r#} | _ \<Rightarrow> {#})"

definition outstanding :: "netif_config \<Rightarrow> send_message_request_t multiset" where
  "outstanding c = netif_pending (the_netif c) + in_transfer c"

definition bits :: "send_message_request_t multiset \<Rightarrow> nat" where
  "bits M = (\<Sum>r \<in># M. unat (message_size r))"

lemma bits_simps [simp]: "bits {#} = 0" "bits (add_mset r M) = unat (message_size r) + bits M"
  "bits (M + N) = bits M + bits N"
  by (simp_all add: bits_def)

text \<open>What every step keeps, for a network interface that starts empty.\<close>

definition netif_inv :: "network_interface \<Rightarrow> netif_config \<Rightarrow> bool" where
  "netif_inv ni c \<longleftrightarrow>
     netif_wf (the_netif c)
     \<and> finite_buffer_flag (the_netif c) = finite_buffer_flag ni
     \<and> tx_buffer_size (the_netif c) = tx_buffer_size ni
     \<and> ni_static_comm_schedule (the_netif c) = ni_static_comm_schedule ni
     \<and> accepted c = completed c + outstanding c
     \<and> cur_data_in_tx_buffer (the_netif c) = of_nat (bits (outstanding c))
     \<and> room_in_tx_buffer (the_netif c) = tx_buffer_size ni - cur_data_in_tx_buffer (the_netif c)
     \<and> (finite_buffer_flag ni \<longrightarrow> bits (outstanding c) \<le> unat (tx_buffer_size ni))"

lemma request_sending_fields:
  assumes "request_sending r ni = Some ni'"
  shows "finite_buffer_flag ni' = finite_buffer_flag ni" "tx_buffer_size ni' = tx_buffer_size ni"
    "ni_static_comm_schedule ni' = ni_static_comm_schedule ni"
    "cur_data_in_tx_buffer ni' = cur_data_in_tx_buffer ni + message_size r"
    "room_in_tx_buffer ni' = room_in_tx_buffer ni - message_size r"
    "finite_buffer_flag ni \<longrightarrow> message_size r \<le> room_in_tx_buffer ni"
  using assms by (auto simp: request_sending_def split: if_splits)

lemma netif_dispatch_fields:
  assumes "netif_dispatch e ni = Inr (r, ni')"
  shows "finite_buffer_flag ni' = finite_buffer_flag ni" "tx_buffer_size ni' = tx_buffer_size ni"
    "ni_static_comm_schedule ni' = ni_static_comm_schedule ni"
    "cur_data_in_tx_buffer ni' = cur_data_in_tx_buffer ni"
    "room_in_tx_buffer ni' = room_in_tx_buffer ni"
  using assms by (auto simp: netif_dispatch_def rmap_eq_Inr)

lemma unat_bound: "unat (w :: u32) < 4294967296"
  by (rule order_less_le_trans [OF unsigned_less]) simp

lemma room_fits:
  assumes "b \<le> unat (T :: u32)" "s \<le> T - of_nat b"
  shows "unat s + b \<le> unat T"
proof -
  have b: "unat (of_nat b :: u32) = b"
    using assms(1) unat_bound [of T] by (simp add: unat_of_nat take_bit_eq_mod)
  then have "(of_nat b :: u32) \<le> T" using assms(1) by (simp add: word_le_nat_alt)
  then have "unat (T - of_nat b) = unat T - b" by (simp add: unat_sub b)
  then show ?thesis using assms by (simp add: word_le_nat_alt)
qed

lemma request_accepted:
  "message_size r \<le> room_in_tx_buffer ni \<Longrightarrow>
   request_sending r ni =
     Some (ni\<lparr>send_queue := multimap_insert (request_time r) r (send_queue ni),
              room_in_tx_buffer := room_in_tx_buffer ni - message_size r,
              cur_data_in_tx_buffer := cur_data_in_tx_buffer ni + message_size r\<rparr>)"
  by (simp add: request_sending_def not_less)

lemma request_waits:
  "finite_buffer_flag ni \<Longrightarrow> room_in_tx_buffer ni < message_size r \<Longrightarrow> request_sending r ni = None"
  by (simp add: request_sending_def)

lemma netif_inv_request:
  assumes "netif_inv ni c"
  shows "netif_inv ni (request_step r c)"
proof (cases "request_sending r (the_netif c)")
  case None
  then show ?thesis
    using assms by (simp add: request_step_def netif_inv_def outstanding_def in_transfer_def)
next
  case (Some ni')
  note f = request_sending_fields [OF Some]
  have inv: "netif_wf (the_netif c)" using assms by (simp add: netif_inv_def)
  note p = netif_put [OF inv Some]
  let ?c = "request_step r c"
  have c': "?c = c\<lparr>the_netif := ni', accepted := add_mset r (accepted c)\<rparr>"
    by (simp add: request_step_def Some)
  have out: "outstanding ?c = add_mset r (outstanding c)"
    using p by (simp add: c' outstanding_def in_transfer_def)
  have fit: "unat (message_size r) + bits (outstanding c) \<le> unat (tx_buffer_size ni)"
    if "finite_buffer_flag ni"
    using assms f(6) that by (intro room_fits) (simp_all add: netif_inv_def)
  show ?thesis
    using assms f p fit out unfolding netif_inv_def c' by simp
qed

lemma netif_inv_dispatch:
  assumes "netif_inv ni c" "in_transfer c = {#}"
  shows "netif_inv ni (netif_dispatch_step e c)"
proof (cases "netif_dispatch e (the_netif c)")
  case (Inl f)
  then show ?thesis
    using assms by (simp add: netif_dispatch_step_def netif_inv_def outstanding_def in_transfer_def)
next
  case (Inr p)
  then obtain r ni' where d: "netif_dispatch e (the_netif c) = Inr (r, ni')" by (cases p) auto
  have wf: "netif_wf (the_netif c)" using assms(1) by (simp add: netif_inv_def)
  note g = netif_get [OF wf d] and f = netif_dispatch_fields [OF d]
  have "outstanding (netif_dispatch_step e c) = outstanding c"
    using g assms(2) by (simp add: outstanding_def netif_dispatch_step_def d in_transfer_def)
  then show ?thesis
    using assms(1) f g by (simp add: netif_inv_def netif_dispatch_step_def d)
qed

lemma netif_inv_loop_head:
  assumes "netif_inv ni (c\<lparr>netif_phase := Await_Request\<rparr>)"
  shows "netif_inv ni (netif_loop_head e c)"
proof -
  have "netif_dispatch_step e c = netif_dispatch_step e (c\<lparr>netif_phase := Await_Request\<rparr>)"
    by (simp add: netif_dispatch_step_def split: sum.split)
  then show ?thesis
    using assms netif_inv_dispatch [OF assms, of e]
    by (simp add: netif_loop_head_def in_transfer_def)
qed

lemma netif_inv_transfer_end:
  assumes "netif_inv ni c" "netif_phase c = Transferring r b"
  shows "netif_inv ni (c\<lparr>the_netif := transfer_end r (the_netif c), completed := add_mset r (completed c),
    netif_phase := Await_Request\<rparr>)"
  using assms
  by (simp add: netif_inv_def outstanding_def in_transfer_def transfer_end_def netif_wf_def
      netif_pending_def) linarith

lemma netif_inv_step:
  assumes "netif_inv ni c" "netif_internal e c c'"
  shows "netif_inv ni c'"
  using assms(2)
proof (cases rule: netif_internal_cases [consumes 1, case_names start wake finish retry delta])
  case start
  have "netif_inv ni (c\<lparr>netif_phase := Await_Request\<rparr>)"
    using assms(1) start(2) by (simp add: netif_inv_def outstanding_def in_transfer_def)
  then show ?thesis unfolding start(1) by (rule netif_inv_loop_head)
next
  case wake
  then show ?thesis using assms(1) by (simp add: netif_inv_dispatch in_transfer_def)
next
  case (finish r)
  show ?thesis unfolding finish(1)
    using netif_inv_transfer_end [OF assms(1) finish(2)] by (intro netif_inv_loop_head) simp
next
  case (retry ws r vs)
  have "netif_inv ni (c\<lparr>woken_requests := ws @ vs\<rparr>)"
    using assms(1) by (simp add: netif_inv_def outstanding_def in_transfer_def)
  then show ?thesis unfolding retry(1) by (rule netif_inv_request)
next
  case delta
  then show ?thesis
    using assms(1)
    by (cases "netif_phase c") (simp_all add: netif_inv_def outstanding_def in_transfer_def delta_end_def)
qed

text \<open>An interface as constructed, or with the size of its buffer set.\<close>

definition netif_fresh :: "network_interface \<Rightarrow> bool" where
  "netif_fresh ni \<longleftrightarrow> send_queue ni = [] \<and> cur_data_in_tx_buffer ni = 0
     \<and> room_in_tx_buffer ni = tx_buffer_size ni"

lemma netif_reachable_inv:
  assumes "netif_reachable e ni c" "netif_fresh ni"
  shows "netif_inv ni c"
  using assms(1)
proof (induction rule: netif_reachable.induct)
  case netif_initial
  show ?case
    using assms(2) by (simp add: netif_inv_def netif_fresh_def netif_wf_def outstanding_def
        netif_pending_def in_transfer_def)
next
  case (netif_call c r)
  then have "netif_inv ni (c\<lparr>send_request_ev := True\<rparr>)"
    by (simp add: netif_inv_def outstanding_def in_transfer_def)
  then show ?case by (rule netif_inv_request)
next
  case (netif_next c c')
  then show ?case by (blast intro: netif_inv_step)
qed

subsection \<open>An unbounded buffer never strands a request\<close>

text \<open>
  With an unbounded buffer no call waits; an interface waiting for requests has some exactly when the
  notification is on its way, and one that was woken has some.
\<close>

definition live_inv :: "netif_config \<Rightarrow> bool" where
  "live_inv c \<longleftrightarrow>
     finite_buffer_flag (the_netif c) = False
     \<and> ni_static_comm_schedule (the_netif c) = []
     \<and> waiting_requests c = [] \<and> woken_requests c = []
     \<and> (case netif_phase c of
          Netif_Start \<Rightarrow> send_queue (the_netif c) = [] \<longrightarrow> \<not> send_request_ev c
        | Await_Request \<Rightarrow> send_queue (the_netif c) \<noteq> [] \<longleftrightarrow> send_request_ev c
        | Netif_Woken \<Rightarrow> send_queue (the_netif c) \<noteq> []
        | Transferring r b \<Rightarrow> b \<longrightarrow> send_request_ev c \<longrightarrow> send_queue (the_netif c) \<noteq> []
        | Netif_Error f \<Rightarrow> False)"

lemma multimap_insert_nonempty [simp]: "multimap_insert k v q \<noteq> []"
  by (cases q) (auto split: if_splits)

lemma request_unbounded:
  "\<not> finite_buffer_flag ni \<Longrightarrow> \<exists>ni'. request_sending r ni = Some ni' \<and> send_queue ni' \<noteq> []
     \<and> finite_buffer_flag ni' = finite_buffer_flag ni
     \<and> ni_static_comm_schedule ni' = ni_static_comm_schedule ni"
  by (simp add: request_sending_def)

lemma live_request:
  assumes "live_inv c"
  shows "live_inv (request_step r (c\<lparr>send_request_ev := True\<rparr>))"
proof -
  obtain ni' where n: "request_sending r (the_netif c) = Some ni'" "send_queue ni' \<noteq> []"
    "finite_buffer_flag ni' = False" "ni_static_comm_schedule ni' = []"
    using request_unbounded [of "the_netif c" r] assms by (auto simp: live_inv_def)
  then show ?thesis
    using assms by (simp add: live_inv_def request_step_def split: netif_phase.splits)
qed

text \<open>Without a static schedule a dispatch of a non-empty queue succeeds once the simulation runs.\<close>

lemma dispatch_free:
  assumes "send_queue ni \<noteq> []" "ni_static_comm_schedule ni = []" "sc_status e = SC_RUNNING"
  shows "dispatch_choice e ni = Inr 0"
  using assms
  by (cases "send_queue ni")
    (auto simp: dispatch_choice_def Let_def there_is_static_comm_scheduling_def
      check_call_after_sim_start_def)

lemma live_dispatch:
  assumes "finite_buffer_flag (the_netif c) = False" "ni_static_comm_schedule (the_netif c) = []"
    and "waiting_requests c = []" "woken_requests c = []" "send_queue (the_netif c) \<noteq> []"
    and "sc_status e = SC_RUNNING"
  shows "live_inv (netif_dispatch_step e c)"
  using assms dispatch_free [OF assms(5,2,6)]
  by (simp add: netif_dispatch_step_def netif_dispatch_def live_inv_def)

lemma live_step:
  assumes "live_inv c" "netif_internal e c c'" "sc_status e = SC_RUNNING"
  shows "live_inv c'"
  using assms(2)
proof (cases rule: netif_internal_cases [consumes 1, case_names start wake finish retry delta])
  case start
  then show ?thesis
    using assms(1) live_dispatch [of c e] assms(3)
    by (simp add: netif_loop_head_def live_inv_def)
next
  case wake
  show ?thesis unfolding wake(1)
    by (rule live_dispatch) (use assms(1,3) wake(2) in \<open>simp_all add: live_inv_def\<close>)
next
  case (finish r)
  let ?d = "c\<lparr>the_netif := transfer_end r (the_netif c), completed := add_mset r (completed c)\<rparr>"
  have d: "finite_buffer_flag (the_netif ?d) = False" "ni_static_comm_schedule (the_netif ?d) = []"
    "waiting_requests ?d = []" "woken_requests ?d = []"
    "send_queue (the_netif ?d) = [] \<longrightarrow> \<not> send_request_ev ?d"
    using assms(1) finish(2) by (auto simp: live_inv_def transfer_end_def)
  show ?thesis
  proof (cases "send_queue (the_netif ?d) = []")
    case True
    then show ?thesis using d unfolding finish(1) by (simp add: netif_loop_head_def live_inv_def)
  next
    case False
    then show ?thesis using live_dispatch [OF d(1-4) False assms(3)] unfolding finish(1)
      by (simp add: netif_loop_head_def)
  qed
next
  case (retry ws r vs)
  then show ?thesis using assms(1) by (simp add: live_inv_def)
next
  case delta
  then show ?thesis
    using assms(1) by (cases "netif_phase c") (simp_all add: live_inv_def delta_end_def)
qed

lemma live_reachable:
  assumes "netif_reachable e ni c" "netif_fresh ni" "\<not> finite_buffer_flag ni"
    and "ni_static_comm_schedule ni = []" "sc_status e = SC_RUNNING"
  shows "live_inv c"
  using assms(1)
proof (induction rule: netif_reachable.induct)
  case netif_initial
  show ?case using assms(2-4) by (simp add: live_inv_def)
next
  case (netif_call c r)
  then show ?case by (intro live_request)
next
  case (netif_next c c')
  then show ?case using assms(5) by (blast intro: live_step)
qed

subsection \<open>Properties\<close>

text \<open>
  C4: The transmission buffer is accounted exactly. In every reachable state each accepted request is
  either completed or outstanding (queued or in transfer), once; the counter of the buffer is the sum
  of the outstanding sizes and the room is the rest, at 32 bits; and in a bounded buffer that sum
  never exceeds the size, so that neither counter wraps around.
\<close>
theorem netif_buffer_accounting:
  assumes "netif_reachable e ni c" "netif_fresh ni"
  shows "accepted c = completed c + outstanding c
    \<and> cur_data_in_tx_buffer (the_netif c) = of_nat (bits (outstanding c))
    \<and> room_in_tx_buffer (the_netif c) = tx_buffer_size ni - of_nat (bits (outstanding c))
    \<and> (finite_buffer_flag ni \<longrightarrow>
         unat (cur_data_in_tx_buffer (the_netif c)) = bits (outstanding c)
         \<and> unat (room_in_tx_buffer (the_netif c)) = unat (tx_buffer_size ni) - bits (outstanding c)
         \<and> bits (outstanding c) \<le> unat (tx_buffer_size ni))"
proof -
  have inv: "netif_inv ni c" using assms by (rule netif_reachable_inv)
  have "unat (of_nat (bits (outstanding c)) :: u32) = bits (outstanding c)
      \<and> unat (tx_buffer_size ni - of_nat (bits (outstanding c))) =
          unat (tx_buffer_size ni) - bits (outstanding c)"
    if "bits (outstanding c) \<le> unat (tx_buffer_size ni)"
  proof -
    have b: "unat (of_nat (bits (outstanding c)) :: u32) = bits (outstanding c)"
      using that unat_bound [of "tx_buffer_size ni"] by (simp add: unat_of_nat take_bit_eq_mod)
    then have "(of_nat (bits (outstanding c)) :: u32) \<le> tx_buffer_size ni"
      using that by (simp add: word_le_nat_alt)
    then show ?thesis using b by (simp add: unat_sub)
  qed
  then show ?thesis using inv by (simp add: netif_inv_def)
qed

definition sized_netif :: "u32 \<Rightarrow> network_interface" where
  "sized_netif n = (new_network_interface ''pe'')\<lparr>finite_buffer_flag := True, tx_buffer_size := n,
     room_in_tx_buffer := n\<rparr>"

definition netif_state ::
    "u32 \<Rightarrow> u32 \<Rightarrow> send_req_queue_t \<Rightarrow> netif_phase \<Rightarrow> bool \<Rightarrow> bool \<Rightarrow> send_message_request_t list
       \<Rightarrow> send_message_request_t multiset \<Rightarrow> send_message_request_t multiset \<Rightarrow> netif_config" where
  "netif_state n cur q p ev ec ws acc com =
     \<lparr>the_netif = (sized_netif n)\<lparr>send_queue := q, cur_data_in_tx_buffer := cur,
        room_in_tx_buffer := n - cur\<rparr>,
      netif_phase = p, send_request_ev = ev, send_request_completed = ec, waiting_requests = ws,
      woken_requests = [], accepted = acc, completed = com\<rparr>"

lemmas sized_state = netif_state_def sized_netif_def new_network_interface_def

text \<open>The first request of a run, up to its transfer.\<close>

lemma first_transfer:
  fixes e :: sim_env
  assumes "message_size r \<le> n"
  shows "netif_reachable e (sized_netif n)
    (netif_state n (message_size r) [] (Transferring r True) False False [] {#r#} {#})"
proof -
  let ?R = "netif_reachable e (sized_netif n)" and ?s = "message_size r"
  have "?R (netif_state n 0 [] Netif_Start False False [] {#} {#})"
    using netif_initial [of e "sized_netif n"]
    by (simp add: sized_state)
  from netif_next [OF this netif_begin] have "?R (netif_state n 0 [] Await_Request False False [] {#} {#})"
    by (simp add: sized_state netif_loop_head_def)
  from netif_call [OF this, of r]
  have "?R (netif_state n ?s [(request_time r, r)] Await_Request True False [] {#r#} {#})"
    using assms by (simp add: sized_state request_step_def request_accepted sized_state)
  from netif_next [OF this netif_delta]
  have "?R (netif_state n ?s [(request_time r, r)] Netif_Woken False False [] {#r#} {#})"
    by (simp add: sized_state delta_end_def)
  from netif_next [OF this netif_wake]
  have "?R (netif_state n ?s [] (Transferring r False) False True [] {#r#} {#})"
    by (simp add: sized_state netif_dispatch_step_def netif_dispatch_def dispatch_choice_def Let_def)
  from netif_next [OF this netif_delta] show ?thesis
    by (simp add: sized_state delta_end_def)
qed

text \<open>Waiting for requests with no notification on its way, nothing inside can move.\<close>

lemma idle_stuck:
  assumes "netif_internal e c c'" "netif_phase c = Await_Request" "\<not> send_request_ev c"
    "\<not> send_request_completed c" "woken_requests c = []"
  shows "c' = c"
  using assms(1)
proof (cases rule: netif_internal_cases [consumes 1, case_names start wake finish retry delta])
  case delta
  then show ?thesis using assms(2-5) by (simp add: delta_end_def)
qed (use assms(2-5) in simp_all)

text \<open>
  A bounded buffer can strand a request for ever. Take two requests that each fit in the buffer but not
  together, the second made during the transfer of the first: a state is reached with the second call
  suspended although the buffer is empty again and could take it, the interface waiting for requests,
  and no step of the process, of the suspended calls or of the kernel that changes anything. In the
  same situation another order of events ends the process with its error report.
\<close>
theorem netif_stranded_request:
  fixes e :: sim_env and r1 r2 :: send_message_request_t
  assumes "message_size r1 \<le> n" "message_size r2 \<le> n" "n - message_size r1 < message_size r2"
  shows "(\<exists>c. netif_reachable e (sized_netif n) c \<and> waiting_requests c = [r2] \<and> completed c = {#r1#}
            \<and> message_size r2 \<le> room_in_tx_buffer (the_netif c)
            \<and> (\<forall>c'. netif_internal e c c' \<longrightarrow> c' = c))
       \<and> (\<exists>c f. netif_reachable e (sized_netif n) c \<and> netif_phase c = Netif_Error f)"
proof -
  let ?R = "netif_reachable e (sized_netif n)" and ?s = "message_size r1"
  let ?c = "netif_state n 0 [] Await_Request False False [r2] {#r1#} {#r1#}"
  have blocked: "?R (netif_state n ?s [] (Transferring r1 True) True False [r2] {#r1#} {#})"
    using netif_call [OF first_transfer [OF assms(1), of e], of r2] assms(3)
    by (simp add: sized_state request_step_def request_waits)
  from netif_next [OF this netif_delta]
  have "?R (netif_state n ?s [] (Transferring r1 True) False False [r2] {#r1#} {#})"
    by (simp add: sized_state delta_end_def)
  from netif_next [OF this netif_transfer_end]
  have stuck: "?R ?c"
    by (simp add: sized_state netif_loop_head_def transfer_end_def)
  have still: "c' = ?c" if "netif_internal e ?c c'" for c'
    by (rule idle_stuck [OF that]) (simp_all add: netif_state_def)
  from netif_next [OF blocked netif_transfer_end]
  have "?R (netif_state n 0 [] Await_Request True False [r2] {#r1#} {#r1#})"
    by (simp add: sized_state netif_loop_head_def transfer_end_def)
  from netif_next [OF this netif_delta]
  have "?R (netif_state n 0 [] Netif_Woken False False [r2] {#r1#} {#r1#})"
    by (simp add: sized_state delta_end_def)
  from netif_next [OF this netif_wake]
  have "\<exists>f. ?R (netif_state n 0 [] (Netif_Error f) False False [r2] {#r1#} {#r1#})"
    by (simp add: sized_state netif_dispatch_step_def netif_dispatch_def dispatch_choice_def
        report_def) blast
  then obtain f where "?R (netif_state n 0 [] (Netif_Error f) False False [r2] {#r1#} {#r1#})" by blast
  moreover have "waiting_requests ?c = [r2] \<and> completed ?c = {#r1#}
      \<and> message_size r2 \<le> room_in_tx_buffer (the_netif ?c)"
    using assms(2) by (simp add: sized_state)
  ultimately show ?thesis using stuck still by (force simp: sized_state)
qed

definition request :: "link_ptr \<Rightarrow> u32 \<Rightarrow> sc_time \<Rightarrow> send_message_request_t" where
  "request l n t = \<lparr>req_logic_link = l, req_comm_res = 0, req_phy_link = 0, message_size = n,
     completed_transactions_p = 0, request_time = t\<rparr>"

theorem netif_stranded_request_witness:
  "\<exists>c. netif_reachable (\<lparr>sc_status = SC_RUNNING, sc_running = True, sc_now = 9\<rparr>) (sized_netif 10) c
     \<and> waiting_requests c = [request 2 6 5]
     \<and> (\<forall>c'. netif_internal (\<lparr>sc_status = SC_RUNNING, sc_running = True, sc_now = 9\<rparr>) c c' \<longrightarrow> c' = c)"
  using netif_stranded_request [of "request 1 8 0" 10 "request 2 6 5"
      "\<lparr>sc_status = SC_RUNNING, sc_running = True, sc_now = 9\<rparr>"]
  by (auto simp: request_def)

theorem netif_buffer_accounting_witness:
  "unat (room_in_tx_buffer (the_netif (netif_state 10 8 [] (Transferring (request 1 8 0) True) False False
     [] {#request 1 8 0#} {#}))) = 2"
  using netif_buffer_accounting [OF first_transfer [of "request 1 8 0" 10 undefined]]
  by (simp add: sized_state netif_fresh_def outstanding_def netif_pending_def in_transfer_def request_def)





text \<open>
  Among the requests made at the same earliest instant the static schedule decides: the request
  dispatched is the first one made on the first link of the schedule that has a request among them;
  with no schedule it is the first one made.
\<close>
theorem netif_static_choice:
  assumes "netif_dispatch e ni = Inr (r, ni')"
  shows "\<exists>i < length (synch_requests (send_queue ni)). r = synch_requests (send_queue ni) ! i
    \<and> (ni_static_comm_schedule ni = [] \<longrightarrow> i = 0)
    \<and> (ni_static_comm_schedule ni \<noteq> [] \<and> 1 < length (synch_requests (send_queue ni)) \<longrightarrow>
         (\<exists>ms ns. ni_static_comm_schedule ni = ms @ req_logic_link r # ns
            \<and> (\<forall>x \<in> set (synch_requests (send_queue ni)). req_logic_link x \<notin> set ms)
            \<and> (\<forall>j < i. req_logic_link (synch_requests (send_queue ni) ! j) \<noteq> req_logic_link r)))"
proof -
  let ?rs = "synch_requests (send_queue ni)"
  obtain i where i: "dispatch_choice e ni = Inr i" "r = snd (send_queue ni ! i)"
    using assms by (auto simp: netif_dispatch_def rmap_eq_Inr)
  note c = dispatch_choice_ok [OF i(1)]
  have r: "r = ?rs ! i" using synch_requests_nth [OF c(1)] i(2) by simp
  have "\<exists>ms ns. ni_static_comm_schedule ni = ms @ req_logic_link r # ns
            \<and> (\<forall>x \<in> set ?rs. req_logic_link x \<notin> set ms)
            \<and> (\<forall>j < i. req_logic_link (?rs ! j) \<noteq> req_logic_link r)"
    if "ni_static_comm_schedule ni \<noteq> []" "1 < length ?rs"
    using static_comm_dispatch_ok [OF c(2) [OF that(2,1)]] unfolding r by blast
  then show ?thesis using c r by blast
qed

theorem netif_static_choice_witness:
  "\<exists>r ni'. netif_dispatch (\<lparr>sc_status = SC_RUNNING, sc_running = True, sc_now = 9\<rparr>)
       ((new_network_interface ''pe'')\<lparr>send_queue := [(3, request 1 8 3), (3, request 2 4 3)],
          ni_static_comm_schedule := [2, 1]\<rparr>) = Inr (r, ni') \<and> req_logic_link r = 2"
proof -
  let ?e = "\<lparr>sc_status = SC_RUNNING, sc_running = True, sc_now = 9\<rparr>"
  let ?ni = "(new_network_interface ''pe'')\<lparr>send_queue := [(3, request 1 8 3), (3, request 2 4 3)],
          ni_static_comm_schedule := [2, 1]\<rparr>"
  have d: "netif_dispatch ?e ?ni = Inr (request 2 4 3, ?ni\<lparr>send_queue := [(3, request 1 8 3)]\<rparr>)"
    by (simp add: netif_dispatch_def dispatch_choice_def Let_def synch_requests_def first_index_def
        there_is_static_comm_scheduling_def check_call_after_sim_start_def request_def
        new_network_interface_def)
  from netif_static_choice [OF d] d show ?thesis by (auto simp: request_def)
qed

end
