(* ===== verification/Scheduler_Elab.thy ===== *)
theory Scheduler_Elab
  imports Scheduler_Props Netif_Props
begin

text \<open>
  The whole \<open>scheduler::end_of_elaboration\<close>: the preparation of the policy, the transfer of the static
  schedule of communications to the network interface of the processing element, the scheduling
  time and the simulation time; and what it establishes for the simulation that follows.
\<close>

text \<open>
  The part for the network interface, when the processing element has one: \<open>addr\<close> looks up the address
  of a task by its name, \<open>links\<close> are the tables of connections.
\<close>

definition transfer_comm_schedule ::
    "(string \<Rightarrow> 'a result) \<Rightarrow> 'a link_tables \<Rightarrow> sim_env \<Rightarrow> scheduler \<Rightarrow> network_interface
       \<Rightarrow> network_interface result" where
  "transfer_comm_schedule addr links e s ni =
     rbind (if length (static_comm_schedule s) > 0
            then netif_set_static_comm_scheduling e (static_comm_schedule s) ni else Inr ni) (\<lambda>ni1.
     rbind (if length (static_comm_schedule_by_name s) > 0
            then netif_set_static_comm_scheduling_by_name e (static_comm_schedule_by_name s) ni1
            else Inr ni1) (\<lambda>ni2.
     rbind (if length (static_comm_schedule_by_task_names s) > 0
            then netif_set_static_comm_scheduling_by_task_names e (static_comm_schedule_by_task_names s) ni2
            else Inr ni2) (\<lambda>ni3.
       check_and_prepare_comm_static_schedule addr links ni3)))"

definition sched_end_of_elaboration ::
    "((string \<Rightarrow> string \<Rightarrow> bool) \<Rightarrow> string list \<Rightarrow> string list)
       \<Rightarrow> (nat \<Rightarrow> task_store \<Rightarrow> taskset \<Rightarrow> unit result) \<Rightarrow> scheduler_t \<Rightarrow> (string \<Rightarrow> 'a result)
       \<Rightarrow> 'a link_tables \<Rightarrow> sim_env \<Rightarrow> analysis_globals \<Rightarrow> task_store
       \<Rightarrow> scheduler \<times> network_interface option \<times> sched_globals
       \<Rightarrow> (scheduler \<times> network_interface option \<times> sched_globals) result" where
  "sched_end_of_elaboration srt user raw addr links e ag st c =
     (case c of (s, netif, g) \<Rightarrow>
        rbind (assigned s) (\<lambda>ts.
          if length ts \<noteq> 0 then
            rbind (sched_end_of_elaboration_policy srt user e ag st ts s) (\<lambda>s1.
            rbind (check (sched_PE s1 \<noteq> None) (''Unexpected situation. Scheduler '' @ sched_name s1
                     @ '' has no associated PE.'')) (\<lambda>_.
            rbind (case netif of
                     None \<Rightarrow> Inr None
                   | Some ni \<Rightarrow> rmap Some (transfer_comm_schedule addr links e s1 ni)) (\<lambda>netif1.
              rmap (\<lambda>(s2, g1). (s2, netif1, g1)) (sched_end_of_elaboration_times raw e st ts s1 g))))
          else Inr (s, netif, g)))"

subsection \<open>The schedule of communications\<close>

text \<open>A connection between two tasks.\<close>

definition joins :: "(string \<Rightarrow> 'a result) \<Rightarrow> 'a link_tables \<Rightarrow> string \<Rightarrow> string \<Rightarrow> link_ptr \<Rightarrow> bool" where
  "joins addr g a b p \<longleftrightarrow> (\<exists>x y. addr a = Inr x \<and> addr b = Inr y
     \<and> src (link_at g p) = Some x \<and> dest (link_at g p) = Some y)"

lemma connections_between_ok:
  "connections_between addr g a b ps = Inr ls \<Longrightarrow> ls = filter (joins addr g a b) ps"
proof (induction ps arbitrary: ls)
  case (Cons p ps)
  from Cons.prems obtain x m ks where x: "addr a = Inr x"
    "(if src (link_at g p) = Some x then rmap (\<lambda>y. dest (link_at g p) = Some y) (addr b) else Inr False) = Inr m"
    "connections_between addr g a b ps = Inr ks" "ls = (if m then p # ks else ks)"
    by (auto simp: rbind_eq_Inr rmap_eq_Inr)
  have "m \<longleftrightarrow> joins addr g a b p"
    using x(1,2) by (auto simp: joins_def rmap_eq_Inr split: if_splits)
  then show ?case using x(4) Cons.IH [OF x(3)] by simp
qed simp

lemma schedule_from_names_ok:
  "get_static_comm_schedule_from_names g ns = Inr ps \<longleftrightarrow> map (sys_conn_by_name g) ns = map Some ps"
  by (induction ns arbitrary: ps) (auto simp: rmap_eq_Inr split: option.splits)

lemma schedule_from_task_names_ok:
  "get_static_comm_schedule_from_task_names addr g ps = Inr ls \<Longrightarrow>
     ls = concat (map (\<lambda>(a, b). filter (joins addr g a b) (sys_conn g)) ps)"
proof (induction ps arbitrary: ls)
  case (Cons p ps)
  obtain a b where p: "p = (a, b)" by fastforce
  from Cons.prems obtain ks qs where "connections_between addr g a b (sys_conn g) = Inr ks"
    "get_static_comm_schedule_from_task_names addr g ps = Inr qs" "ls = ks @ qs"
    by (auto simp: p rbind_eq_Inr rmap_eq_Inr)
  then show ?case using Cons.IH connections_between_ok by (simp add: p)
qed simp

lemma compare_schedules_ok: "compare_schedules s1 s2 m = Inr () \<longleftrightarrow> s1 = s2"
  unfolding list_eq_iff_nth_eq [of s1 s2] by (auto simp: compare_schedules_def list_all_iff)

text \<open>The comparisons, once the schedules given by names are known.\<close>

definition prepared_schedule ::
    "network_interface \<Rightarrow> link_ptr list \<Rightarrow> link_ptr list \<Rightarrow> network_interface result" where
  "prepared_schedule ni s2 s3 =
     (let s1 = ni_static_comm_schedule ni; n2 = ni_static_comm_schedule_by_name ni;
          n3 = ni_static_comm_schedule_by_task_names ni in
      if s1 \<noteq> [] \<and> n2 \<noteq> [] \<and> n3 \<noteq> [] then
            rbind (compare_schedules s1 s2 ''by logic links and by their names'') (\<lambda>_.
              rmap (\<lambda>_. ni) (compare_schedules s1 s3 ''by logic links and by their src and dest task names''))
          else if s1 \<noteq> [] \<and> n2 \<noteq> [] then
            rmap (\<lambda>_. ni) (compare_schedules s1 s2 ''by logic links and by their names'')
          else if s1 \<noteq> [] \<and> n3 \<noteq> [] then
            rmap (\<lambda>_. ni) (compare_schedules s1 s3 ''by logic links and by their src and dest task names'')
          else if n2 \<noteq> [] \<and> n3 \<noteq> [] then
            rmap (\<lambda>_. ni\<lparr>ni_static_comm_schedule := s2\<rparr>)
              (compare_schedules s2 s3 ''by logic link names and by their src and dest task names'')
          else if n2 \<noteq> [] then Inr (ni\<lparr>ni_static_comm_schedule := s2\<rparr>)
          else if n3 \<noteq> [] then Inr (ni\<lparr>ni_static_comm_schedule := s3\<rparr>)
          else Inr ni)"

lemma prepared_schedule_ok:
  assumes "prepared_schedule ni s2 s3 = Inr ni'"
  shows "ni' = ni\<lparr>ni_static_comm_schedule :=
      (if ni_static_comm_schedule ni \<noteq> [] then ni_static_comm_schedule ni
       else if ni_static_comm_schedule_by_name ni \<noteq> [] then s2
       else if ni_static_comm_schedule_by_task_names ni \<noteq> [] then s3 else [])\<rparr>"
    "ni_static_comm_schedule ni \<noteq> [] \<Longrightarrow> ni_static_comm_schedule_by_name ni \<noteq> [] \<Longrightarrow>
       s2 = ni_static_comm_schedule ni"
    "ni_static_comm_schedule ni \<noteq> [] \<Longrightarrow> ni_static_comm_schedule_by_task_names ni \<noteq> [] \<Longrightarrow>
       s3 = ni_static_comm_schedule ni"
    "ni_static_comm_schedule ni = [] \<Longrightarrow> ni_static_comm_schedule_by_name ni \<noteq> [] \<Longrightarrow>
     ni_static_comm_schedule_by_task_names ni \<noteq> [] \<Longrightarrow> s2 = s3"
  using assms
  by (cases "ni_static_comm_schedule ni = []"; cases "ni_static_comm_schedule_by_name ni = []";
      cases "ni_static_comm_schedule_by_task_names ni = []";
      simp add: prepared_schedule_def Let_def rbind_eq_Inr rmap_eq_Inr compare_schedules_ok)+

lemma prepare_split:
  assumes "\<not> (ni_static_comm_schedule ni = [] \<and> ni_static_comm_schedule_by_name ni = []
     \<and> ni_static_comm_schedule_by_task_names ni = [])"
  shows "check_and_prepare_comm_static_schedule addr g ni =
    rbind (if ni_static_comm_schedule_by_name ni \<noteq> []
           then get_static_comm_schedule_from_names g (ni_static_comm_schedule_by_name ni) else Inr []) (\<lambda>s2.
    rbind (if ni_static_comm_schedule_by_task_names ni \<noteq> []
           then get_static_comm_schedule_from_task_names addr g (ni_static_comm_schedule_by_task_names ni)
           else Inr []) (\<lambda>s3. prepared_schedule ni s2 s3))"
  using assms unfolding check_and_prepare_comm_static_schedule_def Let_def prepared_schedule_def
  by (simp only: if_False)

lemma prepare_comm_schedule:
  assumes "check_and_prepare_comm_static_schedule addr g ni = Inr ni'"
  defines "s \<equiv> ni_static_comm_schedule ni'"
  shows "(ni_static_comm_schedule ni \<noteq> [] \<longrightarrow> s = ni_static_comm_schedule ni)
    \<and> (ni_static_comm_schedule_by_name ni \<noteq> [] \<longrightarrow>
         map (sys_conn_by_name g) (ni_static_comm_schedule_by_name ni) = map Some s)
    \<and> (ni_static_comm_schedule_by_task_names ni \<noteq> [] \<longrightarrow>
         s = concat (map (\<lambda>(a, b). filter (joins addr g a b) (sys_conn g))
               (ni_static_comm_schedule_by_task_names ni)))
    \<and> ni' = ni\<lparr>ni_static_comm_schedule := s\<rparr>"
proof -
  let ?s1 = "ni_static_comm_schedule ni" and ?n2 = "ni_static_comm_schedule_by_name ni"
    and ?n3 = "ni_static_comm_schedule_by_task_names ni"
  show ?thesis
  proof (cases "?s1 = [] \<and> ?n2 = [] \<and> ?n3 = []")
    case True
    then show ?thesis using assms(1)
      by (simp add: check_and_prepare_comm_static_schedule_def Let_def s_def)
  next
    case False
    then obtain s2 s3 where
      s2: "(if ?n2 \<noteq> [] then get_static_comm_schedule_from_names g ?n2 else Inr []) = Inr s2" and
      s3: "(if ?n3 \<noteq> [] then get_static_comm_schedule_from_task_names addr g ?n3 else Inr []) = Inr s3" and
      fin: "prepared_schedule ni s2 s3 = Inr ni'"
      using assms(1) unfolding prepare_split [OF False] rbind_eq_Inr by blast
    note c = prepared_schedule_ok [OF fin]
    have s: "s = (if ?s1 \<noteq> [] then ?s1 else if ?n2 \<noteq> [] then s2 else if ?n3 \<noteq> [] then s3 else [])"
      unfolding s_def c(1) by simp
    have "map (sys_conn_by_name g) ?n2 = map Some s" if n2: "?n2 \<noteq> []"
    proof -
      have "s = s2" using c(2) n2 by (simp add: s)
      then show ?thesis using s2 n2 schedule_from_names_ok [of g ?n2 s2] by simp
    qed
    moreover have "s = concat (map (\<lambda>(a, b). filter (joins addr g a b) (sys_conn g)) ?n3)"
      if n3: "?n3 \<noteq> []"
    proof -
      have "s = s3" using c(3,4) n3 by (simp add: s)
      then show ?thesis using s3 n3 schedule_from_task_names_ok [of addr g ?n3 s3] by simp
    qed
    moreover have "ni' = ni\<lparr>ni_static_comm_schedule := s\<rparr>" unfolding s by (rule c(1))
    ultimately show ?thesis by (simp add: s)
  qed
qed

subsection \<open>From the end of elaboration to the last dispatch\<close>

text \<open>
  The dispatches of a run: each with the value found in the uninitialised flag, the time and the tasks
  at that moment.
\<close>

fun dispatch_run ::
    "(bool \<times> sc_time \<times> task_store) list \<Rightarrow> scheduler \<Rightarrow> (string list \<times> scheduler) result" where
  "dispatch_run [] s = Inr ([], s)"
| "dispatch_run ((flag, now, st) # obs) s =
     rbind (dispatch flag now st s) (\<lambda>(t, s1). rmap (\<lambda>(ts, s2). (t # ts, s2)) (dispatch_run obs s1))"

text \<open>The states from which a dispatch cannot fail, whatever the tasks do.\<close>

definition dispatchable :: "taskset \<Rightarrow> scheduler \<Rightarrow> bool" where
  "dispatchable ts s \<longleftrightarrow> tasks_assigned s = Taskset ts \<and>
     (sched_policy s = STATIC_SCHEDULING \<and> it_static_sched s < length (static_schedule_by_task_info_pointers s)
        \<and> set (static_schedule_by_task_info_pointers s) \<subseteq> set ts
      \<or> sched_policy s = CYCLE_EXECUTIVE \<and> it_dyn_sched s < length ts
      \<or> sched_policy s = STATIC_PRIORITIES \<and> tasks_by_priority s \<noteq> []
        \<and> set (tasks_by_priority s) \<subseteq> set ts)"

lemma dispatchable_step:
  assumes "dispatchable ts s"
  shows "\<exists>t s'. dispatch flag now st s = Inr (t, s') \<and> t \<in> set ts \<and> dispatchable ts s'"
proof -
  consider (static) "sched_policy s = STATIC_SCHEDULING"
      "it_static_sched s < length (static_schedule_by_task_info_pointers s)"
      "set (static_schedule_by_task_info_pointers s) \<subseteq> set ts"
    | (cycle) "sched_policy s = CYCLE_EXECUTIVE" "cycle_ok (ts, it_dyn_sched s)"
    | (prio) "sched_policy s = STATIC_PRIORITIES" "tasks_by_priority s \<noteq> []"
      "set (tasks_by_priority s) \<subseteq> set ts"
    using assms by (auto simp: dispatchable_def cycle_ok_def)
  then show ?thesis
  proof cases
    case static
    let ?i = "it_static_sched s" and ?p = "static_schedule_by_task_info_pointers s"
    have "dispatch flag now st s = Inr (?p ! ?i, s\<lparr>it_static_sched := (if Suc ?i = length ?p then 0 else Suc ?i)\<rparr>)"
      using static by (simp add: dispatch_def dispatch_static_def)
    moreover have "?p ! ?i \<in> set ts" using static(2,3) nth_mem by blast
    moreover have "dispatchable ts (s\<lparr>it_static_sched := (if Suc ?i = length ?p then 0 else Suc ?i)\<rparr>)"
      using assms static by (auto simp: dispatchable_def)
    ultimately show ?thesis by blast
  next
    case cycle
    obtain t j where t: "dispatch_cycle (is_ready st) (ts, it_dyn_sched s) = Inr (t, ts, j)"
      "t \<in> set ts" "j < length ts"
      using dispatch_cycle_cases [OF cycle(2), of "is_ready st"] by blast
    have "dispatch flag now st s = Inr (t, s\<lparr>it_dyn_sched := j\<rparr>)"
      using assms cycle(1) t(1) by (simp add: dispatch_cycle_eq dispatchable_def)
    moreover have "dispatchable ts (s\<lparr>it_dyn_sched := j\<rparr>)"
      using assms cycle(1) t(3) by (simp add: dispatchable_def)
    ultimately show ?thesis using t(2) by blast
  next
    case prio
    obtain t st' where t: "dispatch_priority (is_ready st) (tasks_by_priority s) = Inr (t, st')"
      "t \<in> set (tasks_by_priority s)"
      using prio.pick_obtain [OF prio(2), of "is_ready st"] by metis
    have "dispatch flag now st s = Inr (t, s)"
      using prio(1) t(1) by (simp add: dispatch_priority_eq)
    then show ?thesis using assms t(2) prio(3) by blast
  qed
qed

lemma dispatchable_run:
  "dispatchable ts s \<Longrightarrow>
     \<exists>ns s'. dispatch_run obs s = Inr (ns, s') \<and> length ns = length obs \<and> set ns \<subseteq> set ts"
proof (induction obs arbitrary: s)
  case (Cons o1 obs)
  obtain flag now st where o: "o1 = (flag, now, st)" by (cases o1) auto
  obtain t s1 where t: "dispatch flag now st s = Inr (t, s1)" "t \<in> set ts" "dispatchable ts s1"
    using dispatchable_step [OF Cons.prems] by blast
  obtain ns s2 where n: "dispatch_run obs s1 = Inr (ns, s2)" "length ns = length obs" "set ns \<subseteq> set ts"
    using Cons.IH [OF t(3)] by blast
  show ?case using t n by (intro exI [of _ "t # ns"] exI [of _ s2]) (simp add: o)
qed simp

lemma select_scheduling_time_keeps:
  "dispatchable ts (select_scheduling_time raw g s) = dispatchable ts s"
  by (simp add: select_scheduling_time_def Let_def dispatchable_def)

lemma elaborated_policy_dispatchable:
  assumes "std_sort srt" "tasks_assigned s = Taskset ts" "ts \<noteq> []" "tasks_by_priority s = []"
    and "static_schedule_by_task_info_pointers s = []"
    and "sched_policy s \<in> {STATIC_SCHEDULING, CYCLE_EXECUTIVE, STATIC_PRIORITIES}"
    and "sched_end_of_elaboration_policy srt user e ag st ts s = Inr s1"
    and "policy_ready (sched_static_policy s) st ts"
  shows "dispatchable ts s1"
proof (cases "sched_policy s = STATIC_SCHEDULING")
  case True
  have c: "check_and_prepare_static_schedule ts s = Inr s1"
    using assms(7) True by (simp add: sched_end_of_elaboration_policy_def)
  then have "s1 = s\<lparr>static_schedule_by_task_info_pointers := static_schedule_by_task_names s,
      it_static_sched := 0\<rparr>" "set (static_schedule_by_task_names s) \<subseteq> set ts"
    "static_schedule_by_task_names s \<noteq> []"
    using assms(5) by (auto simp: check_and_prepare_static_schedule_def Let_def rbind_eq_Inr list_all_iff
        split: if_splits)
  then show ?thesis using assms(2) True by (simp add: dispatchable_def)
next
  case False
  then obtain tbp where tbp: "sort_by_policy srt st s ts = Inr tbp"
    "s1 = s\<lparr>tasks_by_priority := tbp, it_dyn_sched := 0\<rparr>"
    using assms(4,7) by (auto simp: sched_end_of_elaboration_policy_def rbind_eq_Inr)
  obtain lt where "sort_by_policy srt st s ts = Inr (srt lt ts)" "strict_weak_on (set ts) lt"
    using sort_by_policy_ok [OF assms(8), of srt] by blast
  then have "set tbp = set ts" using std_sort.sort_set [OF assms(1)] tbp(1) by simp
  then show ?thesis using assms(2,3,6) False tbp(2) by (auto simp: dispatchable_def)
qed

subsection \<open>Properties\<close>


text \<open>
  The network interface receives the schedule of communications the scheduler was given, in whichever
  forms: after the end of elaboration its schedule is the one by links, its links are registered
  under the names of the one by names, in order, and it lists exactly the connections between the
  pairs of tasks of the one by tasks, in order; with none of them it has none.
\<close>
theorem comm_schedule_coherent:
  assumes "transfer_comm_schedule addr links e s ni = Inr ni'"
    and "ni_static_comm_schedule ni = []" "ni_static_comm_schedule_by_name ni = []"
    and "ni_static_comm_schedule_by_task_names ni = []"
  defines "c \<equiv> ni_static_comm_schedule ni'"
  shows "(static_comm_schedule s \<noteq> [] \<longrightarrow> c = static_comm_schedule s)
    \<and> (static_comm_schedule_by_name s \<noteq> [] \<longrightarrow>
         map (sys_conn_by_name links) (static_comm_schedule_by_name s) = map Some c)
    \<and> (static_comm_schedule_by_task_names s \<noteq> [] \<longrightarrow>
         c = concat (map (\<lambda>(a, b). filter (joins addr links a b) (sys_conn links))
               (static_comm_schedule_by_task_names s)))
    \<and> (static_comm_schedule s = [] \<and> static_comm_schedule_by_name s = []
         \<and> static_comm_schedule_by_task_names s = [] \<longrightarrow> c = [])"
proof -
  let ?ni3 = "ni\<lparr>ni_static_comm_schedule := static_comm_schedule s,
    ni_static_comm_schedule_by_name := static_comm_schedule_by_name s,
    ni_static_comm_schedule_by_task_names := static_comm_schedule_by_task_names s\<rparr>"
  have p: "check_and_prepare_comm_static_schedule addr links ?ni3 = Inr ni'"
    using assms(1-4)
    by (cases ni) (auto simp: transfer_comm_schedule_def rbind_eq_Inr rmap_eq_Inr
        netif_set_static_comm_scheduling_def netif_set_static_comm_scheduling_by_name_def
        netif_set_static_comm_scheduling_by_task_names_def split: if_splits)
  have "c = []" if "static_comm_schedule s = []" "static_comm_schedule_by_name s = []"
    "static_comm_schedule_by_task_names s = []"
    using p that by (auto simp: c_def check_and_prepare_comm_static_schedule_def)
  then show ?thesis using prepare_comm_schedule [OF p] by (simp add: c_def)
qed

definition example_links :: "nat link_tables" where
  "example_links =
     new_logic_link 1 (new_link_bound ''l1'' (Some 10) (Some 20))
       (new_logic_link 2 (new_link_bound ''l2'' (Some 20) (Some 10))
          \<lparr>sys_conn = [], sys_conn_by_name = Map.empty, link_at = (\<lambda>_. new_link)\<rparr>)"

theorem comm_schedule_coherent_witness:
  "\<exists>ni'. transfer_comm_schedule (get_task_address [''a'' \<mapsto> 10, ''b'' \<mapsto> 20] Map.empty) example_links
       example_elab (example_sched\<lparr>static_comm_schedule_by_task_names := [(''a'', ''b'')]\<rparr>)
       (new_network_interface ''pe'') = Inr ni' \<and> ni_static_comm_schedule ni' = [1]"
proof -
  let ?addr = "get_task_address [''a'' \<mapsto> 10, ''b'' \<mapsto> 20] Map.empty"
  let ?s = "example_sched\<lparr>static_comm_schedule_by_task_names := [(''a'', ''b'')]\<rparr>"
  let ?ni = "new_network_interface ''pe''"
  have t: "transfer_comm_schedule ?addr example_links example_elab ?s ?ni =
      Inr (?ni\<lparr>ni_static_comm_schedule := [1], ni_static_comm_schedule_by_task_names := [(''a'', ''b'')]\<rparr>)"
    by (simp add: transfer_comm_schedule_def example_sched_def new_scheduler_with_tasks_def
        new_scheduler_def netif_set_static_comm_scheduling_by_task_names_def example_elab_def
        check_call_before_sim_start_def check_and_prepare_comm_static_schedule_def Let_def
        example_links_def new_logic_link_def new_link_bound_def link_init_def empty_link_def
        get_task_address_def new_network_interface_def)
  show ?thesis
    using comm_schedule_coherent [OF t] t
    by (simp add: new_network_interface_def)
qed


end
