(* ===== verification/Comm_Res.thy ===== *)
theory Comm_Res
  imports Links Sim_Phase Doubles
begin

text \<open>
  \<open>link_info_t.cpp\<close>, \<open>comm_res/comm_res.hpp\<close> and \<open>comm_res/phy_link_t.cpp\<close>: the communication resource, a
  table from links to their properties by message size, and the physical links between hardware
  elements. The class template is a record polymorphic in its address type.

  The properties of a link are objects that callers may share: the table holds their addresses
  (\<open>None\<close> is the null pointer) and \<open>info_at\<close> is the store, in which \<open>new\<close> takes the address \<open>next_info\<close>.
  The hash of a link reads the names of both its ends, so a link with a null end has no key.
\<close>

subsection \<open>Properties of a link\<close>

record link_info_t =
  MinBW :: double
  MaxP2Pdelay :: sc_time
  CurrentBW :: double
  CurrentP2Pdelay :: sc_time
  AvgBW :: double
  AvgP2Pdelay :: sc_time

definition new_link_info :: link_info_t where
  "new_link_info =
     \<lparr>MinBW = Fin (- 1), MaxP2Pdelay = 0, CurrentBW = Fin (- 1), CurrentP2Pdelay = 0,
      AvgBW = Fin (- 1), AvgP2Pdelay = 0\<rparr>"

definition setCurrentP2Pdelay :: "sc_time \<Rightarrow> link_info_t \<Rightarrow> link_info_t" where
  "setCurrentP2Pdelay d i = i\<lparr>CurrentP2Pdelay := d\<rparr>"

definition setCurrentBW :: "double \<Rightarrow> link_info_t \<Rightarrow> link_info_t" where
  "setCurrentBW b i = i\<lparr>CurrentBW := b\<rparr>"

definition setMaxP2Pdelay :: "sc_time \<Rightarrow> link_info_t \<Rightarrow> link_info_t" where
  "setMaxP2Pdelay d i = i\<lparr>MaxP2Pdelay := d\<rparr>"

definition setMinBW :: "double \<Rightarrow> link_info_t \<Rightarrow> link_info_t" where
  "setMinBW b i = i\<lparr>MinBW := b\<rparr>"

definition setAvgP2Pdelay :: "sc_time \<Rightarrow> link_info_t \<Rightarrow> link_info_t" where
  "setAvgP2Pdelay d i = i\<lparr>AvgP2Pdelay := d\<rparr>"

text \<open>The member is assigned to itself.\<close>

definition setAvgBW :: "double \<Rightarrow> link_info_t \<Rightarrow> link_info_t" where
  "setAvgBW b i = i\<lparr>AvgBW := AvgBW i\<rparr>"

subsection \<open>The communication resource\<close>

type_synonym info_ptr = "nat option"

record 'a comm_res =
  comm_res_name :: string
  BW_limit :: double
  connections_limit :: u32
  time_invariant :: bool
  dimension_time_invariant :: bool
  connections_time_invariant :: bool
  connections_message_size_invariant :: bool
  connected_elements :: "'a list"
  links_table :: "'a \<times> 'a \<rightharpoonup> (u32 \<times> info_ptr) list option"
  info_at :: "nat \<Rightarrow> link_info_t"
  next_info :: nat

definition new_comm_res :: "sim_env \<Rightarrow> string \<Rightarrow> 'a comm_res result" where
  "new_comm_res e n =
     (if sc_status e \<in> {SC_ELABORATION, SC_BEFORE_END_OF_ELABORATION, SC_END_OF_ELABORATION} then
        Inr \<lparr>comm_res_name = n, BW_limit = Fin (- 1), connections_limit = 0, time_invariant = False,
             dimension_time_invariant = True, connections_time_invariant = False,
             connections_message_size_invariant = True, connected_elements = [],
             links_table = Map.empty, info_at = (\<lambda>_. new_link_info), next_info = 0\<rparr>
      else report ''A generic platform communication resource (generic network) can be created only at the elaboration '')"

definition set_time_invariant :: "bool \<Rightarrow> ('a, 'b) comm_res_scheme \<Rightarrow> ('a, 'b) comm_res_scheme" where
  "set_time_invariant f r = r\<lparr>time_invariant := f\<rparr>"

definition set_time_invariant_dimension ::
    "bool \<Rightarrow> ('a, 'b) comm_res_scheme \<Rightarrow> ('a, 'b) comm_res_scheme" where
  "set_time_invariant_dimension f r = r\<lparr>dimension_time_invariant := f\<rparr>"

definition set_connections_time_invariant ::
    "bool \<Rightarrow> ('a, 'b) comm_res_scheme \<Rightarrow> ('a, 'b) comm_res_scheme" where
  "set_connections_time_invariant f r = r\<lparr>connections_time_invariant := f\<rparr>"

definition set_connections_message_size_invariant ::
    "bool \<Rightarrow> ('a, 'b) comm_res_scheme \<Rightarrow> ('a, 'b) comm_res_scheme" where
  "set_connections_message_size_invariant f r = r\<lparr>connections_message_size_invariant := f\<rparr>"

definition check_time_invariance :: "sim_env \<Rightarrow> string \<Rightarrow> ('a, 'b) comm_res_scheme \<Rightarrow> unit result" where
  "check_time_invariance e what r =
     check (sc_status e \<notin> {SC_START_OF_SIMULATION, SC_RUNNING, SC_PAUSED, SC_STOPPED,
              SC_END_OF_SIMULATION})
       (''Trying to dynamically set '' @ what @ '' in communication resource '' @ comm_res_name r
         @ '', which is time invariant'')"

text \<open>The limit is assigned to itself.\<close>

definition set_BW_limit ::
    "sim_env \<Rightarrow> double \<Rightarrow> ('a, 'b) comm_res_scheme \<Rightarrow> ('a, 'b) comm_res_scheme result" where
  "set_BW_limit e b r =
     rmap (\<lambda>_. r\<lparr>BW_limit := BW_limit r\<rparr>)
       (if time_invariant r then check_time_invariance e ''BW limit'' r else Inr ())"

definition set_connections_limit ::
    "sim_env \<Rightarrow> u32 \<Rightarrow> ('a, 'b) comm_res_scheme \<Rightarrow> ('a, 'b) comm_res_scheme result" where
  "set_connections_limit e n r =
     rmap (\<lambda>_. r\<lparr>connections_limit := n\<rparr>)
       (if time_invariant r then check_time_invariance e ''connections limit'' r else Inr ())"

text \<open>\<open>name_of\<close> is the name of the element with an address.\<close>

definition plug ::
    "('a \<Rightarrow> string) \<Rightarrow> sim_env \<Rightarrow> 'a \<Rightarrow> ('a, 'b) comm_res_scheme \<Rightarrow> ('a \<times> ('a, 'b) comm_res_scheme) result" where
  "plug name_of e a r =
     rmap (\<lambda>_. (a, r\<lparr>connected_elements := connected_elements r @ [a]\<rparr>))
       (if time_invariant r \<or> dimension_time_invariant r
        then check_time_invariance e (''a new connection of the element '' @ name_of a) r else Inr ())"

definition get_number_of_connected_elements :: "('a, 'b) comm_res_scheme \<Rightarrow> nat" where
  "get_number_of_connected_elements r = length (connected_elements r)"

definition link_key :: "'a link_t \<Rightarrow> ('a \<times> 'a) result" where
  "link_key l =
     (case src l of
        None \<Rightarrow> undef ''null source''
      | Some s \<Rightarrow> (case dest l of None \<Rightarrow> undef ''null destination'' | Some d \<Rightarrow> Inr (s, d)))"

definition link_between :: "'a option \<Rightarrow> 'a option \<Rightarrow> 'a link_t" where
  "link_between s d = new_link\<lparr>src := s, dest := d\<rparr>"

definition add_link :: "'a link_t \<Rightarrow> ('a, 'b) comm_res_scheme \<Rightarrow> ('a, 'b) comm_res_scheme result" where
  "add_link l r = rmap (\<lambda>k. r\<lparr>links_table := (links_table r)(k \<mapsto> None)\<rparr>) (link_key l)"

definition set_properties ::
    "sim_env \<Rightarrow> 'a link_t \<Rightarrow> info_ptr \<Rightarrow> u32 \<Rightarrow> ('a, 'b) comm_res_scheme
       \<Rightarrow> ('a, 'b) comm_res_scheme result" where
  "set_properties e l p sz r =
     rbind (if connections_time_invariant r then check_time_invariance e ''set link properties'' r
            else Inr ()) (\<lambda>_.
     rbind (link_key l) (\<lambda>k.
       case links_table r k of
         None \<Rightarrow> Inr (r\<lparr>links_table := (links_table r)(k \<mapsto> Some [(sz, p)])\<rparr>)
       | Some None \<Rightarrow> Inr (r\<lparr>links_table := (links_table r)(k \<mapsto> Some [(sz, p)])\<rparr>)
       | Some (Some t) \<Rightarrow>
           rmap (\<lambda>_. r\<lparr>links_table := (links_table r)(k \<mapsto> Some (table_set sz p t))\<rparr>)
             (check (\<not> (connections_message_size_invariant r \<and> length (table_set sz p t) > 1))
               (''Setting properties of a link for at least two message sizes, for communication resource ''
                 @ comm_res_name r @ '', whose connections have been stated as message size invariant.''))))"

text \<open>No information for the size is the null pointer, an unknown link an error.\<close>

definition get_properties :: "'a link_t \<Rightarrow> u32 \<Rightarrow> ('a, 'b) comm_res_scheme \<Rightarrow> info_ptr result" where
  "get_properties l sz r =
     rbind (link_key l) (\<lambda>k.
       case links_table r k of
         None \<Rightarrow> report (''Physical Link not found in communication resource '' @ comm_res_name r)
       | Some None \<Rightarrow> Inr None
       | Some (Some t) \<Rightarrow> Inr (case map_of t sz of None \<Rightarrow> None | Some p \<Rightarrow> p))"

subsection \<open>Setters and getters of single properties\<close>

text \<open>
  The body the six setters share: the object of the link and size is changed in place, a new one is
  made if there is none, and it is entered in the table.
\<close>

definition set_attribute ::
    "sim_env \<Rightarrow> (link_info_t \<Rightarrow> link_info_t) \<Rightarrow> 'a link_t \<Rightarrow> u32 \<Rightarrow> ('a, 'b) comm_res_scheme
       \<Rightarrow> ('a, 'b) comm_res_scheme result" where
  "set_attribute e f l sz r =
     rbind (get_properties l sz r) (\<lambda>p.
       let (q, r1) =
         (case p of
            Some q \<Rightarrow> (q, r)
          | None \<Rightarrow> (next_info r, r\<lparr>info_at := (info_at r)(next_info r := new_link_info),
                                   next_info := Suc (next_info r)\<rparr>))
       in set_properties e l (Some q) sz (r1\<lparr>info_at := (info_at r1)(q := f (info_at r1 q))\<rparr>))"

definition set_MinBW ::
    "sim_env \<Rightarrow> 'a link_t \<Rightarrow> double \<Rightarrow> u32 \<Rightarrow> ('a, 'b) comm_res_scheme \<Rightarrow> ('a, 'b) comm_res_scheme result" where
  "set_MinBW e l b sz r = set_attribute e (setMinBW b) l sz r"

definition set_CurrentBW ::
    "sim_env \<Rightarrow> 'a link_t \<Rightarrow> double \<Rightarrow> u32 \<Rightarrow> ('a, 'b) comm_res_scheme \<Rightarrow> ('a, 'b) comm_res_scheme result" where
  "set_CurrentBW e l b sz r = set_attribute e (setCurrentBW b) l sz r"

definition set_AvgBW ::
    "sim_env \<Rightarrow> 'a link_t \<Rightarrow> double \<Rightarrow> u32 \<Rightarrow> ('a, 'b) comm_res_scheme \<Rightarrow> ('a, 'b) comm_res_scheme result" where
  "set_AvgBW e l b sz r = set_attribute e (setAvgBW b) l sz r"

definition set_MaxP2Pdelay ::
    "sim_env \<Rightarrow> 'a link_t \<Rightarrow> sc_time \<Rightarrow> u32 \<Rightarrow> ('a, 'b) comm_res_scheme \<Rightarrow> ('a, 'b) comm_res_scheme result" where
  "set_MaxP2Pdelay e l d sz r = set_attribute e (setMaxP2Pdelay d) l sz r"

definition set_CurrentP2Pdelay ::
    "sim_env \<Rightarrow> 'a link_t \<Rightarrow> sc_time \<Rightarrow> u32 \<Rightarrow> ('a, 'b) comm_res_scheme \<Rightarrow> ('a, 'b) comm_res_scheme result" where
  "set_CurrentP2Pdelay e l d sz r = set_attribute e (setCurrentP2Pdelay d) l sz r"

definition set_AvgP2Pdelay ::
    "sim_env \<Rightarrow> 'a link_t \<Rightarrow> sc_time \<Rightarrow> u32 \<Rightarrow> ('a, 'b) comm_res_scheme \<Rightarrow> ('a, 'b) comm_res_scheme result" where
  "set_AvgP2Pdelay e l d sz r = set_attribute e (setAvgP2Pdelay d) l sz r"

definition deref_info :: "info_ptr \<Rightarrow> ('a, 'b) comm_res_scheme \<Rightarrow> link_info_t result" where
  "deref_info p r = (case p of None \<Rightarrow> undef ''null link information'' | Some q \<Rightarrow> Inr (info_at r q))"

text \<open>The getters look up the default message size, whatever size they are given.\<close>

definition default_properties :: "'a link_t \<Rightarrow> ('a, 'b) comm_res_scheme \<Rightarrow> link_info_t result" where
  "default_properties l r = rbind (get_properties l 1 r) (\<lambda>p. deref_info p r)"

definition get_MinBW :: "'a link_t \<Rightarrow> u32 \<Rightarrow> ('a, 'b) comm_res_scheme \<Rightarrow> double result" where
  "get_MinBW l sz r = rmap MinBW (default_properties l r)"

definition get_CurrentBW :: "'a link_t \<Rightarrow> u32 \<Rightarrow> ('a, 'b) comm_res_scheme \<Rightarrow> double result" where
  "get_CurrentBW l sz r = rmap CurrentBW (default_properties l r)"

definition get_AvgBW :: "'a link_t \<Rightarrow> u32 \<Rightarrow> ('a, 'b) comm_res_scheme \<Rightarrow> double result" where
  "get_AvgBW l sz r = rmap AvgBW (default_properties l r)"

definition get_MaxP2Pdelay :: "'a link_t \<Rightarrow> u32 \<Rightarrow> ('a, 'b) comm_res_scheme \<Rightarrow> sc_time result" where
  "get_MaxP2Pdelay l sz r = rmap MaxP2Pdelay (default_properties l r)"

definition get_CurrentP2Pdelay :: "'a link_t \<Rightarrow> u32 \<Rightarrow> ('a, 'b) comm_res_scheme \<Rightarrow> sc_time result" where
  "get_CurrentP2Pdelay l sz r = rmap CurrentP2Pdelay (default_properties l r)"

definition get_AvgP2Pdelay :: "'a link_t \<Rightarrow> u32 \<Rightarrow> ('a, 'b) comm_res_scheme \<Rightarrow> sc_time result" where
  "get_AvgP2Pdelay l sz r = rmap AvgP2Pdelay (default_properties l r)"

subsection \<open>Physical links\<close>

datatype resource_t = PROCESSING_ELEMENT | MEMORY_RESOURCE

text \<open>\<open>kind\<close> is \<open>get_type\<close> of the element with an address; the operands are read left to right.\<close>

definition resource_type :: "('a \<Rightarrow> resource_t) \<Rightarrow> 'a option \<Rightarrow> resource_t result" where
  "resource_type kind a = (case a of None \<Rightarrow> undef ''null address'' | Some x \<Rightarrow> Inr (kind x))"

definition is_PE_intracomm :: "('a \<Rightarrow> resource_t) \<Rightarrow> 'a link_t \<Rightarrow> bool result" where
  "is_PE_intracomm kind l =
     (if is_intracomm l then rmap (\<lambda>t. t = PROCESSING_ELEMENT) (resource_type kind (src l)) else Inr False)"

definition is_PE_PE_comm :: "('a \<Rightarrow> resource_t) \<Rightarrow> 'a link_t \<Rightarrow> bool result" where
  "is_PE_PE_comm kind l =
     rbind (resource_type kind (src l)) (\<lambda>t.
       if t = PROCESSING_ELEMENT then rmap (\<lambda>t. t = PROCESSING_ELEMENT) (resource_type kind (dest l))
       else Inr False)"

definition is_PE_MEM_comm :: "('a \<Rightarrow> resource_t) \<Rightarrow> 'a link_t \<Rightarrow> bool result" where
  "is_PE_MEM_comm kind l =
     rbind (resource_type kind (src l)) (\<lambda>t.
       if t = PROCESSING_ELEMENT then rmap (\<lambda>t. t = MEMORY_RESOURCE) (resource_type kind (dest l))
       else Inr False)"

text \<open>The address of an element by its name: a processing element first, then a memory.\<close>

definition get_resource_address ::
    "(string \<rightharpoonup> 'a) \<Rightarrow> (string \<rightharpoonup> 'a) \<Rightarrow> string \<Rightarrow> 'a result" where
  "get_resource_address pes mems n =
     (case pes n of
        Some a \<Rightarrow> Inr a
      | None \<Rightarrow> (case mems n of
                   Some a \<Rightarrow> Inr a
                 | None \<Rightarrow> report ''In get_address_by_elem_name. Hw resource not found in global list''))"

subsection \<open>The table as an abstract map\<close>

text \<open>The pointer stored for a link and a size, and the properties it leads to.\<close>

definition info_entry :: "('a, 'b) comm_res_scheme \<Rightarrow> 'a \<times> 'a \<Rightarrow> u32 \<Rightarrow> info_ptr option" where
  "info_entry r k sz = (case links_table r k of Some (Some t) \<Rightarrow> map_of t sz | _ \<Rightarrow> None)"

definition view :: "('a, 'b) comm_res_scheme \<Rightarrow> 'a \<times> 'a \<Rightarrow> u32 \<Rightarrow> link_info_t option" where
  "view r k sz =
     (case info_entry r k sz of Some (Some q) \<Rightarrow> Some (info_at r q) | _ \<Rightarrow> None)"

text \<open>No null pointer in the table, and no object shared by two entries.\<close>

definition separate :: "('a, 'b) comm_res_scheme \<Rightarrow> bool" where
  "separate r \<longleftrightarrow>
     (\<forall>k sz p. info_entry r k sz = Some p \<longrightarrow> (\<exists>q. p = Some q \<and> q < next_info r))
     \<and> (\<forall>k sz k' sz' p. info_entry r k sz = Some p \<longrightarrow> info_entry r k' sz' = Some p \<longrightarrow> k = k' \<and> sz = sz')"

text \<open>The tables of sizes are kept ordered.\<close>

definition ordered_sizes :: "('a, 'b) comm_res_scheme \<Rightarrow> bool" where
  "ordered_sizes r \<longleftrightarrow> (\<forall>k t. links_table r k = Some (Some t) \<longrightarrow> sorted_wrt (<) (map fst t))"

definition table_inv :: "('a, 'b) comm_res_scheme \<Rightarrow> bool" where
  "table_inv r \<longleftrightarrow> separate r \<and> ordered_sizes r"

lemma read_properties:
  assumes "link_key l = Inr k" "links_table r k \<noteq> None" "separate r"
  shows "rbind (get_properties l sz r) (\<lambda>p. deref_info p r) =
    (case view r k sz of None \<Rightarrow> undef ''null link information'' | Some i \<Rightarrow> Inr i)"
  using assms by (auto simp: get_properties_def view_def info_entry_def deref_info_def separate_def
      split: option.splits)

lemma get_properties_entry:
  assumes "link_key l = Inr k" "get_properties l sz r = Inr p"
  shows "links_table r k \<noteq> None" "p = (case info_entry r k sz of None \<Rightarrow> None | Some q \<Rightarrow> q)"
  using assms by (auto simp: get_properties_def info_entry_def split: option.splits)

definition sizes_of :: "('a, 'b) comm_res_scheme \<Rightarrow> 'a \<times> 'a \<Rightarrow> (u32 \<times> info_ptr) list" where
  "sizes_of r k = (case links_table r k of Some (Some t) \<Rightarrow> t | _ \<Rightarrow> [])"

lemma info_entry_sizes: "info_entry r k = map_of (sizes_of r k)"
  by (auto simp: fun_eq_iff info_entry_def sizes_of_def split: option.splits)

lemma ordered_sizes_of: "ordered_sizes r \<longleftrightarrow> (\<forall>k. sorted_wrt (<) (map fst (sizes_of r k)))"
  by (force simp: ordered_sizes_def sizes_of_def split: option.splits)

lemma set_properties_ok:
  assumes "set_properties e l p sz r = Inr r'" "link_key l = Inr k"
  shows "r' = r\<lparr>links_table := (links_table r)(k \<mapsto> Some (table_set sz p (sizes_of r k)))\<rparr>"
  using assms
  by (simp add: set_properties_def sizes_of_def rbind_eq_Inr rmap_eq_Inr split: option.splits if_splits)

lemma set_properties_entry:
  assumes "set_properties e l p sz r = Inr r'" "link_key l = Inr k" "ordered_sizes r"
  shows "info_entry r' = (info_entry r)(k := (info_entry r k)(sz \<mapsto> p))"
    "ordered_sizes r'" "info_at r' = info_at r" "next_info r' = next_info r"
    "dom (links_table r') = insert k (dom (links_table r))"
proof -
  note ok = set_properties_ok [OF assms(1,2)]
  have sz: "sizes_of r' = (sizes_of r)(k := table_set sz p (sizes_of r k))"
    by (simp add: ok fun_eq_iff sizes_of_def)
  show "info_entry r' = (info_entry r)(k := (info_entry r k)(sz \<mapsto> p))"
    using assms(3) by (auto simp: fun_eq_iff info_entry_sizes sz map_of_table_set ordered_sizes_of)
  show "ordered_sizes r'"
    using assms(3) by (auto simp: ordered_sizes_of sz sorted_table_set)
qed (simp_all add: set_properties_ok [OF assms(1,2)])

text \<open>A setter is an update of the map that the table represents.\<close>

lemma separate_pointer:
  "separate r \<Longrightarrow> info_entry r k sz = Some p \<Longrightarrow> \<exists>q. p = Some q \<and> q < next_info r"
  unfolding separate_def by blast

lemma separate_same:
  "separate r \<Longrightarrow> info_entry r k sz = Some p \<Longrightarrow> info_entry r k' sz' = Some p \<Longrightarrow> k = k' \<and> sz = sz'"
  unfolding separate_def by blast

lemma view_new_pointer:
  assumes "separate r" "info_entry r' = (info_entry r)(k := (info_entry r k)(sz \<mapsto> Some (next_info r)))"
    "info_at r' = (info_at r)(next_info r := i)"
  shows "view r' = (view r)(k := (view r k)(sz \<mapsto> i))"
proof (intro ext)
  fix k' sz'
  show "view r' k' sz' = ((view r)(k := (view r k)(sz \<mapsto> i))) k' sz'"
  proof (cases "k' = k \<and> sz' = sz")
    case False
    then have e: "info_entry r' k' sz' = info_entry r k' sz'" using assms(2) by auto
    have "view r' k' sz' = view r k' sz'"
    proof (cases "info_entry r k' sz'")
      case (Some p)
      with separate_pointer [OF assms(1)] obtain q where "p = Some q" "q < next_info r" by blast
      with Some e show ?thesis by (simp add: view_def assms(3))
    qed (simp add: view_def e)
    with False show ?thesis by auto
  qed (simp add: view_def assms(2,3))
qed

lemma view_same_pointer:
  assumes "separate r" "info_entry r' = info_entry r" "info_entry r k sz = Some (Some q)"
    "info_at r' = (info_at r)(q := i)"
  shows "view r' = (view r)(k := (view r k)(sz \<mapsto> i))"
proof (intro ext)
  fix k' sz'
  show "view r' k' sz' = ((view r)(k := (view r k)(sz \<mapsto> i))) k' sz'"
  proof (cases "k' = k \<and> sz' = sz")
    case False
    have "view r' k' sz' = view r k' sz'"
    proof (cases "info_entry r k' sz'")
      case (Some p)
      with False separate_same [OF assms(1,3)] have "p \<noteq> Some q" by metis
      with Some show ?thesis by (simp add: view_def assms(2,4) split: option.splits)
    qed (simp add: view_def assms(2))
    with False show ?thesis by auto
  qed (simp add: view_def assms(2-4))
qed

lemma separate_new_pointer:
  assumes "separate r" "info_entry r' = (info_entry r)(k := (info_entry r k)(sz \<mapsto> Some (next_info r)))"
    "next_info r' = Suc (next_info r)"
  shows "separate r'"
proof -
  have e: "info_entry r' k' sz' = (if k' = k \<and> sz' = sz then Some (Some (next_info r))
      else info_entry r k' sz')" for k' sz'
    using assms(2) by auto
  have 1: "\<exists>q. p = Some q \<and> q < next_info r'" if "info_entry r' k' sz' = Some p" for k' sz' p
  proof (cases "k' = k \<and> sz' = sz")
    case False
    with that have "info_entry r k' sz' = Some p" using e by simp
    from separate_pointer [OF assms(1) this] show ?thesis using assms(3) less_SucI by auto
  qed (use that assms(3) e in auto)
  have new: "info_entry r k' sz' \<noteq> Some (Some (next_info r))" for k' sz'
    using separate_pointer [OF assms(1)] by fastforce
  have 2: "k1 = k2 \<and> s1 = s2"
    if "info_entry r' k1 s1 = Some p" "info_entry r' k2 s2 = Some p" for k1 s1 k2 s2 p
    using that separate_same [OF assms(1), of k1 s1 p k2 s2] new unfolding e by (metis option.inject)
  show ?thesis unfolding separate_def using 1 2 by blast
qed

lemma set_attribute_view:
  assumes "set_attribute e f l sz r = Inr r'" "link_key l = Inr k" "table_inv r"
  shows "view r' = (view r)(k := (view r k)
             (sz \<mapsto> f (case view r k sz of None \<Rightarrow> new_link_info | Some i \<Rightarrow> i)))"
    "table_inv r'"
proof -
  obtain p where p: "get_properties l sz r = Inr p"
    using assms(1) by (auto simp: set_attribute_def rbind_eq_Inr)
  have sep: "separate r" and ord: "ordered_sizes r" using assms(3) by (simp_all add: table_inv_def)
  have "view r' = (view r)(k := (view r k)
             (sz \<mapsto> f (case view r k sz of None \<Rightarrow> new_link_info | Some i \<Rightarrow> i))) \<and> table_inv r'"
  proof (cases p)
    case None
    let ?n = "next_info r"
    let ?r = "r\<lparr>info_at := (info_at r)(?n := f new_link_info), next_info := Suc ?n\<rparr>"
    have e: "info_entry r k sz = None"
      using get_properties_entry(2) [OF assms(2) p] None separate_pointer [OF sep, of k sz]
      by (cases "info_entry r k sz") auto
    have s: "set_properties e l (Some ?n) sz ?r = Inr r'"
      using assms(1) p None by (cases r) (simp add: set_attribute_def)
    have "info_entry ?r = info_entry r" by (simp add: fun_eq_iff info_entry_def)
    moreover have "ordered_sizes ?r" using ord by (simp add: ordered_sizes_def)
    ultimately have en: "info_entry r' = (info_entry r)(k := (info_entry r k)(sz \<mapsto> Some ?n))"
      and o: "ordered_sizes r'" and st: "info_at r' = (info_at r)(?n := f new_link_info)"
      and nx: "next_info r' = Suc ?n"
      using set_properties_entry [OF s assms(2)] by simp_all
    have "separate r'" by (rule separate_new_pointer [OF sep en nx])
    moreover have "view r' = (view r)(k := (view r k)(sz \<mapsto> f new_link_info))"
      by (rule view_new_pointer [OF sep en st])
    ultimately show ?thesis using o e by (simp add: table_inv_def view_def)
  next
    case (Some q)
    let ?r = "r\<lparr>info_at := (info_at r)(q := f (info_at r q))\<rparr>"
    have e: "info_entry r k sz = Some (Some q)"
      using get_properties_entry(2) [OF assms(2) p] Some by (auto split: option.splits)
    have s: "set_properties e l (Some q) sz ?r = Inr r'"
      using assms(1) p Some by (simp add: set_attribute_def)
    have "info_entry ?r = info_entry r" by (simp add: fun_eq_iff info_entry_def)
    moreover have "ordered_sizes ?r" using ord by (simp add: ordered_sizes_def)
    ultimately have en: "info_entry r' = info_entry r" and o: "ordered_sizes r'"
      and st: "info_at r' = (info_at r)(q := f (info_at r q))" and nx: "next_info r' = next_info r"
      using set_properties_entry [OF s assms(2)] e by (auto simp: fun_eq_iff)
    have "separate r'" using sep unfolding separate_def en nx .
    moreover have "view r' = (view r)(k := (view r k)(sz \<mapsto> f (info_at r q)))"
      by (rule view_same_pointer [OF sep en e st])
    ultimately show ?thesis using o e by (simp add: table_inv_def view_def)
  qed
  then show "view r' = (view r)(k := (view r k)
             (sz \<mapsto> f (case view r k sz of None \<Rightarrow> new_link_info | Some i \<Rightarrow> i)))"
    "table_inv r'" by blast+
qed

subsection \<open>An interface to tables of properties\<close>

text \<open>
  What a user of a table of properties may rely on: a successful update of the entry for a key and a
  size keeps the invariant and changes that entry only, from a fresh one if there was none.
\<close>

locale property_table =
  fixes content :: "'r \<Rightarrow> 'k \<Rightarrow> 's \<Rightarrow> link_info_t option"
    and put :: "(link_info_t \<Rightarrow> link_info_t) \<Rightarrow> 'k \<Rightarrow> 's \<Rightarrow> 'r \<Rightarrow> 'r result"
    and inv :: "'r \<Rightarrow> bool"
  assumes put_content: "inv r \<Longrightarrow> put f k sz r = Inr r' \<Longrightarrow> content r' = (content r)(k := (content r k)
             (sz \<mapsto> f (case content r k sz of None \<Rightarrow> new_link_info | Some i \<Rightarrow> i)))"
    and put_inv: "inv r \<Longrightarrow> put f k sz r = Inr r' \<Longrightarrow> inv r'"
begin

fun puts :: "((link_info_t \<Rightarrow> link_info_t) \<times> 'k \<times> 's) list \<Rightarrow> 'r \<Rightarrow> 'r result" where
  "puts [] r = Inr r"
| "puts ((f, k, sz) # us) r = rbind (put f k sz r) (puts us)"

lemma puts_content:
  "inv r \<Longrightarrow> puts us r = Inr r' \<Longrightarrow> inv r' \<and> content r' k sz =
     foldl (\<lambda>i (f, k', sz'). if k' = k \<and> sz' = sz
              then Some (f (case i of None \<Rightarrow> new_link_info | Some x \<Rightarrow> x)) else i) (content r k sz) us"
proof (induction us arbitrary: r)
  case (Cons u us)
  obtain f k1 s1 where u: "u = (f, k1, s1)" by (cases u) auto
  from Cons.prems(2) obtain r1 where r1: "put f k1 s1 r = Inr r1" "puts us r1 = Inr r'"
    by (auto simp: u rbind_eq_Inr)
  have "content r1 k sz = (if k1 = k \<and> s1 = sz
      then Some (f (case content r k sz of None \<Rightarrow> new_link_info | Some x \<Rightarrow> x)) else content r k sz)"
    using put_content [OF Cons.prems(1) r1(1)] by auto
  with Cons.IH [OF put_inv [OF Cons.prems(1) r1(1)] r1(2)] show ?case by (simp add: u)
qed simp

lemma puts_inv: "inv r \<Longrightarrow> puts us r = Inr r' \<Longrightarrow> inv r'"
  using puts_content by blast

end

definition put_attribute ::
    "sim_env \<Rightarrow> (link_info_t \<Rightarrow> link_info_t) \<Rightarrow> 'a \<times> 'a \<Rightarrow> u32 \<Rightarrow> ('a, 'b) comm_res_scheme
       \<Rightarrow> ('a, 'b) comm_res_scheme result" where
  "put_attribute e f k sz r = set_attribute e f (link_between (Some (fst k)) (Some (snd k))) sz r"

lemma link_key_between [simp]: "link_key (link_between (Some a) (Some b)) = Inr (a, b)"
  by (simp add: link_key_def link_between_def)

interpretation comm_table: property_table view "put_attribute e" table_inv for e
  by unfold_locales (simp_all add: put_attribute_def set_attribute_view)

text \<open>A series of settings, each of an attribute of a link for a size.\<close>

definition set_attributes ::
    "sim_env \<Rightarrow> ((link_info_t \<Rightarrow> link_info_t) \<times> ('a \<times> 'a) \<times> u32) list \<Rightarrow> ('a, 'b) comm_res_scheme
       \<Rightarrow> ('a, 'b) comm_res_scheme result" where
  "set_attributes e us r = foldl (\<lambda>m (f, k, sz). rbind m (put_attribute e f k sz)) (Inr r) us"

lemma foldl_rbind_Inl: "foldl (\<lambda>m (f, k, sz). rbind m (put_attribute e f k sz)) (Inl x) us = Inl x"
  by (induction us) auto

lemma set_attributes_puts: "set_attributes e us r = comm_table.puts e us r"
proof (induction us arbitrary: r)
  case (Cons u us)
  obtain f k sz where u: "u = (f, k, sz)" by (cases u) auto
  show ?case
  proof (cases "put_attribute e f k sz r")
    case (Inl x)
    then show ?thesis by (simp add: u set_attributes_def foldl_rbind_Inl)
  next
    case (Inr r1)
    then show ?thesis using Cons.IH [of r1] by (simp add: u set_attributes_def)
  qed
qed (simp add: set_attributes_def)

lemma new_comm_res_inv: "new_comm_res e n = Inr r \<Longrightarrow> table_inv r"
  by (auto simp: new_comm_res_def table_inv_def separate_def ordered_sizes_def info_entry_def
      split: if_splits)

text \<open>
  C14: A communication resource remembers what it was told. After any series of attribute settings, of any
  links and message sizes, that ends without error, the properties read for a link and a size are
  the default ones with the settings made for exactly that link and size applied in order, and no
  object is shared between two entries.
\<close>
theorem comm_res_remembers:
  assumes "set_attributes e us r = Inr r'" "table_inv r" "links_table r' (a, b) \<noteq> None"
  shows "rbind (get_properties (link_between (Some a) (Some b)) sz r') (\<lambda>p. deref_info p r') =
     (case foldl (\<lambda>i (f, k, s). if k = (a, b) \<and> s = sz
              then Some (f (case i of None \<Rightarrow> new_link_info | Some x \<Rightarrow> x)) else i) (view r (a, b) sz) us of
        None \<Rightarrow> undef ''null link information'' | Some i \<Rightarrow> Inr i)
     \<and> table_inv r'"
proof -
  have "comm_table.puts e us r = Inr r'" using assms(1) by (simp add: set_attributes_puts)
  from comm_table.puts_content [OF assms(2) this, of "(a, b)" sz] assms(3) show ?thesis
    by (simp add: read_properties table_inv_def)
qed

definition example_settings :: "((link_info_t \<Rightarrow> link_info_t) \<times> (nat \<times> nat) \<times> u32) list" where
  "example_settings =
     [(setMaxP2Pdelay 5, (1, 2), 8), (setMaxP2Pdelay 7, (2, 1), 8), (setMinBW (Fin 3), (1, 2), 8)]"

text \<open>A resource with two links, whose properties depend on the message size.\<close>

definition example_comm_res :: "nat comm_res" where
  "example_comm_res =
     \<lparr>comm_res_name = ''net'', BW_limit = Fin (- 1), connections_limit = 0, time_invariant = False,
      dimension_time_invariant = True, connections_time_invariant = False,
      connections_message_size_invariant = False, connected_elements = [],
      links_table = [(1, 2) \<mapsto> None, (2, 1) \<mapsto> None], info_at = (\<lambda>_. new_link_info), next_info = 0\<rparr>"

lemma example_comm_res_inv: "table_inv example_comm_res"
  by (auto simp: table_inv_def separate_def ordered_sizes_def info_entry_def example_comm_res_def
      split: option.splits if_splits)

lemmas comm_res_eval = set_attributes_def put_attribute_def set_attribute_def get_properties_def
  set_properties_def link_key_def link_between_def

theorem comm_res_remembers_witness:
  "\<exists>r'. set_attributes (\<lparr>sc_status = SC_RUNNING, sc_running = True, sc_now = 9\<rparr>) example_settings
          example_comm_res = Inr r'
     \<and> rbind (get_properties (link_between (Some 1) (Some 2)) 8 r') (\<lambda>p. deref_info p r') =
         Inr (new_link_info\<lparr>MaxP2Pdelay := 5, MinBW := Fin 3\<rparr>)"
proof -
  let ?e = "\<lparr>sc_status = SC_RUNNING, sc_running = True, sc_now = 9\<rparr>"
  obtain r' where r': "set_attributes ?e example_settings example_comm_res = Inr r'"
      "links_table r' (1, 2) \<noteq> None"
    by (simp add: comm_res_eval example_settings_def example_comm_res_def)
  have "view example_comm_res (1, 2) 8 = None" by (simp add: view_def info_entry_def example_comm_res_def)
  with comm_res_remembers [OF r'(1) example_comm_res_inv r'(2), of 8] r'(1) show ?thesis
    by (auto simp: example_settings_def setMaxP2Pdelay_def setMinBW_def)
qed

end
