(* ===== verification/TDMA_Bus.thy ===== *)
theory TDMA_Bus
  imports Comm_Res
begin

text \<open>
  \<open>comm_res/buses/tdma_bus.cpp\<close>: a bus whose cycle is divided into slots, allocated to the elements that
  transmit. The record extends the one of the communication resource. The tables by element are lists
  ordered by address; reading one with \<open>[]\<close> enters a zero for a missing element (\<open>table_at\<close>). The
  free slots are a list of ranges. \<open>rand()\<close> and \<open>RAND_MAX\<close> are arguments.
\<close>

type_synonym free_slot_range_t = "u32 \<times> u32"

record 'a tdma_bus = "'a comm_res" +
  n_channels :: u32
  slot_time :: sc_time
  channel_capacity :: u32
  guard_time :: sc_time
  cycle_time :: sc_time
  ch_payload_bits :: u32
  ch_payload_rate :: double
  channel_BW :: u32
  channel_eBW :: u32
  eBW :: u32
  initial_offset_time :: sc_time
  tx_delay :: sc_time
  current_tx_delay :: sc_time
  n_allocated_channels :: u32
  accuracy_level :: int
  channel_allocation_table :: "('a \<times> u32) list"
  first_slot_allocation_table :: "('a \<times> u32) list"
  free_slot_table :: "free_slot_range_t list"
  manual_slot_allocation :: bool

subsection \<open>Construction and configuration\<close>

definition init_params :: "'a comm_res \<Rightarrow> 'a tdma_bus" where
  "init_params r =
     set_connections_message_size_invariant False
       (comm_res.extend r (tdma_bus.fields 0 0 0 0 0 0 (Fin 0) 0 0 0 0 0 0 0 0 [] [] [] False))"

definition new_tdma_bus :: "sim_env \<Rightarrow> string \<Rightarrow> 'a tdma_bus result" where
  "new_tdma_bus e n = rmap init_params (new_comm_res e n)"

definition set_n_channels :: "sim_env \<Rightarrow> u32 \<Rightarrow> 'a tdma_bus \<Rightarrow> 'a tdma_bus result" where
  "set_n_channels e n b =
     rmap (\<lambda>_. b\<lparr>n_channels := n, free_slot_table := free_slot_table b @ [(0, n - 1)]\<rparr>)
       (check_call_before_sim_start e ''set_n_channels'')"

text \<open>
  The constructor with parameters computes the capacity from the bandwidth, which is still zero, and
  registers the object, \<open>self\<close>, by its name.
\<close>

definition new_tdma_bus_configured ::
    "sim_env \<Rightarrow> u32 \<Rightarrow> sc_time \<Rightarrow> double \<Rightarrow> sc_time \<Rightarrow> sc_time \<Rightarrow> string \<Rightarrow> 'p \<Rightarrow> (string \<rightharpoonup> 'p)
       \<Rightarrow> ('a tdma_bus \<times> (string \<rightharpoonup> 'p)) result" where
  "new_tdma_bus_configured e n slot payload cycle guard name self phy_commres_by_name =
     rbind (new_tdma_bus e name) (\<lambda>b0.
     rbind (set_n_channels e n b0) (\<lambda>b1.
     rbind (to_u32 payload) (\<lambda>p.
       let b2 = b1\<lparr>slot_time := slot, ch_payload_bits := p, cycle_time := cycle, guard_time := guard\<rparr> in
       rmap (\<lambda>c. (b2\<lparr>channel_capacity := c\<rparr>, phy_commres_by_name(name \<mapsto> self)))
         (to_u32 (dmul (of_u32 (eBW b2)) (Fin (to_seconds slot)))))))"

definition set_slot_time :: "sim_env \<Rightarrow> sc_time \<Rightarrow> 'a tdma_bus \<Rightarrow> 'a tdma_bus result" where
  "set_slot_time e t b =
     rmap (\<lambda>_. b\<lparr>slot_time := t\<rparr>) (check_call_before_sim_start e ''set_slot_time'')"

definition set_channel_capacity :: "sim_env \<Rightarrow> u32 \<Rightarrow> 'a tdma_bus \<Rightarrow> 'a tdma_bus result" where
  "set_channel_capacity e c b =
     rmap (\<lambda>_. b\<lparr>channel_capacity := c\<rparr>) (check_call_before_sim_start e ''set_channel_capacity'')"

definition set_channel_payload_rate :: "sim_env \<Rightarrow> double \<Rightarrow> 'a tdma_bus \<Rightarrow> 'a tdma_bus result" where
  "set_channel_payload_rate e d b =
     rmap (\<lambda>_. b\<lparr>ch_payload_rate := d\<rparr>) (check_call_before_sim_start e ''set_channel_payload_rate'')"

definition set_channel_payload_bits :: "sim_env \<Rightarrow> u32 \<Rightarrow> 'a tdma_bus \<Rightarrow> 'a tdma_bus result" where
  "set_channel_payload_bits e n b =
     rmap (\<lambda>_. b\<lparr>ch_payload_bits := n\<rparr>) (check_call_before_sim_start e ''set_channel_payload_bits'')"

definition set_guard_time :: "sim_env \<Rightarrow> sc_time \<Rightarrow> 'a tdma_bus \<Rightarrow> 'a tdma_bus result" where
  "set_guard_time e t b =
     rmap (\<lambda>_. b\<lparr>guard_time := t\<rparr>) (check_call_before_sim_start e ''set_guard_time'')"

definition set_cycle_time :: "sim_env \<Rightarrow> sc_time \<Rightarrow> 'a tdma_bus \<Rightarrow> 'a tdma_bus result" where
  "set_cycle_time e t b =
     rmap (\<lambda>_. b\<lparr>cycle_time := t\<rparr>) (check_call_before_sim_start e ''set_cycle_time'')"

definition get_channel_BW :: "'a tdma_bus \<Rightarrow> u32" where
  "get_channel_BW b = channel_eBW b"

definition set_tx_delay :: "sim_env \<Rightarrow> sc_time \<Rightarrow> 'a tdma_bus \<Rightarrow> 'a tdma_bus result" where
  "set_tx_delay e t b = rmap (\<lambda>_. b\<lparr>tx_delay := t\<rparr>) (check_call_before_sim_start e ''set_tx_delay'')"

definition set_initial_offset_time :: "sim_env \<Rightarrow> sc_time \<Rightarrow> 'a tdma_bus \<Rightarrow> 'a tdma_bus result" where
  "set_initial_offset_time e t b =
     rmap (\<lambda>_. b\<lparr>initial_offset_time := t\<rparr>) (check_call_before_sim_start e ''set_initial_offset_time'')"

definition set_accuracy_level :: "sim_env \<Rightarrow> int \<Rightarrow> 'a tdma_bus \<Rightarrow> 'a tdma_bus result" where
  "set_accuracy_level e l b =
     rmap (\<lambda>_. b\<lparr>accuracy_level := l\<rparr>) (check_call_before_sim_start e ''set_accuracy_level'')"

subsection \<open>Allocation of slots\<close>

text \<open>
  The search for a free range. An iterator that fails on a range is advanced by the loop body and
  again by the loop: the next range is skipped, and past the last one the increment is undefined.
\<close>

definition range_size :: "free_slot_range_t \<Rightarrow> u32" where
  "range_size r = snd r - fst r + 1"

fun free_slot_search :: "u32 \<Rightarrow> free_slot_range_t list \<Rightarrow> (u32 \<times> free_slot_range_t list) result" where
  "free_slot_search req [] = report ''Trying to allocate slots.''"
| "free_slot_search req (r # rs) =
     (if req < range_size r then Inr (fst r, (fst r + req, snd r) # rs)
      else if req = range_size r then Inr (fst r, rs)
      else (case rs of
              [] \<Rightarrow> undef ''increment of the end iterator''
            | r' # rs' \<Rightarrow> rmap (\<lambda>(s, t). (s, r # r' # t)) (free_slot_search req rs')))"

definition assign_free_slots :: "u32 \<Rightarrow> 'a tdma_bus \<Rightarrow> (u32 \<times> 'a tdma_bus) result" where
  "assign_free_slots req b =
     rbind (check (free_slot_table b \<noteq> []) ''Empty free slot table when trying to assign free slots.'') (\<lambda>_.
       rmap (\<lambda>(s, t). (s, b\<lparr>free_slot_table := t\<rparr>)) (free_slot_search req (free_slot_table b)))"

text \<open>The search for given slots, with the same iterator.\<close>

fun manual_slot_search :: "u32 \<Rightarrow> u32 \<Rightarrow> free_slot_range_t list \<Rightarrow> free_slot_range_t list result" where
  "manual_slot_search first req [] = report ''Trying to allocate slots from a slot''"
| "manual_slot_search first req (r # rs) =
     (if fst r \<le> first \<and> first \<le> snd r \<and> req < range_size r then Inr ((first + req, snd r) # rs)
      else if fst r \<le> first \<and> first \<le> snd r \<and> req = range_size r then Inr rs
      else (case rs of
              [] \<Rightarrow> undef ''increment of the end iterator''
            | r' # rs' \<Rightarrow> rmap (\<lambda>t. r # r' # t) (manual_slot_search first req rs')))"

definition assign_free_slots_from :: "u32 \<Rightarrow> u32 \<Rightarrow> 'a tdma_bus \<Rightarrow> 'a tdma_bus result" where
  "assign_free_slots_from first req b =
     rbind (check (free_slot_table b \<noteq> []) ''Empty free slot table when trying to assign free slots.'') (\<lambda>_.
       rmap (\<lambda>t. b\<lparr>free_slot_table := t\<rparr>) (manual_slot_search first req (free_slot_table b)))"

definition record_allocation ::
    "('a::linorder) \<Rightarrow> u32 \<Rightarrow> u32 \<Rightarrow> 'a tdma_bus \<Rightarrow> 'a tdma_bus" where
  "record_allocation a required first b =
     b\<lparr>channel_allocation_table := table_set a required (channel_allocation_table b),
       first_slot_allocation_table := table_set a first (first_slot_allocation_table b),
       n_allocated_channels := n_allocated_channels b + required\<rparr>"

text \<open>The call passes the number of slots and the first slot in the opposite order.\<close>

definition allocate_channels_from ::
    "('a::linorder) \<Rightarrow> u32 \<Rightarrow> u32 \<Rightarrow> 'a tdma_bus \<Rightarrow> 'a tdma_bus result" where
  "allocate_channels_from a required first b =
     (let b1 = b\<lparr>manual_slot_allocation := True\<rparr> in
      rbind (check (\<not> required + n_allocated_channels b1 > n_channels b1)
              ''Trying to assign more transmission slots than the available slots'') (\<lambda>_.
        rmap (record_allocation a required first) (assign_free_slots_from required first b1)))"

definition allocate_channels :: "('a::linorder) \<Rightarrow> u32 \<Rightarrow> 'a tdma_bus \<Rightarrow> 'a tdma_bus result" where
  "allocate_channels a required b =
     rbind (check (\<not> required + n_allocated_channels b > n_channels b)
             ''Trying to assign transmission channels (slots) to sender physical address (PE)'') (\<lambda>_.
       rmap (\<lambda>(first, b1). record_allocation a required first b1) (assign_free_slots required b))"

definition allocate_BW :: "('a::linorder) \<Rightarrow> u32 \<Rightarrow> 'a tdma_bus \<Rightarrow> (u32 \<times> 'a tdma_bus) result" where
  "allocate_BW a required_bps b =
     rbind (to_u32 (ddiv (of_u32 required_bps) (of_u32 (channel_eBW b)))) (\<lambda>q.
       rmap (\<lambda>b1. ((q + 1) * channel_eBW b1, b1)) (allocate_channels a (q + 1) b))"

text \<open>The check of the allocation: every pair of elements, in the order of the table.\<close>

definition slots_overlap :: "u32 \<Rightarrow> u32 \<Rightarrow> u32 \<Rightarrow> u32 \<Rightarrow> bool" where
  "slots_overlap f1 n1 f2 n2 \<longleftrightarrow> f1 < f2 \<and> f1 + n1 - 1 \<ge> f2 \<or> f2 < f1 \<and> f2 + n2 - 1 \<ge> f1"

fun check_slot_row :: "('a \<times> u32) list \<Rightarrow> 'a \<times> u32 \<Rightarrow> ('a \<times> u32) list \<Rightarrow> unit result" where
  "check_slot_row channels (a1, f1) [] = Inr ()"
| "check_slot_row channels (a1, f1) ((a2, f2) # r) =
     (case map_of channels a1 of
        None \<Rightarrow> report ''Slot allocation check failed.''
      | Some n1 \<Rightarrow>
          (case map_of channels a2 of
             None \<Rightarrow> report ''Slot allocation check failed.''
           | Some n2 \<Rightarrow>
               (if slots_overlap f1 n1 f2 n2
                then report ''Slot allocation check failed. Uncompatible slot assignation.''
                else check_slot_row channels (a1, f1) r)))"

fun check_slot_rows :: "('a \<times> u32) list \<Rightarrow> ('a \<times> u32) list \<Rightarrow> unit result" where
  "check_slot_rows channels [] = Inr ()"
| "check_slot_rows channels (x # r) =
     rbind (check_slot_row channels x r) (\<lambda>_. check_slot_rows channels r)"

definition check_slot_allocation :: "'a tdma_bus \<Rightarrow> bool result" where
  "check_slot_allocation b =
     (let firsts = first_slot_allocation_table b; channels = channel_allocation_table b in
      rbind (check (length firsts = length channels)
              ''Slot allocation check failed because of the sizes of the tables.'') (\<lambda>_.
        if length firsts = 0 then report ''Slot allocation check failed because slot allocation is empty.''
        else if length firsts = 1 then Inr True
        else rmap (\<lambda>_. True) (check_slot_rows channels firsts)))"

subsection \<open>The end of the elaboration\<close>

definition complete_payload :: "'a tdma_bus \<Rightarrow> 'a tdma_bus result" where
  "complete_payload b =
     (let bits = ch_payload_bits b; rate = ch_payload_rate b; capacity = channel_capacity b in
      if bits = 0 \<and> (rate = Fin 0 \<or> capacity = 0) then
        report ''Payload bits of the slot has not been configured''
      else if bits = 0 \<and> rate \<noteq> Fin 0 \<and> capacity \<noteq> 0 then
        rmap (\<lambda>n. b\<lparr>ch_payload_bits := n\<rparr>) (to_u32 (dmul (of_u32 capacity) rate))
      else if bits \<noteq> 0 \<and> rate \<noteq> Fin 0 \<and> capacity \<noteq> 0 then
        (let calc = ddiv (of_u32 bits) (of_u32 capacity);
             error = (if dless rate calc then ddiv (dsub calc rate) rate
                      else ddiv (dsub rate calc) calc)
         in rmap (\<lambda>_. b) (check (\<not> dless (Fin (1 / 1000)) error) ''Inconsistent configuration for TDMA bus''))
      else Inr b)"

definition complete_cycle :: "'a tdma_bus \<Rightarrow> 'a tdma_bus result" where
  "complete_cycle b =
     (if cycle_time b = 0
      then rmap (\<lambda>t. b\<lparr>cycle_time := t\<rparr>) (sc_times (of_u32 (n_channels b)) (slot_time b + guard_time b))
      else Inr b)"

definition complete_bandwidth :: "'a tdma_bus \<Rightarrow> 'a tdma_bus result" where
  "complete_bandwidth b =
     rbind (to_u32 (ddiv (of_u32 (channel_capacity b)) (Fin (to_seconds (cycle_time b))))) (\<lambda>bw.
     rmap (\<lambda>ebw. b\<lparr>channel_BW := bw, channel_eBW := ebw, eBW := ebw * n_channels b\<rparr>)
       (to_u32 (ddiv (of_u32 (ch_payload_bits b)) (Fin (to_seconds (cycle_time b))))))"

definition tdma_before_end_of_elaboration :: "'a tdma_bus \<Rightarrow> 'a tdma_bus result" where
  "tdma_before_end_of_elaboration b =
     rbind (check (n_channels b \<noteq> 0) ''Mandatory attribute, number of channels not configured in TDMA bus'') (\<lambda>_.
     rbind (check (slot_time b \<noteq> 0) ''Mandatory attribute, slot_time not configured in TDMA bus'') (\<lambda>_.
     rbind (complete_payload b) (\<lambda>b1.
     rbind (complete_cycle b1) (\<lambda>b2.
     rbind (complete_bandwidth b2) (\<lambda>b3.
     rbind (check (\<not> n_allocated_channels b3 > n_channels b3) ''channels allocated exceed the capacity'') (\<lambda>_.
     rbind (sc_times (of_u32 (n_channels b3)) (slot_time b3 + guard_time b3)) (\<lambda>needed.
     rbind (check (\<not> cycle_time b3 < needed) ''The cycle time of the TDMA bus is smaller than the time required by its slots'') (\<lambda>_.
       rmap (\<lambda>_. b3) (check_slot_allocation b3)))))))))"

subsection \<open>Delays\<close>

definition max_offset_delay :: "u32 \<Rightarrow> 'a tdma_bus \<Rightarrow> sc_time result" where
  "max_offset_delay slots b =
     rmap (\<lambda>t. sc_minus (cycle_time b) t) (sc_times (of_u32 (slots - 1)) (slot_time b))"

definition current_offset_delay_L0 :: "sc_time \<Rightarrow> u32 \<Rightarrow> 'a tdma_bus \<Rightarrow> sc_time result" where
  "current_offset_delay_L0 now first b =
     rbind (sc_times (of_u32 first) (slot_time b)) (\<lambda>start.
     rbind (to_u32 (sc_ratio (initial_offset_time b + now) (cycle_time b))) (\<lambda>run_cycles.
     rmap (\<lambda>done.
         let phase = sc_minus (initial_offset_time b + now) done in
         if phase \<le> start then sc_minus start phase
         else sc_minus (cycle_time b) phase + start)
       (sc_times (of_u32 run_cycles) (cycle_time b))))"

definition current_offset_delay_L1 :: "nat \<Rightarrow> nat \<Rightarrow> u32 \<Rightarrow> 'a tdma_bus \<Rightarrow> sc_time result" where
  "current_offset_delay_L1 rnd rand_max slots b =
     rbind (max_offset_delay slots b) (\<lambda>m.
     rbind (sc_times (Fin (of_nat rnd)) m) (\<lambda>t. sc_over t (Fin (of_nat rand_max))))"

text \<open>Quotients rounded up, by the remainder; a zero divisor is undefined.\<close>

definition ceil_u32 :: "u32 \<Rightarrow> u32 \<Rightarrow> u32 result" where
  "ceil_u32 m n =
     (if n = 0 then undef ''division by zero''
      else Inr (if m mod n \<noteq> 0 then m div n + 1 else m div n))"

definition calculate_data_tx_delay_L0 :: "u32 \<Rightarrow> u32 \<Rightarrow> 'a tdma_bus \<Rightarrow> sc_time result" where
  "calculate_data_tx_delay_L0 msg slots b =
     (let exact = ddiv (of_u32 msg) (of_u32 (ch_payload_bits b)) in
      rbind (ceil_u32 msg (ch_payload_bits b)) (\<lambda>required.
      rbind (ceil_u32 required slots) (\<lambda>cycles.
      let last = required - (cycles - 1) * slots in
      rbind (sc_times (dsub exact (of_u32 (required - 1))) (slot_time b)) (\<lambda>tail.
      rbind (sc_times (of_u32 (cycles - 1)) (cycle_time b)) (\<lambda>whole.
      rmap (\<lambda>before. whole + before + tail) (sc_times (of_u32 (last - 1)) (slot_time b)))))))"

definition calculate_data_tx_delay_L1 :: "u32 \<Rightarrow> u32 \<Rightarrow> 'a tdma_bus \<Rightarrow> sc_time result" where
  "calculate_data_tx_delay_L1 msg slots b =
     rbind (ceil_u32 msg (ch_payload_bits b)) (\<lambda>required.
     rbind (ceil_u32 required slots) (\<lambda>cycles.
     let last = required - (cycles - 1) * slots in
     rbind (sc_times (of_u32 (cycles - 1)) (cycle_time b)) (\<lambda>whole.
     rmap (\<lambda>rest. whole + rest) (sc_times (of_u32 last) (slot_time b)))))"

definition calculate_MaxP2Pdelay_L0 :: "u32 \<Rightarrow> u32 \<Rightarrow> 'a tdma_bus \<Rightarrow> sc_time result" where
  "calculate_MaxP2Pdelay_L0 msg slots b =
     rbind (max_offset_delay slots b) (\<lambda>x. rmap (\<lambda>y. x + y) (calculate_data_tx_delay_L0 msg slots b))"

definition calculate_MaxP2Pdelay_L1 :: "u32 \<Rightarrow> u32 \<Rightarrow> 'a tdma_bus \<Rightarrow> sc_time result" where
  "calculate_MaxP2Pdelay_L1 msg slots b =
     rbind (max_offset_delay slots b) (\<lambda>x. rmap (\<lambda>y. x + y) (calculate_data_tx_delay_L1 msg slots b))"

definition calculate_MaxP2Pdelay_L2 :: "u32 \<Rightarrow> u32 \<Rightarrow> 'a tdma_bus \<Rightarrow> sc_time result" where
  "calculate_MaxP2Pdelay_L2 msg slots b =
     rbind (ceil_u32 msg (ch_payload_bits b)) (\<lambda>required.
     rbind (ceil_u32 required slots) (\<lambda>cycles.
       sc_times (of_u32 (cycles + 1)) (cycle_time b)))"

definition calculate_MaxP2Pdelay :: "u32 \<Rightarrow> u32 \<Rightarrow> 'a tdma_bus \<Rightarrow> sc_time result" where
  "calculate_MaxP2Pdelay msg slots b =
     (if accuracy_level b = 0 then calculate_MaxP2Pdelay_L0 msg slots b
      else if accuracy_level b = 1 then calculate_MaxP2Pdelay_L1 msg slots b
      else if accuracy_level b = 2 then calculate_MaxP2Pdelay_L2 msg slots b
      else report ''unknown accuracy level calculating Max. P2P delay.'')"

subsection \<open>Delays of a link\<close>

definition table_at :: "('a::linorder) \<Rightarrow> ('a \<times> u32) list \<Rightarrow> u32 \<times> ('a \<times> u32) list" where
  "table_at a t = (case map_of t a of Some n \<Rightarrow> (n, t) | None \<Rightarrow> (0, table_set a 0 t))"

text \<open>
  The slots of the source of a link: the report for an element without slots reads the names of
  both ends.
\<close>

definition slots_of_link ::
    "('a::linorder) link_t \<Rightarrow> 'a tdma_bus \<Rightarrow> (u32 \<times> 'a tdma_bus) result" where
  "slots_of_link l b =
     (case src l of
        None \<Rightarrow> undef ''null source''
      | Some a \<Rightarrow>
          (let (slots, t) = table_at a (channel_allocation_table b) in
           if slots = 0 then
             (if dest l = None then undef ''null destination''
              else report ''No slot allocated for the physical link'')
           else Inr (slots, b\<lparr>channel_allocation_table := t\<rparr>)))"

definition tdma_set_MaxP2Pdelay ::
    "sim_env \<Rightarrow> ('a::linorder) link_t \<Rightarrow> u32 \<Rightarrow> 'a tdma_bus \<Rightarrow> 'a tdma_bus result" where
  "tdma_set_MaxP2Pdelay e l msg b =
     rbind (slots_of_link l b) (\<lambda>(slots, b1).
     rbind (calculate_MaxP2Pdelay msg slots b1) (\<lambda>d. set_MaxP2Pdelay e l d msg b1))"

definition tdma_set_CurrentP2Pdelay ::
    "sim_env \<Rightarrow> ('a::linorder) link_t \<Rightarrow> u32 \<Rightarrow> 'a tdma_bus \<Rightarrow> 'a tdma_bus result" where
  "tdma_set_CurrentP2Pdelay e l msg b =
     rbind (slots_of_link l b) (\<lambda>(slots, b1).
     rbind (calculate_data_tx_delay_L0 msg slots b1) (\<lambda>d. set_CurrentP2Pdelay e l d msg b1))"

text \<open>The properties of a link for a size, entered by the setter if there are none.\<close>

definition cached_properties ::
    "('a tdma_bus \<Rightarrow> 'a tdma_bus result) \<Rightarrow> ('a::linorder) link_t \<Rightarrow> u32 \<Rightarrow> 'a tdma_bus
       \<Rightarrow> (link_info_t \<times> 'a tdma_bus) result" where
  "cached_properties setter l msg b =
     rbind (get_properties l msg b) (\<lambda>p.
     rbind (if p = None
            then rbind (setter b) (\<lambda>b1. rbind (get_properties l msg b1) (\<lambda>q.
                   rmap (\<lambda>_. (q, b1)) (check (q \<noteq> None) ''Setting properties of link in TDMA bus failed.'')))
            else Inr (p, b)) (\<lambda>(q, b1).
       rmap (\<lambda>i. (i, b1)) (deref_info q b1)))"

definition tdma_get_MaxP2Pdelay ::
    "sim_env \<Rightarrow> ('a::linorder) link_t \<Rightarrow> u32 \<Rightarrow> 'a tdma_bus \<Rightarrow> (sc_time \<times> 'a tdma_bus) result" where
  "tdma_get_MaxP2Pdelay e l msg b =
     rmap (\<lambda>(i, b1). (MaxP2Pdelay i, b1)) (cached_properties (tdma_set_MaxP2Pdelay e l msg) l msg b)"

text \<open>The offset depends on the time; what is added to it is read from the maximum delay.\<close>

definition tdma_get_CurrentP2Pdelay ::
    "nat \<Rightarrow> nat \<Rightarrow> sim_env \<Rightarrow> ('a::linorder) link_t \<Rightarrow> u32 \<Rightarrow> 'a tdma_bus
       \<Rightarrow> (sc_time \<times> 'a tdma_bus) result" where
  "tdma_get_CurrentP2Pdelay rnd rand_max e l msg b =
     rbind (cached_properties (tdma_set_CurrentP2Pdelay e l msg) l msg b) (\<lambda>(i, b1).
     rmap (\<lambda>(offset, b2). (offset + MaxP2Pdelay i, b2\<lparr>current_tx_delay := offset + MaxP2Pdelay i\<rparr>))
       (case src l of
          None \<Rightarrow> undef ''null source''
        | Some a \<Rightarrow>
            (if accuracy_level b1 = 0 then
               (let (first, t) = table_at a (first_slot_allocation_table b1);
                    b2 = b1\<lparr>first_slot_allocation_table := t\<rparr>
                in rmap (\<lambda>d. (d, b2)) (current_offset_delay_L0 (sc_now e) first b2))
             else if accuracy_level b1 = 1 then
               (let (slots, t) = table_at a (channel_allocation_table b1);
                    b2 = b1\<lparr>channel_allocation_table := t\<rparr>
                in rmap (\<lambda>d. (d, b2)) (current_offset_delay_L1 rnd rand_max slots b2))
             else report ''unknown accuracy level calculating Current P2P delay.'')))"

end
