(* ===== verification/TDMA_Props.thy ===== *)
theory TDMA_Props
  imports TDMA_Bus
begin

text \<open>
  Properties of the TDMA bus: its delays against closed forms and against each other, the offset to
  the allocated slot, the delays cached for a link, and the allocation of slots with its check.
\<close>

subsection \<open>Arithmetic of the delays\<close>

lemma unat_ceil_u32:
  assumes "n \<noteq> 0" "ceil_u32 m n = Inr q"
  shows "unat q = ceil_div (unat m) (unat n)"
proof -
  have n: "unat n \<noteq> 0" using assms(1) by (simp add: unat_eq_0)
  show ?thesis
  proof (cases "m mod n = 0")
    case True
    then have "unat m mod unat n = 0" by (metis unat_0 unat_mod)
    moreover have "q = m div n" using True assms by (simp add: ceil_u32_def)
    ultimately show ?thesis by (simp add: ceil_div_def unat_div)
  next
    case False
    then have r: "unat m mod unat n \<noteq> 0" by (metis unat_eq_0 unat_mod)
    then have "unat n \<noteq> 1" by auto
    with n have "unat m div unat n \<le> unat m div 2" by (intro div_le_mono2) simp_all
    with u32_bound [of m] have "Suc (unat m div unat n) < 2 ^ 32" by simp
    then have "unat (m div n + 1) = Suc (unat m div unat n)"
      by (simp add: unat_div unat_word_ariths(1))
    with False r assms show ?thesis by (simp add: ceil_u32_def ceil_div_def)
  qed
qed

lemma ceil_u32_ok: "n \<noteq> 0 \<Longrightarrow> \<exists>q. ceil_u32 m n = Inr q \<and> unat q = ceil_div (unat m) (unat n)"
  using unat_ceil_u32 by (cases "ceil_u32 m n") (auto simp: ceil_u32_def undef_def)

lemma ceil_div_pred: "0 < m \<Longrightarrow> 0 < n \<Longrightarrow> ceil_div m n = Suc ((m - 1) div n)"
proof -
  assume m: "0 < m" and n: "0 < n"
  obtain k where k: "m = Suc k" using m by (cases m) auto
  show ?thesis by (simp add: ceil_div_def k div_Suc mod_Suc)
qed

text \<open>
  The slots a message needs and their cycles, as words: with \<open>k\<close> the number of the slot of the last bit,
  the slots are \<open>k + 1\<close>, the whole cycles before the last are \<open>k div S\<close>, and the slots of the last one
  are \<open>k mod S + 1\<close>.
\<close>

definition last_slot :: "u32 \<Rightarrow> u32 \<Rightarrow> nat" where
  "last_slot msg payload = (unat msg - 1) div unat payload"

lemma slots_and_cycles:
  assumes "msg \<noteq> 0" "payload \<noteq> 0" "slots \<noteq> 0"
  obtains r c where "ceil_u32 msg payload = Inr r" "ceil_u32 r slots = Inr c"
    "unat (r - 1) = last_slot msg payload" "unat (c - 1) = last_slot msg payload div unat slots"
    "unat (r - (c - 1) * slots) = Suc (last_slot msg payload mod unat slots)"
    "unat (r - (c - 1) * slots - 1) = last_slot msg payload mod unat slots"
    "unat c = Suc (last_slot msg payload div unat slots)"
proof -
  let ?k = "last_slot msg payload" and ?S = "unat slots"
  obtain r where r: "ceil_u32 msg payload = Inr r" "unat r = ceil_div (unat msg) (unat payload)"
    using ceil_u32_ok [OF assms(2)] by blast
  obtain c where c: "ceil_u32 r slots = Inr c" "unat c = ceil_div (unat r) ?S"
    using ceil_u32_ok [OF assms(3)] by blast
  have pos: "0 < unat msg" "0 < unat payload" "0 < ?S"
    using assms by (simp_all add: unat_gt_0)
  have R: "unat r = Suc ?k"
    using pos r(2) by (simp add: ceil_div_pred last_slot_def)
  have C: "unat c = Suc (?k div ?S)"
    using pos c(2) R by (simp add: ceil_div_pred)
  have r1: "unat (r - 1) = ?k" using R by (subst unat_sub) (simp_all add: word_le_nat_alt)
  have c1: "unat (c - 1) = ?k div ?S" using C by (subst unat_sub) (simp_all add: word_le_nat_alt)
  have le: "?k div ?S * ?S \<le> ?k" by (rule div_times_less_eq_dividend)
  have "?k < 2 ^ 32" using r1 u32_bound [of "r - 1"] by simp
  then have "?k div ?S * ?S < 2 ^ LENGTH(32)"
    by (intro order.strict_trans1 [OF le]) simp
  then have m: "unat ((c - 1) * slots) = ?k div ?S * ?S"
    by (simp only: unat_word_ariths(2) c1 mod_less)
  have sub: "?k - ?k div ?S * ?S = ?k mod ?S" by (rule minus_div_mult_eq_mod)
  have "(c - 1) * slots \<le> r"
    unfolding word_le_nat_alt m R using le by (rule le_SucI)
  then have l: "unat (r - (c - 1) * slots) = Suc (?k mod ?S)"
    by (simp only: unat_sub m R Suc_diff_le [OF le] sub)
  have "unat (r - (c - 1) * slots - 1) = ?k mod ?S"
    using l by (subst unat_sub) (simp_all add: word_le_nat_alt)
  with r c r1 c1 l C show ?thesis by (intro that)
qed

subsection \<open>Data and maximum delays\<close>

text \<open>
  A bus able to carry a message in the slots of an element: the cycles can be counted in 32 bits and the
  whole delay fits in the 64 bits of a time.
\<close>

definition carries :: "'a tdma_bus \<Rightarrow> u32 \<Rightarrow> u32 \<Rightarrow> bool" where
  "carries b msg slots \<longleftrightarrow> msg \<noteq> 0 \<and> ch_payload_bits b \<noteq> 0 \<and> slots \<noteq> 0
     \<and> unat slots * slot_time b \<le> cycle_time b
     \<and> last_slot msg (ch_payload_bits b) div unat slots + 2 < 2 ^ 32
     \<and> (last_slot msg (ch_payload_bits b) div unat slots + 2) * cycle_time b < 2 ^ 64"

lemma carries_times:
  assumes "carries b msg slots" "n \<le> last_slot msg (ch_payload_bits b) div unat slots + 2" "unat w = n"
  shows "sc_times (of_u32 w) (cycle_time b) = Inr (n * cycle_time b)"
proof -
  have "n * cycle_time b \<le> (last_slot msg (ch_payload_bits b) div unat slots + 2) * cycle_time b"
    using assms(2) by (rule mult_le_mono1)
  with assms(1,3) show ?thesis by (simp add: sc_times_u32 carries_def)
qed

lemma carries_slot_times:
  assumes "carries b msg slots" "n \<le> unat slots" "unat w = n"
  shows "sc_times (of_u32 w) (slot_time b) = Inr (n * slot_time b)" "n * slot_time b \<le> cycle_time b"
proof -
  have "n * slot_time b \<le> unat slots * slot_time b" using assms(2) by (rule mult_le_mono1)
  moreover have "unat slots * slot_time b \<le> cycle_time b" "1 * cycle_time b
      \<le> (last_slot msg (ch_payload_bits b) div unat slots + 2) * cycle_time b"
    using assms(1) by (simp_all add: carries_def)
  ultimately show "n * slot_time b \<le> cycle_time b" by linarith
  then show "sc_times (of_u32 w) (slot_time b) = Inr (n * slot_time b)"
    using assms(1,3) \<open>1 * cycle_time b \<le> _\<close> by (simp add: sc_times_u32 carries_def)
qed

lemma data_delay_L1_closed:
  assumes "carries b msg slots"
  defines "k \<equiv> last_slot msg (ch_payload_bits b)" and "S \<equiv> unat slots"
  shows "calculate_data_tx_delay_L1 msg slots b =
    Inr (k div S * cycle_time b + (k mod S + 1) * slot_time b)"
proof -
  have "msg \<noteq> 0" "ch_payload_bits b \<noteq> 0" "slots \<noteq> 0" using assms(1) by (simp_all add: carries_def)
  then obtain r c where rc: "ceil_u32 msg (ch_payload_bits b) = Inr r" "ceil_u32 r slots = Inr c"
    "unat (c - 1) = k div S" "unat (r - (c - 1) * slots) = Suc (k mod S)"
    unfolding k_def S_def by (rule slots_and_cycles)
  have S: "0 < S" using \<open>slots \<noteq> 0\<close> by (simp add: S_def unat_gt_0)
  have "sc_times (of_u32 (c - 1)) (cycle_time b) = Inr (k div S * cycle_time b)"
    using rc(3) unfolding k_def S_def by (intro carries_times [OF assms(1) le_add1])
  moreover have "Suc (k mod S) \<le> unat slots" using S by (simp add: S_def Suc_leI)
  then have "sc_times (of_u32 (r - (c - 1) * slots)) (slot_time b) = Inr (Suc (k mod S) * slot_time b)"
    using assms(1) rc(4) by (intro carries_slot_times)
  ultimately show ?thesis using rc(1,2) by (simp add: calculate_data_tx_delay_L1_def Let_def)
qed

text \<open>The part of the last slot used, rounded to a tick.\<close>

definition tail_time :: "u32 \<Rightarrow> u32 \<Rightarrow> sc_time \<Rightarrow> nat" where
  "tail_time msg payload slot =
     nat \<lfloor>of_nat ((unat msg - last_slot msg payload * unat payload) * slot) / of_nat (unat payload) + 1 / (2::rat)\<rfloor>"

lemma last_slot_bounds:
  assumes "msg \<noteq> 0" "payload \<noteq> 0"
  shows "last_slot msg payload * unat payload < unat msg"
    "unat msg \<le> last_slot msg payload * unat payload + unat payload"
proof -
  have p: "0 < unat msg" "0 < unat payload" using assms by (simp_all add: unat_gt_0)
  have e: "last_slot msg payload * unat payload + (unat msg - 1) mod unat payload = unat msg - 1"
    by (simp add: last_slot_def)
  moreover have "(unat msg - 1) mod unat payload < unat payload" using p by simp
  ultimately show "last_slot msg payload * unat payload < unat msg"
    "unat msg \<le> last_slot msg payload * unat payload + unat payload"
    using p by linarith+
qed

lemma tail_exact:
  assumes "0 < P" "k * P \<le> M"
  shows "dmul (Fin (of_nat s)) (dsub (ddiv (Fin (of_nat M)) (Fin (of_nat P))) (Fin (of_nat k))) =
    Fin (of_nat ((M - k * P) * s) / of_nat P)"
  using assms by (simp add: of_nat_diff field_simps)

lemma tail_bounds:
  assumes "0 < P" "M \<le> k * P + P"
  shows "0 \<le> (of_nat ((M - k * P) * s) / of_nat P :: rat) \<and> of_nat ((M - k * P) * s) / of_nat P \<le> (of_nat s :: rat)"
proof -
  have "(M - k * P) * s \<le> P * s" using assms(2) by (intro mult_le_mono1) simp
  then have "(of_nat ((M - k * P) * s) :: rat) \<le> of_nat (P * s)" by (simp only: of_nat_le_iff)
  then have "of_nat ((M - k * P) * s) \<le> of_nat s * (of_nat P :: rat)" by (simp add: mult.commute)
  then show ?thesis using assms(1) by (simp add: pos_divide_le_eq del: of_nat_mult)
qed

lemma data_delay_L0_closed:
  assumes "carries b msg slots"
  defines "k \<equiv> last_slot msg (ch_payload_bits b)" and "S \<equiv> unat slots"
    and "t \<equiv> tail_time msg (ch_payload_bits b) (slot_time b)"
  shows "calculate_data_tx_delay_L0 msg slots b =
    Inr (k div S * cycle_time b + k mod S * slot_time b + t)" "t \<le> slot_time b"
proof -
  let ?p = "ch_payload_bits b" and ?P = "unat (ch_payload_bits b)"
  have nz: "msg \<noteq> 0" "?p \<noteq> 0" "slots \<noteq> 0" using assms(1) by (simp_all add: carries_def)
  then obtain r c where rc: "ceil_u32 msg ?p = Inr r" "ceil_u32 r slots = Inr c" "unat (r - 1) = k"
    "unat (c - 1) = k div S" "unat (r - (c - 1) * slots - 1) = k mod S"
    unfolding k_def S_def by (rule slots_and_cycles)
  have S: "0 < S" "0 < ?P" using nz by (simp_all add: S_def unat_gt_0)
  note lb = last_slot_bounds [OF nz(1,2), folded k_def]
  let ?x = "of_nat ((unat msg - k * ?P) * slot_time b) / of_nat ?P :: rat"
  have d: "dmul (Fin (of_nat (slot_time b))) (dsub (ddiv (of_u32 msg) (of_u32 ?p)) (of_u32 (r - 1))) = Fin ?x"
    unfolding of_u32_def rc(3) using S(2) lb(1) by (intro tail_exact) simp_all
  have x: "0 \<le> ?x" "?x \<le> of_nat (slot_time b)"
    using tail_bounds [OF S(2) lb(2)] by blast+
  have "1 * slot_time b \<le> cycle_time b"
    using carries_slot_times(2) [OF assms(1), of 1 1] S(1) by (simp add: S_def Suc_leI)
  moreover have "1 * cycle_time b \<le> (k div S + 2) * cycle_time b" by (rule mult_le_mono1) simp
  ultimately have "slot_time b < 2 ^ 64" using assms(1) by (simp add: carries_def k_def S_def)
  from to_ticks_ok [OF x this] obtain u where u: "to_ticks (Fin ?x) = Inr u" "u \<le> slot_time b" by blast
  then have "u = t" by (simp add: to_ticks_def t_def tail_time_def k_def split: if_splits)
  with u show "t \<le> slot_time b" by simp
  have "sc_times (of_u32 (c - 1)) (cycle_time b) = Inr (k div S * cycle_time b)"
    using rc(4) unfolding k_def S_def by (intro carries_times [OF assms(1) le_add1])
  moreover have "k mod S \<le> unat slots" using S by (simp add: S_def less_imp_le)
  then have "sc_times (of_u32 (r - (c - 1) * slots - 1)) (slot_time b) = Inr (k mod S * slot_time b)"
    using assms(1) rc(5) by (intro carries_slot_times)
  moreover have "sc_times (dsub (ddiv (of_u32 msg) (of_u32 ?p)) (of_u32 (r - 1))) (slot_time b) = Inr t"
    using u \<open>u = t\<close> by (simp only: sc_times_def d)
  ultimately show "calculate_data_tx_delay_L0 msg slots b =
      Inr (k div S * cycle_time b + k mod S * slot_time b + t)"
    using rc(1,2) by (simp add: calculate_data_tx_delay_L0_def Let_def)
qed

text \<open>
  The data delay of the bus is exact. With \<open>k\<close> the number, from the start of the transmission, of the
  slot that carries the last bit, the slot accurate delay is the whole cycles before it plus the
  time to the end of that slot in its cycle; the bit accurate delay ends within that slot, at the
  share of it that the message fills, rounded to a tick.
\<close>
theorem data_delay_exact:
  assumes "carries b msg slots"
  defines "k \<equiv> last_slot msg (ch_payload_bits b)"
  shows "calculate_data_tx_delay_L1 msg slots b =
      Inr (k div unat slots * cycle_time b + (k mod unat slots + 1) * slot_time b)
    \<and> calculate_data_tx_delay_L0 msg slots b =
      Inr (k div unat slots * cycle_time b + k mod unat slots * slot_time b
           + tail_time msg (ch_payload_bits b) (slot_time b))
    \<and> tail_time msg (ch_payload_bits b) (slot_time b) \<le> slot_time b"
  using data_delay_L1_closed [OF assms(1)] data_delay_L0_closed [OF assms(1)] unfolding k_def by blast

definition example_bus :: "nat tdma_bus" where
  "example_bus =
     (init_params \<lparr>comm_res_name = ''tdma'', BW_limit = Fin (- 1), connections_limit = 0,
        time_invariant = False, dimension_time_invariant = True, connections_time_invariant = False,
        connections_message_size_invariant = True, connected_elements = [],
        links_table = [(1, 2) \<mapsto> None], info_at = (\<lambda>_. new_link_info), next_info = 0\<rparr>)
       \<lparr>n_channels := 8, slot_time := 100, cycle_time := 1000, ch_payload_bits := 32,
        free_slot_table := [(0, 7)]\<rparr>"

lemma example_bus_simps [simp]:
  "n_channels example_bus = 8" "slot_time example_bus = 100" "cycle_time example_bus = 1000"
  "ch_payload_bits example_bus = 32" "free_slot_table example_bus = [(0, 7)]"
  "n_allocated_channels example_bus = 0" "accuracy_level example_bus = 0"
  "channel_allocation_table example_bus = []" "first_slot_allocation_table example_bus = []"
  "initial_offset_time example_bus = 0" "links_table example_bus = [(1, 2) \<mapsto> None]"
  "connections_time_invariant example_bus = False"
  "connections_message_size_invariant example_bus = False"
  "info_at example_bus = (\<lambda>_. new_link_info)" "next_info example_bus = 0"
  by (simp_all add: example_bus_def init_params_def set_connections_message_size_invariant_def
      comm_res.defs tdma_bus.defs)

lemma example_carries: "carries example_bus 100 2"
  by (simp add: carries_def last_slot_def)

theorem data_delay_exact_witness:
  "calculate_data_tx_delay_L1 100 2 example_bus = Inr 1200
   \<and> calculate_data_tx_delay_L0 100 2 example_bus = Inr 1113"
  using data_delay_exact [OF example_carries]
  by (simp add: last_slot_def tail_time_def)

text \<open>
  The bounds of the maximum delay are ordered by their accuracy. For a message and slots that the bus
  can carry, the bit accurate bound is at most the slot accurate one, which exceeds it by at most a
  slot, and which is at most the one accurate to the cycle; none of them fails.
\<close>
theorem max_delay_bounds_ordered:
  assumes "carries b msg slots"
  shows "\<exists>d0 d1 d2. calculate_MaxP2Pdelay_L0 msg slots b = Inr d0
    \<and> calculate_MaxP2Pdelay_L1 msg slots b = Inr d1 \<and> calculate_MaxP2Pdelay_L2 msg slots b = Inr d2
    \<and> d0 \<le> d1 \<and> d1 \<le> d0 + slot_time b \<and> d1 \<le> d2"
proof -
  let ?k = "last_slot msg (ch_payload_bits b)" and ?S = "unat slots"
  let ?t = "tail_time msg (ch_payload_bits b) (slot_time b)"
  have nz: "msg \<noteq> 0" "ch_payload_bits b \<noteq> 0" "slots \<noteq> 0" using assms by (simp_all add: carries_def)
  have S: "0 < ?S" using nz by (simp add: unat_gt_0)
  have s1: "unat (slots - 1) = ?S - 1" using S by (subst unat_sub) (simp_all add: word_le_nat_alt)
  have off: "max_offset_delay slots b = Inr (cycle_time b - (?S - 1) * slot_time b)"
    "(?S - 1) * slot_time b \<le> cycle_time b"
    using carries_slot_times [OF assms _ s1] by (simp_all add: max_offset_delay_def)
  note L1 = data_delay_L1_closed [OF assms] and L0 = data_delay_L0_closed [OF assms]
  obtain r c where rc: "ceil_u32 msg (ch_payload_bits b) = Inr r" "ceil_u32 r slots = Inr c"
    "unat c = Suc (?k div ?S)" "unat (c - 1) = ?k div ?S"
    using nz by (rule slots_and_cycles)
  have "?k div ?S + 2 < 2 ^ 32" using assms by (simp only: carries_def)
  then have c2: "unat (c + 1) = ?k div ?S + 2"
    by (simp add: unat_word_ariths(1) rc(3))
  have L2: "calculate_MaxP2Pdelay_L2 msg slots b = Inr ((?k div ?S + 2) * cycle_time b)"
    using rc(1,2) carries_times [OF assms order_refl c2] by (simp add: calculate_MaxP2Pdelay_L2_def)
  have "1 * slot_time b \<le> cycle_time b"
    using carries_slot_times(2) [OF assms, of 1 1] S by (simp add: Suc_leI)
  moreover have "?k mod ?S < ?S" using S by simp
  then have "?k mod ?S * slot_time b \<le> (?S - 1) * slot_time b" by (intro mult_le_mono1) simp
  moreover have e: "(?k div ?S + 2) * cycle_time b = ?k div ?S * cycle_time b + 2 * cycle_time b"
    "(?k mod ?S + 1) * slot_time b = ?k mod ?S * slot_time b + slot_time b"
    by (simp_all add: add_mult_distrib)
  ultimately have "cycle_time b - (?S - 1) * slot_time b + (?k div ?S * cycle_time b + (?k mod ?S + 1) * slot_time b)
      \<le> (?k div ?S + 2) * cycle_time b"
    using off(2) by linarith
  moreover have "calculate_MaxP2Pdelay_L1 msg slots b = Inr (cycle_time b - (?S - 1) * slot_time b
      + (?k div ?S * cycle_time b + (?k mod ?S + 1) * slot_time b))"
    by (simp add: calculate_MaxP2Pdelay_L1_def off(1) L1)
  moreover have "calculate_MaxP2Pdelay_L0 msg slots b = Inr (cycle_time b - (?S - 1) * slot_time b
      + (?k div ?S * cycle_time b + ?k mod ?S * slot_time b + ?t))"
    by (simp add: calculate_MaxP2Pdelay_L0_def off(1) L0(1))
  moreover have "?k div ?S * cycle_time b + ?k mod ?S * slot_time b + ?t
      \<le> ?k div ?S * cycle_time b + (?k mod ?S + 1) * slot_time b"
    using L0(2) e(2) by linarith
  ultimately show ?thesis using L2 e(2) by fastforce
qed

theorem max_delay_bounds_ordered_witness:
  "\<exists>d0 d1 d2. calculate_MaxP2Pdelay_L0 100 2 example_bus = Inr d0
    \<and> calculate_MaxP2Pdelay_L1 100 2 example_bus = Inr d1 \<and> calculate_MaxP2Pdelay_L2 100 2 example_bus = Inr d2
    \<and> d0 \<le> d1 \<and> d1 \<le> d0 + 100 \<and> d1 \<le> d2"
  using max_delay_bounds_ordered [OF example_carries] by simp

subsection \<open>The offset to the allocated slot\<close>

lemma to_u32_ratio:
  assumes "0 < c" "t div c < 2 ^ 32"
  shows "\<exists>w. to_u32 (sc_ratio t c) = Inr w \<and> unat w = t div c"
proof -
  have f: "\<lfloor>(of_nat t / of_nat c :: rat)\<rfloor> = int (t div c)" by (rule floor_divide_of_nat_eq)
  have "(of_nat t / of_nat c :: rat) < of_int (int (t div c) + 1)"
    using f floor_less_iff [of "of_nat t / of_nat c :: rat" "int (t div c) + 1"] by linarith
  moreover have "(of_int (int (t div c) + 1) :: rat) \<le> of_int (2 ^ 32)"
    using assms(2) by (subst of_int_le_iff) simp
  ultimately have "(of_nat t / of_nat c :: rat) < 2 ^ 32" by simp
  moreover have "(- 1 :: rat) < of_nat t / of_nat c"
    by (rule order.strict_trans2 [of _ 0]) simp_all
  ultimately have "to_u32 (sc_ratio t c) = Inr (of_nat (t div c))"
    using assms(1) f by (simp add: to_u32_def)
  moreover have "unat (of_nat (t div c) :: u32) = t div c"
    using assms(2) by (simp add: unat_of_nat take_bit_eq_mod)
  ultimately show ?thesis by blast
qed

text \<open>The times at which the bus can compute its phase.\<close>

definition phase_known :: "'a tdma_bus \<Rightarrow> u32 \<Rightarrow> sc_time \<Rightarrow> bool" where
  "phase_known b first now \<longleftrightarrow> unat first * slot_time b < cycle_time b \<and> cycle_time b < 2 ^ 64
     \<and> (initial_offset_time b + now) div cycle_time b < 2 ^ 32 \<and> initial_offset_time b + now < 2 ^ 64"

lemma current_offset_L0:
  assumes "phase_known b first now"
  defines "p \<equiv> (initial_offset_time b + now) mod cycle_time b" and "s \<equiv> unat first * slot_time b"
  shows "current_offset_delay_L0 now first b = Inr (if p \<le> s then s - p else cycle_time b - p + s)"
proof -
  let ?t = "initial_offset_time b + now" and ?c = "cycle_time b"
  have a: "s < ?c" "?c < 2 ^ 64" "?t div ?c < 2 ^ 32" "?t < 2 ^ 64"
    using assms(1) unfolding phase_known_def s_def by blast+
  obtain w where w: "to_u32 (sc_ratio ?t ?c) = Inr w" "unat w = ?t div ?c"
    using to_u32_ratio [of ?c ?t] a(1,3) by auto
  have le: "?t div ?c * ?c \<le> ?t" by (rule div_times_less_eq_dividend)
  have "sc_times (of_u32 w) ?c = Inr (?t div ?c * ?c)"
    using le a(4) w(2) by (simp only: sc_times_u32 order.strict_trans1)
  moreover have "sc_minus ?t (?t div ?c * ?c) = p"
    unfolding p_def by (simp only: sc_minus_le [OF le] minus_div_mult_eq_mod)
  moreover have "sc_times (of_u32 first) (slot_time b) = Inr s"
    unfolding s_def using a(1,2) by (intro sc_times_u32) (simp add: s_def)
  moreover have "p \<le> ?c" unfolding p_def using a(1) by (intro less_imp_le mod_less_divisor) simp
  ultimately show ?thesis using w(1)
    by (simp add: current_offset_delay_L0_def Let_def)
qed

text \<open>
  The current offset leads exactly to the allocated slot. At any time the bit accurate offset is
  shorter than a cycle, and the time after it is the start of the first slot in its cycle.
\<close>
theorem current_offset_exact:
  assumes "phase_known b first now"
  shows "\<exists>d. current_offset_delay_L0 now first b = Inr d \<and> d < cycle_time b
    \<and> (initial_offset_time b + now + d) mod cycle_time b = unat first * slot_time b"
proof -
  let ?t = "initial_offset_time b + now" and ?c = "cycle_time b"
  let ?s = "unat first * slot_time b" and ?p = "(initial_offset_time b + now) mod cycle_time b"
  have s: "?s < ?c" using assms by (simp add: phase_known_def)
  then have p: "?p < ?c" by (intro mod_less_divisor) simp
  show ?thesis
  proof (cases "?p \<le> ?s")
    case True
    have "(?t + (?s - ?p)) mod ?c = (?p + (?s - ?p)) mod ?c" by (simp only: mod_add_left_eq)
    also have "\<dots> = ?s" using True s by simp
    finally show ?thesis using True s current_offset_L0 [OF assms] by auto
  next
    case False
    have "(?t + (?c - ?p + ?s)) mod ?c = (?p + (?c - ?p + ?s)) mod ?c" by (simp only: mod_add_left_eq)
    also have "?p + (?c - ?p + ?s) = ?s + ?c" using p by simp
    finally have "(?t + (?c - ?p + ?s)) mod ?c = ?s" using s by simp
    with False p show ?thesis using current_offset_L0 [OF assms] by auto
  qed
qed

lemma example_phase: "phase_known example_bus 3 12345"
  by (simp add: phase_known_def)

theorem current_offset_exact_witness:
  "\<exists>d. current_offset_delay_L0 12345 3 example_bus = Inr d \<and> d < 1000 \<and> (12345 + d) mod 1000 = 300"
  using current_offset_exact [OF example_phase] by simp

lemma max_offset_closed:
  assumes "slots \<noteq> 0" "unat slots * slot_time b \<le> cycle_time b" "cycle_time b < 2 ^ 64"
  shows "max_offset_delay slots b = Inr (cycle_time b - (unat slots - 1) * slot_time b)"
    "(unat slots - 1) * slot_time b \<le> cycle_time b"
proof -
  have "0 < unat slots" using assms(1) by (simp add: unat_gt_0)
  then have s1: "unat (slots - 1) = unat slots - 1" by (subst unat_sub) (simp_all add: word_le_nat_alt)
  have "(unat slots - 1) * slot_time b \<le> unat slots * slot_time b" by (intro mult_le_mono1) simp
  with assms(2) show le: "(unat slots - 1) * slot_time b \<le> cycle_time b" by linarith
  then have "unat (slots - 1) * slot_time b < 2 ^ 64" using assms(3) s1 by simp
  from sc_times_u32 [OF this] show "max_offset_delay slots b = Inr (cycle_time b - (unat slots - 1) * slot_time b)"
    using le by (simp add: max_offset_delay_def s1)
qed

text \<open>
  The maximum offset bounds the current one for a single slot only. For the slots of an element, the
  offsets at all times of a cycle are within the maximum offset exactly when the slots after the
  first last at most one tick together; for two slots of two ticks or more some time exceeds it.
\<close>
theorem max_offset_bounds_single_slot:
  assumes "\<And>now. now < cycle_time b \<Longrightarrow> phase_known b first now" "initial_offset_time b = 0"
    and "slots \<noteq> 0" "unat slots * slot_time b \<le> cycle_time b" "cycle_time b < 2 ^ 64" "0 < cycle_time b"
  shows "(\<forall>now < cycle_time b. \<exists>d m. current_offset_delay_L0 now first b = Inr d
             \<and> max_offset_delay slots b = Inr m \<and> d \<le> m)
       \<longleftrightarrow> (unat slots - 1) * slot_time b \<le> 1"
proof -
  let ?c = "cycle_time b" and ?s = "unat first * slot_time b" and ?r = "(unat slots - 1) * slot_time b"
  have s: "?s < ?c" using assms(1) [OF assms(6)] by (simp add: phase_known_def)
  have off: "current_offset_delay_L0 now first b = Inr (if now \<le> ?s then ?s - now else ?c - now + ?s)"
    if "now < ?c" for now
    using current_offset_L0 [OF assms(1) [OF that]] that assms(2) by simp
  note m = max_offset_closed [OF assms(3-5)]
  show ?thesis
  proof
    assume all: "\<forall>now < ?c. \<exists>d m. current_offset_delay_L0 now first b = Inr d
             \<and> max_offset_delay slots b = Inr m \<and> d \<le> m"
    define now where "now = (if ?s + 1 < ?c then ?s + 1 else 0)"
    have "now < ?c" using assms(6) by (simp add: now_def)
    moreover have "(if now \<le> ?s then ?s - now else ?c - now + ?s) = ?c - 1"
      using s by (auto simp: now_def)
    ultimately have "?c - 1 \<le> ?c - ?r" using all m(1) off by force
    with m(2) assms(6) show "?r \<le> 1" by linarith
  next
    assume "?r \<le> 1"
    then show "\<forall>now < ?c. \<exists>d m. current_offset_delay_L0 now first b = Inr d
             \<and> max_offset_delay slots b = Inr m \<and> d \<le> m"
      using off m(1) s by auto
  qed
qed

theorem max_offset_bounds_single_slot_witness:
  "\<exists>now < 1000. \<forall>d m. current_offset_delay_L0 now 3 example_bus = Inr d
     \<and> max_offset_delay 2 example_bus = Inr m \<longrightarrow> m < d"
proof -
  have "phase_known example_bus 3 now" if "now < 1000" for now
    using that by (simp add: phase_known_def div_eq_0_iff)
  with max_offset_bounds_single_slot [of example_bus 3 2] show ?thesis
    by (fastforce simp: not_le)
qed

text \<open>The random offset of the faster model stays within the maximum offset.\<close>

lemma random_offset_bounded:
  assumes "current_offset_delay_L1 rnd rand_max slots b = Inr d" "max_offset_delay slots b = Inr m"
    "rnd \<le> rand_max" "0 < rand_max"
  shows "d \<le> m"
proof -
  have t: "sc_times (Fin (of_nat rnd)) m = Inr t \<Longrightarrow> t \<le> m * rnd" for t
    using to_ticks_le [of "of_nat m * of_nat rnd" t "m * rnd"] by (simp add: sc_times_def)
  obtain t where t': "sc_times (Fin (of_nat rnd)) m = Inr t" "sc_over t (Fin (of_nat rand_max)) = Inr d"
    using assms(1,2) by (auto simp: current_offset_delay_L1_def rbind_eq_Inr)
  have "t \<le> m * rand_max"
    using t [OF t'(1)] mult_le_mono2 [OF assms(3), of m] by linarith
  then have "(of_nat t :: rat) \<le> of_nat (m * rand_max)" by (simp only: of_nat_le_iff)
  then have "(of_nat t / of_nat rand_max :: rat) \<le> of_nat m"
    using assms(4) by (simp add: pos_divide_le_eq)
  with t'(2) assms(4) show ?thesis by (simp add: sc_over_def to_ticks_le)
qed

end
