(* ===== verification/TDMA_Slots.thy ===== *)
theory TDMA_Slots
  imports TDMA_Props
begin

text \<open>
  The allocation of the slots of the TDMA bus: what the check of the allocation decides, the automatic
  allocation, the manual one, and the delays kept for a link.
\<close>

subsection \<open>The check of the allocation\<close>

definition compatible :: "('a \<times> u32) list \<Rightarrow> 'a \<times> u32 \<Rightarrow> 'a \<times> u32 \<Rightarrow> bool" where
  "compatible channels x y \<longleftrightarrow>
     (\<exists>n1 n2. map_of channels (fst x) = Some n1 \<and> map_of channels (fst y) = Some n2
        \<and> \<not> slots_overlap (snd x) n1 (snd y) n2)"

lemma slots_overlap_sym: "slots_overlap f1 n1 f2 n2 = slots_overlap f2 n2 f1 n1"
  by (auto simp: slots_overlap_def)

lemma compatible_sym: "compatible c x y = compatible c y x"
  by (auto simp: compatible_def slots_overlap_sym)

lemma check_slot_row_iff:
  "check_slot_row c x r = Inr () \<longleftrightarrow> (\<forall>y \<in> set r. compatible c x y)"
  by (induction c x r rule: check_slot_row.induct) (auto simp: compatible_def split: option.splits)

lemma check_slot_rows_iff: "check_slot_rows c xs = Inr () \<longleftrightarrow> sorted_wrt (compatible c) xs"
  by (induction xs) (auto simp: rbind_eq_Inr check_slot_row_iff)

lemma sorted_wrt_symmetric:
  assumes "\<And>x y. R x y = R y x" "distinct xs"
  shows "sorted_wrt R xs \<longleftrightarrow> (\<forall>x \<in> set xs. \<forall>y \<in> set xs. x \<noteq> y \<longrightarrow> R x y)"
  using assms(2) by (induction xs) (auto simp: assms(1))

lemma check_slot_allocation_iff:
  assumes "distinct (first_slot_allocation_table b)"
  shows "check_slot_allocation b = Inr True \<longleftrightarrow>
    length (first_slot_allocation_table b) = length (channel_allocation_table b)
    \<and> first_slot_allocation_table b \<noteq> []
    \<and> (length (first_slot_allocation_table b) = 1 \<or>
       (\<forall>x \<in> set (first_slot_allocation_table b). \<forall>y \<in> set (first_slot_allocation_table b).
          x \<noteq> y \<longrightarrow> compatible (channel_allocation_table b) x y))"
  using assms
  by (auto simp: check_slot_allocation_def Let_def rbind_eq_Inr rmap_eq_Inr check_slot_rows_iff
      sorted_wrt_symmetric compatible_sym)

text \<open>The slots of an element, as positions.\<close>

definition slots_of :: "'a tdma_bus \<Rightarrow> 'a \<Rightarrow> nat set" where
  "slots_of b a =
     (case (map_of (first_slot_allocation_table b) a, map_of (channel_allocation_table b) a) of
        (Some f, Some n) \<Rightarrow> {unat f ..< unat f + unat n} | _ \<Rightarrow> {})"

text \<open>An allocation table: every element has its first slot and a positive number of slots.\<close>

definition allocation :: "'a tdma_bus \<Rightarrow> bool" where
  "allocation b \<longleftrightarrow> map fst (first_slot_allocation_table b) = map fst (channel_allocation_table b)
     \<and> distinct (map fst (channel_allocation_table b))
     \<and> (\<forall>a f n. map_of (first_slot_allocation_table b) a = Some f
           \<longrightarrow> map_of (channel_allocation_table b) a = Some n \<longrightarrow> 0 < n \<and> unat f + unat n \<le> 2 ^ 32)"

lemma last_slot_word:
  fixes f n :: u32
  assumes "0 < n" "unat f + unat n \<le> 2 ^ 32"
  shows "unat (f + n - 1) = unat f + unat n - 1"
proof -
  have n: "0 < unat n" using assms(1) by (simp add: word_less_nat_alt)
  then have "unat (n - 1) = unat n - 1" by (subst unat_sub) (simp_all add: word_le_nat_alt)
  moreover from this have "unat (f + (n - 1)) = unat f + (unat n - 1)"
    using assms(2) n by (subst unat_word_ariths(1)) simp
  ultimately show ?thesis using n by (simp add: add_diff_eq)
qed

lemma overlap_disjoint:
  fixes f1 n1 f2 n2 :: u32
  assumes "0 < n1" "unat f1 + unat n1 \<le> 2 ^ 32" "0 < n2" "unat f2 + unat n2 \<le> 2 ^ 32"
  shows "\<not> slots_overlap f1 n1 f2 n2 \<longleftrightarrow>
    f1 = f2 \<or> {unat f1 ..< unat f1 + unat n1} \<inter> {unat f2 ..< unat f2 + unat n2} = {}"
proof -
  have n: "0 < unat n1" "0 < unat n2" using assms(1,3) by (simp_all add: word_less_nat_alt)
  have "slots_overlap f1 n1 f2 n2 \<longleftrightarrow> unat f1 < unat f2 \<and> unat f2 \<le> unat f1 + unat n1 - 1
      \<or> unat f2 < unat f1 \<and> unat f1 \<le> unat f2 + unat n2 - 1"
    by (simp only: slots_overlap_def word_less_nat_alt word_le_nat_alt last_slot_word [OF assms(1,2)]
        last_slot_word [OF assms(3,4)])
  moreover have "f1 = f2 \<longleftrightarrow> unat f1 = unat f2" by (simp add: word_unat_eq_iff)
  ultimately show ?thesis using n by (auto simp: disjoint_iff)
qed

lemma slot_check_iff:
  assumes "allocation b" "channel_allocation_table b \<noteq> []"
  shows "check_slot_allocation b = Inr True \<longleftrightarrow>
    (\<nexists>a1 a2. map_of (first_slot_allocation_table b) a1 \<noteq> map_of (first_slot_allocation_table b) a2
       \<and> slots_of b a1 \<inter> slots_of b a2 \<noteq> {})"
proof -
  let ?F = "first_slot_allocation_table b" and ?C = "channel_allocation_table b"
  have keys: "map fst ?F = map fst ?C" and dc: "distinct (map fst ?C)"
    using assms(1) by (simp_all add: allocation_def)
  then have df: "distinct (map fst ?F)" by simp
  then have d: "distinct ?F" by (simp add: distinct_map)
  have len: "length ?F = length ?C" using keys map_eq_imp_length_eq by blast
  have mem: "(a, f) \<in> set ?F \<longleftrightarrow> map_of ?F a = Some f" for a f
    using df by simp
  have dom: "map_of ?F a = Some f \<Longrightarrow> \<exists>n. map_of ?C a = Some n" for a f
    using keys by (metis map_of_eq_None_iff not_None_eq option.distinct(1) set_map)
  have comp: "compatible ?C (a1, f1) (a2, f2) \<longleftrightarrow> f1 = f2 \<or> slots_of b a1 \<inter> slots_of b a2 = {}"
    if f: "map_of ?F a1 = Some f1" "map_of ?F a2 = Some f2" for a1 f1 a2 f2
  proof -
    obtain n1 n2 where n: "map_of ?C a1 = Some n1" "map_of ?C a2 = Some n2" using dom f by blast
    then have "0 < n1" "unat f1 + unat n1 \<le> 2 ^ 32" "0 < n2" "unat f2 + unat n2 \<le> 2 ^ 32"
      using assms(1) f unfolding allocation_def by blast+
    from overlap_disjoint [OF this] show ?thesis using f n by (simp add: compatible_def slots_of_def)
  qed
  have all: "(\<forall>x \<in> set ?F. \<forall>y \<in> set ?F. x \<noteq> y \<longrightarrow> compatible ?C x y) \<longleftrightarrow>
      (\<nexists>a1 a2. map_of ?F a1 \<noteq> map_of ?F a2 \<and> slots_of b a1 \<inter> slots_of b a2 \<noteq> {})" (is "?A \<longleftrightarrow> ?B")
  proof
    assume A: ?A
    show ?B
    proof (rule notI, elim exE conjE)
      fix a1 a2
      assume ne: "map_of ?F a1 \<noteq> map_of ?F a2" and "slots_of b a1 \<inter> slots_of b a2 \<noteq> {}"
      then obtain f1 f2 where f: "map_of ?F a1 = Some f1" "map_of ?F a2 = Some f2"
        by (auto simp: slots_of_def split: option.splits)
      then have "(a1, f1) \<in> set ?F" "(a2, f2) \<in> set ?F" "(a1, f1) \<noteq> (a2, f2)"
        using ne by (auto simp: mem)
      with A have "compatible ?C (a1, f1) (a2, f2)" by blast
      with comp [OF f] ne f \<open>slots_of b a1 \<inter> slots_of b a2 \<noteq> {}\<close> show False by simp
    qed
  next
    assume B: ?B
    show ?A
    proof (intro ballI impI)
      fix x y assume "x \<in> set ?F" "y \<in> set ?F" "x \<noteq> y"
      then obtain a1 f1 a2 f2 where xy: "x = (a1, f1)" "y = (a2, f2)" "map_of ?F a1 = Some f1"
        "map_of ?F a2 = Some f2" by (metis mem prod.exhaust)
      with B comp show "compatible ?C x y" by (metis option.inject)
    qed
  qed
  show ?thesis
  proof (cases "length ?F = 1")
    case True
    then obtain x where x: "?F = [x]" by (cases ?F) auto
    have "\<forall>x \<in> set ?F. \<forall>y \<in> set ?F. x \<noteq> y \<longrightarrow> compatible ?C x y" by (simp add: x)
    moreover have "?F \<noteq> []" by (simp add: x)
    ultimately show ?thesis unfolding check_slot_allocation_iff [OF d] using all len True by blast
  next
    case False
    moreover have "?F \<noteq> []" using len assms(2) by auto
    ultimately show ?thesis unfolding check_slot_allocation_iff [OF d] using all len by blast
  qed
qed

text \<open>
  What the check of the allocation decides. For tables with an entry of each kind for every element,
  it accepts exactly when the slots of any two elements with different first slots are disjoint:
  two elements with the same first slot are accepted although they share it.
\<close>
theorem slot_check_exact:
  assumes "allocation b" "channel_allocation_table b \<noteq> []"
  shows "check_slot_allocation b = Inr True \<longleftrightarrow>
    (\<nexists>a1 a2. map_of (first_slot_allocation_table b) a1 \<noteq> map_of (first_slot_allocation_table b) a2
       \<and> slots_of b a1 \<inter> slots_of b a2 \<noteq> {})"
  using assms by (rule slot_check_iff)

definition shared_slot_bus :: "nat tdma_bus" where
  "shared_slot_bus = example_bus
     \<lparr>first_slot_allocation_table := [(1, 2), (2, 2)], channel_allocation_table := [(1, 3), (2, 1)]\<rparr>"

theorem slot_check_exact_witness:
  "check_slot_allocation shared_slot_bus = Inr True \<and> slots_of shared_slot_bus 1 \<inter> slots_of shared_slot_bus 2 = {2}"
proof -
  have "allocation shared_slot_bus" "channel_allocation_table shared_slot_bus \<noteq> []"
    by (auto simp: allocation_def shared_slot_bus_def split: if_splits)
  from slot_check_exact [OF this] show ?thesis
    by (auto simp: shared_slot_bus_def slots_of_def split: if_splits option.splits)
qed

subsection \<open>Automatic allocation\<close>

text \<open>
  The state that automatic allocations keep: the free slots are one range, after the allocated ones,
  and the elements have disjoint ranges among these.
\<close>

definition auto_inv :: "('a::linorder) tdma_bus \<Rightarrow> bool" where
  "auto_inv b \<longleftrightarrow> n_channels b \<noteq> 0 \<and> n_allocated_channels b \<le> n_channels b
     \<and> free_slot_table b = (if n_allocated_channels b = n_channels b then []
                            else [(n_allocated_channels b, n_channels b - 1)])
     \<and> map fst (first_slot_allocation_table b) = map fst (channel_allocation_table b)
     \<and> sorted_wrt (<) (map fst (channel_allocation_table b))
     \<and> (\<forall>a n. map_of (channel_allocation_table b) a = Some n \<longrightarrow>
          0 < n \<and> (\<exists>f. map_of (first_slot_allocation_table b) a = Some f
             \<and> unat f + unat n \<le> unat (n_allocated_channels b)))
     \<and> (\<forall>a1 a2. a1 \<noteq> a2 \<longrightarrow> slots_of b a1 \<inter> slots_of b a2 = {})"

lemma map_fst_table_set:
  "map fst (table_set k v t) = map fst (table_set k () (map (\<lambda>x. (fst x, ())) t))"
  by (induction k v t rule: table_set.induct) auto

lemma map_fst_table_set_cong:
  "map fst t = map fst u \<Longrightarrow> map fst (table_set k v t) = map fst (table_set k w u)"
proof -
  assume e: "map fst t = map fst u"
  then have "map (\<lambda>k. (k, ())) (map fst t) = map (\<lambda>k. (k, ())) (map fst u)" by simp
  then have "map (\<lambda>x. (fst x, ())) t = map (\<lambda>x. (fst x, ())) u" by (simp add: comp_def)
  then show ?thesis unfolding map_fst_table_set [of k v t] map_fst_table_set [of k w u] by simp
qed

lemma range_size_rest: "range_size (k, n - 1) = n - k"
  by (simp add: range_size_def)

lemma assign_free_slots_rest:
  assumes "n_allocated_channels b < n_channels b" "0 < m" "m \<le> n_channels b - n_allocated_channels b"
    and "free_slot_table b = [(n_allocated_channels b, n_channels b - 1)]"
  shows "assign_free_slots m b = Inr (n_allocated_channels b,
    b\<lparr>free_slot_table := (if n_allocated_channels b + m = n_channels b then []
                           else [(n_allocated_channels b + m, n_channels b - 1)])\<rparr>)"
proof -
  have "m < n_channels b - n_allocated_channels b \<longleftrightarrow> n_allocated_channels b + m \<noteq> n_channels b"
    using assms(3) by (auto simp: order_less_le eq_diff_eq add.commute)
  then show ?thesis using assms(3,4)
    by (auto simp: assign_free_slots_def range_size_rest)
qed

lemma allocate_channels_auto:
  assumes inv: "auto_inv b" and m: "0 < m" "unat (n_allocated_channels b) + unat m \<le> unat (n_channels b)"
    and new: "map_of (channel_allocation_table b) a = None"
  obtains b' where "allocate_channels a m b = Inr b'" "auto_inv b'"
    "n_allocated_channels b' = n_allocated_channels b + m" "n_channels b' = n_channels b"
    "map_of (channel_allocation_table b') = (map_of (channel_allocation_table b))(a \<mapsto> m)"
    "map_of (first_slot_allocation_table b') =
       (map_of (first_slot_allocation_table b))(a \<mapsto> n_allocated_channels b)"
proof -
  let ?k = "n_allocated_channels b" and ?n = "n_channels b"
  have um: "0 < unat m" using m(1) by (simp add: word_less_nat_alt)
  then have less: "?k < ?n" using m(2) by (simp add: word_less_nat_alt)
  have "unat (?n - ?k) = unat ?n - unat ?k" using less by (simp add: unat_sub)
  then have mk: "m \<le> ?n - ?k" using m(2) by (simp add: word_le_nat_alt)
  have uk: "unat (?k + m) = unat ?k + unat m"
    using m(2) u32_bound [of ?n] by (subst unat_word_ariths(1)) simp
  have free: "free_slot_table b = [(?k, ?n - 1)]" using inv less by (auto simp: auto_inv_def)
  define b1 where "b1 = b\<lparr>free_slot_table := (if ?k + m = ?n then [] else [(?k + m, ?n - 1)])\<rparr>"
  define b' where "b' = record_allocation a m ?k b1"
  note assign = assign_free_slots_rest [OF less m(1) mk free, folded b1_def]
  have ok: "\<not> m + ?k > ?n" using uk m(2) by (simp add: word_less_nat_alt add.commute)
  then have al: "allocate_channels a m b = Inr b'"
    by (simp add: allocate_channels_def assign b'_def)
  have srt: "sorted_wrt (<) (map fst (channel_allocation_table b))"
    and keys: "map fst (first_slot_allocation_table b) = map fst (channel_allocation_table b)"
    and rng: "\<And>x n. map_of (channel_allocation_table b) x = Some n \<Longrightarrow>
          0 < n \<and> (\<exists>f. map_of (first_slot_allocation_table b) x = Some f \<and> unat f + unat n \<le> unat ?k)"
    and dis: "\<And>x y. x \<noteq> y \<Longrightarrow> slots_of b x \<inter> slots_of b y = {}"
    using inv unfolding auto_inv_def by blast+
  have fields: "n_allocated_channels b' = ?k + m" "n_channels b' = ?n"
    "free_slot_table b' = (if ?k + m = ?n then [] else [(?k + m, ?n - 1)])"
    "channel_allocation_table b' = table_set a m (channel_allocation_table b)"
    "first_slot_allocation_table b' = table_set a ?k (first_slot_allocation_table b)"
    by (simp_all add: b'_def b1_def record_allocation_def)
  have C: "map_of (channel_allocation_table b') = (map_of (channel_allocation_table b))(a \<mapsto> m)"
    using srt by (simp add: fields map_of_table_set)
  have F: "map_of (first_slot_allocation_table b') = (map_of (first_slot_allocation_table b))(a \<mapsto> ?k)"
    using srt keys by (simp add: fields map_of_table_set)
  have slots: "slots_of b' x = (if x = a then {unat ?k ..< unat ?k + unat m} else slots_of b x)" for x
    by (simp add: slots_of_def C F)
  have below: "slots_of b x \<subseteq> {..< unat ?k}" for x
  proof (cases "map_of (channel_allocation_table b) x")
    case (Some n)
    with rng [OF Some] show ?thesis by (auto simp: slots_of_def)
  qed (simp add: slots_of_def split: option.splits)
  have "auto_inv b'"
    unfolding auto_inv_def
  proof (intro conjI allI impI)
    show "n_allocated_channels b' \<le> n_channels b'" using uk m(2) by (simp add: fields word_le_nat_alt)
    show "map fst (first_slot_allocation_table b') = map fst (channel_allocation_table b')"
      using keys by (simp add: fields map_fst_table_set_cong)
    show "sorted_wrt (<) (map fst (channel_allocation_table b'))"
      using srt by (simp add: fields sorted_table_set)
    show "slots_of b' x \<inter> slots_of b' y = {}" if "x \<noteq> y" for x y
      using dis [OF that] below [of x] below [of y] that unfolding slots
      by (auto simp: disjoint_iff subset_iff split: if_splits)
    fix x n assume x: "map_of (channel_allocation_table b') x = Some n"
    show "0 < n" using x rng [of x n] m(1) by (cases "x = a") (simp_all add: C)
    show "\<exists>f. map_of (first_slot_allocation_table b') x = Some f
       \<and> unat f + unat n \<le> unat (n_allocated_channels b')"
    proof (cases "x = a")
      case True
      with x have "n = m" by (simp add: C)
      then show ?thesis by (simp add: True F fields(1) uk)
    next
      case False
      with x rng [of x n] show ?thesis by (auto simp: C F fields(1) uk)
    qed
  qed (use less in \<open>auto simp: fields\<close>)
  with al fields(1,2) C F show ?thesis by (intro that)
qed

text \<open>A series of requests of elements for numbers of slots.\<close>

fun allocate_all :: "(('a::linorder) \<times> u32) list \<Rightarrow> 'a tdma_bus \<Rightarrow> 'a tdma_bus result" where
  "allocate_all [] b = Inr b"
| "allocate_all ((a, m) # rs) b = rbind (allocate_channels a m b) (allocate_all rs)"

definition requested :: "('a \<times> u32) list \<Rightarrow> nat" where
  "requested rs = sum_list (map (\<lambda>r. unat (snd r)) rs)"

definition unallocated :: "'a tdma_bus \<Rightarrow> bool" where
  "unallocated b \<longleftrightarrow> n_channels b \<noteq> 0 \<and> n_allocated_channels b = 0
     \<and> free_slot_table b = [(0, n_channels b - 1)]
     \<and> first_slot_allocation_table b = [] \<and> channel_allocation_table b = []"

lemma unallocated_inv: "unallocated b \<Longrightarrow> auto_inv b"
  by (auto simp: unallocated_def auto_inv_def slots_of_def)

lemma allocate_all_auto:
  assumes "auto_inv b" "distinct (map fst rs)" "\<forall>(a, m) \<in> set rs. 0 < m"
    "unat (n_allocated_channels b) + requested rs \<le> unat (n_channels b)"
    "\<forall>a \<in> fst ` set rs. map_of (channel_allocation_table b) a = None"
  shows "\<exists>b'. allocate_all rs b = Inr b' \<and> auto_inv b'
    \<and> (\<forall>i < length rs. map_of (first_slot_allocation_table b') (fst (rs ! i)) =
           Some (of_nat (unat (n_allocated_channels b) + requested (take i rs)))
        \<and> map_of (channel_allocation_table b') (fst (rs ! i)) = Some (snd (rs ! i)))
    \<and> (\<forall>a. a \<notin> fst ` set rs \<longrightarrow>
         map_of (first_slot_allocation_table b') a = map_of (first_slot_allocation_table b) a
         \<and> map_of (channel_allocation_table b') a = map_of (channel_allocation_table b) a)"
  using assms
proof (induction rs arbitrary: b)
  case (Cons r rs)
  obtain a m where r: "r = (a, m)" by (cases r) auto
  have m: "0 < m" "unat (n_allocated_channels b) + unat m \<le> unat (n_channels b)"
    "map_of (channel_allocation_table b) a = None"
    using Cons.prems(3-5) by (simp_all add: r requested_def)
  obtain b1 where b1: "allocate_channels a m b = Inr b1" "auto_inv b1"
    "n_allocated_channels b1 = n_allocated_channels b + m" "n_channels b1 = n_channels b"
    "map_of (channel_allocation_table b1) = (map_of (channel_allocation_table b))(a \<mapsto> m)"
    "map_of (first_slot_allocation_table b1) =
       (map_of (first_slot_allocation_table b))(a \<mapsto> n_allocated_channels b)"
    using allocate_channels_auto [OF Cons.prems(1) m] by metis
  have u: "unat (n_allocated_channels b1) = unat (n_allocated_channels b) + unat m"
    unfolding b1(3) using m(2) u32_bound [of "n_channels b"] by (subst unat_word_ariths(1)) simp
  have a: "a \<notin> fst ` set rs" using Cons.prems(2) by (simp add: r)
  obtain b' where b': "allocate_all rs b1 = Inr b'" "auto_inv b'"
    "\<And>i. i < length rs \<Longrightarrow> map_of (first_slot_allocation_table b') (fst (rs ! i)) =
           Some (of_nat (unat (n_allocated_channels b1) + requested (take i rs)))
        \<and> map_of (channel_allocation_table b') (fst (rs ! i)) = Some (snd (rs ! i))"
    "\<And>x. x \<notin> fst ` set rs \<Longrightarrow>
         map_of (first_slot_allocation_table b') x = map_of (first_slot_allocation_table b1) x
         \<and> map_of (channel_allocation_table b') x = map_of (channel_allocation_table b1) x"
  proof -
    have "\<forall>x \<in> fst ` set rs. map_of (channel_allocation_table b1) x = None"
      using Cons.prems(5) a by (auto simp: b1(5) r)
    moreover have "unat (n_allocated_channels b1) + requested rs \<le> unat (n_channels b1)"
      using Cons.prems(4) u by (simp add: b1(4) r requested_def)
    ultimately show ?thesis using that Cons.IH [OF b1(2)] Cons.prems(2,3) by auto
  qed
  have "map_of (first_slot_allocation_table b') (fst ((r # rs) ! i)) =
           Some (of_nat (unat (n_allocated_channels b) + requested (take i (r # rs))))
        \<and> map_of (channel_allocation_table b') (fst ((r # rs) ! i)) = Some (snd ((r # rs) ! i))"
    if "i < length (r # rs)" for i
  proof (cases i)
    case 0
    then show ?thesis using b'(4) [OF a] by (simp add: r b1(5,6) requested_def)
  next
    case (Suc j)
    then show ?thesis using b'(3) [of j] that u by (simp add: r requested_def add.assoc)
  qed
  moreover have "map_of (first_slot_allocation_table b') x = map_of (first_slot_allocation_table b) x
         \<and> map_of (channel_allocation_table b') x = map_of (channel_allocation_table b) x"
    if "x \<notin> fst ` set (r # rs)" for x
    using b'(4) [of x] that by (simp add: r b1(5,6))
  moreover have "allocate_all (r # rs) b = Inr b'" using b1(1) b'(1) by (simp add: r)
  ultimately show ?case using b'(2) by blast
qed (simp add: requested_def)

lemma auto_inv_allocation: "auto_inv b \<Longrightarrow> allocation b"
proof -
  assume inv: "auto_inv b"
  have "0 < n \<and> unat f + unat n \<le> 2 ^ 32"
    if "map_of (first_slot_allocation_table b) a = Some f" "map_of (channel_allocation_table b) a = Some n"
    for a f n
  proof -
    have "0 < n \<and> (\<exists>g. map_of (first_slot_allocation_table b) a = Some g
             \<and> unat g + unat n \<le> unat (n_allocated_channels b))"
      using inv that(2) unfolding auto_inv_def by blast
    with that(1) u32_bound [of "n_allocated_channels b"] show ?thesis by auto
  qed
  moreover have "distinct (map fst (channel_allocation_table b))"
    using inv strict_sorted_iff unfolding auto_inv_def by blast
  ultimately show ?thesis using inv by (simp add: allocation_def auto_inv_def)
qed

lemma auto_inv_check: "auto_inv b \<Longrightarrow> channel_allocation_table b \<noteq> [] \<Longrightarrow> check_slot_allocation b = Inr True"
proof -
  assume inv: "auto_inv b" and ne: "channel_allocation_table b \<noteq> []"
  have "slots_of b x \<inter> slots_of b y = {}" if "x \<noteq> y" for x y
    using inv that unfolding auto_inv_def by blast
  then show ?thesis unfolding slot_check_iff [OF auto_inv_allocation [OF inv] ne] by metis
qed

text \<open>Elements with consecutive first slots have consecutive ranges of slots.\<close>

lemma consecutive_slots:
  assumes "\<And>i. i < length rs \<Longrightarrow> map_of (first_slot_allocation_table b) (fst (rs ! i)) =
           Some (of_nat (requested (take i rs)))
        \<and> map_of (channel_allocation_table b) (fst (rs ! i)) = Some (snd (rs ! i))"
    and "requested rs \<le> unat (n :: u32)"
  shows "\<forall>i < length rs. slots_of b (fst (rs ! i)) = {requested (take i rs) ..< requested (take (Suc i) rs)}
        \<and> requested (take (Suc i) rs) \<le> unat n"
proof (intro allI impI)
  fix i assume i: "i < length rs"
  have part: "requested (take j rs) \<le> requested rs" for j
    using append_take_drop_id [of j rs] unfolding requested_def
    by (metis le_add1 map_append sum_list.append)
  have small: "unat (of_nat (requested (take i rs)) :: u32) = requested (take i rs)"
    using part [of i] assms(2) u32_bound [of n]
    by (simp add: unat_of_nat take_bit_eq_mod)
  have "requested (take (Suc i) rs) = requested (take i rs) + unat (snd (rs ! i))"
    using i by (simp add: take_Suc_conv_app_nth requested_def)
  then show "slots_of b (fst (rs ! i)) = {requested (take i rs) ..< requested (take (Suc i) rs)}
        \<and> requested (take (Suc i) rs) \<le> unat n"
    using assms(1) [OF i] small part [of "Suc i"] assms(2) by (simp add: slots_of_def)
qed

text \<open>
  C13: Automatic allocation is first come, first served and sound. On a bus with no slot allocated, requests
  of distinct elements for positive numbers of slots that the bus has in total all succeed; each
  element gets exactly the slots that follow those of the requests before it, within the bus; and
  the check of the allocation accepts the result.
\<close>
theorem automatic_allocation:
  assumes "unallocated b" "distinct (map fst rs)" "\<forall>(a, m) \<in> set rs. 0 < m"
    "requested rs \<le> unat (n_channels b)" "rs \<noteq> []"
  shows "\<exists>b'. allocate_all rs b = Inr b' \<and> check_slot_allocation b' = Inr True
    \<and> (\<forall>i < length rs. slots_of b' (fst (rs ! i)) =
          {requested (take i rs) ..< requested (take (Suc i) rs)}
        \<and> requested (take (Suc i) rs) \<le> unat (n_channels b))"
proof -
  have k: "n_allocated_channels b = 0" and emp: "channel_allocation_table b = []"
    using assms(1) by (simp_all add: unallocated_def)
  obtain b' where b': "allocate_all rs b = Inr b'" "auto_inv b'"
    "\<And>i. i < length rs \<Longrightarrow> map_of (first_slot_allocation_table b') (fst (rs ! i)) =
           Some (of_nat (requested (take i rs)))
        \<and> map_of (channel_allocation_table b') (fst (rs ! i)) = Some (snd (rs ! i))"
    using allocate_all_auto [OF unallocated_inv [OF assms(1)] assms(2,3)] assms(4) k emp by auto
  note slots = consecutive_slots [OF b'(3) assms(4)]
  have "channel_allocation_table b' \<noteq> []"
    using b'(3) [of 0] assms(5) by auto
  then have "check_slot_allocation b' = Inr True" by (rule auto_inv_check [OF b'(2)])
  with b'(1) slots show ?thesis by blast
qed

definition example_requests :: "(nat \<times> u32) list" where
  "example_requests = [(5, 2), (3, 4)]"

theorem automatic_allocation_witness:
  "\<exists>b'. allocate_all example_requests example_bus = Inr b' \<and> check_slot_allocation b' = Inr True
     \<and> slots_of b' 3 = {2 ..< 6}"
proof -
  have "unallocated example_bus" by (simp add: unallocated_def)
  moreover have "distinct (map fst example_requests)" "\<forall>(a, m) \<in> set example_requests. 0 < m"
    "requested example_requests \<le> unat (n_channels example_bus)" "example_requests \<noteq> []"
    by (simp_all add: example_requests_def requested_def)
  ultimately obtain b' where b': "allocate_all example_requests example_bus = Inr b'"
    "check_slot_allocation b' = Inr True"
    "\<forall>i < length example_requests. slots_of b' (fst (example_requests ! i)) =
       {requested (take i example_requests) ..< requested (take (Suc i) example_requests)}
       \<and> requested (take (Suc i) example_requests) \<le> unat (n_channels example_bus)"
    using automatic_allocation by blast
  have "slots_of b' (fst (example_requests ! 1)) =
       {requested (take 1 example_requests) ..< requested (take (Suc 1) example_requests)}"
    using spec [OF b'(3), of 1] by (simp add: example_requests_def)
  then have "slots_of b' 3 = {2 ..< 6}" by (simp add: example_requests_def requested_def)
  with b' show ?thesis by blast
qed

subsection \<open>Manual allocation\<close>

text \<open>
  Manual allocation does not keep to the bus. On a bus with no slot allocated any positive number of
  slots below its number of channels is accepted from any first slot below it too, whatever their
  sum, and the check of the allocation accepts the result; so an element can be given slots that
  the bus does not have.
\<close>
theorem manual_allocation_out_of_range:
  assumes "unallocated b" "0 < m" "m < n_channels b" "first < n_channels b"
  shows "\<exists>b'. allocate_channels_from a m first b = Inr b' \<and> check_slot_allocation b' = Inr True
    \<and> slots_of b' a = {unat first ..< unat first + unat m}"
proof -
  have f: "free_slot_table b = [(0, n_channels b - 1)]" "n_allocated_channels b = 0"
    "first_slot_allocation_table b = []" "channel_allocation_table b = []" "n_channels b \<noteq> 0"
    using assms(1) by (simp_all add: unallocated_def)
  have "unat (n_channels b - 1) = unat (n_channels b) - 1"
    using f(5) by (subst unat_sub) (simp_all add: word_le_nat_alt unat_gt_0 Suc_leI)
  then have "m \<le> n_channels b - 1" using assms(3) by (simp add: word_le_nat_alt word_less_nat_alt)
  moreover have "\<not> n_channels b < m" using assms(3) by simp
  moreover define b' where "b' = record_allocation a m first (b\<lparr>manual_slot_allocation := True,
      free_slot_table := [(m + first, n_channels b - 1)]\<rparr>)"
  ultimately have "allocate_channels_from a m first b = Inr b'"
    using assms(4) f by (simp add: allocate_channels_from_def assign_free_slots_from_def range_size_def)
  moreover have "check_slot_allocation b' = Inr True"
    "slots_of b' a = {unat first ..< unat first + unat m}"
    using f by (simp_all add: b'_def record_allocation_def check_slot_allocation_def slots_of_def)
  ultimately show ?thesis by blast
qed

theorem manual_allocation_out_of_range_witness:
  "\<exists>b'. allocate_channels_from 1 5 6 example_bus = Inr b' \<and> check_slot_allocation b' = Inr True
     \<and> 10 \<in> slots_of b' 1 \<and> n_channels example_bus = 8"
  using manual_allocation_out_of_range [of example_bus 5 6 1]
  by (auto simp: unallocated_def)

subsection \<open>The delays kept for a link\<close>

lemma get_properties_view:
  assumes "link_key l = Inr k" "links_table r k \<noteq> None" "separate r"
  shows "get_properties l sz r = Inr (case info_entry r k sz of None \<Rightarrow> None | Some p \<Rightarrow> p)"
  using assms by (auto simp: get_properties_def info_entry_def split: option.splits)

lemma view_None: "separate r \<Longrightarrow> view r k sz = None \<longleftrightarrow> info_entry r k sz = None"
  using separate_pointer [of r k sz] by (auto simp: view_def split: option.splits)

lemma view_Some:
  assumes "separate r" "view r k sz = Some i"
  obtains q where "info_entry r k sz = Some (Some q)" "info_at r q = i"
  using assms separate_pointer [of r k sz] by (auto simp: view_def split: option.splits)

text \<open>Once a link has properties for a size the setters are not called again.\<close>

lemma cached_hit:
  assumes "link_key l = Inr k" "links_table b k \<noteq> None" "separate b" "view b k msg = Some i"
  shows "cached_properties setter l msg b = Inr (i, b)"
proof -
  obtain q where "info_entry b k msg = Some (Some q)" "info_at b q = i"
    using assms(3,4) by (rule view_Some)
  then show ?thesis
    using get_properties_view [OF assms(1-3), of msg] by (simp add: cached_properties_def deref_info_def)
qed

lemma cached_miss:
  assumes "link_key l = Inr k" "links_table b k \<noteq> None" "separate b" "view b k msg = None"
    and "cached_properties setter l msg b = Inr (i, b1)"
  shows "setter b = Inr b1"
    "separate b1 \<Longrightarrow> links_table b1 k \<noteq> None \<Longrightarrow> view b1 k msg = Some i"
proof -
  have "get_properties l msg b = Inr None"
    using get_properties_view [OF assms(1-3), of msg] assms(3,4) by (simp add: view_None)
  then obtain q where q: "setter b = Inr b1" "get_properties l msg b1 = Inr q" "q \<noteq> None"
    "deref_info q b1 = Inr i"
    using assms(5) by (auto simp: cached_properties_def rbind_eq_Inr rmap_eq_Inr)
  then show "setter b = Inr b1" by simp
  show "view b1 k msg = Some i" if "separate b1" "links_table b1 k \<noteq> None"
    using read_properties [OF assms(1) that(2,1), of msg] q
    by (simp split: option.splits)
qed

text \<open>The tables by element are outside the table of properties.\<close>

definition same_properties :: "'a tdma_bus \<Rightarrow> 'a tdma_bus \<Rightarrow> bool" where
  "same_properties b c \<longleftrightarrow> links_table b = links_table c \<and> info_at b = info_at c
     \<and> next_info b = next_info c"

lemma same_properties_view:
  assumes "same_properties b c"
  shows "view b = view c" "table_inv b = table_inv c" "separate b = separate c"
proof -
  have e: "info_entry b = info_entry c"
    using assms by (simp add: fun_eq_iff info_entry_def same_properties_def)
  show "view b = view c" 
    using assms by (intro ext) (simp only: view_def e same_properties_def)
  show sep: "separate b = separate c"
    using assms by (simp add: separate_def e same_properties_def)
  show "table_inv b = table_inv c"
    using assms by (simp add: table_inv_def sep ordered_sizes_def same_properties_def)
qed

lemma slots_of_link_ok:
  assumes "slots_of_link l b = Inr (n, b1)"
  obtains a where "src l = Some a" "map_of (channel_allocation_table b) a = Some n" "n \<noteq> 0" "b1 = b"
proof -
  obtain a where a: "src l = Some a" using assms by (auto simp: slots_of_link_def split: option.splits)
  with assms that show ?thesis
    by (cases b) (auto simp: slots_of_link_def table_at_def split: option.splits if_splits)
qed

lemma tdma_setter_max:
  assumes "tdma_set_MaxP2Pdelay e l msg b = Inr b1" "link_key l = Inr k" "table_inv b" "view b k msg = None"
  obtains a n d where "src l = Some a" "map_of (channel_allocation_table b) a = Some n" "n \<noteq> 0"
    "calculate_MaxP2Pdelay msg n b = Inr d" "table_inv b1"
    "view b1 k msg = Some (new_link_info\<lparr>MaxP2Pdelay := d\<rparr>)"
proof -
  obtain n b2 d where s: "slots_of_link l b = Inr (n, b2)" "calculate_MaxP2Pdelay msg n b2 = Inr d"
    "set_MaxP2Pdelay e l d msg b2 = Inr b1"
    using assms(1) by (auto simp: tdma_set_MaxP2Pdelay_def rbind_eq_Inr)
  obtain a where a: "src l = Some a" "map_of (channel_allocation_table b) a = Some n" "n \<noteq> 0" "b2 = b"
    using s(1) by (rule slots_of_link_ok)
  have "set_attribute e (setMaxP2Pdelay d) l msg b = Inr b1" using s(3) a(4) by (simp add: set_MaxP2Pdelay_def)
  from set_attribute_view [OF this assms(2,3)] assms(4) that a s(2) show ?thesis
    by (simp add: setMaxP2Pdelay_def)
qed

lemma tdma_setter_current:
  assumes "tdma_set_CurrentP2Pdelay e l msg b = Inr b1" "link_key l = Inr k" "table_inv b" "view b k msg = None"
  obtains a n d where "src l = Some a" "map_of (channel_allocation_table b) a = Some n" "n \<noteq> 0"
    "calculate_data_tx_delay_L0 msg n b = Inr d" "table_inv b1"
    "view b1 k msg = Some (new_link_info\<lparr>CurrentP2Pdelay := d\<rparr>)"
proof -
  obtain n b2 d where s: "slots_of_link l b = Inr (n, b2)" "calculate_data_tx_delay_L0 msg n b2 = Inr d"
    "set_CurrentP2Pdelay e l d msg b2 = Inr b1"
    using assms(1) by (auto simp: tdma_set_CurrentP2Pdelay_def rbind_eq_Inr)
  obtain a where a: "src l = Some a" "map_of (channel_allocation_table b) a = Some n" "n \<noteq> 0" "b2 = b"
    using s(1) by (rule slots_of_link_ok)
  have "set_attribute e (setCurrentP2Pdelay d) l msg b = Inr b1"
    using s(3) a(4) by (simp add: set_CurrentP2Pdelay_def)
  from set_attribute_view [OF this assms(2,3)] assms(4) that a s(2) show ?thesis
    by (simp add: setCurrentP2Pdelay_def)
qed

lemma link_keeps_table:
  assumes "view b1 k msg = Some i"
  shows "links_table b1 k \<noteq> None"
  using assms by (cases "links_table b1 k") (simp_all add: view_def info_entry_def)

text \<open>
  The maximum delay of a link is computed once. For a registered link without properties for the
  message size, the delay returned is the one calculated for the slots of its source, and every
  later query of the same link and size, at any time, returns it again and changes nothing.
\<close>
theorem max_delay_computed_once:
  assumes "tdma_get_MaxP2Pdelay e l msg b = Inr (d, b1)" "link_key l = Inr k" "links_table b k \<noteq> None"
    "table_inv b" "view b k msg = None"
  shows "(\<exists>a n. src l = Some a \<and> map_of (channel_allocation_table b) a = Some n \<and> n \<noteq> 0
             \<and> calculate_MaxP2Pdelay msg n b = Inr d)
    \<and> tdma_get_MaxP2Pdelay e' l msg b1 = Inr (d, b1)"
proof -
  have sep: "separate b" using assms(4) by (simp add: table_inv_def)
  obtain i where i: "cached_properties (tdma_set_MaxP2Pdelay e l msg) l msg b = Inr (i, b1)"
    "d = MaxP2Pdelay i"
    using assms(1) by (auto simp: tdma_get_MaxP2Pdelay_def rmap_eq_Inr)
  note miss = cached_miss [OF assms(2,3) sep assms(5) i(1)]
  obtain a n d' where s: "src l = Some a" "map_of (channel_allocation_table b) a = Some n" "n \<noteq> 0"
    "calculate_MaxP2Pdelay msg n b = Inr d'" "table_inv b1"
    "view b1 k msg = Some (new_link_info\<lparr>MaxP2Pdelay := d'\<rparr>)"
    using miss(1) assms(2,4,5) by (rule tdma_setter_max)
  have b1: "separate b1" "links_table b1 k \<noteq> None"
    using s(5) link_keeps_table [OF s(6)] by (simp_all add: table_inv_def)
  have "d' = d" using miss(2) [OF b1] s(6) i(2) by auto
  with s cached_hit [OF assms(2) b1(2,1) s(6)] show ?thesis
    by (simp add: tdma_get_MaxP2Pdelay_def)
qed

lemma current_offset_no_cache:
  "current_offset_delay_L0 t f (b\<lparr>current_tx_delay := x\<rparr>) = current_offset_delay_L0 t f b"
  by (simp add: current_offset_delay_L0_def cong: if_cong)

text \<open>
  The current delay leaves the data out. For the same kind of link at the finest accuracy, the
  current delay returned is the offset to the first slot alone, without the delay of the data that
  was calculated, and a maximum delay asked for afterwards is zero.
\<close>
theorem current_delay_omits_data:
  assumes "tdma_get_CurrentP2Pdelay rnd rmax e l msg b = Inr (d, b1)" "link_key l = Inr k"
    "links_table b k \<noteq> None" "table_inv b" "view b k msg = None" "accuracy_level b1 = 0"
  shows "(\<exists>first. current_offset_delay_L0 (sc_now e) first b1 = Inr d)
    \<and> tdma_get_MaxP2Pdelay e' l msg b1 = Inr (0, b1)"
proof -
  have sep: "separate b" using assms(4) by (simp add: table_inv_def)
  obtain i b2 where i: "cached_properties (tdma_set_CurrentP2Pdelay e l msg) l msg b = Inr (i, b2)"
    using assms(1) by (auto simp: tdma_get_CurrentP2Pdelay_def rbind_eq_Inr)
  note miss = cached_miss [OF assms(2,3) sep assms(5) i]
  obtain a n x where s: "src l = Some a" "table_inv b2"
    "view b2 k msg = Some (new_link_info\<lparr>CurrentP2Pdelay := x\<rparr>)"
    using miss(1) assms(2,4,5) by (rule tdma_setter_current)
  have b2: "separate b2" "links_table b2 k \<noteq> None"
    using s(2) link_keeps_table [OF s(3)] by (simp_all add: table_inv_def)
  have "i = new_link_info\<lparr>CurrentP2Pdelay := x\<rparr>" using miss(2) [OF b2] s(3) by simp
  then have z: "MaxP2Pdelay i = 0" by (simp add: new_link_info_def)
  obtain off b3 where off: "d = off + MaxP2Pdelay i" "b1 = b3\<lparr>current_tx_delay := off + MaxP2Pdelay i\<rparr>"
    "(if accuracy_level b2 = 0 then
               (let (first, t) = table_at a (first_slot_allocation_table b2);
                    b3 = b2\<lparr>first_slot_allocation_table := t\<rparr>
                in rmap (\<lambda>d. (d, b3)) (current_offset_delay_L0 (sc_now e) first b3))
             else if accuracy_level b2 = 1 then
               (let (slots, t) = table_at a (channel_allocation_table b2);
                    b3 = b2\<lparr>channel_allocation_table := t\<rparr>
                in rmap (\<lambda>d. (d, b3)) (current_offset_delay_L1 rnd rmax slots b3))
             else report ''unknown accuracy level calculating Current P2P delay.'') = Inr (off, b3)"
    using assms(1) i s(1) by (auto simp: tdma_get_CurrentP2Pdelay_def rbind_eq_Inr rmap_eq_Inr)
  have acc: "accuracy_level b2 = 0"
  proof (rule ccontr)
    assume "accuracy_level b2 \<noteq> 0"
    then have "accuracy_level b3 = 1"
      using off(3) by (auto simp: Let_def rmap_eq_Inr split: prod.splits if_splits)
    with assms(6) off(2) show False by simp
  qed
  obtain first t where t: "table_at a (first_slot_allocation_table b2) = (first, t)" by fastforce
  have b3: "b3 = b2\<lparr>first_slot_allocation_table := t\<rparr>" "current_offset_delay_L0 (sc_now e) first b3 = Inr off"
    using off(3) acc t by (auto simp: rmap_eq_Inr Let_def)
  have "current_offset_delay_L0 (sc_now e) first b1 = Inr d"
    using b3(2) by (simp add: off(1,2) z current_offset_no_cache)
  moreover have same: "same_properties b1 b2" by (simp add: same_properties_def off(2) b3(1))
  have "tdma_get_MaxP2Pdelay e' l msg b1 = Inr (0, b1)"
    using cached_hit [OF assms(2), of b1 msg i] b2 s(3) z miss(2) [OF b2]
    by (simp add: tdma_get_MaxP2Pdelay_def same_properties_view [OF same] same [unfolded same_properties_def])
  ultimately show ?thesis by blast
qed

text \<open>An example: element 1 has two slots and a link to element 2.\<close>

definition example_tdma :: "nat tdma_bus" where
  "example_tdma = example_bus
     \<lparr>channel_allocation_table := [(1, 2)], first_slot_allocation_table := [(1, 0)]\<rparr>"

definition example_link :: "nat link_t" where
  "example_link = link_between (Some 1) (Some 2)"

lemma example_tdma_inv:
  "link_key example_link = Inr (1, 2)" "links_table example_tdma (1, 2) \<noteq> None"
  "table_inv example_tdma" "view example_tdma (1, 2) msg = None"
  by (auto simp: example_link_def example_tdma_def table_inv_def separate_def ordered_sizes_def
      info_entry_def view_def split: option.splits if_splits)

lemma example_carries': "carries example_tdma 32 2"
  by (simp add: carries_def last_slot_def example_tdma_def)

lemma example_slots: "slots_of_link example_link example_tdma = Inr (2, example_tdma)"
  by (simp add: slots_of_link_def example_link_def link_between_def table_at_def example_tdma_def)

definition running_at :: "sc_time \<Rightarrow> sim_env" where
  "running_at t = \<lparr>sc_status = SC_RUNNING, sc_running = True, sc_now = t\<rparr>"

text \<open>The bus after an attribute of the link was set for messages of 32 bits.\<close>

definition example_cached :: "(link_info_t \<Rightarrow> link_info_t) \<Rightarrow> nat tdma_bus" where
  "example_cached f = example_tdma\<lparr>links_table := [(1, 2) \<mapsto> Some [(32, Some 0)]],
     info_at := (\<lambda>_. new_link_info)(0 := f new_link_info), next_info := 1\<rparr>"

lemma example_set: "set_attribute e f example_link 32 example_tdma = Inr (example_cached f)"
  by (simp add: set_attribute_def get_properties_def set_properties_def example_link_def
      example_cached_def example_tdma_def)

lemma example_get:
  assumes "setter example_tdma = Inr (example_cached f)"
  shows "cached_properties setter example_link 32 example_tdma = Inr (f new_link_info, example_cached f)"
  using assms
  by (simp add: cached_properties_def get_properties_def deref_info_def example_link_def
      example_cached_def example_tdma_def)

lemma example_tail: "\<lfloor>201 / 2 :: rat\<rfloor> = 100"
  by (rule floor_unique) simp_all

lemma example_data: "calculate_data_tx_delay_L0 32 2 example_tdma = Inr 100"
  using data_delay_L0_closed(1) [OF example_carries']
  by (simp add: example_tdma_def last_slot_def tail_time_def example_tail)

lemma example_max: "calculate_MaxP2Pdelay 32 2 example_tdma = Inr 1000"
  using max_offset_closed(1) [of 2 example_tdma] example_data
  by (simp add: calculate_MaxP2Pdelay_def calculate_MaxP2Pdelay_L0_def)
    (simp add: example_tdma_def)

lemma example_max_query:
  "\<exists>b1. tdma_get_MaxP2Pdelay (running_at 0) example_link 32 example_tdma = Inr (1000, b1)"
proof -
  have "tdma_set_MaxP2Pdelay (running_at 0) example_link 32 example_tdma
      = Inr (example_cached (setMaxP2Pdelay 1000))"
    by (simp add: tdma_set_MaxP2Pdelay_def example_slots example_max set_MaxP2Pdelay_def example_set)
  from example_get [of "tdma_set_MaxP2Pdelay (running_at 0) example_link 32", OF this] show ?thesis
    by (simp add: tdma_get_MaxP2Pdelay_def setMaxP2Pdelay_def)
qed

theorem max_delay_computed_once_witness:
  "\<exists>b1. tdma_get_MaxP2Pdelay (running_at 0) example_link 32 example_tdma = Inr (1000, b1)
     \<and> tdma_get_MaxP2Pdelay (running_at 7) example_link 32 b1 = Inr (1000, b1)"
proof -
  obtain b1 where b1: "tdma_get_MaxP2Pdelay (running_at 0) example_link 32 example_tdma = Inr (1000, b1)"
    using example_max_query by blast
  from max_delay_computed_once [OF this example_tdma_inv] b1 show ?thesis by blast
qed

lemma example_current_query:
  "\<exists>b1. tdma_get_CurrentP2Pdelay 0 1 (running_at 300) example_link 32 example_tdma = Inr (700, b1)
     \<and> accuracy_level b1 = 0"
proof -
  let ?b = "example_cached (setCurrentP2Pdelay 100)"
  have "tdma_set_CurrentP2Pdelay (running_at 300) example_link 32 example_tdma = Inr ?b"
    by (simp add: tdma_set_CurrentP2Pdelay_def example_slots example_data set_CurrentP2Pdelay_def example_set)
  note c = example_get [of "tdma_set_CurrentP2Pdelay (running_at 300) example_link 32", OF this]
  have "phase_known ?b 0 300" by (simp add: phase_known_def example_cached_def example_tdma_def)
  from current_offset_L0 [OF this] have o: "current_offset_delay_L0 300 0 ?b = Inr 700"
    by (simp add: example_cached_def example_tdma_def)
  have "table_at 1 (first_slot_allocation_table ?b) = (0, first_slot_allocation_table ?b)"
    "accuracy_level ?b = 0" "src example_link = Some 1"
    "MaxP2Pdelay (setCurrentP2Pdelay 100 new_link_info) = 0"
    by (simp_all add: example_cached_def example_tdma_def table_at_def example_link_def link_between_def
        setCurrentP2Pdelay_def new_link_info_def)
  with c o show ?thesis by (simp add: tdma_get_CurrentP2Pdelay_def running_at_def)
qed

theorem current_delay_omits_data_witness:
  "\<exists>b1. tdma_get_CurrentP2Pdelay 0 1 (running_at 300) example_link 32 example_tdma = Inr (700, b1)
     \<and> tdma_get_MaxP2Pdelay (running_at 300) example_link 32 b1 = Inr (0, b1)"
proof -
  obtain b1 where b1: "tdma_get_CurrentP2Pdelay 0 1 (running_at 300) example_link 32 example_tdma = Inr (700, b1)"
    "accuracy_level b1 = 0"
    using example_current_query by blast
  from current_delay_omits_data [OF b1(1) example_tdma_inv b1(2)] b1 show ?thesis by blast
qed

end
