(* ===== verification/Hardware.thy ===== *)
theory Hardware
  imports Processing_Element Comm_Res
begin

text \<open>
  \<open>hw_resource.cpp\<close>, \<open>app_element.cpp\<close>, \<open>memory_resource.cpp\<close>, the connections of
  \<open>processing_element.cpp\<close> and \<open>comm_res/phy_comm_res.cpp\<close> with \<open>mapped_links_t.cpp\<close>: the elements of
  the platform, how they are plugged into a communication resource, and the table that maps logic
  links to physical ones. Addresses of hardware elements are their names.
\<close>

subsection \<open>Elements\<close>

record hw_resource =
  hw_name :: string
  resource_kind :: resource_t

definition new_hw_resource :: "string \<Rightarrow> resource_t \<Rightarrow> hw_resource" where
  "new_hw_resource n k = \<lparr>hw_name = n, resource_kind = k\<rparr>"

definition get_type :: "('b) hw_resource_scheme \<Rightarrow> resource_t" where
  "get_type h = resource_kind h"

text \<open>The address of an object is known by its name, which the kernel keeps unique.\<close>

definition hw_get_address :: "('b) hw_resource_scheme \<Rightarrow> string" where
  "hw_get_address h = hw_name h"

definition hw_eq :: "('b) hw_resource_scheme \<Rightarrow> ('b) hw_resource_scheme \<Rightarrow> bool" where
  "hw_eq a b = (hw_get_address a = hw_get_address b \<and> resource_kind a = resource_kind b)"

datatype app_element_e =
  APPLICATION_ELEMENT | TASK_ELEMENT | COMM_SYNCH_SHARED_VAR | COMM_SYNCH_FIFO

record app_element =
  app_name :: string
  app_type :: app_element_e
  app_sched :: "string option"

text \<open>
  The constructor assigns its parameter to itself, and does not touch the scheduler: both members
  keep the indeterminate values they had, the first arguments.
\<close>

definition new_app_element ::
    "app_element_e \<Rightarrow> string option \<Rightarrow> string \<Rightarrow> app_element_e \<Rightarrow> app_element" where
  "new_app_element raw_type raw_sched n t = \<lparr>app_name = n, app_type = raw_type, app_sched = raw_sched\<rparr>"

definition get_app_element_type :: "app_element \<Rightarrow> app_element_e" where
  "get_app_element_type a = app_type a"

definition app_get_address :: "app_element \<Rightarrow> string" where
  "app_get_address a = app_name a"

definition app_eq :: "app_element \<Rightarrow> app_element \<Rightarrow> bool" where
  "app_eq a b = (app_get_address a = app_get_address b \<and> app_type a = app_type b)"

definition app_set_scheduler :: "string option \<Rightarrow> app_element \<Rightarrow> app_element" where
  "app_set_scheduler s a = a\<lparr>app_sched := s\<rparr>"

definition app_get_scheduler :: "app_element \<Rightarrow> string option" where
  "app_get_scheduler a = app_sched a"

subsection \<open>Memories\<close>

record memory_resource = hw_resource +
  latency :: sc_time
  bandwidth_bps :: u32
  mem_comm_res_p :: "string option"

text \<open>The constructor registers the object in \<open>MEMref_by_name\<close>; the bandwidth is indeterminate.\<close>

definition new_memory_resource ::
    "u32 \<Rightarrow> string \<Rightarrow> (string \<rightharpoonup> string) \<Rightarrow> memory_resource \<times> (string \<rightharpoonup> string)" where
  "new_memory_resource raw n mems =
     (hw_resource.extend (new_hw_resource n MEMORY_RESOURCE)
        (memory_resource.fields 0 raw None), mems(n \<mapsto> n))"

definition set_access_time :: "sc_time \<Rightarrow> memory_resource \<Rightarrow> memory_resource" where
  "set_access_time t m = m\<lparr>latency := t\<rparr>"

definition get_access_time :: "memory_resource \<Rightarrow> sc_time" where
  "get_access_time m = latency m"

text \<open>The parameter is a double, the member an unsigned integer.\<close>

definition mem_set_bandwidth :: "double \<Rightarrow> memory_resource \<Rightarrow> memory_resource result" where
  "mem_set_bandwidth b m = rmap (\<lambda>w. m\<lparr>bandwidth_bps := w\<rparr>) (to_u32 b)"

definition get_bandwidth_bps :: "memory_resource \<Rightarrow> double" where
  "get_bandwidth_bps m = of_u32 (bandwidth_bps m)"

subsection \<open>Connection to a communication resource\<close>

text \<open>
  What \<open>connect\<close> does for a memory and a processing element: \<open>bound\<close> is the resource the element
  is connected to, \<open>what\<close> and \<open>n\<close> its kind and name. A null argument is dereferenced.
\<close>

definition connect_element ::
    "sim_env \<Rightarrow> string \<Rightarrow> string \<Rightarrow> string option \<Rightarrow> (string, 'b) comm_res_scheme option
       \<Rightarrow> (string option \<times> (string, 'b) comm_res_scheme) result" where
  "connect_element e what n bound r =
     (case r of
        None \<Rightarrow> undef ''null communication resource''
      | Some c \<Rightarrow>
          (if bound \<noteq> None \<and> bound \<noteq> Some (comm_res_name c) then
             report (''Trying to connect '' @ what @ '' '' @ n @ '' to the communication resource ''
               @ comm_res_name c @ '', which was already connected'')
           else rmap (\<lambda>(_, c'). (Some (comm_res_name c), c')) (plug id e n c)))"

definition mem_connect ::
    "sim_env \<Rightarrow> (string, 'b) comm_res_scheme option \<Rightarrow> memory_resource
       \<Rightarrow> (memory_resource \<times> (string, 'b) comm_res_scheme) result" where
  "mem_connect e r m =
     rmap (\<lambda>(p, c). (m\<lparr>mem_comm_res_p := p\<rparr>, c))
       (connect_element e ''memory resource'' (hw_name m) (mem_comm_res_p m) r)"

definition mem_get_connected_comm_res :: "memory_resource \<Rightarrow> string option" where
  "mem_get_connected_comm_res m = mem_comm_res_p m"

definition pe_connect ::
    "sim_env \<Rightarrow> (string, 'b) comm_res_scheme option \<Rightarrow> processing_element
       \<Rightarrow> (processing_element \<times> (string, 'b) comm_res_scheme) result" where
  "pe_connect e r pe =
     rmap (\<lambda>(p, c). (pe\<lparr>bound_comm_res_p := p\<rparr>, c))
       (connect_element e ''processing element'' (pe_name pe) (bound_comm_res_p pe) r)"

definition pe_get_connected_comm_res :: "processing_element \<Rightarrow> string option" where
  "pe_get_connected_comm_res pe = bound_comm_res_p pe"

subsection \<open>Logic links mapped to physical ones\<close>

type_synonym 'l mapped_llinks = "'l link_t list"

definition assign_llink :: "'l link_t \<Rightarrow> 'l mapped_llinks \<Rightarrow> 'l mapped_llinks" where
  "assign_llink l ls = ls @ [l]"

definition get_number_llinks :: "'l mapped_llinks \<Rightarrow> u32" where
  "get_number_llinks ls = of_nat (length ls)"

record ('a, 'l) phy_comm_res = "'a comm_res" +
  plinks_llinks_table :: "('a link_t \<times> 'l mapped_llinks) list"

text \<open>\<open>phy_commres_by_name\<close> maps a name to an object, here its name.\<close>

definition new_phy_comm_res ::
    "sim_env \<Rightarrow> string \<Rightarrow> (string \<rightharpoonup> string) \<Rightarrow> (('a, 'l) phy_comm_res \<times> (string \<rightharpoonup> string)) result" where
  "new_phy_comm_res e n tab =
     rmap (\<lambda>r. (comm_res.extend r (phy_comm_res.fields []), tab(n \<mapsto> n))) (new_comm_res e n)"

text \<open>
  The table is a \<open>std::map\<close> with the links as keys, ordered by their \<open>operator<\<close>. Where that relation holds
  in both directions between a key and the link looked up, it is no order and the map is undefined.
\<close>

definition unordered_keys :: "('a::linorder) link_t \<Rightarrow> ('a link_t \<times> 'v) list \<Rightarrow> bool" where
  "unordered_keys p t = list_ex (\<lambda>(q, _). link_less p q \<and> link_less q p) t"

definition find_plink :: "('a::linorder) link_t \<Rightarrow> ('a link_t \<times> 'v) list \<Rightarrow> 'v option result" where
  "find_plink p t =
     (if unordered_keys p t then undef ''keys not ordered''
      else Inr (map_option snd (find (\<lambda>(q, _). \<not> link_less p q \<and> \<not> link_less q p) t)))"

fun put_plink :: "('a::linorder) link_t \<Rightarrow> 'v \<Rightarrow> ('a link_t \<times> 'v) list \<Rightarrow> ('a link_t \<times> 'v) list" where
  "put_plink p v [] = [(p, v)]"
| "put_plink p v ((q, w) # t) =
     (if link_less q p then (q, w) # put_plink p v t
      else if link_less p q then (p, v) # (q, w) # t
      else (q, v) # t)"

definition map_in_table ::
    "string \<Rightarrow> 'l link_t \<Rightarrow> ('a::linorder) link_t \<Rightarrow> ('a link_t \<times> 'l mapped_llinks) list
       \<Rightarrow> ('a link_t \<times> 'l mapped_llinks) list result" where
  "map_in_table name llink plink t =
     (if length t < 1 then Inr (put_plink plink (assign_llink llink []) t)
      else rbind (find_plink plink t) (\<lambda>found.
        case found of
          None \<Rightarrow> Inr (put_plink plink (assign_llink llink []) t)
        | Some ls \<Rightarrow>
            (if get_number_llinks ls > 0 then Inr (put_plink plink (assign_llink llink ls) t)
             else report (''In communication resource '' @ name
               @ '' Unexpected situation. Physical link entry found without any associated logical link.''))))"

definition map_links ::
    "'l link_t \<Rightarrow> ('a::linorder) link_t \<Rightarrow> ('a, 'l) phy_comm_res \<Rightarrow> ('a, 'l) phy_comm_res result" where
  "map_links llink plink r =
     rmap (\<lambda>t. r\<lparr>plinks_llinks_table := t\<rparr>)
       (map_in_table (comm_res_name r) llink plink (plinks_llinks_table r))"

text \<open>The lookup is by \<open>[]\<close>, which enters a null pointer for a missing link and dereferences it.\<close>

definition number_of_llinks :: "('a::linorder) link_t \<Rightarrow> ('a, 'l) phy_comm_res \<Rightarrow> u32 result" where
  "number_of_llinks plink r =
     rbind (find_plink plink (plinks_llinks_table r)) (\<lambda>found.
       case found of None \<Rightarrow> undef ''null mapped links'' | Some ls \<Rightarrow> Inr (get_number_llinks ls))"

end
