(* ===== verification/Hardware_Props.thy ===== *)
theory Hardware_Props
  imports Hardware
begin

text \<open>
  Properties of the platform elements: the table of mapped links as a map from the ends of a physical
  link to the logic links mapped to it, and the connection of elements to a resource.
\<close>

subsection \<open>The table of mapped links as a map\<close>

definition ends :: "'a link_t \<Rightarrow> 'a option \<times> 'a option" where
  "ends p = (src p, dest p)"

text \<open>The two ends of a pair of links are ordered in opposite ways.\<close>

definition crossing :: "('a::linorder) link_t \<Rightarrow> 'a link_t \<Rightarrow> bool" where
  "crossing p q \<longleftrightarrow> src p < src q \<and> dest q < dest p \<or> src q < src p \<and> dest p < dest q"

definition by_ends :: "('a link_t \<times> 'v) list \<Rightarrow> 'a option \<times> 'a option \<rightharpoonup> 'v" where
  "by_ends t = map_of (map (\<lambda>(q, v). (ends q, v)) t)"

definition strictly_ordered :: "(('a::linorder) link_t \<times> 'v) list \<Rightarrow> bool" where
  "strictly_ordered t = sorted_wrt (\<lambda>p q. link_less p q \<and> \<not> link_less q p) (map fst t)"

lemma crossing_less: "link_less p q \<and> link_less q p \<longleftrightarrow> crossing p q"
  by (auto simp: link_less_def crossing_def)

lemma crossing_ends: "ends p = ends q \<Longrightarrow> crossing p r = crossing q r"
  by (simp add: ends_def crossing_def)

lemma crossing_sym: "crossing p q = crossing q p"
  by (auto simp: crossing_def)

lemma same_ends: "\<not> link_less p q \<and> \<not> link_less q p \<longleftrightarrow> ends p = ends q"
  by (auto simp: link_less_def ends_def)

lemma by_ends_Nil [simp]: "by_ends [] = Map.empty"
  by (simp add: by_ends_def)

lemma by_ends_Cons: "by_ends ((q, v) # t) = (by_ends t)(ends q \<mapsto> v)"
  by (simp add: by_ends_def)

lemma by_ends_dom: "by_ends t k \<noteq> None \<longleftrightarrow> (\<exists>(q, v) \<in> set t. ends q = k)"
  by (force simp: by_ends_def map_of_eq_None_iff)

lemma unordered_keys_iff: "unordered_keys p t \<longleftrightarrow> (\<exists>(q, v) \<in> set t. crossing p q)"
  by (auto simp: unordered_keys_def list_ex_iff crossing_less)

lemma find_plink_by_ends:
  assumes "\<not> unordered_keys p t"
  shows "find_plink p t = Inr (by_ends t (ends p))"
proof -
  have "map_option snd (find (\<lambda>(q, _). \<not> link_less p q \<and> \<not> link_less q p) t) = by_ends t (ends p)"
    by (induction t) (auto simp: same_ends by_ends_def)
  with assms show ?thesis by (simp add: find_plink_def)
qed

lemma by_ends_put:
  assumes "strictly_ordered t" "\<not> unordered_keys p t"
  shows "by_ends (put_plink p v t) = (by_ends t)(ends p \<mapsto> v)"
  using assms
proof (induction p v t rule: put_plink.induct)
  case (2 p v q w t)
  have ne: "link_less p q \<Longrightarrow> \<not> link_less q p \<Longrightarrow> ends p \<noteq> ends q" for p q :: "'a link_t"
    using same_ends by blast
  show ?case
  proof (cases "link_less q p")
    case True
    with 2 ne [of q p] show ?thesis
      by (auto simp: by_ends_Cons strictly_ordered_def unordered_keys_def)
  next
    case False
    then show ?thesis using same_ends [of p q] by (auto simp: by_ends_Cons)
  qed
qed (simp add: by_ends_Cons)

lemma set_put: "set (map fst (put_plink p v t)) \<subseteq> insert p (set (map fst t))"
  by (induction p v t rule: put_plink.induct) auto

lemma link_less_trans:
  assumes "link_less p q" "\<not> link_less q p" "link_less q r" "\<not> link_less r q"
  shows "link_less p r \<and> \<not> link_less r p"
  using assms by (auto simp: link_less_def split: if_splits)

lemma ordered_put:
  assumes "strictly_ordered t" "\<not> unordered_keys p t"
  shows "strictly_ordered (put_plink p v t)"
  using assms
proof (induction p v t rule: put_plink.induct)
  case (2 p v q w t)
  have t: "strictly_ordered t" "\<not> unordered_keys p t" "\<not> (link_less p q \<and> link_less q p)"
    and q: "\<forall>r \<in> set (map fst t). link_less q r \<and> \<not> link_less r q"
    using "2.prems" by (auto simp: strictly_ordered_def unordered_keys_def)
  show ?case
  proof (cases "link_less q p")
    case True
    then have "\<forall>r \<in> set (map fst (put_plink p v t)). link_less q r \<and> \<not> link_less r q"
      using q t(3) set_put [of p v t] by blast
    then show ?thesis using True "2.IH"(1) [OF True t(1,2)] by (simp add: strictly_ordered_def)
  next
    case False
    show ?thesis
    proof (cases "link_less p q")
      case True
      then have "\<forall>r \<in> set (map fst t). link_less p r \<and> \<not> link_less r p"
        using q False link_less_trans by blast
      then show ?thesis using True False "2.prems"(1) by (simp add: strictly_ordered_def)
    next
      case nl: False
      then show ?thesis using False "2.prems"(1) by (simp add: strictly_ordered_def)
    qed
  qed
qed (simp add: strictly_ordered_def)

subsection \<open>A sequence of mappings\<close>

fun map_all :: "('l link_t \<times> ('a::linorder) link_t) list \<Rightarrow> ('a, 'l) phy_comm_res
    \<Rightarrow> ('a, 'l) phy_comm_res result" where
  "map_all [] r = Inr r"
| "map_all ((l, p) # xs) r = rbind (map_links l p r) (map_all xs)"

definition mapped_to :: "'a option \<times> 'a option \<Rightarrow> ('l link_t \<times> 'a link_t) list \<Rightarrow> 'l link_t list" where
  "mapped_to k xs = map fst (filter (\<lambda>(l, p). ends p = k) xs)"

text \<open>What the table holds after the mappings \<open>xs\<close>.\<close>

definition holds_mapping :: "('l link_t \<times> ('a::linorder) link_t) list \<Rightarrow> ('a, 'l) phy_comm_res \<Rightarrow> bool" where
  "holds_mapping xs r \<longleftrightarrow> strictly_ordered (plinks_llinks_table r)
     \<and> by_ends (plinks_llinks_table r) =
         (\<lambda>k. if mapped_to k xs = [] then None else Some (mapped_to k xs))"

lemma mapped_to_snoc:
  "mapped_to k (xs @ [(l, p)]) = (if ends p = k then mapped_to k xs @ [l] else mapped_to k xs)"
  by (simp add: mapped_to_def)

lemma mapped_to_Nil_iff: "mapped_to k xs = [] \<longleftrightarrow> (\<forall>(l, p) \<in> set xs. ends p \<noteq> k)"
  by (auto simp: mapped_to_def filter_empty_conv)

lemma length_mapped_to: "length (mapped_to k xs) \<le> length xs"
  by (simp add: mapped_to_def)

lemma unordered_mapping:
  assumes "holds_mapping xs r"
  shows "unordered_keys p (plinks_llinks_table r) \<longleftrightarrow> (\<exists>(l, q) \<in> set xs. crossing p q)"
proof -
  have keys: "(\<exists>(q, v) \<in> set (plinks_llinks_table r). ends q = k) \<longleftrightarrow> (\<exists>(l, q) \<in> set xs. ends q = k)" for k
    using assms mapped_to_Nil_iff [of k xs]
    by (auto simp: holds_mapping_def by_ends_dom [symmetric] split: if_splits)
  have "(\<exists>(q, v) \<in> set (plinks_llinks_table r). crossing p q) \<longleftrightarrow>
        (\<exists>q. (\<exists>(q', v) \<in> set (plinks_llinks_table r). ends q' = ends q) \<and> crossing p q)"
    using crossing_ends crossing_sym by (blast intro: refl)
  also have "\<dots> \<longleftrightarrow> (\<exists>q. (\<exists>(l, q') \<in> set xs. ends q' = ends q) \<and> crossing p q)"
    by (simp only: keys)
  also have "\<dots> \<longleftrightarrow> (\<exists>(l, q) \<in> set xs. crossing p q)"
    using crossing_ends crossing_sym by (blast intro: refl)
  finally show ?thesis by (simp only: unordered_keys_iff)
qed

lemma of_nat_u32_pos: "0 < n \<Longrightarrow> n < 2 ^ 32 \<Longrightarrow> (of_nat n :: u32) > 0"
  by (simp add: word_less_nat_alt unat_of_nat take_bit_nat_eq_self_iff unsigned_of_nat)

lemma map_links_step:
  assumes inv: "holds_mapping xs r" and len: "length xs < 2 ^ 32"
  shows "map_links l p r =
    (if \<exists>(l', q) \<in> set xs. crossing p q then undef ''keys not ordered''
     else Inr (r\<lparr>plinks_llinks_table :=
            put_plink p (mapped_to (ends p) xs @ [l]) (plinks_llinks_table r)\<rparr>))"
proof (cases "unordered_keys p (plinks_llinks_table r)")
  case True
  then have "\<exists>(l', q) \<in> set xs. crossing p q" using unordered_mapping [OF inv] by simp
  with True show ?thesis
    by (cases "plinks_llinks_table r")
      (auto simp: map_links_def map_in_table_def find_plink_def unordered_keys_def)
next
  case False
  then have no: "\<not> (\<exists>(l', q) \<in> set xs. crossing p q)" using unordered_mapping [OF inv] by simp
  have lk: "find_plink p (plinks_llinks_table r) =
      Inr (if mapped_to (ends p) xs = [] then None else Some (mapped_to (ends p) xs))"
    using find_plink_by_ends [OF False] inv by (simp add: holds_mapping_def)
  have empty: "plinks_llinks_table r = [] \<Longrightarrow> mapped_to (ends p) xs = []"
    using lk by (auto simp: find_plink_def unordered_keys_def split: if_splits)
  have pos: "mapped_to (ends p) xs \<noteq> [] \<Longrightarrow> get_number_llinks (mapped_to (ends p) xs) > 0"
    using of_nat_u32_pos [of "length (mapped_to (ends p) xs)"] length_mapped_to [of "ends p" xs] len
    by (simp add: get_number_llinks_def)
  show ?thesis
    unfolding map_links_def map_in_table_def lk if_not_P [OF no]
    using pos empty by (auto simp: assign_llink_def Let_def)
qed

lemma map_links_holds:
  assumes inv: "holds_mapping xs r" and len: "length xs < 2 ^ 32" and ok: "map_links l p r = Inr r'"
  shows "holds_mapping (xs @ [(l, p)]) r'"
proof -
  have no: "\<not> (\<exists>(l', q) \<in> set xs. crossing p q)"
    and r': "r' = r\<lparr>plinks_llinks_table :=
        put_plink p (mapped_to (ends p) xs @ [l]) (plinks_llinks_table r)\<rparr>"
    using ok unfolding map_links_step [OF inv len] by (auto split: if_splits)
  have u: "\<not> unordered_keys p (plinks_llinks_table r)" using no unordered_mapping [OF inv] by simp
  have o: "strictly_ordered (plinks_llinks_table r)" using inv by (simp add: holds_mapping_def)
  show ?thesis
    unfolding holds_mapping_def r'
    using ordered_put [OF o u] by_ends_put [OF o u] inv
    by (auto simp: holds_mapping_def mapped_to_snoc fun_eq_iff)
qed

text \<open>No link of \<open>xs\<close> crosses an earlier one or one mapped before, \<open>ys\<close>.\<close>

fun crosses_earlier :: "('a::linorder) link_t list \<Rightarrow> 'a link_t list \<Rightarrow> bool" where
  "crosses_earlier ys [] = False"
| "crosses_earlier ys (p # ps) = (list_ex (crossing p) ys \<or> crosses_earlier (ys @ [p]) ps)"

lemma map_all_from:
  assumes "holds_mapping xs r" "length xs + length ys \<le> 2 ^ 32"
  shows "if crosses_earlier (map snd xs) (map snd ys) then map_all ys r = undef ''keys not ordered''
         else \<exists>r'. map_all ys r = Inr r' \<and> holds_mapping (xs @ ys) r'"
  using assms
proof (induction ys arbitrary: xs r)
  case (Cons y ys)
  obtain l p where y: "y = (l, p)" by (cases y)
  have len: "length xs < 2 ^ 32" using Cons.prems(2) by simp
  note step = map_links_step [OF Cons.prems(1) len, of l p]
  have ex: "(\<exists>(l', q) \<in> set xs. crossing p q) \<longleftrightarrow> list_ex (crossing p) (map snd xs)"
    by (force simp: list_ex_iff)
  show ?case
  proof (cases "list_ex (crossing p) (map snd xs)")
    case True
    then show ?thesis using step ex by (simp add: y)
  next
    case False
    then obtain r1 where r1: "map_links l p r = Inr r1" using step ex by auto
    have h: "holds_mapping (xs @ [(l, p)]) r1" by (rule map_links_holds [OF Cons.prems(1) len r1])
    show ?thesis
      using Cons.IH [OF h] Cons.prems(2) r1 False by (simp add: y split: if_splits)
  qed
qed simp

lemma crosses_earlier_iff:
  "crosses_earlier ys ps \<longleftrightarrow>
     (\<exists>i < length ps. \<exists>q \<in> set ys \<union> set (take i ps). crossing (ps ! i) q)"
proof (induction ps arbitrary: ys)
  case (Cons p ps)
  have "crosses_earlier ys (p # ps) \<longleftrightarrow> (\<exists>q \<in> set ys. crossing p q)
     \<or> (\<exists>i < length ps. \<exists>q \<in> set ys \<union> insert p (set (take i ps)). crossing (ps ! i) q)"
    by (simp add: Cons.IH list_ex_iff)
  also have "\<dots> \<longleftrightarrow> (\<exists>i < length (p # ps). \<exists>q \<in> set ys \<union> set (take i (p # ps)). crossing ((p # ps) ! i) q)"
    by (simp add: Ex_less_Suc2)
  finally show ?case .
qed simp


lemma crosses_earlier_pairs:
  "crosses_earlier [] ps \<longleftrightarrow> (\<exists>i < length ps. \<exists>j < i. crossing (ps ! i) (ps ! j))"
proof -
  have first: "(\<exists>q \<in> set (take i ps). P q) \<longleftrightarrow> (\<exists>j < i. P (ps ! j))" if "i < length ps" for i and P :: "'a link_t \<Rightarrow> bool"
    using nth_image [of i ps, symmetric] that by auto
  show ?thesis by (simp add: crosses_earlier_iff first cong: conj_cong)
qed

lemma not_crossing:
  assumes "\<not> crosses_earlier [] ps" "p \<in> set ps" "q \<in> set ps"
  shows "\<not> crossing p q"
proof -
  obtain i j where ij: "i < length ps" "j < length ps" "p = ps ! i" "q = ps ! j"
    using assms(2,3) by (auto simp: in_set_conv_nth)
  consider "i < j" | "j < i" | "i = j" by linarith
  then show ?thesis
  proof cases
    case 3
    then show ?thesis using ij by (simp add: crossing_def)
  qed (use assms(1) ij crosses_earlier_pairs crossing_sym in blast)+
qed

subsection \<open>Properties\<close>

text \<open>
  The logic links mapped to the physical links of a resource. A sequence of mappings into an empty
  table is undefined exactly when some physical link crosses an earlier one, i.e. its source is
  smaller and its destination greater or the other way round, as a link and its reverse always do;
  otherwise it ends without error, and the number of logic links of each physical link used is the
  number of mappings to a link with its ends.
\<close>
theorem mapped_links_exact:
  assumes "plinks_llinks_table r = []" "length xs < 2 ^ 32"
  shows "if \<exists>i < length xs. \<exists>j < i. crossing (snd (xs ! i)) (snd (xs ! j))
    then map_all xs r = undef ''keys not ordered''
    else \<exists>r'. map_all xs r = Inr r' \<and>
      (\<forall>(l, p) \<in> set xs. number_of_llinks p r' =
         Inr (of_nat (length (filter (\<lambda>(l', q). link_eq p q) xs))))"
proof -
  have "holds_mapping [] r" using assms(1) by (simp add: holds_mapping_def strictly_ordered_def mapped_to_def)
  note all = map_all_from [OF this, of xs]
  have cross: "crosses_earlier [] (map snd xs) \<longleftrightarrow>
      (\<exists>i < length xs. \<exists>j < i. crossing (snd (xs ! i)) (snd (xs ! j)))"
    by (simp add: crosses_earlier_pairs cong: conj_cong)
  show ?thesis
  proof (cases "crosses_earlier [] (map snd xs)")
    case False
    then obtain r' where r': "map_all xs r = Inr r'" "holds_mapping xs r'"
      using all assms(2) by auto
    have "number_of_llinks p r' = Inr (of_nat (length (filter (\<lambda>(l', q). link_eq p q) xs)))"
      if p: "(l, p) \<in> set xs" for l p
    proof -
      have "\<not> unordered_keys p (plinks_llinks_table r')"
        unfolding unordered_mapping [OF r'(2)]
        using not_crossing [OF False, of p] p by (force simp: image_iff)
      then have "find_plink p (plinks_llinks_table r') = Inr (Some (mapped_to (ends p) xs))"
        using find_plink_by_ends [of p "plinks_llinks_table r'"] r'(2) p mapped_to_Nil_iff [of "ends p" xs]
        by (auto simp: holds_mapping_def)
      then show ?thesis
        by (simp add: number_of_llinks_def get_number_llinks_def mapped_to_def link_eq_def ends_def
            eq_commute)
    qed
    then show ?thesis using False r'(1) cross by auto
  qed (use all assms(2) cross in simp)
qed

theorem mapped_links_exact_witness:
  "(\<exists>r' :: (nat, nat) phy_comm_res.
      number_of_llinks (link_between (Some 0) (Some 1)) r' = Inr 2)
   \<and> map_all [(new_link, link_between (Some 0) (Some 1)), (new_link, link_between (Some 1) (Some 0))]
       (\<lparr>comm_res_name = ''net'', BW_limit = Fin 1, connections_limit = 0, time_invariant = False,
         dimension_time_invariant = True, connections_time_invariant = False,
         connections_message_size_invariant = True, connected_elements = [],
         links_table = Map.empty, info_at = (\<lambda>_. new_link_info), next_info = 0,
         plinks_llinks_table = []\<rparr> :: (nat, nat) phy_comm_res) = undef ''keys not ordered''"
proof -
  let ?r = "\<lparr>comm_res_name = ''net'', BW_limit = Fin 1, connections_limit = 0, time_invariant = False,
         dimension_time_invariant = True, connections_time_invariant = False,
         connections_message_size_invariant = True, connected_elements = [],
         links_table = Map.empty, info_at = (\<lambda>_. new_link_info), next_info = 0,
         plinks_llinks_table = []\<rparr> :: (nat, nat) phy_comm_res"
  define f b where fb: "f = link_between (Some 0) (Some (1 :: nat))" "b = link_between (Some 1) (Some (0 :: nat))"
  have c: "\<not> crossing f f" "crossing b f" "link_eq f f"
    by (simp_all add: fb crossing_def link_between_def link_eq_def)
  have two: "(\<exists>i < length [x, y]. \<exists>j < i. P i j) \<longleftrightarrow> P 1 0" for x y :: "nat link_t \<times> nat link_t" and P
    by (auto simp: less_Suc_eq)
  have "\<exists>r' :: (nat, nat) phy_comm_res. number_of_llinks f r' = Inr 2"
    using mapped_links_exact [of ?r "[(new_link, f), (new_link, f)]", unfolded two] c by auto
  moreover have "map_all [(new_link, f), (new_link, b)] ?r = undef ''keys not ordered''"
    using mapped_links_exact [of ?r "[(new_link, f), (new_link, b)]", unfolded two] c by simp
  ultimately show ?thesis by (simp only: fb)
qed

end
