(* ===== verification/Shared_Bus.thy ===== *)
theory Shared_Bus
  imports Comm_Res
begin

text \<open>
  \<open>comm_res/buses/shared_bus.cpp\<close>: a bus described by its width, bandwidth and frequency, the check of
  their coherence, and the delay operations, which it does not implement.
\<close>

record 'a shared_bus = "'a comm_res" +
  bus_width_bits :: u32
  bus_bandwidth_bps :: double
  bus_frequency_Hz :: double

definition set_default_params :: "'a shared_bus \<Rightarrow> 'a shared_bus" where
  "set_default_params b =
     b\<lparr>bus_width_bits := 32, bus_bandwidth_bps := Fin 100000, bus_frequency_Hz := Fin 3200000\<rparr>"

text \<open>
  The parameter \<open>name\<close> of the constructor is not passed on: the base class takes its default, a name
  made unique by the kernel, \<open>gen\<close>.
\<close>

definition new_shared_bus :: "(string \<Rightarrow> string) \<Rightarrow> sim_env \<Rightarrow> string \<Rightarrow> 'a shared_bus result" where
  "new_shared_bus gen e name =
     rmap (\<lambda>r. set_default_params (comm_res.extend r (shared_bus.fields 0 (Fin 0) (Fin 0))))
       (new_comm_res e (gen ''phy_comm_res''))"

definition bus_set_width :: "sim_env \<Rightarrow> u32 \<Rightarrow> 'a shared_bus \<Rightarrow> 'a shared_bus result" where
  "bus_set_width e w b = rmap (\<lambda>_. b\<lparr>bus_width_bits := w\<rparr>) (check_call_before_sim_start e ''set_width'')"

definition bus_get_width :: "'a shared_bus \<Rightarrow> u32" where
  "bus_get_width b = bus_width_bits b"

definition bus_set_frequency :: "sim_env \<Rightarrow> double \<Rightarrow> 'a shared_bus \<Rightarrow> 'a shared_bus result" where
  "bus_set_frequency e f b =
     rmap (\<lambda>_. b\<lparr>bus_frequency_Hz := f\<rparr>) (check_call_before_sim_start e ''set_frequency'')"

definition bus_get_frequency :: "'a shared_bus \<Rightarrow> double" where
  "bus_get_frequency b = bus_frequency_Hz b"

definition bus_set_bandwidth :: "sim_env \<Rightarrow> double \<Rightarrow> 'a shared_bus \<Rightarrow> 'a shared_bus result" where
  "bus_set_bandwidth e w b =
     rmap (\<lambda>_. b\<lparr>bus_bandwidth_bps := w\<rparr>) (check_call_before_sim_start e ''set_bandwidth'')"

definition bus_get_bandwidth :: "'a shared_bus \<Rightarrow> double" where
  "bus_get_bandwidth b = bus_bandwidth_bps b"

text \<open>
  The message of the last error appends doubles to a string, each converted to a character; a
  truncated value outside the range of a signed character is undefined.
\<close>

definition appends_as_char :: "double \<Rightarrow> bool" where
  "appends_as_char d = (case d of Fin x \<Rightarrow> - 129 < x \<and> x < 128 | _ \<Rightarrow> False)"

definition configuration_error :: "'a shared_bus \<Rightarrow> double" where
  "configuration_error b =
     (let calc = dmul (of_u32 (bus_width_bits b)) (bus_frequency_Hz b) in
      if dless calc (bus_bandwidth_bps b) then ddiv (dsub (bus_bandwidth_bps b) calc) calc
      else ddiv (dsub calc (bus_bandwidth_bps b)) (bus_bandwidth_bps b))"

definition bus_before_end_of_elaboration :: "'a shared_bus \<Rightarrow> unit result" where
  "bus_before_end_of_elaboration b =
     (let setting = ''Setting shared bus '' @ comm_res_name b in
      rbind (check (bus_width_bits b \<noteq> 0) (setting @ ''. Bus width cannot be 0 bits.'')) (\<lambda>_.
      rbind (check (bus_bandwidth_bps b \<noteq> Fin 0) (setting @ ''. Bus bandwidth cannot be 0 bps.'')) (\<lambda>_.
      rbind (check (bus_frequency_Hz b \<noteq> Fin 0) (setting @ ''. Bus frequency cannot be 0.0 Hz.'')) (\<lambda>_.
        if dless (Fin (1 / 1000)) (configuration_error b) then
          (if appends_as_char (bus_bandwidth_bps b) \<and> appends_as_char (bus_frequency_Hz b)
              \<and> appends_as_char (configuration_error b)
           then report (setting @ ''. Incoherent setting of attributes.'')
           else undef ''conversion out of range'')
        else Inr ()))))"

text \<open>The eight delay operations of the class.\<close>

definition bus_delay_operation :: "'a link_t \<Rightarrow> u32 \<Rightarrow> 'a shared_bus \<Rightarrow> 'r result" where
  "bus_delay_operation l sz b = report ''method of shared bus not implemented''"

subsection \<open>Properties\<close>

text \<open>Relative deviation between two positive quantities, over the smaller one.\<close>

definition deviation :: "rat \<Rightarrow> rat \<Rightarrow> rat" where
  "deviation a b = \<bar>a - b\<bar> / min a b"

lemma deviation_le: "0 < min a b \<Longrightarrow> deviation a b \<le> 1 / 1000 \<longleftrightarrow> 1000 * \<bar>a - b\<bar> \<le> min a b"
  unfolding deviation_def by (subst pos_divide_le_eq) auto

lemma capacity_pos: "w \<noteq> 0 \<Longrightarrow> 0 < f \<Longrightarrow> 0 < (of_nat (unat (w :: u32)) :: rat) * f"
  by (intro mult_pos_pos of_nat_0_less_iff [THEN iffD2]) (simp_all add: unat_gt_0)

lemma configuration_error_deviation:
  assumes "bus_bandwidth_bps b = Fin w" "bus_frequency_Hz b = Fin f" "0 < w" "0 < f" "bus_width_bits b \<noteq> 0"
  shows "configuration_error b = Fin (deviation (of_nat (unat (bus_width_bits b)) * f) w)"
proof -
  have "0 < (of_nat (unat (bus_width_bits b)) :: rat) * f" by (rule capacity_pos [OF assms(5,4)])
  moreover from this have "(of_nat (unat (bus_width_bits b)) :: rat) * f \<noteq> 0" by (rule less_imp_neq [symmetric])
  ultimately show ?thesis
    using assms(1-3) unfolding configuration_error_def deviation_def Let_def of_u32_def
    by (simp add: min_def del: of_nat_unat mult_eq_0_iff zero_less_mult_iff)
qed

text \<open>
  The coherence check of the shared bus. For a positive bandwidth, frequency and width the check
  passes exactly when the product of width and frequency and the bandwidth deviate by at most one
  thousandth of the smaller of the two; and a bus left with the default parameters never passes.
\<close>
theorem shared_bus_coherent:
  assumes "bus_bandwidth_bps b = Fin w" "bus_frequency_Hz b = Fin f" "0 < w" "0 < f" "bus_width_bits b \<noteq> 0"
  shows "(bus_before_end_of_elaboration b = Inr () \<longleftrightarrow>
      1000 * \<bar>of_nat (unat (bus_width_bits b)) * f - w\<bar> \<le> min (of_nat (unat (bus_width_bits b)) * f) w)
    \<and> \<not> is_ok (bus_before_end_of_elaboration (set_default_params b'))"
proof
  let ?n = "of_nat (unat (bus_width_bits b)) :: rat"
  have pos: "0 < min (?n * f) w" using assms(3) capacity_pos [OF assms(5,4)] by (simp only: min_less_iff_conj)
  have "bus_before_end_of_elaboration b = Inr () \<longleftrightarrow> deviation (?n * f) w \<le> 1 / 1000"
    using assms(1-5) configuration_error_deviation [OF assms]
    by (auto simp: bus_before_end_of_elaboration_def Let_def not_less)
  also have "\<dots> \<longleftrightarrow> 1000 * \<bar>?n * f - w\<bar> \<le> min (?n * f) w"
    by (rule deviation_le [OF pos])
  finally show "bus_before_end_of_elaboration b = Inr () \<longleftrightarrow>
      1000 * \<bar>?n * f - w\<bar> \<le> min (?n * f) w" .
  show "\<not> is_ok (bus_before_end_of_elaboration (set_default_params b'))"
    by (simp add: bus_before_end_of_elaboration_def set_default_params_def configuration_error_def
        Let_def of_u32_def appends_as_char_def)
qed

theorem shared_bus_coherent_witness:
  "\<exists>b :: nat shared_bus. bus_width_bits b = 32 \<and> bus_before_end_of_elaboration b = Inr ()"
proof -
  define b :: "nat shared_bus" where
    "b = \<lparr>comm_res_name = ''bus'', BW_limit = Fin 1, connections_limit = 0, time_invariant = False,
         dimension_time_invariant = True, connections_time_invariant = False,
         connections_message_size_invariant = True, connected_elements = [],
         links_table = Map.empty, info_at = (\<lambda>_. new_link_info), next_info = 0,
         bus_width_bits = 32, bus_bandwidth_bps = Fin 3200000, bus_frequency_Hz = Fin 100000\<rparr>"
  have "bus_before_end_of_elaboration b = Inr ()"
    using shared_bus_coherent [of b 3200000 100000 b] by (simp add: b_def)
  then show ?thesis by (intro exI [of _ b]) (simp add: b_def)
qed

end
