(* ===== verification/Messages.thy ===== *)
theory Messages
  imports Prelude
begin

text \<open>
  \<open>types.cpp\<close>: messages, i.e. copies of host memory that channels transport, and the comparison of the
  tables with character pointers as keys. A pointer to an array is the number of its block in a heap,
  the null pointer \<open>None\<close>; reading a freed or null array finds no byte. The content of an array made by
  \<open>new\<close> is indeterminate: it is the argument \<open>raw\<close>.
\<close>

subsection \<open>Comparison of character pointers\<close>

text \<open>\<open>strcmp(str1,str2)<0\<close> on the characters before the terminators, compared as unsigned.\<close>

fun const_char_cmp :: "string \<Rightarrow> string \<Rightarrow> bool" where
  "const_char_cmp _ [] = False"
| "const_char_cmp [] (d # _) = True"
| "const_char_cmp (c # s) (d # t) =
     (if (of_char c :: nat) = of_char d then const_char_cmp s t else (of_char c :: nat) < of_char d)"

lemma const_char_cmp_irrefl: "\<not> const_char_cmp s s"
  by (induction s) simp_all

lemma const_char_cmp_trans: "const_char_cmp s t \<Longrightarrow> const_char_cmp t u \<Longrightarrow> const_char_cmp s u"
proof (induction s t arbitrary: u rule: const_char_cmp.induct)
  case (2 d t)
  then show ?case by (cases u) auto
next
  case (3 c s d t)
  then show ?case by (cases u) (auto split: if_splits)
qed simp

lemma const_char_cmp_total: "s \<noteq> t \<Longrightarrow> const_char_cmp s t \<or> const_char_cmp t s"
proof (induction s t rule: const_char_cmp.induct)
  case (1 s)
  then show ?case by (cases s) simp_all
next
  case (3 c s d t)
  then show ?case by (cases "of_char c :: nat" "of_char d :: nat" rule: linorder_cases) auto
qed simp

subsection \<open>Heap and messages\<close>

record heap =
  blocks :: "nat \<rightharpoonup> char list"
  next_block :: nat

record message_t =
  host_size :: u64
  datap :: "nat option"

definition bytes_at :: "heap \<Rightarrow> nat option \<Rightarrow> char list" where
  "bytes_at h p =
     (case p of None \<Rightarrow> [] | Some q \<Rightarrow> (case blocks h q of None \<Rightarrow> [] | Some bs \<Rightarrow> bs))"

definition message_bytes :: "heap \<Rightarrow> message_t \<Rightarrow> char list" where
  "message_bytes h m = bytes_at h (datap m)"

definition new_array :: "char list \<Rightarrow> heap \<Rightarrow> nat \<times> heap" where
  "new_array bs h = (next_block h, h\<lparr>blocks := (blocks h)(next_block h \<mapsto> bs), next_block := Suc (next_block h)\<rparr>)"

definition delete_array :: "nat \<Rightarrow> heap \<Rightarrow> heap result" where
  "delete_array p h =
     (case blocks h p of None \<Rightarrow> undef ''delete of no array'' | Some _ \<Rightarrow> Inr (h\<lparr>blocks := (blocks h)(p := None)\<rparr>))"

text \<open>
  The loop that copies the bytes, from \<open>src\<close> to \<open>dst\<close>. Its index is an \<open>unsigned int\<close> and its bound a
  \<open>size_t\<close>: for a bound of \<open>2 ^ 32\<close> or more it does not end, which is the value \<open>None\<close>.
\<close>

partial_function (option) copy_loop ::
    "u32 \<Rightarrow> u64 \<Rightarrow> char list \<Rightarrow> char list \<Rightarrow> char list result option" where
  "copy_loop i n src dst =
     (if unat i < unat n then
        (if unat i < length src \<and> unat i < length dst
         then copy_loop (i + 1) n src (dst[unat i := src ! unat i])
         else Some (undef ''access outside of an array''))
      else Some (Inr dst))"

definition new_message :: message_t where
  "new_message = \<lparr>host_size = 0, datap = None\<rparr>"

definition raw_array :: "(nat \<Rightarrow> char) \<Rightarrow> u64 \<Rightarrow> char list" where
  "raw_array raw n = map raw [0..<unat n]"

text \<open>What the constructor from a pointer, with \<open>bs\<close> the bytes it points to, and the copies share.\<close>

definition fill_message ::
    "(nat \<Rightarrow> char) \<Rightarrow> u64 \<Rightarrow> char list \<Rightarrow> heap \<Rightarrow> (message_t \<times> heap) result option" where
  "fill_message raw n bs h =
     map_option (rmap (\<lambda>cs. let (p, h1) = new_array cs h in (\<lparr>host_size = n, datap = Some p\<rparr>, h1)))
       (copy_loop 0 n bs (raw_array raw n))"

definition new_message_from ::
    "(nat \<Rightarrow> char) \<Rightarrow> char list \<Rightarrow> u64 \<Rightarrow> heap \<Rightarrow> (message_t \<times> heap) result option" where
  "new_message_from raw bs sz h = fill_message raw sz bs h"

text \<open>
  The body of the copy constructor and of the assignment: the array the member \<open>old\<close> points to is
  deleted before the other message is read.
\<close>

definition replace_message ::
    "(nat \<Rightarrow> char) \<Rightarrow> nat option \<Rightarrow> message_t \<Rightarrow> heap \<Rightarrow> (message_t \<times> heap) result option" where
  "replace_message raw old other h =
     (case (case old of None \<Rightarrow> Inr h | Some p \<Rightarrow> delete_array p h) of
        Inl f \<Rightarrow> Some (Inl f)
      | Inr h1 \<Rightarrow> fill_message raw (host_size other) (bytes_at h1 (datap other)) h1)"

text \<open>The copy constructor tests and deletes its own member, which is still indeterminate.\<close>

definition message_copy ::
    "(nat \<Rightarrow> char) \<Rightarrow> nat option \<Rightarrow> message_t \<Rightarrow> heap \<Rightarrow> (message_t \<times> heap) result option" where
  "message_copy raw indeterminate other h = replace_message raw indeterminate other h"

text \<open>The assignment ends without a return statement.\<close>

definition message_assign ::
    "(nat \<Rightarrow> char) \<Rightarrow> message_t \<Rightarrow> message_t \<Rightarrow> heap \<Rightarrow> (message_t \<times> heap) result option" where
  "message_assign raw m other h =
     map_option (\<lambda>r. rbind r (\<lambda>_. undef ''missing return value'')) (replace_message raw (datap m) other h)"

definition message_to_pointer :: "message_t \<Rightarrow> nat option" where
  "message_to_pointer m = datap m"

subsection \<open>The copying loop\<close>

lemma copy_loop_ends:
  assumes "unat i \<le> unat n" "unat n < 2 ^ 32" "unat n \<le> length src" "unat n \<le> length dst"
  shows "copy_loop i n src dst =
    Some (Inr (take (unat i) dst @ take (unat n - unat i) (drop (unat i) src) @ drop (unat n) dst))"
  using assms
proof (induction "unat n - unat i" arbitrary: i dst)
  case 0
  then show ?case by (subst copy_loop.simps) simp
next
  case (Suc k)
  have lt: "unat i < unat n" using Suc.hyps(2) by linarith
  have nxt: "unat (i + 1) = Suc (unat i)"
    using lt Suc.prems(2) by (simp add: unat_word_ariths(1))
  have "copy_loop i n src dst = copy_loop (i + 1) n src (dst[unat i := src ! unat i])"
    using lt Suc.prems by (subst copy_loop.simps) simp
  also have "\<dots> = Some (Inr (take (Suc (unat i)) (dst[unat i := src ! unat i])
      @ take (unat n - Suc (unat i)) (drop (Suc (unat i)) src) @ drop (unat n) (dst[unat i := src ! unat i])))"
    using Suc.hyps(1) [of "i + 1" "dst[unat i := src ! unat i]"] Suc.hyps(2) Suc.prems lt
    by (simp add: nxt)
  also have "take (Suc (unat i)) (dst[unat i := src ! unat i]) = take (unat i) dst @ [src ! unat i]"
    using lt Suc.prems(4) by (simp add: take_Suc_conv_app_nth)
  also have "drop (unat n) (dst[unat i := src ! unat i]) = drop (unat n) dst"
    using lt by simp
  also have "(take (unat i) dst @ [src ! unat i]) @ take (unat n - Suc (unat i)) (drop (Suc (unat i)) src)
      @ drop (unat n) dst = take (unat i) dst @ take (unat n - unat i) (drop (unat i) src) @ drop (unat n) dst"
    using lt Suc.prems(3) Cons_nth_drop_Suc [of "unat i" src, symmetric]
    by (simp add: take_Cons' Suc_diff_Suc)
  finally show ?case .
qed

lemma copy_loop_diverges:
  assumes "copy_loop i n src dst = Some r" "2 ^ 32 \<le> unat n"
  shows "length src < 2 ^ 32 \<or> length dst < 2 ^ 32"
proof -
  have "2 ^ 32 \<le> unat n \<longrightarrow> length src < 2 ^ 32 \<or> length dst < 2 ^ 32"
  proof (rule copy_loop.raw_induct [OF _ assms(1), where P = "\<lambda>i n src dst r. 2 ^ 32 \<le> unat n \<longrightarrow>
        length src < 2 ^ 32 \<or> length dst < (2 :: nat) ^ 32"])
    fix copy and i :: u32 and n :: u64 and src dst :: "char list" and r
    assume "\<And>i n src dst r. copy i n src dst = Some r \<Longrightarrow>
        2 ^ 32 \<le> unat n \<longrightarrow> length src < 2 ^ 32 \<or> length dst < (2 :: nat) ^ 32"
      and "(if unat i < unat n then
              (if unat i < length src \<and> unat i < length dst
               then copy (i + 1) n src (dst[unat i := src ! unat i])
               else Some (undef ''access outside of an array''))
            else Some (Inr dst)) = Some r"
    then show "2 ^ 32 \<le> unat n \<longrightarrow> length src < 2 ^ 32 \<or> length dst < (2 :: nat) ^ 32"
      using unsigned_less [of i, where 'a = nat] by (fastforce split: if_splits)
  qed
  then show ?thesis using assms(2) by simp
qed

subsection \<open>Properties\<close>

text \<open>
  C24: Copying a message ends, with the bytes copied, exactly when its size is below \<open>2 ^ 32\<close>: the index of
  the loop has 32 bits and its bound 64.
\<close>
theorem message_copy_terminates:
  assumes "unat n \<le> length src" "unat n \<le> length dst"
  shows "if unat n < 2 ^ 32 then copy_loop 0 n src dst = Some (Inr (take (unat n) src @ drop (unat n) dst))
         else copy_loop 0 n src dst = None"
proof (cases "unat n < 2 ^ 32")
  case True
  then show ?thesis using copy_loop_ends [of 0 n src dst] assms by simp
next
  case False
  then have "2 ^ 32 \<le> length src" "2 ^ 32 \<le> length dst" using assms by simp_all
  then have "copy_loop 0 n src dst \<noteq> Some r" for r
    using copy_loop_diverges [of 0 n src dst r] False by fastforce
  then have "copy_loop 0 n src dst = None" by (cases "copy_loop 0 n src dst") blast+
  then show ?thesis using False by simp
qed

theorem message_copy_terminates_witness:
  "copy_loop 0 2 ''abc'' ''xy'' = Some (Inr ''ab'')"
  using message_copy_terminates [of 2 "''abc''" "''xy''"] by simp

lemma fill_message_eq:
  assumes "unat n < 2 ^ 32" "unat n \<le> length bs"
  shows "fill_message raw n bs h = Some (Inr (\<lparr>host_size = n, datap = Some (next_block h)\<rparr>,
    h\<lparr>blocks := (blocks h)(next_block h \<mapsto> take (unat n) bs), next_block := Suc (next_block h)\<rparr>))"
  using copy_loop_ends [of 0 n bs "raw_array raw n"] assms
  by (simp add: fill_message_def raw_array_def new_array_def)



end
