(* ===== verification/Comm_Dispatch.thy ===== *)
theory Comm_Dispatch
  imports TDMA_Bus Shared_Bus Hardware
begin

text \<open>
  The communication resource as its users see it: a pointer to the class \<open>phy_comm_res_t\<close>, whose delay
  operations are virtual. The table of the operations called is a record, with one instance for each
  class of \<open>src/src/comm_res\<close>: the resource itself, the shared bus and the TDMA bus.
\<close>

record ('h, 'r) delay_ops =
  vt_name :: "'r \<Rightarrow> string"
  vt_add_link :: "'h link_t \<Rightarrow> 'r \<Rightarrow> 'r result"
  vt_set_MaxP2Pdelay_to :: "'h link_t \<Rightarrow> sc_time \<Rightarrow> u32 \<Rightarrow> 'r \<Rightarrow> 'r result"
  vt_set_MaxP2Pdelay :: "'h link_t \<Rightarrow> u32 \<Rightarrow> 'r \<Rightarrow> 'r result"
  vt_get_MaxP2Pdelay :: "'h link_t \<Rightarrow> u32 \<Rightarrow> 'r \<Rightarrow> (sc_time \<times> 'r) result"
  vt_get_CurrentP2Pdelay :: "'h link_t \<Rightarrow> u32 \<Rightarrow> 'r \<Rightarrow> (sc_time \<times> 'r) result"

text \<open>In the base class the setter without a value has an empty body.\<close>

definition generic_ops :: "sim_env \<Rightarrow> ('h, 'h comm_res) delay_ops" where
  "generic_ops e =
     \<lparr>vt_name = comm_res_name,
      vt_add_link = add_link,
      vt_set_MaxP2Pdelay_to = (\<lambda>l d sz r. set_MaxP2Pdelay e l d sz r),
      vt_set_MaxP2Pdelay = (\<lambda>l sz r. Inr r),
      vt_get_MaxP2Pdelay = (\<lambda>l sz r. rmap (\<lambda>d. (d, r)) (get_MaxP2Pdelay l sz r)),
      vt_get_CurrentP2Pdelay = (\<lambda>l sz r. rmap (\<lambda>d. (d, r)) (get_CurrentP2Pdelay l sz r))\<rparr>"

definition shared_bus_ops :: "sim_env \<Rightarrow> ('h, 'h shared_bus) delay_ops" where
  "shared_bus_ops e =
     \<lparr>vt_name = comm_res_name,
      vt_add_link = add_link,
      vt_set_MaxP2Pdelay_to = (\<lambda>l d sz r. set_MaxP2Pdelay e l d sz r),
      vt_set_MaxP2Pdelay = bus_delay_operation,
      vt_get_MaxP2Pdelay = bus_delay_operation,
      vt_get_CurrentP2Pdelay = bus_delay_operation\<rparr>"

definition tdma_ops :: "nat \<Rightarrow> nat \<Rightarrow> sim_env \<Rightarrow> ('h::linorder, 'h tdma_bus) delay_ops" where
  "tdma_ops rnd rand_max e =
     \<lparr>vt_name = comm_res_name,
      vt_add_link = add_link,
      vt_set_MaxP2Pdelay_to = (\<lambda>l d sz r. set_MaxP2Pdelay e l d sz r),
      vt_set_MaxP2Pdelay = tdma_set_MaxP2Pdelay e,
      vt_get_MaxP2Pdelay = tdma_get_MaxP2Pdelay e,
      vt_get_CurrentP2Pdelay = tdma_get_CurrentP2Pdelay rnd rand_max e\<rparr>"

text \<open>What the code asks of the elements of the platform, by their addresses.\<close>

record 'h platform =
  kind_of :: "'h \<Rightarrow> resource_t"
  pe_of :: "'h \<Rightarrow> processing_element"
  commres_names :: "string list"

end
