(* ===== verification/Sc_Primitives.thy ===== *)
theory Sc_Primitives
  imports Prelude
begin

text \<open>
  The two SystemC channels the code builds on, as a record of operations that the definitions of the
  channels take as an argument, and what the library documents of them as the locale \<open>sc_channels\<close>.
  A write becomes readable, and a read frees its place, at the update at the end of the delta cycle.
  The operations are those of a call that does not block: the caller tests the counts first.
\<close>

record ('f, 'v, 's) sc_ops =
  fifo_new :: "nat \<Rightarrow> 'f"
  num_available :: "'f \<Rightarrow> nat"
  num_free :: "'f \<Rightarrow> nat"
  fifo_put :: "'v \<Rightarrow> 'f \<Rightarrow> 'f"
  fifo_get :: "'f \<Rightarrow> 'v \<times> 'f"
  fifo_update :: "'f \<Rightarrow> 'f"
  sem_new :: "nat \<Rightarrow> 's"
  sem_value :: "'s \<Rightarrow> nat"
  sem_take :: "'s \<Rightarrow> 's"
  sem_post :: "'s \<Rightarrow> 's"

text \<open>\<open>contents\<close> are the values in a fifo, the oldest first, and \<open>size_of\<close> is its size.\<close>

locale sc_channels =
  fixes p :: "('f, 'v, 's) sc_ops" and contents :: "'f \<Rightarrow> 'v list" and size_of :: "'f \<Rightarrow> nat"
  assumes new_fifo: "0 < n \<Longrightarrow> contents (fifo_new p n) = [] \<and> size_of (fifo_new p n) = n
      \<and> num_free p (fifo_new p n) = n"
    and room: "num_available p f \<le> length (contents f)" "length (contents f) + num_free p f \<le> size_of f"
    and put: "0 < num_free p f \<Longrightarrow> contents (fifo_put p v f) = contents f @ [v]
      \<and> num_available p (fifo_put p v f) = num_available p f
      \<and> num_free p (fifo_put p v f) = num_free p f - 1 \<and> size_of (fifo_put p v f) = size_of f"
    and get: "0 < num_available p f \<Longrightarrow> contents f = fst (fifo_get p f) # contents (snd (fifo_get p f))
      \<and> num_available p (snd (fifo_get p f)) = num_available p f - 1
      \<and> num_free p (snd (fifo_get p f)) = num_free p f \<and> size_of (snd (fifo_get p f)) = size_of f"
    and update: "contents (fifo_update p f) = contents f \<and> size_of (fifo_update p f) = size_of f
      \<and> num_available p (fifo_update p f) = length (contents f)
      \<and> num_free p (fifo_update p f) = size_of f - length (contents f)"
    and semaphore: "sem_value p (sem_new p n) = n" "sem_value p (sem_post p s) = Suc (sem_value p s)"
      "0 < sem_value p s \<Longrightarrow> sem_value p (sem_take p s) = sem_value p s - 1"
begin

lemma bounded: "length (contents f) \<le> size_of f"
  using room(2) [of f] by linarith

lemma put_get:
  assumes "contents f = []" "0 < num_free p f"
  shows "fst (fifo_get p (fifo_update p (fifo_put p v f))) = v"
proof -
  have "contents (fifo_update p (fifo_put p v f)) = [v]" using put [OF assms(2), of v] update assms(1) by simp
  moreover have "0 < num_available p (fifo_update p (fifo_put p v f))"
    using put [OF assms(2), of v] update assms(1) by simp
  ultimately show ?thesis using get [of "fifo_update p (fifo_put p v f)"] by simp
qed

lemma take_after_post: "sem_value p (sem_take p (sem_post p s)) = sem_value p s"
  using semaphore by simp

end

subsection \<open>A fifo with delayed effects, and a counter\<close>

record 'v delta_fifo =
  readable :: "'v list"
  fresh :: "'v list"
  taken :: nat
  capacity :: nat

typedef 'v fifo_state = "{f :: 'v delta_fifo. length (readable f) + length (fresh f) + taken f \<le> capacity f}"
  by (rule exI [of _ "\<lparr>readable = [], fresh = [], taken = 0, capacity = 0\<rparr>"]) simp

setup_lifting type_definition_fifo_state

lift_definition df_new :: "nat \<Rightarrow> 'v fifo_state" is
  "\<lambda>n. \<lparr>readable = [], fresh = [], taken = 0, capacity = n\<rparr>" by simp

lift_definition df_available :: "'v fifo_state \<Rightarrow> nat" is "\<lambda>f. length (readable f)" .

lift_definition df_free :: "'v fifo_state \<Rightarrow> nat" is
  "\<lambda>f. capacity f - (length (readable f) + length (fresh f) + taken f)" .

lift_definition df_put :: "'v \<Rightarrow> 'v fifo_state \<Rightarrow> 'v fifo_state" is
  "\<lambda>v f. if length (readable f) + length (fresh f) + taken f < capacity f
         then f\<lparr>fresh := fresh f @ [v]\<rparr> else f" by simp

lift_definition df_first :: "'v fifo_state \<Rightarrow> 'v" is "\<lambda>f. hd (readable f)" .

lift_definition df_rest :: "'v fifo_state \<Rightarrow> 'v fifo_state" is
  "\<lambda>f. case readable f of [] \<Rightarrow> f | _ # vs \<Rightarrow> f\<lparr>readable := vs, taken := Suc (taken f)\<rparr>"
  by (auto split: list.splits)

lift_definition df_update :: "'v fifo_state \<Rightarrow> 'v fifo_state" is
  "\<lambda>f. f\<lparr>readable := readable f @ fresh f, fresh := [], taken := 0\<rparr>" by simp

lift_definition df_contents :: "'v fifo_state \<Rightarrow> 'v list" is "\<lambda>f. readable f @ fresh f" .

lift_definition df_size :: "'v fifo_state \<Rightarrow> nat" is capacity .

definition delta_channels :: "('v fifo_state, 'v, nat) sc_ops" where
  "delta_channels =
     \<lparr>fifo_new = df_new, num_available = df_available, num_free = df_free, fifo_put = df_put,
      fifo_get = (\<lambda>f. (df_first f, df_rest f)), fifo_update = df_update,
      sem_new = id, sem_value = id, sem_take = (\<lambda>n. n - 1), sem_post = Suc\<rparr>"

lemma df_put_laws: "0 < df_free f \<Longrightarrow> df_contents (df_put v f) = df_contents f @ [v]
  \<and> df_available (df_put v f) = df_available f \<and> df_free (df_put v f) = df_free f - 1
  \<and> df_size (df_put v f) = df_size f"
  by transfer simp

lemma df_get_laws: "0 < df_available f \<Longrightarrow> df_contents f = df_first f # df_contents (df_rest f)
  \<and> df_available (df_rest f) = df_available f - 1 \<and> df_free (df_rest f) = df_free f
  \<and> df_size (df_rest f) = df_size f"
  by transfer (auto split: list.splits)

lemma df_update_laws: "df_contents (df_update f) = df_contents f \<and> df_size (df_update f) = df_size f
  \<and> df_available (df_update f) = length (df_contents f) \<and> df_free (df_update f) = df_size f - length (df_contents f)"
  by transfer simp

lemma df_room: "df_available f \<le> length (df_contents f)" "length (df_contents f) + df_free f \<le> df_size f"
  by (transfer, simp)+

lemma df_new_laws: "df_contents (df_new n) = [] \<and> df_size (df_new n) = n \<and> df_free (df_new n) = n"
  by transfer simp

interpretation delta: sc_channels delta_channels df_contents df_size
  by unfold_locales
    (simp_all add: delta_channels_def df_put_laws df_get_laws df_update_laws df_room df_new_laws)

end
