(* ===== verification/Synch_Events.thy ===== *)
theory Synch_Events
  imports Task_FSM
begin

text \<open>
  \<open>synch_comm/semaphore.cpp\<close>, \<open>memoryless_event.cpp\<close> and \<open>registered_event.cpp\<close>: the calls by which
  the body of a task synchronises with others. A call is cut at its waits: what it does before the
  wait of the kernel object, and after it; \<open>True\<close> with the latter says that the body then waits for
  the processor, the positive edge of the active signal.
\<close>

subsection \<open>The frame of a blocking call\<close>

definition sync_begin :: "task_info_t \<Rightarrow> task_info_t" where
  "sync_begin t = t\<lparr>finished_flag := False, waiting_comm_sync_signal := True\<rparr>"

definition sync_end :: "task_info_t \<Rightarrow> task_info_t \<times> bool" where
  "sync_end t = (t\<lparr>waiting_comm_sync_signal := False, finished_flag := True\<rparr>, \<not> active_signal t)"

subsection \<open>Semaphores\<close>

text \<open>The constructor with a name does not pass it on. The base object is a parameter.\<close>

definition new_semaphore :: "(int \<Rightarrow> 's) \<Rightarrow> int \<Rightarrow> 's" where
  "new_semaphore sc_semaphore n = sc_semaphore n"

definition new_semaphore_named :: "(int \<Rightarrow> 's) \<Rightarrow> string \<Rightarrow> int \<Rightarrow> 's" where
  "new_semaphore_named sc_semaphore name n = sc_semaphore n"

text \<open>
  \<open>base_wait\<close> is \<open>sc_semaphore::wait\<close>: \<open>None\<close> while it blocks, else the returned value and the
  semaphore. The task is the one at the call.
\<close>

definition semaphore_wait ::
    "('s \<Rightarrow> (int \<times> 's) option) \<Rightarrow> task_info_t \<Rightarrow> 's \<Rightarrow> (int \<times> 's \<times> task_info_t \<times> bool) option" where
  "semaphore_wait base_wait t s =
     map_option (\<lambda>(v, s1). (v, s1, sync_end (sync_begin t))) (base_wait s)"

subsection \<open>Events\<close>

text \<open>The three overloads differ in the kernel event they wait for: an event, or a list of events.\<close>

datatype 'e sc_event_expr = Event 'e | Or_List "'e list" | And_List "'e list"

text \<open>Whether a wait that began earlier has ended, from the events notified since.\<close>

definition event_wait_ends :: "'e set \<Rightarrow> 'e sc_event_expr \<Rightarrow> bool" where
  "event_wait_ends notified e =
     (case e of Event x \<Rightarrow> x \<in> notified
      | Or_List xs \<Rightarrow> list_ex (\<lambda>x. x \<in> notified) xs
      | And_List xs \<Rightarrow> list_all (\<lambda>x. x \<in> notified) xs)"

definition memoryless_wait_begin :: "'e sc_event_expr \<Rightarrow> task_info_t \<Rightarrow> task_info_t \<times> 'e sc_event_expr" where
  "memoryless_wait_begin e t = (sync_begin t, e)"

definition memoryless_wait_end :: "task_info_t \<Rightarrow> task_info_t \<times> bool" where
  "memoryless_wait_end t = sync_end t"

record registered_event =
  flag :: bool
  wait_release_unset_flag :: bool

definition new_registered_event :: "bool \<Rightarrow> registered_event" where
  "new_registered_event release_unsets = \<lparr>flag = False, wait_release_unset_flag = release_unsets\<rparr>"

text \<open>The notification is for the next delta cycle.\<close>

definition reg_set :: "registered_event \<Rightarrow> registered_event" where
  "reg_set r = r\<lparr>flag := True\<rparr>"

definition reg_unset :: "registered_event \<Rightarrow> registered_event" where
  "reg_unset r = r\<lparr>flag := False\<rparr>"

definition reg_wait_blocks :: "registered_event \<Rightarrow> bool" where
  "reg_wait_blocks r = (\<not> flag r)"

definition reg_wait_release :: "registered_event \<Rightarrow> registered_event" where
  "reg_wait_release r = (if wait_release_unset_flag r then reg_unset r else r)"

definition registered_wait_begin :: "registered_event \<Rightarrow> task_info_t \<Rightarrow> task_info_t \<times> bool" where
  "registered_wait_begin r t = (sync_begin t, reg_wait_blocks r)"

definition registered_wait_end ::
    "registered_event \<Rightarrow> task_info_t \<Rightarrow> registered_event \<times> task_info_t \<times> bool" where
  "registered_wait_end r t = (reg_wait_release r, sync_end t)"

subsection \<open>A registered event and the tasks that wait for it\<close>

text \<open>
  The waits suspended on the event, those the kernel has resumed, the pending notification, and how many
  sets and returned waits there have been. The waits that began with the flag raised return at once.
\<close>

record reg_system =
  the_event :: registered_event
  reg_notified :: bool
  reg_blocked :: nat
  reg_resumed :: nat
  n_sets :: nat
  n_returns :: nat

definition reg_initial :: "registered_event \<Rightarrow> reg_system" where
  "reg_initial r = \<lparr>the_event = r, reg_notified = False, reg_blocked = 0, reg_resumed = 0, n_sets = 0, n_returns = 0\<rparr>"

inductive reg_step :: "reg_system \<Rightarrow> reg_system \<Rightarrow> bool" where
  reg_setting: "reg_step c (c\<lparr>the_event := reg_set (the_event c), reg_notified := True, n_sets := Suc (n_sets c)\<rparr>)"
| reg_wait_at_once: "\<not> reg_wait_blocks (the_event c) \<Longrightarrow>
     reg_step c (c\<lparr>the_event := reg_wait_release (the_event c), n_returns := Suc (n_returns c)\<rparr>)"
| reg_wait_block: "reg_wait_blocks (the_event c) \<Longrightarrow>
     reg_step c (c\<lparr>reg_blocked := Suc (reg_blocked c)\<rparr>)"
| reg_delta: "reg_resumed c = 0 \<Longrightarrow>
     reg_step c (c\<lparr>reg_notified := False,
       reg_resumed := (if reg_notified c then reg_blocked c else 0),
       reg_blocked := (if reg_notified c then 0 else reg_blocked c)\<rparr>)"
| reg_return: "reg_resumed c = Suc n \<Longrightarrow>
     reg_step c (c\<lparr>the_event := reg_wait_release (the_event c), reg_resumed := n, n_returns := Suc (n_returns c)\<rparr>)"

inductive reg_reachable :: "registered_event \<Rightarrow> reg_system \<Rightarrow> bool" for r where
  reg_start: "reg_reachable r (reg_initial r)"
| reg_next: "reg_reachable r c \<Longrightarrow> reg_step c c' \<Longrightarrow> reg_reachable r c'"

subsection \<open>Properties\<close>



text \<open>No wait is lost: with the flag raised and its notification delivered, no wait is blocked.\<close>

lemma reg_invariant:
  assumes "reg_reachable (new_registered_event u) c"
  shows "(flag (the_event c) \<longrightarrow> \<not> reg_notified c \<longrightarrow> reg_blocked c = 0)
    \<and> (n_sets c = 0 \<longrightarrow> \<not> flag (the_event c) \<and> \<not> reg_notified c \<and> reg_resumed c = 0 \<and> n_returns c = 0)"
  using assms
proof (induction rule: reg_reachable.induct)
  case reg_start
  then show ?case by (simp add: reg_initial_def new_registered_event_def)
next
  case (reg_next c c')
  from reg_next.hyps(2) reg_next.IH show ?case
    by cases (auto simp: reg_set_def reg_wait_blocks_def reg_wait_release_def reg_unset_def)
qed

text \<open>
  A registered event loses no set, and does not count them. In every reachable state in which the
  flag is raised and its notification was delivered no wait is blocked, and no wait returns before the
  first set; but one set can release two waits: one that the notification resumes and one that
  finds the flag raised.
\<close>
theorem registered_event_waits:
  assumes "reg_reachable (new_registered_event u) c"
  shows "(flag (the_event c) \<and> \<not> reg_notified c \<longrightarrow> reg_blocked c = 0)
    \<and> (n_sets c = 0 \<longrightarrow> n_returns c = 0)
    \<and> (\<exists>d. reg_reachable (new_registered_event True) d \<and> n_sets d = 1 \<and> n_returns d = 2)"
proof -
  let ?r = "new_registered_event True"
  have 1: "reg_reachable ?r ((reg_initial ?r)\<lparr>reg_blocked := 1\<rparr>)"
    using reg_next [OF reg_start reg_wait_block, of ?r]
    by (simp add: reg_initial_def reg_wait_blocks_def new_registered_event_def)
  note 2 = reg_next [OF 1 reg_setting]
  note 3 = reg_next [OF 2 reg_delta]
  note 4 = reg_next [OF 3 reg_wait_at_once]
  note 5 = reg_next [OF 4 reg_return [of _ 0]]
  have "\<exists>d. reg_reachable ?r d \<and> n_sets d = 1 \<and> n_returns d = 2"
    using 5 by (force simp: reg_initial_def reg_set_def reg_wait_blocks_def new_registered_event_def)
  then show ?thesis using reg_invariant [OF assms] by blast
qed

theorem registered_event_waits_witness:
  "\<exists>d. reg_reachable (new_registered_event True) d \<and> n_sets d = 1 \<and> n_returns d = 2"
  using registered_event_waits [OF reg_start [of "new_registered_event False"]] by simp

end
