(* ===== verification/Fifo_Buffer.thy ===== *)
theory Fifo_Buffer
  imports Comm_Dispatch Sc_Primitives Synch_Events Throughput_Monitor Network_Interface
begin

text \<open>
  \<open>synch_comm/fifo_buffer.hpp\<close>: the channel by which tasks exchange tokens. It is a SystemC fifo and a
  logic link; once mapped it has a physical link on a communication resource, and a semaphore that
  counts the completed transfers. The type of the tokens, the SystemC fifo and semaphore and the
  communication resource are parameters of the definitions.

  A call that waits is cut at its waits. The initialisation hook is an address; \<open>call\<close> runs it.
\<close>

datatype comm_synch_role_t = SYSTEM_COMMSYNCH | IO_COMMSYNCH | ENV_COMMSYNCH

datatype io_comm_synch_sense_t = INPUT | OUTPUT | INPUT_AND_OUTPUT | UNSET_IO_SENSE

record ('a, 'h, 'f, 's) fifo_buffer =
  fb_address :: link_ptr
  fb_link :: "'a link_t"
  fb_fifo :: 'f
  assoc_plink :: "'h link_t"
  assoc_comm_res_p :: "string option"
  fb_message_size :: u32
  read_th_mon :: "throughput_monitor option"
  write_th_mon :: "throughput_monitor option"
  fb_role :: comm_synch_role_t
  fb_io_sense :: io_comm_synch_sense_t
  completed_transactions :: 's
  init_f :: "nat option"

subsection \<open>Construction and attributes\<close>

text \<open>Every constructor registers the logic link it builds; \<open>a\<close> is the address of the object.\<close>

definition new_fifo ::
    "('f, 'v, 's) sc_ops \<Rightarrow> link_ptr \<Rightarrow> 'a link_t \<Rightarrow> nat \<Rightarrow> 'a link_tables
       \<Rightarrow> ('a, 'h, 'f, 's) fifo_buffer \<times> 'a link_tables" where
  "new_fifo p a l n g =
     (\<lparr>fb_address = a, fb_link = l, fb_fifo = fifo_new p n, assoc_plink = new_link,
       assoc_comm_res_p = None, fb_message_size = 0, read_th_mon = None, write_th_mon = None,
       fb_role = SYSTEM_COMMSYNCH, fb_io_sense = UNSET_IO_SENSE,
       completed_transactions = sem_new p 0, init_f = None\<rparr>, new_logic_link a l g)"

definition new_fifo_buffer ::
    "('f, 'v, 's) sc_ops \<Rightarrow> (string \<Rightarrow> string) \<Rightarrow> link_ptr \<Rightarrow> nat \<Rightarrow> 'a link_tables
       \<Rightarrow> ('a, 'h, 'f, 's) fifo_buffer \<times> 'a link_tables" where
  "new_fifo_buffer p gen a n g = new_fifo p a (new_link_named (gen ''fifo_buffer'')) n g"

definition new_fifo_buffer_named ::
    "('f, 'v, 's) sc_ops \<Rightarrow> link_ptr \<Rightarrow> string \<Rightarrow> nat \<Rightarrow> 'a link_tables
       \<Rightarrow> ('a, 'h, 'f, 's) fifo_buffer \<times> 'a link_tables" where
  "new_fifo_buffer_named p a name n g = new_fifo p a (new_link_named name) n g"

text \<open>The default size of a SystemC fifo is 16.\<close>

definition new_fifo_buffer_default ::
    "('f, 'v, 's) sc_ops \<Rightarrow> link_ptr \<Rightarrow> string \<Rightarrow> 'a link_tables
       \<Rightarrow> ('a, 'h, 'f, 's) fifo_buffer \<times> 'a link_tables" where
  "new_fifo_buffer_default p a name g = new_fifo p a (new_link_named name) 16 g"

definition new_fifo_buffer_bound ::
    "('f, 'v, 's) sc_ops \<Rightarrow> link_ptr \<Rightarrow> string \<Rightarrow> nat \<Rightarrow> 'a option \<Rightarrow> 'a option \<Rightarrow> 'a link_tables
       \<Rightarrow> ('a, 'h, 'f, 's) fifo_buffer \<times> 'a link_tables" where
  "new_fifo_buffer_bound p a name n s d g = new_fifo p a (new_link_bound name s d) n g"

definition new_fifo_buffer_by_names ::
    "('f, 'v, 's) sc_ops \<Rightarrow> link_ptr \<Rightarrow> string \<Rightarrow> nat \<Rightarrow> string \<Rightarrow> string \<Rightarrow> 'a link_tables
       \<Rightarrow> ('a, 'h, 'f, 's) fifo_buffer \<times> 'a link_tables" where
  "new_fifo_buffer_by_names p a name n s d g = new_fifo p a (new_link_by_names name s d) n g"

definition set_role :: "comm_synch_role_t \<Rightarrow> ('a, 'h, 'f, 's) fifo_buffer \<Rightarrow> ('a, 'h, 'f, 's) fifo_buffer" where
  "set_role x ch = ch\<lparr>fb_role := x\<rparr>"

definition get_role :: "('a, 'h, 'f, 's) fifo_buffer \<Rightarrow> comm_synch_role_t" where
  "get_role ch = fb_role ch"

definition set_as_ENV :: "('a, 'h, 'f, 's) fifo_buffer \<Rightarrow> ('a, 'h, 'f, 's) fifo_buffer" where
  "set_as_ENV ch = ch\<lparr>fb_role := ENV_COMMSYNCH\<rparr>"

definition is_ENV :: "('a, 'h, 'f, 's) fifo_buffer \<Rightarrow> bool" where
  "is_ENV ch = (fb_role ch = ENV_COMMSYNCH)"

definition set_as_IO :: "('a, 'h, 'f, 's) fifo_buffer \<Rightarrow> ('a, 'h, 'f, 's) fifo_buffer" where
  "set_as_IO ch = ch\<lparr>fb_role := IO_COMMSYNCH\<rparr>"

definition is_IO :: "('a, 'h, 'f, 's) fifo_buffer \<Rightarrow> bool" where
  "is_IO ch = (fb_role ch = IO_COMMSYNCH)"

definition set_IO_sense ::
    "io_comm_synch_sense_t \<Rightarrow> ('a, 'h, 'f, 's) fifo_buffer \<Rightarrow> ('a, 'h, 'f, 's) fifo_buffer" where
  "set_IO_sense x ch = ch\<lparr>fb_io_sense := x\<rparr>"

definition get_IO_sense :: "('a, 'h, 'f, 's) fifo_buffer \<Rightarrow> io_comm_synch_sense_t" where
  "get_IO_sense ch = fb_io_sense ch"

definition set_init :: "nat option \<Rightarrow> ('a, 'h, 'f, 's) fifo_buffer \<Rightarrow> ('a, 'h, 'f, 's) fifo_buffer" where
  "set_init f ch = ch\<lparr>init_f := f\<rparr>"

definition has_init :: "('a, 'h, 'f, 's) fifo_buffer \<Rightarrow> bool" where
  "has_init ch = (init_f ch \<noteq> None)"

definition set_message_size :: "u32 \<Rightarrow> ('a, 'h, 'f, 's) fifo_buffer \<Rightarrow> ('a, 'h, 'f, 's) fifo_buffer" where
  "set_message_size n ch = ch\<lparr>fb_message_size := n\<rparr>"

subsection \<open>Reading\<close>

text \<open>The roles in which a call of the reader, or of the writer, blocks a task of the system.\<close>

definition read_synchronises :: "('a, 'h, 'f, 's) fifo_buffer \<Rightarrow> bool" where
  "read_synchronises ch = (fb_role ch = SYSTEM_COMMSYNCH \<or> fb_role ch = IO_COMMSYNCH \<and> fb_io_sense ch = INPUT)"

definition write_synchronises :: "('a, 'h, 'f, 's) fifo_buffer \<Rightarrow> bool" where
  "write_synchronises ch = (fb_role ch = SYSTEM_COMMSYNCH \<or> fb_role ch = IO_COMMSYNCH \<and> fb_io_sense ch = OUTPUT)"

text \<open>The task at the call, and whether the call waits for a completed transfer first.\<close>

definition fifo_read_begin :: "('a, 'h, 'f, 's) fifo_buffer \<Rightarrow> task_info_t \<Rightarrow> task_info_t \<times> bool" where
  "fifo_read_begin ch t =
     (if read_synchronises ch then sync_begin t else t,
      fb_role ch = SYSTEM_COMMSYNCH \<and> resolved (assoc_plink ch))"

text \<open>The waits: \<open>None\<close> while they block.\<close>

definition fifo_read_credit ::
    "('f, 'v, 's) sc_ops \<Rightarrow> ('a, 'h, 'f, 's) fifo_buffer \<Rightarrow> ('a, 'h, 'f, 's) fifo_buffer option" where
  "fifo_read_credit p ch =
     (if sem_value p (completed_transactions ch) = 0 then None
      else Some (ch\<lparr>completed_transactions := sem_take p (completed_transactions ch)\<rparr>))"

definition fifo_read_token ::
    "('f, 'v, 's) sc_ops \<Rightarrow> sc_time \<Rightarrow> ('a, 'h, 'f, 's) fifo_buffer
       \<Rightarrow> ('v \<times> ('a, 'h, 'f, 's) fifo_buffer) option" where
  "fifo_read_token p now ch =
     (if num_available p (fb_fifo ch) = 0 then None
      else (case fifo_get p (fb_fifo ch) of
              (v, f) \<Rightarrow> Some (v, ch\<lparr>fb_fifo := f,
                 read_th_mon := map_option (annotate_data_event now) (read_th_mon ch)\<rparr>)))"

definition fifo_read_end :: "('a, 'h, 'f, 's) fifo_buffer \<Rightarrow> task_info_t \<Rightarrow> task_info_t \<times> bool" where
  "fifo_read_end ch t = (if read_synchronises ch then sync_end t else (t, False))"

subsection \<open>Writing\<close>

text \<open>
  Tokens injected before the simulation. A full fifo makes the write of the base class wait, which the
  kernel refuses outside of a process. What looks like a check of the phase is the declaration of a
  function.
\<close>

definition initial_write ::
    "('f, 'v, 's) sc_ops \<Rightarrow> 'v \<Rightarrow> ('a, 'h, 'f, 's) fifo_buffer \<Rightarrow> ('a, 'h, 'f, 's) fifo_buffer result" where
  "initial_write p v ch =
     (if fb_role ch = SYSTEM_COMMSYNCH then
        (if num_free p (fb_fifo ch) = 0 then report ''wait() is only allowed in processes''
         else (let ch1 = ch\<lparr>fb_fifo := fifo_put p v (fb_fifo ch)\<rparr> in
               if resolved (assoc_plink ch1)
               then Inr (ch1\<lparr>completed_transactions := sem_post p (completed_transactions ch1)\<rparr>)
               else Inr ch1))
      else report (''Injecting initial tokens in channel '' @ link_name (fb_link ch)
             @ '' is allowed only for system internal channels''))"

text \<open>The task and the channel at the call.\<close>

definition fifo_write_begin ::
    "sc_time \<Rightarrow> ('a, 'h, 'f, 's) fifo_buffer \<Rightarrow> task_info_t \<Rightarrow> task_info_t \<times> ('a, 'h, 'f, 's) fifo_buffer" where
  "fifo_write_begin now ch t =
     (if write_synchronises ch then sync_begin t else t,
      ch\<lparr>write_th_mon := map_option (annotate_data_event now) (write_th_mon ch)\<rparr>)"

text \<open>
  How the data are transferred: not at all, by a wait of the writer after which it posts the semaphore,
  or by a request to the network interface of its processing element, which posts it later.
\<close>

datatype transfer = No_Transfer | Transfer_Delay sc_time | Transfer_Request send_message_request_t

definition send_request ::
    "(string \<Rightarrow> nat) \<Rightarrow> sc_time \<Rightarrow> ('a, 'h, 'f, 's) fifo_buffer \<Rightarrow> send_message_request_t" where
  "send_request res_address now ch =
     \<lparr>req_logic_link = fb_address ch,
      req_comm_res = (case assoc_comm_res_p ch of None \<Rightarrow> 0 | Some n \<Rightarrow> res_address n),
      req_phy_link = fb_address ch, message_size = fb_message_size ch,
      completed_transactions_p = fb_address ch, request_time = now\<rparr>"

text \<open>
  \<open>store\<close> holds the communication resources by name. The members of the channel that a request points
  to are known by the address of the channel.
\<close>

definition transfer_by_PE ::
    "('h, 'r) delay_ops \<Rightarrow> bool \<Rightarrow> ('a, 'h, 'f, 's) fifo_buffer \<Rightarrow> (string \<Rightarrow> 'r)
       \<Rightarrow> (transfer \<times> (string \<Rightarrow> 'r)) result" where
  "transfer_by_PE ops worst_case ch store =
     (case assoc_comm_res_p ch of
        None \<Rightarrow> undef ''null communication resource''
      | Some n \<Rightarrow>
          rmap (\<lambda>(d, r). (Transfer_Delay d, store(n := r)))
            ((if worst_case then vt_get_MaxP2Pdelay ops else vt_get_CurrentP2Pdelay ops)
               (assoc_plink ch) (fb_message_size ch) (store n)))"

definition source_PE :: "'h platform \<Rightarrow> string \<Rightarrow> 'h link_t \<Rightarrow> processing_element result" where
  "source_PE pl msg l =
     rbind (resource_type (kind_of pl) (src l)) (\<lambda>k.
       if k \<noteq> PROCESSING_ELEMENT then report msg
       else (case src l of None \<Rightarrow> undef ''null address'' | Some h \<Rightarrow> Inr (pe_of pl h)))"

definition fifo_write_transfer ::
    "('h, 'r) delay_ops \<Rightarrow> (string \<Rightarrow> nat) \<Rightarrow> 'h platform \<Rightarrow> bool \<Rightarrow> sc_time \<Rightarrow> ('a, 'h, 'f, 's) fifo_buffer
       \<Rightarrow> (string \<Rightarrow> 'r) \<Rightarrow> (transfer \<times> (string \<Rightarrow> 'r)) result" where
  "fifo_write_transfer ops res_address pl worst_case now ch store =
     (if fb_role ch = SYSTEM_COMMSYNCH \<and> resolved (assoc_plink ch) then
        rbind (is_PE_intracomm (kind_of pl) (assoc_plink ch)) (\<lambda>intra.
          if intra then
            rmap (\<lambda>pe. (Transfer_Delay (getIntraComMaxP2Pdelay (fb_message_size ch) pe), store))
              (source_PE pl ''Internal communication not associated to a processing element'' (assoc_plink ch))
          else
            rbind (is_PE_PE_comm (kind_of pl) (assoc_plink ch)) (\<lambda>between.
              if between then
                rbind (source_PE pl ''PE-PE communication. Source PE not associated to a processing element''
                        (assoc_plink ch)) (\<lambda>pe.
                  if has_netif pe then Inr (Transfer_Request (send_request res_address now ch), store)
                  else transfer_by_PE ops worst_case ch store)
              else report (''Channel: '' @ link_name (fb_link ch) @ '' in WRITE access . The channel is associated ''
                     @ ''to a physical link currently not supported for a fifo channel type.'')))
      else Inr (No_Transfer, store))"

definition fifo_transfer_completed ::
    "('f, 'v, 's) sc_ops \<Rightarrow> ('a, 'h, 'f, 's) fifo_buffer \<Rightarrow> ('a, 'h, 'f, 's) fifo_buffer" where
  "fifo_transfer_completed p ch = ch\<lparr>completed_transactions := sem_post p (completed_transactions ch)\<rparr>"

text \<open>The write of the base class: \<open>None\<close> while it blocks.\<close>

definition fifo_write_store ::
    "('f, 'v, 's) sc_ops \<Rightarrow> 'v \<Rightarrow> ('a, 'h, 'f, 's) fifo_buffer \<Rightarrow> ('a, 'h, 'f, 's) fifo_buffer option" where
  "fifo_write_store p v ch =
     (if num_free p (fb_fifo ch) = 0 then None else Some (ch\<lparr>fb_fifo := fifo_put p v (fb_fifo ch)\<rparr>))"

definition fifo_write_end :: "('a, 'h, 'f, 's) fifo_buffer \<Rightarrow> task_info_t \<Rightarrow> task_info_t \<times> bool" where
  "fifo_write_end ch t = (if write_synchronises ch then sync_end t else (t, False))"

subsection \<open>Mapping\<close>

text \<open>\<open>phy_of\<close> is what the code takes as the value of \<open>get_phy_address\<close>, which has no return statement.\<close>

definition auto_map ::
    "'h platform \<Rightarrow> ('a \<Rightarrow> 'h option) \<Rightarrow> ('a, 'h, 'f, 's) fifo_buffer \<Rightarrow> ('a, 'h, 'f, 's) fifo_buffer result" where
  "auto_map pl phy_of ch =
     (case (src (fb_link ch), dest (fb_link ch)) of
        (Some s, Some d) \<Rightarrow>
          (let l = (assoc_plink ch)\<lparr>src := phy_of s, dest := phy_of d\<rparr>; ch1 = ch\<lparr>assoc_plink := l\<rparr> in
           if resolved l then
             rmap (\<lambda>pe. ch1\<lparr>assoc_comm_res_p := bound_comm_res_p pe\<rparr>)
               (source_PE pl (''Automap for fifo_buffer channel '' @ link_name (fb_link ch)
                  @ '': the source HW resource is not a processing element'') l)
           else Inr ch1)
      | _ \<Rightarrow> Inr ch)"

definition channel_map_to ::
    "sim_env \<Rightarrow> string \<Rightarrow> ('a, 'h, 'f, 's) fifo_buffer \<Rightarrow> ('a, 'h, 'f, 's) fifo_buffer result" where
  "channel_map_to e r ch =
     (if sc_status e \<in> {SC_ELABORATION, SC_BEFORE_END_OF_ELABORATION}
      then Inr (ch\<lparr>assoc_comm_res_p := Some r\<rparr>) else report ''map '')"

subsection \<open>End of elaboration\<close>

definition determine_io_sense ::
    "('a \<Rightarrow> string) \<Rightarrow> (string \<rightharpoonup> 'a) \<Rightarrow> (string \<rightharpoonup> 'a) \<Rightarrow> ('a, 'h, 'f, 's) fifo_buffer
       \<Rightarrow> io_comm_synch_sense_t result" where
  "determine_io_sense name_of sys_tasks env_tasks ch =
     (let in_system = (\<lambda>what a.
            case a of
              None \<Rightarrow> undef ''null address''
            | Some x \<Rightarrow>
                (if sys_tasks (name_of x) \<noteq> None then Inr True
                 else if env_tasks (name_of x) \<noteq> None then Inr False
                 else report (what @ '' task type of I/O channel '' @ link_name (fb_link ch)
                        @ '' could not be determined.''))) in
      rbind (in_system ''Source'' (src (fb_link ch))) (\<lambda>s.
      rbind (in_system ''Destination'' (dest (fb_link ch))) (\<lambda>d.
        if s \<and> \<not> d then Inr OUTPUT
        else if \<not> s \<and> d then Inr INPUT
        else if s \<and> d then report (''Channel '' @ link_name (fb_link ch) @ '' seems to be actually a system channel'')
        else report (''Channel '' @ link_name (fb_link ch) @ '' seems to be actually an environment channel''))))"

text \<open>
  The error of an unresolved I/O channel. Its text is built from the tables of tasks; for the
  destination it looks up the name of the source.
\<close>

definition report_unresolved_io ::
    "('a \<Rightarrow> string) \<Rightarrow> (string \<rightharpoonup> 'a) \<Rightarrow> (string \<rightharpoonup> 'a) \<Rightarrow> ('a, 'h, 'f, 's) fifo_buffer \<Rightarrow> 'x result" where
  "report_unresolved_io name_of sys_tasks env_tasks ch =
     (let known = (\<lambda>a.
            case a of
              None \<Rightarrow> undef ''null source''
            | Some x \<Rightarrow> check (sys_tasks (name_of x) \<noteq> None \<or> env_tasks (name_of x) \<noteq> None)
                          ''an UNKNOWN TASK. Unexpected situation.'') in
      rbind (if src (fb_link ch) \<noteq> None then known (src (fb_link ch)) else Inr ()) (\<lambda>_.
      rbind (if dest (fb_link ch) \<noteq> None then known (src (fb_link ch)) else Inr ()) (\<lambda>_.
        report (''The logic link for the comm&synch channel '' @ link_name (fb_link ch) @ '' is not resolved.''))))"

text \<open>The channel on its resource \<open>r\<close>, with the table of links mapped to it.\<close>

definition register_on_resource ::
    "('h::linorder, 'r) delay_ops \<Rightarrow> 'h platform \<Rightarrow> ('a, 'h, 'f, 's) fifo_buffer
       \<Rightarrow> 'r \<times> ('h link_t \<times> 'a mapped_llinks) list \<Rightarrow> ('r \<times> ('h link_t \<times> 'a mapped_llinks) list) result" where
  "register_on_resource ops pl ch rt =
     (case rt of (r, t) \<Rightarrow>
       rbind (vt_add_link ops (assoc_plink ch) r) (\<lambda>r1.
       rbind (is_PE_intracomm (kind_of pl) (assoc_plink ch)) (\<lambda>intra.
       rbind (if intra then
                rbind (source_PE pl ''Internal communication not associated to a processing element (at end of elaboration)''
                        (assoc_plink ch)) (\<lambda>pe.
                  vt_set_MaxP2Pdelay_to ops (assoc_plink ch)
                    (getIntraComMaxP2Pdelay (fb_message_size ch) pe) (fb_message_size ch) r1)
              else
                rbind (is_PE_PE_comm (kind_of pl) (assoc_plink ch)) (\<lambda>between.
                  if between then vt_set_MaxP2Pdelay ops (assoc_plink ch) (fb_message_size ch) r1
                  else Inr r1)) (\<lambda>r2.
         rmap (\<lambda>t1. (r2, t1)) (map_in_table (vt_name ops r2) (fb_link ch) (assoc_plink ch) t)))))"

text \<open>The size of a token is that of its type, unless it was set.\<close>

definition settle_message_size :: "nat \<Rightarrow> ('a, 'h, 'f, 's) fifo_buffer \<Rightarrow> ('a, 'h, 'f, 's) fifo_buffer" where
  "settle_message_size sizeof_T ch =
     (let n = (if fb_message_size ch = 0 then of_nat (sizeof_T * 8) else fb_message_size ch) in
      ch\<lparr>fb_message_size := n, write_th_mon := map_option (set_data_size n) (write_th_mon ch),
         read_th_mon := map_option (set_data_size n) (read_th_mon ch)\<rparr>)"

definition map_system_channel ::
    "('h::linorder, 'r) delay_ops \<Rightarrow> 'h platform \<Rightarrow> ('a \<Rightarrow> 'h option)
       \<Rightarrow> (string \<Rightarrow> 'r \<times> ('h link_t \<times> 'a mapped_llinks) list) \<Rightarrow> ('a, 'h, 'f, 's) fifo_buffer
       \<Rightarrow> (('a, 'h, 'f, 's) fifo_buffer \<times> (string \<Rightarrow> 'r \<times> ('h link_t \<times> 'a mapped_llinks) list)) result" where
  "map_system_channel ops pl phy_of store ch =
     (if length (commres_names pl) > 0 then
        rbind (if assoc_comm_res_p ch = None then auto_map pl phy_of ch else Inr ch) (\<lambda>ch1.
          case assoc_comm_res_p ch1 of
            None \<Rightarrow> report (''No mapping of the channel '' @ link_name (fb_link ch1)
                      @ '' to a communication resource was specified and automatic mapping failed.'')
          | Some n \<Rightarrow> rmap (\<lambda>rt. (ch1, store(n := rt))) (register_on_resource ops pl ch1 (store n)))
      else Inr (ch, store))"

definition fifo_before_end_of_elaboration ::
    "(string \<Rightarrow> 'a result) \<Rightarrow> ('a, 'h, 'f, 's) fifo_buffer \<Rightarrow> ('a, 'h, 'f, 's) fifo_buffer result" where
  "fifo_before_end_of_elaboration addr ch =
     rmap (\<lambda>l. ch\<lparr>fb_link := l\<rparr>) (resolve_bind_by_name addr (fb_link ch))"

definition fifo_end_of_elaboration ::
    "('h::linorder, 'r) delay_ops \<Rightarrow> 'h platform \<Rightarrow> ('a \<Rightarrow> 'h option)
       \<Rightarrow> ('a \<Rightarrow> string) \<Rightarrow> (string \<rightharpoonup> 'a) \<Rightarrow> (string \<rightharpoonup> 'a)
       \<Rightarrow> (nat \<Rightarrow> ('a, 'h, 'f, 's) fifo_buffer \<Rightarrow> ('a, 'h, 'f, 's) fifo_buffer result) \<Rightarrow> nat
       \<Rightarrow> (string \<Rightarrow> 'r \<times> ('h link_t \<times> 'a mapped_llinks) list) \<Rightarrow> ('a, 'h, 'f, 's) fifo_buffer
       \<Rightarrow> (('a, 'h, 'f, 's) fifo_buffer \<times> (string \<Rightarrow> 'r \<times> ('h link_t \<times> 'a mapped_llinks) list)) result" where
  "fifo_end_of_elaboration ops pl phy_of name_of sys_tasks env_tasks call sizeof_T store ch0 =
     (let ch = settle_message_size sizeof_T ch0 in
      case fb_role ch of
        SYSTEM_COMMSYNCH \<Rightarrow>
          rbind (map_system_channel ops pl phy_of store ch) (\<lambda>(ch1, store1).
          rbind (if src (assoc_plink ch1) \<noteq> None
                 then rmap (\<lambda>_. ()) (source_PE pl ''. At end of elaboration'' (assoc_plink ch1)) else Inr ()) (\<lambda>_.
            case init_f ch1 of
              None \<Rightarrow> Inr (ch1, store1)
            | Some f \<Rightarrow> rmap (\<lambda>ch2. (ch2, store1)) (call f ch1)))
      | IO_COMMSYNCH \<Rightarrow>
          (if resolved (fb_link ch)
           then rmap (\<lambda>x. (ch\<lparr>fb_io_sense := x\<rparr>, store)) (determine_io_sense name_of sys_tasks env_tasks ch)
           else report_unresolved_io name_of sys_tasks env_tasks ch)
      | ENV_COMMSYNCH \<Rightarrow> Inr (ch, store))"

subsection \<open>Measurements\<close>

definition measure_throughput_monitor :: "sim_env \<Rightarrow> string \<Rightarrow> throughput_monitor result" where
  "measure_throughput_monitor e msg =
     (if sc_status e \<in> {SC_ELABORATION, SC_BEFORE_END_OF_ELABORATION} then Inr (new_throughput_monitor 0)
      else report msg)"

definition measure_read_throughput ::
    "sim_env \<Rightarrow> ('a, 'h, 'f, 's) fifo_buffer \<Rightarrow> ('a, 'h, 'f, 's) fifo_buffer result" where
  "measure_read_throughput e ch =
     rmap (\<lambda>m. ch\<lparr>read_th_mon := Some m\<rparr>) (measure_throughput_monitor e
       (''Activation of read throughput measurement (via measure_read_throughput method) of channel ''
          @ link_name (fb_link ch) @ ''has to be done before the end of the elaboration.''))"

definition measure_write_throughput ::
    "sim_env \<Rightarrow> ('a, 'h, 'f, 's) fifo_buffer \<Rightarrow> ('a, 'h, 'f, 's) fifo_buffer result" where
  "measure_write_throughput e ch =
     rmap (\<lambda>m. ch\<lparr>write_th_mon := Some m\<rparr>) (measure_throughput_monitor e
       (''Activation of write throughput measurement (via measure_write_throughput method) of channel ''
          @ link_name (fb_link ch) @ ''has to be done before the end of the elaboration.''))"

text \<open>
  The getters test one monitor, \<open>tested\<close>, and read another, \<open>read_from\<close>, which may be null: \<open>f\<close> is the figure
  and \<open>what\<close> the name of the call.
\<close>

definition monitored ::
    "sim_env \<Rightarrow> string \<Rightarrow> ('a, 'h, 'f, 's) fifo_buffer \<Rightarrow> throughput_monitor option \<Rightarrow> throughput_monitor option
       \<Rightarrow> (throughput_monitor \<Rightarrow> 'x result) \<Rightarrow> 'x result" where
  "monitored e what ch tested read_from f =
     rbind (check_call_after_sim_start e what) (\<lambda>_.
       if tested = None then
         report (what @ '', called for channel '' @ link_name (fb_link ch)
           @ '', can be called only after a previous activation of the measurement'')
       else (case read_from of None \<Rightarrow> undef ''null monitor'' | Some m \<Rightarrow> f m))"

definition get_write_throughput ::
    "sim_env \<Rightarrow> string \<Rightarrow> ('a, 'h, 'f, 's) fifo_buffer \<Rightarrow> double result" where
  "get_write_throughput e u ch =
     monitored e ''get_write_throughput'' ch (write_th_mon ch) (write_th_mon ch) (get_throughput u)"

definition get_write_stationary_throughput ::
    "sim_env \<Rightarrow> string \<Rightarrow> ('a, 'h, 'f, 's) fifo_buffer \<Rightarrow> double result" where
  "get_write_stationary_throughput e u ch =
     monitored e ''get_write_stationary_throughput'' ch (write_th_mon ch) (write_th_mon ch)
       (get_stationary_throughput u)"

definition get_read_throughput ::
    "sim_env \<Rightarrow> string \<Rightarrow> ('a, 'h, 'f, 's) fifo_buffer \<Rightarrow> double result" where
  "get_read_throughput e u ch =
     monitored e ''get_read_throughput'' ch (write_th_mon ch) (read_th_mon ch) (get_throughput u)"

definition get_read_stationary_throughput ::
    "sim_env \<Rightarrow> string \<Rightarrow> ('a, 'h, 'f, 's) fifo_buffer \<Rightarrow> double result" where
  "get_read_stationary_throughput e u ch =
     monitored e ''get_read_stationary_throughput'' ch (write_th_mon ch) (read_th_mon ch)
       (get_stationary_throughput u)"

definition get_normalized_write_throughput ::
    "sim_env \<Rightarrow> string \<Rightarrow> ('a, 'h, 'f, 's) fifo_buffer \<Rightarrow> double result" where
  "get_normalized_write_throughput e u ch =
     monitored e ''get_normalized_write_throughput'' ch (write_th_mon ch) (write_th_mon ch)
       (get_normalized_throughput u)"

definition get_normalized_write_stationary_throughput ::
    "sim_env \<Rightarrow> string \<Rightarrow> ('a, 'h, 'f, 's) fifo_buffer \<Rightarrow> double result" where
  "get_normalized_write_stationary_throughput e u ch =
     monitored e ''get_normalized_write_stationary_throughput'' ch (write_th_mon ch) (write_th_mon ch)
       (get_normalized_stationary_throughput u)"

definition get_normalized_read_throughput ::
    "sim_env \<Rightarrow> string \<Rightarrow> ('a, 'h, 'f, 's) fifo_buffer \<Rightarrow> double result" where
  "get_normalized_read_throughput e u ch =
     monitored e ''get_normalized_read_throughput'' ch (write_th_mon ch) (read_th_mon ch)
       (get_normalized_throughput u)"

definition get_normalized_read_stationary_throughput ::
    "sim_env \<Rightarrow> string \<Rightarrow> ('a, 'h, 'f, 's) fifo_buffer \<Rightarrow> double result" where
  "get_normalized_read_stationary_throughput e u ch =
     monitored e ''get_normalized_read_stationary_throughput'' ch (write_th_mon ch) (read_th_mon ch)
       (get_normalized_stationary_throughput u)"

definition get_read_period :: "sim_env \<Rightarrow> ('a, 'h, 'f, 's) fifo_buffer \<Rightarrow> sc_time result" where
  "get_read_period e ch =
     monitored e ''get_read_period'' ch (read_th_mon ch) (read_th_mon ch) (\<lambda>m. Inr (get_period m))"

definition get_read_period_in :: "sim_env \<Rightarrow> string \<Rightarrow> ('a, 'h, 'f, 's) fifo_buffer \<Rightarrow> rat result" where
  "get_read_period_in e u ch =
     monitored e ''get_read_period'' ch (read_th_mon ch) (read_th_mon ch) (get_period_in u)"

definition get_write_period :: "sim_env \<Rightarrow> ('a, 'h, 'f, 's) fifo_buffer \<Rightarrow> sc_time result" where
  "get_write_period e ch =
     monitored e ''get_write_period'' ch (write_th_mon ch) (write_th_mon ch) (\<lambda>m. Inr (get_period m))"

definition get_write_period_in :: "sim_env \<Rightarrow> string \<Rightarrow> ('a, 'h, 'f, 's) fifo_buffer \<Rightarrow> rat result" where
  "get_write_period_in e u ch =
     monitored e ''get_write_period'' ch (write_th_mon ch) (write_th_mon ch) (get_period_in u)"

lemmas getter_defs = get_write_throughput_def get_write_stationary_throughput_def
  get_read_throughput_def get_read_stationary_throughput_def get_normalized_write_throughput_def
  get_normalized_write_stationary_throughput_def get_normalized_read_throughput_def
  get_normalized_read_stationary_throughput_def

end
