(* ===== verification/Fifo_Channel.thy ===== *)
theory Fifo_Channel
  imports Fifo_Buffer
begin

text \<open>
  A fifo buffer with its writer and its reader: the operations of \<open>Fifo_Buffer\<close> as the steps of two
  tasks, of the network interface and of the kernel, and what holds in the states they reach, for any
  SystemC fifo and semaphore that satisfy \<open>sc_channels\<close>.
\<close>

datatype 'v writer_state = W_Idle | W_Transferring 'v | W_Storing 'v | W_Suspended

datatype reader_state = R_Idle | R_Credit | R_Token | R_Suspended

text \<open>
  \<open>requested\<close> counts the transfers the network interface has accepted and not completed, \<open>transferred\<close> those
  completed; \<open>sent\<close> and \<open>received\<close> are the tokens of the writes stored and of the reads done.
\<close>

record ('a, 'h, 'f, 's, 'r, 'v) channel_run =
  chan :: "('a, 'h, 'f, 's) fifo_buffer"
  wtask :: task_info_t
  rtask :: task_info_t
  writer :: "'v writer_state"
  reader :: reader_state
  resources :: "string \<Rightarrow> 'r"
  requested :: nat
  transferred :: nat
  sent :: "'v list"
  received :: "'v list"

definition channel_initial ::
    "('a, 'h, 'f, 's) fifo_buffer \<Rightarrow> task_info_t \<Rightarrow> task_info_t \<Rightarrow> (string \<Rightarrow> 'r)
       \<Rightarrow> ('a, 'h, 'f, 's, 'r, 'v) channel_run" where
  "channel_initial ch t1 t2 st =
     \<lparr>chan = ch, wtask = t1, rtask = t2, writer = W_Idle, reader = R_Idle, resources = st,
      requested = 0, transferred = 0, sent = [], received = []\<rparr>"

text \<open>The parameters: the base channels, the resources, the platform and the flag of the worst case.\<close>

inductive channel_step ::
    "('f, 'v, 's) sc_ops \<Rightarrow> ('h, 'r) delay_ops \<Rightarrow> (string \<Rightarrow> nat) \<Rightarrow> 'h platform \<Rightarrow> bool
       \<Rightarrow> ('a, 'h, 'f, 's, 'r, 'v) channel_run \<Rightarrow> ('a, 'h, 'f, 's, 'r, 'v) channel_run \<Rightarrow> bool"
  for p ops ra pl wc where
  write_call:
    "writer c = W_Idle \<Longrightarrow> fifo_write_begin now (chan c) (wtask c) = (t, ch) \<Longrightarrow>
     fifo_write_transfer ops ra pl wc now ch (resources c) = Inr (tr, st) \<Longrightarrow>
     channel_step p ops ra pl wc c
       (c\<lparr>chan := ch, wtask := t, resources := st,
          writer := (case tr of Transfer_Delay _ \<Rightarrow> W_Transferring v | _ \<Rightarrow> W_Storing v),
          requested := requested c + (case tr of Transfer_Request _ \<Rightarrow> 1 | _ \<Rightarrow> 0)\<rparr>)"
| write_transferred:
    "writer c = W_Transferring v \<Longrightarrow>
     channel_step p ops ra pl wc c
       (c\<lparr>chan := fifo_transfer_completed p (chan c), writer := W_Storing v,
          transferred := Suc (transferred c)\<rparr>)"
| netif_transferred:
    "requested c = Suc n \<Longrightarrow>
     channel_step p ops ra pl wc c
       (c\<lparr>chan := fifo_transfer_completed p (chan c), requested := n, transferred := Suc (transferred c)\<rparr>)"
| write_stored:
    "writer c = W_Storing v \<Longrightarrow> fifo_write_store p v (chan c) = Some ch \<Longrightarrow>
     fifo_write_end ch (wtask c) = (t, suspended) \<Longrightarrow>
     channel_step p ops ra pl wc c
       (c\<lparr>chan := ch, wtask := t, writer := (if suspended then W_Suspended else W_Idle), sent := sent c @ [v]\<rparr>)"
| write_resumed:
    "writer c = W_Suspended \<Longrightarrow> active_signal (wtask c) \<Longrightarrow>
     channel_step p ops ra pl wc c (c\<lparr>writer := W_Idle\<rparr>)"
| read_call:
    "reader c = R_Idle \<Longrightarrow> fifo_read_begin (chan c) (rtask c) = (t, waits) \<Longrightarrow>
     channel_step p ops ra pl wc c (c\<lparr>rtask := t, reader := (if waits then R_Credit else R_Token)\<rparr>)"
| read_credit:
    "reader c = R_Credit \<Longrightarrow> fifo_read_credit p (chan c) = Some ch \<Longrightarrow>
     channel_step p ops ra pl wc c (c\<lparr>chan := ch, reader := R_Token\<rparr>)"
| read_token:
    "reader c = R_Token \<Longrightarrow> fifo_read_token p now (chan c) = Some (v, ch) \<Longrightarrow>
     fifo_read_end ch (rtask c) = (t, suspended) \<Longrightarrow>
     channel_step p ops ra pl wc c
       (c\<lparr>chan := ch, rtask := t, reader := (if suspended then R_Suspended else R_Idle),
          received := received c @ [v]\<rparr>)"
| read_resumed:
    "reader c = R_Suspended \<Longrightarrow> active_signal (rtask c) \<Longrightarrow>
     channel_step p ops ra pl wc c (c\<lparr>reader := R_Idle\<rparr>)"
| channel_delta:
    "channel_step p ops ra pl wc c (c\<lparr>chan := (chan c)\<lparr>fb_fifo := fifo_update p (fb_fifo (chan c))\<rparr>\<rparr>)"
| channel_schedule:
    "channel_step p ops ra pl wc c
       (c\<lparr>wtask := (wtask c)\<lparr>active_signal := a\<rparr>, rtask := (rtask c)\<lparr>active_signal := b\<rparr>\<rparr>)"

inductive channel_reachable ::
    "('f, 'v, 's) sc_ops \<Rightarrow> ('h, 'r) delay_ops \<Rightarrow> (string \<Rightarrow> nat) \<Rightarrow> 'h platform \<Rightarrow> bool
       \<Rightarrow> ('a, 'h, 'f, 's, 'r, 'v) channel_run \<Rightarrow> ('a, 'h, 'f, 's, 'r, 'v) channel_run \<Rightarrow> bool"
  for p ops ra pl wc c0 where
  channel_start: "channel_reachable p ops ra pl wc c0 c0"
| channel_next: "channel_reachable p ops ra pl wc c0 c \<Longrightarrow> channel_step p ops ra pl wc c c' \<Longrightarrow>
     channel_reachable p ops ra pl wc c0 c'"

subsection \<open>A bounded queue\<close>

text \<open>The abstract channel: its capacity, and the tokens that entered it, left it, and are in it.\<close>

record 'v queue_run =
  q_contents :: "'v list"
  q_in :: "'v list"
  q_out :: "'v list"

inductive queue_step :: "nat \<Rightarrow> 'v queue_run \<Rightarrow> 'v queue_run \<Rightarrow> bool" for n where
  queue_stay: "queue_step n q q"
| queue_enter: "length (q_contents q) < n \<Longrightarrow>
     queue_step n q (q\<lparr>q_contents := q_contents q @ [v], q_in := q_in q @ [v]\<rparr>)"
| queue_leave: "q_contents q = v # vs \<Longrightarrow>
     queue_step n q (q\<lparr>q_contents := vs, q_out := q_out q @ [v]\<rparr>)"

inductive queue_reachable :: "nat \<Rightarrow> 'v list \<Rightarrow> 'v queue_run \<Rightarrow> bool" for n vs where
  queue_start: "queue_reachable n vs \<lparr>q_contents = vs, q_in = [], q_out = []\<rparr>"
| queue_next: "queue_reachable n vs q \<Longrightarrow> queue_step n q q' \<Longrightarrow> queue_reachable n vs q'"

lemma queue_order: "queue_reachable n vs q \<Longrightarrow> q_out q @ q_contents q = vs @ q_in q"
proof (induction rule: queue_reachable.induct)
  case (queue_next q q')
  from queue_next.hyps(2) queue_next.IH show ?case by cases auto
qed simp

lemma queue_bounded: "queue_reachable n vs q \<Longrightarrow> length vs \<le> n \<Longrightarrow> length (q_contents q) \<le> n"
proof (induction rule: queue_reachable.induct)
  case (queue_next q q')
  from queue_next.hyps(2) queue_next.IH queue_next.prems show ?case by cases auto
qed simp

definition queue_view :: "('f \<Rightarrow> 'v list) \<Rightarrow> ('a, 'h, 'f, 's, 'r, 'v) channel_run \<Rightarrow> 'v queue_run" where
  "queue_view contents c =
     \<lparr>q_contents = contents (fb_fifo (chan c)), q_in = sent c, q_out = received c\<rparr>"

subsection \<open>One step\<close>

text \<open>What the operations leave of the channel.\<close>

lemma begin_channel:
  "fifo_write_begin now ch t = (t', ch') \<Longrightarrow>
     fb_fifo ch' = fb_fifo ch \<and> completed_transactions ch' = completed_transactions ch
     \<and> fb_role ch' = fb_role ch \<and> assoc_plink ch' = assoc_plink ch"
  by (auto simp: fifo_write_begin_def)

lemma completed_channel [simp]:
  "fb_fifo (fifo_transfer_completed p ch) = fb_fifo ch"
  "completed_transactions (fifo_transfer_completed p ch) = sem_post p (completed_transactions ch)"
  "fb_role (fifo_transfer_completed p ch) = fb_role ch"
  "assoc_plink (fifo_transfer_completed p ch) = assoc_plink ch"
  by (simp_all add: fifo_transfer_completed_def)

lemma store_channel:
  "fifo_write_store p v ch = Some ch' \<Longrightarrow> 0 < num_free p (fb_fifo ch) \<and> fb_fifo ch' = fifo_put p v (fb_fifo ch)
     \<and> completed_transactions ch' = completed_transactions ch
     \<and> fb_role ch' = fb_role ch \<and> assoc_plink ch' = assoc_plink ch"
  by (auto simp: fifo_write_store_def split: if_splits)

lemma credit_channel:
  "fifo_read_credit p ch = Some ch' \<Longrightarrow> 0 < sem_value p (completed_transactions ch) \<and> fb_fifo ch' = fb_fifo ch
     \<and> completed_transactions ch' = sem_take p (completed_transactions ch)
     \<and> fb_role ch' = fb_role ch \<and> assoc_plink ch' = assoc_plink ch"
  by (auto simp: fifo_read_credit_def split: if_splits)

lemma token_channel:
  "fifo_read_token p now ch = Some (v, ch') \<Longrightarrow> 0 < num_available p (fb_fifo ch)
     \<and> (v, fb_fifo ch') = fifo_get p (fb_fifo ch) \<and> completed_transactions ch' = completed_transactions ch
     \<and> fb_role ch' = fb_role ch \<and> assoc_plink ch' = assoc_plink ch"
  by (auto simp: fifo_read_token_def split: if_splits prod.splits)

text \<open>The transfer of a mapped system channel always completes a transaction.\<close>

definition mapped_channel :: "('a, 'h, 'f, 's) fifo_buffer \<Rightarrow> bool" where
  "mapped_channel ch \<longleftrightarrow> fb_role ch = SYSTEM_COMMSYNCH \<and> resolved (assoc_plink ch)"

lemma transfer_of_mapped:
  "fifo_write_transfer ops ra pl wc now ch st = Inr (tr, st') \<Longrightarrow> tr = No_Transfer \<longleftrightarrow> \<not> mapped_channel ch"
  by (auto simp: fifo_write_transfer_def mapped_channel_def transfer_by_PE_def rbind_eq_Inr rmap_eq_Inr
      split: if_splits option.splits)

definition with_credit :: "('a, 'h, 'f, 's, 'r, 'v) channel_run \<Rightarrow> nat" where
  "with_credit c = (if reader c = R_Token then 1 else 0)"

definition own_transfer :: "('a, 'h, 'f, 's, 'r, 'v) channel_run \<Rightarrow> nat" where
  "own_transfer c = (case writer c of W_Transferring _ \<Rightarrow> 1 | _ \<Rightarrow> 0)"

definition in_write :: "('a, 'h, 'f, 's, 'r, 'v) channel_run \<Rightarrow> nat" where
  "in_write c = (case writer c of W_Transferring _ \<Rightarrow> 1 | W_Storing _ \<Rightarrow> 1 | _ \<Rightarrow> 0)"

text \<open>Of a mapped channel: where the credits are, and which writes have been transferred.\<close>

definition transactions_ok :: "('f, 'v, 's) sc_ops \<Rightarrow> nat \<Rightarrow> ('a, 'h, 'f, 's, 'r, 'v) channel_run \<Rightarrow> bool" where
  "transactions_ok p n c \<longleftrightarrow> mapped_channel (chan c)
     \<and> sem_value p (completed_transactions (chan c)) + length (received c) + with_credit c = n + transferred c
     \<and> transferred c + requested c + own_transfer c = length (sent c) + in_write c"

context sc_channels
begin

lemma step_queue:
  assumes "channel_step p ops ra pl wc c c'"
  shows "queue_step (size_of (fb_fifo (chan c))) (queue_view contents c) (queue_view contents c')
    \<and> size_of (fb_fifo (chan c')) = size_of (fb_fifo (chan c))"
  using assms
proof cases
  case (write_call now t ch tr st v)
  then show ?thesis using begin_channel [OF write_call(3)] queue_stay by (simp add: queue_view_def)
next
  case (write_stored v ch t s)
  note st = store_channel [OF write_stored(3)]
  have lt: "length (contents (fb_fifo (chan c))) < size_of (fb_fifo (chan c))"
    using st room(2) [of "fb_fifo (chan c)"] by linarith
  have "queue_view contents c' = (queue_view contents c)\<lparr>q_contents := q_contents (queue_view contents c) @ [v],
      q_in := q_in (queue_view contents c) @ [v]\<rparr>"
    using st put [of "fb_fifo (chan c)" v] by (simp add: queue_view_def write_stored(1))
  then show ?thesis
    using queue_enter [of "queue_view contents c" _ v] lt st put [of "fb_fifo (chan c)" v]
    by (simp add: queue_view_def write_stored(1))
next
  case (read_credit ch)
  then show ?thesis using credit_channel [OF read_credit(3)] queue_stay by (simp add: queue_view_def)
next
  case (read_token now v ch t s)
  note tk = token_channel [OF read_token(3)]
  have v: "v = fst (fifo_get p (fb_fifo (chan c)))" "fb_fifo ch = snd (fifo_get p (fb_fifo (chan c)))"
    using tk by (metis fst_conv, metis snd_conv)
  show ?thesis
    using queue_leave [of "queue_view contents c" v "contents (fb_fifo ch)"] get [of "fb_fifo (chan c)"] tk
    by (simp add: queue_view_def read_token(1) v)
next
  case channel_delta
  then show ?thesis using update queue_stay by (simp add: queue_view_def)
qed (simp_all add: queue_view_def queue_stay)

lemma reachable_queue:
  assumes "channel_reachable p ops ra pl wc (channel_initial ch t1 t2 st) c"
  shows "queue_reachable (size_of (fb_fifo ch)) (contents (fb_fifo ch)) (queue_view contents c)
    \<and> size_of (fb_fifo (chan c)) = size_of (fb_fifo ch)"
  using assms
proof (induction rule: channel_reachable.induct)
  case channel_start
  then show ?case using queue_start by (simp add: queue_view_def channel_initial_def)
next
  case (channel_next c c')
  then show ?case using step_queue [OF channel_next.hyps(2)] queue_next by metis
qed

lemma step_transactions:
  assumes "channel_step p ops ra pl wc c c'" "transactions_ok p n c"
  shows "transactions_ok p n c'"
  using assms(1)
proof cases
  case (write_call now t ch tr st v)
  have "mapped_channel ch" using begin_channel [OF write_call(3)] assms(2)
    by (simp add: transactions_ok_def mapped_channel_def)
  then have "tr \<noteq> No_Transfer" using transfer_of_mapped [OF write_call(4)] by simp
  then show ?thesis using begin_channel [OF write_call(3)] assms(2) write_call(1,2) \<open>mapped_channel ch\<close>
    by (cases tr) (simp_all add: transactions_ok_def with_credit_def own_transfer_def in_write_def)
next
  case (write_transferred v)
  then show ?thesis using assms(2) semaphore(2)
    by (simp add: transactions_ok_def with_credit_def own_transfer_def in_write_def mapped_channel_def)
next
  case (netif_transferred k)
  then show ?thesis using assms(2) semaphore(2)
    by (simp add: transactions_ok_def with_credit_def own_transfer_def in_write_def mapped_channel_def)
next
  case (write_stored v ch t s)
  then show ?thesis using store_channel [OF write_stored(3)] assms(2)
    by (simp add: transactions_ok_def with_credit_def own_transfer_def in_write_def mapped_channel_def)
next
  case write_resumed
  then show ?thesis using assms(2)
    by (simp add: transactions_ok_def with_credit_def own_transfer_def in_write_def)
next
  case (read_call t w)
  then have "w" using assms(2) by (simp add: fifo_read_begin_def transactions_ok_def mapped_channel_def)
  then show ?thesis using read_call assms(2)
    by (simp add: transactions_ok_def with_credit_def own_transfer_def in_write_def)
next
  case (read_credit ch)
  note cr = credit_channel [OF read_credit(3)]
  have "Suc (sem_value p (sem_take p (completed_transactions (chan c)))) = sem_value p (completed_transactions (chan c))"
    using cr semaphore(3) [of "completed_transactions (chan c)"] by simp
  then show ?thesis using read_credit(1,2) cr assms(2)
    by (simp add: transactions_ok_def with_credit_def own_transfer_def in_write_def mapped_channel_def)
next
  case (read_token now v ch t s)
  then show ?thesis using token_channel [OF read_token(3)] assms(2)
    by (simp add: transactions_ok_def with_credit_def own_transfer_def in_write_def mapped_channel_def)
next
  case read_resumed
  then show ?thesis using assms(2)
    by (simp add: transactions_ok_def with_credit_def own_transfer_def in_write_def)
next
  case channel_delta
  then show ?thesis using assms(2)
    by (simp add: transactions_ok_def with_credit_def own_transfer_def in_write_def mapped_channel_def)
next
  case (channel_schedule a b)
  then show ?thesis using assms(2)
    by (simp add: transactions_ok_def with_credit_def own_transfer_def in_write_def)
qed

lemma reachable_transactions:
  assumes "channel_reachable p ops ra pl wc (channel_initial ch t1 t2 st) c" "mapped_channel ch"
  shows "transactions_ok p (sem_value p (completed_transactions ch)) c"
  using assms
proof (induction rule: channel_reachable.induct)
  case channel_start
  then show ?case
    by (simp add: transactions_ok_def channel_initial_def with_credit_def own_transfer_def in_write_def)
next
  case (channel_next c c')
  then show ?case using step_transactions by blast
qed

lemma reachable_order:
  assumes "channel_reachable p ops ra pl wc (channel_initial ch t1 t2 st) c"
  shows "received c @ contents (fb_fifo (chan c)) = contents (fb_fifo ch) @ sent c"
  using queue_order reachable_queue [OF assms] by (fastforce simp: queue_view_def)

text \<open>No read overtakes the transfer of the data it returns.\<close>

lemma reads_follow_transfers:
  assumes "channel_reachable p ops ra pl wc (channel_initial ch t1 t2 st) c" "mapped_channel ch"
  shows "length (received c) \<le> sem_value p (completed_transactions ch) + transferred c"
  using reachable_transactions [OF assms] by (simp add: transactions_ok_def)

text \<open>With no call of the writer and no transfer under way, the tokens without a credit stay in the fifo.\<close>

lemma quiescent_contents:
  assumes "channel_reachable p ops ra pl wc (channel_initial ch t1 t2 st) c" "mapped_channel ch"
    and "writer c = W_Idle \<or> writer c = W_Suspended" "requested c = 0"
  shows "length (contents (fb_fifo (chan c))) + sem_value p (completed_transactions ch) =
    length (contents (fb_fifo ch)) + sem_value p (completed_transactions (chan c)) + with_credit c"
proof -
  have "length (received c) + length (contents (fb_fifo (chan c))) = length (contents (fb_fifo ch)) + length (sent c)"
    using arg_cong [OF reachable_order [OF assms(1)], of length] by simp
  moreover have "transferred c = length (sent c)"
    using reachable_transactions [OF assms(1,2)] assms(3,4)
    by (auto simp: transactions_ok_def own_transfer_def in_write_def)
  ultimately show ?thesis
    using reachable_transactions [OF assms(1,2)] by (simp add: transactions_ok_def)
qed

end

subsection \<open>Initial tokens\<close>

fun initial_writes ::
    "('f, 'v, 's) sc_ops \<Rightarrow> 'v list \<Rightarrow> ('a, 'h, 'f, 's) fifo_buffer \<Rightarrow> ('a, 'h, 'f, 's) fifo_buffer result" where
  "initial_writes p [] ch = Inr ch"
| "initial_writes p (v # vs) ch = rbind (initial_write p v ch) (initial_writes p vs)"

context sc_channels
begin

lemma initial_write_effect:
  assumes "initial_write p v ch = Inr ch'"
  shows "contents (fb_fifo ch') = contents (fb_fifo ch) @ [v] \<and> fb_role ch' = fb_role ch
    \<and> assoc_plink ch' = assoc_plink ch \<and> fb_role ch = SYSTEM_COMMSYNCH
    \<and> sem_value p (completed_transactions ch') =
        sem_value p (completed_transactions ch) + (if resolved (assoc_plink ch) then 1 else 0)"
proof -
  have "0 < num_free p (fb_fifo ch)" using assms by (auto simp: initial_write_def split: if_splits)
  from put [OF this, of v] show ?thesis
    using assms semaphore(2) by (auto simp: initial_write_def Let_def split: if_splits)
qed

lemma initial_writes_effect:
  "initial_writes p vs ch = Inr ch' \<Longrightarrow> fb_role ch = SYSTEM_COMMSYNCH \<Longrightarrow>
   contents (fb_fifo ch') = contents (fb_fifo ch) @ vs \<and> fb_role ch' = SYSTEM_COMMSYNCH
    \<and> assoc_plink ch' = assoc_plink ch
    \<and> sem_value p (completed_transactions ch') =
        sem_value p (completed_transactions ch) + (if resolved (assoc_plink ch) then length vs else 0)"
proof (induction vs arbitrary: ch)
  case (Cons v vs)
  from Cons.prems(1) obtain ch1 where "initial_write p v ch = Inr ch1" "initial_writes p vs ch1 = Inr ch'"
    by (auto simp: rbind_eq_Inr)
  with initial_write_effect [OF this(1)] Cons.IH [OF this(2)] Cons.prems(2) show ?case by simp
qed simp

end

subsection \<open>A small channel\<close>

definition example_channel :: "nat link_t \<Rightarrow> (nat, nat, nat fifo_state, nat) fifo_buffer" where
  "example_channel l =
     \<lparr>fb_address = 0, fb_link = link_between (Some 0) (Some 1), fb_fifo = df_new 2, assoc_plink = l,
      assoc_comm_res_p = None, fb_message_size = 8, read_th_mon = None, write_th_mon = None,
      fb_role = SYSTEM_COMMSYNCH, fb_io_sense = UNSET_IO_SENSE, completed_transactions = 0, init_f = None\<rparr>"

definition example_platform :: "nat platform" where
  "example_platform =
     \<lparr>kind_of = (\<lambda>_. PROCESSING_ELEMENT), pe_of = (\<lambda>_. new_processing_element (Fin 0) ''pe''),
      commres_names = []\<rparr>"

lemma delta_channels_law: "sc_channels delta_channels df_contents df_size"
  by (rule delta.sc_channels_axioms)

lemma example_resolved: "resolved (link_between (Some 0) (Some 0))"
  by (simp add: resolved_def link_between_def)

lemma not_resolved_new [simp]: "\<not> resolved new_link"
  by (simp add: resolved_def new_link_def link_init_def empty_link_def)

lemma example_transfer:
  "fifo_write_transfer ops ra example_platform wc 0 (example_channel (link_between (Some 0) (Some 0))) st =
     Inr (Transfer_Delay 0, st)"
  by (simp add: fifo_write_transfer_def example_channel_def example_platform_def is_PE_intracomm_def
      is_intracomm_def resource_type_def source_PE_def link_between_def resolved_def
      getIntraComMaxP2Pdelay_def new_processing_element_def)

subsection \<open>Properties\<close>

text \<open>
  C5: A fifo buffer is a bounded first in first out queue. Whatever the resource, the platform, the
  interface and the scheduler do, every run of a channel is a run of the bounded queue that starts
  with its initial tokens: nothing is lost, duplicated or reordered, and no more tokens are held than
  its size.
\<close>
theorem fifo_refines_queue:
  assumes "sc_channels p contents size_of"
    and "channel_reachable p ops ra pl wc (channel_initial ch t1 t2 st) c"
  shows "queue_reachable (size_of (fb_fifo ch)) (contents (fb_fifo ch)) (queue_view contents c)
    \<and> received c @ contents (fb_fifo (chan c)) = contents (fb_fifo ch) @ sent c
    \<and> length (contents (fb_fifo (chan c))) \<le> size_of (fb_fifo ch)"
proof -
  have q: "queue_reachable (size_of (fb_fifo ch)) (contents (fb_fifo ch)) (queue_view contents c)"
    using sc_channels.reachable_queue [OF assms] by simp
  have "length (contents (fb_fifo (chan c))) \<le> size_of (fb_fifo (chan c))"
    by (rule sc_channels.bounded [OF assms(1)])
  then show ?thesis
    using q sc_channels.reachable_queue [OF assms] sc_channels.reachable_order [OF assms] by simp
qed

theorem fifo_refines_queue_witness:
  "queue_reachable 2 [] (queue_view df_contents
     (channel_initial (example_channel new_link) example_task example_task (\<lambda>_. ()) ::
       (nat, nat, nat fifo_state, nat, unit, nat) channel_run))"
  using fifo_refines_queue [OF delta_channels_law channel_start, of "example_channel new_link" example_task
      example_task "\<lambda>_. ()"]
  by (simp add: example_channel_def df_new_laws)

text \<open>
  C6: A read waits for its data. On a system channel mapped to a physical link each read takes a credit,
  so there are never more reads than credits at the start and completed transfers; and every write
  stored or under way is a transfer completed, requested from the network interface or made by
  the writer, exactly once.
\<close>
theorem fifo_reads_follow_transfers:
  assumes "sc_channels p contents size_of"
    and "channel_reachable p ops ra pl wc (channel_initial ch t1 t2 st) c"
    and "fb_role ch = SYSTEM_COMMSYNCH" "resolved (assoc_plink ch)"
  shows "length (received c) \<le> sem_value p (completed_transactions ch) + transferred c
    \<and> transferred c + requested c + own_transfer c = length (sent c) + in_write c"
proof -
  have m: "mapped_channel ch" using assms(3,4) by (simp add: mapped_channel_def)
  show ?thesis
    using sc_channels.reads_follow_transfers [OF assms(1,2) m]
      sc_channels.reachable_transactions [OF assms(1,2) m]
    by (simp add: transactions_ok_def)
qed

theorem fifo_reads_follow_transfers_witness:
  "\<exists>c :: (nat, nat, nat fifo_state, nat, unit, nat) channel_run.
     transferred c = 1 \<and> length (received c) \<le> 1 \<and> writer c = W_Storing 7"
proof -
  let ?ch = "example_channel (link_between (Some 0) (Some 0))"
  let ?ops = "\<lparr>vt_name = (\<lambda>_. ''r''), vt_add_link = (\<lambda>_. Inr), vt_set_MaxP2Pdelay_to = (\<lambda>_ _ _. Inr),
      vt_set_MaxP2Pdelay = (\<lambda>_ _. Inr), vt_get_MaxP2Pdelay = (\<lambda>_ _ r. Inr (0, r)),
      vt_get_CurrentP2Pdelay = (\<lambda>_ _ r. Inr (0, r))\<rparr> :: (nat, unit) delay_ops"
  let ?c0 = "channel_initial ?ch example_task example_task (\<lambda>_. ()) :: (nat, nat, nat fifo_state, nat, unit, nat) channel_run"
  have b: "fifo_write_begin 0 ?ch example_task = (sync_begin example_task, ?ch)"
    by (simp add: fifo_write_begin_def write_synchronises_def example_channel_def)
  have 1: "channel_reachable delta_channels ?ops (\<lambda>_. 1) example_platform False ?c0
      (?c0\<lparr>wtask := sync_begin example_task, writer := W_Transferring 7\<rparr>)"
    using channel_next [OF channel_start write_call [of ?c0, OF _ _ example_transfer]] b
    by (simp add: channel_initial_def)
  note 2 = channel_next [OF 1 write_transferred [of _ 7]]
  show ?thesis
    using fifo_reads_follow_transfers [OF delta_channels_law 2] example_resolved
    by (intro exI [of _ "?c0\<lparr>wtask := sync_begin example_task, chan := fifo_transfer_completed delta_channels ?ch,
          writer := W_Storing 7, transferred := 1\<rparr>"])
      (simp add: example_channel_def channel_initial_def)
qed

text \<open>
  Tokens injected before the channel is mapped are stranded. The initial tokens of a channel without
  physical link get no credit: once it is mapped, at least as many tokens stay in it whenever the
  writer is out of a write and no transfer is under way. Tokens injected into a channel that is mapped
  have a credit each: then a reader blocked for a credit has received every token.
\<close>
theorem initial_tokens_stranded:
  assumes "sc_channels p contents size_of"
    and "fb_role ch = SYSTEM_COMMSYNCH" "contents (fb_fifo ch) = []" "sem_value p (completed_transactions ch) = 0"
    and "initial_writes p vs ch = Inr ch1" "ch2 = ch1\<lparr>assoc_plink := l, assoc_comm_res_p := r\<rparr>" "resolved l"
    and "channel_reachable p ops ra pl wc (channel_initial ch2 t1 t2 st) c"
    and "writer c = W_Idle \<or> writer c = W_Suspended" "requested c = 0"
  shows "(\<not> resolved (assoc_plink ch) \<longrightarrow> length vs \<le> length (contents (fb_fifo (chan c))))
    \<and> (resolved (assoc_plink ch) \<and> reader c = R_Credit \<and> sem_value p (completed_transactions (chan c)) = 0 \<longrightarrow>
         contents (fb_fifo (chan c)) = [] \<and> received c = vs @ sent c)"
proof -
  note w = sc_channels.initial_writes_effect [OF assms(1,5,2)]
  have m: "mapped_channel ch2" using w assms(6,7) by (simp add: mapped_channel_def)
  have "length (contents (fb_fifo (chan c))) + sem_value p (completed_transactions ch1) =
    length vs + sem_value p (completed_transactions (chan c)) + with_credit c"
    using sc_channels.quiescent_contents [OF assms(1,8) m assms(9,10)] w assms(3,6) by simp
  then show ?thesis
    using w assms(3,4,6) sc_channels.reachable_order [OF assms(1,8)]
    by (auto simp: with_credit_def)
qed

theorem initial_tokens_stranded_witness:
  "\<exists>ch1. initial_writes delta_channels [5] (example_channel new_link) = Inr ch1
     \<and> length (df_contents (fb_fifo ch1)) \<ge> 1"
proof -
  obtain ch1 where ch1: "initial_writes delta_channels [5] (example_channel new_link) = Inr ch1"
    by (simp add: initial_write_def example_channel_def delta_channels_def df_new_laws)
  have "length [5 :: nat] \<le> length (df_contents (fb_fifo ch1))"
    using initial_tokens_stranded [OF delta_channels_law _ _ _ ch1 refl example_resolved channel_start,
        of None example_task example_task "\<lambda>_. ()"]
    by (simp add: example_channel_def df_new_laws channel_initial_def delta_channels_def)
  with ch1 show ?thesis by auto
qed

end
