(* ===== verification/Fifo_Elab.thy ===== *)
theory Fifo_Elab
  imports Fifo_Channel TDMA_Slots
begin

text \<open>
  The end of elaboration of a fifo buffer: the sense of an I/O channel, what explicit and automatic
  mapping lead to, and the delays that the writes of a channel mapped to a TDMA bus wait for.
\<close>

subsection \<open>Explicit mapping\<close>

lemma add_link_null: "src l = None \<Longrightarrow> add_link l r = undef ''null source''"
  by (simp add: add_link_def link_key_def)

lemma explicit_mapping_undefined:
  assumes "channel_map_to e r ch = Inr ch1" "fb_role ch = SYSTEM_COMMSYNCH" "src (assoc_plink ch) = None"
    and "commres_names pl \<noteq> []" "\<And>x l. src l = None \<Longrightarrow> vt_add_link ops l x = undef ''null source''"
  shows "fifo_end_of_elaboration ops pl phy_of name_of sys_tasks env_tasks call n store ch1 = undef ''null source''"
proof -
  have ch1: "ch1 = ch\<lparr>assoc_comm_res_p := Some r\<rparr>" using assms(1) by (simp add: channel_map_to_def split: if_splits)
  have "register_on_resource ops pl (settle_message_size n ch1) (store r) = undef ''null source''"
    using assms(3,5) by (cases "store r") (simp add: register_on_resource_def settle_message_size_def ch1 Let_def)
  then show ?thesis
    using assms(2,4)
    by (simp add: fifo_end_of_elaboration_def map_system_channel_def settle_message_size_def ch1 Let_def)
qed

subsection \<open>Delays on a TDMA bus\<close>

lemma calculate_without_links:
  "calculate_MaxP2Pdelay msg n (b\<lparr>links_table := t\<rparr>) = calculate_MaxP2Pdelay msg n b"
  by (cases b) (simp add: calculate_MaxP2Pdelay_def calculate_MaxP2Pdelay_L0_def calculate_MaxP2Pdelay_L1_def
      calculate_MaxP2Pdelay_L2_def calculate_data_tx_delay_L0_def calculate_data_tx_delay_L1_def max_offset_delay_def)

text \<open>A link added anew has no properties.\<close>

lemma added_link:
  assumes "table_inv b" "b0 = b\<lparr>links_table := (links_table b)(k \<mapsto> None)\<rparr>"
  shows "table_inv b0" "view b0 k sz = None"
proof -
  have entry: "info_entry b0 k' sz = (if k' = k then None else info_entry b k' sz)" for k' sz
    by (simp add: info_entry_def assms(2))
  have b: "next_info b0 = next_info b" "links_table b0 = (links_table b)(k \<mapsto> None)"
    by (simp_all add: assms(2))
  have "separate b" "ordered_sizes b" using assms(1) by (simp_all add: table_inv_def)
  then have "separate b0" "ordered_sizes b0"
    unfolding separate_def ordered_sizes_def entry b by (auto split: if_splits)
  then show "table_inv b0" by (simp add: table_inv_def)
  show "view b0 k sz = None" by (simp add: view_def entry)
qed

subsection \<open>Properties\<close>

text \<open>
  C10: A channel mapped explicitly is never elaborated. \<open>map_to\<close> sets the resource only, which keeps the
  automatic mapping from finding the physical link: with any resource in the model the end of
  elaboration then registers a link without ends, which dereferences a null pointer, whatever the
  class of the resource.
\<close>
theorem explicit_mapping_fails:
  assumes "channel_map_to e r ch = Inr ch1" "fb_role ch = SYSTEM_COMMSYNCH" "src (assoc_plink ch) = None"
    and "commres_names pl \<noteq> []"
  shows "fifo_end_of_elaboration (generic_ops e) pl phy_of name_of sys_tasks env_tasks call n store1 ch1 = undef ''null source''
    \<and> fifo_end_of_elaboration (shared_bus_ops e) pl phy_of name_of sys_tasks env_tasks call n store2 ch1 = undef ''null source''
    \<and> fifo_end_of_elaboration (tdma_ops rnd rmax e) pl phy_of name_of sys_tasks env_tasks call n store3 ch1 = undef ''null source''"
  by (intro conjI explicit_mapping_undefined [OF assms])
    (simp_all add: generic_ops_def shared_bus_ops_def tdma_ops_def add_link_null)

theorem explicit_mapping_fails_witness:
  "\<exists>ch1. channel_map_to \<lparr>sc_status = SC_ELABORATION, sc_running = False, sc_now = 0\<rparr> ''tdma'' (example_channel new_link) = Inr ch1
     \<and> fifo_end_of_elaboration (tdma_ops 0 1 \<lparr>sc_status = SC_ELABORATION, sc_running = False, sc_now = 0\<rparr>)
         (example_platform\<lparr>commres_names := [''tdma'']\<rparr>)
         (\<lambda>a. Some a) (\<lambda>_. ''t'') Map.empty Map.empty (\<lambda>_. Inr) 4 (\<lambda>_. (example_tdma, [])) ch1 = undef ''null source''"
proof -
  let ?e = "\<lparr>sc_status = SC_ELABORATION, sc_running = False, sc_now = 0\<rparr>"
  have m: "channel_map_to ?e ''tdma'' (example_channel new_link) = Inr ((example_channel new_link)\<lparr>assoc_comm_res_p := Some ''tdma''\<rparr>)"
    by (simp add: channel_map_to_def)
  have s: "fb_role (example_channel new_link) = SYSTEM_COMMSYNCH" "src (assoc_plink (example_channel new_link)) = None"
    by (simp_all add: example_channel_def new_link_def link_init_def empty_link_def)
  have c: "commres_names (example_platform\<lparr>commres_names := [''tdma'']\<rparr>) \<noteq> []" by simp
  have "fifo_end_of_elaboration (tdma_ops 0 1 ?e) (example_platform\<lparr>commres_names := [''tdma'']\<rparr>)
         (\<lambda>a. Some a) (\<lambda>_. ''t'') Map.empty Map.empty (\<lambda>_. Inr) 4 (\<lambda>_. (example_tdma, []))
         ((example_channel new_link)\<lparr>assoc_comm_res_p := Some ''tdma''\<rparr>) = undef ''null source''"
    by (rule conjunct2 [OF conjunct2 [OF explicit_mapping_fails [OF m s c]]])
  with m show ?thesis by blast
qed

text \<open>
  The sense of an I/O channel. At the end of elaboration a resolved I/O channel becomes an output exactly
  when its source is a task of the system and its destination one of the environment only, an input
  exactly in the converse case, and every other pair of tasks is an error.
\<close>
theorem io_sense_determined:
  assumes "fb_role ch = IO_COMMSYNCH" "src (fb_link ch) = Some s" "dest (fb_link ch) = Some d"
  shows "case fifo_end_of_elaboration ops pl phy_of name_of sys_tasks env_tasks call n store ch of
      Inr (ch1, store1) \<Rightarrow>
        store1 = store \<and>
        (fb_io_sense ch1 = OUTPUT \<longleftrightarrow> sys_tasks (name_of s) \<noteq> None) \<and>
        (fb_io_sense ch1 = INPUT \<longleftrightarrow> sys_tasks (name_of d) \<noteq> None) \<and>
        (sys_tasks (name_of s) = None \<longrightarrow> env_tasks (name_of s) \<noteq> None) \<and>
        (sys_tasks (name_of d) = None \<longrightarrow> env_tasks (name_of d) \<noteq> None) \<and>
        (write_synchronises ch1 \<longleftrightarrow> sys_tasks (name_of s) \<noteq> None) \<and>
        (read_synchronises ch1 \<longleftrightarrow> sys_tasks (name_of d) \<noteq> None)
    | Inl f \<Rightarrow>
        (sys_tasks (name_of s) = None \<and> env_tasks (name_of s) = None)
        \<or> (sys_tasks (name_of d) = None \<and> env_tasks (name_of d) = None)
        \<or> ((sys_tasks (name_of s) \<noteq> None) = (sys_tasks (name_of d) \<noteq> None))"
proof -
  have r: "resolved (fb_link ch)" using assms(2,3) by (simp add: resolved_def)
  show ?thesis
    using assms r
    by (cases "sys_tasks (name_of s)"; cases "sys_tasks (name_of d)"; cases "env_tasks (name_of s)";
        cases "env_tasks (name_of d)")
      (simp_all add: fifo_end_of_elaboration_def settle_message_size_def Let_def determine_io_sense_def
        write_synchronises_def read_synchronises_def report_def)
qed

theorem io_sense_determined_witness:
  "\<exists>ch1. fifo_end_of_elaboration (generic_ops (running_at 0)) example_platform (\<lambda>a. Some a)
       (\<lambda>a. if a = 0 then ''a'' else ''b'') [''a'' \<mapsto> 0] [''b'' \<mapsto> 1] (\<lambda>_. Inr) 4 (\<lambda>_. undefined)
       (set_as_IO (example_channel new_link)) = Inr (ch1, \<lambda>_. undefined) \<and> fb_io_sense ch1 = OUTPUT"
proof -
  let ?ch = "set_as_IO (example_channel new_link)"
  let ?store = "\<lambda>_ :: string. undefined :: nat comm_res \<times> (nat link_t \<times> nat mapped_llinks) list"
  have l: "fb_role ?ch = IO_COMMSYNCH" "src (fb_link ?ch) = Some 0" "dest (fb_link ?ch) = Some 1"
    by (simp_all add: set_as_IO_def example_channel_def link_between_def)
  show ?thesis
    using io_sense_determined [OF l, where ops = "generic_ops (running_at 0)" and pl = example_platform
        and phy_of = "\<lambda>a. Some a" and name_of = "\<lambda>a. if a = 0 then ''a'' else ''b''"
        and sys_tasks = "[''a'' \<mapsto> 0]" and env_tasks = "[''b'' \<mapsto> 1]" and call = "\<lambda>_. Inr" and n = 4
        and store = ?store]
    by (auto split: sum.splits)
qed

text \<open>
  The delays of a channel on a TDMA bus. After a channel between two processing elements is registered,
  the writer that transfers the data itself waits for the maximum delay of its message size and the
  slots of its processing element when the worst case is asked for, and otherwise for that maximum
  plus the current offset: the current delay is never below the maximum one.
\<close>
theorem tdma_current_delay_exceeds_maximum:
  assumes "register_on_resource (tdma_ops rnd rmax e) pl ch (b, t) = Inr (b1, t1)" "table_inv b"
    and "\<not> is_intracomm (assoc_plink ch)" "is_PE_PE_comm (kind_of pl) (assoc_plink ch) = Inr True"
    and "assoc_comm_res_p ch = Some n" "store n = b1"
    and "transfer_by_PE (tdma_ops rnd' rmax' e') True ch store = Inr (Transfer_Delay worst, s1)"
    and "transfer_by_PE (tdma_ops rnd' rmax' e') False ch store = Inr (Transfer_Delay current, s2)"
  shows "worst \<le> current
    \<and> (\<exists>a slots. src (assoc_plink ch) = Some a \<and> map_of (channel_allocation_table b) a = Some slots
         \<and> calculate_MaxP2Pdelay (fb_message_size ch) slots b = Inr worst)"
proof -
  let ?l = "assoc_plink ch" and ?m = "fb_message_size ch"
  obtain b0 where b0: "add_link ?l b = Inr b0" "tdma_set_MaxP2Pdelay e ?l ?m b0 = Inr b1"
    using assms(1,3,4)
    by (auto simp: register_on_resource_def rbind_eq_Inr rmap_eq_Inr is_PE_intracomm_def tdma_ops_def)
  obtain k where k: "link_key ?l = Inr k" "b0 = b\<lparr>links_table := (links_table b)(k \<mapsto> None)\<rparr>"
    using b0(1) by (auto simp: add_link_def rmap_eq_Inr)
  note added = added_link [OF assms(2) k(2)]
  obtain a slots d where d: "src ?l = Some a" "map_of (channel_allocation_table b0) a = Some slots" "slots \<noteq> 0"
    "calculate_MaxP2Pdelay ?m slots b0 = Inr d" "table_inv b1"
    "view b1 k ?m = Some (new_link_info\<lparr>MaxP2Pdelay := d\<rparr>)"
    by (rule tdma_setter_max [OF b0(2) k(1) added(1) added(2) [of ?m]])
  have hit: "cached_properties f ?l ?m b1 = Inr (new_link_info\<lparr>MaxP2Pdelay := d\<rparr>, b1)" for f
    using cached_hit [OF k(1) link_keeps_table [OF d(6)] _ d(6)] d(5) by (simp add: table_inv_def)
  have "worst = d"
    using assms(5-7) hit by (simp add: transfer_by_PE_def tdma_ops_def tdma_get_MaxP2Pdelay_def)
  moreover have "d \<le> current"
    using assms(5,6,8) hit
    by (auto simp: transfer_by_PE_def tdma_ops_def tdma_get_CurrentP2Pdelay_def rmap_eq_Inr rbind_eq_Inr)
  moreover have "channel_allocation_table b0 = channel_allocation_table b"
    "calculate_MaxP2Pdelay ?m slots b0 = calculate_MaxP2Pdelay ?m slots b"
    by (simp_all add: k(2) calculate_without_links)
  ultimately show ?thesis using d by auto
qed

lemma example_bus_current:
  "tdma_get_CurrentP2Pdelay 0 1 (running_at 300) example_link 32 (example_cached (setMaxP2Pdelay 1000)) =
     Inr (1700, (example_cached (setMaxP2Pdelay 1000))\<lparr>current_tx_delay := 1700\<rparr>)"
proof -
  let ?b = "example_cached (setMaxP2Pdelay 1000)"
  have c: "cached_properties f example_link 32 ?b = Inr (setMaxP2Pdelay 1000 new_link_info, ?b)" for f
    by (simp add: cached_properties_def get_properties_def deref_info_def example_link_def
        example_cached_def example_tdma_def)
  have "phase_known ?b 0 300" by (simp add: phase_known_def example_cached_def example_tdma_def)
  from current_offset_L0 [OF this] have o: "current_offset_delay_L0 300 0 ?b = Inr 700"
    by (simp add: example_cached_def example_tdma_def)
  have "table_at 1 (first_slot_allocation_table ?b) = (0, first_slot_allocation_table ?b)"
    "accuracy_level ?b = 0" "src example_link = Some 1"
    "MaxP2Pdelay (setMaxP2Pdelay 1000 new_link_info) = 1000"
    by (simp_all add: example_cached_def example_tdma_def table_at_def example_link_def link_between_def
        setMaxP2Pdelay_def new_link_info_def)
  with c o show ?thesis by (simp add: tdma_get_CurrentP2Pdelay_def running_at_def)
qed

lemma example_bus_max:
  "tdma_get_MaxP2Pdelay e example_link 32 (example_cached (setMaxP2Pdelay 1000)) =
     Inr (1000, example_cached (setMaxP2Pdelay 1000))"
  by (simp add: tdma_get_MaxP2Pdelay_def cached_properties_def get_properties_def deref_info_def
      example_link_def example_cached_def example_tdma_def setMaxP2Pdelay_def new_link_info_def)

definition example_mapped :: "(nat, nat, nat fifo_state, nat) fifo_buffer" where
  "example_mapped = (example_channel example_link)\<lparr>fb_message_size := 32, assoc_comm_res_p := Some ''tdma''\<rparr>"

lemma example_registered:
  "register_on_resource (tdma_ops 0 1 (running_at 0)) example_platform example_mapped (example_tdma, []) =
     Inr (example_cached (setMaxP2Pdelay 1000), [(example_link, [fb_link example_mapped])])"
proof -
  have a: "add_link example_link example_tdma = Inr example_tdma"
    by (simp add: add_link_def example_link_def) (simp add: example_tdma_def)
  have m: "tdma_set_MaxP2Pdelay (running_at 0) example_link 32 example_tdma
      = Inr (example_cached (setMaxP2Pdelay 1000))"
    by (simp add: tdma_set_MaxP2Pdelay_def example_slots example_max set_MaxP2Pdelay_def example_set)
  have i: "is_PE_intracomm (kind_of example_platform) example_link = Inr False"
    "is_PE_PE_comm (kind_of example_platform) example_link = Inr True"
    by (simp_all add: is_PE_intracomm_def is_intracomm_def is_PE_PE_comm_def resource_type_def
        example_link_def link_between_def example_platform_def)
  have l: "assoc_plink example_mapped = example_link" "fb_message_size example_mapped = 32"
    by (simp_all add: example_mapped_def example_channel_def)
  show ?thesis
    by (simp add: register_on_resource_def tdma_ops_def l a m i map_in_table_def assign_llink_def)
qed

theorem tdma_current_delay_exceeds_maximum_witness:
  "\<exists>s1 s2. transfer_by_PE (tdma_ops 0 1 (running_at 300)) True example_mapped
       (\<lambda>_. example_cached (setMaxP2Pdelay 1000)) = Inr (Transfer_Delay 1000, s1)
   \<and> transfer_by_PE (tdma_ops 0 1 (running_at 300)) False example_mapped
       (\<lambda>_. example_cached (setMaxP2Pdelay 1000)) = Inr (Transfer_Delay 1700, s2)
   \<and> (1000 :: nat) \<le> 1700"
proof -
  let ?b = "example_cached (setMaxP2Pdelay 1000)"
  have p: "assoc_comm_res_p example_mapped = Some ''tdma''" "assoc_plink example_mapped = example_link"
    "fb_message_size example_mapped = 32"
    by (simp_all add: example_mapped_def example_channel_def)
  have w: "transfer_by_PE (tdma_ops 0 1 (running_at 300)) True example_mapped (\<lambda>_. ?b) =
      Inr (Transfer_Delay 1000, \<lambda>_. ?b)"
    by (simp add: transfer_by_PE_def tdma_ops_def p example_bus_max fun_eq_iff)
  obtain s2 where c: "transfer_by_PE (tdma_ops 0 1 (running_at 300)) False example_mapped (\<lambda>_. ?b) =
      Inr (Transfer_Delay 1700, s2)"
    by (simp add: transfer_by_PE_def tdma_ops_def p example_bus_current del: One_nat_def)
  have k: "\<not> is_intracomm (assoc_plink example_mapped)"
    "is_PE_PE_comm (kind_of example_platform) (assoc_plink example_mapped) = Inr True"
    by (simp_all add: p is_intracomm_def is_PE_PE_comm_def resource_type_def example_link_def
        link_between_def example_platform_def)
  have "(1000 :: nat) \<le> 1700"
    using tdma_current_delay_exceeds_maximum [OF example_registered example_tdma_inv(3) k p(1) _ w c] by simp
  with w c show ?thesis by blast
qed

end
