(* ===== verification/Shared_Var.thy ===== *)
theory Shared_Var
  imports Fifo_Buffer
begin

text \<open>
  \<open>synch_comm/shared_var.hpp\<close>: a variable shared by tasks, with the memory it is mapped to and the
  physical link of its accesses. The members that the constructors leave indeterminate are arguments.
  Reports call \<open>name()\<close>, which the class does not have; they are left out as elsewhere. The link is a
  pointer: \<open>None\<close> is null.
\<close>

record ('h, 'v) shared_var =
  sv_val :: 'v
  sv_plink :: "'h link_t option"
  sv_comm_res_p :: "string option"
  sv_memres_p :: "string option"
  sv_message_size :: u32
  sv_read_th_mon :: "throughput_monitor option"
  sv_write_th_mon :: "throughput_monitor option"
  sv_role :: comm_synch_role_t
  sv_io_sense :: io_comm_synch_sense_t

definition shared_var_members ::
    "'h link_t option \<Rightarrow> string option \<Rightarrow> 'v \<Rightarrow> ('h, 'v) shared_var" where
  "shared_var_members raw_plink raw_mem v =
     \<lparr>sv_val = v, sv_plink = raw_plink, sv_comm_res_p = None, sv_memres_p = raw_mem, sv_message_size = 0,
      sv_read_th_mon = None, sv_write_th_mon = None, sv_role = SYSTEM_COMMSYNCH,
      sv_io_sense = UNSET_IO_SENSE\<rparr>"

definition new_shared_var :: "'h link_t option \<Rightarrow> string option \<Rightarrow> 'v \<Rightarrow> ('h, 'v) shared_var" where
  "new_shared_var raw_plink raw_mem raw_val = shared_var_members raw_plink raw_mem raw_val"

definition new_shared_var_named ::
    "'h link_t option \<Rightarrow> string option \<Rightarrow> 'v \<Rightarrow> string \<Rightarrow> ('h, 'v) shared_var" where
  "new_shared_var_named raw_plink raw_mem raw_val name = shared_var_members raw_plink raw_mem raw_val"

definition new_shared_var_initialised ::
    "'h link_t option \<Rightarrow> string option \<Rightarrow> 'v \<Rightarrow> ('h, 'v) shared_var" where
  "new_shared_var_initialised raw_plink raw_mem v = shared_var_members raw_plink raw_mem v"

text \<open>\<open>mems\<close> are the memories of the model, in order.\<close>

definition shared_var_end_of_elaboration ::
    "nat \<Rightarrow> string list \<Rightarrow> ('h, 'v) shared_var \<Rightarrow> ('h, 'v) shared_var" where
  "shared_var_end_of_elaboration sizeof_T mems x =
     (let n = (if sv_message_size x = 0 then of_nat (sizeof_T * 8) else sv_message_size x);
          x1 = x\<lparr>sv_message_size := n,
                 sv_write_th_mon := map_option (set_data_size n) (sv_write_th_mon x),
                 sv_read_th_mon := map_option (set_data_size n) (sv_read_th_mon x)\<rparr> in
      if sv_memres_p x1 = None then
        (case mems of [] \<Rightarrow> x1 | m # _ \<Rightarrow> x1\<lparr>sv_memres_p := Some m\<rparr>)
      else x1)"

definition shared_var_map_to :: "sim_env \<Rightarrow> string \<Rightarrow> ('h, 'v) shared_var \<Rightarrow> ('h, 'v) shared_var result" where
  "shared_var_map_to e m x =
     (if sc_status e \<in> {SC_ELABORATION, SC_BEFORE_END_OF_ELABORATION}
      then Inr (x\<lparr>sv_memres_p := Some m\<rparr>) else report ''map '')"

text \<open>
  The time the write waits before it stores the value. In the branch of a memory both tests are on the
  source of the link.
\<close>

definition shared_var_write_delay :: "'h platform \<Rightarrow> ('h, 'v) shared_var \<Rightarrow> sc_time result" where
  "shared_var_write_delay pl x =
     (if sv_role x = SYSTEM_COMMSYNCH then
        (case sv_plink x of
           None \<Rightarrow> undef ''null physical link''
         | Some l \<Rightarrow>
             (if resolved l then
                rbind (is_PE_intracomm (kind_of pl) l) (\<lambda>intra.
                  if intra then
                    rmap (getIntraComMaxP2Pdelay (sv_message_size x))
                      (source_PE pl ''. PE intra-communication. Source PE not associated to a processing element'' l)
                  else
                    rbind (is_PE_MEM_comm (kind_of pl) l) (\<lambda>to_mem.
                      if to_mem then
                        rbind (source_PE pl ''. PE-MEM communication. Source PE not associated to a processing element'' l) (\<lambda>_.
                        rbind (resource_type (kind_of pl) (src l)) (\<lambda>k.
                          rmap (\<lambda>_. 0) (check (k = MEMORY_RESOURCE)
                            ''. PE-MEM communication. Destination memory not associated to a memory resource element'')))
                      else Inr 0))
              else Inr 0))
      else Inr 0)"

text \<open>The call up to its wait, and the end of it.\<close>

definition shared_var_write_begin ::
    "sc_time \<Rightarrow> 'h platform \<Rightarrow> ('h, 'v) shared_var \<Rightarrow> (sc_time \<times> ('h, 'v) shared_var) result" where
  "shared_var_write_begin now pl x =
     (let x1 = x\<lparr>sv_write_th_mon := map_option (annotate_data_event now) (sv_write_th_mon x)\<rparr> in
      rmap (\<lambda>d. (d, x1)) (shared_var_write_delay pl x1))"

definition shared_var_write_end :: "'v \<Rightarrow> ('h, 'v) shared_var \<Rightarrow> ('h, 'v) shared_var" where
  "shared_var_write_end v x = x\<lparr>sv_val := v\<rparr>"

definition shared_var_read :: "sc_time \<Rightarrow> ('h, 'v) shared_var \<Rightarrow> 'v \<times> ('h, 'v) shared_var" where
  "shared_var_read now x =
     (sv_val x, x\<lparr>sv_read_th_mon := map_option (annotate_data_event now) (sv_read_th_mon x)\<rparr>)"

subsection \<open>Properties\<close>

text \<open>
  A write of a system variable to a memory never succeeds: over a link from a processing element to a
  memory it is an error, because the kind of the source is tested for that of the destination. The
  writes of a system variable without error are those inside a processing element, which wait for its
  maximum delay, and those without a delay: over an unresolved link or to another element.
\<close>
theorem shared_var_write_outcomes:
  assumes "sv_role x = SYSTEM_COMMSYNCH" "sv_plink x = Some l" "src l = Some a" "dest l = Some b"
  shows "shared_var_write_begin now pl x =
    (if kind_of pl a = PROCESSING_ELEMENT \<and> a \<noteq> b \<and> kind_of pl b = MEMORY_RESOURCE
     then report ''. PE-MEM communication. Destination memory not associated to a memory resource element''
     else Inr (if kind_of pl a = PROCESSING_ELEMENT \<and> a = b
               then getIntraComMaxP2Pdelay (sv_message_size x) (pe_of pl a) else 0,
               x\<lparr>sv_write_th_mon := map_option (annotate_data_event now) (sv_write_th_mon x)\<rparr>))"
  using assms
  by (cases "a = b"; cases "kind_of pl a"; cases "kind_of pl b")
    (simp_all add: shared_var_write_begin_def shared_var_write_delay_def Let_def resolved_def
      is_PE_intracomm_def is_intracomm_def is_PE_MEM_comm_def resource_type_def source_PE_def)

theorem shared_var_write_outcomes_witness:
  "shared_var_write_begin 5
     \<lparr>kind_of = (\<lambda>h. if h = 0 then PROCESSING_ELEMENT else MEMORY_RESOURCE),
      pe_of = (\<lambda>_. new_processing_element (Fin 0) ''pe''), commres_names = []\<rparr>
     (new_shared_var_initialised (Some (link_between (Some (0 :: nat)) (Some 1))) None (7 :: nat))
   = report ''. PE-MEM communication. Destination memory not associated to a memory resource element''"
  using shared_var_write_outcomes [of "new_shared_var_initialised (Some (link_between (Some (0 :: nat)) (Some 1))) None (7 :: nat)"
      "link_between (Some 0) (Some 1)" 0 1 5
      "\<lparr>kind_of = (\<lambda>h. if h = 0 then PROCESSING_ELEMENT else MEMORY_RESOURCE),
      pe_of = (\<lambda>_. new_processing_element (Fin 0) ''pe''), commres_names = []\<rparr>"]
  by (simp add: new_shared_var_initialised_def shared_var_members_def link_between_def)

end
