(* ===== verification/Energy_Power.thy ===== *)
theory Energy_Power
  imports Doubles Sim_Phase
begin

text \<open>
  \<open>energy_power/power_measurement_probe.cpp\<close> and \<open>energy_power/global_energy_power_metrics.cpp\<close>: probes
  that average the power of a consumed energy over intervals, and the energies and probes of the whole
  platform. The function a probe reads the energy from is an argument: what it returns at each call.
  The members not set by the constructor are indeterminate, the argument \<open>raw\<close>.
\<close>

subsection \<open>Probes\<close>

record power_probe =
  averaging_time :: sc_time
  curr_av_power_W :: double
  peak_av_power_W :: double
  total_average_power :: double
  previous_total_consumed_energy_J :: double

text \<open>The last field is the local of the process.\<close>

definition new_power_probe :: "power_probe \<Rightarrow> sc_time \<Rightarrow> power_probe" where
  "new_power_probe raw av = raw\<lparr>averaging_time := av\<rparr>"

definition set_averaging_time :: "sim_env \<Rightarrow> sc_time \<Rightarrow> power_probe \<Rightarrow> power_probe result" where
  "set_averaging_time e av p =
     rmap (\<lambda>_. p\<lparr>averaging_time := av\<rparr>) (check_call_before_sim_start e ''set_averaging_time'')"

text \<open>The process up to its first wait, and a round of its loop after a wait.\<close>

definition probe_start :: "double \<Rightarrow> power_probe \<Rightarrow> power_probe" where
  "probe_start energy p = p\<lparr>previous_total_consumed_energy_J := energy, peak_av_power_W := Fin 0\<rparr>"

definition probe_round :: "double \<Rightarrow> power_probe \<Rightarrow> power_probe" where
  "probe_round energy p =
     (let power = ddiv (dsub energy (previous_total_consumed_energy_J p)) (Fin (to_seconds (averaging_time p)));
          p1 = p\<lparr>curr_av_power_W := power,
                 peak_av_power_W := (if dless (peak_av_power_W p) power then power else peak_av_power_W p)\<rparr> in
      p1\<lparr>previous_total_consumed_energy_J := energy\<rparr>)"

definition probe_get_total_average_power_W :: "sim_env \<Rightarrow> double \<Rightarrow> power_probe \<Rightarrow> (double \<times> power_probe) result" where
  "probe_get_total_average_power_W e energy p =
     rmap (\<lambda>_.
       let w = (if sc_status e = SC_STOPPED \<or> (sc_running e \<and> sc_now e > 0)
                then ddiv energy (Fin (to_seconds (sc_now e))) else Fin 0)
       in (w, p\<lparr>total_average_power := w\<rparr>))
       (check_call_after_sim_start e ''get_total_average_power_W'')"

definition probe_get_average_power_W :: "power_probe \<Rightarrow> double" where
  "probe_get_average_power_W p = curr_av_power_W p"

definition probe_get_peak_av_power_W :: "power_probe \<Rightarrow> double" where
  "probe_get_peak_av_power_W p = peak_av_power_W p"

subsection \<open>Energy of the platform\<close>

text \<open>The body the three sums share: \<open>energy\<close> is what the call on a processing element returns.\<close>

fun sum_over_pes :: "('p \<Rightarrow> double result) \<Rightarrow> double \<Rightarrow> 'p list \<Rightarrow> double result" where
  "sum_over_pes energy acc [] = Inr acc"
| "sum_over_pes energy acc (p # ps) =
     rbind (energy p) (\<lambda>x. sum_over_pes energy (dadd acc x) ps)"

definition get_total_consumed_energy_J :: "('p \<Rightarrow> double result) \<Rightarrow> 'p list \<Rightarrow> double result" where
  "get_total_consumed_energy_J get_consumed_energy pes = sum_over_pes get_consumed_energy (Fin 0) pes"

definition get_total_static_consumed_energy_J :: "('p \<Rightarrow> double result) \<Rightarrow> 'p list \<Rightarrow> double result" where
  "get_total_static_consumed_energy_J get_consumed_static_energy pes =
     sum_over_pes get_consumed_static_energy (Fin 0) pes"

definition get_total_dynamic_consumed_energy_J :: "('p \<Rightarrow> double result) \<Rightarrow> 'p list \<Rightarrow> double result" where
  "get_total_dynamic_consumed_energy_J get_consumed_dynamic_energy pes =
     sum_over_pes get_consumed_dynamic_energy (Fin 0) pes"

subsection \<open>Global probes\<close>

text \<open>A global pointer to a probe: null, to a probe, or to one that was deleted.\<close>

datatype probe_ptr = Null_Probe | Probe power_probe | Deleted_Probe

record energy_globals =
  energy_and_power_measurement_enabled :: bool
  global_power_averaging_time :: sc_time
  global_power_probe :: probe_ptr
  global_dynamic_power_probe :: probe_ptr

definition enable_energy_and_power_measurement ::
    "power_probe \<Rightarrow> sim_env \<Rightarrow> energy_globals \<Rightarrow> energy_globals result" where
  "enable_energy_and_power_measurement raw e g =
     rmap (\<lambda>_. g\<lparr>energy_and_power_measurement_enabled := True,
         global_power_probe := Probe (new_power_probe raw (global_power_averaging_time g)),
         global_dynamic_power_probe := Probe (new_power_probe raw (global_power_averaging_time g))\<rparr>)
       (check_call_before_sim_start e ''enable_energy_and_power_measurement'')"

text \<open>The pointers keep their values after the deletion.\<close>

definition delete_probe :: "probe_ptr \<Rightarrow> probe_ptr result" where
  "delete_probe p =
     (case p of Null_Probe \<Rightarrow> Inr Null_Probe | Probe _ \<Rightarrow> Inr Deleted_Probe | Deleted_Probe \<Rightarrow> undef ''deleted twice'')"

definition disable_energy_and_power_measurement :: "sim_env \<Rightarrow> energy_globals \<Rightarrow> energy_globals result" where
  "disable_energy_and_power_measurement e g =
     rbind (check_call_before_sim_start e ''enable_energy_and_power_measurement'') (\<lambda>_.
     rbind (delete_probe (global_power_probe g)) (\<lambda>p.
     rmap (\<lambda>q. g\<lparr>energy_and_power_measurement_enabled := False, global_power_probe := p,
                 global_dynamic_power_probe := q\<rparr>)
       (delete_probe (global_dynamic_power_probe g))))"

definition was_energy_and_power_measurement_enabled :: "sim_env \<Rightarrow> energy_globals \<Rightarrow> bool result" where
  "was_energy_and_power_measurement_enabled e g =
     rmap (\<lambda>_. energy_and_power_measurement_enabled g)
       (check_call_after_sim_start e ''was_energy_and_power_measurement_enabled'')"

definition on_probe :: "(power_probe \<Rightarrow> 'x result) \<Rightarrow> probe_ptr \<Rightarrow> 'x result" where
  "on_probe f p =
     (case p of Null_Probe \<Rightarrow> undef ''null probe'' | Deleted_Probe \<Rightarrow> undef ''deleted probe'' | Probe x \<Rightarrow> f x)"

definition update_averaging_time :: "sim_env \<Rightarrow> sc_time \<Rightarrow> probe_ptr \<Rightarrow> probe_ptr result" where
  "update_averaging_time e av p =
     (if p = Null_Probe then Inr p else on_probe (\<lambda>x. rmap Probe (set_averaging_time e av x)) p)"

definition set_global_power_averaging_time :: "sim_env \<Rightarrow> sc_time \<Rightarrow> energy_globals \<Rightarrow> energy_globals result" where
  "set_global_power_averaging_time e av g =
     rbind (update_averaging_time e av (global_power_probe g)) (\<lambda>p.
     rmap (\<lambda>q. g\<lparr>global_power_averaging_time := av, global_power_probe := p, global_dynamic_power_probe := q\<rparr>)
       (update_averaging_time e av (global_dynamic_power_probe g)))"

text \<open>The peak of the dynamic power is read as the last average of the probe of the total power.\<close>

definition global_get_peak_dyn_power_W :: "energy_globals \<Rightarrow> double result" where
  "global_get_peak_dyn_power_W g = on_probe (\<lambda>p. Inr (probe_get_average_power_W p)) (global_power_probe g)"

definition get_peak_avg_power_W :: "energy_globals \<Rightarrow> double result" where
  "get_peak_avg_power_W g = on_probe (\<lambda>p. Inr (probe_get_peak_av_power_W p)) (global_power_probe g)"

definition global_get_total_average_power_W ::
    "sim_env \<Rightarrow> double \<Rightarrow> energy_globals \<Rightarrow> (double \<times> energy_globals) result" where
  "global_get_total_average_power_W e energy g =
     on_probe (\<lambda>p. rmap (\<lambda>(w, q). (w, g\<lparr>global_power_probe := Probe q\<rparr>))
       (probe_get_total_average_power_W e energy p)) (global_power_probe g)"

subsection \<open>Properties\<close>

text \<open>A run of the process: the energy at the start and at each of its resumptions.\<close>

definition probe_run :: "double \<Rightarrow> double list \<Rightarrow> power_probe \<Rightarrow> power_probe" where
  "probe_run e0 es p = foldl (\<lambda>p e. probe_round e p) (probe_start e0 p) es"

text \<open>The average powers of the intervals between the readings.\<close>

definition interval_power :: "rat \<Rightarrow> rat list \<Rightarrow> nat \<Rightarrow> rat" where
  "interval_power T es i = (es ! Suc i - es ! i) / T"

lemma probe_run_snoc: "probe_run e0 (es @ [e]) p = probe_round e (probe_run e0 es p)"
  by (simp add: probe_run_def)

lemma probe_run_state:
  assumes "0 < averaging_time p"
  shows "averaging_time (probe_run (Fin e0) (map Fin es) p) = averaging_time p
    \<and> previous_total_consumed_energy_J (probe_run (Fin e0) (map Fin es) p) = Fin ((e0 # es) ! length es)
    \<and> (es \<noteq> [] \<longrightarrow> curr_av_power_W (probe_run (Fin e0) (map Fin es) p) =
         Fin (interval_power (to_seconds (averaging_time p)) (e0 # es) (length es - 1)))
    \<and> peak_av_power_W (probe_run (Fin e0) (map Fin es) p) =
         Fin (Max (insert 0 (interval_power (to_seconds (averaging_time p)) (e0 # es) ` {..<length es})))"
proof (induction es rule: rev_induct)
  case Nil
  then show ?case by (simp add: probe_run_def probe_start_def)
next
  case (snoc e es)
  let ?T = "to_seconds (averaging_time p)" and ?q = "probe_run (Fin e0) (map Fin es) p"
  let ?P = "interval_power ?T (e0 # es) ` {..<length es}"
  let ?x = "interval_power ?T (e0 # es @ [e]) (length es)"
  have T: "?T \<noteq> 0" using assms by (simp add: to_seconds_def)
  have same: "interval_power ?T (e0 # es @ [e]) ` {..<length es} = ?P"
    by (rule image_cong) (auto simp: interval_power_def nth_append nth_Cons split: nat.splits)
  have last: "(e0 # es @ [e]) ! length es = (e0 # es) ! length es"
    by (cases es rule: rev_cases) (simp_all add: nth_append nth_Cons split: nat.splits)
  have round: "probe_run (Fin e0) (map Fin (es @ [e])) p = probe_round (Fin e) ?q"
    using probe_run_snoc [of "Fin e0" "map Fin es" "Fin e" p] by simp
  have power: "ddiv (dsub (Fin e) (previous_total_consumed_energy_J ?q)) (Fin (to_seconds (averaging_time ?q))) = Fin ?x"
    using snoc.IH T by (simp add: interval_power_def last)
  have split: "insert 0 (interval_power ?T (e0 # es @ [e]) ` {..<Suc (length es)}) = insert ?x (insert 0 ?P)"
    by (simp only: lessThan_Suc image_insert same insert_commute)
  have peak: "Max (insert 0 (interval_power ?T (e0 # es @ [e]) ` {..<Suc (length es)})) =
      (if Max (insert 0 ?P) < ?x then ?x else Max (insert 0 ?P))"
    unfolding split by (subst Max_insert) (simp_all only: finite_insert finite_imageI finite_lessThan
      insert_not_empty max_def not_le [symmetric] not_False_eq_True if_not_P split: if_split, linarith+)
  have avt: "averaging_time ?q = averaging_time p" using snoc.IH by simp
  have peak_q: "peak_av_power_W ?q = Fin (Max (insert 0 ?P))" using snoc.IH by simp
  have len: "length (es @ [e]) = Suc (length es)" "length (es @ [e]) - 1 = length es" by simp_all
  have now: "(e0 # es @ [e]) ! length (es @ [e]) = e" by simp
  have step: "probe_round (Fin e) ?q = ?q\<lparr>curr_av_power_W := Fin ?x,
      peak_av_power_W := (if dless (Fin (Max (insert 0 ?P))) (Fin ?x) then Fin ?x else Fin (Max (insert 0 ?P))),
      previous_total_consumed_energy_J := Fin e\<rparr>"
    unfolding probe_round_def power Let_def peak_q by simp
  have pk: "peak_av_power_W (probe_round (Fin e) ?q) =
      Fin (Max (insert 0 (interval_power ?T (e0 # es @ [e]) ` {..<Suc (length es)})))"
    unfolding step peak by (simp del: Max_less_iff Max_insert Max_insert2)
  show ?case
    using pk avt unfolding round now len by (simp add: step)
qed

text \<open>
  A power probe accounts all the energy. After any number of intervals the current power is the
  energy of the last interval over its length, the peak is the largest power of an interval, at
  least zero, and the powers of the intervals times their length add up to the energy consumed
  since the start.
\<close>
theorem power_probe_exact:
  assumes "0 < averaging_time p" "es \<noteq> []"
  shows "curr_av_power_W (probe_run (Fin e0) (map Fin es) p) =
      Fin (interval_power (to_seconds (averaging_time p)) (e0 # es) (length es - 1))
    \<and> peak_av_power_W (probe_run (Fin e0) (map Fin es) p) =
      Fin (Max (insert 0 (interval_power (to_seconds (averaging_time p)) (e0 # es) ` {..<length es})))
    \<and> (\<Sum>i<length es. interval_power (to_seconds (averaging_time p)) (e0 # es) i * to_seconds (averaging_time p))
      = last es - e0"
proof -
  have T: "to_seconds (averaging_time p) \<noteq> 0" using assms(1) by (simp add: to_seconds_def)
  have "(\<Sum>i<length es. interval_power (to_seconds (averaging_time p)) (e0 # es) i * to_seconds (averaging_time p))
      = (\<Sum>i<length es. (e0 # es) ! Suc i - (e0 # es) ! i)"
    using T by (simp add: interval_power_def)
  also have "\<dots> = (e0 # es) ! length es - (e0 # es) ! 0" by (rule sum_lessThan_telescope)
  also have "\<dots> = last es - e0" using assms(2) by (cases es rule: rev_cases) simp_all
  finally show ?thesis using probe_run_state [OF assms(1), of e0 es] assms(2) by blast
qed

theorem power_probe_exact_witness:
  "curr_av_power_W (probe_run (Fin 1) (map Fin [3, 4])
     \<lparr>averaging_time = 10 ^ 12, curr_av_power_W = NaN, peak_av_power_W = NaN, total_average_power = NaN,
      previous_total_consumed_energy_J = NaN\<rparr>) = Fin 1"
  using power_probe_exact [of "\<lparr>averaging_time = 10 ^ 12, curr_av_power_W = NaN, peak_av_power_W = NaN,
      total_average_power = NaN, previous_total_consumed_energy_J = NaN\<rparr>" "[3, 4]" 1]
  by (simp add: interval_power_def to_seconds_def)

text \<open>
  Disabling the measurement leaves dangling probes. Once it was enabled, disabling it deletes the
  probes and keeps the pointers: the next call that uses one, to set the averaging time, to disable
  the measurement again or to read a power, is undefined.
\<close>
theorem disabled_probes_dangle:
  assumes "enable_energy_and_power_measurement raw e g = Inr g1"
    and "disable_energy_and_power_measurement e g1 = Inr g2"
  shows "set_global_power_averaging_time e' av g2 = undef ''deleted probe''
    \<and> disable_energy_and_power_measurement e g2 = undef ''deleted twice''
    \<and> get_peak_avg_power_W g2 = undef ''deleted probe''"
proof -
  have g1: "global_power_probe g1 = Probe (new_power_probe raw (global_power_averaging_time g))"
    using assms(1) by (auto simp: enable_energy_and_power_measurement_def rmap_eq_Inr)
  have g2: "global_power_probe g2 = Deleted_Probe"
    using assms(2) g1
    by (auto simp: disable_energy_and_power_measurement_def rbind_eq_Inr rmap_eq_Inr delete_probe_def)
  have "before_sim e" using assms(2) by (auto simp: disable_energy_and_power_measurement_def rbind_before split: if_splits)
  then show ?thesis
    by (simp add: set_global_power_averaging_time_def update_averaging_time_def on_probe_def g2
        disable_energy_and_power_measurement_def rbind_before delete_probe_def get_peak_avg_power_W_def)
qed

theorem disabled_probes_dangle_witness:
  "\<exists>raw g1 g2. enable_energy_and_power_measurement raw \<lparr>sc_status = SC_ELABORATION, sc_running = False, sc_now = 0\<rparr>
       \<lparr>energy_and_power_measurement_enabled = False, global_power_averaging_time = 10 ^ 12,
        global_power_probe = Null_Probe, global_dynamic_power_probe = Null_Probe\<rparr> = Inr g1
     \<and> disable_energy_and_power_measurement \<lparr>sc_status = SC_ELABORATION, sc_running = False, sc_now = 0\<rparr> g1 = Inr g2
     \<and> get_peak_avg_power_W g2 = undef ''deleted probe''"
proof -
  let ?e = "\<lparr>sc_status = SC_ELABORATION, sc_running = False, sc_now = 0\<rparr>"
  let ?g = "\<lparr>energy_and_power_measurement_enabled = False, global_power_averaging_time = 10 ^ 12,
        global_power_probe = Null_Probe, global_dynamic_power_probe = Null_Probe\<rparr>"
  define raw where "raw = \<lparr>averaging_time = 0, curr_av_power_W = NaN, peak_av_power_W = NaN,
      total_average_power = NaN, previous_total_consumed_energy_J = NaN\<rparr>"
  obtain g1 where g1: "enable_energy_and_power_measurement raw ?e ?g = Inr g1"
    by (simp add: enable_energy_and_power_measurement_def check_call_before_sim_start_def)
  obtain g2 where g2: "disable_energy_and_power_measurement ?e g1 = Inr g2"
    using g1 by (auto simp: enable_energy_and_power_measurement_def disable_energy_and_power_measurement_def
        check_call_before_sim_start_def delete_probe_def)
  show ?thesis using disabled_probes_dangle [OF g1 g2] g1 g2 by blast
qed

end
