(* ===== verification/Text_Out.thy ===== *)
theory Text_Out
  imports Prelude
begin

text \<open>
  The pieces of the texts the library writes to files: decimal numerals, as \<open>std::to_string\<close> gives
  them, the end of a line and the backslash of a macro.
\<close>

definition digit :: "nat \<Rightarrow> char" where
  "digit d = char_of (48 + d)"

fun decimal :: "nat \<Rightarrow> string" where
  "decimal n = (if n < 10 then [digit n] else decimal (n div 10) @ [digit (n mod 10)])"

declare decimal.simps [simp del]

definition number_text :: "u32 \<Rightarrow> string" where
  "number_text w = decimal (unat w)"

definition eol :: string where
  "eol = [CHR 0x0A]"

text \<open>A macro of TeX.\<close>

definition macro :: "string \<Rightarrow> string" where
  "macro name = CHR 0x5C # name"

lemma digit_inject: "a < 10 \<Longrightarrow> b < 10 \<Longrightarrow> digit a = digit b \<longleftrightarrow> a = b"
  by (simp add: digit_def)

lemma decimal_not_Nil [simp]: "decimal n \<noteq> []" "[] \<noteq> decimal n"
  by (subst decimal.simps, simp)+

text \<open>Different numbers have different numerals.\<close>

lemma decimal_inject: "decimal m = decimal n \<longleftrightarrow> m = n"
proof
  show "decimal m = decimal n \<Longrightarrow> m = n"
  proof (induction m arbitrary: n rule: decimal.induct)
    case (1 m)
    have eq: "decimal m = decimal n" by (rule 1(2))
    show ?case
    proof (cases "m < 10")
      case True
      then have "n < 10" using eq by (subst (asm) (1 2) decimal.simps) (auto split: if_splits)
      with True eq show ?thesis by (simp add: decimal.simps [of m] decimal.simps [of n] digit_inject)
    next
      case False
      then have n: "\<not> n < 10" using eq by (subst (asm) (1 2) decimal.simps) (auto split: if_splits)
      with False eq have "decimal (m div 10) = decimal (n div 10)" "digit (m mod 10) = digit (n mod 10)"
        by (simp_all add: decimal.simps [of m] decimal.simps [of n])
      then have "m div 10 = n div 10" "m mod 10 = n mod 10"
        using 1(1) [OF False] by (simp_all add: digit_inject)
      then show ?thesis by (metis div_mult_mod_eq)
    qed
  qed
qed simp

lemma number_text_inject: "number_text v = number_text w \<longleftrightarrow> v = w"
  by (simp add: number_text_def decimal_inject word_unat_eq_iff)

end
