(* ===== verification/Tikz_Trace.thy ===== *)
theory Tikz_Trace
  imports Text_Out Doubles Sim_Phase Sched_Types
begin

text \<open>
  \<open>tikz_activity_trace.cpp\<close>, the collection: the configuration of a trace of the activity, its process,
  which records the states of tasks and schedulers at the changes of their signals, and the layout
  of the time axis computed at the end of the simulation. \<open>Tikz_Draw\<close> has the text it writes.

  Tasks and schedulers are known by name. The tables of activity are hash tables of pointers: they are
  lists in the order in which the code iterates over them, whatever it is.
\<close>

subsection \<open>The trace\<close>

record tikz_trace =
  ttikz_file_name :: string
  ttikz_start_trace_time :: sc_time
  ttikz_max_n_time_stamps :: u32
  clustered_style :: bool
  compact_style :: bool
  base_lines_separation :: u32
  time_stamps_max_separation :: u32
  ttikz_trace_scale :: double
  ttikz_trace_landscape :: bool
  show_schedulers_activity :: bool
  show_text_in_traces :: bool
  show_unactive_boxes :: bool
  only_image_flag :: bool
  time_stamps :: "sc_time list"
  time_stamps_index :: "(sc_time \<times> u32) list"
  span_vec :: "u32 list"
  time_spans :: "sc_time list"
  x_location :: "u32 list"
  span_time_gap :: sc_time
  task_activity :: "(string \<times> (sc_time \<times> task_state_t) list) list"
  sched_activity :: "(string \<times> (sc_time \<times> sched_state_t) list) list"
  compact_activity :: "(string \<times> (sc_time \<times> char) list) list"

definition new_tikz_trace :: "string \<Rightarrow> tikz_trace" where
  "new_tikz_trace name =
     \<lparr>ttikz_file_name = name @ ''.tex'', ttikz_start_trace_time = sc_time_ns 0,
      ttikz_max_n_time_stamps = 15, clustered_style = False, compact_style = False,
      base_lines_separation = 1, time_stamps_max_separation = 1, ttikz_trace_scale = Fin 1,
      ttikz_trace_landscape = False, show_schedulers_activity = True, show_text_in_traces = True,
      show_unactive_boxes = True, only_image_flag = False, time_stamps = [], time_stamps_index = [],
      span_vec = [], time_spans = [], x_location = [], span_time_gap = 0, task_activity = [],
      sched_activity = [], compact_activity = []\<rparr>"

definition tikz_cluster :: "tikz_trace \<Rightarrow> tikz_trace" where
  "tikz_cluster r = r\<lparr>clustered_style := True\<rparr>"

definition tikz_compact :: "tikz_trace \<Rightarrow> tikz_trace" where
  "tikz_compact r = r\<lparr>compact_style := True\<rparr>"

definition tikz_set_max_number_of_time_stamps :: "u32 \<Rightarrow> tikz_trace \<Rightarrow> tikz_trace" where
  "tikz_set_max_number_of_time_stamps n r = r\<lparr>ttikz_max_n_time_stamps := n\<rparr>"

definition tikz_set_start_time :: "sc_time \<Rightarrow> tikz_trace \<Rightarrow> tikz_trace" where
  "tikz_set_start_time t r = r\<lparr>ttikz_start_trace_time := t\<rparr>"

definition tikz_do_not_show_schedulers :: "tikz_trace \<Rightarrow> tikz_trace" where
  "tikz_do_not_show_schedulers r = r\<lparr>show_schedulers_activity := False\<rparr>"

definition tikz_set_base_lines_separation :: "u32 \<Rightarrow> tikz_trace \<Rightarrow> tikz_trace" where
  "tikz_set_base_lines_separation n r = r\<lparr>base_lines_separation := n\<rparr>"

definition tikz_set_time_stamps_max_separation :: "u32 \<Rightarrow> tikz_trace \<Rightarrow> tikz_trace" where
  "tikz_set_time_stamps_max_separation n r = r\<lparr>time_stamps_max_separation := n\<rparr>"

definition tikz_set_scale :: "double \<Rightarrow> tikz_trace \<Rightarrow> tikz_trace" where
  "tikz_set_scale x r = r\<lparr>ttikz_trace_scale := x\<rparr>"

definition tikz_set_landscape :: "tikz_trace \<Rightarrow> tikz_trace" where
  "tikz_set_landscape r = r\<lparr>ttikz_trace_landscape := True\<rparr>"

definition tikz_no_text_in_traces :: "tikz_trace \<Rightarrow> tikz_trace" where
  "tikz_no_text_in_traces r = r\<lparr>show_text_in_traces := False\<rparr>"

definition tikz_do_not_show_unactive_boxes :: "tikz_trace \<Rightarrow> tikz_trace" where
  "tikz_do_not_show_unactive_boxes r = r\<lparr>show_unactive_boxes := False\<rparr>"

definition tikz_only_image :: "tikz_trace \<Rightarrow> tikz_trace" where
  "tikz_only_image r = r\<lparr>only_image_flag := True\<rparr>"

subsection \<open>The calls of the user\<close>

text \<open>
  A handler points to the trace; every call is allowed during elaboration only. The call that should
  hide the schedulers sets the landscape format.
\<close>

definition create_tikz_activity_trace :: "string \<Rightarrow> tikz_trace list \<Rightarrow> tikz_trace list" where
  "create_tikz_activity_trace name handlers = handlers @ [new_tikz_trace name]"

definition create_tikz_activity_trace_unnamed :: "(string \<Rightarrow> string) \<Rightarrow> tikz_trace list \<Rightarrow> tikz_trace list" where
  "create_tikz_activity_trace_unnamed gen handlers = handlers @ [new_tikz_trace (gen ''tikz_activity_trace'')]"

definition user_set_max_number_of_time_stamps :: "sim_env \<Rightarrow> u32 \<Rightarrow> tikz_trace \<Rightarrow> tikz_trace result" where
  "user_set_max_number_of_time_stamps e n r =
     rbind (check_call_at_elaboration e ''set_max_number_of_time_stamps'') (\<lambda>_.
     rmap (\<lambda>_. tikz_set_max_number_of_time_stamps n r) (check (\<not> n < 2)
       (''The number of collected time stamps collected for TiKZ trace should be 2 or more. ''
          @ ''Please, check any call to set_max_number_of_time_stamps'')))"

definition user_set_start_time :: "sim_env \<Rightarrow> sc_time \<Rightarrow> tikz_trace \<Rightarrow> tikz_trace result" where
  "user_set_start_time e t r =
     rmap (\<lambda>_. tikz_set_start_time t r) (check_call_at_elaboration e ''set_start_time'')"

definition user_cluster :: "sim_env \<Rightarrow> tikz_trace \<Rightarrow> tikz_trace result" where
  "user_cluster e r = rmap (\<lambda>_. tikz_cluster r) (check_call_at_elaboration e ''cluster'')"

definition user_compact :: "sim_env \<Rightarrow> tikz_trace \<Rightarrow> tikz_trace result" where
  "user_compact e r = rmap (\<lambda>_. tikz_compact r) (check_call_at_elaboration e ''compress'')"

definition user_do_not_show_schedulers :: "sim_env \<Rightarrow> tikz_trace \<Rightarrow> tikz_trace result" where
  "user_do_not_show_schedulers e r =
     rmap (\<lambda>_. tikz_set_landscape r) (check_call_at_elaboration e ''do_not_show_schedulers'')"

definition user_set_base_lines_separation :: "sim_env \<Rightarrow> u32 \<Rightarrow> tikz_trace \<Rightarrow> tikz_trace result" where
  "user_set_base_lines_separation e n r =
     rmap (\<lambda>_. tikz_set_base_lines_separation n r) (check_call_at_elaboration e ''set_base_line_separation'')"

definition user_set_time_stamps_max_separation :: "sim_env \<Rightarrow> u32 \<Rightarrow> tikz_trace \<Rightarrow> tikz_trace result" where
  "user_set_time_stamps_max_separation e n r =
     rmap (\<lambda>_. tikz_set_time_stamps_max_separation n r)
       (check_call_at_elaboration e ''set_time_stamps_max_separation'')"

definition user_set_scale :: "sim_env \<Rightarrow> double \<Rightarrow> tikz_trace \<Rightarrow> tikz_trace result" where
  "user_set_scale e x r = rmap (\<lambda>_. tikz_set_scale x r) (check_call_at_elaboration e ''set_scale'')"

definition user_set_landscape :: "sim_env \<Rightarrow> tikz_trace \<Rightarrow> tikz_trace result" where
  "user_set_landscape e r = rmap (\<lambda>_. tikz_set_landscape r) (check_call_at_elaboration e ''set_landscape'')"

definition user_no_text_in_traces :: "sim_env \<Rightarrow> tikz_trace \<Rightarrow> tikz_trace result" where
  "user_no_text_in_traces e r = rmap (\<lambda>_. tikz_no_text_in_traces r) (check_call_at_elaboration e ''no_labels'')"

definition user_do_not_show_unactive_boxes :: "sim_env \<Rightarrow> tikz_trace \<Rightarrow> tikz_trace result" where
  "user_do_not_show_unactive_boxes e r =
     rmap (\<lambda>_. tikz_do_not_show_unactive_boxes r) (check_call_at_elaboration e ''do_not_show_unactive_boxes'')"

definition user_only_image :: "sim_env \<Rightarrow> tikz_trace \<Rightarrow> tikz_trace result" where
  "user_only_image e r = rmap (\<lambda>_. tikz_only_image r) (check_call_at_elaboration e ''only_image'')"

subsection \<open>The process\<close>

text \<open>
  What the process observes when it runs: the time, the states of the signals and whether each has
  changed in this delta cycle. \<open>assigned\<close> and \<open>ident\<close> are the tasks of each scheduler, in the order of
  their names, and the identifiers of tasks.
\<close>

record tikz_obs =
  ob_now :: sc_time
  ob_task :: "string \<Rightarrow> task_state_t"
  ob_task_event :: "string \<Rightarrow> bool"
  ob_sched :: "string \<Rightarrow> sched_state_t"
  ob_sched_event :: "string \<Rightarrow> bool"

text \<open>The tables, empty, of all tasks and schedulers; the process is sensitive to all their signals.\<close>

definition tikz_before_end_of_elaboration :: "string list \<Rightarrow> string list \<Rightarrow> tikz_trace \<Rightarrow> tikz_trace" where
  "tikz_before_end_of_elaboration tasks scheds r =
     r\<lparr>task_activity := map (\<lambda>n. (n, [])) tasks, sched_activity := map (\<lambda>n. (n, [])) scheds,
       compact_activity := map (\<lambda>n. (n, [])) scheds\<rparr>"

definition push_stamp :: "sc_time \<Rightarrow> u32 \<Rightarrow> tikz_trace \<Rightarrow> tikz_trace" where
  "push_stamp now i r =
     r\<lparr>time_stamps := time_stamps r @ [now], time_stamps_index := table_set now i (time_stamps_index r)\<rparr>"

text \<open>The state of each signal that changed, for the current time; a later change at it replaces it.\<close>

definition record_events ::
    "sc_time \<Rightarrow> (string \<Rightarrow> bool) \<Rightarrow> (string \<Rightarrow> 's) \<Rightarrow> (string \<times> (sc_time \<times> 's) list) list
       \<Rightarrow> (string \<times> (sc_time \<times> 's) list) list" where
  "record_events now event state tables =
     map (\<lambda>(n, t). (n, if event n then table_set now (state n) t else t)) tables"

definition collect_unfolded :: "tikz_obs \<Rightarrow> tikz_trace \<Rightarrow> tikz_trace" where
  "collect_unfolded ob r =
     r\<lparr>task_activity := record_events (ob_now ob) (ob_task_event ob) (ob_task ob) (task_activity r),
       sched_activity := record_events (ob_now ob) (ob_sched_event ob) (ob_sched ob) (sched_activity r)\<rparr>"

text \<open>At the start every state is recorded; the process goes on with the next index.\<close>

definition unfolded_start :: "tikz_obs \<Rightarrow> tikz_trace \<Rightarrow> tikz_trace \<times> u32" where
  "unfolded_start ob r =
     (let r1 = push_stamp (ob_now ob) 0 r in
      (r1\<lparr>task_activity := record_events (ob_now ob) (\<lambda>_. True) (ob_task ob) (task_activity r1),
          sched_activity := record_events (ob_now ob) (\<lambda>_. True) (ob_sched ob) (sched_activity r1)\<rparr>, 1))"

text \<open>The alias of a task in the compact style: the first digit of its identifier.\<close>

definition compact_alias :: "(string \<Rightarrow> nat) \<Rightarrow> string \<Rightarrow> char" where
  "compact_alias ident n = hd (decimal (ident n))"

definition compact_initial ::
    "(string \<Rightarrow> string list) \<Rightarrow> (string \<Rightarrow> nat) \<Rightarrow> tikz_obs \<Rightarrow> string \<Rightarrow> (sc_time \<times> char) list \<Rightarrow> (sc_time \<times> char) list" where
  "compact_initial assigned ident ob sched tbl =
     (let now = ob_now ob;
          sched_executing_found = (ob_sched ob sched = SCHEDULING);
          tbl1 = (if sched_executing_found then table_set now (CHR ''S'') tbl else tbl);
          executing = filter (\<lambda>n. ob_task ob n = EXECUTING) (assigned sched);
          tbl2 = foldl (\<lambda>t n. table_set now (compact_alias ident n) t) tbl1 executing in
      if \<not> sched_executing_found \<and> executing = [] then table_set now (CHR ''X'') tbl2 else tbl2)"

definition compact_events ::
    "(string \<Rightarrow> string list) \<Rightarrow> (string \<Rightarrow> nat) \<Rightarrow> tikz_obs \<Rightarrow> string \<Rightarrow> (sc_time \<times> char) list \<Rightarrow> (sc_time \<times> char) list" where
  "compact_events assigned ident ob sched tbl =
     (let now = ob_now ob;
          sched_executing_found = (ob_sched_event ob sched \<and> ob_sched ob sched = SCHEDULING);
          tbl1 = (if sched_executing_found then table_set now (CHR ''S'') tbl else tbl);
          cluster_event = (ob_sched_event ob sched \<or> list_ex (ob_task_event ob) (assigned sched));
          executing = filter (\<lambda>n. ob_task_event ob n \<and> ob_task ob n = EXECUTING) (assigned sched);
          tbl2 = foldl (\<lambda>t n. table_set now (compact_alias ident n) t) tbl1 executing in
      if cluster_event \<and> \<not> sched_executing_found \<and> executing = [] then table_set now (CHR ''X'') tbl2 else tbl2)"

definition collect_compact :: "(string \<Rightarrow> string list) \<Rightarrow> (string \<Rightarrow> nat) \<Rightarrow> tikz_obs \<Rightarrow> tikz_trace \<Rightarrow> tikz_trace" where
  "collect_compact assigned ident ob r =
     r\<lparr>compact_activity := map (\<lambda>(n, t). (n, compact_events assigned ident ob n t)) (compact_activity r)\<rparr>"

definition compact_start ::
    "(string \<Rightarrow> string list) \<Rightarrow> (string \<Rightarrow> nat) \<Rightarrow> tikz_obs \<Rightarrow> tikz_trace \<Rightarrow> tikz_trace \<times> u32" where
  "compact_start assigned ident ob r =
     (let r1 = push_stamp (ob_now ob) 0 r in
      (r1\<lparr>compact_activity := map (\<lambda>(n, t). (n, compact_initial assigned ident ob n t)) (compact_activity r1)\<rparr>, 1))"

text \<open>A round of the loop after its wait, with what it collects; \<open>False\<close> when the process ends.\<close>

definition trace_round ::
    "(tikz_obs \<Rightarrow> tikz_trace \<Rightarrow> tikz_trace) \<Rightarrow> tikz_obs \<Rightarrow> tikz_trace \<times> u32 \<Rightarrow> (tikz_trace \<times> u32) \<times> bool" where
  "trace_round collect ob s =
     (case s of (r, i) \<Rightarrow>
       let now = ob_now ob in
       if last (time_stamps r) \<le> now then
         (if last (time_stamps r) < now then
            (if length (time_stamps r) < unat (ttikz_max_n_time_stamps r)
             then ((collect ob (push_stamp now i r), i + 1), True)
             else (s, False))
          else ((collect ob r, i), True))
       else (s, True))"

definition tikz_start ::
    "(string \<Rightarrow> string list) \<Rightarrow> (string \<Rightarrow> nat) \<Rightarrow> tikz_obs \<Rightarrow> tikz_trace \<Rightarrow> tikz_trace \<times> u32" where
  "tikz_start assigned ident ob r =
     (if clustered_style r \<and> compact_style r then compact_start assigned ident ob r else unfolded_start ob r)"

definition tikz_round ::
    "(string \<Rightarrow> string list) \<Rightarrow> (string \<Rightarrow> nat) \<Rightarrow> tikz_obs \<Rightarrow> tikz_trace \<times> u32 \<Rightarrow> (tikz_trace \<times> u32) \<times> bool" where
  "tikz_round assigned ident ob s =
     (if clustered_style (fst s) \<and> compact_style (fst s)
      then trace_round (collect_compact assigned ident) ob s else trace_round collect_unfolded ob s)"

subsection \<open>The time axis\<close>

definition max_gap_of :: "sc_time list \<Rightarrow> sc_time" where
  "max_gap_of gaps = foldl (\<lambda>m g. if m < g then g else m) (hd gaps) (tl gaps)"

text \<open>The gaps between the time stamps, and for each its span on the axis, from one to the maximum separation.\<close>

definition gaps_of :: "sc_time list \<Rightarrow> sc_time list" where
  "gaps_of ts = map (\<lambda>i. sc_minus (ts ! i) (ts ! (i - 1))) [1..<length ts]"

fun span_loop :: "sc_time \<Rightarrow> u32 \<Rightarrow> sc_time list \<Rightarrow> u32 list \<Rightarrow> u32 list \<Rightarrow> (u32 list \<times> u32 list) result" where
  "span_loop unit sep [] spans xs = Inr (spans, xs)"
| "span_loop unit sep (g # gs) spans xs =
     rbind (to_u32 (dadd (sc_ratio g unit) (Fin 1))) (\<lambda>v.
       let span_value = (if sep < v then sep else v) in
       span_loop unit sep gs (spans @ [span_value]) (xs @ [last xs + span_value]))"

definition tikz_layout :: "sc_time \<Rightarrow> tikz_trace \<Rightarrow> tikz_trace result" where
  "tikz_layout now r =
     rbind (check (\<not> now < ttikz_start_trace_time r) ''Start time of activity trace bigger than the last simulation time'') (\<lambda>_.
     rbind (check (\<not> length (time_stamps r) < 2) ''Unexpected error in the TiKZ activity trace.'') (\<lambda>_.
     let gaps = gaps_of (time_stamps r) in
     rbind (sc_over (max_gap_of gaps) (of_u32 (time_stamps_max_separation r))) (\<lambda>unit.
     rmap (\<lambda>(spans, xs). r\<lparr>time_spans := time_spans r @ gaps, span_time_gap := unit, span_vec := spans, x_location := xs\<rparr>)
       (span_loop unit (time_stamps_max_separation r) gaps (span_vec r) (x_location r @ [0])))))"

end
