(* ===== verification/Tikz_Draw.thy ===== *)
theory Tikz_Draw
  imports Tikz_Trace
begin

text \<open>
  \<open>tikz_activity_trace.cpp\<close>, the export: the text of the TeX file, function by function. The file is the
  text written to it. The texts of \<open>sc_time::to_string\<close>, of \<open>std::to_string\<close> of a \<open>float\<close> and of the date
  of compilation are parameters. The table of indexes is read by \<open>[]\<close>, which enters a zero for a
  time it does not hold, so it is passed along. The key that the functions read through the end iterator
  of a table is a parameter too, \<open>end_key\<close>.
\<close>

record tikz_texts =
  tx_time :: "sc_time \<Rightarrow> string"
  tx_float :: "double \<Rightarrow> string"
  tx_date :: string

type_synonym stamp_index = "(sc_time \<times> u32) list"

subsection \<open>Time axis\<close>

definition division_text :: "tikz_trace \<Rightarrow> nat \<Rightarrow> string" where
  "division_text r i =
     macro ''draw[] ('' @ number_text (x_location r ! i) @ '',0.2) -- ('' @ number_text (x_location r ! i)
       @ '',-0.2)  node[below]{$t_{'' @ decimal i @ ''}$};'' @ eol"

definition draw_time_axis :: "tikz_trace \<Rightarrow> string result" where
  "draw_time_axis r =
     (let x_loc = last (x_location r) in
      rmap (\<lambda>_.
          ''% Draw time axis'' @ eol @ ''% --------------'' @ eol
          @ macro ''draw [-latex](-0.5,0) coordinate(LEFTX)-- (0,0) coordinate (ORIG) -- (''
          @ number_text (x_loc + 1) @ '',0) coordinate(RIGHTX) node[above]{$t$};'' @ eol @ eol
          @ ''% Draw time axis divisions'' @ eol @ ''% ------------------------'' @ eol
          @ concat (map (division_text r) [0..<length (time_stamps r)]) @ eol)
        (check (\<not> 20 < x_loc) ''Current TiKZ export configuration involves a highest X location higher than the current limit''))"

definition draw_start :: "tikz_texts \<Rightarrow> tikz_trace \<Rightarrow> string result" where
  "draw_start tx r =
     rmap (\<lambda>axis.
       (if ttikz_trace_landscape r then macro ''documentclass[landscape,a4paper,10pt]{article}'' @ eol
        else macro ''documentclass[a4paper,10pt]{article}'' @ eol)
       @ macro ''usepackage{tikz}'' @ eol @ macro ''usepackage{verbatim}'' @ eol
       @ (if ttikz_trace_landscape r then macro ''usepackage[landscape,margin=15mm]{geometry}'' @ eol
          else macro ''usepackage[margin=15mm]{geometry}'' @ eol)
       @ macro ''usetikzlibrary{shapes,arrows,fit,calc,positioning}'' @ eol
       @ macro ''begin{document}'' @ eol
       @ (if only_image_flag r then ''''
          else ''File created by KisTA library'' @ eol @ eol @ ''Author: F.Herrera'' @ eol @ eol
            @ ''Institution: KTH (2012-2014, Jul), Univ. of Cantabria (from 2014, Sept.)'' @ eol @ eol
            @ ''Rights reserved by the authors in the terms defined by the KisTA license.'' @ eol @ eol
            @ ''KisTA library compilation date: '' @ tx_date tx @ ''.'' @ eol @ eol
            @ ''Tracing Options used:'' @ eol
            @ ''Style='' @ (if clustered_style r then ''Clustered'' else ''Flat'') @ '', ''
            @ (if compact_style r then ''Compact'' else ''Unfolded'') @ ''; ''
            @ ''Baselines sep.='' @ number_text (base_lines_separation r) @ ''; ''
            @ ''Max. t span='' @ number_text (time_stamps_max_separation r) @ ''; ''
            @ ''Scale:='' @ tx_float tx (ttikz_trace_scale r) @ ''; ''
            @ (if ttikz_trace_landscape r then ''Landscape'' else ''Portrait'') @ ''; ''
            @ (if show_schedulers_activity r then ''Show sched. activity.'' else ''Do not show sched. activity.'')
            @ eol @ macro (macro '''') @ eol)
       @ macro ''begin{tikzpicture}[scale='' @ tx_float tx (ttikz_trace_scale r) @ '']'' @ eol @ axis)
     (draw_time_axis r)"

subsection \<open>Vertical axis and base lines\<close>

definition row_text :: "tikz_trace \<Rightarrow> string \<Rightarrow> string" where
  "row_text r name =
     ''-- ++(0,'' @ number_text (base_lines_separation r) @ '') coordinate('' @ name @ ''e0) ''"

definition draw_y_axis_flat :: "tikz_trace \<Rightarrow> string" where
  "draw_y_axis_flat r =
     (if show_schedulers_activity r then concat (map (row_text r) (map fst (sched_activity r))) else '''')
     @ concat (map (row_text r) (map fst (task_activity r)))
     @ '' -- ++(0,1) coordinate(YTOP);'' @ eol @ eol"

text \<open>\<open>first\<close> tells the first task of the scheduler.\<close>

fun cluster_rows :: "tikz_trace \<Rightarrow> nat \<Rightarrow> bool \<Rightarrow> string list \<Rightarrow> string" where
  "cluster_rows r c first [] = ''''"
| "cluster_rows r c first (n # ns) =
     (if first \<and> \<not> show_schedulers_activity r then
        (if c = 0 then '' (ORIG) -- (0,1)''
         else '' (CLUSTER_'' @ decimal (c - 1) @ ''_YTOP) -- ++(0,'' @ number_text (base_lines_separation r) @ '') '' @ eol)
      else '' -- ++(0,'' @ number_text (base_lines_separation r) @ '')'' @ eol)
     @ '' coordinate('' @ n @ ''e0) '' @ cluster_rows r c False ns"

definition draw_y_axis_clustered_unfolded :: "tikz_trace \<Rightarrow> (string \<Rightarrow> string list) \<Rightarrow> nat \<Rightarrow> string \<Rightarrow> string" where
  "draw_y_axis_clustered_unfolded r assigned c sched =
     macro ''draw [dashed,thick] ''
     @ (if show_schedulers_activity r then
          (if c = 0 then '' (ORIG) -- (0,1)''
           else '' (CLUSTER_'' @ decimal (c - 1) @ ''_YTOP) '' @ ''-- ++(0,'' @ number_text (base_lines_separation r) @ '') '' @ eol)
          @ ''coordinate('' @ sched @ ''e0) ''
        else '''')
     @ cluster_rows r c True (assigned sched)
     @ '' -- ++(0,1) coordinate(CLUSTER_'' @ decimal c @ ''_YTOP);'' @ eol @ eol"

definition draw_y_axis_clustered_compact :: "nat \<Rightarrow> string \<Rightarrow> string" where
  "draw_y_axis_clustered_compact c sched =
     macro ''draw [dashed,thick] ''
     @ (if c = 0 then '' (ORIG) -- (0,1)'' else '' (CLUSTER_'' @ decimal (c - 1) @ ''_YTOP) -- ++(0,1) '')
     @ ''coordinate('' @ sched @ ''e0) ''
     @ '' -- ++(0,0.5) coordinate(CLUSTER_'' @ decimal c @ ''_YTOP);'' @ eol @ eol"

fun cluster_axes :: "tikz_trace \<Rightarrow> (string \<Rightarrow> string list) \<Rightarrow> nat \<Rightarrow> string list \<Rightarrow> string" where
  "cluster_axes r assigned c [] = ''''"
| "cluster_axes r assigned c (s # ss) =
     (if compact_style r then draw_y_axis_clustered_compact c s
      else draw_y_axis_clustered_unfolded r assigned c s)
     @ cluster_axes r assigned (Suc c) ss"

text \<open>The number of the last cluster is an unsigned integer: without schedulers it wraps.\<close>

definition draw_y_axis_clustered :: "tikz_trace \<Rightarrow> (string \<Rightarrow> string list) \<Rightarrow> string" where
  "draw_y_axis_clustered r assigned =
     cluster_axes r assigned 0 (map fst (sched_activity r))
     @ macro ''draw [dashed,thick] (CLUSTER_'' @ number_text (of_nat (length (sched_activity r)) - 1)
     @ ''_YTOP) -- ++(0,1) coordinate(YTOP);'' @ eol @ eol"

definition base_line_text :: "string \<Rightarrow> string" where
  "base_line_text n =
     macro ''draw [thick] (LEFTX|-'' @ n @ ''e0)'' @ '' node[above left]{'' @ n @ ''} -- ('' @ n @ ''e0''
       @ ''-|RIGHTX);'' @ eol @ eol"

definition draw_baselines :: "tikz_trace \<Rightarrow> string" where
  "draw_baselines r =
     (if show_schedulers_activity r then concat (map base_line_text (map fst (sched_activity r))) else '''')
     @ (if \<not> compact_style r then concat (map base_line_text (map fst (task_activity r))) else '''')"

subsection \<open>The coordinates of the events\<close>

definition index_at :: "sc_time \<Rightarrow> stamp_index \<Rightarrow> u32 \<times> stamp_index" where
  "index_at t ix = (case map_of ix t of Some i \<Rightarrow> (i, ix) | None \<Rightarrow> (0, table_set t 0 ix))"

definition get_span :: "tikz_trace \<Rightarrow> u32 \<Rightarrow> u32 \<Rightarrow> u32 result" where
  "get_span r i j =
     (if unat i < length (x_location r) \<and> unat j < length (x_location r)
      then Inr (x_location r ! unat j - x_location r ! unat i) else undef ''out of range'')"

definition coordinate_name :: "string \<Rightarrow> u32 \<Rightarrow> string" where
  "coordinate_name name i = name @ ''e'' @ number_text i"

definition point_text :: "string \<Rightarrow> u32 \<Rightarrow> u32 \<Rightarrow> string" where
  "point_text name wd j = '' ++ ('' @ number_text wd @ '',0) coordinate('' @ coordinate_name name j @ '')''"

text \<open>The loop over the later events of a table: its text, the last index and the table of indexes.\<close>

fun path_loop ::
    "tikz_trace \<Rightarrow> string \<Rightarrow> (sc_time \<times> 's) list \<Rightarrow> u32 \<Rightarrow> stamp_index \<Rightarrow> (string \<times> u32 \<times> stamp_index) result" where
  "path_loop r name [] i ix = Inr ('''', i, ix)"
| "path_loop r name ((t, s) # evs) i ix =
     (case index_at t ix of (j, ix1) \<Rightarrow>
        rbind (get_span r i j) (\<lambda>w.
        rmap (\<lambda>(txt, k, ix2). (point_text name w j @ txt, k, ix2)) (path_loop r name evs j ix1)))"

text \<open>The three functions that write a path differ in the type of the states and in the errors.\<close>

definition write_activity_path ::
    "string \<Rightarrow> tikz_trace \<Rightarrow> string \<Rightarrow> (sc_time \<times> 's) list \<Rightarrow> stamp_index \<Rightarrow> (string \<times> stamp_index) result" where
  "write_activity_path what r name tbl ix =
     (case tbl of
        [] \<Rightarrow> undef ''first event of an empty table''
      | (t, s) # evs \<Rightarrow>
          (case index_at t ix of (i, ix1) \<Rightarrow>
             rbind (check (t = ttikz_start_trace_time r) (''Unexpected situation. First events in the '' @ what @ name
                      @ '' for TiKZ tracing have time stamp different from the configured time for recording start'')) (\<lambda>_.
             rbind (check (i = 0) (''Unexpected situation. First events in the '' @ what @ name
                      @ '' for TiKZ tracing have an index different from 0.'')) (\<lambda>_.
             rbind (path_loop r name evs i ix1) (\<lambda>(txt, j, ix2).
             rmap (\<lambda>tail. (macro ''path '' @ ''('' @ coordinate_name name i @ '')'' @ txt @ tail @ '';'' @ eol, ix2))
               (if fst (last tbl) \<noteq> last (time_stamps r)
                then rmap (\<lambda>w. point_text name w (snd (last ix2))) (get_span r j (snd (last ix2)))
                else Inr ''''))))))"

definition write_sched_activity_path ::
    "tikz_trace \<Rightarrow> string \<Rightarrow> (sc_time \<times> sched_state_t) list \<Rightarrow> stamp_index \<Rightarrow> (string \<times> stamp_index) result" where
  "write_sched_activity_path r name tbl ix = write_activity_path ''activity record of scheduler '' r name tbl ix"

definition write_task_activity_path ::
    "tikz_trace \<Rightarrow> string \<Rightarrow> (sc_time \<times> task_state_t) list \<Rightarrow> stamp_index \<Rightarrow> (string \<times> stamp_index) result" where
  "write_task_activity_path r name tbl ix = write_activity_path ''activity record of task '' r name tbl ix"

definition write_compact_cluster_activity_path ::
    "tikz_trace \<Rightarrow> string \<Rightarrow> (sc_time \<times> char) list \<Rightarrow> stamp_index \<Rightarrow> (string \<times> stamp_index) result" where
  "write_compact_cluster_activity_path r name tbl ix =
     write_activity_path ''compact activity record of scheduler '' r name tbl ix"

subsection \<open>The boxes\<close>

definition rectangle_text :: "string \<Rightarrow> u32 \<Rightarrow> string" where
  "rectangle_text fill wd = macro ''draw['' @ fill @ ''] (0,0) rectangle ('' @ number_text wd @ '',0.7);'' @ eol"

definition label_text :: "string \<Rightarrow> string" where
  "label_text s = macro ''draw[] (0,0) node[rectangle, above right] {'' @ s @ ''}'' @ '';'' @ eol"

fun task_state_char :: "task_state_t \<Rightarrow> char" where
  "task_state_char EXECUTING = CHR ''E''"
| "task_state_char WAIT_PERIOD = CHR ''W''"
| "task_state_char WAIT_COMM_SYNC = CHR ''C''"
| "task_state_char READY = CHR ''R''"
| "task_state_char INACTIVE_WAIT_PERIOD = CHR ''I''"
| "task_state_char INACTIVE_WAIT_COMM_SYNC = CHR ''X''"
| "task_state_char FINISHED = CHR ''F''"

fun sched_state_char :: "sched_state_t \<Rightarrow> char" where
  "sched_state_char SCHEDULING = CHR ''S''"
| "sched_state_char INNACTIVE = CHR ''I''"

definition task_box :: "tikz_trace \<Rightarrow> task_state_t \<Rightarrow> u32 \<Rightarrow> string" where
  "task_box r s wd =
     (if show_unactive_boxes r then
        rectangle_text (case s of EXECUTING \<Rightarrow> '''' | READY \<Rightarrow> ''fill=black!10'' | _ \<Rightarrow> ''fill=black!30'') wd
      else if s = EXECUTING then rectangle_text '''' wd else '''')
     @ (if show_text_in_traces r then label_text [task_state_char s] else '''')"

definition sched_box :: "tikz_trace \<Rightarrow> sched_state_t \<Rightarrow> u32 \<Rightarrow> string" where
  "sched_box r s wd =
     (if show_unactive_boxes r then
        rectangle_text (case s of SCHEDULING \<Rightarrow> '''' | _ \<Rightarrow> ''fill=black!30'') wd
      else if s = SCHEDULING then rectangle_text '''' wd else '''')
     @ (if show_text_in_traces r then label_text [sched_state_char s] else '''')"

definition compact_box :: "tikz_trace \<Rightarrow> char \<Rightarrow> u32 \<Rightarrow> string" where
  "compact_box r s wd =
     (if show_unactive_boxes r then
        rectangle_text ((if s = CHR ''S'' then ''fill=black!10'' else '''') @ (if s = CHR ''X'' then ''fill=black!30'' else '''')) wd
      else if s \<noteq> CHR ''X'' then rectangle_text '''' wd else '''')
     @ (if show_text_in_traces r
        then label_text ((if s = CHR ''S'' \<or> s = CHR ''X'' then '''' else ''T'') @ [s]) else '''')"

definition scope_text :: "string \<Rightarrow> u32 \<Rightarrow> string \<Rightarrow> string" where
  "scope_text name i body =
     macro ''begin{scope}[shift={'' @ ''('' @ coordinate_name name i @ '')'' @ ''}]'' @ eol @ body @ macro ''end{scope}'' @ eol"

text \<open>
  The loop the three functions of boxes share. For the last event it reads the key of the end iterator
  before it tests for it; a last event at the last time stamp ends the loop.
\<close>

fun draw_loop ::
    "tikz_trace \<Rightarrow> sc_time \<Rightarrow> string \<Rightarrow> string \<Rightarrow> ('s \<Rightarrow> u32 \<Rightarrow> string) \<Rightarrow> (sc_time \<times> 's) list \<Rightarrow> stamp_index
       \<Rightarrow> (string \<times> stamp_index) result" where
  "draw_loop r end_key err name box [] ix = Inr ('''', ix)"
| "draw_loop r end_key err name box ((t, s) # evs) ix =
     (case index_at t ix of (i, ix1) \<Rightarrow>
      case index_at (case evs of [] \<Rightarrow> end_key | (t', _) # _ \<Rightarrow> t') ix1 of (j, ix2) \<Rightarrow>
        if evs = [] then
          (if t = last (time_stamps r) then Inr ('''', ix2)
           else if t < last (time_stamps r) then
             rmap (\<lambda>w. (scope_text name i (box s w), ix2)) (get_span r i (of_nat (length (time_stamps r) - 1)))
           else report err)
        else
          rbind (get_span r i j) (\<lambda>w.
          rmap (\<lambda>(txt, ix3). (scope_text name i (box s w) @ txt, ix3)) (draw_loop r end_key err name box evs ix2)))"

definition draw_task_activity ::
    "tikz_trace \<Rightarrow> (string \<Rightarrow> sc_time) \<Rightarrow> string \<Rightarrow> (sc_time \<times> task_state_t) list \<Rightarrow> stamp_index \<Rightarrow> (string \<times> stamp_index) result" where
  "draw_task_activity r end_key name tbl ix =
     draw_loop r (end_key name) ''Unexpected situation in TiKZ task activity.'' name (task_box r) tbl ix"

definition draw_sched_activity ::
    "tikz_trace \<Rightarrow> (string \<Rightarrow> sc_time) \<Rightarrow> string \<Rightarrow> (sc_time \<times> sched_state_t) list \<Rightarrow> stamp_index \<Rightarrow> (string \<times> stamp_index) result" where
  "draw_sched_activity r end_key name tbl ix =
     draw_loop r (end_key name) ''Unexpected situation while drawing TiKZ scheduler activity.'' name (sched_box r) tbl ix"

definition draw_compact_cluster_activity ::
    "tikz_trace \<Rightarrow> (string \<Rightarrow> sc_time) \<Rightarrow> string \<Rightarrow> (sc_time \<times> char) list \<Rightarrow> stamp_index \<Rightarrow> (string \<times> stamp_index) result" where
  "draw_compact_cluster_activity r end_key name tbl ix =
     draw_loop r (end_key name) ''Unexpected situation while drawing TiKZ  compact scheduler activity.'' name (compact_box r) tbl ix"

subsection \<open>The pictures\<close>

text \<open>A loop over the tables of all elements.\<close>

fun over_tables ::
    "(string \<Rightarrow> 't \<Rightarrow> stamp_index \<Rightarrow> (string \<times> stamp_index) result) \<Rightarrow> (string \<times> 't) list \<Rightarrow> stamp_index
       \<Rightarrow> (string \<times> stamp_index) result" where
  "over_tables f [] ix = Inr ('''', ix)"
| "over_tables f ((n, t) # ts) ix =
     rbind (f n t ix) (\<lambda>(a, ix1). rmap (\<lambda>(b, ix2). (a @ b, ix2)) (over_tables f ts ix1))"

definition y_axis_header :: string where
  "y_axis_header = ''% Draw y axis'' @ eol @ ''% --------------'' @ eol"

definition baselines_text :: "tikz_trace \<Rightarrow> string" where
  "baselines_text r = ''% Draw baselines'' @ eol @ ''% --------------'' @ eol @ draw_baselines r"

definition coordinates_header :: string where
  "coordinates_header = ''% Set event coordinates   '' @ eol @ ''% ------------------------'' @ eol"

definition sched_header :: string where
  "sched_header = ''% Draw scheduler activity (relying on event coordinates) '' @ eol
     @ ''% -------------------------------------------------------'' @ eol"

definition task_header :: string where
  "task_header = ''% Draw task activity (relying on event coordinates) '' @ eol
     @ ''% --------------------------------------------------'' @ eol"

definition draw_flat_all ::
    "(string \<Rightarrow> sc_time) \<Rightarrow> (string \<Rightarrow> sc_time) \<Rightarrow> tikz_trace \<Rightarrow> stamp_index \<Rightarrow> (string \<times> stamp_index) result" where
  "draw_flat_all task_end sched_end r ix =
     rbind (if show_schedulers_activity r then over_tables (write_sched_activity_path r) (sched_activity r) ix
            else Inr ('''', ix)) (\<lambda>(sp, ix1).
     rbind (over_tables (write_task_activity_path r) (task_activity r) ix1) (\<lambda>(tp, ix2).
     rbind (if show_schedulers_activity r
            then rmap (\<lambda>(a, b). (sched_header @ a, b)) (over_tables (draw_sched_activity r sched_end) (sched_activity r) ix2)
            else Inr ('''', ix2)) (\<lambda>(sb, ix3).
     rmap (\<lambda>(tb, ix4).
         (y_axis_header @ macro ''draw [dashed,thick] (ORIG) '' @ draw_y_axis_flat r @ baselines_text r
            @ coordinates_header @ sp @ tp @ eol @ sb @ task_header @ tb, ix4))
       (over_tables (draw_task_activity r task_end) (task_activity r) ix3))))"

definition draw_clustered_unfolded ::
    "(string \<Rightarrow> string list) \<Rightarrow> (string \<Rightarrow> sc_time) \<Rightarrow> (string \<Rightarrow> sc_time) \<Rightarrow> tikz_trace \<Rightarrow> stamp_index
       \<Rightarrow> (string \<times> stamp_index) result" where
  "draw_clustered_unfolded assigned task_end sched_end r ix =
     rbind (over_tables (write_sched_activity_path r) (sched_activity r) ix) (\<lambda>(sp, ix1).
     rbind (over_tables (write_task_activity_path r) (task_activity r) ix1) (\<lambda>(tp, ix2).
     rbind (if show_schedulers_activity r
            then rmap (\<lambda>(a, b). (sched_header @ a, b)) (over_tables (draw_sched_activity r sched_end) (sched_activity r) ix2)
            else Inr ('''', ix2)) (\<lambda>(sb, ix3).
     rmap (\<lambda>(tb, ix4).
         (y_axis_header @ draw_y_axis_clustered r assigned @ baselines_text r
            @ coordinates_header @ sp @ eol @ tp @ eol @ sb @ task_header @ tb, ix4))
       (over_tables (draw_task_activity r task_end) (task_activity r) ix3))))"

definition draw_clustered_compact ::
    "(string \<Rightarrow> string list) \<Rightarrow> (string \<Rightarrow> sc_time) \<Rightarrow> tikz_trace \<Rightarrow> stamp_index \<Rightarrow> (string \<times> stamp_index) result" where
  "draw_clustered_compact assigned sched_end r ix =
     rbind (over_tables (write_compact_cluster_activity_path r) (compact_activity r) ix) (\<lambda>(cp, ix1).
     rmap (\<lambda>(cb, ix2).
         (y_axis_header @ draw_y_axis_clustered r assigned @ baselines_text r
            @ coordinates_header @ cp @ eol @ sched_header @ cb, ix2))
       (over_tables (draw_compact_cluster_activity r sched_end) (compact_activity r) ix1))"

fun alias_list :: "(string \<Rightarrow> nat) \<Rightarrow> string list \<Rightarrow> string" where
  "alias_list ident [] = ''''"
| "alias_list ident (n # ns) =
     ''T'' @ decimal (ident n) @ ''='' @ n
     @ (if ns = [] then macro (macro '''') @ eol else '' , '' @ eol) @ alias_list ident ns"

definition draw_end :: "tikz_texts \<Rightarrow> (string \<Rightarrow> nat) \<Rightarrow> tikz_trace \<Rightarrow> string" where
  "draw_end tx ident r =
     macro ''end{tikzpicture}'' @ eol @ eol
     @ (if only_image_flag r then ''''
        else
          (if compact_style r then
             ''% Show Automatic Task Alias names '' @ eol @ ''% --------------------------------'' @ eol
             @ macro ''textbf{Task alias list (alias=task name):}'' @ macro (macro '''') @ eol
             @ alias_list ident (map fst (task_activity r)) @ eol
           else '''')
          @ ''% Show Time stamp values'' @ eol @ ''% ---------------------'' @ eol
          @ macro ''textbf{Time Stamp values:}'' @ macro (macro '''') @ eol @ ''$''
          @ concat (map (\<lambda>i. ''t_{'' @ decimal i @ ''} = '' @ tx_time tx (time_stamps r ! i) @ ''; '') [0..<length (time_stamps r)])
          @ '' '' @ macro (macro '''') @ eol @ ''$'' @ eol @ eol
          @ ''% Show Time span values'' @ eol @ ''% ---------------------'' @ eol
          @ macro ''textbf{Time Span values:}'' @ macro (macro '''') @ eol @ ''$''
          @ concat (map (\<lambda>i. ''t_{'' @ decimal (i + 1) @ ''} - t_{'' @ decimal i @ ''} = '' @ tx_time tx (time_spans r ! i) @ ''; '')
              [0..<length (time_spans r)])
          @ '' '' @ macro (macro '''') @ eol @ ''$'' @ eol @ eol)
     @ macro ''end{document}'' @ eol @ eol"

text \<open>The end of the simulation: the layout of the axis and the text of the file.\<close>

definition tikz_end_of_simulation ::
    "tikz_texts \<Rightarrow> (string \<Rightarrow> string list) \<Rightarrow> (string \<Rightarrow> nat) \<Rightarrow> (string \<Rightarrow> sc_time) \<Rightarrow> (string \<Rightarrow> sc_time) \<Rightarrow> sc_time
       \<Rightarrow> tikz_trace \<Rightarrow> (string \<times> tikz_trace) result" where
  "tikz_end_of_simulation tx assigned ident task_end sched_end now r0 =
     rbind (tikz_layout now r0) (\<lambda>r.
     rbind (draw_start tx r) (\<lambda>start.
     rmap (\<lambda>(body, ix). (start @ body @ draw_end tx ident r, r\<lparr>time_stamps_index := ix\<rparr>))
       (if clustered_style r then
          (if compact_style r then draw_clustered_compact assigned sched_end r (time_stamps_index r)
           else draw_clustered_unfolded assigned task_end sched_end r (time_stamps_index r))
        else draw_flat_all task_end sched_end r (time_stamps_index r))))"

end
