(* ===== verification/Tikz_Props.thy ===== *)
theory Tikz_Props
  imports Tikz_Draw
begin

text \<open>
  What a trace of the activity records: its process followed along a history of the delta cycles of the
  simulation, and the layout of its time axis.
\<close>

subsection \<open>Tables ordered by time\<close>

text \<open>The state a table shows for an instant: that of its last entry up to it.\<close>

definition shown :: "(sc_time \<times> 's) list \<Rightarrow> sc_time \<Rightarrow> 's" where
  "shown tbl u = snd (last (filter (\<lambda>e. fst e \<le> u) tbl))"

lemma table_set_at_end:
  "sorted_wrt (<) (map fst t) \<Longrightarrow> (\<And>e. e \<in> set t \<Longrightarrow> fst e \<le> k) \<Longrightarrow>
     table_set k v t = filter (\<lambda>e. fst e < k) t @ [(k, v)]"
proof (induction t)
  case (Cons e t)
  obtain k' v' where e: "e = (k', v')" by (cases e)
  have k: "k' \<le> k" using Cons.prems(2) [of e] by (simp add: e)
  show ?case
  proof (cases "k' = k")
    case True
    then have "filter (\<lambda>e. fst e < k) t = []" using Cons.prems(1) by (auto simp: e filter_empty_conv)
    then have "t = []" using Cons.prems True by (cases t) (force simp: e)+
    then show ?thesis using True by (simp add: e)
  next
    case False
    then show ?thesis using Cons k by (auto simp: e)
  qed
qed simp

lemma shown_table_set:
  assumes "sorted_wrt (<) (map fst t)" "\<And>e. e \<in> set t \<Longrightarrow> fst e \<le> k"
  shows "shown (table_set k v t) u = (if k \<le> u then v else shown t u)"
proof -
  have "filter (\<lambda>e. fst e \<le> u) (filter (\<lambda>e. fst e < k) t) = filter (\<lambda>e. fst e \<le> u) t" if "u < k"
    unfolding filter_filter using that by (intro filter_cong) auto
  then show ?thesis by (simp add: shown_def table_set_at_end [OF assms])
qed

text \<open>The facts about a table that every step keeps: \<open>start\<close> is its first key, \<open>stamps\<close> hold its keys.\<close>

definition table_ok :: "sc_time \<Rightarrow> sc_time list \<Rightarrow> (sc_time \<times> 's) list \<Rightarrow> bool" where
  "table_ok start stamps t \<longleftrightarrow> t \<noteq> [] \<and> sorted_wrt (<) (map fst t) \<and> fst (hd t) = start
     \<and> fst ` set t \<subseteq> set stamps"

lemma table_ok_set:
  assumes "table_ok start stamps t" "k \<in> set stamps" "start \<le> k"
  shows "table_ok start stamps (table_set k v t)"
proof -
  obtain a b t' where t: "t = (a, b) # t'" using assms(1) by (cases t) (auto simp: table_ok_def)
  have "table_set k v t \<noteq> []" by (simp add: t)
  moreover have "fst (hd (table_set k v t)) = start" using assms(1,3) by (auto simp: t table_ok_def)
  ultimately show ?thesis
    using sorted_table_set [of t k v] assms(1,2) by (auto simp: table_ok_def)
qed

lemma table_ok_snoc: "table_ok start stamps t \<Longrightarrow> table_ok start (stamps @ [k]) t"
  by (auto simp: table_ok_def)

lemma table_ok_single: "k \<in> set stamps \<Longrightarrow> table_ok k stamps (table_set k v [])"
  by (simp add: table_ok_def)

lemma shown_last:
  assumes "t \<noteq> []" "\<And>e. e \<in> set t \<Longrightarrow> fst e \<le> u"
  shows "shown t u = snd (last t)"
proof -
  have "filter (\<lambda>e. fst e \<le> u) t = t" using assms(2) by simp
  then show ?thesis by (simp add: shown_def)
qed

subsection \<open>A history of the simulation\<close>

text \<open>A delta cycle in which a signal may have changed: the time and the states of tasks and schedulers.\<close>

type_synonym snapshot = "sc_time \<times> (string \<Rightarrow> task_state_t) \<times> (string \<Rightarrow> sched_state_t)"

definition observe :: "snapshot \<Rightarrow> snapshot \<Rightarrow> tikz_obs" where
  "observe p x =
     \<lparr>ob_now = fst x, ob_task = fst (snd x), ob_task_event = (\<lambda>n. fst (snd x) n \<noteq> fst (snd p) n),
      ob_sched = snd (snd x), ob_sched_event = (\<lambda>n. snd (snd x) n \<noteq> snd (snd p) n)\<rparr>"

text \<open>The process is woken by a change of a signal it is sensitive to.\<close>

definition wakes :: "string list \<Rightarrow> string list \<Rightarrow> tikz_obs \<Rightarrow> bool" where
  "wakes tasks scheds ob \<longleftrightarrow> list_ex (ob_task_event ob) tasks \<or> list_ex (ob_sched_event ob) scheds"

text \<open>One delta cycle: the last snapshot, the process with its trace and whether it is alive.\<close>

definition follow_step ::
    "(tikz_obs \<Rightarrow> tikz_trace \<times> u32 \<Rightarrow> (tikz_trace \<times> u32) \<times> bool) \<Rightarrow> string list \<Rightarrow> string list
       \<Rightarrow> snapshot \<times> (tikz_trace \<times> u32) \<times> bool \<Rightarrow> snapshot \<Rightarrow> snapshot \<times> (tikz_trace \<times> u32) \<times> bool" where
  "follow_step rnd tasks scheds s x =
     (case s of (p, q, alive) \<Rightarrow>
       (x, if alive \<and> wakes tasks scheds (observe p x) then rnd (observe p x) q else (q, alive)))"

definition follow ::
    "(tikz_obs \<Rightarrow> tikz_trace \<times> u32 \<Rightarrow> (tikz_trace \<times> u32) \<times> bool) \<Rightarrow> string list \<Rightarrow> string list
       \<Rightarrow> snapshot \<Rightarrow> tikz_trace \<times> u32 \<Rightarrow> snapshot list \<Rightarrow> snapshot \<times> (tikz_trace \<times> u32) \<times> bool" where
  "follow rnd tasks scheds x0 q h = foldl (follow_step rnd tasks scheds) (x0, q, True) h"

lemma follow_Nil [simp]: "follow rnd tasks scheds x0 q [] = (x0, q, True)"
  by (simp add: follow_def)

lemma follow_snoc:
  "follow rnd tasks scheds x0 q (h @ [x]) = follow_step rnd tasks scheds (follow rnd tasks scheds x0 q h) x"
  by (simp add: follow_def)

text \<open>The snapshot in force at an instant.\<close>

definition state_at :: "snapshot \<Rightarrow> snapshot list \<Rightarrow> sc_time \<Rightarrow> snapshot" where
  "state_at x0 h u = last (filter (\<lambda>x. fst x \<le> u) (x0 # h))"

lemma state_at_snoc:
  "state_at x0 (h @ [x]) u = (if fst x \<le> u then x else state_at x0 h u)"
  by (simp add: state_at_def)

definition latest :: "snapshot \<Rightarrow> snapshot list \<Rightarrow> snapshot" where
  "latest x0 h = last (x0 # h)"

lemma latest_simps [simp]: "latest x0 [] = x0" "latest x0 (h @ [x]) = x"
  by (simp_all add: latest_def)

subsection \<open>Time stamps\<close>

text \<open>The time stamps, their indexes and the configuration, whatever the round collects.\<close>

definition stamps_ok :: "tikz_trace \<Rightarrow> snapshot \<Rightarrow> snapshot \<Rightarrow> tikz_trace \<times> u32 \<Rightarrow> bool \<Rightarrow> bool" where
  "stamps_ok r0 x0 p q alive \<longleftrightarrow>
     (let ts = time_stamps (fst q) in
      ts \<noteq> [] \<and> hd ts = fst x0 \<and> sorted_wrt (<) ts \<and> last ts \<le> fst p
      \<and> length ts \<le> unat (ttikz_max_n_time_stamps r0) \<and> snd q = of_nat (length ts)
      \<and> time_stamps_index (fst q) = zip ts (map of_nat [0..<length ts])
      \<and> (\<not> alive \<longrightarrow> last ts < fst p \<and> length ts = unat (ttikz_max_n_time_stamps r0)))"

text \<open>The collected data are not part of the configuration.\<close>

definition same_configuration :: "tikz_trace \<Rightarrow> tikz_trace \<Rightarrow> bool" where
  "same_configuration r0 r \<longleftrightarrow>
     r0\<lparr>time_stamps := [], time_stamps_index := [], task_activity := [], sched_activity := [], compact_activity := []\<rparr>
     = r\<lparr>time_stamps := [], time_stamps_index := [], task_activity := [], sched_activity := [], compact_activity := []\<rparr>"

lemma same_configurationD:
  "same_configuration r0 r \<Longrightarrow> ttikz_max_n_time_stamps r = ttikz_max_n_time_stamps r0
     \<and> clustered_style r = clustered_style r0 \<and> compact_style r = compact_style r0
     \<and> ttikz_start_trace_time r = ttikz_start_trace_time r0
     \<and> time_stamps_max_separation r = time_stamps_max_separation r0
     \<and> x_location r = x_location r0 \<and> span_vec r = span_vec r0 \<and> time_spans r = time_spans r0
     \<and> show_schedulers_activity r = show_schedulers_activity r0"
  unfolding same_configuration_def by (cases r; cases r0) simp


lemma index_snoc:
  assumes "sorted_wrt (<) (ts @ [k])"
  shows "table_set k v (zip ts is) = zip ts is @ [(k, v)]"
proof -
  have keys: "\<And>e. e \<in> set (zip ts is) \<Longrightarrow> fst e < k"
    using assms by (auto simp: sorted_wrt_append dest: set_zip_leftD)
  have "map fst (zip ts is) = take (length is) ts" by (simp add: map_fst_zip_take min_def)
  then have "sorted_wrt (<) (map fst (zip ts is))"
    using assms by (simp add: sorted_wrt_append sorted_wrt_take)
  then have "table_set k v (zip ts is) = filter (\<lambda>e. fst e < k) (zip ts is) @ [(k, v)]"
    by (rule table_set_at_end) (use keys less_imp_le in blast)
  then show ?thesis using keys by simp
qed

lemma trace_round_cases:
  assumes "last (time_stamps r) \<le> ob_now ob"
  obtains (stop) "last (time_stamps r) < ob_now ob" "\<not> length (time_stamps r) < unat (ttikz_max_n_time_stamps r)"
      "trace_round collect ob (r, i) = ((r, i), False)"
  | (push) "last (time_stamps r) < ob_now ob" "length (time_stamps r) < unat (ttikz_max_n_time_stamps r)"
      "trace_round collect ob (r, i) = ((collect ob (push_stamp (ob_now ob) i r), i + 1), True)"
  | (again) "last (time_stamps r) = ob_now ob" "trace_round collect ob (r, i) = ((collect ob r, i), True)"
  using assms unfolding trace_round_def Let_def by (cases "last (time_stamps r) < ob_now ob") (auto split: if_splits)

text \<open>What a round does to the time stamps, for data that are no part of them.\<close>

definition collects_only :: "(tikz_obs \<Rightarrow> tikz_trace \<Rightarrow> tikz_trace) \<Rightarrow> bool" where
  "collects_only collect \<longleftrightarrow> (\<forall>ob r. time_stamps (collect ob r) = time_stamps r
     \<and> time_stamps_index (collect ob r) = time_stamps_index r \<and> same_configuration r (collect ob r))"

lemma same_configuration_trans:
  "same_configuration a b \<Longrightarrow> same_configuration b c \<Longrightarrow> same_configuration a c"
  by (simp add: same_configuration_def)

lemma same_configuration_refl [simp]: "same_configuration a a"
  by (simp add: same_configuration_def)

lemma push_stamp_simps [simp]:
  "time_stamps (push_stamp k i r) = time_stamps r @ [k]"
  "time_stamps_index (push_stamp k i r) = table_set k i (time_stamps_index r)"
  "task_activity (push_stamp k i r) = task_activity r" "sched_activity (push_stamp k i r) = sched_activity r"
  "compact_activity (push_stamp k i r) = compact_activity r"
  "same_configuration r (push_stamp k i r)" "ttikz_max_n_time_stamps (push_stamp k i r) = ttikz_max_n_time_stamps r"
  by (simp_all add: push_stamp_def same_configuration_def)

lemma stamps_push:
  assumes "stamps_ok r0 x0 p (r, i) True" "same_configuration r0 r" "last (time_stamps r) < now"
    and "length (time_stamps r) < unat (ttikz_max_n_time_stamps r)"
  shows "sorted_wrt (<) (time_stamps r @ [now])"
    and "table_set now i (time_stamps_index r) = zip (time_stamps r @ [now]) (map of_nat [0..<Suc (length (time_stamps r))])"
proof -
  let ?ts = "time_stamps r"
  have s: "?ts \<noteq> []" "sorted_wrt (<) ?ts" "i = of_nat (length ?ts)"
    "time_stamps_index r = zip ?ts (map of_nat [0..<length ?ts])"
    using assms(1) by (simp_all add: stamps_ok_def Let_def)
  have "t \<le> last ?ts" if "t \<in> set ?ts" for t
    using s(1,2) that by (metis append_butlast_last_id in_set_butlastD less_imp_le
        order_refl set_ConsD sorted_wrt_append list.set_intros(1) rotate1.simps(2) set_rotate1)
  then show sorted: "sorted_wrt (<) (?ts @ [now])"
    using s(2) assms(3) by (fastforce simp: sorted_wrt_append)
  show "table_set now i (time_stamps_index r) = zip (?ts @ [now]) (map of_nat [0..<Suc (length ?ts)])"
    using index_snoc [OF sorted, of i] s by simp
qed

lemma stamps_round:
  assumes "stamps_ok r0 x0 p (r, i) True" "same_configuration r0 r" "fst p \<le> fst x" "collects_only collect"
    and "trace_round collect (observe p x) (r, i) = (q, alive)"
  shows "stamps_ok r0 x0 x q alive \<and> same_configuration r0 (fst q)"
proof -
  let ?ts = "time_stamps r" and ?ob = "observe p x"
  note c = same_configurationD [OF assms(2)]
  have now: "ob_now ?ob = fst x" by (simp add: observe_def)
  have s: "?ts \<noteq> []" "last ?ts \<le> fst x" using assms(1,3) by (auto simp: stamps_ok_def Let_def)
  have keep: "time_stamps (collect ?ob r') = time_stamps r'" "time_stamps_index (collect ?ob r') = time_stamps_index r'"
    "same_configuration r' (collect ?ob r')" for r'
    using assms(4) by (simp_all add: collects_only_def)
  have "last ?ts \<le> ob_now ?ob" using s(2) now by simp
  then show ?thesis
  proof (cases rule: trace_round_cases [where collect = collect and i = i])
    case stop
    then show ?thesis using assms c now by (auto simp: stamps_ok_def Let_def)
  next
    case push
    note ps = stamps_push [OF assms(1,2) push(1,2)]
    have q: "q = (collect ?ob (push_stamp (fst x) i r), i + 1)" "alive" using push(3) assms(5) now by auto
    have "same_configuration r0 (fst q)"
      using same_configuration_trans [OF same_configuration_trans [OF assms(2) push_stamp_simps(6)] keep(3)]
      by (simp add: q)
    moreover have "stamps_ok r0 x0 x q alive"
      using assms(1) push(2) c ps unfolding stamps_ok_def Let_def now
      by (simp add: q keep)
    ultimately show ?thesis by blast
  next
    case again
    have q: "q = (collect ?ob r, i)" "alive" using again(2) assms(5) by auto
    have "same_configuration r0 (fst q)"
      using same_configuration_trans [OF assms(2) keep(3)] by (simp add: q)
    moreover have "stamps_ok r0 x0 x q alive"
      using assms(1) again(1) unfolding stamps_ok_def Let_def now by (simp add: q keep)
    ultimately show ?thesis by blast
  qed
qed

subsection \<open>The tables of the unfolded style\<close>

text \<open>
  The tables of the elements \<open>names\<close>, whose state in a snapshot is \<open>f\<close>: while the process is alive each
  shows the states of the whole history, and afterwards those up to the last time stamp.
\<close>

definition tracks ::
    "(snapshot \<Rightarrow> string \<Rightarrow> 's) \<Rightarrow> string list \<Rightarrow> snapshot \<Rightarrow> snapshot list \<Rightarrow> sc_time list \<Rightarrow> bool
       \<Rightarrow> (string \<times> (sc_time \<times> 's) list) list \<Rightarrow> bool" where
  "tracks f names x0 h ts alive tables \<longleftrightarrow> map fst tables = names
     \<and> (\<forall>(n, t) \<in> set tables. table_ok (fst x0) ts t
          \<and> (alive \<longrightarrow> snd (last t) = f (latest x0 h) n)
          \<and> (\<forall>u. fst x0 \<le> u \<longrightarrow> alive \<or> u \<le> last ts \<longrightarrow> shown t u = f (state_at x0 h u) n))"

lemma tracks_start:
  assumes "fst x0 \<in> set ts"
  shows "tracks f names x0 [] ts True (record_events (fst x0) (\<lambda>_. True) (f x0) (map (\<lambda>n. (n, [])) names))"
  using assms
  by (auto simp: tracks_def record_events_def table_ok_def shown_def state_at_def intro!: map_idI)

lemma tracks_names: "tracks f names x0 h ts alive tables \<Longrightarrow> (n, t) \<in> set tables \<Longrightarrow> n \<in> set names"
  by (force simp: tracks_def)

lemma tracks_quiet:
  assumes "tracks f names x0 h ts True tables" "\<And>n. n \<in> set names \<Longrightarrow> f x n = f (latest x0 h) n"
    and "\<And>k. k \<in> set ts \<Longrightarrow> k \<le> fst x"
  shows "tracks f names x0 (h @ [x]) ts True tables"
  unfolding tracks_def
proof (intro conjI ballI)
  show "map fst tables = names" using assms(1) by (simp add: tracks_def)
  fix e assume e: "e \<in> set tables"
  obtain n t where nt: "e = (n, t)" by (cases e)
  have t: "table_ok (fst x0) ts t" "snd (last t) = f (latest x0 h) n"
    "\<And>u. fst x0 \<le> u \<Longrightarrow> shown t u = f (state_at x0 h u) n"
    using assms(1) e by (auto simp: tracks_def nt)
  have fx: "f x n = snd (last t)"
    using assms(2) tracks_names [OF assms(1), of n t] e t(2) by (simp add: nt)
  have "fst x \<le> u \<Longrightarrow> shown t u = snd (last t)" for u
    using t(1) assms(3) by (intro shown_last) (force simp: table_ok_def)+
  then have "shown t u = f (state_at x0 (h @ [x]) u) n" if "fst x0 \<le> u" for u
    using t(3) [OF that] fx by (cases "fst x \<le> u") (simp_all add: state_at_snoc)
  then show "case e of (n, t) \<Rightarrow> table_ok (fst x0) ts t
      \<and> (True \<longrightarrow> snd (last t) = f (latest x0 (h @ [x])) n)
      \<and> (\<forall>u. fst x0 \<le> u \<longrightarrow> True \<or> u \<le> last ts \<longrightarrow> shown t u = f (state_at x0 (h @ [x]) u) n)"
    using t fx by (simp add: nt state_at_snoc)
qed

lemma tracks_over:
  assumes "tracks f names x0 h ts alive tables" "last ts < fst x"
  shows "tracks f names x0 (h @ [x]) ts False tables"
  using assms by (fastforce simp: tracks_def state_at_snoc)

lemma tracks_record:
  assumes "tracks f names x0 h ts True tables" "\<And>k. k \<in> set ts \<Longrightarrow> k \<le> fst x" "fst x0 \<le> fst x"
    and "ts' = ts \<or> ts' = ts @ [fst x]" "fst x \<in> set ts'" "\<And>n. event n \<longleftrightarrow> f x n \<noteq> f (latest x0 h) n"
  shows "tracks f names x0 (h @ [x]) ts' True (record_events (fst x) event (f x) tables)"
  unfolding tracks_def
proof (intro conjI ballI)
  show "map fst (record_events (fst x) event (f x) tables) = names"
    using assms(1) by (simp add: tracks_def record_events_def comp_def case_prod_beta)
  fix e assume "e \<in> set (record_events (fst x) event (f x) tables)"
  then obtain n t where nt: "e = (n, if event n then table_set (fst x) (f x n) t else t)" "(n, t) \<in> set tables"
    by (auto simp: record_events_def)
  let ?t = "if event n then table_set (fst x) (f x n) t else t"
  have t: "table_ok (fst x0) ts t" "snd (last t) = f (latest x0 h) n"
    "\<And>u. fst x0 \<le> u \<Longrightarrow> shown t u = f (state_at x0 h u) n"
    using assms(1) nt(2) by (auto simp: tracks_def)
  have keys: "\<And>e. e \<in> set t \<Longrightarrow> fst e \<le> fst x" using t(1) assms(2) by (force simp: table_ok_def)
  have sorted: "sorted_wrt (<) (map fst t)" using t(1) by (simp add: table_ok_def)
  have ok: "table_ok (fst x0) ts' t" using t(1) assms(4) table_ok_snoc by auto
  then have "table_ok (fst x0) ts' ?t" using table_ok_set [OF ok assms(5,3)] by simp
  moreover have "snd (last ?t) = f x n"
    using t(2) assms(6) table_set_at_end [OF sorted keys, where v = "f x n"] by simp
  moreover have "shown ?t u = f (state_at x0 (h @ [x]) u) n" if "fst x0 \<le> u" for u
  proof (cases "event n")
    case True
    then show ?thesis using t(3) [OF that] shown_table_set [OF sorted keys] by (simp add: state_at_snoc)
  next
    case False
    have "fst x \<le> u \<Longrightarrow> shown t u = snd (last t)"
      using t(1) keys by (intro shown_last) (force simp: table_ok_def)+
    then show ?thesis using False t(2,3) that assms(6) by (simp add: state_at_snoc)
  qed
  ultimately show "case e of (n, t) \<Rightarrow> table_ok (fst x0) ts' t
      \<and> (True \<longrightarrow> snd (last t) = f (latest x0 (h @ [x])) n)
      \<and> (\<forall>u. fst x0 \<le> u \<longrightarrow> True \<or> u \<le> last ts' \<longrightarrow> shown t u = f (state_at x0 (h @ [x]) u) n)"
    by (simp add: nt(1))
qed

lemma stamps_bounded:
  assumes "stamps_ok r0 x0 p q alive" "k \<in> set (time_stamps (fst q))"
  shows "k \<le> last (time_stamps (fst q))" "k \<le> fst p"
proof -
  have s: "sorted_wrt (<) (time_stamps (fst q))" "last (time_stamps (fst q)) \<le> fst p"
    using assms(1) by (simp_all add: stamps_ok_def Let_def)
  obtain i where i: "i < length (time_stamps (fst q))" "k = time_stamps (fst q) ! i"
    using assms(2) by (auto simp: in_set_conv_nth)
  have "sorted (time_stamps (fst q))" using s(1) by (simp add: strict_sorted_imp_sorted)
  then have "time_stamps (fst q) ! i \<le> time_stamps (fst q) ! (length (time_stamps (fst q)) - 1)"
    using i(1) by (intro sorted_nth_mono) auto
  then show "k \<le> last (time_stamps (fst q))" using i by (cases "time_stamps (fst q)") (auto simp: last_conv_nth)
  with s(2) show "k \<le> fst p" by simp
qed

definition unfolded_ok ::
    "tikz_trace \<Rightarrow> string list \<Rightarrow> string list \<Rightarrow> snapshot \<Rightarrow> snapshot list \<Rightarrow> snapshot \<times> (tikz_trace \<times> u32) \<times> bool \<Rightarrow> bool" where
  "unfolded_ok r0 tasks scheds x0 h s \<longleftrightarrow>
     (case s of (p, q, alive) \<Rightarrow>
       p = latest x0 h \<and> same_configuration r0 (fst q) \<and> stamps_ok r0 x0 p q alive
       \<and> tracks (\<lambda>x. fst (snd x)) tasks x0 h (time_stamps (fst q)) alive (task_activity (fst q))
       \<and> tracks (\<lambda>x. snd (snd x)) scheds x0 h (time_stamps (fst q)) alive (sched_activity (fst q)))"

lemma collect_unfolded_only: "collects_only collect_unfolded"
  by (simp add: collects_only_def collect_unfolded_def same_configuration_def)

lemma unfolded_step:
  assumes "unfolded_ok r0 tasks scheds x0 h s" "fst (latest x0 h) \<le> fst x" "fst x0 \<le> fst x"
  shows "unfolded_ok r0 tasks scheds x0 (h @ [x]) (follow_step (trace_round collect_unfolded) tasks scheds s x)"
proof -
  obtain p r i alive where s: "s = (p, (r, i), alive)" by (cases s) auto
  have p: "p = latest x0 h" "same_configuration r0 r" "stamps_ok r0 x0 p (r, i) alive"
    and tt: "tracks (\<lambda>x. fst (snd x)) tasks x0 h (time_stamps r) alive (task_activity r)"
    and st: "tracks (\<lambda>x. snd (snd x)) scheds x0 h (time_stamps r) alive (sched_activity r)"
    using assms(1) by (auto simp: unfolded_ok_def s)
  have px: "fst p \<le> fst x" using assms(2) p(1) by simp
  note bounded = stamps_bounded [OF p(3), simplified]
  have le: "k \<le> fst x" if "k \<in> set (time_stamps r)" for k using bounded(2) [OF that] px by simp
  have ne: "time_stamps r \<noteq> []" "last (time_stamps r) \<le> fst p" using p(3) by (simp_all add: stamps_ok_def Let_def)
  consider (dead) "\<not> alive" | (quiet) "alive" "\<not> wakes tasks scheds (observe p x)"
    | (woken) "alive" "wakes tasks scheds (observe p x)" by blast
  then show ?thesis
  proof cases
    case dead
    then have l: "last (time_stamps r) < fst x" using p(3) px by (auto simp: stamps_ok_def Let_def)
    have "stamps_ok r0 x0 x (r, i) False" using dead p(3) l px by (auto simp: stamps_ok_def Let_def)
    then show ?thesis
      using dead tracks_over [OF tt l] tracks_over [OF st l] p(2) by (simp add: unfolded_ok_def follow_step_def s)
  next
    case quiet
    have eq: "fst (snd x) n = fst (snd (latest x0 h)) n" if "n \<in> set tasks" for n
      using quiet(2) that p(1) by (auto simp: wakes_def observe_def list_ex_iff)
    have eq2: "snd (snd x) n = snd (snd (latest x0 h)) n" if "n \<in> set scheds" for n
      using quiet(2) that p(1) by (auto simp: wakes_def observe_def list_ex_iff)
    have "stamps_ok r0 x0 x (r, i) True" using quiet(1) p(3) px by (auto simp: stamps_ok_def Let_def)
    then show ?thesis
      using quiet tracks_quiet [where f = "\<lambda>x. fst (snd x)", OF _ eq le] tt
        tracks_quiet [where f = "\<lambda>x. snd (snd x)", OF _ eq2 le] st p(2)
      by (simp add: unfolded_ok_def follow_step_def s)
  next
    case woken
    let ?ob = "observe p x"
    have now: "ob_now ?ob = fst x" by (simp add: observe_def)
    have ev: "ob_task_event ?ob n \<longleftrightarrow> fst (snd x) n \<noteq> fst (snd (latest x0 h)) n"
      "ob_sched_event ?ob n \<longleftrightarrow> snd (snd x) n \<noteq> snd (snd (latest x0 h)) n"
      "ob_task ?ob = fst (snd x)" "ob_sched ?ob = snd (snd x)" for n
      by (simp_all add: observe_def p(1))
    obtain q alive' where q: "trace_round collect_unfolded ?ob (r, i) = (q, alive')" by (cases "trace_round collect_unfolded ?ob (r, i)")
    have ok: "stamps_ok r0 x0 x q alive'" "same_configuration r0 (fst q)"
      using stamps_round [OF _ p(2) px collect_unfolded_only q] p(3) woken(1) by simp_all
    have step: "follow_step (trace_round collect_unfolded) tasks scheds s x = (x, q, alive')"
      using woken q by (simp add: follow_step_def s)
    have rec: "tracks (\<lambda>x. fst (snd x)) tasks x0 (h @ [x]) ts' True
          (record_events (fst x) (ob_task_event ?ob) (fst (snd x)) (task_activity r))"
        "tracks (\<lambda>x. snd (snd x)) scheds x0 (h @ [x]) ts' True
          (record_events (fst x) (ob_sched_event ?ob) (snd (snd x)) (sched_activity r))"
      if "ts' = time_stamps r \<or> ts' = time_stamps r @ [fst x]" "fst x \<in> set ts'" for ts'
      using tracks_record [where f = "\<lambda>x. fst (snd x)" and event = "ob_task_event ?ob", OF _ le assms(3) that ev(1)] tt
        tracks_record [where f = "\<lambda>x. snd (snd x)" and event = "ob_sched_event ?ob", OF _ le assms(3) that ev(2)] st
        woken(1) by simp_all
    have "last (time_stamps r) \<le> ob_now ?ob" using ne px now by simp
    then show ?thesis
    proof (cases rule: trace_round_cases [where collect = collect_unfolded and i = i])
      case stop
      then have l: "q = (r, i)" "alive' = False" "last (time_stamps r) < fst x" using q now by auto
      show ?thesis
        using ok tracks_over [OF tt l(3)] tracks_over [OF st l(3)] by (simp add: step unfolded_ok_def l)
    next
      case push
      then have l: "q = (collect_unfolded ?ob (push_stamp (fst x) i r), i + 1)" "alive' = True" using q now by auto
      show ?thesis
        using ok rec [of "time_stamps r @ [fst x]"] by (simp add: step unfolded_ok_def l collect_unfolded_def ev now)
    next
      case again
      then have l: "q = (collect_unfolded ?ob r, i)" "alive' = True" using q by auto
      have "fst x \<in> set (time_stamps r)" using again(1) ne(1) now by (metis last_in_set)
      then show ?thesis
        using ok rec [of "time_stamps r"] by (simp add: step unfolded_ok_def l collect_unfolded_def ev now)
    qed
  qed
qed

lemma unfolded_run_ok:
  assumes "sorted (map fst (x0 # h))" "0 < ttikz_max_n_time_stamps r0" "time_stamps r0 = []" "time_stamps_index r0 = []"
    and "fst q = fst (unfolded_start (observe p0 x0) (tikz_before_end_of_elaboration tasks scheds r0))" "snd q = 1"
  shows "unfolded_ok r0 tasks scheds x0 h (follow (trace_round collect_unfolded) tasks scheds x0 q h)"
  using assms(1)
proof (induction h rule: rev_induct)
  case Nil
  let ?r = "fst (unfolded_start (observe p0 x0) (tikz_before_end_of_elaboration tasks scheds r0))"
  have ts: "time_stamps ?r = [fst x0]" "time_stamps_index ?r = [(fst x0, 0)]"
    "task_activity ?r = record_events (fst x0) (\<lambda>_. True) (fst (snd x0)) (map (\<lambda>n. (n, [])) tasks)"
    "sched_activity ?r = record_events (fst x0) (\<lambda>_. True) (snd (snd x0)) (map (\<lambda>n. (n, [])) scheds)"
    using assms(3,4)
    by (simp_all add: unfolded_start_def tikz_before_end_of_elaboration_def Let_def observe_def push_stamp_def)
  have c: "same_configuration r0 ?r"
    by (simp add: same_configuration_def unfolded_start_def tikz_before_end_of_elaboration_def Let_def push_stamp_def)
  have "0 < unat (ttikz_max_n_time_stamps r0)" using assms(2) by (simp add: word_less_nat_alt)
  then show ?case
    using ts c tracks_start [of x0 "[fst x0]" "\<lambda>x. fst (snd x)" tasks] tracks_start [of x0 "[fst x0]" "\<lambda>x. snd (snd x)" scheds]
    by (simp add: unfolded_ok_def stamps_ok_def assms(5,6) Suc_le_eq)
next
  case (snoc x h)
  have sorted: "sorted (map fst (x0 # h))" "\<And>y. y \<in> set (x0 # h) \<Longrightarrow> fst y \<le> fst x"
    using snoc.prems by (auto simp: sorted_append)
  have "fst (latest x0 h) \<le> fst x" unfolding latest_def by (rule sorted(2)) (rule last_in_set, simp)
  then show ?case
    using unfolded_step [OF snoc.IH [OF sorted(1)]] sorted(2) [of x0] by (simp add: follow_snoc)
qed

text \<open>In the unfolded style the process is the loop of that style throughout.\<close>

lemma follow_unfolded:
  assumes "sorted (map fst (x0 # h))" "0 < ttikz_max_n_time_stamps r0" "time_stamps r0 = []" "time_stamps_index r0 = []"
    and "\<not> (clustered_style r0 \<and> compact_style r0)"
    and "q = unfolded_start (observe p0 x0) (tikz_before_end_of_elaboration tasks scheds r0)"
  shows "follow (tikz_round assigned ident) tasks scheds x0 q h
    = follow (trace_round collect_unfolded) tasks scheds x0 q h
    \<and> unfolded_ok r0 tasks scheds x0 h (follow (tikz_round assigned ident) tasks scheds x0 q h)"
  using assms(1)
proof (induction h rule: rev_induct)
  case Nil
  then show ?case
    using unfolded_run_ok [OF Nil assms(2-4), of q p0 tasks scheds] assms(6)
    by (simp add: unfolded_start_def Let_def)
next
  case (snoc x h)
  let ?s = "follow (trace_round collect_unfolded) tasks scheds x0 q h"
  have sorted: "sorted (map fst (x0 # h))" using snoc.prems by (auto simp: sorted_append)
  note IH = snoc.IH [OF sorted]
  obtain p r i alive where s: "?s = (p, (r, i), alive)" by (cases ?s) auto
  have "unfolded_ok r0 tasks scheds x0 h (p, (r, i), alive)" using IH s by metis
  then have "same_configuration r0 r" by (simp add: unfolded_ok_def)
  then have "tikz_round assigned ident ob (r, i) = trace_round collect_unfolded ob (r, i)" for ob
    using same_configurationD [of r0 r] assms(5) by (auto simp: tikz_round_def)
  then have eq: "follow (tikz_round assigned ident) tasks scheds x0 q (h @ [x])
      = follow (trace_round collect_unfolded) tasks scheds x0 q (h @ [x])"
    using IH by (simp add: follow_snoc s follow_step_def)
  then show ?case
    using unfolded_run_ok [OF snoc.prems assms(2-4), of q p0 tasks scheds] assms(6)
    by (simp add: unfolded_start_def Let_def)
qed

subsection \<open>Properties of the collection\<close>

text \<open>
  C8: The trace of the unfolded style is exact. Whatever the simulation does, at every instant from the
  start of the trace, and up to the last time stamp once the limit of time stamps has ended the
  process, the table of each task and scheduler shows the state its signal had; the time stamps are
  increasing, their indexes are their positions, and the process ends only when the limit is reached.
\<close>
theorem unfolded_trace_exact:
  assumes "sorted (map fst (x0 # h))" "0 < ttikz_max_n_time_stamps r0" "time_stamps r0 = []" "time_stamps_index r0 = []"
    and "\<not> (clustered_style r0 \<and> compact_style r0)"
    and "follow (tikz_round assigned ident) tasks scheds x0
      (tikz_start assigned ident (observe p0 x0) (tikz_before_end_of_elaboration tasks scheds r0)) h = (p, (r, i), alive)"
  shows "(\<forall>(n, t) \<in> set (task_activity r). \<forall>u \<ge> fst x0. alive \<or> u \<le> last (time_stamps r) \<longrightarrow>
        shown t u = fst (snd (state_at x0 h u)) n)
    \<and> (\<forall>(n, t) \<in> set (sched_activity r). \<forall>u \<ge> fst x0. alive \<or> u \<le> last (time_stamps r) \<longrightarrow>
        shown t u = snd (snd (state_at x0 h u)) n)
    \<and> map fst (task_activity r) = tasks \<and> map fst (sched_activity r) = scheds
    \<and> sorted_wrt (<) (time_stamps r) \<and> hd (time_stamps r) = fst x0
    \<and> time_stamps_index r = zip (time_stamps r) (map of_nat [0..<length (time_stamps r)])
    \<and> length (time_stamps r) \<le> unat (ttikz_max_n_time_stamps r0)
    \<and> (\<not> alive \<longrightarrow> length (time_stamps r) = unat (ttikz_max_n_time_stamps r0))"
proof -
  have start: "tikz_start assigned ident (observe p0 x0) (tikz_before_end_of_elaboration tasks scheds r0)
      = unfolded_start (observe p0 x0) (tikz_before_end_of_elaboration tasks scheds r0)"
    using assms(5) by (auto simp: tikz_start_def tikz_before_end_of_elaboration_def)
  have "unfolded_ok r0 tasks scheds x0 h (p, (r, i), alive)"
    using conjunct2 [OF follow_unfolded [OF assms(1-5) refl, where ?p0.0 = p0 and tasks = tasks and scheds = scheds
        and assigned = assigned and ident = ident]]
    unfolding assms(6) [unfolded start] .
  then show ?thesis by (auto simp: unfolded_ok_def stamps_ok_def tracks_def Let_def)
qed

theorem unfolded_trace_exact_witness:
  "\<exists>r i. follow (tikz_round (\<lambda>_. []) (\<lambda>_. 0)) [''t''] [] (0, \<lambda>_. READY, \<lambda>_. INNACTIVE)
      (tikz_start (\<lambda>_. []) (\<lambda>_. 0) (observe (0, \<lambda>_. READY, \<lambda>_. INNACTIVE) (0, \<lambda>_. READY, \<lambda>_. INNACTIVE))
        (tikz_before_end_of_elaboration [''t''] [] (new_tikz_trace ''trace''))) [(5, \<lambda>_. EXECUTING, \<lambda>_. INNACTIVE)]
      = ((5, \<lambda>_. EXECUTING, \<lambda>_. INNACTIVE), (r, i), True)
    \<and> time_stamps r = [0, 5] \<and> (\<forall>(n, t) \<in> set (task_activity r). shown t 4 = READY \<and> shown t 7 = EXECUTING)"
proof -
  let ?first = "(0, \<lambda>_. READY, \<lambda>_. INNACTIVE) :: snapshot" and ?second = "(5, \<lambda>_. EXECUTING, \<lambda>_. INNACTIVE) :: snapshot"
  let ?q = "tikz_start (\<lambda>_. []) (\<lambda>_. 0) (observe ?first ?first) (tikz_before_end_of_elaboration [''t''] [] (new_tikz_trace ''trace''))"
  let ?s = "follow (tikz_round (\<lambda>_. []) (\<lambda>_. 0)) [''t''] [] ?first ?q [?second]"
  obtain p r i alive where s: "?s = (p, (r, i), alive)" by (cases ?s) auto
  have f: "fst ?s = ?second" "snd (snd ?s) = True" "time_stamps (fst (fst (snd ?s))) = [0, 5]"
    by (simp_all add: follow_def follow_step_def wakes_def observe_def tikz_round_def trace_round_def tikz_start_def
        unfolded_start_def tikz_before_end_of_elaboration_def new_tikz_trace_def push_stamp_def collect_unfolded_def Let_def)
  have "time_stamps r = [0, 5]" "p = ?second" "alive" using f by (simp_all add: s)
  moreover have "shown t 4 = READY \<and> shown t 7 = EXECUTING" if "(n, t) \<in> set (task_activity r)" for n t
    using unfolded_trace_exact [OF _ _ _ _ _ s] that \<open>alive\<close>
    by (fastforce simp: new_tikz_trace_def state_at_def)
  ultimately show ?thesis using s by (intro exI [of _ r] exI [of _ i]) auto
qed

subsection \<open>The compact style\<close>

lemma map_of_marks:
  "sorted_wrt (<) (map fst t) \<Longrightarrow>
     map_of (foldl (\<lambda>t n. table_set k (f n) t) t ns) = (if ns = [] then map_of t else (map_of t)(k \<mapsto> f (last ns)))
     \<and> sorted_wrt (<) (map fst (foldl (\<lambda>t n. table_set k (f n) t) t ns))"
proof (induction ns rule: rev_induct)
  case (snoc n ns)
  then show ?case
    using map_of_table_set [of "foldl (\<lambda>t n. table_set k (f n) t) t ns" k "f n"]
      sorted_table_set [of "foldl (\<lambda>t n. table_set k (f n) t) t ns" k "f n"] by (auto simp: fun_eq_iff)
qed simp

text \<open>
  What the compact style records. When a signal of a cluster changes, its table gets the alias of the
  last task in the order of names whose own signal changed to executing, else the mark of the
  scheduler when its signal changed to scheduling, else the mark of no activity; without a change it
  is left alone. So a task that goes on executing is recorded as no activity as soon as another task
  of its scheduler changes its state without executing.
\<close>
theorem compact_activity_recorded:
  assumes "sorted_wrt (<) (map fst t)"
  shows "map_of (compact_events assigned ident ob s t) =
      (let started = filter (\<lambda>n. ob_task_event ob n \<and> ob_task ob n = EXECUTING) (assigned s) in
       if \<not> ob_sched_event ob s \<and> \<not> list_ex (ob_task_event ob) (assigned s) then map_of t
       else (map_of t)(ob_now ob \<mapsto>
         (if started \<noteq> [] then compact_alias ident (last started)
          else if ob_sched_event ob s \<and> ob_sched ob s = SCHEDULING then CHR ''S'' else CHR ''X'')))
    \<and> (ob_task ob n = EXECUTING \<and> \<not> ob_task_event ob n \<and> m \<in> set (assigned s) \<and> ob_task_event ob m
        \<and> (\<forall>k \<in> set (assigned s). ob_task_event ob k \<longrightarrow> ob_task ob k \<noteq> EXECUTING) \<and> \<not> ob_sched_event ob s \<longrightarrow>
       map_of (compact_events assigned ident ob s t) (ob_now ob) = Some (CHR ''X''))"
proof -
  let ?now = "ob_now ob" and ?st = "filter (\<lambda>n. ob_task_event ob n \<and> ob_task ob n = EXECUTING) (assigned s)"
  let ?sch = "ob_sched_event ob s \<and> ob_sched ob s = SCHEDULING"
  let ?t1 = "if ?sch then table_set ?now (CHR ''S'') t else t"
  have t1: "sorted_wrt (<) (map fst ?t1)" "map_of ?t1 = (if ?sch then (map_of t)(?now \<mapsto> CHR ''S'') else map_of t)"
    using assms sorted_table_set [OF assms] map_of_table_set [OF assms] by auto
  let ?t2 = "foldl (\<lambda>t n. table_set ?now (compact_alias ident n) t) ?t1 ?st"
  note t2 = map_of_marks [OF t1(1), of ?now "compact_alias ident" ?st]
  have none: "?st = [] \<and> \<not> ?sch" if "\<not> ob_sched_event ob s \<and> \<not> list_ex (ob_task_event ob) (assigned s)"
    using that by (auto simp: filter_empty_conv list_ex_iff)
  have "map_of (compact_events assigned ident ob s t) =
      (if \<not> ob_sched_event ob s \<and> \<not> list_ex (ob_task_event ob) (assigned s) then map_of t
       else (map_of t)(?now \<mapsto>
         (if ?st \<noteq> [] then compact_alias ident (last ?st) else if ?sch then CHR ''S'' else CHR ''X'')))"
    using t2 t1(2) none map_of_table_set [of ?t2 ?now "CHR ''X''"]
    unfolding compact_events_def Let_def by (auto simp: fun_eq_iff)
  then show ?thesis by (auto simp: Let_def list_ex_iff filter_empty_conv)
qed

theorem compact_activity_recorded_witness:
  "map_of (compact_events (\<lambda>_. [''a'', ''b'']) (\<lambda>_. 3)
      (observe (0, (\<lambda>n. if n = ''a'' then EXECUTING else INACTIVE_WAIT_PERIOD), \<lambda>_. INNACTIVE)
        (7, (\<lambda>n. if n = ''a'' then EXECUTING else READY), \<lambda>_. INNACTIVE)) ''s'' [(0, CHR ''3'')]) 7 = Some (CHR ''X'')"
  using compact_activity_recorded [of "[(0, CHR ''3'')]" "\<lambda>_. [''a'', ''b'']" "\<lambda>_. 3"
      "observe (0, (\<lambda>n. if n = ''a'' then EXECUTING else INACTIVE_WAIT_PERIOD), \<lambda>_. INNACTIVE)
        (7, (\<lambda>n. if n = ''a'' then EXECUTING else READY), \<lambda>_. INNACTIVE)" "''s''" "''a''" "''b''"]
  by (simp add: observe_def)

text \<open>Tasks whose identifiers begin with the same digit have the same alias.\<close>

lemma alias_shared: "ident m = 1 \<Longrightarrow> ident n = 12 \<Longrightarrow> compact_alias ident m = compact_alias ident n"
  by (simp add: compact_alias_def decimal.simps)

subsection \<open>The time axis\<close>

fun positions :: "u32 \<Rightarrow> u32 list \<Rightarrow> u32 list" where
  "positions a [] = [a]"
| "positions a (w # ws) = a # positions (a + w) ws"

lemma length_positions [simp]: "length (positions a ws) = Suc (length ws)"
  by (induction a ws rule: positions.induct) simp_all

lemma positions_sum: "i \<le> length ws \<Longrightarrow> positions a ws ! i = a + sum_list (take i ws)"
proof (induction a ws arbitrary: i rule: positions.induct)
  case (2 a w ws)
  then show ?case by (cases i) (simp_all add: add.assoc)
qed simp

lemma unat_sum_list:
  "sum_list (map unat ws) < 2 ^ 32 \<Longrightarrow> unat (sum_list ws :: u32) = sum_list (map unat ws)"
proof (induction ws)
  case (Cons w ws)
  then show ?case by (simp add: unat_word_ariths)
qed simp

text \<open>The span of a gap.\<close>

definition span_of :: "sc_time \<Rightarrow> u32 \<Rightarrow> sc_time \<Rightarrow> u32" where
  "span_of unit sep g = (if unat sep < g div unit + 1 then sep else of_nat (g div unit + 1))"

lemma to_u32_span:
  assumes "to_u32 (dadd (sc_ratio g unit) (Fin 1)) = Inr v"
  shows "0 < unit \<and> unat v = g div unit + 1"
proof -
  have unit: "0 < unit"
    using assms by (cases "unit = 0") (simp_all add: sc_ratio_def dsigned_def to_u32_def split: if_splits)
  have "\<lfloor>(of_nat g :: rat) / of_nat unit\<rfloor> = int (g div unit)" by (simp add: floor_divide_of_nat_eq)
  then have f: "\<lfloor>(of_nat g :: rat) / of_nat unit + 1\<rfloor> = int (g div unit + 1)" by simp
  have b: "(of_nat g :: rat) / of_nat unit + 1 < 2 ^ 32" "v = of_nat (nat \<lfloor>(of_nat g :: rat) / of_nat unit + 1\<rfloor>)"
    using assms unit by (simp_all add: to_u32_def split: if_splits)
  then have "int (g div unit + 1) < int (2 ^ 32)"
    using f by (metis floor_less_iff of_int_numeral of_int_power of_nat_numeral of_nat_power)
  then have "g div unit + 1 < 2 ^ 32" by (simp only: of_nat_less_iff)
  then have "unat (of_nat (g div unit + 1) :: u32) = g div unit + 1" by (simp add: unat_of_nat del: of_nat_add of_nat_Suc)
  then show ?thesis using unit b(2) f by simp
qed

lemma span_loop_positions:
  assumes "span_loop unit sep gs spans xs = Inr (spans', xs')" "xs \<noteq> []"
  shows "spans' = spans @ map (span_of unit sep) gs
    \<and> xs' = butlast xs @ positions (last xs) (map (span_of unit sep) gs) \<and> (gs \<noteq> [] \<longrightarrow> 0 < unit)"
  using assms
proof (induction unit sep gs spans xs rule: span_loop.induct)
  case (2 unit sep g gs spans xs)
  from "2.prems"(1) obtain v where v: "to_u32 (dadd (sc_ratio g unit) (Fin 1)) = Inr v"
    "span_loop unit sep gs (spans @ [if sep < v then sep else v]) (xs @ [last xs + (if sep < v then sep else v)]) = Inr (spans', xs')"
    by (auto simp: rbind_eq_Inr Let_def)
  note uv = to_u32_span [OF v(1)]
  have w: "(if sep < v then sep else v) = span_of unit sep g"
  proof -
    have "v = of_nat (unat v)" by simp
    then show ?thesis using uv by (simp add: span_of_def word_less_nat_alt)
  qed
  show ?case
    using "2.IH" [OF refl v(2), unfolded w] v(2) [unfolded w] uv "2.prems"(2)
    by (simp add: butlast_append)
qed (auto simp: append_butlast_last_id)

end
