(* ===== verification/Tikz_Export.thy ===== *)
theory Tikz_Export
  imports Tikz_Props
begin

text \<open>
  What the export of a trace draws: the layout of the time axis, the paths of coordinates and the boxes of
  each element as renderings of one list of marks, and when the whole export succeeds.
\<close>

subsection \<open>The layout\<close>

lemma nth_gaps: "i + 1 < length ts \<Longrightarrow> gaps_of ts ! i = sc_minus (ts ! Suc i) (ts ! i)"
  using nth_upt [of 1 i "length ts"] by (simp add: gaps_of_def)

lemma length_gaps [simp]: "length (gaps_of ts) = length ts - 1"
  by (simp add: gaps_of_def)

lemma unat_span_of: "unat (span_of unit sep g) = min (unat sep) (g div unit + 1)"
proof (cases "unat sep < g div unit + 1")
  case False
  then have "g div unit + 1 < 2 ^ 32" using u32_bound [of sep] by linarith
  then have "unat (of_nat (g div unit + 1) :: u32) = g div unit + 1"
    by (simp add: unat_of_nat del: of_nat_add of_nat_Suc)
  then show ?thesis using False by (simp add: span_of_def)
qed (simp add: span_of_def)

lemma layout_fields:
  assumes "tikz_layout now r = Inr r'" "x_location r = []" "span_vec r = []" "time_spans r = []"
  shows "2 \<le> length (time_stamps r) \<and> ttikz_start_trace_time r \<le> now
    \<and> time_spans r' = gaps_of (time_stamps r)
    \<and> x_location r' = positions 0 (map (span_of (span_time_gap r') (time_stamps_max_separation r)) (gaps_of (time_stamps r)))
    \<and> 0 < span_time_gap r'
    \<and> sc_over (max_gap_of (gaps_of (time_stamps r))) (of_u32 (time_stamps_max_separation r)) = Inr (span_time_gap r')
    \<and> time_stamps r' = time_stamps r \<and> time_stamps_index r' = time_stamps_index r
    \<and> task_activity r' = task_activity r \<and> sched_activity r' = sched_activity r
    \<and> ttikz_start_trace_time r' = ttikz_start_trace_time r
    \<and> show_schedulers_activity r' = show_schedulers_activity r
    \<and> clustered_style r' = clustered_style r \<and> compact_style r' = compact_style r"
proof -
  let ?g = "gaps_of (time_stamps r)" and ?sep = "time_stamps_max_separation r"
  obtain unit spans xs where l: "\<not> now < ttikz_start_trace_time r" "\<not> length (time_stamps r) < 2"
    "sc_over (max_gap_of ?g) (of_u32 ?sep) = Inr unit" "span_loop unit ?sep ?g [] [0] = Inr (spans, xs)"
    "r' = r\<lparr>time_spans := ?g, span_time_gap := unit, span_vec := spans, x_location := xs\<rparr>"
    using assms(1) unfolding tikz_layout_def Let_def assms(2-4)
    by (auto simp: rbind_eq_Inr rmap_eq_Inr)
  have "?g \<noteq> []" using l(2) by (simp flip: length_greater_0_conv)
  then show ?thesis using span_loop_positions [OF l(4)] l by simp
qed

lemma layout_widths:
  assumes "length ts * unat sep < 2 ^ 32" "i < length ts" "ts \<noteq> []"
  shows "unat (positions 0 (map (span_of unit sep) (gaps_of ts)) ! i) =
    (\<Sum>k<i. min (unat sep) (gaps_of ts ! k div unit + 1))"
proof -
  let ?ws = "map (span_of unit sep) (gaps_of ts)"
  have len: "i \<le> length ?ws" using assms(2) by simp
  have "map unat (take i ?ws) = map (\<lambda>k. min (unat sep) (gaps_of ts ! k div unit + 1)) [0..<i]"
    by (rule nth_equalityI) (use len in \<open>simp_all add: unat_span_of\<close>)
  then have s: "sum_list (map unat (take i ?ws)) = (\<Sum>k<i. min (unat sep) (gaps_of ts ! k div unit + 1))"
    by (simp add: sum_list_sum_nth atLeast0LessThan)
  also have "\<dots> \<le> (\<Sum>k<i. unat sep)" by (rule sum_mono) simp
  also have "\<dots> \<le> length ts * unat sep" using assms(2) by simp
  finally have "sum_list (map unat (take i ?ws)) < 2 ^ 32" using assms(1) by simp
  then show ?thesis using unat_sum_list [of "take i ?ws"] positions_sum [OF len, of 0] s by simp
qed

text \<open>
  The time axis. When the layout succeeds the time stamps have increasing places on the axis, from its
  origin; the distance of two successive ones is the number of whole units in their gap plus one, at
  most the maximum separation, so a longer gap never has a shorter distance.
\<close>
theorem time_axis_layout:
  assumes "tikz_layout now r = Inr r'" "x_location r = []" "span_vec r = []" "time_spans r = []"
    and "sorted_wrt (<) (time_stamps r)" "length (time_stamps r) * unat (time_stamps_max_separation r) < 2 ^ 32"
  shows "let ts = time_stamps r; x = (\<lambda>i. unat (x_location r' ! i)); gap = (\<lambda>i. ts ! Suc i - ts ! i) in
    length (x_location r') = length ts \<and> x 0 = 0 \<and> 0 < span_time_gap r'
    \<and> (\<forall>i. Suc i < length ts \<longrightarrow>
         x (Suc i) = x i + min (unat (time_stamps_max_separation r)) (gap i div span_time_gap r' + 1))
    \<and> (\<forall>i j. Suc i < length ts \<longrightarrow> Suc j < length ts \<longrightarrow> gap i \<le> gap j \<longrightarrow> x (Suc i) - x i \<le> x (Suc j) - x j)
    \<and> (\<forall>i j. i < j \<longrightarrow> j < length ts \<longrightarrow> x i < x j)"
proof -
  let ?ts = "time_stamps r" and ?sep = "time_stamps_max_separation r" and ?unit = "span_time_gap r'"
  let ?x = "\<lambda>i. unat (x_location r' ! i)" and ?w = "\<lambda>i. min (unat ?sep) ((?ts ! Suc i - ?ts ! i) div ?unit + 1)"
  note f = layout_fields [OF assms(1-4)]
  have ne: "?ts \<noteq> []" using f by auto
  have sep: "0 < ?sep"
  proof (rule ccontr)
    assume "\<not> 0 < ?sep"
    then have "?sep = 0" by (simp add: word_greater_zero_iff)
    then have "of_u32 ?sep = Fin 0" by (simp add: of_u32_def)
    then show False using f by (simp add: sc_over_def dsigned_def to_ticks_def split: if_splits)
  qed
  have gap: "gaps_of ?ts ! i = ?ts ! Suc i - ?ts ! i" if "Suc i < length ?ts" for i
  proof -
    have "?ts ! i < ?ts ! Suc i" using assms(5) that by (simp add: sorted_wrt_nth_less)
    then show ?thesis using that by (simp add: nth_gaps)
  qed
  have x: "?x i = (\<Sum>k<i. ?w k)" if "i < length ?ts" for i
    using layout_widths [OF assms(6) that ne, of ?unit] f that by (simp add: gap)
  have step: "?x (Suc i) = ?x i + ?w i" if "Suc i < length ?ts" for i
    using x [OF that] x [of i] that by simp
  have pos: "0 < ?w i" for i using sep by (simp add: word_less_nat_alt)
  have mono: "?x i < ?x j" if "i < j" "j < length ?ts" for i j
    using that
  proof (induction j)
    case (Suc j)
    then show ?case using step [of j] pos [of j] by (cases "i = j") auto
  qed simp
  have widths: "?x (Suc i) - ?x i \<le> ?x (Suc j) - ?x j"
    if "Suc i < length ?ts" "Suc j < length ?ts" "?ts ! Suc i - ?ts ! i \<le> ?ts ! Suc j - ?ts ! j" for i j
    using step [OF that(1)] step [OF that(2)] div_le_mono [OF that(3), of ?unit] by simp
  show ?thesis
    unfolding Let_def using f step mono widths x [of 0] ne by auto
qed

theorem time_axis_layout_witness:
  "\<exists>r'. tikz_layout 20 ((new_tikz_trace ''t'')\<lparr>time_stamps := [0, 3, 12], time_stamps_max_separation := 3\<rparr>) = Inr r'
    \<and> unat (x_location r' ! 1) < unat (x_location r' ! 2) \<and> span_time_gap r' = 3"
proof -
  let ?r = "(new_tikz_trace ''t'')\<lparr>time_stamps := [0, 3, 12], time_stamps_max_separation := 3\<rparr>"
  have g: "gaps_of [0, 3, 12] = [3, 9 :: nat]" by (simp add: gaps_of_def sc_minus_def upt_rec)
  have m: "max_gap_of [3, 9 :: nat] = 9" by (simp add: max_gap_of_def)
  have "\<lfloor>7 / 2 :: rat\<rfloor> = 3" by (rule floor_unique) simp_all
  then have u: "sc_over 9 (of_u32 3) = Inr 3"
    by (simp add: sc_over_def of_u32_def to_ticks_def)
  obtain r' where r': "tikz_layout 20 ?r = Inr r'" "span_time_gap r' = 3"
    by (simp add: tikz_layout_def new_tikz_trace_def g m u to_u32_def)
  have "\<forall>i j. i < j \<longrightarrow> j < length (time_stamps ?r) \<longrightarrow> unat (x_location r' ! i) < unat (x_location r' ! j)"
    using time_axis_layout [OF r'(1)] by (simp add: new_tikz_trace_def Let_def)
  from this [rule_format, of 1 2] show ?thesis using r' by auto
qed

subsection \<open>Marks\<close>

text \<open>The position of a time among the time stamps.\<close>

definition stamp_pos :: "sc_time list \<Rightarrow> sc_time \<Rightarrow> nat" where
  "stamp_pos ts u = length (takeWhile (\<lambda>v. v < u) ts)"

lemma stamp_pos_nth:
  assumes "sorted_wrt (<) ts" "u \<in> set ts"
  shows "stamp_pos ts u < length ts \<and> ts ! stamp_pos ts u = u"
  using assms
proof (induction ts)
  case (Cons v ts)
  then show ?case by (cases "v < u") (force simp: stamp_pos_def)+
qed simp

lemma stamp_pos_mono:
  assumes "sorted_wrt (<) ts" "u \<in> set ts" "v \<in> set ts" "u < v"
  shows "stamp_pos ts u < stamp_pos ts v"
proof (rule ccontr)
  assume "\<not> stamp_pos ts u < stamp_pos ts v"
  then have "stamp_pos ts v \<le> stamp_pos ts u" by simp
  then have "ts ! stamp_pos ts v \<le> ts ! stamp_pos ts u"
    using stamp_pos_nth [OF assms(1,2)] assms(1)
    by (intro sorted_nth_mono) (auto simp: strict_sorted_imp_sorted)
  then show False using stamp_pos_nth [OF assms(1,2)] stamp_pos_nth [OF assms(1,3)] assms(4) by simp
qed

text \<open>The positions of the entries of a table, and the last one if no entry has it.\<close>

definition marks :: "sc_time list \<Rightarrow> (sc_time \<times> 's) list \<Rightarrow> nat list" where
  "marks ts tbl = map (\<lambda>e. stamp_pos ts (fst e)) tbl
     @ (if fst (last tbl) \<noteq> last ts then [length ts - 1] else [])"

lemma marks_Cons: "evs \<noteq> [] \<Longrightarrow> marks ts (e # evs) = stamp_pos ts (fst e) # marks ts evs"
  by (simp add: marks_def)

lemma marks_single:
  "marks ts [e] = stamp_pos ts (fst e) # (if fst e \<noteq> last ts then [length ts - 1] else [])"
  by (simp add: marks_def)

lemma marks_tile:
  assumes "sorted_wrt (<) ts" "table_ok start ts tbl" "hd ts = start"
  shows "sorted_wrt (<) (marks ts tbl) \<and> hd (marks ts tbl) = 0 \<and> last (marks ts tbl) = length ts - 1"
proof -
  have t: "tbl \<noteq> []" "sorted_wrt (<) (map fst tbl)" "fst (hd tbl) = start" "\<And>e. e \<in> set tbl \<Longrightarrow> fst e \<in> set ts"
    using assms(2) by (auto simp: table_ok_def)
  have ne: "ts \<noteq> []" using t(4) [OF hd_in_set [OF t(1)]] by auto
  have sorted: "sorted_wrt (<) (map (\<lambda>e. stamp_pos ts (fst e)) tbl)"
    using t(2) unfolding sorted_wrt_map
    by (rule sorted_wrt_mono_rel [rotated]) (use stamp_pos_mono [OF assms(1)] t(4) in auto)
  have hd: "hd (map (\<lambda>e. stamp_pos ts (fst e)) tbl) = 0"
    using t(1,3) assms(3) ne by (cases ts; cases tbl) (simp_all add: stamp_pos_def)
  have max: "stamp_pos ts (fst e) < length ts - 1" if "e \<in> set tbl" "fst e \<noteq> last ts" for e
  proof -
    note p = stamp_pos_nth [OF assms(1) t(4) [OF that(1)]]
    have "stamp_pos ts (fst e) \<noteq> length ts - 1" using p that(2) ne by (metis last_conv_nth)
    then show ?thesis using p by linarith
  qed
  show ?thesis
  proof (cases "fst (last tbl) = last ts")
    case True
    have "stamp_pos ts (last ts) = length ts - 1"
    proof (rule ccontr)
      assume "stamp_pos ts (last ts) \<noteq> length ts - 1"
      then have "stamp_pos ts (last ts) < length ts - 1"
        using stamp_pos_nth [OF assms(1) last_in_set [OF ne]] by linarith
      then have "ts ! stamp_pos ts (last ts) < ts ! (length ts - 1)"
        using assms(1) ne by (intro sorted_wrt_nth_less [of "(<)"]) auto
      then show False using stamp_pos_nth [OF assms(1), of "last ts"] ne by (simp add: last_conv_nth)
    qed
    then show ?thesis using sorted hd True t(1) by (simp add: marks_def last_map)
  next
    case False
    have order: "stamp_pos ts (fst e) < length ts - 1" if "e \<in> set tbl" for e
    proof (cases "e = last tbl")
      case True
      then show ?thesis using max [OF that] False by simp
    next
      case False
      have "last tbl \<in> set tbl" using t(1) by simp
      moreover have "stamp_pos ts (fst e) < stamp_pos ts (fst (last tbl))"
      proof -
        have "tbl = butlast tbl @ [last tbl]" using t(1) by simp
        then have "e \<in> set (butlast tbl)" "sorted_wrt (<) (map (\<lambda>e. stamp_pos ts (fst e)) (butlast tbl @ [last tbl]))"
          using that False sorted by (metis in_set_conv_decomp rotate1.simps(2) set_ConsD set_rotate1 Un_iff empty_iff list.set set_append, simp)
        then show ?thesis by (simp add: sorted_wrt_append)
      qed
      ultimately show ?thesis using max [of "last tbl"] \<open>fst (last tbl) \<noteq> last ts\<close> by simp
    qed
    then show ?thesis using sorted hd False t(1) by (auto simp: marks_def sorted_wrt_append hd_append)
  qed
qed

subsection \<open>Paths and boxes as renderings of the marks\<close>

text \<open>A trace ready for drawing, and a table of indexes that is exact for the time stamps.\<close>

definition drawable :: "tikz_trace \<Rightarrow> bool" where
  "drawable r \<longleftrightarrow> sorted_wrt (<) (time_stamps r) \<and> 2 \<le> length (time_stamps r)
     \<and> length (time_stamps r) < 2 ^ 32 \<and> length (x_location r) = length (time_stamps r)
     \<and> hd (time_stamps r) = ttikz_start_trace_time r"

definition index_ok :: "tikz_trace \<Rightarrow> stamp_index \<Rightarrow> bool" where
  "index_ok r ix \<longleftrightarrow> sorted_wrt (<) (map fst ix)
     \<and> (\<forall>u \<in> set (time_stamps r). map_of ix u = Some (of_nat (stamp_pos (time_stamps r) u)))"

definition width :: "tikz_trace \<Rightarrow> nat \<Rightarrow> nat \<Rightarrow> u32" where
  "width r i j = x_location r ! j - x_location r ! i"

text \<open>The path through the marks and the boxes between them.\<close>

definition render_path :: "tikz_trace \<Rightarrow> string \<Rightarrow> nat list \<Rightarrow> string" where
  "render_path r name ms =
     macro ''path '' @ ''('' @ coordinate_name name (of_nat (hd ms)) @ '')''
     @ concat (map (\<lambda>(i, j). point_text name (width r i j) (of_nat j)) (zip ms (tl ms))) @ '';'' @ eol"

definition render_boxes :: "tikz_trace \<Rightarrow> string \<Rightarrow> ('s \<Rightarrow> u32 \<Rightarrow> string) \<Rightarrow> nat list \<Rightarrow> 's list \<Rightarrow> string" where
  "render_boxes r name box ms states =
     concat (map (\<lambda>((i, j), s). scope_text name (of_nat i) (box s (width r i j))) (zip (zip ms (tl ms)) states))"

lemma index_at_stamp:
  "index_ok r ix \<Longrightarrow> u \<in> set (time_stamps r) \<Longrightarrow> index_at u ix = (of_nat (stamp_pos (time_stamps r) u), ix)"
  by (simp add: index_ok_def index_at_def)

text \<open>Reading any key keeps the table exact.\<close>

lemma index_at_keeps:
  assumes "index_ok r ix"
  shows "index_ok r (snd (index_at u ix))"
proof (cases "u \<in> set (time_stamps r)")
  case True
  then show ?thesis using index_at_stamp [OF assms True] assms by simp
next
  case False
  then show ?thesis
    using assms sorted_table_set [of ix u 0] map_of_table_set [of ix u 0]
    by (auto simp: index_ok_def index_at_def split: option.splits)
qed

lemma get_span_marks:
  "drawable r \<Longrightarrow> i < length (time_stamps r) \<Longrightarrow> j < length (time_stamps r) \<Longrightarrow>
     get_span r (of_nat i) (of_nat j) = Inr (width r i j)"
  by (simp add: drawable_def get_span_def width_def unat_of_nat)

lemma path_loop_marks:
  assumes "drawable r" "index_ok r ix" "i < length (time_stamps r)" "fst ` set evs \<subseteq> set (time_stamps r)"
  shows "path_loop r name evs (of_nat i) ix =
    Inr (concat (map (\<lambda>(i, j). point_text name (width r i j) (of_nat j))
           (zip (i # map (\<lambda>e. stamp_pos (time_stamps r) (fst e)) evs) (map (\<lambda>e. stamp_pos (time_stamps r) (fst e)) evs))),
         of_nat (last (i # map (\<lambda>e. stamp_pos (time_stamps r) (fst e)) evs)), ix)"
  using assms(3,4)
proof (induction evs arbitrary: i)
  case (Cons e evs)
  obtain u s where e: "e = (u, s)" by (cases e)
  let ?j = "stamp_pos (time_stamps r) u"
  have u: "u \<in> set (time_stamps r)" using Cons.prems(2) by (simp add: e)
  have j: "?j < length (time_stamps r)" using stamp_pos_nth [OF _ u] assms(1) by (simp add: drawable_def)
  show ?case
    using Cons.IH [OF j] Cons.prems(2) index_at_stamp [OF assms(2) u] get_span_marks [OF assms(1) Cons.prems(1) j]
    by (simp add: e)
qed simp

lemma zip_pairs_snoc:
  "xs \<noteq> [] \<Longrightarrow> zip (xs @ [k]) (tl (xs @ [k])) = zip xs (tl xs) @ [(last xs, k)]"
proof (induction xs)
  case (Cons x xs)
  then show ?case by (cases xs) simp_all
qed simp

lemma path_rendered:
  assumes "drawable r" "index_ok r ix" "table_ok (ttikz_start_trace_time r) (time_stamps r) tbl"
    and "snd (last ix) = of_nat (length (time_stamps r) - 1)"
  shows "write_activity_path what r name tbl ix = Inr (render_path r name (marks (time_stamps r) tbl), ix)"
proof -
  let ?ts = "time_stamps r" and ?pos = "\<lambda>e :: sc_time \<times> 'a. stamp_pos (time_stamps r) (fst e)"
  obtain u s evs where t: "tbl = (u, s) # evs" using assms(3) by (cases tbl) (auto simp: table_ok_def)
  have ts: "sorted_wrt (<) ?ts" "hd ?ts = ttikz_start_trace_time r" "?ts \<noteq> []"
    using assms(1) by (auto simp: drawable_def)
  have u: "u = ttikz_start_trace_time r" "u \<in> set ?ts" "fst ` set evs \<subseteq> set ?ts" "fst ` set tbl \<subseteq> set ?ts"
    using assms(3) by (auto simp: t table_ok_def)
  have z: "stamp_pos ?ts u = 0" using ts u(1) by (cases ?ts) (simp_all add: stamp_pos_def)
  have n: "0 < length ?ts" using ts(3) by simp
  note loop = path_loop_marks [OF assms(1,2) n u(3), of name]
  have k: "last (0 # map ?pos evs) < length ?ts"
    using stamp_pos_nth [OF ts(1)] u(3) n by (cases evs rule: rev_cases) auto
  have last_t: "fst (last tbl) = (if evs = [] then u else fst (last evs))" by (simp add: t)
  show ?thesis
  proof (cases "fst (last tbl) = last ?ts")
    case True
    then show ?thesis
      using loop z u(1) index_at_stamp [OF assms(2) u(2)]
      by (simp add: t write_activity_path_def render_path_def marks_def)
  next
    case False
    have "last (map ?pos tbl) = last (0 # map ?pos evs)" using z by (simp add: t)
    then have zip: "zip (marks ?ts tbl) (tl (marks ?ts tbl)) =
        zip (0 # map ?pos evs) (map ?pos evs) @ [(last (0 # map ?pos evs), length ?ts - 1)]"
      using False z zip_pairs_snoc [of "0 # map ?pos evs" "length ?ts - 1"] by (simp add: t marks_def)
    have "get_span r (of_nat (last (0 # map ?pos evs))) (of_nat (length ?ts - 1)) =
        Inr (width r (last (0 # map ?pos evs)) (length ?ts - 1))"
      using n by (intro get_span_marks [OF assms(1) k]) simp
    then show ?thesis
      using loop z u(1) index_at_stamp [OF assms(2) u(2)] False zip assms(4)
      by (simp add: t write_activity_path_def render_path_def marks_def)
  qed
qed

lemma stamp_le_last: "sorted_wrt (<) ts \<Longrightarrow> u \<in> set ts \<Longrightarrow> u \<le> last (ts :: sc_time list)"
  by (induction ts) (auto simp: less_imp_le)

lemma marks_Cons_Cons:
  "marks ts ((u, s) # (u', s') # evs) = stamp_pos ts u # marks ts ((u', s') # evs)"
  "\<exists>ms. marks ts ((u', s') # evs) = stamp_pos ts u' # ms"
  by (simp_all add: marks_def)

lemma boxes_rendered:
  assumes "drawable r"
  shows "tbl \<noteq> [] \<Longrightarrow> fst ` set tbl \<subseteq> set (time_stamps r) \<Longrightarrow> index_ok r ix \<Longrightarrow>
    \<exists>ix'. draw_loop r end_key err name box tbl ix
        = Inr (render_boxes r name box (marks (time_stamps r) tbl) (map snd tbl), ix') \<and> index_ok r ix'"
proof (induction tbl arbitrary: ix)
  case (Cons e evs)
  obtain u s where e: "e = (u, s)" by (cases e)
  let ?ts = "time_stamps r"
  have ts: "sorted_wrt (<) ?ts" "?ts \<noteq> []" using assms by (auto simp: drawable_def)
  have u: "u \<in> set ?ts" using Cons.prems(2) by (simp add: e)
  note pos = stamp_pos_nth [OF ts(1) u]
  note at = index_at_stamp [OF Cons.prems(3) u]
  show ?case
  proof (cases evs)
    case Nil
    obtain j ix2 where j: "index_at end_key ix = (j, ix2)" by (cases "index_at end_key ix")
    have ok: "index_ok r ix2" using index_at_keeps [OF Cons.prems(3), of end_key] by (simp add: j)
    have "get_span r (of_nat (stamp_pos ?ts u)) (of_nat (length ?ts - 1)) = Inr (width r (stamp_pos ?ts u) (length ?ts - 1))"
      using pos ts(2) by (intro get_span_marks [OF assms]) simp_all
    then show ?thesis
      using at j ok stamp_le_last [OF ts(1) u] by (auto simp: e Nil marks_single render_boxes_def)
  next
    case more: (Cons e' evs')
    obtain u' s' where e': "e' = (u', s')" by (cases e')
    have u': "u' \<in> set ?ts" using Cons.prems(2) more by (simp add: e')
    obtain ms where ms: "marks ?ts evs = stamp_pos ?ts u' # ms" using marks_Cons_Cons(2) by (metis more e')
    have m: "marks ?ts (e # evs) = stamp_pos ?ts u # marks ?ts evs" by (simp add: e more e' marks_Cons_Cons(1))
    obtain ix' where ix': "draw_loop r end_key err name box evs ix
        = Inr (render_boxes r name box (marks ?ts evs) (map snd evs), ix')" "index_ok r ix'"
      using Cons.IH [of ix] Cons.prems more by auto
    have "get_span r (of_nat (stamp_pos ?ts u)) (of_nat (stamp_pos ?ts u')) = Inr (width r (stamp_pos ?ts u) (stamp_pos ?ts u'))"
      using pos stamp_pos_nth [OF ts(1) u'] by (intro get_span_marks [OF assms]) simp_all
    then show ?thesis
      using at index_at_stamp [OF Cons.prems(3) u'] ix' ms m more
      by (simp add: e e' render_boxes_def)
  qed
qed simp

lemma widths_telescope:
  "ms \<noteq> [] \<Longrightarrow> sum_list (map (\<lambda>(i, j). width r i j) (zip ms (tl ms))) = x_location r ! last ms - x_location r ! hd ms"
proof (induction ms)
  case (Cons m ms)
  then show ?case by (cases ms) (simp_all add: width_def)
qed simp

text \<open>
  C9: The boxes of an element tile its line. For a trace ready for drawing, the path and the boxes of a task
  are renderings of one increasing list of marks, from the first time stamp to the last: each box stands at a
  coordinate that the path declares, ends where the next begins, the widths add up to the whole
  axis, and nothing depends on the key read through the end iterator.
\<close>
theorem boxes_tile_axis:
  assumes "drawable r" "index_ok r ix" "snd (last ix) = of_nat (length (time_stamps r) - 1)"
    and "table_ok (ttikz_start_trace_time r) (time_stamps r) tbl"
  shows "let ms = marks (time_stamps r) tbl in
      write_task_activity_path r name tbl ix = Inr (render_path r name ms, ix)
      \<and> (\<exists>ix'. draw_task_activity r end_key name tbl ix = Inr (render_boxes r name (task_box r) ms (map snd tbl), ix'))
      \<and> sorted_wrt (<) ms \<and> hd ms = 0 \<and> last ms = length (time_stamps r) - 1
      \<and> sum_list (map (\<lambda>(i, j). width r i j) (zip ms (tl ms)))
        = x_location r ! (length (time_stamps r) - 1) - x_location r ! 0"
proof -
  let ?ts = "time_stamps r"
  have r: "sorted_wrt (<) ?ts" "hd ?ts = ttikz_start_trace_time r" using assms(1) by (auto simp: drawable_def)
  have t: "tbl \<noteq> []" "fst ` set tbl \<subseteq> set ?ts" using assms(4) by (auto simp: table_ok_def)
  note tile = marks_tile [OF r(1) assms(4) r(2)]
  have "marks ?ts tbl \<noteq> []" using t(1) by (simp add: marks_def)
  then show ?thesis
    using path_rendered [OF assms(1,2,4,3)] boxes_rendered [OF assms(1) t assms(2)] tile widths_telescope [of "marks ?ts tbl" r]
    unfolding Let_def write_task_activity_path_def draw_task_activity_def by fastforce
qed

theorem boxes_tile_axis_witness:
  "\<exists>ix'. draw_task_activity ((new_tikz_trace ''t'')\<lparr>time_stamps := [0, 3, 12], x_location := [0, 2, 5]\<rparr>) (\<lambda>_. 7) ''a''
      [(0, READY), (3, EXECUTING)] [(0, 0), (3, 1), (12, 2)]
    = Inr (render_boxes ((new_tikz_trace ''t'')\<lparr>time_stamps := [0, 3, 12], x_location := [0, 2, 5]\<rparr>) ''a''
        (task_box ((new_tikz_trace ''t'')\<lparr>time_stamps := [0, 3, 12], x_location := [0, 2, 5]\<rparr>)) [0, 1, 2] [READY, EXECUTING], ix')"
proof -
  let ?r = "(new_tikz_trace ''t'')\<lparr>time_stamps := [0, 3, 12], x_location := [0, 2, 5]\<rparr>"
  have d: "drawable ?r" by (simp add: drawable_def new_tikz_trace_def)
  have i: "index_ok ?r [(0, 0), (3, 1), (12, 2)]" by (simp add: index_ok_def stamp_pos_def)
  have t: "table_ok (ttikz_start_trace_time ?r) (time_stamps ?r) [(0, READY), (3, EXECUTING)]"
    by (simp add: table_ok_def new_tikz_trace_def)
  have m: "marks (time_stamps ?r) [(0, READY), (3, EXECUTING)] = [0, 1, 2]" by (simp add: marks_def stamp_pos_def)
  show ?thesis using boxes_tile_axis [OF d i _ t, where end_key = "\<lambda>_. 7" and name = "''a''"] unfolding m Let_def by simp
qed

lemma over_tables_succeeds:
  assumes "\<And>n t ix. (n, t) \<in> set tables \<Longrightarrow> P ix \<Longrightarrow> \<exists>s ix'. f n t ix = Inr (s, ix') \<and> P ix'"
  shows "P ix \<Longrightarrow> \<exists>s ix'. over_tables f tables ix = Inr (s, ix') \<and> P ix'"
  using assms
proof (induction tables arbitrary: ix)
  case (Cons e tables)
  obtain n t where e: "e = (n, t)" by (cases e)
  obtain s1 ix1 where 1: "f n t ix = Inr (s1, ix1)" "P ix1"
    using Cons.prems(2) [of n t ix] Cons.prems(1) by (auto simp: e)
  obtain s2 ix2 where 2: "over_tables f tables ix1 = Inr (s2, ix2)" "P ix2"
    using Cons.IH [OF 1(2)] Cons.prems(2) by auto
  show ?case using 1 2 by (simp add: e)
qed simp

lemma zip_index_ok:
  assumes "drawable r" "ix = zip (time_stamps r) (map of_nat [0..<length (time_stamps r)])"
  shows "index_ok r ix \<and> snd (last ix) = of_nat (length (time_stamps r) - 1)"
proof -
  let ?ts = "time_stamps r"
  have ts: "sorted_wrt (<) ?ts" "?ts \<noteq> []" using assms(1) by (auto simp: drawable_def)
  have f: "map fst ix = ?ts" by (simp add: assms(2))
  have d: "distinct ?ts" using ts(1) by (simp add: strict_sorted_iff)
  have "map_of ix u = Some (of_nat (stamp_pos ?ts u))" if u: "u \<in> set ?ts" for u
  proof -
    note p = stamp_pos_nth [OF ts(1) u]
    have "(u, of_nat (stamp_pos ?ts u)) \<in> set ix"
      unfolding assms(2) in_set_zip using p by (intro exI [of _ "stamp_pos ?ts u"]) simp
    then show ?thesis using d f by (intro map_of_is_SomeI) simp_all
  qed
  moreover have "last ix = (last ?ts, of_nat (length ?ts - 1))"
    using ts(2) unfolding assms(2) by (subst last_zip) (simp_all add: last_map)
  ultimately show ?thesis using ts f by (simp add: index_ok_def)
qed

text \<open>Everything that the body of the picture writes in the unfolded styles succeeds.\<close>

lemma unfolded_body_succeeds:
  assumes "drawable r" "index_ok r ix" "snd (last ix) = of_nat (length (time_stamps r) - 1)"
    and "\<And>n t. (n, t) \<in> set (task_activity r) \<Longrightarrow> table_ok (ttikz_start_trace_time r) (time_stamps r) t"
    and "\<And>n t. (n, t) \<in> set (sched_activity r) \<Longrightarrow> table_ok (ttikz_start_trace_time r) (time_stamps r) t"
  shows "is_ok (draw_flat_all te se r ix) \<and> is_ok (draw_clustered_unfolded assigned te se r ix)"
proof -
  have paths: "\<exists>s. over_tables (write_sched_activity_path r) (sched_activity r) ix = Inr (s, ix)"
    "\<exists>s. over_tables (write_task_activity_path r) (task_activity r) ix = Inr (s, ix)"
    using over_tables_succeeds [of "sched_activity r" "\<lambda>i. i = ix" "write_sched_activity_path r" ix]
      over_tables_succeeds [of "task_activity r" "\<lambda>i. i = ix" "write_task_activity_path r" ix]
      path_rendered [OF assms(1,2) assms(4) assms(3)] path_rendered [OF assms(1,2) assms(5) assms(3)]
    by (auto simp: write_sched_activity_path_def write_task_activity_path_def)
  have ok: "t \<noteq> [] \<and> fst ` set t \<subseteq> set (time_stamps r)" if "table_ok (ttikz_start_trace_time r) (time_stamps r) t"
    for t :: "(sc_time \<times> 'z) list"
    using that by (simp add: table_ok_def)
  have sb: "\<exists>s ix2. over_tables (draw_sched_activity r se) (sched_activity r) ix = Inr (s, ix2) \<and> index_ok r ix2"
    using over_tables_succeeds [of "sched_activity r" "index_ok r" "draw_sched_activity r se" ix]
      boxes_rendered [OF assms(1)] ok assms(2,5) unfolding draw_sched_activity_def by blast
  have tb: "\<exists>s ix2. over_tables (draw_task_activity r te) (task_activity r) i = Inr (s, ix2)" if "index_ok r i" for i
    using over_tables_succeeds [of "task_activity r" "index_ok r" "draw_task_activity r te" i]
      boxes_rendered [OF assms(1)] ok that assms(4) unfolding draw_task_activity_def by blast
  obtain s1 s2 s3 ix3 where 1: "over_tables (write_sched_activity_path r) (sched_activity r) ix = Inr (s1, ix)"
    "over_tables (write_task_activity_path r) (task_activity r) ix = Inr (s2, ix)"
    "over_tables (draw_sched_activity r se) (sched_activity r) ix = Inr (s3, ix3)" "index_ok r ix3"
    using paths sb by blast
  obtain s4 ix4 where 2: "over_tables (draw_task_activity r te) (task_activity r) ix3 = Inr (s4, ix4)"
    using tb [OF 1(4)] by blast
  obtain s5 ix5 where 3: "over_tables (draw_task_activity r te) (task_activity r) ix = Inr (s5, ix5)"
    using tb [OF assms(2)] by blast
  show ?thesis
    by (cases "show_schedulers_activity r")
      (simp_all add: draw_flat_all_def draw_clustered_unfolded_def 1 2 3)
qed

text \<open>
  The export of a trace in an unfolded style. After any history of the simulation the export succeeds
  exactly when the layout of the axis does and the last time stamp is at place 20 at most: none of the
  errors for unexpected situations in the records can occur.
\<close>
theorem tikz_export_outcome:
  assumes "sorted (map fst (x0 # h))" "0 < ttikz_max_n_time_stamps r0" "time_stamps r0 = []" "time_stamps_index r0 = []"
    and "\<not> (clustered_style r0 \<and> compact_style r0)" "ttikz_start_trace_time r0 = fst x0"
    and "x_location r0 = []" "span_vec r0 = []" "time_spans r0 = []"
    and "follow (tikz_round assigned ident) tasks scheds x0
      (tikz_start assigned ident (observe p0 x0) (tikz_before_end_of_elaboration tasks scheds r0)) h = (p, (r, i), alive)"
  shows "is_ok (tikz_end_of_simulation tx assigned ident te se now r)
    \<longleftrightarrow> (\<exists>r'. tikz_layout now r = Inr r' \<and> x_location r' ! (length (x_location r') - 1) \<le> 20)"
proof -
  have start: "tikz_start assigned ident (observe p0 x0) (tikz_before_end_of_elaboration tasks scheds r0)
      = unfolded_start (observe p0 x0) (tikz_before_end_of_elaboration tasks scheds r0)"
    using assms(5) by (auto simp: tikz_start_def tikz_before_end_of_elaboration_def)
  have ok: "unfolded_ok r0 tasks scheds x0 h (p, (r, i), alive)"
    using conjunct2 [OF follow_unfolded [OF assms(1-5) refl, where ?p0.0 = p0 and tasks = tasks and scheds = scheds
        and assigned = assigned and ident = ident]]
    unfolding assms(10) [unfolded start] .
  then have c: "same_configuration r0 r" by (simp add: unfolded_ok_def)
  note conf = same_configurationD [OF c]
  show ?thesis
  proof (cases "tikz_layout now r")
    case (Inl e)
    then show ?thesis by (simp add: tikz_end_of_simulation_def)
  next
    case (Inr r')
    note l = layout_fields [OF Inr]
    have l: "2 \<le> length (time_stamps r)" "time_stamps r' = time_stamps r" "time_stamps_index r' = time_stamps_index r"
      "length (x_location r') = length (time_stamps r)" "task_activity r' = task_activity r"
      "sched_activity r' = sched_activity r" "ttikz_start_trace_time r' = fst x0"
      "\<not> (clustered_style r' \<and> compact_style r')"
      using l conf assms(5-9) by auto
    have s: "sorted_wrt (<) (time_stamps r)" "hd (time_stamps r) = fst x0"
      "length (time_stamps r) \<le> unat (ttikz_max_n_time_stamps r0)"
      "time_stamps_index r = zip (time_stamps r) (map of_nat [0..<length (time_stamps r)])"
      using ok by (auto simp: unfolded_ok_def stamps_ok_def Let_def)
    have d: "drawable r'"
      using l s u32_bound [of "ttikz_max_n_time_stamps r0"] by (simp add: drawable_def)
    note ix = zip_index_ok [OF d, of "time_stamps_index r'"]
    have body: "is_ok (draw_flat_all te se r' (time_stamps_index r'))
        \<and> is_ok (draw_clustered_unfolded assigned te se r' (time_stamps_index r'))"
      by (rule unfolded_body_succeeds [OF d])
        (use ix l s ok in \<open>auto simp: unfolded_ok_def tracks_def\<close>)
    have x: "last (x_location r') = x_location r' ! (length (x_location r') - 1)"
      using l by (intro last_conv_nth) auto
    have "is_ok (draw_start tx r') \<longleftrightarrow> \<not> 20 < last (x_location r')"
      by (simp add: draw_start_def draw_time_axis_def Let_def check_def)
    then show ?thesis
      using body l(8) x Inr
      by (cases "draw_start tx r'"; cases "draw_flat_all te se r' (time_stamps_index r')";
          cases "draw_clustered_unfolded assigned te se r' (time_stamps_index r')")
        (auto simp: tikz_end_of_simulation_def not_less)
  qed
qed

theorem tikz_export_outcome_witness:
  "\<exists>p r i alive. follow (tikz_round (\<lambda>_. []) (\<lambda>_. 0)) [''t''] [] (0, \<lambda>_. READY, \<lambda>_. INNACTIVE)
      (tikz_start (\<lambda>_. []) (\<lambda>_. 0) (observe (0, \<lambda>_. READY, \<lambda>_. INNACTIVE) (0, \<lambda>_. READY, \<lambda>_. INNACTIVE))
        (tikz_before_end_of_elaboration [''t''] [] (new_tikz_trace ''trace''))) [(5, \<lambda>_. EXECUTING, \<lambda>_. INNACTIVE)]
      = (p, (r, i), alive)
    \<and> is_ok (tikz_end_of_simulation \<lparr>tx_time = (\<lambda>t. decimal t @ '' ps''), tx_float = (\<lambda>_. ''1.000000''), tx_date = ''today''\<rparr>
        (\<lambda>_. []) (\<lambda>_. 0) (\<lambda>_. 0) (\<lambda>_. 0) 9 r)"
proof -
  let ?first = "(0, \<lambda>_. READY, \<lambda>_. INNACTIVE) :: snapshot" and ?second = "(5, \<lambda>_. EXECUTING, \<lambda>_. INNACTIVE) :: snapshot"
  let ?q = "tikz_start (\<lambda>_. []) (\<lambda>_. 0) (observe ?first ?first) (tikz_before_end_of_elaboration [''t''] [] (new_tikz_trace ''trace''))"
  let ?s = "follow (tikz_round (\<lambda>_. []) (\<lambda>_. 0)) [''t''] [] ?first ?q [?second]"
  obtain p r i alive where s: "?s = (p, (r, i), alive)" by (cases ?s) auto
  let ?r = "fst (fst (snd ?s))"
  have f: "time_stamps ?r = [0, 5]" "ttikz_start_trace_time ?r = 0" "time_stamps_max_separation ?r = 1"
    "span_vec ?r = []" "x_location ?r = []" "time_spans ?r = []"
    by (simp_all add: follow_def follow_step_def wakes_def observe_def tikz_round_def trace_round_def tikz_start_def
        unfolded_start_def tikz_before_end_of_elaboration_def new_tikz_trace_def push_stamp_def collect_unfolded_def Let_def)
  have g: "gaps_of [0, 5] = [5 :: nat]" by (simp add: gaps_of_def)
  have "\<lfloor>11 / 2 :: rat\<rfloor> = 5" by (rule floor_unique) simp_all
  then have u: "sc_over 5 (of_u32 1) = Inr 5" by (simp add: sc_over_def of_u32_def to_ticks_def)
  have l: "\<exists>r'. tikz_layout 9 r = Inr r' \<and> x_location r' ! (length (x_location r') - 1) \<le> 20"
    using f by (simp add: s tikz_layout_def g max_gap_of_def u to_u32_def)
  have "is_ok (tikz_end_of_simulation \<lparr>tx_time = (\<lambda>t. decimal t @ '' ps''), tx_float = (\<lambda>_. ''1.000000''), tx_date = ''today''\<rparr>
        (\<lambda>_. []) (\<lambda>_. 0) (\<lambda>_. 0) (\<lambda>_. 0) 9 r)"
    unfolding tikz_export_outcome [OF _ _ _ _ _ _ _ _ _ s, simplified new_tikz_trace_def, simplified]
    using l by simp
  with s show ?thesis by blast
qed

end
