(* ===== verification/Xml_Tree.thy ===== *)
theory Xml_Tree
  imports Sim_Phase
begin

text \<open>
  What the XML front end (\<open>xml_if\<close>) uses of libxml2. A document is the tree of its elements; a node
  pointer is an element with the chain of its ancestors, from which \<open>xmlChildrenNode\<close>, \<open>next\<close> and \<open>parent\<close>
  are read. The functions of the library are a record of operations, an argument of the definitions,
  and the locale \<open>libxml\<close> states what the library and the XPath standard document of them, for
  documents without namespaces.
\<close>

datatype xml_node =
  Xml_Node (node_name: string) (node_props: "(string \<times> string) list") (sub_nodes: "xml_node list")

type_synonym xml_ptr = "xml_node \<times> xml_node list"

definition ptr_name :: "xml_ptr \<Rightarrow> string" where
  "ptr_name p = node_name (fst p)"

definition xml_children :: "xml_ptr \<Rightarrow> xml_ptr list" where
  "xml_children p = map (\<lambda>c. (c, fst p # snd p)) (sub_nodes (fst p))"

definition xml_parent :: "xml_ptr \<Rightarrow> xml_ptr option" where
  "xml_parent p = (case snd p of [] \<Rightarrow> None | a # as \<Rightarrow> Some (a, as))"

text \<open>
  An evaluation returns a null object or an object whose node set is null or a list of nodes.
\<close>

record xml_lib =
  xml_get_prop :: "xml_ptr \<Rightarrow> string \<Rightarrow> string option"
  xml_xpath :: "xml_node \<Rightarrow> string \<Rightarrow> xml_ptr list option option"
  xml_node_xpath :: "xml_node \<Rightarrow> xml_ptr \<Rightarrow> string \<Rightarrow> xml_ptr list option option"

definition set_nodes :: "xml_ptr list option \<Rightarrow> xml_ptr list" where
  "set_nodes s = (case s of None \<Rightarrow> [] | Some ps \<Rightarrow> ps)"

subsection \<open>Location paths\<close>

text \<open>The nodes of an absolute path, and all nodes of a document in document order.\<close>

fun path_nodes :: "string list \<Rightarrow> xml_ptr \<Rightarrow> xml_ptr list" where
  "path_nodes [] p = [p]"
| "path_nodes (n # ns) p = concat (map (path_nodes ns) (filter (\<lambda>c. ptr_name c = n) (xml_children p)))"

definition absolute_nodes :: "string list \<Rightarrow> xml_node \<Rightarrow> xml_ptr list" where
  "absolute_nodes ns d =
     (case ns of [] \<Rightarrow> [] | n # r \<Rightarrow> (if node_name d = n then path_nodes r (d, []) else []))"

fun all_nodes :: "xml_node list \<Rightarrow> xml_node \<Rightarrow> xml_ptr list" where
  "all_nodes up (Xml_Node n ps cs) =
     (Xml_Node n ps cs, up) # concat (map (all_nodes (Xml_Node n ps cs # up)) cs)"

definition named_nodes :: "string \<Rightarrow> xml_node \<Rightarrow> xml_ptr list" where
  "named_nodes n d = filter (\<lambda>p. ptr_name p = n) (all_nodes [] d)"

definition path_expr :: "string list \<Rightarrow> string" where
  "path_expr ns = concat (map (\<lambda>n. CHR ''/'' # n) ns)"

definition plain_name :: "string \<Rightarrow> bool" where
  "plain_name n = (n \<noteq> [] \<and> list_all (\<lambda>c. c \<noteq> CHR ''/'' \<and> c \<noteq> CHR ''*'') n)"

text \<open>The query of the parameters of a configuration file ignores the namespace of the elements.\<close>

definition sysconf_path :: string where
  "sysconf_path = ''/*[local-name()='' @ [CHR 0x27] @ ''simulator_input_interface'' @ [CHR 0x27] @
     '']/*[local-name()='' @ [CHR 0x27] @ ''parameter'' @ [CHR 0x27] @ '']''"

subsection \<open>The contract of the library\<close>

locale libxml =
  fixes L :: "'b xml_lib_scheme"
  assumes get_prop: "xml_get_prop L p a = map_of (node_props (fst p)) a"
    and absolute: "list_all plain_name ns \<Longrightarrow> ns \<noteq> [] \<Longrightarrow>
      \<exists>s. xml_xpath L d (path_expr ns) = Some s \<and> set_nodes s = absolute_nodes ns d"
    and local_name: "\<exists>s. xml_xpath L d sysconf_path = Some s
      \<and> set_nodes s = absolute_nodes [''simulator_input_interface'', ''parameter''] d"
    and everywhere: "plain_name n \<Longrightarrow>
      \<exists>s. xml_node_xpath L d p (''//'' @ n) = Some s \<and> set_nodes s = named_nodes n d"

text \<open>
  \<open>getNodeSet\<close> of \<open>kista_xml_utils.cpp\<close> returns null for an empty set. \<open>getNodeSet_from_context\<close>, which
  nothing calls, frees an empty set and then returns it.
\<close>

definition getNodeSet :: "('b) xml_lib_scheme \<Rightarrow> xml_node \<Rightarrow> string \<Rightarrow> xml_ptr list option" where
  "getNodeSet L d xpath =
     (case xml_xpath L d xpath of
        None \<Rightarrow> None
      | Some s \<Rightarrow> (if set_nodes s = [] then None else Some (set_nodes s)))"

definition getNodeSet_from_context ::
    "('b) xml_lib_scheme \<Rightarrow> xml_node option \<Rightarrow> string \<Rightarrow> xml_ptr list result" where
  "getNodeSet_from_context L context xpath =
     (case context of
        None \<Rightarrow> report ''Context passed to getNodeset_from_context.''
      | Some d \<Rightarrow>
          (case xml_xpath L d xpath of
             None \<Rightarrow> report ''xmlXPathEvalExpression return NULL value''
           | Some s \<Rightarrow> (if set_nodes s = [] then undef ''freed object'' else Inr (set_nodes s))))"

definition hasChild :: "xml_ptr \<Rightarrow> string \<Rightarrow> bool" where
  "hasChild p elem_name = list_ex (\<lambda>c. ptr_name c = elem_name) (xml_children p)"

definition getFirstChild :: "xml_ptr \<Rightarrow> string \<Rightarrow> xml_ptr option" where
  "getFirstChild p elem_name = find (\<lambda>c. ptr_name c = elem_name) (xml_children p)"

context libxml
begin

lemma node_set:
  "list_all plain_name ns \<Longrightarrow> ns \<noteq> [] \<Longrightarrow>
     getNodeSet L d (path_expr ns) =
       (if absolute_nodes ns d = [] then None else Some (absolute_nodes ns d))"
  using absolute [of ns d] by (auto simp: getNodeSet_def)

lemma sysconf_set:
  "getNodeSet L d sysconf_path =
     (let ps = absolute_nodes [''simulator_input_interface'', ''parameter''] d
      in if ps = [] then None else Some ps)"
  using local_name [of d] by (auto simp: getNodeSet_def)

lemma node_set_some: "getNodeSet L d e = Some ps \<Longrightarrow> ps \<noteq> []"
  by (auto simp: getNodeSet_def split: option.splits if_splits)

end

lemma hasChild_iff: "hasChild p n \<longleftrightarrow> getFirstChild p n \<noteq> None"
  by (auto simp: hasChild_def getFirstChild_def list_ex_iff find_None_iff)

lemma getFirstChild_name: "getFirstChild p n = Some c \<Longrightarrow> ptr_name c = n \<and> c \<in> set (xml_children p)"
  by (auto simp: getFirstChild_def dest: find_Some_mem)

text \<open>Every node of an absolute path is a node of the document with the last name of the path.\<close>

lemma child_in_all:
  "p \<in> set (all_nodes up t) \<Longrightarrow> c \<in> set (xml_children p) \<Longrightarrow> c \<in> set (all_nodes up t)"
proof (induction up t arbitrary: p c rule: all_nodes.induct)
  case (1 up n ps cs)
  have head: "c' \<in> set (all_nodes up' t')" if "c' = (t', up')" for c' up' t'
    using that by (cases t') simp
  from 1(2) consider "p = (Xml_Node n ps cs, up)"
    | t' where "t' \<in> set cs" "p \<in> set (all_nodes (Xml_Node n ps cs # up) t')" by auto
  then show ?case
  proof cases
    case 1
    with \<open>c \<in> set (xml_children p)\<close> obtain t' where "t' \<in> set cs" "c = (t', Xml_Node n ps cs # up)"
      by (auto simp: xml_children_def)
    with head [of c t' "Xml_Node n ps cs # up"] show ?thesis by auto
  next
    case (2 t')
    with 1(1) [OF 2 1(3)] show ?thesis by auto
  qed
qed

lemma path_in_all:
  "p \<in> set (all_nodes up t) \<Longrightarrow> q \<in> set (path_nodes ns p) \<Longrightarrow>
     q \<in> set (all_nodes up t) \<and> (ns \<noteq> [] \<longrightarrow> ptr_name q = last ns)"
proof (induction ns arbitrary: p)
  case (Cons n ns)
  then obtain c where "c \<in> set (xml_children p)" "ptr_name c = n" "q \<in> set (path_nodes ns c)" by auto
  moreover from this child_in_all Cons.prems(1) have "c \<in> set (all_nodes up t)" by blast
  ultimately show ?case using Cons.IH [of c] by (cases ns) auto
qed simp

lemma absolute_named: "q \<in> set (absolute_nodes ns d) \<Longrightarrow> q \<in> set (named_nodes (last ns) d)"
proof (cases ns)
  case (Cons n r)
  assume q: "q \<in> set (absolute_nodes ns d)"
  have root: "(d, []) \<in> set (all_nodes [] d)" by (cases d) simp
  from q Cons have "node_name d = n" "q \<in> set (path_nodes r (d, []))"
    by (auto simp: absolute_nodes_def split: if_splits)
  with path_in_all [OF root, of q r] Cons show ?thesis
    by (cases r) (auto simp: named_nodes_def ptr_name_def)
qed (simp add: absolute_nodes_def)

subsection \<open>An instance\<close>

fun split_path :: "string \<Rightarrow> string list" where
  "split_path [] = [[]]"
| "split_path (c # s) =
     (case split_path s of
        [] \<Rightarrow> [[]]
      | n # ns \<Rightarrow> (if c = CHR ''/'' then [] # n # ns else (c # n) # ns))"

definition tree_lib :: xml_lib where
  "tree_lib =
     \<lparr>xml_get_prop = \<lambda>p a. map_of (node_props (fst p)) a,
      xml_xpath = \<lambda>d e. Some (Some (if e = sysconf_path
         then absolute_nodes [''simulator_input_interface'', ''parameter''] d
         else absolute_nodes (tl (split_path e)) d)),
      xml_node_xpath = \<lambda>d p e. Some (Some (named_nodes (drop 2 e) d))\<rparr>"

lemma split_name:
  "list_all (\<lambda>c. c \<noteq> CHR ''/'' \<and> c \<noteq> CHR ''*'') n \<Longrightarrow> split_path s = m # ms \<Longrightarrow> split_path (n @ s) = (n @ m) # ms"
  by (induction n) auto

lemma split_path_expr: "list_all plain_name ns \<Longrightarrow> split_path (path_expr ns) = [] # ns"
proof (induction ns)
  case (Cons n ns)
  then have "split_path (n @ path_expr ns) = n # ns"
    using split_name [of n "path_expr ns" "[]" ns] by (simp add: plain_name_def)
  then show ?case by (simp add: path_expr_def)
qed (simp add: path_expr_def)

lemma star_not_path: "list_all plain_name ns \<Longrightarrow> CHR ''*'' \<notin> set (path_expr ns)"
  by (induction ns) (auto simp: path_expr_def plain_name_def list_all_iff)

interpretation tree_xml: libxml tree_lib
proof
  fix ns d
  assume "list_all plain_name ns" "ns \<noteq> ([] :: string list)"
  then show "\<exists>s. xml_xpath tree_lib d (path_expr ns) = Some s \<and> set_nodes s = absolute_nodes ns d"
    using star_not_path [of ns] split_path_expr [of ns]
    by (auto simp: tree_lib_def set_nodes_def sysconf_path_def)
qed (simp_all add: tree_lib_def set_nodes_def)

end
