(* ===== verification/Text_In.thy ===== *)
theory Text_In
  imports Doubles Text_Out
begin

text \<open>
  The conversions of the C library that the XML front end reads numbers with, \<open>atoi\<close> and \<open>atof\<close>: both
  skip leading white space, take the longest prefix that is a number and ignore the rest; a text that
  starts with no number gives zero. An integer that does not fit an \<open>int\<close> is undefined. A number is the
  exact rational the text denotes (rounding is not modelled, as in \<open>Doubles\<close>).
\<close>

subsection \<open>Digits\<close>

definition char_code :: "char \<Rightarrow> nat" where
  "char_code c = of_char c"

definition is_space :: "char \<Rightarrow> bool" where
  "is_space c = (char_code c = 32 \<or> 9 \<le> char_code c \<and> char_code c \<le> 13)"

definition lower :: "char \<Rightarrow> char" where
  "lower c = (if 65 \<le> char_code c \<and> char_code c \<le> 90 then char_of (char_code c + 32) else c)"

text \<open>The value of a digit in the bases 10 and 16.\<close>

definition digit_value :: "nat \<Rightarrow> char \<Rightarrow> nat option" where
  "digit_value base c =
     (let k = char_code (lower c);
          v = (if 48 \<le> k \<and> k \<le> 57 then Some (k - 48)
               else if 97 \<le> k \<and> k \<le> 102 then Some (k - 87) else None)
      in case v of Some d \<Rightarrow> (if d < base then Some d else None) | None \<Rightarrow> None)"

text \<open>The digits at the start of a text: their value, their number and what follows.\<close>

fun read_digits :: "nat \<Rightarrow> nat \<Rightarrow> nat \<Rightarrow> string \<Rightarrow> nat \<times> nat \<times> string" where
  "read_digits base v k [] = (v, k, [])"
| "read_digits base v k (c # s) =
     (case digit_value base c of
        Some d \<Rightarrow> read_digits base (v * base + d) (Suc k) s
      | None \<Rightarrow> (v, k, c # s))"

definition read_sign :: "string \<Rightarrow> bool \<times> string" where
  "read_sign s =
     (case s of
        [] \<Rightarrow> (False, [])
      | c # r \<Rightarrow> (if c = CHR ''-'' then (True, r) else if c = CHR ''+'' then (False, r) else (False, s)))"

subsection \<open>Integers\<close>

definition atoi :: "string \<Rightarrow> int result" where
  "atoi s =
     (case read_sign (dropWhile is_space s) of (neg, r) \<Rightarrow>
      let v = int (fst (read_digits 10 0 0 r));
          n = (if neg then - v else v)
      in if - (2 ^ 31) \<le> n \<and> n < 2 ^ 31 then Inr n else undef ''int out of range'')"

text \<open>The result assigned to an \<open>unsigned int\<close>.\<close>

definition atou :: "string \<Rightarrow> u32 result" where
  "atou s = rmap of_int (atoi s)"

subsection \<open>Floating point numbers\<close>

text \<open>
  A mantissa with at least one digit before or after the point. An exponent counts only when digits
  follow its letter and sign; its base is 10, or 2 for a hexadecimal number.
\<close>

definition read_mantissa :: "nat \<Rightarrow> string \<Rightarrow> (rat \<times> string) option" where
  "read_mantissa base s =
     (case read_digits base 0 0 s of (v, k, r) \<Rightarrow>
      (case r of
         [] \<Rightarrow> (if k = 0 then None else Some (of_nat v, r))
       | c # r1 \<Rightarrow>
           (if c = CHR ''.'' then
              (case read_digits base v 0 r1 of (w, j, r2) \<Rightarrow>
                 if k + j = 0 then None else Some (of_nat w / of_nat base ^ j, r2))
            else if k = 0 then None else Some (of_nat v, r))))"

definition read_exponent :: "char \<Rightarrow> rat \<Rightarrow> string \<Rightarrow> rat" where
  "read_exponent letter base s =
     (case s of
        [] \<Rightarrow> 1
      | c # r \<Rightarrow>
          (if lower c = letter then
             (case read_sign r of (neg, r1) \<Rightarrow>
              case read_digits 10 0 0 r1 of (v, k, _) \<Rightarrow>
                if k = 0 then 1 else if neg then 1 / base ^ v else base ^ v)
           else 1))"

definition starts_with :: "string \<Rightarrow> string \<Rightarrow> bool" where
  "starts_with p s = (map lower (take (length p) s) = p)"

definition read_unsigned :: "string \<Rightarrow> double" where
  "read_unsigned s =
     (if starts_with ''inf'' s then PosInf
      else if starts_with ''nan'' s then NaN
      else
        (case (if starts_with ''0x'' s then read_mantissa 16 (drop 2 s) else None) of
           Some (m, r) \<Rightarrow> Fin (m * read_exponent (CHR ''p'') 2 r)
         | None \<Rightarrow>
             (case read_mantissa 10 s of
                None \<Rightarrow> Fin 0
              | Some (m, r) \<Rightarrow> Fin (m * read_exponent (CHR ''e'') 10 r))))"

definition atof :: "string \<Rightarrow> double" where
  "atof s =
     (case read_sign (dropWhile is_space s) of (neg, r) \<Rightarrow>
        if neg then dneg (read_unsigned r) else read_unsigned r)"

subsection \<open>Lemmas\<close>

lemma digit_code: "d < 10 \<Longrightarrow> char_code (digit d) = 48 + d"
  by (simp add: char_code_def digit_def)

lemma digit_value_digit [simp]: "d < 10 \<Longrightarrow> digit_value 10 (digit d) = Some d"
  by (simp add: digit_value_def lower_def digit_code)

lemma digit_not_space: "d < 10 \<Longrightarrow> \<not> is_space (digit d)"
  by (simp add: is_space_def digit_code)

lemma digit_not_sign: "d < 10 \<Longrightarrow> digit d \<noteq> CHR ''-'' \<and> digit d \<noteq> CHR ''+''"
proof -
  assume d: "d < 10"
  have "char_code (CHR ''-'') = 45" "char_code (CHR ''+'') = 43" by (simp_all add: char_code_def)
  then show ?thesis using digit_code [OF d] by auto
qed

lemma read_digits_append:
  "read_digits 10 v k (decimal n @ s) =
     read_digits 10 (v * 10 ^ length (decimal n) + n) (k + length (decimal n)) s"
proof (induction n arbitrary: v k s rule: decimal.induct)
  case (1 n)
  show ?case
  proof (cases "n < 10")
    case True
    then show ?thesis by (simp add: decimal.simps [of n])
  next
    case False
    have "decimal n @ s = decimal (n div 10) @ digit (n mod 10) # s"
      using False by (simp add: decimal.simps [of n])
    then have "read_digits 10 v k (decimal n @ s) =
        read_digits 10 ((v * 10 ^ length (decimal (n div 10)) + n div 10) * 10 + n mod 10)
          (Suc (k + length (decimal (n div 10)))) s"
      using 1 [OF False] by simp
    moreover have "(v * 10 ^ length (decimal (n div 10)) + n div 10) * 10 + n mod 10
        = v * 10 ^ length (decimal n) + n"
      using False div_mult_mod_eq [of n 10]
      by (simp add: decimal.simps [of n] algebra_simps del: div_mult_mod_eq)
    ultimately show ?thesis using False by (simp add: decimal.simps [of n] algebra_simps)
  qed
qed

lemma decimal_head: "\<exists>d s. d < 10 \<and> decimal n = digit d # s"
proof (induction n rule: decimal.induct)
  case (1 n)
  show ?case
  proof (cases "n < 10")
    case True
    then show ?thesis by (simp add: decimal.simps [of n]) blast
  next
    case False
    with 1 obtain d s where "d < 10" "decimal (n div 10) = digit d # s" by blast
    with False show ?thesis by (simp add: decimal.simps [of n]) blast
  qed
qed

lemma decimal_prefix:
  "dropWhile is_space (decimal n @ s) = decimal n @ s"
  "read_sign (decimal n @ s) = (False, decimal n @ s)"
  using decimal_head [of n] digit_not_space digit_not_sign by (auto simp: read_sign_def)

text \<open>Reading a numeral that the library wrote gives the number back.\<close>

lemma atoi_decimal: "n < 2 ^ 31 \<Longrightarrow> atoi (decimal n) = Inr (int n)"
  using decimal_prefix [of n "[]"] read_digits_append [of 0 0 n "[]"]
  by (simp add: atoi_def)

lemma atou_decimal: "n < 2 ^ 31 \<Longrightarrow> atou (decimal n) = Inr (of_nat n)"
  by (simp add: atou_def atoi_decimal)

lemma decimal_chars: "c \<in> set (decimal n) \<Longrightarrow> \<exists>d < 10. c = digit d"
proof (induction n rule: decimal.induct)
  case (1 n)
  then show ?case
    by (cases "n < 10") (auto simp: decimal.simps [of n] intro: exI [of _ n] exI [of _ "n mod 10"])
qed

lemma digit_not_letter: "d < 10 \<Longrightarrow> char_code (lower (digit d)) < 58"
  by (simp add: lower_def digit_code)

lemma decimal_no_prefix:
  assumes "c \<in> set p" "58 \<le> char_code c"
  shows "\<not> starts_with p (decimal n)"
proof
  assume "starts_with p (decimal n)"
  then have "map lower (take (length p) (decimal n)) = p" by (simp add: starts_with_def)
  then have "c \<in> set (map lower (take (length p) (decimal n)))" using assms(1) by simp
  then obtain b where b: "b \<in> set (decimal n)" "c = lower b" by (auto dest: in_set_takeD)
  from decimal_chars [OF b(1)] obtain d where "d < 10" "b = digit d" by blast
  with b(2) digit_not_letter [of d] assms(2) show False by simp
qed

lemma atof_decimal: "atof (decimal n) = Fin (of_nat n)"
proof -
  have "\<not> starts_with ''inf'' (decimal n)" "\<not> starts_with ''nan'' (decimal n)"
    "\<not> starts_with ''0x'' (decimal n)"
    by (rule decimal_no_prefix [of "CHR ''i''"] decimal_no_prefix [of "CHR ''n''"]
        decimal_no_prefix [of "CHR ''x''"], simp_all add: char_code_def)+
  then show ?thesis using decimal_prefix [of n "[]"] read_digits_append [of 0 0 n "[]"]
    by (simp add: atof_def read_unsigned_def read_mantissa_def read_exponent_def)
qed

end
