(* ===== verification/Xml_Values.thy ===== *)
theory Xml_Values
  imports Xml_Tree Text_In
begin

text \<open>
  \<open>xml_if/kista_xml_utils.cpp\<close> and \<open>xml_if/read_sysconf_parameters.cpp\<close>: values of properties, which may
  be references to global parameters, unit conversion, times, numbers and options, and the
  parameters that the system description and the configuration file define.

  \<open>xml_front\<close> is what these functions share: the functions of libxml2, the document, the table of
  global parameters and the verbosity. Appending a null string to a \<open>std::string\<close> is undefined; the
  messages of a verbose run are left out, but the null strings they may append are not.
\<close>

record xml_front = xml_lib +
  xml_doc :: xml_node
  global_parameters :: global_parameters_t
  global_kista_xml_verbosity :: bool

definition node_set_of :: "xml_front \<Rightarrow> string \<Rightarrow> xml_ptr list option" where
  "node_set_of x xpath = getNodeSet x (xml_doc x) xpath"

text \<open>An error message with the text of a pointer in it.\<close>

definition report_with :: "string \<Rightarrow> string option \<Rightarrow> string \<Rightarrow> 'a result" where
  "report_with pre s post = (case s of None \<Rightarrow> undef ''null string'' | Some t \<Rightarrow> report (pre @ t @ post))"

text \<open>The use of a pointer in the messages of a verbose run.\<close>

definition shown :: "xml_front \<Rightarrow> string option \<Rightarrow> unit result" where
  "shown x s = (if global_kista_xml_verbosity x \<and> s = None then undef ''null string'' else Inr ())"

definition used :: "string option \<Rightarrow> string result" where
  "used s = (case s of None \<Rightarrow> undef ''null string'' | Some t \<Rightarrow> Inr t)"

subsection \<open>Values of properties\<close>

definition is_reference :: "string \<Rightarrow> bool" where
  "is_reference s = (case s of [] \<Rightarrow> False | c # _ \<Rightarrow> c = CHR ''_'')"

definition scalar_parameter :: "xml_front \<Rightarrow> string \<Rightarrow> string result" where
  "scalar_parameter x n =
     (case global_parameters x n of
        None \<Rightarrow> report (''Parameter '' @ n @ '' was not found in the parameter list.'')
      | Some None \<Rightarrow> undef ''null parameter''
      | Some (Some vs) \<Rightarrow> (case vs of [v] \<Rightarrow> Inr v | _ \<Rightarrow> report ''''))"

definition xmlGetValueGen :: "xml_front \<Rightarrow> xml_ptr \<Rightarrow> string \<Rightarrow> string option result" where
  "xmlGetValueGen x p prop =
     (case xml_get_prop x p prop of
        None \<Rightarrow> Inr None
      | Some v \<Rightarrow> (if is_reference v then rmap Some (scalar_parameter x (tl v)) else Inr (Some v)))"

text \<open>The values of the \<open>item\<close> children, each of which must have one.\<close>

fun item_values :: "xml_front \<Rightarrow> string \<Rightarrow> xml_ptr list \<Rightarrow> string list result" where
  "item_values x msg [] = Inr []"
| "item_values x msg (c # cs) =
     (if ptr_name c = ''item'' then
        rbind (xmlGetValueGen x c ''value'') (\<lambda>v.
        case v of
          None \<Rightarrow> report msg
        | Some s \<Rightarrow> rmap (\<lambda>vs. s # vs) (item_values x msg cs))
      else item_values x msg cs)"

definition xmlGetVectorValueGen :: "xml_front \<Rightarrow> xml_ptr \<Rightarrow> string \<Rightarrow> param_value_t option result" where
  "xmlGetVectorValueGen x p prop =
     (let hanging = rmap Some (item_values x (''No value found in an item of the vector value associated to a ''
            @ ptr_name p @ '' node.'') (xml_children p))
      in case xml_get_prop x p prop of
           None \<Rightarrow> hanging
         | Some v \<Rightarrow>
             (if is_reference v then
                (case global_parameters x (tl v) of Some vs \<Rightarrow> Inr vs | None \<Rightarrow> hanging)
              else report (''Property '' @ prop @ '' of node '' @ ptr_name p @ '' is expected to be a vector value.'')))"

subsection \<open>Units\<close>

definition unit_letter :: "string \<Rightarrow> char option" where
  "unit_letter s = (case s of [] \<Rightarrow> None | c # _ \<Rightarrow> Some c)"

definition src_factor :: "char option \<Rightarrow> rat" where
  "src_factor c =
     (if c = Some (CHR ''T'') then 10 ^ 12 else if c = Some (CHR ''G'') then 10 ^ 9
      else if c = Some (CHR ''M'') then 10 ^ 6
      else if c = Some (CHR ''K'') \<or> c = Some (CHR ''k'') then 10 ^ 3
      else if c = Some (CHR ''m'') then 1 / 10 ^ 3 else if c = Some (CHR ''u'') then 1 / 10 ^ 6
      else if c = Some (CHR ''n'') then 1 / 10 ^ 9 else if c = Some (CHR ''p'') then 1 / 10 ^ 12
      else if c = Some (CHR ''f'') then 1 / 10 ^ 15 else 1)"

definition tgt_factor :: "char option \<Rightarrow> rat" where
  "tgt_factor c =
     (if c = Some (CHR ''T'') then 1 / 10 ^ 12 else if c = Some (CHR ''G'') then 1 / 10 ^ 9
      else if c = Some (CHR ''M'') then 1 / 10 ^ 6 else if c = Some (CHR ''K'') then 1 / 10 ^ 3
      else if c = Some (CHR ''m'') then 10 ^ 3 else if c = Some (CHR ''u'') then 10 ^ 6
      else if c = Some (CHR ''n'') then 10 ^ 9 else if c = Some (CHR ''p'') then 10 ^ 12
      else if c = Some (CHR ''f'') then 10 ^ 15 else 1)"

definition conv_value_by_unit :: "double \<Rightarrow> string option \<Rightarrow> string option \<Rightarrow> double" where
  "conv_value_by_unit value src_unit tgt_unit =
     (let r = dmul value (Fin (case src_unit of None \<Rightarrow> 1 | Some u \<Rightarrow> src_factor (unit_letter u)))
      in case tgt_unit of
           None \<Rightarrow> r
         | Some u \<Rightarrow> dmul (Fin (tgt_factor (unit_letter u))) r)"

text \<open>\<open>sc_time(v,SC_SEC)\<close>.\<close>

definition sc_time_sec :: "double \<Rightarrow> sc_time result" where
  "sc_time_sec v = sc_times v (10 ^ 12)"

subsection \<open>Times, numbers and options\<close>

definition readTime :: "xml_front \<Rightarrow> xml_ptr \<Rightarrow> sc_time result" where
  "readTime x cur =
     rbind (xmlGetValueGen x cur ''value'') (\<lambda>v.
     case v of
       None \<Rightarrow> report ''Error reading time value''
     | Some s \<Rightarrow>
         rbind (xmlGetValueGen x cur ''unit'') (\<lambda>u.
           sc_time_sec (case u of None \<Rightarrow> atof s | Some _ \<Rightarrow> conv_value_by_unit (atof s) u None)))"

text \<open>The integer instance and the floating point one.\<close>

definition readNumber :: "xml_front \<Rightarrow> xml_ptr \<Rightarrow> int result" where
  "readNumber x cur =
     rbind (xmlGetValueGen x cur ''value'') (\<lambda>v.
       case v of None \<Rightarrow> report ''Error reading value'' | Some s \<Rightarrow> atoi s)"

definition readRealNumber :: "xml_front \<Rightarrow> xml_ptr \<Rightarrow> double result" where
  "readRealNumber x cur =
     rbind (xmlGetValueGen x cur ''value'') (\<lambda>v.
       case v of None \<Rightarrow> report ''Error reading real value'' | Some s \<Rightarrow> Inr (atof s))"

definition configured_value :: "xml_front \<Rightarrow> string \<Rightarrow> string \<Rightarrow> string option result" where
  "configured_value x path description =
     (case node_set_of x path of
        None \<Rightarrow> Inr None
      | Some ps \<Rightarrow>
          (case ps of
             [] \<Rightarrow> report (''Unexpected situation on the configuration of '' @ description)
           | p # _ \<Rightarrow>
               rbind (xmlGetValueGen x p ''value'') (\<lambda>v.
                 case v of
                   None \<Rightarrow> report (''Error reading the configuration of'' @ description)
                 | Some s \<Rightarrow> Inr (Some s))))"

definition get_configured_boolean_option :: "xml_front \<Rightarrow> string \<Rightarrow> string \<Rightarrow> bool \<Rightarrow> bool result" where
  "get_configured_boolean_option x path description default_value =
     rmap (\<lambda>v. case v of None \<Rightarrow> default_value | Some s \<Rightarrow> s = ''true'')
       (configured_value x path description)"

text \<open>A missing option with a null default appends the default to a message, in any run.\<close>

definition get_configured_string_option ::
    "xml_front \<Rightarrow> string \<Rightarrow> string \<Rightarrow> string option \<Rightarrow> string option result" where
  "get_configured_string_option x path description default_value =
     rbind (configured_value x path description) (\<lambda>v.
       case v of None \<Rightarrow> rmap Some (used default_value) | Some s \<Rightarrow> Inr (Some s))"

subsection \<open>Parameters\<close>

definition define_param :: "string \<Rightarrow> param_value_t \<Rightarrow> xml_front \<Rightarrow> xml_front" where
  "define_param n vs x = x\<lparr>global_parameters := (global_parameters x)(n \<mapsto> Some vs)\<rparr>"

definition read_parameter :: "xml_ptr \<Rightarrow> xml_front \<Rightarrow> xml_front result" where
  "read_parameter p x =
     (case xml_get_prop x p ''name'' of
        None \<Rightarrow> report ''parameter configuration does not have parameter name.''
      | Some n \<Rightarrow>
          (case xml_get_prop x p ''value'' of
             Some v \<Rightarrow> Inr (define_param n [v] x)
           | None \<Rightarrow>
               (if hasChild p ''item'' then
                  rmap (\<lambda>vs. define_param n vs x)
                    (item_values x (''In the configuration of parameter '' @ n
                       @ ''. No value found in an item of the vector value.'') (xml_children p))
                else Inr x)))"

fun read_parameters :: "xml_ptr list \<Rightarrow> xml_front \<Rightarrow> xml_front result" where
  "read_parameters [] x = Inr x"
| "read_parameters (p # ps) x = rbind (read_parameter p x) (read_parameters ps)"

text \<open>\<open>d\<close> is the document the parameters are read from; values refer to the global table.\<close>

definition read_sysconf_parameters :: "xml_node \<Rightarrow> string \<Rightarrow> xml_front \<Rightarrow> xml_front result" where
  "read_sysconf_parameters d path x =
     (case getNodeSet x d path of None \<Rightarrow> Inr x | Some ps \<Rightarrow> read_parameters ps x)"

text \<open>The overload for a file: \<open>d\<close> is what parsing the file gives.\<close>

definition read_sysconf_file :: "string \<Rightarrow> xml_node option \<Rightarrow> xml_front \<Rightarrow> xml_front result" where
  "read_sysconf_file file d x =
     (case d of
        None \<Rightarrow> report (''While parsing the System Configuration file (which defines system parameters): '' @ file)
      | Some r \<Rightarrow> read_sysconf_parameters r sysconf_path x)"

text \<open>The parameters of a run: those of the description, then those of the file when one is given.\<close>

definition read_all_parameters :: "(string \<times> xml_node option) option \<Rightarrow> xml_front \<Rightarrow> xml_front result" where
  "read_all_parameters file x =
     rbind (read_sysconf_parameters (xml_doc x) ''/system/parameters/parameter'' x) (\<lambda>x1.
       case file of None \<Rightarrow> Inr x1 | Some (f, d) \<Rightarrow> read_sysconf_file f d x1)"

end
