(* ===== verification/Xml_Command.thy ===== *)
theory Xml_Command
  imports Xml_Values
begin

text \<open>
  \<open>xml_if/parse_kista_xml_command.cpp\<close>, the command line of the front end, and
  \<open>xml_if/kista_xml_configuration.cpp\<close>, the options of a run. The names read are character buffers of
  \<open>PATH_NAME_SIZE\<close> bytes; a buffer is the text it holds up to its terminating zero.
\<close>

definition PATH_NAME_SIZE :: nat where
  "PATH_NAME_SIZE = 500"

record command_paths =
  system_xml_file_path_name :: string
  sc_path_name :: string
  sm_path_name :: string
  xsd_path_name :: string
  smd_path_name :: string

text \<open>The buffers of \<open>sc_main\<close>; the first is not initialised.\<close>

definition initial_paths :: "string \<Rightarrow> command_paths" where
  "initial_paths raw =
     \<lparr>system_xml_file_path_name = raw, sc_path_name = '''', sm_path_name = ''output.xml'',
      xsd_path_name = '''', smd_path_name = ''''\<rparr>"

definition report_command_error :: "'a result" where
  "report_command_error = report ''In arguments passed to kista-xml command.''"

definition check_length_argument :: "string \<Rightarrow> unit result" where
  "check_length_argument a =
     check (\<not> length a + 1 > PATH_NAME_SIZE) (''Argument '' @ a @ '' is too long (current limit 500characteres).'')"

text \<open>\<open>strcpy\<close> into a buffer that may be too small.\<close>

definition copy_name :: "string \<Rightarrow> string result" where
  "copy_name s = (if length s < PATH_NAME_SIZE then Inr s else undef ''buffer overrun'')"

text \<open>\<open>strncasecmp\<close> over the size of the option, which must be that of the name.\<close>

definition is_option :: "string \<Rightarrow> string \<Rightarrow> bool" where
  "is_option name opt = (length opt = length name \<and> map lower opt = map lower name)"

definition name_checked :: "string \<Rightarrow> string \<Rightarrow> string result" where
  "name_checked v what =
     (if length v > PATH_NAME_SIZE then report (what @ ''has a name too big'') else copy_name v)"

definition read_option :: "string \<Rightarrow> string \<Rightarrow> command_paths \<Rightarrow> command_paths result" where
  "read_option opt v c =
     (if is_option ''xml_system_configuration'' opt then
        rmap (\<lambda>n. c\<lparr>sc_path_name := n\<rparr>) (name_checked v ''The system configuration file'')
      else if is_option ''xml_system_metrics'' opt then
        rmap (\<lambda>n. c\<lparr>sm_path_name := n\<rparr>) (name_checked v ''The system metrics file'')
      else if is_option ''reference_xsd'' opt then
        rmap (\<lambda>n. c\<lparr>xsd_path_name := n\<rparr>) (name_checked v ''The system metrics file'')
      else if is_option ''xml_system_metrics_definition'' opt then
        rmap (\<lambda>n. c\<lparr>smd_path_name := n\<rparr>) (name_checked v ''The system metrics definition file'')
      else report_command_error)"

text \<open>
  One argument; the flag tells that the system file was given. The option ends at the first \<open>=\<close> of the
  argument, and must not be empty.
\<close>

definition read_argument :: "string \<Rightarrow> command_paths \<times> bool \<Rightarrow> (command_paths \<times> bool) result" where
  "read_argument a cf =
     rbind (check_length_argument a) (\<lambda>_.
       if take 2 a = ''--'' then
         (if CHR ''='' \<notin> set a \<or> length (takeWhile (\<lambda>c. c \<noteq> CHR ''='') a) \<le> 2 then report_command_error
          else rmap (\<lambda>c. (c, snd cf))
            (read_option (drop 2 (takeWhile (\<lambda>c. c \<noteq> CHR ''='') a))
               (tl (dropWhile (\<lambda>c. c \<noteq> CHR ''='') a)) (fst cf)))
       else if length a < 1 then report_command_error
       else rmap (\<lambda>n. ((fst cf)\<lparr>system_xml_file_path_name := n\<rparr>, True)) (copy_name a))"

fun read_arguments :: "string list \<Rightarrow> command_paths \<times> bool \<Rightarrow> (command_paths \<times> bool) result" where
  "read_arguments [] cf = Inr cf"
| "read_arguments (a # as) cf = rbind (read_argument a cf) (read_arguments as)"

text \<open>\<open>argv\<close> without the name of the program.\<close>

definition parse_command_line :: "string list \<Rightarrow> command_paths \<Rightarrow> command_paths result" where
  "parse_command_line argv c =
     rbind (if length argv + 1 \<le> 1 then report_command_error else Inr ()) (\<lambda>_.
     rbind (read_arguments argv (c, False)) (\<lambda>(c1, flag).
       if flag then Inr c1 else report_command_error))"

subsection \<open>Options of a run\<close>

text \<open>
  None of the functions below that look an option up has a return statement: using what they return is
  undefined, after the errors of the lookup.
\<close>

definition no_return :: "'a result \<Rightarrow> 'b result" where
  "no_return r = rbind r (\<lambda>_. undef ''missing return value'')"

definition get_configured_kista_xml_verbosity :: "xml_front \<Rightarrow> bool result" where
  "get_configured_kista_xml_verbosity x = no_return (get_configured_boolean_option x
     ''/system/kista_configuration/xml_front_end_verbose'' ''verbosity of KisTA XML front-end'' False)"

definition get_configured_kista_verbosity :: "xml_front \<Rightarrow> bool result" where
  "get_configured_kista_verbosity x = no_return (get_configured_boolean_option x
     ''/system/kista_configuration/verbose'' ''verbosity of KisTA library'' False)"

definition get_configured_export_sketch :: "xml_front \<Rightarrow> bool result" where
  "get_configured_export_sketch x = no_return (get_configured_boolean_option x
     ''/system/kista_configuration/export_sketch'' ''export sketch enabled'' False)"

definition get_configured_sketch_file_name :: "xml_front \<Rightarrow> string option result" where
  "get_configured_sketch_file_name x = no_return (get_configured_string_option x
     ''/system/kista_configuration/export_sketch/file_name'' ''sketch file name'' (Some ''system_sketch''))"

definition get_configured_sketch_scale :: "xml_front \<Rightarrow> string option result" where
  "get_configured_sketch_scale x = no_return (get_configured_string_option x
     ''/system/kista_configuration/export_sketch/set_scale'' ''sketch scale'' (Some ''1.0''))"

definition get_configured_functional_validation :: "xml_front \<Rightarrow> bool result" where
  "get_configured_functional_validation x = no_return (get_configured_boolean_option x
     ''/system/kista_configuration/functional_validation'' ''functional validation enabled'' False)"

definition get_configured_error_fatality_for_exploration :: "xml_front \<Rightarrow> bool result" where
  "get_configured_error_fatality_for_exploration x = no_return (get_configured_boolean_option x
     ''/system/kista_configuration/error_fatality_for_exploration'' ''error fatality for exploration'' False)"

definition get_configured_energy_power_analysis :: "xml_front \<Rightarrow> bool result" where
  "get_configured_energy_power_analysis x = no_return (get_configured_boolean_option x
     ''/system/kista_configuration/analysis/energy_power'' ''energy power analysis enabled'' False)"

text \<open>The highlights of a sketch differ in the element and the description only.\<close>

definition get_configured_sketch_flag :: "string \<Rightarrow> string \<Rightarrow> xml_front \<Rightarrow> bool result" where
  "get_configured_sketch_flag element description x = no_return (get_configured_boolean_option x
     (''/system/kista_configuration/export_sketch/'' @ element) description False)"

text \<open>A configured time: whether there is one, and the time.\<close>

definition configured_time :: "xml_front \<Rightarrow> string \<Rightarrow> string \<Rightarrow> sc_time \<Rightarrow> (bool \<times> sc_time) result" where
  "configured_time x path msg t =
     (case node_set_of x path of
        None \<Rightarrow> Inr (False, t)
      | Some ps \<Rightarrow> (case ps of [] \<Rightarrow> report msg | p # _ \<Rightarrow> rmap (Pair True) (readTime x p)))"

definition get_configured_sim_time :: "xml_front \<Rightarrow> sc_time \<Rightarrow> (bool \<times> sc_time) result" where
  "get_configured_sim_time x t = configured_time x ''/system/kista_configuration/simulation_time''
     ''Unexpected situation on simulation time configuration.'' t"

definition get_configured_global_power_averaging_time :: "xml_front \<Rightarrow> sc_time \<Rightarrow> (bool \<times> sc_time) result" where
  "get_configured_global_power_averaging_time x t =
     configured_time x ''/system/kista_configuration/analysis/energy_power/power_averaging_time''
       ''Unexpected situation on configuration of averaging time for power measurement.'' t"

subsection \<open>Properties of the command line\<close>

datatype command_option = Configuration | Metrics | Reference_Xsd | Metrics_Definition

datatype command_arg = System_File string | Path_Option command_option string

fun option_name :: "command_option \<Rightarrow> string" where
  "option_name Configuration = ''xml_system_configuration''"
| "option_name Metrics = ''xml_system_metrics''"
| "option_name Reference_Xsd = ''reference_xsd''"
| "option_name Metrics_Definition = ''xml_system_metrics_definition''"

fun arg_text :: "command_arg \<Rightarrow> string" where
  "arg_text (System_File f) = f"
| "arg_text (Path_Option k v) = ''--'' @ option_name k @ ''='' @ v"

fun apply_arg :: "command_arg \<Rightarrow> command_paths \<Rightarrow> command_paths" where
  "apply_arg (System_File f) c = c\<lparr>system_xml_file_path_name := f\<rparr>"
| "apply_arg (Path_Option Configuration v) c = c\<lparr>sc_path_name := v\<rparr>"
| "apply_arg (Path_Option Metrics v) c = c\<lparr>sm_path_name := v\<rparr>"
| "apply_arg (Path_Option Reference_Xsd v) c = c\<lparr>xsd_path_name := v\<rparr>"
| "apply_arg (Path_Option Metrics_Definition v) c = c\<lparr>smd_path_name := v\<rparr>"

definition is_system_file :: "command_arg \<Rightarrow> bool" where
  "is_system_file a = (case a of System_File _ \<Rightarrow> True | _ \<Rightarrow> False)"

definition arg_ok :: "command_arg \<Rightarrow> bool" where
  "arg_ok a = (length (arg_text a) < PATH_NAME_SIZE
     \<and> (is_system_file a \<longrightarrow> arg_text a \<noteq> [] \<and> take 2 (arg_text a) \<noteq> ''--''))"

lemma option_split:
  "takeWhile (\<lambda>c. c \<noteq> CHR ''='') (arg_text (Path_Option k v)) = ''--'' @ option_name k"
  "dropWhile (\<lambda>c. c \<noteq> CHR ''='') (arg_text (Path_Option k v)) = CHR ''='' # v"
  by (cases k; simp)+

lemma is_option_name: "is_option (option_name k) (option_name j) \<longleftrightarrow> k = j"
  by (cases k; cases j) (simp_all add: is_option_def lower_def char_code_def)

lemma read_option_name:
  "length v < PATH_NAME_SIZE \<Longrightarrow> read_option (option_name k) v c = Inr (apply_arg (Path_Option k v) c)"
  using is_option_name [of Configuration k] is_option_name [of Metrics k]
    is_option_name [of Reference_Xsd k] is_option_name [of Metrics_Definition k]
  by (cases k) (simp_all add: read_option_def name_checked_def copy_name_def)

lemma read_argument_ok:
  "arg_ok a \<Longrightarrow> read_argument (arg_text a) cf = Inr (apply_arg a (fst cf), is_system_file a \<or> snd cf)"
proof (cases a)
  case (System_File f)
  moreover assume "arg_ok a"
  ultimately show ?thesis
    by (simp add: read_argument_def check_length_argument_def rbind_check arg_ok_def is_system_file_def copy_name_def)
next
  case (Path_Option k v)
  moreover assume ok: "arg_ok a"
  moreover have "option_name k \<noteq> []" by (cases k) simp_all
  moreover have "length v < PATH_NAME_SIZE" using ok Path_Option by (simp add: arg_ok_def)
  ultimately show ?thesis
    using option_split [of k v] read_option_name [of v k "fst cf"]
    by (simp add: read_argument_def check_length_argument_def rbind_check arg_ok_def is_system_file_def)
qed

lemma read_arguments_ok:
  "list_all arg_ok as \<Longrightarrow>
     read_arguments (map arg_text as) cf = Inr (fold apply_arg as (fst cf), list_ex is_system_file as \<or> snd cf)"
  by (induction as arbitrary: cf) (auto simp: read_argument_ok)

text \<open>
  C26: Parsing the rendering of a command, with its system file and any options in any order, gives exactly
  the names of the command, the last one where one is repeated, and the defaults of the others.\<close>
theorem command_roundtrip:
  assumes "list_all arg_ok as" "list_ex is_system_file as"
  shows "parse_command_line (map arg_text as) c = Inr (fold apply_arg as c)"
proof -
  have "as \<noteq> []" using assms(2) by auto
  then show ?thesis using read_arguments_ok [OF assms(1), of "(c, False)"] assms(2)
    by (simp add: parse_command_line_def)
qed

theorem command_roundtrip_witness:
  "parse_command_line [''--xml_system_metrics=out.xml'', ''system.xml'', ''--xml_system_configuration=params.xml'']
     (initial_paths '''') =
   Inr \<lparr>system_xml_file_path_name = ''system.xml'', sc_path_name = ''params.xml'', sm_path_name = ''out.xml'',
        xsd_path_name = '''', smd_path_name = ''''\<rparr>"
  using command_roundtrip [of "[Path_Option Metrics ''out.xml'', System_File ''system.xml'',
      Path_Option Configuration ''params.xml'']" "initial_paths ''''"]
  by (simp add: arg_ok_def is_system_file_def PATH_NAME_SIZE_def initial_paths_def)

text \<open>The lengths of the names a command leaves in the buffers, whatever its arguments.\<close>

definition paths_fit :: "command_paths \<Rightarrow> bool" where
  "paths_fit c = list_all (\<lambda>s. length s < PATH_NAME_SIZE)
     [system_xml_file_path_name c, sc_path_name c, sm_path_name c, xsd_path_name c, smd_path_name c]"

lemma name_checked_short: "length v < PATH_NAME_SIZE \<Longrightarrow> name_checked v w = Inr v"
  by (simp add: name_checked_def copy_name_def)

lemma read_option_safe:
  "length v < PATH_NAME_SIZE \<Longrightarrow> paths_fit c \<Longrightarrow>
     (case read_option opt v c of Inr c' \<Rightarrow> paths_fit c' | Inl f \<Rightarrow> \<exists>m. f = Report_Error m)"
  by (simp add: read_option_def name_checked_short paths_fit_def report_command_error_def report_def)

lemma read_argument_safe:
  assumes "paths_fit (fst cf)"
  shows "case read_argument a cf of Inr cf' \<Rightarrow> paths_fit (fst cf') | Inl f \<Rightarrow> \<exists>m. f = Report_Error m"
proof (cases "length a < PATH_NAME_SIZE")
  case True
  let ?v = "tl (dropWhile (\<lambda>c. c \<noteq> CHR ''='') a)"
  let ?o = "drop 2 (takeWhile (\<lambda>c. c \<noteq> CHR ''='') a)"
  have "length ?v < PATH_NAME_SIZE"
    using True length_dropWhile_le [of "\<lambda>c. c \<noteq> CHR ''=''" a] by simp
  from read_option_safe [OF this assms, of ?o] show ?thesis using True assms
    by (cases "read_option ?o ?v (fst cf)")
      (auto simp: read_argument_def check_length_argument_def rbind_check report_command_error_def report_def
        copy_name_def paths_fit_def)
qed (simp add: read_argument_def check_length_argument_def rbind_check report_def)

lemma read_arguments_safe:
  "paths_fit (fst cf) \<Longrightarrow>
     (case read_arguments as cf of Inr cf' \<Rightarrow> paths_fit (fst cf') | Inl f \<Rightarrow> \<exists>m. f = Report_Error m)"
proof (induction as arbitrary: cf)
  case (Cons a as)
  then show ?case using read_argument_safe [OF Cons.prems, of a]
    by (cases "read_argument a cf") auto
qed simp

text \<open>
  No command line overruns a buffer: whatever the arguments, parsing either reports an error or leaves
  in each of the five buffers a name that fits with its terminating zero.\<close>
theorem command_names_fit:
  assumes "paths_fit c"
  shows "case parse_command_line argv c of Inr c' \<Rightarrow> paths_fit c' | Inl f \<Rightarrow> \<exists>m. f = Report_Error m"
  using read_arguments_safe [of "(c, False)" argv] assms
  by (cases "read_arguments argv (c, False)")
    (auto simp: parse_command_line_def report_command_error_def report_def)

theorem command_names_fit_witness:
  "case parse_command_line [''--reference_xsd='' @ replicate 490 CHR ''x''] (initial_paths '''') of
     Inr c' \<Rightarrow> paths_fit c' | Inl f \<Rightarrow> \<exists>m. f = Report_Error m"
  by (rule command_names_fit) (simp add: paths_fit_def initial_paths_def PATH_NAME_SIZE_def)

end
