(* ===== verification/Xml_Software.thy ===== *)
theory Xml_Software
  imports Xml_Values Scheduler Network_Interface "HOL-Library.Char_ord" "HOL-Library.List_Lexorder"
begin

text \<open>
  \<open>xml_if/create_sw_platform.cpp\<close>, \<open>xml_if/create_platform_mapping.cpp\<close> and
  \<open>xml_if/create_app_to_platform_mapping.cpp\<close>: the schedulers of a system description, their mapping to
  processing elements and the allocation of tasks to them, by the operations of the components.

  The kernel names a module that is created with a name, or with none: \<open>kn\<close> gives the name of the \<open>j\<close>th.
  \<open>raw\<close> is the storage of the \<open>j\<close>th object, and \<open>st\<close> the store of the tasks.
\<close>

definition N_hyperperiods_for_sim_time :: u32 where
  "N_hyperperiods_for_sim_time = 1000000000"

subsection \<open>The schedule and the policy of a scheduler\<close>

text \<open>A parameter that was declared with a null vector is dereferenced.\<close>

definition getStaticSchedule :: "xml_front \<Rightarrow> xml_ptr \<Rightarrow> string list result" where
  "getStaticSchedule x cur =
     rbind (xmlGetVectorValueGen x cur ''value'') (\<lambda>v.
       case v of None \<Rightarrow> undef ''null parameter'' | Some vs \<Rightarrow> Inr vs)"

definition hasStaticScheduling :: "xml_ptr \<Rightarrow> bool" where
  "hasStaticScheduling cur = hasChild cur ''static_scheduling''"

definition getTaskScheduler :: "xml_ptr \<Rightarrow> xml_ptr option" where
  "getTaskScheduler cur = getFirstChild cur ''task_scheduler''"

definition hasTaskScheduler :: "xml_ptr \<Rightarrow> bool" where
  "hasTaskScheduler cur = hasChild cur ''task_scheduler''"

definition getCommScheduler :: "xml_ptr \<Rightarrow> xml_ptr option" where
  "getCommScheduler cur = getFirstChild cur ''comm_scheduler''"

definition hasCommScheduler :: "xml_ptr \<Rightarrow> bool" where
  "hasCommScheduler cur = hasChild cur ''comm_scheduler''"

definition getStaticSchedulingNode :: "xml_ptr \<Rightarrow> xml_ptr result" where
  "getStaticSchedulingNode cur =
     (case getFirstChild cur ''static_scheduling'' of
        Some c \<Rightarrow> Inr c | None \<Rightarrow> report ''No Static Scheduling found in the RTOS instance.'')"

definition getSchedulerPolicyNode :: "xml_ptr \<Rightarrow> xml_ptr result" where
  "getSchedulerPolicyNode cur =
     (case getFirstChild cur ''scheduler_policy'' of
        Some c \<Rightarrow> Inr c | None \<Rightarrow> report ''No Scheduler Policy for RTOS instance.'')"

definition getSchedulerTriggeringPolicy ::
    "xml_front \<Rightarrow> xml_ptr \<Rightarrow> scheduler_triggering_policy_t result" where
  "getSchedulerTriggeringPolicy x cur =
     rbind (xmlGetValueGen x cur ''triggering'') (\<lambda>v.
     case v of
       None \<Rightarrow> Inr NON_PREEMPTIVE
     | Some s \<Rightarrow>
         (if s = ''non_preemptive'' then Inr NON_PREEMPTIVE
          else if s = ''cooperative'' then Inr COOPERATIVE
          else if s = ''preemptive'' then Inr PREEMPTIVE
          else report (''Unknown '' @ s @ '' triggering policy configured for scheduler.'')))"

definition getSchedulerPolicy :: "xml_front \<Rightarrow> xml_ptr \<Rightarrow> scheduler_policy_t result" where
  "getSchedulerPolicy x cur =
     rmap (\<lambda>v. case v of
         None \<Rightarrow> STATIC_SCHEDULING
       | Some s \<Rightarrow>
           (if s = ''static_scheduling'' then STATIC_SCHEDULING
            else if s = ''random_scheduling'' then RANDOM_SCHEDULING
            else if s = ''pseudorandom_scheduling'' then PSEUDO_RANDOM_SCHEDULING
            else if s = ''cycle_executive'' then CYCLE_EXECUTIVE
            else if s = ''static_priorities'' then STATIC_PRIORITIES
            else if s = ''dynamic_priorities'' then DYNAMIC_PRIORITIES
            else if s = ''RMS'' then SHORTCUT_RMS
            else if s = ''EDF'' then SHORTCUT_EDF
            else USER_SCHEDULER_POLICY))
       (xmlGetValueGen x cur ''policy'')"

definition TimeSliceEnabled :: "xml_front \<Rightarrow> xml_ptr \<Rightarrow> bool result" where
  "TimeSliceEnabled x cur = rmap (\<lambda>v. v = Some ''yes'') (xmlGetValueGen x cur ''time_slice'')"

text \<open>The value of the last \<open>dispatching\<close> child that has one, never taken as a reference.\<close>

definition getDynamicPrioritiesDispatchingPolicy ::
    "xml_front \<Rightarrow> xml_ptr \<Rightarrow> dynamic_priorities_policy_t result" where
  "getDynamicPrioritiesDispatchingPolicy x cur =
     (let values = map (\<lambda>c. xml_get_prop x c ''value'')
            (filter (\<lambda>c. ptr_name c = ''dispatching'') (xml_children cur));
          dispatching = fold (\<lambda>v d. if v = None then d else v) values None
      in case dispatching of
           None \<Rightarrow> report ''No dispatching policicy for dynamic priority settled. Currently supported values: EarliestDeadlineFirst, User.''
         | Some s \<Rightarrow>
             (if s = ''EarliestDeadlineFirst'' then Inr EARLIEST_DEADLINE_FIRST
              else if s = ''User'' then Inr USER_DYNAMIC_PRIORITY_POLICY
              else report ''No recognized dispatching policy for dynamic priority settled. Currently supported values: EarliestDeadlineFirst, User.''))"

subsection \<open>One scheduler\<close>

definition configure_static ::
    "xml_front \<Rightarrow> sim_env \<Rightarrow> task_store \<Rightarrow> xml_ptr \<Rightarrow> scheduler \<Rightarrow> scheduler result" where
  "configure_static x e st pol s =
     rbind (set_policy e STATIC_SCHEDULING s) (\<lambda>s1.
     rbind (getStaticSchedulingNode pol) (\<lambda>c.
     rbind (getStaticSchedule x c) (\<lambda>schedule.
       set_sufficient_global_simulation_time e st N_hyperperiods_for_sim_time
         (if length schedule < 1 then s1 else set_static_schedule schedule s1))))"

definition configure_dynamic ::
    "xml_front \<Rightarrow> sim_env \<Rightarrow> string \<Rightarrow> xml_ptr \<Rightarrow> scheduler \<Rightarrow> scheduler result" where
  "configure_dynamic x e name pol s =
     rbind (set_policy e DYNAMIC_PRIORITIES s) (\<lambda>s1.
     rbind (getDynamicPrioritiesDispatchingPolicy x pol) (\<lambda>d.
       case d of
         EARLIEST_DEADLINE_FIRST \<Rightarrow> set_dynamic_priorities_policy e EARLIEST_DEADLINE_FIRST s1
       | _ \<Rightarrow> report (''Unsupported dynamic priority policy configured for the RTOS instance '' @ name)))"

definition configure_policy ::
    "xml_front \<Rightarrow> sim_env \<Rightarrow> task_store \<Rightarrow> string \<Rightarrow> xml_ptr \<Rightarrow> scheduler_policy_t \<Rightarrow> scheduler \<Rightarrow> scheduler result" where
  "configure_policy x e st name pol p s =
     (case p of
        STATIC_SCHEDULING \<Rightarrow> configure_static x e st pol s
      | STATIC_PRIORITIES \<Rightarrow>
          rbind (set_policy e STATIC_PRIORITIES s) (\<lambda>_.
            report (''The static priorities policy configured for the RTOS instance '' @ name @ '' is not currently supported.''))
      | DYNAMIC_PRIORITIES \<Rightarrow> configure_dynamic x e name pol s
      | CYCLE_EXECUTIVE \<Rightarrow> set_policy e CYCLE_EXECUTIVE s
      | SHORTCUT_RR \<Rightarrow> set_Round_Robin e s
      | SHORTCUT_EDF \<Rightarrow> set_earliest_deadline_first e s
      | SHORTCUT_RMS \<Rightarrow> report (''The RMS policy shortcut confgured for the RTOS instance '' @ name @ '' is not currently supported.'')
      | _ \<Rightarrow> report (''The scheduling policy configured for the RTOS instance '' @ name @ '' is not currently supported.''))"

text \<open>
  The message about the time slice is appended the name of the RTOS, and reported, whatever the
  verbosity.
\<close>

definition configure_task_scheduling ::
    "xml_front \<Rightarrow> sim_env \<Rightarrow> task_store \<Rightarrow> string option \<Rightarrow> xml_ptr \<Rightarrow> scheduler \<Rightarrow> scheduler result" where
  "configure_task_scheduling x e st name sched_node s =
     rbind (getSchedulerPolicyNode sched_node) (\<lambda>pol.
     rbind (getSchedulerTriggeringPolicy x pol) (\<lambda>trig.
     rbind (shown x name) (\<lambda>_.
     rbind (set_triggering_policy e trig s) (\<lambda>s1.
     rbind (TimeSliceEnabled x pol) (\<lambda>slice.
     rbind (if slice then enable_time_slicing e s1 else Inr s1) (\<lambda>s2.
     rbind (used name) (\<lambda>n.
     rbind (getSchedulerPolicy x pol) (\<lambda>p.
       configure_policy x e st n pol p s2))))))))"

definition configure_comm_scheduling ::
    "xml_front \<Rightarrow> sim_env \<Rightarrow> task_store \<Rightarrow> string option \<Rightarrow> xml_ptr option \<Rightarrow> scheduler \<Rightarrow> scheduler result" where
  "configure_comm_scheduling x e st name comm_node s =
     rbind (shown x name) (\<lambda>_.
       case comm_node of
         None \<Rightarrow> Inr s
       | Some c \<Rightarrow>
           rbind (getSchedulerPolicyNode c) (\<lambda>pol.
             if hasStaticScheduling pol then
               rbind (getStaticSchedulingNode pol) (\<lambda>n.
               rbind (getStaticSchedule x n) (\<lambda>schedule.
               rbind (set_static_comm_scheduling_by_name e schedule s) (\<lambda>s1.
                 set_sufficient_global_simulation_time e st N_hyperperiods_for_sim_time s1)))
             else Inr s))"

text \<open>The default arguments of the constructor of schedulers.\<close>

definition default_scheduler :: "scheduler \<Rightarrow> string \<Rightarrow> scheduler" where
  "default_scheduler raw name = new_scheduler raw name (sc_time_ns 10000000) False NON_PREEMPTIVE CYCLE_EXECUTIVE"

definition create_rtos ::
    "xml_front \<Rightarrow> sim_env \<Rightarrow> task_store \<Rightarrow> (string option \<Rightarrow> nat \<Rightarrow> string) \<Rightarrow> (nat \<Rightarrow> scheduler) \<Rightarrow> nat
       \<Rightarrow> xml_ptr \<Rightarrow> scheduler result" where
  "create_rtos x e st kn raw j rtos =
     rbind (xmlGetValueGen x rtos ''name'') (\<lambda>name.
     case getTaskScheduler rtos of
       None \<Rightarrow> report_with ''RTOS '' name '' has no task scheduler.''
     | Some node \<Rightarrow>
         rbind (configure_task_scheduling x e st name node (default_scheduler (raw j) (kn name j)))
           (configure_comm_scheduling x e st name (getCommScheduler rtos)))"

fun create_all_rtos ::
    "(nat \<Rightarrow> xml_ptr \<Rightarrow> scheduler result) \<Rightarrow> nat \<Rightarrow> xml_ptr list \<Rightarrow> scheduler list result" where
  "create_all_rtos f j [] = Inr []"
| "create_all_rtos f j (p # ps) =
     rbind (f j p) (\<lambda>s. rmap (\<lambda>ss. s # ss) (create_all_rtos f (Suc j) ps))"

definition getRTOS :: "xml_front \<Rightarrow> xml_ptr list result" where
  "getRTOS x =
     (case node_set_of x ''/system/platform/SW_platform/rtos'' of
        None \<Rightarrow> report ''SW platform creation failed. No RTOS was read in the XML input.''
      | Some ps \<Rightarrow> Inr ps)"

definition create_SW_platform ::
    "xml_front \<Rightarrow> sim_env \<Rightarrow> task_store \<Rightarrow> (string option \<Rightarrow> nat \<Rightarrow> string) \<Rightarrow> (nat \<Rightarrow> scheduler)
       \<Rightarrow> scheduler list result" where
  "create_SW_platform x e st kn raw =
     rbind (getRTOS x) (\<lambda>ps.
     rbind (check (\<not> length ps < 1) ''Platform creation failed. No RTOS was detected.'') (\<lambda>_.
       create_all_rtos (create_rtos x e st kn raw) 0 ps))"

subsection \<open>Mapping of schedulers to processing elements\<close>

text \<open>The first object of a name; \<open>strcmp\<close> with a null name is undefined.\<close>

definition index_by_name :: "('a \<Rightarrow> string) \<Rightarrow> 'a list \<Rightarrow> string option \<Rightarrow> string \<Rightarrow> nat result" where
  "index_by_name nm xs name msg =
     rbind (used name) (\<lambda>n.
       case first_index (\<lambda>a. nm a = n) xs of Some i \<Rightarrow> Inr i | None \<Rightarrow> report (msg @ n @ ''was found.''))"

definition getRTOSByName :: "scheduler list \<Rightarrow> string option \<Rightarrow> nat result" where
  "getRTOSByName ss name = index_by_name sched_name ss name ''RTOS mapping failed. No RTOS instance called''"

definition getPEByName :: "processing_element list \<Rightarrow> string option \<Rightarrow> nat result" where
  "getPEByName pes name =
     index_by_name pe_name pes name ''RTOS mapping failed. No processing element instance called ''"

definition map_rtos ::
    "xml_front \<Rightarrow> sim_env \<Rightarrow> xml_ptr \<Rightarrow> scheduler list \<times> processing_element list
       \<Rightarrow> (scheduler list \<times> processing_element list) result" where
  "map_rtos x e p sp =
     rbind (xmlGetValueGen x p ''source'') (\<lambda>src.
     rbind (xmlGetValueGen x p ''target'') (\<lambda>tgt.
     rbind (getRTOSByName (fst sp) src) (\<lambda>i.
     rbind (getPEByName (snd sp) tgt) (\<lambda>k.
     rmap (\<lambda>(s, pe). ((fst sp)[i := s], (snd sp)[k := pe]))
       (map_to e (snd sp ! k) (fst sp ! i))))))"

fun map_all_rtos ::
    "xml_front \<Rightarrow> sim_env \<Rightarrow> xml_ptr list \<Rightarrow> scheduler list \<times> processing_element list
       \<Rightarrow> (scheduler list \<times> processing_element list) result" where
  "map_all_rtos x e [] sp = Inr sp"
| "map_all_rtos x e (p # ps) sp = rbind (map_rtos x e p sp) (map_all_rtos x e ps)"

definition create_platform_mapping ::
    "xml_front \<Rightarrow> sim_env \<Rightarrow> scheduler list \<times> processing_element list
       \<Rightarrow> (scheduler list \<times> processing_element list) result" where
  "create_platform_mapping x e sp =
     rbind (check (\<not> length (fst sp) < 1) ''Creation of mapping from SW platform to HW platform failed. No RTOS'') (\<lambda>_.
     rbind (check (\<not> length (snd sp) < 1) ''Creation of mapping from SW platform to HW platform failed. No PE'') (\<lambda>_.
       case node_set_of x ''/system/platform/platform_mapping/map_rtos'' of
         None \<Rightarrow> report ''Mapping of SW platform to HW platform failed. No RTOS mapping was read in the XML input.''
       | Some ps \<Rightarrow> map_all_rtos x e ps sp))"

subsection \<open>Allocation of tasks\<close>

text \<open>
  \<open>tasks\<close> are the names of the tasks of the application. The table maps a scheduler to its task set,
  a set ordered by name; looking up a name that is not in it enters a null pointer, which is then
  dereferenced.
\<close>

definition getTaskInfoByName :: "string list \<Rightarrow> string option \<Rightarrow> string result" where
  "getTaskInfoByName tasks name =
     rmap (\<lambda>i. tasks ! i) (index_by_name id tasks name
       ''Application to platform mapping failed. No Task instance called'')"

definition taskset_insert :: "string \<Rightarrow> taskset \<Rightarrow> taskset" where
  "taskset_insert n ts = insort_insert n ts"

definition map_task ::
    "xml_front \<Rightarrow> string list \<Rightarrow> xml_ptr \<Rightarrow> (string \<rightharpoonup> taskset) \<Rightarrow> (string \<rightharpoonup> taskset) result" where
  "map_task x tasks p m =
     rbind (xmlGetValueGen x p ''source'') (\<lambda>src.
     rbind (check (src \<noteq> None) ''Error reading application mapping source.'') (\<lambda>_.
     rbind (xmlGetValueGen x p ''target'') (\<lambda>tgt.
     rbind (getTaskInfoByName tasks src) (\<lambda>n.
     rbind (used tgt) (\<lambda>t.
       case m t of
         None \<Rightarrow> undef ''null task set''
       | Some ts \<Rightarrow> Inr (m(t \<mapsto> taskset_insert n ts)))))))"

fun map_all_tasks ::
    "xml_front \<Rightarrow> string list \<Rightarrow> xml_ptr list \<Rightarrow> (string \<rightharpoonup> taskset) \<Rightarrow> (string \<rightharpoonup> taskset) result" where
  "map_all_tasks x tasks [] m = Inr m"
| "map_all_tasks x tasks (p # ps) m = rbind (map_task x tasks p m) (map_all_tasks x tasks ps)"

fun allocate_tasksets :: "sim_env \<Rightarrow> (string \<rightharpoonup> taskset) \<Rightarrow> scheduler list \<Rightarrow> scheduler list result" where
  "allocate_tasksets e m [] = Inr []"
| "allocate_tasksets e m (s # ss) =
     rbind (allocate e (case m (sched_name s) of None \<Rightarrow> Null_Ptr | Some ts \<Rightarrow> Taskset ts) s) (\<lambda>s1.
       rmap (\<lambda>r. s1 # r) (allocate_tasksets e m ss))"

definition create_app_to_platform_mapping ::
    "xml_front \<Rightarrow> sim_env \<Rightarrow> string list \<Rightarrow> scheduler list \<Rightarrow> scheduler list result" where
  "create_app_to_platform_mapping x e tasks ss =
     rbind (check (\<not> length tasks < 1) ''Creation of mapping from application to platform failed. No task'') (\<lambda>_.
     rbind (check (\<not> length ss < 1) ''Creation of mapping from application to platform failed. No RTOS'') (\<lambda>_.
       case node_set_of x ''/system/application_mapping/map_task'' of
         None \<Rightarrow> report ''Mapping of Application Tasks to platform failed. No task mapping was read in the XML input.''
       | Some ps \<Rightarrow>
           rbind (map_all_tasks x tasks ps (\<lambda>n. if n \<in> set (map sched_name ss) then Some [] else None))
             (\<lambda>m. allocate_tasksets e m ss)))"

end
