(* ===== verification/Xml_Params.thy ===== *)
theory Xml_Params
  imports Xml_Values
begin

text \<open>
  What the parameters of the XML front end come to: the last definition of a parameter, in the
  description and then in the configuration file, is the one that references to it give.
\<close>

subsection \<open>Reading the parameters\<close>

lemma libxml_params: "libxml x \<Longrightarrow> libxml (x\<lparr>global_parameters := g\<rparr>)"
  by (simp add: libxml_def)

lemma item_values_length:
  "item_values x m cs = Inr vs \<Longrightarrow> length vs = length (filter (\<lambda>c. ptr_name c = ''item'') cs)"
  by (induction cs arbitrary: vs) (auto simp: rbind_eq_Inr rmap_eq_Inr split: if_splits option.splits)

text \<open>The nodes the parameters of a run are read from, in order, and the last one that gives_param \<open>n\<close>.\<close>

definition parameter_nodes :: "(string \<times> xml_node option) option \<Rightarrow> xml_node \<Rightarrow> xml_ptr list" where
  "parameter_nodes file d =
     absolute_nodes [''system'', ''parameters'', ''parameter''] d
     @ (case file of
          Some (f, Some r) \<Rightarrow> absolute_nodes [''simulator_input_interface'', ''parameter''] r
        | _ \<Rightarrow> [])"

definition prop_of :: "string \<Rightarrow> xml_ptr \<Rightarrow> string option" where
  "prop_of a p = map_of (node_props (fst p)) a"

definition gives_param :: "string \<Rightarrow> xml_ptr \<Rightarrow> bool" where
  "gives_param n p = (prop_of ''name'' p = Some n \<and> (prop_of ''value'' p \<noteq> None \<or> hasChild p ''item''))"

definition last_definition :: "string \<Rightarrow> xml_ptr list \<Rightarrow> xml_ptr option" where
  "last_definition n ps = find (gives_param n) (rev ps)"

text \<open>What a definition gives a parameter: a scalar value, or a vector with a value for each item.\<close>

definition meets :: "xml_ptr \<Rightarrow> param_value_t \<Rightarrow> bool" where
  "meets p vs =
     (case prop_of ''value'' p of
        Some v \<Rightarrow> vs = [v]
      | None \<Rightarrow> length vs = length (filter (\<lambda>c. ptr_name c = ''item'') (xml_children p)))"

definition param_after :: "string \<Rightarrow> xml_ptr option \<Rightarrow> xml_front \<Rightarrow> xml_front \<Rightarrow> bool" where
  "param_after n p x x' =
     (case p of
        None \<Rightarrow> global_parameters x' n = global_parameters x n
      | Some q \<Rightarrow> \<exists>vs. global_parameters x' n = Some (Some vs) \<and> meets q vs)"

lemma same_front: "\<exists>g. x = x\<lparr>global_parameters := g\<rparr>"
  by (rule exI [of _ "global_parameters x"]) simp

lemma read_parameter_effect:
  assumes "libxml x" "read_parameter p x = Inr x'"
  shows "param_after n (if gives_param n p then Some p else None) x x'"
    and "\<exists>g. x' = x\<lparr>global_parameters := g\<rparr>"
proof -
  have attr: "xml_get_prop x p a = prop_of a p" for a
    using libxml.get_prop [OF assms(1)] by (simp add: prop_of_def)
  show "param_after n (if gives_param n p then Some p else None) x x'" using assms(2)
    by (auto simp: attr read_parameter_def define_param_def param_after_def gives_param_def meets_def
        rmap_eq_Inr dest: item_values_length split: option.splits if_splits)
  show "\<exists>g. x' = x\<lparr>global_parameters := g\<rparr>" using assms(2) same_front [of x]
    by (auto simp: read_parameter_def define_param_def rmap_eq_Inr split: option.splits if_splits)
qed

lemma last_definition_Cons:
  "last_definition n (p # ps) =
     (case last_definition n ps of
        Some q \<Rightarrow> Some q | None \<Rightarrow> (if gives_param n p then Some p else None))"
proof -
  have "find P (xs @ [y]) = (case find P xs of Some q \<Rightarrow> Some q | None \<Rightarrow> (if P y then Some y else None))"
    for P :: "xml_ptr \<Rightarrow> bool" and xs y by (induction xs) auto
  then show ?thesis by (simp add: last_definition_def)
qed

lemma read_parameters_effect:
  assumes "libxml x" "read_parameters ps x = Inr x'"
  shows "param_after n (last_definition n ps) x x' \<and> (\<exists>g. x' = x\<lparr>global_parameters := g\<rparr>)"
  using assms
proof (induction ps arbitrary: x)
  case Nil
  then show ?case using same_front [of x] by (auto simp: last_definition_def param_after_def)
next
  case (Cons p ps)
  then obtain x1 where x1: "read_parameter p x = Inr x1" "read_parameters ps x1 = Inr x'"
    by (auto simp: rbind_eq_Inr)
  from read_parameter_effect (2) [OF Cons.prems(1) x1(1)] obtain g where g: "x1 = x\<lparr>global_parameters := g\<rparr>" ..
  with libxml_params [OF Cons.prems(1)] have "libxml x1" by simp
  with Cons.IH x1(2) have "param_after n (last_definition n ps) x1 x'" and h: "\<exists>h. x' = x1\<lparr>global_parameters := h\<rparr>"
    by blast+
  with read_parameter_effect (1) [OF Cons.prems(1) x1(1), of n]
  have "param_after n (last_definition n (p # ps)) x x'"
    by (auto simp: last_definition_Cons param_after_def split: option.splits if_splits)
  with h g show ?case by auto
qed

lemma read_sysconf_effect:
  assumes "libxml x" "getNodeSet x d path = (if ps = [] then None else Some ps)"
    "read_sysconf_parameters d path x = Inr x'"
  shows "read_parameters ps x = Inr x'"
  using assms(2,3) by (auto simp: read_sysconf_parameters_def split: if_splits)

lemma read_all_effect:
  assumes "libxml x" "read_all_parameters file x = Inr x'"
  shows "param_after n (last_definition n (parameter_nodes file (xml_doc x))) x x'
    \<and> (\<exists>g. x' = x\<lparr>global_parameters := g\<rparr>)"
proof -
  have app: "read_parameters (ps @ qs) x = rbind (read_parameters ps x) (read_parameters qs)" for ps qs x
    by (induction ps arbitrary: x) (simp_all add: rbind_def split: sum.splits)
  let ?ps = "absolute_nodes [''system'', ''parameters'', ''parameter''] (xml_doc x)"
  have path: "''/system/parameters/parameter'' = path_expr [''system'', ''parameters'', ''parameter'']"
    by (simp add: path_expr_def)
  have set: "getNodeSet x (xml_doc x) ''/system/parameters/parameter'' = (if ?ps = [] then None else Some ?ps)"
    unfolding path by (rule libxml.node_set [OF assms(1)]) (simp_all add: plain_name_def)
  from assms(2) obtain x1 where
    x1: "read_sysconf_parameters (xml_doc x) ''/system/parameters/parameter'' x = Inr x1"
      "(case file of None \<Rightarrow> Inr x1 | Some (f, d) \<Rightarrow> read_sysconf_file f d x1) = Inr x'"
    by (auto simp: read_all_parameters_def rbind_eq_Inr)
  have first: "read_parameters ?ps x = Inr x1" by (rule read_sysconf_effect [OF assms(1) set x1(1)])
  have "libxml x1" using read_parameters_effect [OF assms(1) first] libxml_params [OF assms(1)] by auto
  then have rest: "read_parameters (case file of Some (f, Some r) \<Rightarrow>
      absolute_nodes [''simulator_input_interface'', ''parameter''] r | _ \<Rightarrow> []) x1 = Inr x'"
    using x1(2) libxml.sysconf_set [of x1]
    by (auto simp: read_sysconf_file_def read_sysconf_parameters_def Let_def split: option.splits if_splits)
  have "read_parameters (parameter_nodes file (xml_doc x)) x = Inr x'"
    unfolding parameter_nodes_def app using first rest by simp
  with read_parameters_effect [OF assms(1)] show ?thesis by blast
qed

subsection \<open>References\<close>

text \<open>
  C25: After the parameters of a run have been read, a property that refers to a parameter has the
  value of its last definition, those of the configuration file coming after those of the system
  description: a scalar as it is written, even when it looks like another reference, and for a vector one
  value for each item. A reference to a parameter that no node defines reads as it did before.\<close>
theorem references_resolved:
  assumes "libxml x" "read_all_parameters file x = Inr x'" "prop_of a p = Some (''_'' @ n)"
  shows "case last_definition n (parameter_nodes file (xml_doc x)) of
      None \<Rightarrow> xmlGetValueGen x' p a = xmlGetValueGen x p a
    | Some q \<Rightarrow>
        (case prop_of ''value'' q of
           Some v \<Rightarrow> xmlGetValueGen x' p a = Inr (Some v) \<and> xmlGetVectorValueGen x' p a = Inr (Some [v])
         | None \<Rightarrow> \<exists>vs. xmlGetVectorValueGen x' p a = Inr (Some vs)
             \<and> length vs = length (filter (\<lambda>c. ptr_name c = ''item'') (xml_children q)))"
proof -
  from read_all_effect [OF assms(1,2)] have after:
    "param_after n (last_definition n (parameter_nodes file (xml_doc x))) x x'"
    and "\<exists>g. x' = x\<lparr>global_parameters := g\<rparr>" by blast+
  then have front: "xml_get_prop x' p a = Some (''_'' @ n)" "xml_get_prop x p a = Some (''_'' @ n)"
    using libxml.get_prop [OF assms(1), of p a] assms(3) by (auto simp: prop_of_def)
  show ?thesis using after front
    by (auto simp: param_after_def meets_def xmlGetValueGen_def xmlGetVectorValueGen_def
        scalar_parameter_def is_reference_def split: option.splits)
qed

definition param_example :: xml_node where
  "param_example =
     Xml_Node ''system'' [] [Xml_Node ''parameters'' []
       [Xml_Node ''parameter'' [(''name'', ''f''), (''value'', ''100'')] [],
        Xml_Node ''parameter'' [(''name'', ''n''), (''value'', ''3'')] []]]"

definition param_file_example :: xml_node where
  "param_file_example =
     Xml_Node ''simulator_input_interface'' []
       [Xml_Node ''parameter'' [(''name'', ''f''), (''value'', ''200'')] []]"

definition front_example :: "xml_node \<Rightarrow> xml_front" where
  "front_example d = xml_lib.extend tree_lib (xml_front.fields d Map.empty False)"

lemma front_example_sel:
  "xml_get_prop (front_example d) = xml_get_prop tree_lib"
  "xml_xpath (front_example d) = xml_xpath tree_lib"
  "xml_node_xpath (front_example d) = xml_node_xpath tree_lib"
  "xml_doc (front_example d) = d" "global_parameters (front_example d) = Map.empty"
  "global_kista_xml_verbosity (front_example d) = False"
  by (simp_all add: front_example_def xml_lib.defs xml_front.defs)

lemma libxml_example: "libxml (front_example d)"
  using tree_xml.libxml_axioms by (simp add: libxml_def front_example_sel)

theorem references_resolved_witness:
  "\<exists>x'. read_all_parameters (Some (''params.xml'', Some param_file_example)) (front_example param_example) = Inr x'
     \<and> xmlGetValueGen x' (Xml_Node ''freq'' [(''value'', ''_f'')] [], []) ''value'' = Inr (Some ''200'')
     \<and> xmlGetValueGen x' (Xml_Node ''slots_number'' [(''value'', ''_n'')] [], []) ''value'' = Inr (Some ''3'')"
proof -
  let ?f = "Some (''params.xml'', Some param_file_example)" and ?x = "front_example param_example"
  have nodes: "parameter_nodes ?f param_example =
      [(Xml_Node ''parameter'' [(''name'', ''f''), (''value'', ''100'')] [], [sub_nodes param_example ! 0, param_example]),
       (Xml_Node ''parameter'' [(''name'', ''n''), (''value'', ''3'')] [], [sub_nodes param_example ! 0, param_example]),
       (Xml_Node ''parameter'' [(''name'', ''f''), (''value'', ''200'')] [], [param_file_example])]"
    by (simp add: parameter_nodes_def absolute_nodes_def param_example_def param_file_example_def
        xml_children_def ptr_name_def)
  obtain x' where x': "read_all_parameters ?f ?x = Inr x'"
    by (simp add: read_all_parameters_def read_sysconf_parameters_def read_sysconf_file_def getNodeSet_def
        front_example_sel tree_lib_def set_nodes_def sysconf_path_def absolute_nodes_def param_example_def
        param_file_example_def xml_children_def ptr_name_def read_parameter_def define_param_def)
  show ?thesis
    using x' references_resolved [OF libxml_example x', of "''value''" "(Xml_Node ''freq'' [(''value'', ''_f'')] [], [])" "''f''"]
      references_resolved [OF libxml_example x', of "''value''" "(Xml_Node ''slots_number'' [(''value'', ''_n'')] [], [])" "''n''"]
    by (simp add: front_example_sel nodes last_definition_def gives_param_def prop_of_def)
qed

end
