(* ===== verification/Xml_Software_Props.thy ===== *)
theory Xml_Software_Props
  imports Xml_Software Xml_Params Dispatch_Contract
begin

text \<open>What the front end makes of the software part of a system description.\<close>

subsection \<open>The schedulers\<close>

text \<open>The policies the front end supports, by the value of the \<open>policy\<close> property.\<close>

definition described_policy :: "string option \<Rightarrow> scheduler_policy_t option" where
  "described_policy v =
     (case v of
        None \<Rightarrow> Some STATIC_SCHEDULING
      | Some s \<Rightarrow>
          (if s = ''static_scheduling'' then Some STATIC_SCHEDULING
           else if s = ''cycle_executive'' then Some CYCLE_EXECUTIVE
           else if s = ''dynamic_priorities'' \<or> s = ''EDF'' then Some DYNAMIC_PRIORITIES
           else None))"

definition fresh_sched :: "string \<Rightarrow> scheduler \<Rightarrow> bool" where
  "fresh_sched n s = (sched_name s = n \<and> tasks_assigned s = Indeterminate_Ptr \<and> sched_PE s = None
     \<and> sched_dynamic_policy s = EARLIEST_DEADLINE_FIRST)"

lemma set_policy_Inr: "set_policy e p s = Inr s1 \<Longrightarrow> s1 = s\<lparr>sched_policy := p\<rparr>"
  by (simp add: set_policy_def split: if_splits)

lemma sufficient_time_Inr:
  "set_sufficient_global_simulation_time e st n s = Inr s1 \<Longrightarrow>
     (s1 = s \<or> s1 = s\<lparr>sufficient_global_sim_time_factor := n\<rparr>)
     \<and> (tasks_assigned s = Indeterminate_Ptr \<longrightarrow> sched_policy s \<in> {STATIC_SCHEDULING, CYCLE_EXECUTIVE})"
  by (auto simp: set_sufficient_global_simulation_time_def rbind_eq_Inr assigned_def split: if_splits)

lemma only_edf:
  "(case d of EARLIEST_DEADLINE_FIRST \<Rightarrow> f | _ \<Rightarrow> report m) = Inr s \<Longrightarrow> f = Inr s"
  by (cases d) simp_all

lemma configure_policy_Inr:
  assumes "configure_policy x e st nm pol p s = Inr s1" "fresh_sched n s" "p \<noteq> SHORTCUT_RR"
  shows "fresh_sched n s1 \<and> static_comm_schedule_by_name s1 = static_comm_schedule_by_name s
    \<and> sched_triggering_policy s1 = sched_triggering_policy s
    \<and> ((p = STATIC_SCHEDULING \<or> p = CYCLE_EXECUTIVE \<or> p = DYNAMIC_PRIORITIES) \<and> sched_policy s1 = p
       \<or> p = SHORTCUT_EDF \<and> sched_policy s1 = DYNAMIC_PRIORITIES)"
proof (cases p)
  case STATIC_SCHEDULING
  with assms(1) obtain s2 schedule where s2: "set_policy e STATIC_SCHEDULING s = Inr s2"
    "set_sufficient_global_simulation_time e st N_hyperperiods_for_sim_time
       (if length schedule < 1 then s2 else set_static_schedule schedule s2) = Inr s1"
    by (auto simp: configure_policy_def configure_static_def rbind_eq_Inr)
  from sufficient_time_Inr [OF s2(2)] set_policy_Inr [OF s2(1)] assms(2) STATIC_SCHEDULING show ?thesis
    by (auto simp: fresh_sched_def set_static_schedule_def split: if_splits)
next
  case DYNAMIC_PRIORITIES
  with assms(1) obtain s2 where "set_policy e DYNAMIC_PRIORITIES s = Inr s2"
    "set_dynamic_priorities_policy e EARLIEST_DEADLINE_FIRST s2 = Inr s1"
    by (auto simp: configure_policy_def configure_dynamic_def rbind_eq_Inr dest!: only_edf)
  with assms(2) DYNAMIC_PRIORITIES show ?thesis
    by (auto simp: set_dynamic_priorities_policy_def rmap_eq_Inr fresh_sched_def dest!: set_policy_Inr)
next
  case SHORTCUT_EDF
  with assms(1,2) show ?thesis
    by (auto simp: configure_policy_def set_earliest_deadline_first_def set_dynamic_priorities_policy_def
        rmap_eq_Inr fresh_sched_def dest!: set_policy_Inr)
next
  case CYCLE_EXECUTIVE
  with assms(1,2) show ?thesis
    by (auto simp: configure_policy_def fresh_sched_def dest!: set_policy_Inr)
qed (use assms in \<open>simp_all add: configure_policy_def rbind_def split: sum.splits\<close>)

lemma getSchedulerPolicy_described:
  assumes "getSchedulerPolicy x pol = Inr p"
  shows "\<exists>v. xmlGetValueGen x pol ''policy'' = Inr v \<and> p \<noteq> SHORTCUT_RR
    \<and> (p = STATIC_SCHEDULING \<or> p = CYCLE_EXECUTIVE \<or> p = DYNAMIC_PRIORITIES \<longrightarrow> described_policy v = Some p)
    \<and> (p = SHORTCUT_EDF \<longrightarrow> described_policy v = Some DYNAMIC_PRIORITIES)"
proof -
  from assms obtain v where v: "xmlGetValueGen x pol ''policy'' = Inr v"
    and p: "getSchedulerPolicy x pol = Inr p" by (auto simp: getSchedulerPolicy_def rmap_eq_Inr)
  show ?thesis
  proof (cases v)
    case None
    with p v show ?thesis by (simp add: getSchedulerPolicy_def described_policy_def)
  next
    case (Some w)
    from p v Some show ?thesis
      by (simp add: getSchedulerPolicy_def described_policy_def split: if_split_asm split del: if_split)
  qed
qed

text \<open>What a scheduler made from an RTOS of the description is like.\<close>

definition described_scheduler ::
    "xml_front \<Rightarrow> (string option \<Rightarrow> nat \<Rightarrow> string) \<Rightarrow> nat \<Rightarrow> xml_ptr \<Rightarrow> scheduler \<Rightarrow> bool" where
  "described_scheduler x kn j rtos s =
     (\<exists>n node pol v. xmlGetValueGen x rtos ''name'' = Inr (Some n) \<and> fresh_sched (kn (Some n) j) s
        \<and> getTaskScheduler rtos = Some node \<and> getFirstChild node ''scheduler_policy'' = Some pol
        \<and> xmlGetValueGen x pol ''policy'' = Inr v \<and> described_policy v = Some (sched_policy s)
        \<and> getSchedulerTriggeringPolicy x pol = Inr (sched_triggering_policy s)
        \<and> (static_comm_schedule_by_name s \<noteq> [] \<longrightarrow> sched_policy s \<noteq> DYNAMIC_PRIORITIES))"

lemma configure_task_Inr:
  assumes "configure_task_scheduling x e st name node s = Inr s1" "fresh_sched n s"
  shows "\<exists>m pol v. name = Some m \<and> fresh_sched n s1 \<and> getFirstChild node ''scheduler_policy'' = Some pol
        \<and> xmlGetValueGen x pol ''policy'' = Inr v \<and> described_policy v = Some (sched_policy s1)
        \<and> getSchedulerTriggeringPolicy x pol = Inr (sched_triggering_policy s1)
        \<and> static_comm_schedule_by_name s1 = static_comm_schedule_by_name s"
proof -
  from assms(1) obtain pol trig s2 slice s3 m p where
    pol: "getFirstChild node ''scheduler_policy'' = Some pol" and
    trig: "getSchedulerTriggeringPolicy x pol = Inr trig" "set_triggering_policy e trig s = Inr s2" and
    slice: "(if slice then enable_time_slicing e s2 else Inr s2) = Inr s3" and
    m: "name = Some m" and p: "getSchedulerPolicy x pol = Inr p" "configure_policy x e st m pol p s3 = Inr s1"
    by (auto simp: configure_task_scheduling_def getSchedulerPolicyNode_def used_def rbind_eq_Inr
        split: option.splits)
  have s2: "s2 = s\<lparr>sched_triggering_policy := trig\<rparr>"
    using trig(2) by (simp add: set_triggering_policy_def split: if_splits)
  have s3: "fresh_sched n s3 \<and> sched_triggering_policy s3 = trig
      \<and> static_comm_schedule_by_name s3 = static_comm_schedule_by_name s"
    using slice s2 assms(2) by (auto simp: enable_time_slicing_def fresh_sched_def split: if_splits)
  from getSchedulerPolicy_described [OF p(1)] obtain v where v:
    "xmlGetValueGen x pol ''policy'' = Inr v" "p \<noteq> SHORTCUT_RR"
    "p = STATIC_SCHEDULING \<or> p = CYCLE_EXECUTIVE \<or> p = DYNAMIC_PRIORITIES \<longrightarrow> described_policy v = Some p"
    "p = SHORTCUT_EDF \<longrightarrow> described_policy v = Some DYNAMIC_PRIORITIES" by blast
  from configure_policy_Inr [OF p(2) _ v(2), of n] s3 have "fresh_sched n s1"
    "static_comm_schedule_by_name s1 = static_comm_schedule_by_name s" "sched_triggering_policy s1 = trig"
    "described_policy v = Some (sched_policy s1)" using v(3,4) by auto
  with pol trig(1) m v(1) show ?thesis by auto
qed

lemma configure_comm_Inr:
  assumes "configure_comm_scheduling x e st name c s = Inr s1" "fresh_sched n s"
    "static_comm_schedule_by_name s = []"
  shows "fresh_sched n s1 \<and> sched_policy s1 = sched_policy s
    \<and> sched_triggering_policy s1 = sched_triggering_policy s
    \<and> (static_comm_schedule_by_name s1 \<noteq> [] \<longrightarrow> sched_policy s1 \<in> {STATIC_SCHEDULING, CYCLE_EXECUTIVE})"
  using assms
  by (auto simp: configure_comm_scheduling_def rbind_eq_Inr set_static_comm_scheduling_by_name_def fresh_sched_def
      dest!: sufficient_time_Inr split: option.splits if_splits)

lemma create_rtos_described:
  assumes "create_rtos x e st kn raw j rtos = Inr s"
  shows "described_scheduler x kn j rtos s"
proof -
  from assms obtain name node s1 where
    n: "xmlGetValueGen x rtos ''name'' = Inr name" "getTaskScheduler rtos = Some node" and
    s1: "configure_task_scheduling x e st name node (default_scheduler (raw j) (kn name j)) = Inr s1" and
    s: "configure_comm_scheduling x e st name (getCommScheduler rtos) s1 = Inr s"
    by (auto simp: create_rtos_def report_with_def rbind_eq_Inr split: option.splits)
  have "fresh_sched (kn name j) (default_scheduler (raw j) (kn name j))"
    "static_comm_schedule_by_name (default_scheduler (raw j) (kn name j)) = []"
    by (simp_all add: fresh_sched_def default_scheduler_def new_scheduler_def)
  with configure_task_Inr [OF s1, of "kn name j"] obtain m pol v where task: "name = Some m"
    "fresh_sched (kn name j) s1" "getFirstChild node ''scheduler_policy'' = Some pol"
    "xmlGetValueGen x pol ''policy'' = Inr v" "described_policy v = Some (sched_policy s1)"
    "getSchedulerTriggeringPolicy x pol = Inr (sched_triggering_policy s1)"
    "static_comm_schedule_by_name s1 = []" by auto
  from configure_comm_Inr [OF s task(2,7)] task n show ?thesis
    by (auto simp: described_scheduler_def simp del: split_paired_Ex split_paired_All)
qed

lemma create_all_nth:
  assumes "create_all_rtos f j ps = Inr ss"
  shows "length ss = length ps \<and> (\<forall>i < length ps. f (j + i) (ps ! i) = Inr (ss ! i))"
  using assms
proof (induction ps arbitrary: j ss)
  case (Cons p ps)
  then obtain s ss' where s: "f j p = Inr s" "create_all_rtos f (Suc j) ps = Inr ss'" "ss = s # ss'"
    by (auto simp: rbind_eq_Inr rmap_eq_Inr)
  from Cons.IH [OF s(2)] s show ?case by (auto simp: less_Suc_eq_0_disj)
qed simp

text \<open>
  C27: The schedulers of a system description are well formed: there is one for each RTOS, in the order of the
  description, with the name and the triggering of the RTOS and the policy it describes, which is static
  scheduling, cycle executive or EDF; static priorities, rate monotonic, round robin and every RTOS without
  a name are refused, and a schedule of communications is never found on an EDF scheduler.\<close>
theorem described_schedulers:
  assumes "create_SW_platform x e st kn raw = Inr ss"
  shows "\<exists>ps. node_set_of x ''/system/platform/SW_platform/rtos'' = Some ps \<and> length ss = length ps
    \<and> (\<forall>j < length ps. described_scheduler x kn j (ps ! j) (ss ! j))"
proof -
  from assms obtain ps where ps: "node_set_of x ''/system/platform/SW_platform/rtos'' = Some ps"
    "create_all_rtos (create_rtos x e st kn raw) 0 ps = Inr ss"
    by (auto simp: create_SW_platform_def getRTOS_def rbind_eq_Inr split: option.splits)
  from create_all_nth [OF ps(2)] have len: "length ss = length ps"
    and made: "\<And>i. i < length ps \<Longrightarrow> create_rtos x e st kn raw i (ps ! i) = Inr (ss ! i)" by auto
  from made create_rtos_described have "\<forall>j < length ps. described_scheduler x kn j (ps ! j) (ss ! j)" by blast
  with ps(1) len show ?thesis by blast
qed

subsection \<open>The tasks of a scheduler\<close>

lemma first_index_name:
  "(case first_index (\<lambda>a. a = n) xs of Some i \<Rightarrow> i < length xs \<and> xs ! i = n | None \<Rightarrow> n \<notin> set xs)"
  by (induction xs) (auto simp: first_index_def split: if_splits option.splits)

lemma task_by_name:
  "n \<in> set tasks \<Longrightarrow> getTaskInfoByName tasks (Some n) = Inr n"
  "n \<notin> set tasks \<Longrightarrow> \<not> is_ok (getTaskInfoByName tasks (Some n))"
  using first_index_name [of n tasks]
  by (auto simp: getTaskInfoByName_def index_by_name_def used_def split: option.splits)

lemma taskset_insert_sorted:
  assumes "finite A" 
  shows "taskset_insert n (sorted_list_of_set A) = sorted_list_of_set (insert n A)"
proof (cases "n \<in> A")
  case True
  then show ?thesis using assms by (simp add: taskset_insert_def insort_insert_key_def insert_absorb)
next
  case False
  then show ?thesis using assms by (simp add: taskset_insert_def insort_insert_key_def)
qed

definition mapped_to :: "('p \<Rightarrow> string) \<Rightarrow> ('p \<Rightarrow> string) \<Rightarrow> 'p list \<Rightarrow> string \<Rightarrow> string set" where
  "mapped_to orig tgt ps n = {orig p |p. p \<in> set ps \<and> tgt p = n}"

lemma mapped_to_simps:
  "mapped_to orig tgt [] n = {}"
  "mapped_to orig tgt (p # ps) n = (if tgt p = n then insert (orig p) (mapped_to orig tgt ps n) else mapped_to orig tgt ps n)"
  by (auto simp: mapped_to_def)

lemma map_all_tasks_exact:
  assumes "\<forall>p \<in> set ps. xmlGetValueGen x p ''source'' = Inr (Some (orig p))
      \<and> xmlGetValueGen x p ''target'' = Inr (Some (tgt p))"
    and "\<And>n. finite (S n)" "\<And>n. m n = (if n \<in> N then Some (sorted_list_of_set (S n)) else None)"
  shows "if \<forall>p \<in> set ps. orig p \<in> set tasks \<and> tgt p \<in> N
    then map_all_tasks x tasks ps m =
      Inr (\<lambda>n. if n \<in> N then Some (sorted_list_of_set (S n \<union> mapped_to orig tgt ps n)) else None)
    else \<not> is_ok (map_all_tasks x tasks ps m)"
  using assms
proof (induction ps arbitrary: m S)
  case Nil
  then show ?case by (simp add: mapped_to_simps fun_eq_iff)
next
  case (Cons p ps)
  have vals: "xmlGetValueGen x p ''source'' = Inr (Some (orig p))"
    "xmlGetValueGen x p ''target'' = Inr (Some (tgt p))" using Cons.prems(1) by auto
  show ?case
  proof (cases "orig p \<in> set tasks \<and> tgt p \<in> N")
    case True
    let ?S = "S(tgt p := insert (orig p) (S (tgt p)))"
    let ?m = "m(tgt p \<mapsto> sorted_list_of_set (?S (tgt p)))"
    have one: "map_task x tasks p m = Inr ?m"
      using True vals Cons.prems(2,3) by (simp add: map_task_def task_by_name used_def taskset_insert_sorted)
    have m: "?m n = (if n \<in> N then Some (sorted_list_of_set (?S n)) else None)" for n
      using True Cons.prems(3) by simp
    have fin: "finite (?S n)" for n using Cons.prems(2) by simp
    have all: "\<forall>p \<in> set ps. xmlGetValueGen x p ''source'' = Inr (Some (orig p))
      \<and> xmlGetValueGen x p ''target'' = Inr (Some (tgt p))" using Cons.prems(1) by simp
    have union: "?S n \<union> mapped_to orig tgt ps n = S n \<union> mapped_to orig tgt (p # ps) n" for n
      by (simp add: mapped_to_simps)
    have step: "map_all_tasks x tasks (p # ps) m = map_all_tasks x tasks ps ?m" using one by simp
    have cond: "(\<forall>q \<in> set (p # ps). orig q \<in> set tasks \<and> tgt q \<in> N)
        = (\<forall>q \<in> set ps. orig q \<in> set tasks \<and> tgt q \<in> N)" using True by simp
    from Cons.IH [OF all fin m] show ?thesis unfolding union step cond .
  next
    case False
    have "\<not> is_ok (map_task x tasks p m)"
    proof (cases "orig p \<in> set tasks")
      case True
      with False vals Cons.prems(3) show ?thesis by (simp add: map_task_def task_by_name used_def)
    next
      case False
      with task_by_name(2) [of "orig p" tasks] vals show ?thesis
        by (cases "getTaskInfoByName tasks (Some (orig p))") (auto simp: map_task_def)
    qed
    with False show ?thesis by (cases "map_task x tasks p m") auto
  qed
qed

lemma allocate_all_exact:
  assumes "sc_status e = SC_ELABORATION" "\<forall>s \<in> set ss. m (sched_name s) = Some (f s)"
  shows "allocate_tasksets e m ss = Inr (map (\<lambda>s. s\<lparr>tasks_assigned := Taskset (f s)\<rparr>) ss)"
  using assms by (induction ss) (simp_all add: allocate_def)

text \<open>
  C28: The allocation of tasks of a description succeeds exactly when every mapping is from a task of the
  application to a scheduler of the platform; then each scheduler has the set of the tasks that are mapped to
  it, ordered by name, and is otherwise as it was. A task mapped to several schedulers is in the set of each.\<close>
theorem tasks_allocated_exactly:
  assumes "node_set_of x ''/system/application_mapping/map_task'' = Some ps" "sc_status e = SC_ELABORATION"
    and "tasks \<noteq> []" "ss \<noteq> []"
    and "\<forall>p \<in> set ps. xmlGetValueGen x p ''source'' = Inr (Some (orig p))
      \<and> xmlGetValueGen x p ''target'' = Inr (Some (tgt p))"
  shows "if \<forall>p \<in> set ps. orig p \<in> set tasks \<and> tgt p \<in> sched_name ` set ss
    then create_app_to_platform_mapping x e tasks ss = Inr (map (\<lambda>s. s\<lparr>tasks_assigned :=
      Taskset (sorted_list_of_set (mapped_to orig tgt ps (sched_name s)))\<rparr>) ss)
    else \<not> is_ok (create_app_to_platform_mapping x e tasks ss)"
proof -
  let ?m = "\<lambda>n. if n \<in> sched_name ` set ss then Some [] else None"
  have start: "create_app_to_platform_mapping x e tasks ss =
      rbind (map_all_tasks x tasks ps ?m) (\<lambda>m. allocate_tasksets e m ss)"
    using assms(1,3,4) by (simp add: create_app_to_platform_mapping_def Suc_le_eq)
  have all: "if \<forall>p \<in> set ps. orig p \<in> set tasks \<and> tgt p \<in> sched_name ` set ss
    then map_all_tasks x tasks ps ?m =
      Inr (\<lambda>n. if n \<in> sched_name ` set ss then Some (sorted_list_of_set ({} \<union> mapped_to orig tgt ps n)) else None)
    else \<not> is_ok (map_all_tasks x tasks ps ?m)"
    by (rule map_all_tasks_exact [OF assms(5), where S = "\<lambda>_. {}"]) simp_all
  show ?thesis
  proof (cases "\<forall>p \<in> set ps. orig p \<in> set tasks \<and> tgt p \<in> sched_name ` set ss")
    case True
    with all start allocate_all_exact [OF assms(2), of ss _
        "\<lambda>s. sorted_list_of_set (mapped_to orig tgt ps (sched_name s))"]
    show ?thesis by simp
  next
    case False
    with all start show ?thesis by (cases "map_all_tasks x tasks ps ?m") auto
  qed
qed

definition rtos_example :: "string \<Rightarrow> (string \<times> string) list \<Rightarrow> xml_node" where
  "rtos_example n policy =
     Xml_Node ''rtos'' [(''name'', n)]
       [Xml_Node ''task_scheduler'' [] [Xml_Node ''scheduler_policy'' policy []]]"

definition software_example :: xml_node where
  "software_example =
     Xml_Node ''system'' []
       [Xml_Node ''platform'' [] [Xml_Node ''SW_platform'' []
          [rtos_example ''r'' [(''policy'', ''EDF''), (''triggering'', ''preemptive'')],
           rtos_example ''s'' [(''policy'', ''cycle_executive'')]]],
        Xml_Node ''application_mapping'' []
          [Xml_Node ''map_task'' [(''source'', ''b''), (''target'', ''r'')] [],
           Xml_Node ''map_task'' [(''source'', ''a''), (''target'', ''r'')] []]]"

text \<open>The kernel gives a module the name it was asked for.\<close>

definition example_names :: "string option \<Rightarrow> nat \<Rightarrow> string" where
  "example_names n j = (case n of Some s \<Rightarrow> s | None \<Rightarrow> ''sched'')"

lemma software_nodes:
  "\<exists>up. node_set_of (front_example software_example) ''/system/platform/SW_platform/rtos'' =
     Some [(rtos_example ''r'' [(''policy'', ''EDF''), (''triggering'', ''preemptive'')], up),
           (rtos_example ''s'' [(''policy'', ''cycle_executive'')], up)]"
  "\<exists>up. node_set_of (front_example software_example) ''/system/application_mapping/map_task'' =
     Some [(Xml_Node ''map_task'' [(''source'', ''b''), (''target'', ''r'')] [], up),
           (Xml_Node ''map_task'' [(''source'', ''a''), (''target'', ''r'')] [], up)]"
  by (simp_all add: node_set_of_def getNodeSet_def front_example_sel tree_lib_def set_nodes_def
      sysconf_path_def absolute_nodes_def software_example_def rtos_example_def xml_children_def ptr_name_def)

lemma rtos_example_made:
  assumes "xml_get_prop x = xml_get_prop tree_lib" "\<not> global_kista_xml_verbosity x"
    "n \<noteq> []" "hd n \<noteq> CHR ''_''"
  shows "create_rtos x example_elab st example_names (\<lambda>_. raw_scheduler) j (rtos_example n pol, up) =
    configure_task_scheduling x example_elab st (Some n)
      (Xml_Node ''task_scheduler'' [] [Xml_Node ''scheduler_policy'' pol []], rtos_example n pol # up)
      (default_scheduler raw_scheduler n)"
proof -
  have "\<not> is_reference n" using assms(3,4) by (cases n) (simp_all add: is_reference_def)
  then show ?thesis using assms(1,2)
    by (cases "configure_task_scheduling x example_elab st (Some n)
        (Xml_Node ''task_scheduler'' [] [Xml_Node ''scheduler_policy'' pol []], rtos_example n pol # up)
        (default_scheduler raw_scheduler n)")
      (simp_all add: create_rtos_def rtos_example_def xml_children_def ptr_name_def xmlGetValueGen_def
        tree_lib_def getTaskScheduler_def getFirstChild_def getCommScheduler_def shown_def
        configure_comm_scheduling_def example_names_def)
qed

lemma example_policies:
  assumes "xml_get_prop x = xml_get_prop tree_lib" "\<not> global_kista_xml_verbosity x"
  shows "configure_task_scheduling x example_elab st (Some n) (Xml_Node ''task_scheduler'' []
      [Xml_Node ''scheduler_policy'' [(''policy'', ''EDF''), (''triggering'', ''preemptive'')] []], up) s =
    Inr (s\<lparr>sched_triggering_policy := PREEMPTIVE, sched_policy := DYNAMIC_PRIORITIES,
      sched_dynamic_policy := EARLIEST_DEADLINE_FIRST\<rparr>)"
    and "configure_task_scheduling x example_elab st (Some n) (Xml_Node ''task_scheduler'' []
      [Xml_Node ''scheduler_policy'' [(''policy'', ''cycle_executive'')] []], up) s =
    Inr (s\<lparr>sched_triggering_policy := NON_PREEMPTIVE, sched_policy := CYCLE_EXECUTIVE\<rparr>)"
  using assms
  by (simp_all add: configure_task_scheduling_def getFirstChild_def
        xml_children_def ptr_name_def xmlGetValueGen_def tree_lib_def is_reference_def
        getSchedulerPolicyNode_def getSchedulerTriggeringPolicy_def shown_def used_def TimeSliceEnabled_def
        set_triggering_policy_def getSchedulerPolicy_def configure_policy_def set_earliest_deadline_first_def
        set_dynamic_priorities_policy_def set_policy_def example_elab_def)

theorem described_schedulers_witness:
  "\<exists>ss. create_SW_platform (front_example software_example) example_elab example_store example_names
       (\<lambda>_. raw_scheduler) = Inr ss \<and> length ss = 2
     \<and> map sched_policy ss = [DYNAMIC_PRIORITIES, CYCLE_EXECUTIVE]"
proof -
  let ?x = "front_example software_example"
  from software_nodes(1) obtain up where nodes:
    "node_set_of ?x ''/system/platform/SW_platform/rtos'' =
     Some [(rtos_example ''r'' [(''policy'', ''EDF''), (''triggering'', ''preemptive'')], up),
           (rtos_example ''s'' [(''policy'', ''cycle_executive'')], up)]" ..
  have verb: "\<not> global_kista_xml_verbosity ?x" by (simp add: front_example_sel)
  note made = rtos_example_made [OF front_example_sel(1) verb]
  note policies = example_policies [OF front_example_sel(1) verb]
  let ?r = "create_rtos ?x example_elab example_store example_names (\<lambda>_. raw_scheduler)"
  have "\<exists>r. ?r 0 (rtos_example ''r'' [(''policy'', ''EDF''), (''triggering'', ''preemptive'')], up) = Inr r
      \<and> sched_policy r = DYNAMIC_PRIORITIES"
    by (subst made, simp, simp, subst policies, simp)
  then obtain r where r: "?r 0 (rtos_example ''r'' [(''policy'', ''EDF''), (''triggering'', ''preemptive'')], up) = Inr r"
    "sched_policy r = DYNAMIC_PRIORITIES" by blast
  have "\<exists>s. ?r (Suc 0) (rtos_example ''s'' [(''policy'', ''cycle_executive'')], up) = Inr s
      \<and> sched_policy s = CYCLE_EXECUTIVE"
    by (subst made, simp, simp, subst policies, simp)
  then obtain s where s: "?r (Suc 0) (rtos_example ''s'' [(''policy'', ''cycle_executive'')], up) = Inr s"
    "sched_policy s = CYCLE_EXECUTIVE" by blast
  have ss: "create_SW_platform ?x example_elab example_store example_names (\<lambda>_. raw_scheduler) = Inr [r, s]"
    by (simp add: create_SW_platform_def getRTOS_def nodes r(1) s(1))
  from described_schedulers [OF ss] ss r(2) s(2) show ?thesis by auto
qed

theorem tasks_allocated_exactly_witness:
  "\<exists>s. create_app_to_platform_mapping (front_example software_example) example_elab [''a'', ''b'']
       [default_scheduler raw_scheduler ''r''] = Inr [s] \<and> tasks_assigned s = Taskset [''a'', ''b'']"
proof -
  let ?o = "\<lambda>p. the (prop_of ''source'' p)" and ?t = "\<lambda>p. the (prop_of ''target'' p)"
  from software_nodes(2) obtain up where nodes:
    "node_set_of (front_example software_example) ''/system/application_mapping/map_task'' =
     Some [(Xml_Node ''map_task'' [(''source'', ''b''), (''target'', ''r'')] [], up),
           (Xml_Node ''map_task'' [(''source'', ''a''), (''target'', ''r'')] [], up)]" (is "_ = Some ?ps") ..
  have vals: "\<forall>p \<in> set ?ps. xmlGetValueGen (front_example software_example) p ''source'' = Inr (Some (?o p))
      \<and> xmlGetValueGen (front_example software_example) p ''target'' = Inr (Some (?t p))"
    by (simp add: xmlGetValueGen_def front_example_sel tree_lib_def is_reference_def prop_of_def)
  have set: "mapped_to ?o ?t ?ps ''r'' = {''a'', ''b''}" by (auto simp: mapped_to_simps prop_of_def)
  have sorted: "sorted_list_of_set {''a'', ''b''} = [''a'', ''b'']" by (simp add: less_char_def)
  show ?thesis
    using tasks_allocated_exactly [OF nodes _ _ _ vals, of example_elab "[''a'', ''b'']"
        "[default_scheduler raw_scheduler ''r'']"] set sorted
    by (simp add: example_elab_def default_scheduler_def new_scheduler_def prop_of_def)
qed

end
