(* ===== verification/Xml_Functions.thy ===== *)
theory Xml_Functions
  imports Xml_Values
begin

text \<open>
  The functions that a description names: \<open>get_node_function\<close> of \<open>xml_if/create_application.cpp\<close>,
  \<open>get_env_task_function\<close> of \<open>xml_if/create_environment.cpp\<close>, and \<open>xml_if/create_global_init.cpp\<close>, the hooks
  a run calls, with the callbacks of the environment module \<open>sc_env\<close> of \<open>xml_if/kista_xml.cpp\<close>.

  The dynamic loader is a parameter: \<open>dl_open\<close> gives the handle of a library, \<open>dl_sym\<close> the address of a
  symbol, which may be null, or an error. \<open>call\<close> runs the function at an address; it may change the
  parameters that the front end holds and the rest of the program, \<open>'w\<close>.
\<close>

record dl_lib =
  dl_open :: "string \<Rightarrow> nat option"
  dl_sym :: "nat \<Rightarrow> string \<Rightarrow> nat option option"

definition library_path :: "string option \<Rightarrow> string \<Rightarrow> string" where
  "library_path path file = (case path of None \<Rightarrow> ''.'' | Some p \<Rightarrow> p) @ ''/'' @ file"

text \<open>
  The attributes of a function node \<open>p\<close>. \<open>err\<close> reports a message that names the owner of the function;
  \<open>warn\<close> is the use of that name in the warning about a missing path.
\<close>

definition load_function ::
    "xml_front \<Rightarrow> dl_lib \<Rightarrow> (string \<Rightarrow> nat option result) \<Rightarrow> unit result \<Rightarrow> xml_ptr \<Rightarrow> string
       \<Rightarrow> nat option result" where
  "load_function x dl err warn p fun_name =
     rbind (xmlGetValueGen x p ''file'') (\<lambda>fun_file.
     case fun_file of
       None \<Rightarrow> err ''The object file was not provided''
     | Some file \<Rightarrow>
         rbind (xmlGetValueGen x p ''path'') (\<lambda>path.
         rbind (if path = None then warn else Inr ()) (\<lambda>_.
         case dl_open dl (library_path path file) of
           None \<Rightarrow> err (''Failure opening the dynamic library '' @ library_path path file)
         | Some handle \<Rightarrow>
             (case dl_sym dl handle fun_name of
                None \<Rightarrow> err (''Symbol '' @ fun_name @ '' could not be loaded'')
              | Some f \<Rightarrow> Inr f))))"

text \<open>A null result: there is no such node, or the symbol is null.\<close>

definition get_node_function ::
    "xml_front \<Rightarrow> dl_lib \<Rightarrow> xml_ptr \<Rightarrow> string \<Rightarrow> string option \<Rightarrow> string \<Rightarrow> nat option result" where
  "get_node_function x dl cur node_type owner function_tag_name =
     (let err = (\<lambda>m. report_with (m @ '' of '' @ node_type @ '' '') owner ''.'')
      in case getFirstChild cur function_tag_name of
           None \<Rightarrow> rmap (\<lambda>_. None) (shown x owner)
         | Some p \<Rightarrow>
             rbind (xmlGetValueGen x p ''name'') (\<lambda>fun_name.
             case fun_name of
               None \<Rightarrow> err (''No name was given to '' @ function_tag_name)
             | Some n \<Rightarrow>
                 (if n = '''' then err (''No name was given to '' @ function_tag_name)
                  else load_function x dl err (shown x owner) p n)))"

definition get_env_task_function :: "xml_front \<Rightarrow> dl_lib \<Rightarrow> xml_ptr \<Rightarrow> string \<Rightarrow> nat option result" where
  "get_env_task_function x dl cur env_task_name =
     (let err = (\<lambda>m. report (m @ '' of environment task '' @ env_task_name @ ''.''))
      in case getFirstChild cur ''function'' of
           None \<Rightarrow> err ''No functionality''
         | Some p \<Rightarrow>
             rbind (xmlGetValueGen x p ''name'') (\<lambda>fun_name.
             case fun_name of
               None \<Rightarrow> err ''No name''
             | Some n \<Rightarrow> load_function x dl err (Inr ()) p n))"

definition get_function :: "xml_front \<Rightarrow> dl_lib \<Rightarrow> xml_ptr \<Rightarrow> string \<Rightarrow> nat option result" where
  "get_function x dl cur function_purpose =
     (let err = (\<lambda>m. report (m @ '' for '' @ function_purpose @ ''.''))
      in rbind (xmlGetValueGen x cur ''name'') (\<lambda>fun_name.
         case fun_name of
           None \<Rightarrow> err ''Functionality not provided''
         | Some n \<Rightarrow> load_function x dl err (Inr ()) cur n))"

subsection \<open>Hooks\<close>

type_synonym 'w hook_call = "nat \<Rightarrow> xml_front \<times> 'w \<Rightarrow> (xml_front \<times> 'w) result"

definition call_hook :: "'w hook_call \<Rightarrow> nat option \<Rightarrow> xml_front \<times> 'w \<Rightarrow> (xml_front \<times> 'w) result" where
  "call_hook call f s = (case f of None \<Rightarrow> undef ''null function'' | Some a \<Rightarrow> call a s)"

fun call_global_inits ::
    "'w hook_call \<Rightarrow> dl_lib \<Rightarrow> xml_ptr list \<Rightarrow> xml_front \<times> 'w \<Rightarrow> (xml_front \<times> 'w) result" where
  "call_global_inits call dl [] s = Inr s"
| "call_global_inits call dl (p # ps) s =
     rbind (get_function (fst s) dl p ''application global init'') (\<lambda>f.
     rbind (call_hook call f s) (call_global_inits call dl ps))"

definition create_global_system_init ::
    "'w hook_call \<Rightarrow> dl_lib \<Rightarrow> xml_front \<times> 'w \<Rightarrow> (xml_front \<times> 'w) result" where
  "create_global_system_init call dl s =
     (case node_set_of (fst s) ''/system/application/global_init'' of
        None \<Rightarrow> Inr s
      | Some ps \<Rightarrow> call_global_inits call dl ps s)"

text \<open>The only function of a query that selects one node.\<close>

definition single_function :: "xml_front \<Rightarrow> dl_lib \<Rightarrow> xml_ptr list \<Rightarrow> string \<Rightarrow> nat option result" where
  "single_function x dl ps purpose =
     (case ps of
        [] \<Rightarrow> undef ''empty node set''
      | p # r \<Rightarrow>
          (if r \<noteq> [] then report (''More than one function specified for '' @ purpose)
           else get_function x dl p purpose))"

definition hook_for_param_declaration ::
    "'w hook_call \<Rightarrow> dl_lib \<Rightarrow> xml_front \<times> 'w \<Rightarrow> (xml_front \<times> 'w) result" where
  "hook_for_param_declaration call dl s =
     (case node_set_of (fst s) ''/system/parameters/src_param_declaration'' of
        None \<Rightarrow> Inr s
      | Some ps \<Rightarrow>
          rbind (single_function (fst s) dl ps ''hook function for global parameters declaration from sources'')
            (\<lambda>f. call_hook call f s))"

subsection \<open>The environment module\<close>

text \<open>No constructor sets the members; \<open>raw\<close> is the storage of the object.\<close>

record sc_env =
  global_env_init :: "nat option"
  global_env_end :: "nat option"

definition set_global_env_init :: "nat option \<Rightarrow> sc_env \<Rightarrow> sc_env" where
  "set_global_env_init f v = v\<lparr>global_env_init := f\<rparr>"

definition set_global_env_end :: "nat option \<Rightarrow> sc_env \<Rightarrow> sc_env" where
  "set_global_env_end f v = v\<lparr>global_env_end := f\<rparr>"

text \<open>
  The pointer to the module is indeterminate, here \<open>None\<close>, when no environment was created.
\<close>

definition set_env_hook ::
    "xml_front \<Rightarrow> dl_lib \<Rightarrow> string \<Rightarrow> string \<Rightarrow> (nat option \<Rightarrow> sc_env \<Rightarrow> sc_env) \<Rightarrow> sc_env option
       \<Rightarrow> sc_env option result" where
  "set_env_hook x dl path purpose set_it v =
     (case node_set_of x path of
        None \<Rightarrow> Inr v
      | Some ps \<Rightarrow>
          rbind (single_function x dl ps purpose) (\<lambda>f.
            case v of None \<Rightarrow> undef ''indeterminate pointer'' | Some w \<Rightarrow> Inr (Some (set_it f w))))"

definition create_global_env_init :: "xml_front \<Rightarrow> dl_lib \<Rightarrow> sc_env option \<Rightarrow> sc_env option result" where
  "create_global_env_init x dl v =
     set_env_hook x dl ''/system/environment/global_init'' ''environment global init'' set_global_env_init v"

definition create_global_env_end :: "xml_front \<Rightarrow> dl_lib \<Rightarrow> sc_env option \<Rightarrow> sc_env option result" where
  "create_global_env_end x dl v =
     set_env_hook x dl ''/system/environment/global_end'' ''environment global end'' set_global_env_end v"

text \<open>
  The callbacks of the module: before the end of elaboration one process is created for each
  environment task of the table, in the order of the names, and the initialisation is called.
\<close>

definition env_before_end_of_elaboration ::
    "'w hook_call \<Rightarrow> (string \<times> nat option) list \<Rightarrow> sc_env \<Rightarrow> xml_front \<times> 'w
       \<Rightarrow> ((nat option \<times> string) list \<times> xml_front \<times> 'w) result" where
  "env_before_end_of_elaboration call env_tasks v s =
     rmap (\<lambda>s1. (map (\<lambda>(n, f). (f, n)) env_tasks, s1))
       (case global_env_init v of None \<Rightarrow> Inr s | Some a \<Rightarrow> call a s)"

definition env_end_of_simulation ::
    "'w hook_call \<Rightarrow> sc_env \<Rightarrow> xml_front \<times> 'w \<Rightarrow> (xml_front \<times> 'w) result" where
  "env_end_of_simulation call v s =
     (case global_env_end v of None \<Rightarrow> Inr s | Some a \<Rightarrow> call a s)"

end
