(* ===== verification/Xml_Application.thy ===== *)
theory Xml_Application
  imports Xml_Functions Task_Info "HOL-Library.Char_ord" "HOL-Library.List_Lexorder"
begin

text \<open>
  The tasks of a description: the first part of \<open>xml_if/create_application.cpp\<close> and
  \<open>xml_if/create_environment.cpp\<close>. The properties of a task are read from its node and from the nodes of
  the application that name it; its function is loaded.

  \<open>raw j\<close> is the storage of the \<open>j\<close>-th task object, \<open>kn n j\<close> the name the kernel gives to its module when
  the name asked for is \<open>n\<close>. A task object is paired with its function.
\<close>

datatype functionality = Loaded nat | Default_Collaborative

type_synonym described_task = "task_info_t \<times> functionality"

subsection \<open>Properties of a task\<close>

definition hasWCET :: "xml_ptr \<Rightarrow> bool" where
  "hasWCET cur = hasChild cur ''WCET''"

definition hasWCEI :: "xml_ptr \<Rightarrow> bool" where
  "hasWCEI cur = hasChild cur ''WCEI''"

definition hasPriority :: "xml_ptr \<Rightarrow> bool" where
  "hasPriority cur = hasChild cur ''priority''"

definition hasPeriod :: "xml_ptr \<Rightarrow> bool" where
  "hasPeriod cur = hasChild cur ''period''"

definition hasDeadline :: "xml_ptr \<Rightarrow> bool" where
  "hasDeadline cur = hasChild cur ''deadline''"

text \<open>A time of a node, in seconds unless it has a unit; a node without a value changes nothing.\<close>

definition read_task_time ::
    "(sc_time \<Rightarrow> task_info_t \<Rightarrow> task_info_t result) \<Rightarrow> xml_front \<Rightarrow> xml_ptr \<Rightarrow> task_info_t \<Rightarrow> task_info_t result" where
  "read_task_time set_it x cur t =
     rbind (xmlGetValueGen x cur ''value'') (\<lambda>v.
     case v of
       None \<Rightarrow> Inr t
     | Some s \<Rightarrow>
         rbind (xmlGetValueGen x cur ''unit'') (\<lambda>u.
         rbind (sc_time_sec (conv_value_by_unit (atof s) u None)) (\<lambda>w. set_it w t)))"

definition readWCET :: "xml_front \<Rightarrow> sim_env \<Rightarrow> xml_ptr \<Rightarrow> task_info_t \<Rightarrow> task_info_t result" where
  "readWCET x e cur t = read_task_time (set_WCET e) x cur t"

definition readPeriod :: "xml_front \<Rightarrow> sim_env \<Rightarrow> xml_ptr \<Rightarrow> task_info_t \<Rightarrow> task_info_t result" where
  "readPeriod x e cur t = read_task_time (set_Period e) x cur t"

definition readDeadline :: "xml_front \<Rightarrow> sim_env \<Rightarrow> xml_ptr \<Rightarrow> task_info_t \<Rightarrow> task_info_t result" where
  "readDeadline x e cur t = read_task_time (set_Deadline e) x cur t"

text \<open>An unknown unit of the instructions only raises a message.\<close>

definition readWCEI :: "xml_front \<Rightarrow> sim_env \<Rightarrow> xml_ptr \<Rightarrow> task_info_t \<Rightarrow> task_info_t result" where
  "readWCEI x e cur t =
     rbind (xmlGetValueGen x cur ''value'') (\<lambda>v.
     case v of
       None \<Rightarrow> Inr t
     | Some s \<Rightarrow>
         rbind (atou s) (\<lambda>n.
         rbind (xmlGetValueGen x cur ''unit'') (\<lambda>_. set_WCEI e (ucast n) t)))"

text \<open>A missing priority is reported as an information and then read from the null pointer.\<close>

definition readPriority :: "xml_front \<Rightarrow> sim_env \<Rightarrow> xml_ptr \<Rightarrow> task_info_t \<Rightarrow> task_info_t result" where
  "readPriority x e cur t =
     rbind (xmlGetValueGen x cur ''value'') (\<lambda>v.
     case v of
       None \<Rightarrow> undef ''null string''
     | Some s \<Rightarrow> rbind (atou s) (\<lambda>n. set_priority e n t))"

definition read_child ::
    "string \<Rightarrow> (xml_ptr \<Rightarrow> task_info_t \<Rightarrow> task_info_t result) \<Rightarrow> xml_ptr \<Rightarrow> task_info_t \<Rightarrow> task_info_t result" where
  "read_child n f p t = (case getFirstChild p n of None \<Rightarrow> Inr t | Some c \<Rightarrow> f c t)"

definition read_properties :: "xml_front \<Rightarrow> sim_env \<Rightarrow> xml_ptr \<Rightarrow> task_info_t \<Rightarrow> task_info_t result" where
  "read_properties x e p t =
     rbind (read_child ''WCET'' (readWCET x e) p t) (\<lambda>t1.
     rbind (read_child ''WCEI'' (readWCEI x e) p t1) (\<lambda>t2.
     rbind (read_child ''priority'' (readPriority x e) p t2) (\<lambda>t3.
     rbind (read_child ''period'' (readPeriod x e) p t3) (\<lambda>t4.
       read_child ''deadline'' (readDeadline x e) p t4))))"

definition has_properties :: "xml_ptr \<Rightarrow> bool" where
  "has_properties p = (hasWCET p \<or> hasWCEI p \<or> hasPriority p \<or> hasPeriod p \<or> hasDeadline p)"

definition getTaskPropertiesFromApplication :: "xml_front \<Rightarrow> xml_ptr list option" where
  "getTaskPropertiesFromApplication x = node_set_of x ''/system/application/task_properties''"

text \<open>The loops over the nodes keep whether a property was found.\<close>

fun own_properties ::
    "xml_front \<Rightarrow> sim_env \<Rightarrow> xml_ptr list \<Rightarrow> bool \<times> task_info_t \<Rightarrow> (bool \<times> task_info_t) result" where
  "own_properties x e [] ft = Inr ft"
| "own_properties x e (c # cs) ft =
     (if ptr_name c = ''task_properties'' then
        rbind (read_properties x e c (snd ft)) (\<lambda>t1. own_properties x e cs (fst ft \<or> has_properties c, t1))
      else own_properties x e cs ft)"

fun application_properties ::
    "xml_front \<Rightarrow> sim_env \<Rightarrow> xml_ptr list \<Rightarrow> bool \<times> task_info_t \<Rightarrow> (bool \<times> task_info_t) result" where
  "application_properties x e [] ft = Inr ft"
| "application_properties x e (p # ps) ft =
     rbind (xmlGetValueGen x p ''task_name'') (\<lambda>n.
     case n of
       None \<Rightarrow> report ''Task Property hanging from application section does not refer to any task.''
     | Some s \<Rightarrow>
         (if s = task_name (snd ft) then
            rbind (read_properties x e p (snd ft))
              (\<lambda>t1. application_properties x e ps (fst ft \<or> has_properties p, t1))
          else application_properties x e ps ft))"

text \<open>
  The last message of a verbose run is appended the name of the last node of the application, a
  variable that is not set when there is none.
\<close>

definition getTaskProperties :: "xml_front \<Rightarrow> sim_env \<Rightarrow> xml_ptr \<Rightarrow> task_info_t \<Rightarrow> task_info_t result" where
  "getTaskProperties x e cur t =
     rbind (own_properties x e (xml_children cur) (False, t)) (\<lambda>ft.
     case getTaskPropertiesFromApplication x of
       None \<Rightarrow>
         (if \<not> fst ft \<and> global_kista_xml_verbosity x then undef ''indeterminate string'' else Inr (snd ft))
     | Some ps \<Rightarrow> rmap snd (application_properties x e ps ft))"

subsection \<open>Applications\<close>

definition getTasks :: "xml_front \<Rightarrow> xml_ptr list result" where
  "getTasks x =
     (case node_set_of x ''/system/application/task'' of
        None \<Rightarrow> report ''Application creation failed. No Task was read in the XML input.''
      | Some ps \<Rightarrow> Inr ps)"

definition getNumberOfTasks :: "xml_front \<Rightarrow> nat result" where
  "getNumberOfTasks x = rmap length (getTasks x)"

definition getApplications :: "xml_front \<Rightarrow> xml_ptr list result" where
  "getApplications x =
     (case node_set_of x ''/system/application'' of
        None \<Rightarrow> report ''Application creation failed. No Application was read in the XML input.''
      | Some ps \<Rightarrow> Inr ps)"

definition getNumberOfApplications :: "xml_front \<Rightarrow> nat result" where
  "getNumberOfApplications x = rmap length (getApplications x)"

definition getOwnerAppName :: "xml_front \<Rightarrow> xml_ptr \<Rightarrow> string result" where
  "getOwnerAppName x task_node =
     (case xml_parent task_node of
        None \<Rightarrow> report ''Unexpected error while retrieving owner application name for a task''
      | Some app_node \<Rightarrow>
          rbind (xmlGetValueGen x app_node ''name'') (\<lambda>name.
          case name of
            None \<Rightarrow> report ''Application parent node found, but no name could be retrieved.''
          | Some n \<Rightarrow> Inr n))"

fun create_application_instances ::
    "xml_front \<Rightarrow> xml_ptr list \<Rightarrow> kista_globals \<Rightarrow> kista_globals result" where
  "create_application_instances x [] g = Inr g"
| "create_application_instances x (p # ps) g =
     rbind (xmlGetValueGen x p ''name'') (\<lambda>name.
     case name of
       None \<Rightarrow> report ''No name found for an Application.''
     | Some n \<Rightarrow> create_application_instances x ps (new_application n g))"

text \<open>The number of applications; a single one is the implicit application, which has no object.\<close>

definition create_applications :: "xml_front \<Rightarrow> kista_globals \<Rightarrow> (nat \<times> kista_globals) result" where
  "create_applications x g =
     rbind (getNumberOfApplications x) (\<lambda>n.
     if n = 0 then report ''No applications captured''
     else if n = 1 then Inr (n, g)
     else rbind (getApplications x) (\<lambda>ps. rmap (\<lambda>g1. (n, g1)) (create_application_instances x ps g)))"

subsection \<open>Tasks\<close>

text \<open>
  \<open>task_p\<close> is the variable that holds the task: the message of a verbose run about a missing function is
  appended the name of the task it points to, the one created before, if any.
\<close>

definition select_functionality ::
    "xml_front \<Rightarrow> described_task option \<Rightarrow> nat option \<Rightarrow> functionality result" where
  "select_functionality x task_p f =
     (case f of
        Some a \<Rightarrow> Inr (Loaded a)
      | None \<Rightarrow>
          (if global_kista_xml_verbosity x \<and> task_p = None then undef ''indeterminate pointer''
           else Inr Default_Collaborative))"

definition new_described_task ::
    "nat \<Rightarrow> task_info_t \<Rightarrow> string \<Rightarrow> string \<Rightarrow> kista_globals \<Rightarrow> (task_info_t \<times> kista_globals) result" where
  "new_described_task n_apps raw name app_name g =
     (if n_apps > 1 then new_task_info_of_app raw name app_name SYSTEM_TASK g
      else new_task_info raw name SYSTEM_TASK g)"

definition create_task ::
    "xml_front \<Rightarrow> sim_env \<Rightarrow> dl_lib \<Rightarrow> (string \<Rightarrow> nat \<Rightarrow> string) \<Rightarrow> (nat \<Rightarrow> task_info_t) \<Rightarrow> nat \<Rightarrow> nat
       \<Rightarrow> described_task option \<Rightarrow> xml_ptr \<Rightarrow> kista_globals \<Rightarrow> (described_task \<times> kista_globals) result" where
  "create_task x e dl kn raw n_apps j task_p node g =
     rbind (xmlGetValueGen x node ''name'') (\<lambda>name.
     case name of
       None \<Rightarrow> report ''No name found for a task.''
     | Some n \<Rightarrow>
         rbind (if n_apps > 1 then getOwnerAppName x node else Inr '''') (\<lambda>app_name.
         rbind (get_node_function x dl node ''Task'' (Some n) ''function'') (\<lambda>fp.
         rbind (select_functionality x task_p fp) (\<lambda>f.
         rbind (new_described_task n_apps (raw j) (kn n j) app_name g) (\<lambda>(t, g1).
           rmap (\<lambda>t1. ((t1, f), g1)) (getTaskProperties x e node t))))))"

fun create_task_list ::
    "(nat \<Rightarrow> described_task option \<Rightarrow> xml_ptr \<Rightarrow> kista_globals \<Rightarrow> (described_task \<times> kista_globals) result)
       \<Rightarrow> nat \<Rightarrow> described_task option \<Rightarrow> xml_ptr list \<Rightarrow> kista_globals
       \<Rightarrow> (described_task list \<times> kista_globals) result" where
  "create_task_list f j task_p [] g = Inr ([], g)"
| "create_task_list f j task_p (p # ps) g =
     rbind (f j task_p p g) (\<lambda>(t, g1).
     rmap (\<lambda>(ts, g2). (t # ts, g2)) (create_task_list f (Suc j) (Some t) ps g1))"

definition create_system_tasks ::
    "xml_front \<Rightarrow> sim_env \<Rightarrow> dl_lib \<Rightarrow> (string \<Rightarrow> nat \<Rightarrow> string) \<Rightarrow> (nat \<Rightarrow> task_info_t) \<Rightarrow> nat
       \<Rightarrow> kista_globals \<Rightarrow> (described_task list \<times> kista_globals) result" where
  "create_system_tasks x e dl kn raw n_apps g =
     rbind (getNumberOfTasks x) (\<lambda>n.
     rbind (check (\<not> n < 1) ''Application creation failed. No Task was detected.'') (\<lambda>_.
     rbind (getTasks x) (\<lambda>ps. create_task_list (create_task x e dl kn raw n_apps) 0 None ps g)))"

subsection \<open>The environment\<close>

text \<open>The table of environment tasks, a map ordered by name; a later task replaces an earlier one.\<close>

type_synonym env_tasks = "(string \<times> task_info_t \<times> nat option) list"

definition getEnvTasks :: "xml_front \<Rightarrow> xml_ptr list option" where
  "getEnvTasks x = node_set_of x ''/system/environment/task''"

definition getNumberOfEnvTasks :: "xml_front \<Rightarrow> nat" where
  "getNumberOfEnvTasks x = (case getEnvTasks x of None \<Rightarrow> 0 | Some ps \<Rightarrow> length ps)"

fun create_env_tasks ::
    "xml_front \<Rightarrow> dl_lib \<Rightarrow> (string \<Rightarrow> nat \<Rightarrow> string) \<Rightarrow> (nat \<Rightarrow> task_info_t) \<Rightarrow> nat \<Rightarrow> xml_ptr list
       \<Rightarrow> env_tasks \<times> kista_globals \<Rightarrow> (env_tasks \<times> kista_globals) result" where
  "create_env_tasks x dl kn raw j [] s = Inr s"
| "create_env_tasks x dl kn raw j (p # ps) s =
     rbind (xmlGetValueGen x p ''name'') (\<lambda>name.
     case name of
       None \<Rightarrow> report ''No name found for an environment task.''
     | Some n \<Rightarrow>
         rbind (get_env_task_function x dl p n) (\<lambda>f.
         rbind (new_task_info (raw j) (kn n j) ENV_TASK (snd s)) (\<lambda>(t, g1).
           create_env_tasks x dl kn raw (Suc j) ps (table_set n (t, f) (fst s), g1))))"

definition create_environment ::
    "xml_front \<Rightarrow> dl_lib \<Rightarrow> (string \<Rightarrow> nat \<Rightarrow> string) \<Rightarrow> (nat \<Rightarrow> task_info_t)
       \<Rightarrow> env_tasks \<times> kista_globals \<Rightarrow> (bool \<times> env_tasks \<times> kista_globals) result" where
  "create_environment x dl kn raw s =
     rmap (\<lambda>s1. (fst s1 \<noteq> [], s1))
       (if getNumberOfEnvTasks x < 1 then Inr s
        else case getEnvTasks x of None \<Rightarrow> undef ''null node set'' | Some ps \<Rightarrow> create_env_tasks x dl kn raw 0 ps s)"

end
