(* ===== verification/Xml_Channels.thy ===== *)
theory Xml_Channels
  imports Xml_Application Fifo_Buffer
begin

text \<open>
  The channels of a description: the second part of \<open>create_tasks\<close> of \<open>xml_if/create_application.cpp\<close>. Each
  \<open>comm_synch\<close> node is checked against the tasks of the system and of the environment, and becomes a
  channel of the type of its data.

  The nine tables of channels, one for each type of data, are one function of the name of the type. A
  channel object is a cell of \<open>channel_at\<close> at the address that the parameter \<open>addr\<close> gives; \<open>gen\<close> is
  \<open>sc_gen_unique_name\<close>; both are indexed by the position of the node.
\<close>

record ('a, 'h, 'f, 's) channel_tables =
  channel_links :: "'a link_tables"
  channel_at :: "link_ptr \<Rightarrow> ('a, 'h, 'f, 's) fifo_buffer option"
  channel_order :: "link_ptr list"
  fb_map :: "string \<Rightarrow> string \<rightharpoonup> link_ptr"

definition getCommSynchNodes :: "xml_front \<Rightarrow> xml_ptr list option" where
  "getCommSynchNodes x = node_set_of x ''/system/application/comm_synch''"

definition sup_comm :: "string list" where
  "sup_comm = [''fifo_buffer'']"

definition sup_comm_dt :: "string list" where
  "sup_comm_dt = [''unsigned'', ''int'', ''ushort'', ''short'', ''float'', ''double'', ''char'', ''voidp'', ''message'']"

definition supported_communication :: "string \<Rightarrow> bool" where
  "supported_communication t = (t \<in> set sup_comm)"

definition supported_communication_data_type :: "string \<Rightarrow> bool" where
  "supported_communication_data_type t = (t \<in> set sup_comm_dt)"

subsection \<open>Checks\<close>

definition read_io :: "xml_front \<Rightarrow> xml_ptr \<Rightarrow> string option \<Rightarrow> bool result" where
  "read_io x p name =
     rbind (xmlGetValueGen x p ''io'') (\<lambda>io.
     case io of
       None \<Rightarrow> Inr False
     | Some s \<Rightarrow>
         (if s = ''true'' \<or> s = ''yes'' then Inr True
          else if s = ''false'' \<or> s = ''no'' then Inr False
          else report_with ''io specification of the communication&synchronization '' name
                 '' has to be either true (or yes) or false (or no) (default unless specified).''))"

text \<open>
  Where the tasks of the two ends are: the names of the system tasks, and those of the environment when
  there is one.
\<close>

definition in_environment :: "bool \<Rightarrow> env_tasks \<Rightarrow> string \<Rightarrow> bool" where
  "in_environment create_env_flag env n = (create_env_flag \<and> map_of env n \<noteq> None)"

definition check_declared :: "string option \<Rightarrow> bool \<Rightarrow> bool \<Rightarrow> string \<Rightarrow> unit result" where
  "check_declared name in_sys in_env msg =
     (if \<not> in_sys \<and> \<not> in_env
      then report_with (msg @ '' of communication&synchronization '') name
             '' was declared neither as a System Task, nor as an Environment Task.''
      else Inr ())"

text \<open>The ends of an I/O channel and of a channel of the system.\<close>

definition check_io_ends :: "string option \<Rightarrow> bool \<times> bool \<Rightarrow> bool \<times> bool \<Rightarrow> unit result" where
  "check_io_ends name s d =
     (case (s, d) of ((src_sys, src_env), (dest_sys, dest_env)) \<Rightarrow>
        if src_sys \<and> dest_sys
        then report_with ''Both ends of I/O communication&synchronization '' name '' are System Tasks.''
        else if src_env \<and> dest_env
        then report_with ''Both ends of I/O communication&synchronization '' name '' are Environment System Tasks.''
        else Inr ())"

definition check_system_ends :: "string option \<Rightarrow> bool \<Rightarrow> bool \<Rightarrow> unit result" where
  "check_system_ends name src_env dest_env =
     (if src_env \<and> dest_env
      then report_with ''Both ends of System (internal) communication&synchronization '' name '' are Environment Tasks.''
      else if src_env
      then report_with ''Source Task of System (internal) communication&synchronization '' name '' is an Environment Task.''
      else if dest_env
      then report_with ''Destination Task of System (internal) communication&synchronization '' name
             '' is an Environment Task.''
      else Inr ())"

definition check_ends ::
    "string option \<Rightarrow> bool \<Rightarrow> bool \<times> bool \<Rightarrow> bool \<times> bool \<Rightarrow> unit result" where
  "check_ends name io s d =
     rbind (check_declared name (fst s) (snd s) ''Source Task'') (\<lambda>_.
     rbind (check_declared name (fst d) (snd d) ''Destination Task'') (\<lambda>_.
       if io then check_io_ends name s d else check_system_ends name (snd s) (snd d)))"

text \<open>A null type is the argument of the constructor of a \<open>std::string\<close>.\<close>

definition read_comm_type :: "xml_front \<Rightarrow> xml_ptr \<Rightarrow> string option \<Rightarrow> string result" where
  "read_comm_type x p name =
     rbind (xmlGetValueGen x p ''comm_type'') (\<lambda>v.
     rbind (used v) (\<lambda>t.
       if supported_communication t then Inr t
       else report_with (''Communication of type '' @ t @ '' stated for the the communication&synchronization '')
              name '' is not currently supported by the KisTA XML interface.''))"

definition read_comm_data_type :: "xml_front \<Rightarrow> xml_ptr \<Rightarrow> string option \<Rightarrow> string result" where
  "read_comm_data_type x p name =
     rbind (xmlGetValueGen x p ''comm_data_type'') (\<lambda>v.
     rbind (used v) (\<lambda>t.
       if supported_communication_data_type t then Inr t
       else report_with (''Data type '' @ t @ '' stated for the the communication&synchronization '')
              name '' is not currently supported by the KisTA XML interface.''))"

text \<open>The size is an \<open>unsigned int\<close>: a negative text gives a large one.\<close>

definition read_token_size :: "xml_front \<Rightarrow> xml_ptr \<Rightarrow> string option \<Rightarrow> u32 option result" where
  "read_token_size x p name =
     rbind (xmlGetValueGen x p ''token_size'') (\<lambda>v.
     case v of
       None \<Rightarrow> Inr None
     | Some s \<Rightarrow>
         rbind (atou s) (\<lambda>n.
           if n < 1
           then report_with (''Token size '' @ s @ '' stated for the communication&synchronization '')
                  name '' has to be a positive integer number bigger than 0 (bits).''
           else Inr (Some n)))"

subsection \<open>Construction\<close>

text \<open>The branch of each type of data: they differ in the type of the object and in the table.\<close>

definition register_channel ::
    "string \<Rightarrow> string \<Rightarrow> ('a, 'h, 'f, 's) fifo_buffer \<times> 'a link_tables
       \<Rightarrow> ('a, 'h, 'f, 's) channel_tables \<Rightarrow> ('a, 'h, 'f, 's) channel_tables" where
  "register_channel dt name cl c =
     (let a = fb_address (fst cl) in
      c\<lparr>channel_links := snd cl, channel_at := (channel_at c)(a \<mapsto> fst cl),
        channel_order := channel_order c @ [a],
        fb_map := (fb_map c)(dt := (fb_map c dt)(name \<mapsto> a))\<rparr>)"

definition configure_channel ::
    "u32 option \<Rightarrow> comm_synch_role_t \<Rightarrow> nat option \<Rightarrow> ('a, 'h, 'f, 's) fifo_buffer \<Rightarrow> ('a, 'h, 'f, 's) fifo_buffer" where
  "configure_channel tok role init ch =
     (let ch1 = (case tok of None \<Rightarrow> ch | Some n \<Rightarrow> set_message_size n ch);
          ch2 = set_role role ch1
      in if init \<noteq> None \<and> role = SYSTEM_COMMSYNCH then set_init init ch2 else ch2)"

definition create_channel ::
    "('f, 'v, 's) sc_ops \<Rightarrow> link_ptr \<Rightarrow> string \<Rightarrow> string \<Rightarrow> string \<Rightarrow> string \<Rightarrow> string \<Rightarrow> u32 option
       \<Rightarrow> comm_synch_role_t \<Rightarrow> nat option \<Rightarrow> ('a, 'h, 'f, 's) channel_tables
       \<Rightarrow> ('a, 'h, 'f, 's) channel_tables result" where
  "create_channel p a ct dt name s d tok role init c =
     (if ct = ''fifo_buffer'' then
        if supported_communication_data_type dt then
          (let cl = new_fifo_buffer_by_names p a name 16 s d (channel_links c)
           in Inr (register_channel dt name (configure_channel tok role init (fst cl), snd cl) c))
        else report (''Data type '' @ dt @ '' stated for the the communication&synchronization '' @ name
               @ '' is not currently supported by the KisTA XML interface.'')
      else report (''Communication of type '' @ ct @ '' stated for the the communication&synchronization '' @ name
             @ '' is not currently supported by the KisTA XML interface.''))"

text \<open>The ends: they are read before the role, and looked up after it.\<close>

definition read_ends :: "xml_front \<Rightarrow> xml_ptr \<Rightarrow> (string option \<times> string option) result" where
  "read_ends x p =
     rbind (xmlGetValueGen x p ''src'') (\<lambda>s.
     rbind (xmlGetValueGen x p ''dest'') (\<lambda>d.
     rbind (shown x s) (\<lambda>_.
     rbind (shown x d) (\<lambda>_. Inr (s, d)))))"

definition create_comm_synch ::
    "xml_front \<Rightarrow> dl_lib \<Rightarrow> ('f, 'v, 's) sc_ops \<Rightarrow> (nat \<Rightarrow> link_ptr) \<Rightarrow> (string \<Rightarrow> nat \<Rightarrow> string)
       \<Rightarrow> (string \<Rightarrow> bool) \<Rightarrow> (string \<Rightarrow> bool) \<Rightarrow> nat \<Rightarrow> xml_ptr
       \<Rightarrow> ('a, 'h, 'f, 's) channel_tables \<Rightarrow> (bool \<times> ('a, 'h, 'f, 's) channel_tables) result" where
  "create_comm_synch x dl p addr gen in_sys in_env j node c =
     rbind (xmlGetValueGen x node ''name'') (\<lambda>name.
     rbind (read_ends x node) (\<lambda>(so, do).
     rbind (read_io x node name) (\<lambda>io.
     rbind (get_node_function x dl node ''Comm&&Synch'' name ''init_function'') (\<lambda>init.
     rbind (used so) (\<lambda>s.
     rbind (used do) (\<lambda>d.
     rbind (check_ends name io (in_sys s, in_env s) (in_sys d, in_env d)) (\<lambda>_.
     rbind (read_comm_type x node name) (\<lambda>ct.
     rbind (read_comm_data_type x node name) (\<lambda>dt.
     rbind (read_token_size x node name) (\<lambda>tok.
     rmap (\<lambda>c1. (io, c1))
       (create_channel p (addr j) ct dt (case name of None \<Rightarrow> gen ct j | Some n \<Rightarrow> n) s d tok
          (if io then IO_COMMSYNCH else SYSTEM_COMMSYNCH) init c)))))))))))"

text \<open>The number of I/O channels is the result.\<close>

fun create_channels ::
    "(nat \<Rightarrow> xml_ptr \<Rightarrow> 'c \<Rightarrow> (bool \<times> 'c) result) \<Rightarrow> nat \<Rightarrow> xml_ptr list \<Rightarrow> nat \<times> 'c \<Rightarrow> (nat \<times> 'c) result" where
  "create_channels f j [] nc = Inr nc"
| "create_channels f j (p # ps) nc =
     rbind (f j p (snd nc)) (\<lambda>(io, c1).
       create_channels f (Suc j) ps (if io then Suc (fst nc) else fst nc, c1))"

definition create_comm_synchs ::
    "xml_front \<Rightarrow> dl_lib \<Rightarrow> ('f, 'v, 's) sc_ops \<Rightarrow> (nat \<Rightarrow> link_ptr) \<Rightarrow> (string \<Rightarrow> nat \<Rightarrow> string)
       \<Rightarrow> (string \<Rightarrow> bool) \<Rightarrow> (string \<Rightarrow> bool)
       \<Rightarrow> ('a, 'h, 'f, 's) channel_tables \<Rightarrow> (nat \<times> ('a, 'h, 'f, 's) channel_tables) result" where
  "create_comm_synchs x dl p addr gen in_sys in_env c =
     (case getCommSynchNodes x of
        None \<Rightarrow> Inr (0, c)
      | Some ps \<Rightarrow> create_channels (create_comm_synch x dl p addr gen in_sys in_env) 0 ps (0, c))"

text \<open>The whole of \<open>create_tasks\<close>.\<close>

definition create_tasks ::
    "xml_front \<Rightarrow> sim_env \<Rightarrow> dl_lib \<Rightarrow> ('f, 'v, 's) sc_ops \<Rightarrow> (string \<Rightarrow> nat \<Rightarrow> string)
       \<Rightarrow> (nat \<Rightarrow> task_info_t) \<Rightarrow> (nat \<Rightarrow> link_ptr) \<Rightarrow> (string \<Rightarrow> nat \<Rightarrow> string) \<Rightarrow> bool \<Rightarrow> env_tasks \<Rightarrow> nat
       \<Rightarrow> kista_globals \<times> ('a, 'h, 'f, 's) channel_tables
       \<Rightarrow> (nat \<times> described_task list \<times> kista_globals \<times> ('a, 'h, 'f, 's) channel_tables) result" where
  "create_tasks x e dl p kn raw addr gen create_env_flag env n_apps gc =
     rbind (create_system_tasks x e dl kn raw n_apps (fst gc)) (\<lambda>(ts, g).
     rmap (\<lambda>(n, c). (n, ts, g, c))
       (create_comm_synchs x dl p addr gen (\<lambda>n. n \<in> set (task_vector g))
          (in_environment create_env_flag env) (snd gc)))"

end
