(* ===== verification/Xml_Application_Props.thy ===== *)
theory Xml_Application_Props
  imports Xml_Application
begin

text \<open>
  Properties of the tasks of a description. \<open>apply_properties\<close> is the effect of one node of properties,
  with the values it gives; \<open>property_nodes\<close> are the nodes that concern a task, in the order in which
  they are read. The value of an attribute is then the last one given.
\<close>

definition node_time :: "xml_front \<Rightarrow> xml_ptr \<Rightarrow> sc_time option result" where
  "node_time x c =
     rbind (xmlGetValueGen x c ''value'') (\<lambda>v.
     case v of
       None \<Rightarrow> Inr None
     | Some s \<Rightarrow>
         rbind (xmlGetValueGen x c ''unit'') (\<lambda>u. rmap Some (sc_time_sec (conv_value_by_unit (atof s) u None))))"

definition node_number :: "xml_front \<Rightarrow> xml_ptr \<Rightarrow> u32 option result" where
  "node_number x c =
     rbind (xmlGetValueGen x c ''value'') (\<lambda>v. case v of None \<Rightarrow> Inr None | Some s \<Rightarrow> rmap Some (atou s))"

text \<open>What the first child of a name gives, if there is one.\<close>

definition given :: "(xml_ptr \<Rightarrow> 'v option result) \<Rightarrow> string \<Rightarrow> xml_ptr \<Rightarrow> 'v option" where
  "given f n p =
     (case getFirstChild p n of None \<Rightarrow> None | Some c \<Rightarrow> (case f c of Inl _ \<Rightarrow> None | Inr v \<Rightarrow> v))"

definition with_given :: "'v option \<Rightarrow> ('v \<Rightarrow> task_info_t \<Rightarrow> task_info_t) \<Rightarrow> task_info_t \<Rightarrow> task_info_t" where
  "with_given v f t = (case v of None \<Rightarrow> t | Some a \<Rightarrow> f a t)"

definition period_effect :: "sc_time \<Rightarrow> task_info_t \<Rightarrow> task_info_t" where
  "period_effect w t =
     t\<lparr>Period := w, is_periodic_flag := True, Deadline := (if Deadline t = 0 then w else Deadline t)\<rparr>"

definition apply_properties :: "xml_front \<Rightarrow> xml_ptr \<Rightarrow> task_info_t \<Rightarrow> task_info_t" where
  "apply_properties x p t =
     with_given (given (node_time x) ''deadline'' p) (\<lambda>w t. t\<lparr>Deadline := w\<rparr>)
    (with_given (given (node_time x) ''period'' p) period_effect
    (with_given (given (node_number x) ''priority'' p) (\<lambda>n t. t\<lparr>priority := n\<rparr>)
    (with_given (given (node_number x) ''WCEI'' p) (\<lambda>n t. t\<lparr>WCEI := ucast n, WCEI_set := True\<rparr>)
    (with_given (given (node_time x) ''WCET'' p) (\<lambda>w t. t\<lparr>WCET := w, WCET_set := True\<rparr>) t))))"

definition property_nodes :: "xml_front \<Rightarrow> xml_ptr \<Rightarrow> string \<Rightarrow> xml_ptr list" where
  "property_nodes x cur n =
     filter (\<lambda>c. ptr_name c = ''task_properties'') (xml_children cur)
     @ filter (\<lambda>p. xmlGetValueGen x p ''task_name'' = Inr (Some n))
         (set_nodes (getTaskPropertiesFromApplication x))"

text \<open>The last value given by a list of nodes, or the first.\<close>

definition last_given :: "('p \<Rightarrow> 'v option) \<Rightarrow> 'p list \<Rightarrow> 'v option" where
  "last_given f ps = fold (\<lambda>p a. case f p of None \<Rightarrow> a | Some v \<Rightarrow> Some v) ps None"

definition first_given :: "('p \<Rightarrow> 'v option) \<Rightarrow> 'p list \<Rightarrow> 'v option" where
  "first_given f ps = fold (\<lambda>p a. case a of None \<Rightarrow> f p | Some v \<Rightarrow> Some v) ps None"

subsection \<open>One node\<close>

lemma read_task_time_node:
  "read_task_time set_it x c t = rbind (node_time x c) (\<lambda>w. case w of None \<Rightarrow> Inr t | Some w \<Rightarrow> set_it w t)"
  by (cases "xmlGetValueGen x c ''value''"; cases "xmlGetValueGen x c ''unit''")
    (auto simp: read_task_time_def node_time_def rmap_def rbind_def split: option.splits sum.splits)

lemma read_child_given:
  assumes "read_child n f p t = Inr t'"
    and "\<And>c s s'. f c s = Inr s' \<Longrightarrow> \<exists>v. nd c = Inr v \<and> s' = with_given v g s"
  shows "t' = with_given (given nd n p) g t"
  using assms(1) assms(2)
  by (fastforce simp: read_child_def given_def with_given_def split: option.splits dest!: assms(2))

lemma timed_given:
  assumes "read_task_time set_it x c t = Inr t'" and "\<And>w s s'. set_it w s = Inr s' \<Longrightarrow> s' = g w s"
  shows "\<exists>v. node_time x c = Inr v \<and> t' = with_given v g t"
  using assms by (auto simp: read_task_time_node rbind_eq_Inr with_given_def split: option.splits)

lemma set_period_effect: "set_Period e w t = Inr t' \<Longrightarrow> w \<noteq> 0 \<and> t' = period_effect w t"
  by (auto simp: set_Period_def period_effect_def rbind_eq_Inr Let_def split: if_splits)

lemma number_given:
  assumes "rbind (xmlGetValueGen x c ''value'') (\<lambda>v. case v of None \<Rightarrow> m | Some s \<Rightarrow> rbind (atou s) k) = Inr t'"
    and none: "m = Inr t' \<Longrightarrow> t' = t" and some: "\<And>n. k n = Inr t' \<Longrightarrow> t' = g n t"
  shows "\<exists>v. node_number x c = Inr v \<and> t' = with_given v g t"
proof -
  from assms(1) obtain v where v: "xmlGetValueGen x c ''value'' = Inr v"
    "(case v of None \<Rightarrow> m | Some s \<Rightarrow> rbind (atou s) k) = Inr t'" by (auto simp: rbind_eq_Inr)
  show ?thesis
  proof (cases v)
    case None
    with v none show ?thesis by (simp add: node_number_def with_given_def)
  next
    case (Some s)
    with v obtain n where "atou s = Inr n" "k n = Inr t'" by (auto simp: rbind_eq_Inr)
    with v(1) Some some show ?thesis by (simp add: node_number_def with_given_def)
  qed
qed

lemma readWCEI_given:
  "readWCEI x e c t = Inr t' \<Longrightarrow>
     \<exists>v. node_number x c = Inr v \<and> t' = with_given v (\<lambda>n t. t\<lparr>WCEI := ucast n, WCEI_set := True\<rparr>) t"
  unfolding readWCEI_def
  by (erule number_given) (auto simp: rbind_eq_Inr set_WCEI_def)

lemma readPriority_given:
  "readPriority x e c t = Inr t' \<Longrightarrow>
     \<exists>v. node_number x c = Inr v \<and> t' = with_given v (\<lambda>n t. t\<lparr>priority := n\<rparr>) t"
  unfolding readPriority_def
  by (erule number_given) (auto simp: rbind_eq_Inr set_priority_def)

lemma readPeriod_given:
  assumes "readPeriod x e c t = Inr t'"
  shows "\<exists>v. node_time x c = Inr v \<and> t' = with_given v period_effect t \<and> v \<noteq> Some 0"
proof -
  from assms obtain v where v: "node_time x c = Inr v"
    "(case v of None \<Rightarrow> Inr t | Some w \<Rightarrow> set_Period e w t) = Inr t'"
    by (auto simp: readPeriod_def read_task_time_node rbind_eq_Inr)
  then show ?thesis by (cases v) (auto simp: with_given_def dest: set_period_effect)
qed

lemma read_properties_effect:
  assumes "read_properties x e p t = Inr t'"
  shows "t' = apply_properties x p t" "given (node_time x) ''period'' p \<noteq> Some 0"
proof -
  from assms obtain t1 t2 t3 t4 where
    r: "read_child ''WCET'' (readWCET x e) p t = Inr t1" "read_child ''WCEI'' (readWCEI x e) p t1 = Inr t2"
      "read_child ''priority'' (readPriority x e) p t2 = Inr t3"
      "read_child ''period'' (readPeriod x e) p t3 = Inr t4"
      "read_child ''deadline'' (readDeadline x e) p t4 = Inr t'"
    by (auto simp: read_properties_def rbind_eq_Inr)
  have "t1 = with_given (given (node_time x) ''WCET'' p) (\<lambda>w t. t\<lparr>WCET := w, WCET_set := True\<rparr>) t"
    by (rule read_child_given [OF r(1)]) (auto simp: readWCET_def set_WCET_def rbind_eq_Inr dest!: timed_given)
  moreover have "t2 = with_given (given (node_number x) ''WCEI'' p)
      (\<lambda>n t. t\<lparr>WCEI := ucast n, WCEI_set := True\<rparr>) t1"
    by (rule read_child_given [OF r(2)]) (rule readWCEI_given)
  moreover have "t3 = with_given (given (node_number x) ''priority'' p) (\<lambda>n t. t\<lparr>priority := n\<rparr>) t2"
    by (rule read_child_given [OF r(3)]) (rule readPriority_given)
  moreover have "t4 = with_given (given (node_time x) ''period'' p) period_effect t3"
    by (rule read_child_given [OF r(4)]) (auto dest: readPeriod_given)
  moreover have "t' = with_given (given (node_time x) ''deadline'' p) (\<lambda>w t. t\<lparr>Deadline := w\<rparr>) t4"
    by (rule read_child_given [OF r(5)]) (auto simp: readDeadline_def set_Deadline_def rbind_eq_Inr dest!: timed_given)
  ultimately show "t' = apply_properties x p t" by (simp add: apply_properties_def)
  show "given (node_time x) ''period'' p \<noteq> Some 0"
    using r(4) by (auto simp: read_child_def given_def split: option.splits sum.splits dest!: readPeriod_given)
qed

subsection \<open>All nodes\<close>

lemma name_kept [simp]: "task_name (apply_properties x p t) = task_name t"
  by (simp add: apply_properties_def with_given_def period_effect_def split: option.split)

lemma own_properties_effect:
  "own_properties x e cs ft = Inr ft' \<Longrightarrow>
     snd ft' = fold (apply_properties x) (filter (\<lambda>c. ptr_name c = ''task_properties'') cs) (snd ft)
     \<and> (\<forall>p \<in> set (filter (\<lambda>c. ptr_name c = ''task_properties'') cs). given (node_time x) ''period'' p \<noteq> Some 0)"
proof (induction cs arbitrary: ft)
  case (Cons c cs)
  show ?case
  proof (cases "ptr_name c = ''task_properties''")
    case True
    with Cons.prems obtain t1 where r: "read_properties x e c (snd ft) = Inr t1"
      "own_properties x e cs (fst ft \<or> has_properties c, t1) = Inr ft'" by (auto simp: rbind_eq_Inr)
    from Cons.IH [OF r(2)] read_properties_effect [OF r(1)] True show ?thesis by simp
  next
    case False
    with Cons.IH [of ft] Cons.prems show ?thesis by simp
  qed
qed simp

lemma application_properties_effect:
  "application_properties x e ps ft = Inr ft' \<Longrightarrow> n = task_name (snd ft) \<Longrightarrow>
     snd ft' = fold (apply_properties x) (filter (\<lambda>p. xmlGetValueGen x p ''task_name'' = Inr (Some n)) ps) (snd ft)
     \<and> (\<forall>p \<in> set (filter (\<lambda>p. xmlGetValueGen x p ''task_name'' = Inr (Some n)) ps).
          given (node_time x) ''period'' p \<noteq> Some 0)"
proof (induction ps arbitrary: ft)
  case (Cons p ps)
  then obtain s where s: "xmlGetValueGen x p ''task_name'' = Inr (Some s)"
    by (auto simp: rbind_eq_Inr split: option.splits)
  show ?case
  proof (cases "s = n")
    case True
    with Cons.prems s obtain t1 where r: "read_properties x e p (snd ft) = Inr t1"
      "application_properties x e ps (fst ft \<or> has_properties p, t1) = Inr ft'" by (auto simp: rbind_eq_Inr)
    note effect = read_properties_effect [OF r(1)]
    from effect(1) Cons.prems(2) have "n = task_name (snd (fst ft \<or> has_properties p, t1))" by simp
    from Cons.IH [OF r(2) this] effect True s show ?thesis by simp
  next
    case False
    with Cons.IH [of ft] Cons.prems s show ?thesis by simp
  qed
qed simp

lemma getTaskProperties_effect:
  assumes "getTaskProperties x e cur t = Inr t'"
  shows "t' = fold (apply_properties x) (property_nodes x cur (task_name t)) t
    \<and> (\<forall>p \<in> set (property_nodes x cur (task_name t)). given (node_time x) ''period'' p \<noteq> Some 0)"
proof -
  have kept: "task_name (fold (apply_properties x) ps s) = task_name s" for ps s
    by (induction ps arbitrary: s) simp_all
  from assms obtain ft where ft: "own_properties x e (xml_children cur) (False, t) = Inr ft"
    and rest: "(case getTaskPropertiesFromApplication x of
       None \<Rightarrow> (if \<not> fst ft \<and> global_kista_xml_verbosity x then undef ''indeterminate string'' else Inr (snd ft))
     | Some ps \<Rightarrow> rmap snd (application_properties x e ps ft)) = Inr t'"
    by (auto simp: getTaskProperties_def rbind_eq_Inr)
  note own = own_properties_effect [OF ft]
  show ?thesis
  proof (cases "getTaskPropertiesFromApplication x")
    case None
    with rest own show ?thesis by (auto simp: property_nodes_def set_nodes_def split: if_splits)
  next
    case (Some ps)
    with rest obtain ft' where r: "application_properties x e ps ft = Inr ft'" "t' = snd ft'"
      by (auto simp: rmap_eq_Inr)
    from own kept have "task_name t = task_name (snd ft)" by simp
    from application_properties_effect [OF r(1) this] own Some r(2) show ?thesis
      by (auto simp: property_nodes_def set_nodes_def)
  qed
qed

subsection \<open>Precedence\<close>

lemma last_given_snoc:
  "last_given f (ps @ [p]) = (case f p of None \<Rightarrow> last_given f ps | Some v \<Rightarrow> Some v)"
  by (simp add: last_given_def split: option.split)

lemma first_given_snoc:
  "first_given f (ps @ [p]) = (case first_given f ps of None \<Rightarrow> f p | Some v \<Rightarrow> Some v)"
  by (simp add: first_given_def split: option.split)

lemma given_Nil [simp]: "last_given f [] = None" "first_given f [] = None"
  by (simp_all add: last_given_def first_given_def)

lemma last_given_mem: "last_given f ps = Some v \<Longrightarrow> \<exists>p \<in> set ps. f p = Some v"
  by (induction ps rule: rev_induct) (auto simp: last_given_snoc split: option.splits)

lemma first_given_mem: "first_given f ps = Some v \<Longrightarrow> \<exists>p \<in> set ps. f p = Some v"
  by (induction ps rule: rev_induct) (auto simp: first_given_snoc split: option.splits)

lemma attribute_last:
  assumes "\<And>p t. A (apply_properties x p t) = (case f p of None \<Rightarrow> A t | Some v \<Rightarrow> F v)"
  shows "A (fold (apply_properties x) ps t) = (case last_given f ps of None \<Rightarrow> A t | Some v \<Rightarrow> F v)"
  by (induction ps rule: rev_induct) (simp_all add: assms last_given_snoc split: option.split)

lemma deadline_step:
  "Deadline (apply_properties x p t) =
     (case given (node_time x) ''deadline'' p of
        Some d \<Rightarrow> d
      | None \<Rightarrow> (case given (node_time x) ''period'' p of
                   None \<Rightarrow> Deadline t
                 | Some w \<Rightarrow> if Deadline t = 0 then w else Deadline t))"
  by (simp add: apply_properties_def with_given_def period_effect_def split: option.split)

lemma deadline_all:
  assumes "Deadline t = 0"
    and "\<forall>p \<in> set ps. given (node_time x) ''period'' p \<noteq> Some 0"
    and "\<forall>p \<in> set ps. given (node_time x) ''deadline'' p \<noteq> Some 0"
  shows "Deadline (fold (apply_properties x) ps t) =
    (case last_given (given (node_time x) ''deadline'') ps of
       Some d \<Rightarrow> d
     | None \<Rightarrow> (case first_given (given (node_time x) ''period'') ps of None \<Rightarrow> 0 | Some w \<Rightarrow> w))"
  using assms
proof (induction ps rule: rev_induct)
  case (snoc p ps)
  let ?D = "last_given (given (node_time x) ''deadline'') ps"
  let ?P = "first_given (given (node_time x) ''period'') ps"
  from snoc.prems have "?D \<noteq> Some 0" "?P \<noteq> Some 0"
    by (auto dest: last_given_mem first_given_mem)
  with snoc show ?case
    by (simp add: deadline_step last_given_snoc first_given_snoc split: option.split)
qed simp


subsection \<open>The tasks of a description\<close>

text \<open>The attributes of a task before its properties are read.\<close>

definition fresh_task :: "task_info_t \<Rightarrow> bool" where
  "fresh_task t = (WCET t = 0 \<and> Period t = 0 \<and> Deadline t = 0 \<and> priority t = 255 \<and> \<not> is_periodic_flag t
     \<and> \<not> WCET_set t \<and> \<not> WCEI_set t \<and> task_role t = SYSTEM_TASK \<and> state_signal t = READY)"

definition task_described ::
    "xml_front \<Rightarrow> dl_lib \<Rightarrow> (string \<Rightarrow> nat \<Rightarrow> string) \<Rightarrow> nat \<Rightarrow> nat \<Rightarrow> nat \<Rightarrow> xml_ptr \<Rightarrow> described_task \<Rightarrow> bool" where
  "task_described x dl kn n_apps k j node tf =
     (\<exists>n fp t0. xmlGetValueGen x node ''name'' = Inr (Some n)
       \<and> get_node_function x dl node ''Task'' (Some n) ''function'' = Inr fp
       \<and> snd tf = (case fp of None \<Rightarrow> Default_Collaborative | Some a \<Rightarrow> Loaded a)
       \<and> fresh_task t0 \<and> task_name t0 = kn n j \<and> kista_id t0 = k + j
       \<and> (if n_apps > 1 then \<exists>a. getOwnerAppName x node = Inr a \<and> app_p t0 = Some a else app_p t0 = None)
       \<and> fst tf = fold (apply_properties x) (property_nodes x node (kn n j)) t0)"

lemma kept_by_properties:
  "task_name (fold (apply_properties x) ps t) = task_name t"
  "app_p (fold (apply_properties x) ps t) = app_p t"
  "kista_id (fold (apply_properties x) ps t) = kista_id t"
  by (induction ps arbitrary: t)
    (simp_all add: apply_properties_def with_given_def period_effect_def split: option.split)

text \<open>The tasks of an application, and what a constructor does to the global tables.\<close>

definition tasks_of_app :: "kista_globals \<Rightarrow> string \<Rightarrow> string set" where
  "tasks_of_app g a = (case applications_by_name g a of None \<Rightarrow> {} | Some ns \<Rightarrow> set ns)"

lemma new_task_effect:
  assumes "new_described_task n_apps raw name a g = Inr (t, g')"
  shows "fresh_task t" "task_name t = name" "kista_id t = length (task_vector g)"
    "task_vector g' = task_vector g @ [name]" "app_p t = (if n_apps > 1 then Some a else None)"
    "tasks_of_app g' b = tasks_of_app g b \<union> (if app_p t = Some b then {name} else {})"
    "n_apps > 1 \<Longrightarrow> applications_by_name g a \<noteq> None"
    "dom (applications_by_name g') = dom (applications_by_name g)"
  using assms
  by (auto simp: new_described_task_def new_task_info_def new_task_info_of_app_def rbind_eq_Inr task_init_def
      construct_members_def fresh_task_def tasks_of_app_def
      split: if_splits app_visibility_t.splits option.splits)

lemma create_task_effect:
  assumes "create_task x e dl kn raw n_apps j task_p node g = Inr (tf, g')"
  shows "task_described x dl kn n_apps (length (task_vector g) - j) j node tf \<or> length (task_vector g) < j"
    "task_vector g' = task_vector g @ [task_name (fst tf)]"
    "tasks_of_app g' b = tasks_of_app g b \<union> (if app_p (fst tf) = Some b then {task_name (fst tf)} else {})"
proof -
  from assms obtain n where n: "xmlGetValueGen x node ''name'' = Inr (Some n)"
    by (auto simp: create_task_def rbind_eq_Inr split: option.splits)
  with assms obtain a fp f t g1 t1 where
    a: "(if n_apps > 1 then getOwnerAppName x node else Inr '''') = Inr a"
    and fp: "get_node_function x dl node ''Task'' (Some n) ''function'' = Inr fp"
    and f: "select_functionality x task_p fp = Inr f"
    and t: "new_described_task n_apps (raw j) (kn n j) a g = Inr (t, g1)"
    and t1: "getTaskProperties x e node t = Inr t1" and tf: "tf = (t1, f)" "g' = g1"
    by (auto simp: create_task_def rbind_eq_Inr rmap_eq_Inr)
  note new = new_task_effect [OF t]
  from getTaskProperties_effect [OF t1] new(2)
  have t1': "t1 = fold (apply_properties x) (property_nodes x node (kn n j)) t" by simp
  have f': "f = (case fp of None \<Rightarrow> Default_Collaborative | Some b \<Rightarrow> Loaded b)"
    using f by (auto simp: select_functionality_def split: option.splits if_splits)
  from a have owner: "n_apps > 1 \<Longrightarrow> getOwnerAppName x node = Inr a" by simp
  show "task_described x dl kn n_apps (length (task_vector g) - j) j node tf \<or> length (task_vector g) < j"
  proof (cases "length (task_vector g) < j")
    case False
    then have "kista_id t = (length (task_vector g) - j) + j" using new(3) by simp
    with n fp f' new owner t1' tf show ?thesis unfolding task_described_def
      by (intro disjI1 exI [of _ n] exI [of _ fp] exI [of _ t]) simp
  qed simp
  show "task_vector g' = task_vector g @ [task_name (fst tf)]"
    using new(2,4) t1' tf kept_by_properties by simp
  show "tasks_of_app g' b = tasks_of_app g b \<union> (if app_p (fst tf) = Some b then {task_name (fst tf)} else {})"
    using new(2) new(6) [of b] t1' tf kept_by_properties by simp
qed

lemma image_filter_Cons:
  "f ` {y \<in> set (x # xs). P y} = (if P x then {f x} else {}) \<union> f ` {y \<in> set xs. P y}"
  by auto

lemma create_task_list_effect:
  assumes "create_task_list (create_task x e dl kn raw n_apps) j task_p ps g = Inr (ts, g')"
    and "length (task_vector g) = k + j"
  shows "length ts = length ps" "\<forall>i < length ps. task_described x dl kn n_apps k (j + i) (ps ! i) (ts ! i)"
    "task_vector g' = task_vector g @ map (task_name \<circ> fst) ts"
    "tasks_of_app g' b = tasks_of_app g b \<union> (task_name \<circ> fst) ` {tf \<in> set ts. app_p (fst tf) = Some b}"
proof -
  have "length ts = length ps \<and> (\<forall>i < length ps. task_described x dl kn n_apps k (j + i) (ps ! i) (ts ! i))
    \<and> task_vector g' = task_vector g @ map (task_name \<circ> fst) ts
    \<and> tasks_of_app g' b = tasks_of_app g b \<union> (task_name \<circ> fst) ` {tf \<in> set ts. app_p (fst tf) = Some b}"
    using assms
  proof (induction ps arbitrary: j task_p g ts)
    case (Cons p ps)
    from Cons.prems(1) obtain t g1 ts1 where
      t: "create_task x e dl kn raw n_apps j task_p p g = Inr (t, g1)"
      and r: "create_task_list (create_task x e dl kn raw n_apps) (Suc j) (Some t) ps g1 = Inr (ts1, g')"
      and ts: "ts = t # ts1"
      by (auto simp: rbind_eq_Inr rmap_eq_Inr)
    note eff = create_task_effect [OF t]
    from eff(2) Cons.prems(2) have "length (task_vector g1) = k + Suc j" by simp
    note IH = Cons.IH [OF r this]
    from eff(1) Cons.prems(2) have first: "task_described x dl kn n_apps k j p t" by simp
    have "task_described x dl kn n_apps k (j + i) ((p # ps) ! i) (ts ! i)" if "i < length (p # ps)" for i
      using that IH first ts by (cases i) auto
    moreover have "tasks_of_app g' b
        = tasks_of_app g b \<union> (task_name \<circ> fst) ` {tf \<in> set ts. app_p (fst tf) = Some b}"
      unfolding ts IH [THEN conjunct2, THEN conjunct2, THEN conjunct2] eff(3) [of b] image_filter_Cons
      by (simp add: Un_assoc)
    ultimately show ?case using IH eff(2) ts by simp
  qed simp
  then show "length ts = length ps" "\<forall>i < length ps. task_described x dl kn n_apps k (j + i) (ps ! i) (ts ! i)"
    "task_vector g' = task_vector g @ map (task_name \<circ> fst) ts"
    "tasks_of_app g' b = tasks_of_app g b \<union> (task_name \<circ> fst) ` {tf \<in> set ts. app_p (fst tf) = Some b}"
    by simp_all
qed

text \<open>
  C33: The tasks of an accepted description are its task nodes, in order: each has the name the kernel gives
  to the described one, the next identifier, the function loaded for it or the default one, the
  application that owns its node when there are several, and the properties described for it. They are
  registered in the table of system tasks, and an application gets exactly the tasks whose nodes it owns.\<close>
theorem described_tasks:
  assumes "create_system_tasks x e dl kn raw n_apps g = Inr (ts, g')"
  shows "\<exists>ps. node_set_of x ''/system/application/task'' = Some ps \<and> ps \<noteq> [] \<and> length ts = length ps
    \<and> (\<forall>j < length ps. task_described x dl kn n_apps (length (task_vector g)) j (ps ! j) (ts ! j))
    \<and> task_vector g' = task_vector g @ map (task_name \<circ> fst) ts
    \<and> (\<forall>a. tasks_of_app g' a =
         tasks_of_app g a \<union> (task_name \<circ> fst) ` {tf \<in> set ts. app_p (fst tf) = Some a})"
proof -
  from assms obtain ps where ps: "node_set_of x ''/system/application/task'' = Some ps" "\<not> length ps < 1"
    and r: "create_task_list (create_task x e dl kn raw n_apps) 0 None ps g = Inr (ts, g')"
    by (auto simp: create_system_tasks_def getNumberOfTasks_def getTasks_def rbind_eq_Inr rmap_eq_Inr
        split: option.splits)
  note eff = create_task_list_effect [OF r, of "length (task_vector g)"]
  from eff ps show ?thesis by auto
qed

end
