(* ===== verification/Xml_Channels_Props.thy ===== *)
theory Xml_Channels_Props
  imports Xml_Channels Xml_Application_Props
begin

text \<open>
  Properties of the channels of a description: their ends, roles, sizes and functions are the
  described ones, and the checks of the ends accept exactly the placements that make sense.
\<close>

text \<open>The tasks at the ends of a channel: of the system, or for an I/O channel one of each.\<close>

definition ends_placed :: "bool \<Rightarrow> bool \<times> bool \<Rightarrow> bool \<times> bool \<Rightarrow> bool" where
  "ends_placed io s d =
     (if io then s = (True, False) \<and> d = (False, True) \<or> s = (False, True) \<and> d = (True, False)
      else s = (True, False) \<and> d = (True, False))"

lemma report_with_neq_Inr [simp]: "report_with a s b \<noteq> Inr u"
  by (simp add: report_with_def split: option.split)

lemma check_ends_iff: "check_ends name io s d = Inr () \<longleftrightarrow> ends_placed io s d"
  by (cases s; cases d) (auto simp: check_ends_def check_declared_def check_io_ends_def check_system_ends_def
      ends_placed_def rbind_eq_Inr)

definition channel_name :: "(string \<Rightarrow> nat \<Rightarrow> string) \<Rightarrow> string option \<Rightarrow> string \<Rightarrow> nat \<Rightarrow> string" where
  "channel_name gen name ct j = (case name of None \<Rightarrow> gen ct j | Some n \<Rightarrow> n)"

text \<open>What a node says of its channel: the table and the name of the channel, its role and object.\<close>

definition channel_described ::
    "xml_front \<Rightarrow> dl_lib \<Rightarrow> (string \<Rightarrow> nat \<Rightarrow> string) \<Rightarrow> (string \<Rightarrow> bool) \<Rightarrow> (string \<Rightarrow> bool) \<Rightarrow> nat \<Rightarrow> xml_ptr
       \<Rightarrow> string \<times> string \<Rightarrow> bool \<Rightarrow> ('a, 'h, 'f, 's) fifo_buffer \<Rightarrow> bool" where
  "channel_described x dl gen in_sys in_env j node key io ch =
     (\<exists>name s d tok init. xmlGetValueGen x node ''name'' = Inr name
       \<and> key = (fst key, channel_name gen name ''fifo_buffer'' j)
       \<and> xmlGetValueGen x node ''comm_data_type'' = Inr (Some (fst key)) \<and> fst key \<in> set sup_comm_dt
       \<and> xmlGetValueGen x node ''src'' = Inr (Some s) \<and> xmlGetValueGen x node ''dest'' = Inr (Some d)
       \<and> read_io x node name = Inr io \<and> ends_placed io (in_sys s, in_env s) (in_sys d, in_env d)
       \<and> read_token_size x node name = Inr tok
       \<and> get_node_function x dl node ''Comm&&Synch'' name ''init_function'' = Inr init
       \<and> fb_link ch = new_link_by_names (snd key) s d
       \<and> fb_role ch = (if io then IO_COMMSYNCH else SYSTEM_COMMSYNCH)
       \<and> fb_message_size ch = (case tok of None \<Rightarrow> 0 | Some n \<Rightarrow> n)
       \<and> init_f ch = (if io then None else init))"

lemma create_channel_effect:
  fixes c :: "('a, 'h, 'f, 's) channel_tables"
  assumes "create_channel p a ct dt name s d tok role init c = Inr c'"
  obtains ch where "channel_at c' = (channel_at c)(a \<mapsto> ch)" "channel_order c' = channel_order c @ [a]"
    "fb_map c' = (fb_map c)(dt := (fb_map c dt)(name \<mapsto> a))"
    "link_at (channel_links c') = (link_at (channel_links c))(a := fb_link ch)"
    "sys_conn (channel_links c') = sys_conn (channel_links c) @ [a]"
    "fb_link ch = new_link_by_names name s d"
    "fb_role ch = role" "fb_message_size ch = (case tok of None \<Rightarrow> 0 | Some n \<Rightarrow> n)"
    "init_f ch = (if role = SYSTEM_COMMSYNCH then init else None)" "dt \<in> set sup_comm_dt" "ct = ''fifo_buffer''"
proof -
  let ?cl = "new_fifo_buffer_by_names p a name 16 s d (channel_links c)
    :: ('a, 'h, 'f, 's) fifo_buffer \<times> 'a link_tables"
  let ?ch = "configure_channel tok role init (fst ?cl)"
  from assms have ct: "ct = ''fifo_buffer''" "dt \<in> set sup_comm_dt"
    and c': "c' = register_channel dt name (?ch, snd ?cl) c"
    unfolding create_channel_def supported_communication_data_type_def
    by (auto simp: Let_def split: if_split_asm)
  note new = new_fifo_buffer_by_names_def new_fifo_def new_link_by_names_def link_init_def empty_link_def
    configure_channel_def set_message_size_def set_role_def set_init_def Let_def
  have addr: "fb_address ?ch = a" by (simp add: new split: option.split)
  show ?thesis
  proof (rule that [of ?ch])
    show "channel_at c' = (channel_at c)(a \<mapsto> ?ch)" "channel_order c' = channel_order c @ [a]"
      "fb_map c' = (fb_map c)(dt := (fb_map c dt)(name \<mapsto> a))"
      by (simp_all add: c' register_channel_def addr Let_def)
    show "link_at (channel_links c') = (link_at (channel_links c))(a := fb_link ?ch)"
      "sys_conn (channel_links c') = sys_conn (channel_links c) @ [a]"
      by (simp_all add: c' register_channel_def new new_logic_link_def split: option.split)
    show "fb_link ?ch = new_link_by_names name s d"
      "fb_role ?ch = role" "fb_message_size ?ch = (case tok of None \<Rightarrow> 0 | Some n \<Rightarrow> n)"
      "init_f ?ch = (if role = SYSTEM_COMMSYNCH then init else None)"
      by (simp_all add: new split: option.split)
  qed (use ct in simp_all)
qed

lemma create_comm_synch_effect:
  assumes "create_comm_synch x dl p addr gen in_sys in_env j node c = Inr (io, c')"
  obtains key ch where "channel_described x dl gen in_sys in_env j node key io ch"
    "channel_at c' = (channel_at c)(addr j \<mapsto> ch)" "channel_order c' = channel_order c @ [addr j]"
    "fb_map c' = (fb_map c)(fst key := (fb_map c (fst key))(snd key \<mapsto> addr j))"
    "link_at (channel_links c') = (link_at (channel_links c))(addr j := fb_link ch)"
    "sys_conn (channel_links c') = sys_conn (channel_links c) @ [addr j]"
proof -
  from assms obtain name ends where name: "xmlGetValueGen x node ''name'' = Inr name"
    and ends: "read_ends x node = Inr ends"
    by (auto simp: create_comm_synch_def rbind_eq_Inr)
  from ends obtain so do where so: "ends = (so, do)" "xmlGetValueGen x node ''src'' = Inr so"
    "xmlGetValueGen x node ''dest'' = Inr do"
    by (auto simp: read_ends_def rbind_eq_Inr)
  with assms name ends obtain s d init ct dt tok where
    io: "read_io x node name = Inr io"
    and init: "get_node_function x dl node ''Comm&&Synch'' name ''init_function'' = Inr init"
    and s: "used so = Inr s" "used do = Inr d"
    and ok: "check_ends name io (in_sys s, in_env s) (in_sys d, in_env d) = Inr ()"
    and ct: "read_comm_type x node name = Inr ct" and dt: "read_comm_data_type x node name = Inr dt"
    and tok: "read_token_size x node name = Inr tok"
    and made: "create_channel p (addr j) ct dt (channel_name gen name ct j) s d tok
      (if io then IO_COMMSYNCH else SYSTEM_COMMSYNCH) init c = Inr c'"
    unfolding create_comm_synch_def by (auto simp: rbind_eq_Inr rmap_eq_Inr channel_name_def)
  from s have sd: "so = Some s" "do = Some d" by (simp_all add: used_def split: option.splits)
  from dt have dt': "xmlGetValueGen x node ''comm_data_type'' = Inr (Some dt)"
    by (auto simp: read_comm_data_type_def rbind_eq_Inr used_def split: option.splits if_split_asm)
  from made show ?thesis
  proof (rule create_channel_effect)
    fix ch
    assume ch: "channel_at c' = (channel_at c)(addr j \<mapsto> ch)" "channel_order c' = channel_order c @ [addr j]"
      "fb_map c' = (fb_map c)(dt := (fb_map c dt)(channel_name gen name ct j \<mapsto> addr j))"
      "link_at (channel_links c') = (link_at (channel_links c))(addr j := fb_link ch)"
      "sys_conn (channel_links c') = sys_conn (channel_links c) @ [addr j]"
      "fb_link ch = new_link_by_names (channel_name gen name ct j) s d"
      "fb_role ch = (if io then IO_COMMSYNCH else SYSTEM_COMMSYNCH)"
      "fb_message_size ch = (case tok of None \<Rightarrow> 0 | Some n \<Rightarrow> n)"
      "init_f ch = (if (if io then IO_COMMSYNCH else SYSTEM_COMMSYNCH) = SYSTEM_COMMSYNCH then init else None)"
      "dt \<in> set sup_comm_dt" "ct = ''fifo_buffer''"
    have init_f: "init_f ch = (if io then None else init)" using ch(9) by (cases io) simp_all
    have "channel_described x dl gen in_sys in_env j node (dt, channel_name gen name ct j) io ch"
      unfolding channel_described_def
      using name dt' so(2,3) sd io ok [unfolded check_ends_iff] tok init ch(6-8,10,11) init_f
      by (intro exI [of _ name] exI [of _ s] exI [of _ d] exI [of _ tok] exI [of _ init]) (simp only: fst_conv snd_conv simp_thms)
    with ch(1-5) that show ?thesis by simp
  qed
qed

text \<open>The nine tables as one map from a type of data and a name.\<close>

definition channel_table :: "('a, 'h, 'f, 's) channel_tables \<Rightarrow> string \<times> string \<rightharpoonup> link_ptr" where
  "channel_table c = (\<lambda>k. fb_map c (fst k) (snd k))"

lemma create_channels_effect:
  fixes c :: "('a, 'h, 'f, 's) channel_tables"
  assumes "create_channels (create_comm_synch x dl p addr gen in_sys in_env) j ps (n, c) = Inr (n', c')"
    and "inj_on addr {j..<j + length ps}"
  shows "\<exists>keys ios (chs :: ('a, 'h, 'f, 's) fifo_buffer list).
      length keys = length ps \<and> length ios = length ps \<and> length chs = length ps
    \<and> (\<forall>i < length ps. channel_described x dl gen in_sys in_env (j + i) (ps ! i) (keys ! i) (ios ! i) (chs ! i)
        \<and> channel_at c' (addr (j + i)) = Some (chs ! i) \<and> link_at (channel_links c') (addr (j + i)) = fb_link (chs ! i))
    \<and> (\<forall>a. a \<notin> addr ` {j..<j + length ps} \<longrightarrow> channel_at c' a = channel_at c a
        \<and> link_at (channel_links c') a = link_at (channel_links c) a)
    \<and> n' = n + length (filter id ios)
    \<and> channel_order c' = channel_order c @ map addr [j..<j + length ps]
    \<and> sys_conn (channel_links c') = sys_conn (channel_links c) @ map addr [j..<j + length ps]
    \<and> channel_table c' = channel_table c ++ map_of (rev (zip keys (map addr [j..<j + length ps])))"
  using assms
proof (induction ps arbitrary: j n c)
  case Nil
  then show ?case by simp
next
  case (Cons node ps)
  from Cons.prems(1) obtain io c1 where
    r: "create_comm_synch x dl p addr gen in_sys in_env j node c = Inr (io, c1)"
    and rest: "create_channels (create_comm_synch x dl p addr gen in_sys in_env) (Suc j) ps
      (if io then Suc n else n, c1) = Inr (n', c')"
    by (auto simp: rbind_eq_Inr cong: if_cong)
  from Cons.prems(2) have inj: "inj_on addr {Suc j..<Suc j + length ps}"
    and new: "addr j \<notin> addr ` {Suc j..<Suc j + length ps}"
    by (force simp: inj_on_def)+
  have places: "addr ` {j..<j + length (node # ps)} = insert (addr j) (addr ` {Suc j..<Suc j + length ps})"
  proof -
    have "{j..<j + length (node # ps)} = insert j {Suc j..<Suc j + length ps}" by auto
    then show ?thesis by simp
  qed
  have range: "[j..<j + length (node # ps)] = j # [Suc j..<Suc j + length ps]" by (simp add: upt_conv_Cons del: upt_Suc)
  from r obtain key ch where d: "channel_described x dl gen in_sys in_env j node key io ch"
    and c1: "channel_at c1 = (channel_at c)(addr j \<mapsto> ch)" "channel_order c1 = channel_order c @ [addr j]"
      "fb_map c1 = (fb_map c)(fst key := (fb_map c (fst key))(snd key \<mapsto> addr j))"
      "link_at (channel_links c1) = (link_at (channel_links c))(addr j := fb_link ch)"
      "sys_conn (channel_links c1) = sys_conn (channel_links c) @ [addr j]"
    by (rule create_comm_synch_effect)
  have table: "channel_table c1 = (channel_table c)(key \<mapsto> addr j)"
    by (rule ext) (auto simp: channel_table_def c1(3) prod_eq_iff)
  from Cons.IH [OF rest inj] obtain keys ios and chs :: "('a, 'h, 'f, 's) fifo_buffer list" where
    l: "length keys = length ps" "length ios = length ps" "length chs = length ps"
    and at: "\<forall>i < length ps. channel_described x dl gen in_sys in_env (Suc j + i) (ps ! i) (keys ! i) (ios ! i) (chs ! i)
        \<and> channel_at c' (addr (Suc j + i)) = Some (chs ! i)
        \<and> link_at (channel_links c') (addr (Suc j + i)) = fb_link (chs ! i)"
    and other: "\<forall>a. a \<notin> addr ` {Suc j..<Suc j + length ps} \<longrightarrow> channel_at c' a = channel_at c1 a
        \<and> link_at (channel_links c') a = link_at (channel_links c1) a"
    and n': "n' = (if io then Suc n else n) + length (filter id ios)"
    and ord: "channel_order c' = channel_order c1 @ map addr [Suc j..<Suc j + length ps]"
      "sys_conn (channel_links c') = sys_conn (channel_links c1) @ map addr [Suc j..<Suc j + length ps]"
    and tab: "channel_table c' = channel_table c1 ++ map_of (rev (zip keys (map addr [Suc j..<Suc j + length ps])))"
    by blast
  have first: "channel_at c' (addr j) = Some ch" "link_at (channel_links c') (addr j) = fb_link ch"
    using other new c1(1,4) by simp_all
  have each: "channel_described x dl gen in_sys in_env (j + i) ((node # ps) ! i) ((key # keys) ! i) ((io # ios) ! i)
      ((ch # chs) ! i) \<and> channel_at c' (addr (j + i)) = Some ((ch # chs) ! i)
      \<and> link_at (channel_links c') (addr (j + i)) = fb_link ((ch # chs) ! i)" if "i < length (node # ps)" for i
    using that at d first by (cases i) simp_all
  have kept: "channel_at c' a = channel_at c a \<and> link_at (channel_links c') a = link_at (channel_links c) a"
    if "a \<notin> addr ` {j..<j + length (node # ps)}" for a
    using that other c1(1,4) unfolding places by simp
  show ?case
  proof (intro exI [of _ "key # keys"] exI [of _ "io # ios"] exI [of _ "ch # chs"] conjI)
    show "length (key # keys) = length (node # ps)" "length (io # ios) = length (node # ps)"
      "length (ch # chs) = length (node # ps)" using l by simp_all
    show "n' = n + length (filter id (io # ios))" using n' by simp
    show "channel_order c' = channel_order c @ map addr [j..<j + length (node # ps)]"
      "sys_conn (channel_links c') = sys_conn (channel_links c) @ map addr [j..<j + length (node # ps)]"
      unfolding range ord c1(2,5) by simp_all
    show "channel_table c' = channel_table c ++ map_of (rev (zip (key # keys) (map addr [j..<j + length (node # ps)])))"
      unfolding tab table range by (simp add: map_add_assoc)
  qed (use each kept in blast)+
qed

text \<open>
  C32: The channels of an accepted description are its communication nodes, in order. Each connects by name
  the tasks described, both in the system, or for an I/O channel one in the system and one in the
  environment; it has the described role, token size and initial function (never for an I/O channel),
  is registered as a link, and is the entry of its name in the table of its type of data unless a later
  node has the same type and name. The result counts the I/O channels.\<close>
theorem described_channels:
  fixes c :: "('a, 'h, 'f, 's) channel_tables"
  assumes "create_comm_synchs x dl p addr gen in_sys in_env c = Inr (n, c')"
    and "getCommSynchNodes x = Some ps" and "inj_on addr {0..<length ps}"
  shows "\<exists>keys ios (chs :: ('a, 'h, 'f, 's) fifo_buffer list).
      length keys = length ps \<and> length ios = length ps \<and> length chs = length ps
    \<and> (\<forall>i < length ps. channel_described x dl gen in_sys in_env i (ps ! i) (keys ! i) (ios ! i) (chs ! i)
        \<and> channel_at c' (addr i) = Some (chs ! i) \<and> link_at (channel_links c') (addr i) = fb_link (chs ! i))
    \<and> (\<forall>a. a \<notin> addr ` {0..<length ps} \<longrightarrow> channel_at c' a = channel_at c a)
    \<and> n = length (filter id ios)
    \<and> channel_order c' = channel_order c @ map addr [0..<length ps]
    \<and> sys_conn (channel_links c') = sys_conn (channel_links c) @ map addr [0..<length ps]
    \<and> channel_table c' = channel_table c ++ map_of (rev (zip keys (map addr [0..<length ps])))"
proof -
  from assms(1,2) have
    "create_channels (create_comm_synch x dl p addr gen in_sys in_env) 0 ps (0, c) = Inr (n, c')"
    by (simp add: create_comm_synchs_def)
  from create_channels_effect [OF this] assms(3) show ?thesis by (simp only: add_0) blast
qed

text \<open>The resolution of a link with the names of two known tasks.\<close>

lemma resolve_known:
  assumes "addr s = Inr a" "addr d = Inr b" "s \<noteq> ''''" "d \<noteq> ''''"
  shows "resolve_bind_by_name addr (new_link_by_names n s d)
    = Inr ((new_link_by_names n s d)\<lparr>src := Some a, dest := Some b\<rparr>)"
  using assms
  by (simp add: resolve_bind_by_name_def new_link_by_names_def resolved_def link_init_def empty_link_def)

text \<open>
  An accepted I/O channel is settled by the elaboration of the model: with the tables of tasks that the
  description was checked against, its link is resolved and its sense determined, an output when the
  source is the task of the system, and neither step reports an error.\<close>
theorem io_channels_settle:
  assumes "channel_described x dl gen (\<lambda>n. sys_tasks n \<noteq> None) (\<lambda>n. env_tasks n \<noteq> None) j node key True ch"
    and "\<And>n a. sys_tasks n = Some a \<or> env_tasks n = Some a \<Longrightarrow> n \<noteq> '''' \<and> name_of a = n"
  shows "\<exists>s ch'. xmlGetValueGen x node ''src'' = Inr (Some s)
    \<and> rbind (fifo_before_end_of_elaboration (get_task_address sys_tasks env_tasks) ch)
        (fifo_end_of_elaboration ops pl phy_of name_of sys_tasks env_tasks call sizeof_T store) = Inr (ch', store)
    \<and> fb_io_sense ch' = (if sys_tasks s \<noteq> None then OUTPUT else INPUT)"
proof -
  from assms(1) obtain s d where s: "xmlGetValueGen x node ''src'' = Inr (Some s)"
    and placed: "ends_placed True (sys_tasks s \<noteq> None, env_tasks s \<noteq> None) (sys_tasks d \<noteq> None, env_tasks d \<noteq> None)"
    and ch: "fb_link ch = new_link_by_names (snd key) s d" "fb_role ch = IO_COMMSYNCH"
    unfolding channel_described_def by auto
  let ?addr = "get_task_address sys_tasks env_tasks"
  note sense = fifo_end_of_elaboration_def settle_message_size_def determine_io_sense_def resolved_def Let_def
  from placed consider
    (out) a b where "sys_tasks s = Some a" "env_tasks s = None" "sys_tasks d = None" "env_tasks d = Some b"
  | (inp) a b where "sys_tasks s = None" "env_tasks s = Some a" "sys_tasks d = Some b" "env_tasks d = None"
    by (auto simp: ends_placed_def)
  then show ?thesis
  proof cases
    case out
    then have "s \<noteq> []" "d \<noteq> []" using assms(2) by blast+
    with out have "resolve_bind_by_name ?addr (fb_link ch) = Inr ((fb_link ch)\<lparr>src := Some a, dest := Some b\<rparr>)"
      unfolding ch(1) by (intro resolve_known) (simp_all add: get_task_address_def)
    with out s assms(2) [of s a] assms(2) [of d b] show ?thesis
      by (simp add: fifo_before_end_of_elaboration_def sense ch(2))
  next
    case inp
    then have "s \<noteq> []" "d \<noteq> []" using assms(2) by blast+
    with inp have "resolve_bind_by_name ?addr (fb_link ch) = Inr ((fb_link ch)\<lparr>src := Some a, dest := Some b\<rparr>)"
      unfolding ch(1) by (intro resolve_known) (simp_all add: get_task_address_def)
    with inp s assms(2) [of s a] assms(2) [of d b] show ?thesis
      by (simp add: fifo_before_end_of_elaboration_def sense ch(2))
  qed
qed

end
