(* ===== verification/Xml_Hardware.thy ===== *)
theory Xml_Hardware
  imports Xml_Values Hardware TDMA_Bus Network_Interface "HOL-Library.Char_ord" "HOL-Library.List_Lexorder"
begin

text \<open>
  \<open>xml_if/create_hw_platform.cpp\<close>: the processing elements and the communication resources of a system
  description, and the connections between them.

  The kernel names a module that is created with a name, or with none: \<open>kn\<close> gives the name of the \<open>j\<close>th
  (the elements come first, then the resources);
  \<open>gen\<close> is \<open>sc_gen_unique_name\<close>. \<open>raw\<close> is what the storage of a processing element holds before it is set.
  A processing element is kept with its network interface, and \<open>PEref_by_name\<close> gives its place.
\<close>

record 'l hw_platform =
  PE_cluster :: "(processing_element \<times> network_interface option) list"
  PEref_by_name :: "string \<rightharpoonup> nat"
  phy_commres_by_name :: "string \<rightharpoonup> string"
  generic_comm_res :: "(string, 'l) phy_comm_res list"
  tdma_bus_res :: "string tdma_bus list"

definition empty_platform :: "'l hw_platform" where
  "empty_platform =
     \<lparr>PE_cluster = [], PEref_by_name = Map.empty, phy_commres_by_name = Map.empty,
      generic_comm_res = [], tdma_bus_res = []\<rparr>"

subsection \<open>Clock and instructions\<close>

definition getCPI :: "xml_front \<Rightarrow> xml_ptr \<Rightarrow> u32 result" where
  "getCPI x cur =
     (case getFirstChild cur ''CPI'' of
        None \<Rightarrow> Inr 1
      | Some c \<Rightarrow>
          rbind (xmlGetValueGen x c ''value'') (\<lambda>v. case v of None \<Rightarrow> Inr 1 | Some s \<Rightarrow> atou s))"

definition has_freq :: "xml_ptr \<Rightarrow> bool" where
  "has_freq cur = hasChild cur ''freq''"

definition readFreqMHz :: "xml_front \<Rightarrow> xml_ptr \<Rightarrow> double result" where
  "readFreqMHz x cur =
     rbind (xmlGetValueGen x cur ''value'') (\<lambda>v.
     case v of
       None \<Rightarrow> report ''Frequency specification without value.''
     | Some s \<Rightarrow>
         rmap (\<lambda>u. conv_value_by_unit (atof s) u (Some ''M'')) (xmlGetValueGen x cur ''unit''))"

definition get_freq_MHz :: "xml_front \<Rightarrow> xml_ptr \<Rightarrow> double result" where
  "get_freq_MHz x cur =
     (case getFirstChild cur ''freq'' of
        None \<Rightarrow> undef ''missing return value'' | Some c \<Rightarrow> readFreqMHz x c)"

definition clock_period_of :: "double \<Rightarrow> u32 result" where
  "clock_period_of f = to_u32 (dadd (dmul (Fin 1000) (ddiv (Fin 1) f)) (Fin (1 / 2)))"

text \<open>A verbose run appends the frequency to a message as a character.\<close>

definition appended_as_char :: "xml_front \<Rightarrow> double \<Rightarrow> unit result" where
  "appended_as_char x d =
     (if \<not> global_kista_xml_verbosity x then Inr ()
      else if dless (Fin (- 129)) d \<and> dless d (Fin 128) then Inr () else undef ''conversion out of range'')"

definition configure_clock ::
    "xml_front \<Rightarrow> sim_env \<Rightarrow> string option \<Rightarrow> xml_ptr \<Rightarrow> processing_element \<Rightarrow> processing_element result" where
  "configure_clock x e name cur pe =
     (if has_freq cur then
        rbind (get_freq_MHz x cur) (\<lambda>f.
        rbind (clock_period_of f) (\<lambda>t.
        rbind (shown x name) (\<lambda>_.
        rbind (appended_as_char x f) (\<lambda>_.
          set_clock_period_ns e t pe))))
      else rmap (\<lambda>_. pe) (shown x name))"

definition configure_CPI ::
    "xml_front \<Rightarrow> sim_env \<Rightarrow> string option \<Rightarrow> xml_ptr \<Rightarrow> processing_element \<Rightarrow> processing_element result" where
  "configure_CPI x e name cur pe =
     rbind (getCPI x cur) (\<lambda>n.
     rbind (set_CPI e n pe) (\<lambda>pe1.
       rmap (\<lambda>_. pe1) (shown x name)))"

subsection \<open>Network interfaces\<close>

definition has_netif_flag :: "xml_ptr \<Rightarrow> bool" where
  "has_netif_flag cur = hasChild cur ''netif''"

definition read_netif_flag :: "xml_front \<Rightarrow> xml_ptr \<Rightarrow> bool result" where
  "read_netif_flag x cur =
     rbind (xmlGetValueGen x cur ''value'') (\<lambda>v.
     case v of
       None \<Rightarrow> report ''network interface specification without value.''
     | Some s \<Rightarrow> Inr (s = ''true''))"

definition get_netif_node :: "xml_ptr \<Rightarrow> xml_ptr option" where
  "get_netif_node cur = getFirstChild cur ''netif''"

definition has_tx_buffer_size :: "xml_ptr \<Rightarrow> bool" where
  "has_tx_buffer_size cur = hasChild cur ''tx_buffer_size''"

definition get_tx_buffer_size_node :: "xml_ptr \<Rightarrow> xml_ptr option" where
  "get_tx_buffer_size_node cur = getFirstChild cur ''tx_buffer_size''"

text \<open>Without a unit the size is read and not set.\<close>

definition configure_tx_buffer ::
    "xml_front \<Rightarrow> sim_env \<Rightarrow> string \<Rightarrow> xml_ptr \<Rightarrow> network_interface \<Rightarrow> network_interface result" where
  "configure_tx_buffer x e pe p ni =
     rbind (xmlGetValueGen x p ''value'') (\<lambda>v.
     rbind (xmlGetValueGen x p ''unit'') (\<lambda>u.
     case v of
       None \<Rightarrow> report (''Problem reading transmission buffer size of network interface of PE '' @ pe)
     | Some s \<Rightarrow>
         rbind (atou s) (\<lambda>sz.
           case u of
             None \<Rightarrow> Inr ni
           | Some t \<Rightarrow>
               (if t = ''bit'' then set_tx_buffer_size e sz ni
                else if t = ''byte'' then set_tx_buffer_size e (sz * 8) ni
                else report (''Unrecognized unit provided for the transmission buffer size of the PE '' @ pe)))))"

definition configure_netif ::
    "xml_front \<Rightarrow> sim_env \<Rightarrow> string option \<Rightarrow> xml_ptr \<Rightarrow> processing_element
       \<Rightarrow> (processing_element \<times> network_interface option) result" where
  "configure_netif x e name cur pe =
     (case get_netif_node cur of
        None \<Rightarrow> Inr (pe, None)
      | Some n \<Rightarrow>
          rbind (read_netif_flag x n) (\<lambda>flag.
          rbind (shown x name) (\<lambda>_.
            if \<not> flag then Inr (pe, None)
            else
              rbind (set_has_netif e pe) (\<lambda>pe1.
                let ni = new_network_interface (pe_name pe1) in
                rmap (\<lambda>ni1. (pe1, Some ni1))
                  (case get_tx_buffer_size_node n of
                     None \<Rightarrow> Inr ni | Some b \<Rightarrow> configure_tx_buffer x e (pe_name pe1) b ni)))))"

subsection \<open>Processing elements\<close>

definition create_PE ::
    "xml_front \<Rightarrow> sim_env \<Rightarrow> (string option \<Rightarrow> nat \<Rightarrow> string) \<Rightarrow> double \<Rightarrow> nat \<Rightarrow> xml_ptr
       \<Rightarrow> (processing_element \<times> network_interface option) result" where
  "create_PE x e kn raw j cur =
     rbind (xmlGetValueGen x cur ''name'') (\<lambda>name.
     rbind (configure_clock x e name cur (new_processing_element raw (kn name j))) (\<lambda>pe1.
     rbind (configure_CPI x e name cur pe1) (\<lambda>pe2.
       configure_netif x e name cur pe2)))"

fun create_PEs ::
    "xml_front \<Rightarrow> sim_env \<Rightarrow> (string option \<Rightarrow> nat \<Rightarrow> string) \<Rightarrow> (nat \<Rightarrow> double) \<Rightarrow> nat \<Rightarrow> xml_ptr list
       \<Rightarrow> 'l hw_platform \<Rightarrow> 'l hw_platform result" where
  "create_PEs x e kn raw j [] h = Inr h"
| "create_PEs x e kn raw j (p # ps) h =
     rbind (create_PE x e kn (raw j) j p) (\<lambda>(pe, ni).
       create_PEs x e kn raw (Suc j) ps
         (h\<lparr>PE_cluster := PE_cluster h @ [(pe, ni)],
            PEref_by_name := (PEref_by_name h)(pe_name pe \<mapsto> length (PE_cluster h))\<rparr>))"

definition PE_XPATH :: string where
  "PE_XPATH = ''/system/platform/HW_platform/HW_Architecture/PE''"

definition COMM_RES_XPATH :: string where
  "COMM_RES_XPATH = ''/system/platform/HW_platform/HW_Architecture/comm_res''"

definition CHILD_HW_CONNECTION_XPATH :: string where
  "CHILD_HW_CONNECTION_XPATH = ''//HW_Connection''"

definition ThereIsPEs :: "xml_front \<Rightarrow> bool" where
  "ThereIsPEs x = (node_set_of x PE_XPATH \<noteq> None)"

definition getPEs :: "xml_front \<Rightarrow> xml_ptr list result" where
  "getPEs x = (case node_set_of x PE_XPATH of None \<Rightarrow> undef ''null object'' | Some ps \<Rightarrow> Inr ps)"

definition ThereIsCommResources :: "xml_front \<Rightarrow> bool" where
  "ThereIsCommResources x = (node_set_of x COMM_RES_XPATH \<noteq> None)"

definition getCommResources :: "xml_front \<Rightarrow> xml_ptr list result" where
  "getCommResources x =
     (case node_set_of x COMM_RES_XPATH of None \<Rightarrow> undef ''null object'' | Some ps \<Rightarrow> Inr ps)"

subsection \<open>Connections\<close>

definition ThereIsHWConnectionsInNode :: "xml_front \<Rightarrow> xml_ptr \<Rightarrow> bool" where
  "ThereIsHWConnectionsInNode x node =
     (xml_node_xpath x (xml_doc x) node CHILD_HW_CONNECTION_XPATH \<noteq> None)"

definition getHWConnectionsFromNode :: "xml_front \<Rightarrow> xml_ptr \<Rightarrow> xml_ptr list result" where
  "getHWConnectionsFromNode x node =
     (case xml_node_xpath x (xml_doc x) node CHILD_HW_CONNECTION_XPATH of
        None \<Rightarrow> undef ''null object''
      | Some None \<Rightarrow> undef ''null node set''
      | Some (Some ps) \<Rightarrow> Inr ps)"

text \<open>Looking a name up enters a null pointer when it is missing, and the call dereferences it.\<close>

definition PE_place :: "(string \<rightharpoonup> nat) \<Rightarrow> string option \<Rightarrow> nat result" where
  "PE_place refs name =
     rbind (used name) (\<lambda>n. case refs n of None \<Rightarrow> undef ''null processing element'' | Some i \<Rightarrow> Inr i)"

definition connect_PE ::
    "xml_front \<Rightarrow> sim_env \<Rightarrow> (string \<rightharpoonup> nat) \<Rightarrow> xml_ptr
       \<Rightarrow> (processing_element \<times> 'n) list \<times> (string, 'b) comm_res_scheme
       \<Rightarrow> ((processing_element \<times> 'n) list \<times> (string, 'b) comm_res_scheme) result" where
  "connect_PE x e refs c pr =
     rbind (xmlGetValueGen x c ''name'') (\<lambda>name.
     rbind (xmlGetValueGen x c ''instance'') (\<lambda>inst.
     rbind (shown x name) (\<lambda>_.
     rbind (shown x inst) (\<lambda>_.
     rbind (PE_place refs inst) (\<lambda>i.
       rmap (\<lambda>(pe, r). ((fst pr)[i := (pe, snd (fst pr ! i))], r))
         (pe_connect e (Some (snd pr)) (fst (fst pr ! i))))))))"

fun connect_PEs ::
    "xml_front \<Rightarrow> sim_env \<Rightarrow> (string \<rightharpoonup> nat) \<Rightarrow> xml_ptr list
       \<Rightarrow> (processing_element \<times> 'n) list \<times> (string, 'b) comm_res_scheme
       \<Rightarrow> ((processing_element \<times> 'n) list \<times> (string, 'b) comm_res_scheme) result" where
  "connect_PEs x e refs [] pr = Inr pr"
| "connect_PEs x e refs (c # cs) pr = rbind (connect_PE x e refs c pr) (connect_PEs x e refs cs)"

text \<open>
  The slots of a TDMA bus, which the element of a connection writes in. The address of an element is
  its name; an unknown one has the null address.
\<close>

definition allocate_PE ::
    "xml_front \<Rightarrow> (string \<rightharpoonup> nat) \<Rightarrow> (processing_element \<times> 'n) list \<Rightarrow> xml_ptr
       \<Rightarrow> string tdma_bus \<Rightarrow> string tdma_bus result" where
  "allocate_PE x refs pes c b =
     rbind (xmlGetValueGen x c ''instance'') (\<lambda>inst.
     rbind (xmlGetValueGen x c ''slots_number'') (\<lambda>slots.
     rbind (shown x slots) (\<lambda>_.
     rbind (shown x inst) (\<lambda>_.
     rbind (PE_place refs inst) (\<lambda>i.
     rbind (used slots) (\<lambda>s.
     rbind (atou s) (\<lambda>n.
       allocate_channels (pe_name (fst (pes ! i))) n b)))))))"

fun allocate_PEs ::
    "xml_front \<Rightarrow> (string \<rightharpoonup> nat) \<Rightarrow> (processing_element \<times> 'n) list \<Rightarrow> xml_ptr list
       \<Rightarrow> string tdma_bus \<Rightarrow> string tdma_bus result" where
  "allocate_PEs x refs pes [] b = Inr b"
| "allocate_PEs x refs pes (c # cs) b = rbind (allocate_PE x refs pes c b) (allocate_PEs x refs pes cs)"

definition hw_connections_from_node ::
    "xml_front \<Rightarrow> sim_env \<Rightarrow> (string \<rightharpoonup> nat) \<Rightarrow> xml_ptr
       \<Rightarrow> (processing_element \<times> 'n) list \<times> (string, 'b) comm_res_scheme
       \<Rightarrow> ((processing_element \<times> 'n) list \<times> (string, 'b) comm_res_scheme) result" where
  "hw_connections_from_node x e refs node pr =
     (if ThereIsHWConnectionsInNode x node
      then rbind (getHWConnectionsFromNode x node) (\<lambda>cs. connect_PEs x e refs cs pr)
      else report ''No HW connections from communication resource.'')"

text \<open>The same for a TDMA bus: the elements are connected, then the slots allocated.\<close>

definition tdma_connections_from_node ::
    "xml_front \<Rightarrow> sim_env \<Rightarrow> (string \<rightharpoonup> nat) \<Rightarrow> xml_ptr
       \<Rightarrow> (processing_element \<times> 'n) list \<times> string tdma_bus
       \<Rightarrow> ((processing_element \<times> 'n) list \<times> string tdma_bus) result" where
  "tdma_connections_from_node x e refs node pr =
     rbind (hw_connections_from_node x e refs node pr) (\<lambda>(pes, b).
     rbind (getHWConnectionsFromNode x node) (\<lambda>cs.
       rmap (Pair pes) (allocate_PEs x refs pes cs b)))"

subsection \<open>Attributes of a TDMA bus\<close>

text \<open>A child, or the one of the alias.\<close>

definition child_or :: "xml_ptr \<Rightarrow> string \<Rightarrow> string \<Rightarrow> xml_ptr option" where
  "child_or node a b = (case getFirstChild node a of None \<Rightarrow> getFirstChild node b | Some c \<Rightarrow> Some c)"

definition read_n_channels :: "xml_front \<Rightarrow> sim_env \<Rightarrow> xml_ptr \<Rightarrow> string tdma_bus \<Rightarrow> string tdma_bus result" where
  "read_n_channels x e node b =
     (case child_or node ''n_channels'' ''slots_number'' of
        None \<Rightarrow> report (''The number of slots or channels of the TDMA bus '' @ comm_res_name b
                 @ '' has not been stablished. Set n_channels attribute.'')
      | Some c \<Rightarrow>
          rbind (xmlGetValueGen x c ''value'') (\<lambda>v.
            case v of None \<Rightarrow> Inr b | Some s \<Rightarrow> rbind (atou s) (\<lambda>n. set_n_channels e n b)))"

definition read_slot_time :: "xml_front \<Rightarrow> sim_env \<Rightarrow> xml_ptr \<Rightarrow> string tdma_bus \<Rightarrow> string tdma_bus result" where
  "read_slot_time x e node b =
     (case getFirstChild node ''slot_time'' of
        None \<Rightarrow> report (''The slot time of the TDMA bus '' @ comm_res_name b
                 @ '' has not been stablished. Set slot_time attribute.'')
      | Some c \<Rightarrow> rbind (readTime x c) (\<lambda>t. set_slot_time e t b))"

text \<open>
  A size in bits, or in bytes: the product with 8 is one of signed integers. The unit is not read as a
  reference, and only looked at when there is a value.
\<close>

definition size_in_bits :: "string \<Rightarrow> string option \<Rightarrow> string \<Rightarrow> u32 result" where
  "size_in_bits s u msg =
     rbind (atoi s) (\<lambda>n.
       case u of
         None \<Rightarrow> Inr (of_int n)
       | Some t \<Rightarrow>
           (if t = ''bit'' then Inr (of_int n)
            else if t = ''byte'' then
              (if - (2 ^ 31) \<le> n * 8 \<and> n * 8 < 2 ^ 31 then Inr (of_int (n * 8)) else undef ''int out of range'')
            else report msg))"

definition read_bits ::
    "xml_front \<Rightarrow> xml_ptr option \<Rightarrow> string \<Rightarrow> (u32 \<Rightarrow> string tdma_bus \<Rightarrow> string tdma_bus result)
       \<Rightarrow> string tdma_bus \<Rightarrow> string tdma_bus result" where
  "read_bits x child msg set_it b =
     (case child of
        None \<Rightarrow> Inr b
      | Some c \<Rightarrow>
          rbind (xmlGetValueGen x c ''value'') (\<lambda>v.
            case v of
              None \<Rightarrow> Inr b
            | Some s \<Rightarrow> rbind (size_in_bits s (xml_get_prop x c ''unit'') (msg @ comm_res_name b))
                         (\<lambda>n. set_it n b)))"

definition payload_child :: "xml_ptr \<Rightarrow> xml_ptr option" where
  "payload_child node = child_or node ''slot_payload'' ''payload''"

definition read_payload_rate :: "xml_front \<Rightarrow> sim_env \<Rightarrow> xml_ptr \<Rightarrow> string tdma_bus \<Rightarrow> string tdma_bus result" where
  "read_payload_rate x e node b =
     (case getFirstChild node ''slot_payload_rate'' of
        None \<Rightarrow> Inr b
      | Some c \<Rightarrow>
          rbind (xmlGetValueGen x c ''value'') (\<lambda>v.
          rbind (case v of None \<Rightarrow> Inr b | Some s \<Rightarrow> set_channel_payload_rate e (atof s) b) (\<lambda>b1.
            rmap (\<lambda>_. b1) (shown x v))))"

text \<open>
  The message of a verbose run tests the unit of the payload or of the capacity, a variable that is
  not initialised when the bus has neither.
\<close>

definition read_cycle_time :: "xml_front \<Rightarrow> sim_env \<Rightarrow> xml_ptr \<Rightarrow> string tdma_bus \<Rightarrow> string tdma_bus result" where
  "read_cycle_time x e node b =
     (case getFirstChild node ''cycle_time'' of
        None \<Rightarrow> Inr b
      | Some c \<Rightarrow>
          rbind (readTime x c) (\<lambda>t.
          rbind (set_cycle_time e t b) (\<lambda>b1.
            if global_kista_xml_verbosity x \<and> payload_child node = None
                 \<and> getFirstChild node ''slot_capacity'' = None
            then undef ''unitStr'' else Inr b1)))"

definition read_accuracy :: "xml_front \<Rightarrow> sim_env \<Rightarrow> xml_ptr \<Rightarrow> string tdma_bus \<Rightarrow> string tdma_bus result" where
  "read_accuracy x e node b =
     (case child_or node ''accuracy_level'' ''accuracy'' of
        None \<Rightarrow> Inr b
      | Some c \<Rightarrow>
          rbind (xmlGetValueGen x c ''value'') (\<lambda>v.
            case v of None \<Rightarrow> Inr b | Some s \<Rightarrow> rbind (atoi s) (\<lambda>l. set_accuracy_level e l b)))"

definition read_and_set_tdma_bus_attributes ::
    "xml_front \<Rightarrow> sim_env \<Rightarrow> xml_ptr \<Rightarrow> string tdma_bus \<Rightarrow> string tdma_bus result" where
  "read_and_set_tdma_bus_attributes x e node b =
     rbind (read_n_channels x e node b) (\<lambda>b1.
     rbind (read_slot_time x e node b1) (\<lambda>b2.
     rbind (read_bits x (payload_child node)
              ''Unrecognized unit provided for the slot payload attributed of the TDMA bus ''
              (set_channel_payload_bits e) b2) (\<lambda>b3.
     rbind (read_bits x (getFirstChild node ''slot_capacity'')
              ''Unrecognized unit provided for the slot capacity attributed of the TDMA bus ''
              (set_channel_capacity e) b3) (\<lambda>b4.
     rbind (read_payload_rate x e node b4) (\<lambda>b5.
     rbind (read_cycle_time x e node b5) (\<lambda>b6.
       read_accuracy x e node b6))))))"

subsection \<open>Communication resources\<close>

definition create_generic ::
    "xml_front \<Rightarrow> sim_env \<Rightarrow> string \<Rightarrow> xml_ptr \<Rightarrow> 'l hw_platform \<Rightarrow> 'l hw_platform result" where
  "create_generic x e n node h =
     rbind (new_phy_comm_res e n (phy_commres_by_name h)) (\<lambda>(r, tab).
     rmap (\<lambda>(pes, r1). h\<lparr>PE_cluster := pes, phy_commres_by_name := tab,
                          generic_comm_res := generic_comm_res h @ [r1]\<rparr>)
       (hw_connections_from_node x e (PEref_by_name h) node (PE_cluster h, r)))"

definition create_tdma ::
    "xml_front \<Rightarrow> sim_env \<Rightarrow> string \<Rightarrow> xml_ptr \<Rightarrow> 'l hw_platform \<Rightarrow> 'l hw_platform result" where
  "create_tdma x e n node h =
     rbind (new_tdma_bus e n) (\<lambda>b.
     rbind (read_and_set_tdma_bus_attributes x e node b) (\<lambda>b1.
     rmap (\<lambda>(pes, b2). h\<lparr>PE_cluster := pes, phy_commres_by_name := (phy_commres_by_name h)(n \<mapsto> n),
                          tdma_bus_res := tdma_bus_res h @ [b2]\<rparr>)
       (tdma_connections_from_node x e (PEref_by_name h) node (PE_cluster h, b1))))"

definition create_comm_res ::
    "xml_front \<Rightarrow> sim_env \<Rightarrow> (string option \<Rightarrow> nat \<Rightarrow> string) \<Rightarrow> (string \<Rightarrow> nat \<Rightarrow> string) \<Rightarrow> nat \<Rightarrow> xml_ptr
       \<Rightarrow> 'l hw_platform \<Rightarrow> 'l hw_platform result" where
  "create_comm_res x e kn gen j node h =
     rbind (xmlGetValueGen x node ''name'') (\<lambda>name.
     rbind (xmlGetValueGen x node ''type'') (\<lambda>kind.
     case kind of
       None \<Rightarrow> report (''Problem reading the Type of the Communication Resource ''
                @ (case name of None \<Rightarrow> ''(without name)'' | Some n \<Rightarrow> n))
     | Some k \<Rightarrow>
         (let n = kn (Some (case name of None \<Rightarrow> gen k j | Some m \<Rightarrow> m)) j in
          if k = ''generic'' then create_generic x e n node h
          else if k = ''tdma_bus'' then create_tdma x e n node h
          else Inr h)))"

fun create_comm_resources ::
    "xml_front \<Rightarrow> sim_env \<Rightarrow> (string option \<Rightarrow> nat \<Rightarrow> string) \<Rightarrow> (string \<Rightarrow> nat \<Rightarrow> string) \<Rightarrow> nat \<Rightarrow> xml_ptr list
       \<Rightarrow> 'l hw_platform \<Rightarrow> 'l hw_platform result" where
  "create_comm_resources x e kn gen j [] h = Inr h"
| "create_comm_resources x e kn gen j (p # ps) h =
     rbind (create_comm_res x e kn gen j p h) (create_comm_resources x e kn gen (Suc j) ps)"

definition create_HW_platform ::
    "xml_front \<Rightarrow> sim_env \<Rightarrow> (string option \<Rightarrow> nat \<Rightarrow> string) \<Rightarrow> (string \<Rightarrow> nat \<Rightarrow> string) \<Rightarrow> (nat \<Rightarrow> double)
       \<Rightarrow> 'l hw_platform \<Rightarrow> 'l hw_platform result" where
  "create_HW_platform x e kn gen raw h =
     rbind (if ThereIsPEs x then rbind (getPEs x) (\<lambda>ps. create_PEs x e kn raw 0 ps h) else Inr h) (\<lambda>h1.
       if ThereIsCommResources x
       then rbind (getCommResources x) (\<lambda>ps. create_comm_resources x e kn gen (length (PE_cluster h1)) ps h1)
       else Inr h1)"

end
