(* ===== verification/Xml_Main.thy ===== *)
theory Xml_Main
  imports Xml_Channels_Props Xml_Software Xml_Hardware
begin

text \<open>
  The construction of the model in \<open>sc_main\<close> of \<open>xml_if/kista_xml.cpp\<close>, from the parsed description to the
  hooks of the environment: the components of the front end in the order in which they are called.

  What the kernel and the storage of new objects provide to each of them is one record.
\<close>

record kernel_view =
  kn_env_task :: "string \<Rightarrow> nat \<Rightarrow> string"
  kn_task :: "string \<Rightarrow> nat \<Rightarrow> string"
  kn_rtos :: "string option \<Rightarrow> nat \<Rightarrow> string"
  kn_hw :: "string option \<Rightarrow> nat \<Rightarrow> string"
  gen_channel :: "string \<Rightarrow> nat \<Rightarrow> string"
  gen_hw :: "string \<Rightarrow> nat \<Rightarrow> string"
  raw_env_task :: "nat \<Rightarrow> task_info_t"
  raw_task :: "nat \<Rightarrow> task_info_t"
  raw_rtos :: "nat \<Rightarrow> scheduler"
  raw_pe :: "nat \<Rightarrow> double"
  raw_env :: sc_env
  channel_addr :: "nat \<Rightarrow> link_ptr"

record ('a, 'h, 'f, 's, 'l) xml_model =
  env_tasks_by_name :: env_tasks
  env_module :: "sc_env option"
  model_globals :: kista_globals
  app_task :: "described_task list"
  number_of_io_channels :: nat
  model_channels :: "('a, 'h, 'f, 's) channel_tables"
  RTOS :: "scheduler list"
  HW :: "'l hw_platform"

definition no_channels :: "'a link_tables \<Rightarrow> ('a, 'h, 'f, 's) channel_tables" where
  "no_channels l =
     \<lparr>channel_links = l, channel_at = Map.empty, channel_order = [], fb_map = (\<lambda>_. Map.empty)\<rparr>"

text \<open>The records of the tasks by name.\<close>

definition described_store :: "task_info_t \<Rightarrow> described_task list \<Rightarrow> task_store" where
  "described_store other ts n =
     (case find (\<lambda>t. task_name (fst t) = n) ts of None \<Rightarrow> other | Some t \<Rightarrow> fst t)"

text \<open>\<open>None\<close> is the indeterminate pointer of a model without environment.\<close>

definition create_env_module :: "sc_env \<Rightarrow> bool \<Rightarrow> nat \<Rightarrow> sc_env option result" where
  "create_env_module raw create_env_flag n_io =
     (if create_env_flag \<and> n_io > 0 then Inr (Some raw)
      else if \<not> create_env_flag \<and> n_io > 0 then report ''There are I/O channels but no environment tasks.''
      else if create_env_flag \<and> n_io = 0 then report ''There are environment tasks, but not I/O channels.''
      else Inr None)"

definition create_platform ::
    "xml_front \<Rightarrow> sim_env \<Rightarrow> kernel_view \<Rightarrow> described_task list \<Rightarrow> 'l hw_platform
       \<Rightarrow> (scheduler list \<times> 'l hw_platform) result" where
  "create_platform x e k ts h =
     rbind (create_SW_platform x e (described_store (raw_task k 0) ts) (kn_rtos k) (raw_rtos k)) (\<lambda>ss.
     rbind (create_HW_platform x e (kn_hw k) (gen_hw k) (raw_pe k) h) (\<lambda>h1.
     rbind (create_platform_mapping x e (ss, map fst (PE_cluster h1))) (\<lambda>(ss1, pes).
     rmap (\<lambda>ss2. (ss2, h1\<lparr>PE_cluster := zip pes (map snd (PE_cluster h1))\<rparr>))
       (create_app_to_platform_mapping x e (map (task_name \<circ> fst) ts) ss1))))"

definition create_system ::
    "xml_front \<Rightarrow> sim_env \<Rightarrow> dl_lib \<Rightarrow> ('f, 'v, 's) sc_ops \<Rightarrow> kernel_view \<Rightarrow> kista_globals
       \<Rightarrow> ('a, 'h, 'f, 's) channel_tables \<Rightarrow> 'l hw_platform \<Rightarrow> ('a, 'h, 'f, 's, 'l) xml_model result" where
  "create_system x e dl p k g c h =
     rbind (create_environment x dl (kn_env_task k) (raw_env_task k) ([], g)) (\<lambda>(create_env_flag, env, g1).
     rbind (create_applications x g1) (\<lambda>(n_apps, g2).
     rbind (create_tasks x e dl p (kn_task k) (raw_task k) (channel_addr k) (gen_channel k) create_env_flag env
              n_apps (g2, c)) (\<lambda>(n_io, ts, g3, c1).
     rbind (create_platform x e k ts h) (\<lambda>(ss, h1).
     rbind (create_env_module (raw_env k) create_env_flag n_io) (\<lambda>v.
     rbind (create_global_env_init x dl v) (\<lambda>v1.
     rmap (\<lambda>v2. \<lparr>env_tasks_by_name = env, env_module = v2, model_globals = g3, app_task = ts,
                 number_of_io_channels = n_io, model_channels = c1, RTOS = ss, HW = h1\<rparr>)
       (create_global_env_end x dl v1)))))))"

text \<open>
  Before the model is built, the hook that declares parameters runs and the parameters are read: \<open>file\<close> is
  the configuration file of the command line, with what parsing it gives.
\<close>

definition build_model ::
    "'w hook_call \<Rightarrow> (string \<times> xml_node option) option \<Rightarrow> sim_env \<Rightarrow> dl_lib \<Rightarrow> ('f, 'v, 's) sc_ops
       \<Rightarrow> kernel_view \<Rightarrow> kista_globals \<Rightarrow> ('a, 'h, 'f, 's) channel_tables \<Rightarrow> 'l hw_platform \<Rightarrow> xml_front \<times> 'w
       \<Rightarrow> (('a, 'h, 'f, 's, 'l) xml_model \<times> xml_front \<times> 'w) result" where
  "build_model call file e dl p k g c h s =
     rbind (hook_for_param_declaration call dl s) (\<lambda>s1.
     rbind (read_all_parameters file (fst s1)) (\<lambda>x.
     rmap (\<lambda>m. (m, x, snd s1)) (create_system x e dl p k g c h)))"

end
