(* ===== verification/Xml_Main_Props.thy ===== *)
theory Xml_Main_Props
  imports Xml_Main Xml_Software_Props
begin

text \<open>What the construction of a model establishes between its components.\<close>

subsection \<open>Tables of tasks\<close>

lemma env_tasks_kept:
  "create_env_tasks x dl kn raw j ps s = Inr s' \<Longrightarrow> task_vector (snd s') = task_vector (snd s)"
proof (induction ps arbitrary: j s)
  case (Cons p ps)
  then obtain n f t g1 where
    "new_task_info (raw j) (kn n j) ENV_TASK (snd s) = Inr (t, g1)"
    and r: "create_env_tasks x dl kn raw (Suc j) ps (table_set n (t, f) (fst s), g1) = Inr s'"
    by (auto simp: rbind_eq_Inr split: option.splits)
  from this(1) have "g1 = snd s" by (auto simp: new_task_info_def task_init_def)
  with Cons.IH [OF r] show ?case by simp
qed simp

lemma environment_effect:
  assumes "create_environment x dl kn raw (t, g) = Inr (create_env_flag, env, g')"
  shows "create_env_flag \<longleftrightarrow> env \<noteq> []" "task_vector g' = task_vector g"
  using assms
  by (auto simp: create_environment_def rmap_eq_Inr split: if_splits option.splits dest: env_tasks_kept)

lemma application_instances_kept:
  "create_application_instances x ps g = Inr g' \<Longrightarrow> task_vector g' = task_vector g"
proof (induction ps arbitrary: g)
  case (Cons p ps)
  then obtain n where "create_application_instances x ps (new_application n g) = Inr g'"
    by (auto simp: rbind_eq_Inr split: option.splits)
  from Cons.IH [OF this] show ?case by (simp add: new_application_def)
qed simp

lemma applications_kept:
  "create_applications x g = Inr (n, g') \<Longrightarrow> task_vector g' = task_vector g"
  by (auto simp: create_applications_def rbind_eq_Inr rmap_eq_Inr split: if_splits
      dest: application_instances_kept)

subsection \<open>Allocation\<close>

definition proper_taskset :: "string list \<Rightarrow> taskset \<Rightarrow> bool" where
  "proper_taskset tasks ts = (sorted ts \<and> distinct ts \<and> set ts \<subseteq> set tasks)"

lemma known_task:
  assumes "getTaskInfoByName tasks name = Inr a"
  shows "a \<in> set tasks"
proof -
  from assms obtain n where n: "name = Some n"
    by (auto simp: getTaskInfoByName_def index_by_name_def used_def rbind_eq_Inr rmap_eq_Inr split: option.splits)
  with assms task_by_name [of n tasks] show ?thesis by (cases "n \<in> set tasks") auto
qed

lemma map_all_tasks_proper:
  "map_all_tasks x tasks ps m = Inr m' \<Longrightarrow> (\<And>n ts. m n = Some ts \<Longrightarrow> proper_taskset tasks ts)
     \<Longrightarrow> m' n = Some ts \<Longrightarrow> proper_taskset tasks ts"
proof (induction ps arbitrary: m)
  case Nil
  then show ?case by simp
next
  case (Cons p ps)
  from Cons.prems(1) obtain m1 where m1: "map_task x tasks p m = Inr m1" "map_all_tasks x tasks ps m1 = Inr m'"
    by (auto simp: rbind_eq_Inr)
  from m1(1) obtain src a t old where "getTaskInfoByName tasks src = Inr a" and old: "m t = Some old"
    and step: "m1 = m(t \<mapsto> taskset_insert a old)"
    by (auto simp: map_task_def rbind_eq_Inr split: option.splits)
  have a: "a \<in> set tasks"
    using \<open>getTaskInfoByName tasks src = Inr a\<close> by (rule known_task)
  have "proper_taskset tasks (taskset_insert a old)"
    using Cons.prems(2) [OF old] a
    by (auto simp: proper_taskset_def taskset_insert_def set_insort_insert sorted_insort_insert distinct_insort_insert)
  with Cons.prems(2) step have "proper_taskset tasks ts" if "m1 n = Some ts" for n ts
    using that by (auto split: if_splits)
  from Cons.IH [OF m1(2) this Cons.prems(3)] show ?case by simp
qed

lemma allocate_tasksets_proper:
  "allocate_tasksets e m ss = Inr ss' \<Longrightarrow> (\<And>n ts. m n = Some ts \<Longrightarrow> proper_taskset tasks ts)
     \<Longrightarrow> (\<And>s. s \<in> set ss \<Longrightarrow> m (sched_name s) \<noteq> None)
     \<Longrightarrow> \<forall>s \<in> set ss'. \<exists>ts. tasks_assigned s = Taskset ts \<and> proper_taskset tasks ts"
proof (induction ss arbitrary: ss')
  case (Cons s ss)
  from Cons.prems(3) [of s] obtain ts where ts: "m (sched_name s) = Some ts" by auto
  from Cons.prems(1) ts obtain s1 r where s1: "allocate e (Taskset ts) s = Inr s1"
    and r: "allocate_tasksets e m ss = Inr r" "ss' = s1 # r"
    by (auto simp: rbind_eq_Inr rmap_eq_Inr)
  from s1 have "tasks_assigned s1 = Taskset ts" by (auto simp: allocate_def split: if_splits)
  moreover have "\<forall>s \<in> set r. \<exists>ts. tasks_assigned s = Taskset ts \<and> proper_taskset tasks ts"
    by (rule Cons.IH [OF r(1)]) (use Cons.prems in auto)
  ultimately show ?case using r(2) Cons.prems(2) [OF ts] by auto
qed simp

lemma map_task_dom: "map_task x tasks p m = Inr m' \<Longrightarrow> dom m' = dom m"
  by (auto simp: map_task_def rbind_eq_Inr split: option.splits if_splits)

lemma map_all_tasks_dom: "map_all_tasks x tasks ps m = Inr m' \<Longrightarrow> dom m' = dom m"
proof (induction ps arbitrary: m)
  case (Cons p ps)
  then obtain m1 where "map_task x tasks p m = Inr m1" "map_all_tasks x tasks ps m1 = Inr m'"
    by (auto simp: rbind_eq_Inr)
  with Cons.IH [of m1] map_task_dom [of x tasks p m m1] show ?case by simp
qed simp

lemma mapping_proper:
  assumes "create_app_to_platform_mapping x e tasks ss = Inr ss'"
  shows "\<forall>s \<in> set ss'. \<exists>ts. tasks_assigned s = Taskset ts \<and> proper_taskset tasks ts"
proof -
  let ?m = "\<lambda>n. if n \<in> set (map sched_name ss) then Some [] else None"
  from assms obtain ps m where m: "map_all_tasks x tasks ps ?m = Inr m" "allocate_tasksets e m ss = Inr ss'"
    by (auto simp: create_app_to_platform_mapping_def rbind_eq_Inr split: option.splits)
  show ?thesis
  proof (rule allocate_tasksets_proper [OF m(2)])
    show "proper_taskset tasks ts" if "m n = Some ts" for n ts
      by (rule map_all_tasks_proper [OF m(1) _ that]) (auto simp: proper_taskset_def split: if_splits)
    show "m (sched_name s) \<noteq> None" if "s \<in> set ss" for s
      using map_all_tasks_dom [OF m(1)] that by (auto simp: dom_def set_eq_iff split: if_splits)
  qed
qed

subsection \<open>The whole model\<close>

text \<open>Whether a name is that of a task of the system, and of the environment.\<close>

definition placement :: "('a, 'h, 'f, 's, 'l) xml_model \<Rightarrow> string \<Rightarrow> bool \<times> bool" where
  "placement m n = (n \<in> set (map (task_name \<circ> fst) (app_task m)), map_of (env_tasks_by_name m) n \<noteq> None)"

definition channel_placed :: "('a, 'h, 'f, 's, 'l) xml_model \<Rightarrow> link_ptr \<Rightarrow> bool \<Rightarrow> bool" where
  "channel_placed m a io =
     (\<exists>ch. channel_at (model_channels m) a = Some ch \<and> link_at (channel_links (model_channels m)) a = fb_link ch
        \<and> fb_role ch = (if io then IO_COMMSYNCH else SYSTEM_COMMSYNCH)
        \<and> ends_placed io (placement m (src_elem_name (fb_link ch))) (placement m (dest_elem_name (fb_link ch))))"

lemma env_hook_kept:
  "create_global_env_init x dl v = Inr v' \<Longrightarrow> v' = None \<longleftrightarrow> v = None"
  "create_global_env_end x dl v = Inr v' \<Longrightarrow> v' = None \<longleftrightarrow> v = None"
  by (auto simp: create_global_env_init_def create_global_env_end_def set_env_hook_def rbind_eq_Inr
      split: option.splits)

lemma env_module_decides:
  "create_env_module raw b n = Inr v \<Longrightarrow> (v \<noteq> None \<longleftrightarrow> b) \<and> (v \<noteq> None \<longleftrightarrow> 0 < n)"
  by (auto simp: create_env_module_def split: if_splits)

lemma system_tasks_registered:
  assumes "create_system_tasks x e dl kn raw n g = Inr (ts, g')"
  shows "task_vector g' = task_vector g @ map (task_name \<circ> fst) ts"
proof -
  from assms obtain ps where "create_task_list (create_task x e dl kn raw n) 0 None ps g = Inr (ts, g')"
    by (auto simp: create_system_tasks_def rbind_eq_Inr)
  from create_task_list_effect(3) [OF this, of "length (task_vector g)"] show ?thesis by simp
qed

lemma channels_placed:
  fixes c :: "('a, 'h, 'f, 's) channel_tables"
  assumes "create_comm_synchs x dl p addr gen in_sys in_env (no_channels l) = Inr (n, c)" and "inj addr"
  shows "\<exists>ios. length ios = length (channel_order c) \<and> n = length (filter id ios)
    \<and> (\<forall>i < length (channel_order c). \<exists>ch s d. channel_at c (channel_order c ! i) = Some ch
        \<and> link_at (channel_links c) (channel_order c ! i) = fb_link ch
        \<and> src_elem_name (fb_link ch) = s \<and> dest_elem_name (fb_link ch) = d
        \<and> fb_role ch = (if ios ! i then IO_COMMSYNCH else SYSTEM_COMMSYNCH)
        \<and> ends_placed (ios ! i) (in_sys s, in_env s) (in_sys d, in_env d))"
proof (cases "getCommSynchNodes x")
  case None
  with assms(1) show ?thesis by (auto simp: create_comm_synchs_def no_channels_def)
next
  case (Some ps)
  with assms(1) have r: "create_channels (create_comm_synch x dl p addr gen in_sys in_env) 0 ps (0, no_channels l) = Inr (n, c)"
    by (simp add: create_comm_synchs_def)
  have "inj_on addr {0..<0 + length ps}" using assms(2) by (rule inj_on_subset) simp
  from create_channels_effect [OF r this] obtain keys ios and chs :: "('a, 'h, 'f, 's) fifo_buffer list" where
    l: "length ios = length ps" and n: "n = 0 + length (filter id ios)"
    and ord: "channel_order c = channel_order (no_channels l :: ('a, 'h, 'f, 's) channel_tables) @ map addr [0..<0 + length ps]"
    and each: "\<forall>i < length ps. channel_described x dl gen in_sys in_env (0 + i) (ps ! i) (keys ! i) (ios ! i) (chs ! i)
        \<and> channel_at c (addr (0 + i)) = Some (chs ! i) \<and> link_at (channel_links c) (addr (0 + i)) = fb_link (chs ! i)"
    by blast
  have order: "channel_order c = map addr [0..<length ps]" using ord by (simp add: no_channels_def)
  have "\<exists>ch s d. channel_at c (channel_order c ! i) = Some ch
        \<and> link_at (channel_links c) (channel_order c ! i) = fb_link ch
        \<and> src_elem_name (fb_link ch) = s \<and> dest_elem_name (fb_link ch) = d
        \<and> fb_role ch = (if ios ! i then IO_COMMSYNCH else SYSTEM_COMMSYNCH)
        \<and> ends_placed (ios ! i) (in_sys s, in_env s) (in_sys d, in_env d)" if "i < length ps" for i
  proof -
    from each that have d: "channel_described x dl gen in_sys in_env i (ps ! i) (keys ! i) (ios ! i) (chs ! i)"
      and at: "channel_at c (addr i) = Some (chs ! i)" "link_at (channel_links c) (addr i) = fb_link (chs ! i)"
      by simp_all
    from d obtain s t where "fb_link (chs ! i) = new_link_by_names (snd (keys ! i)) s t"
      "fb_role (chs ! i) = (if ios ! i then IO_COMMSYNCH else SYSTEM_COMMSYNCH)"
      "ends_placed (ios ! i) (in_sys s, in_env s) (in_sys t, in_env t)"
      unfolding channel_described_def by blast
    with at order that show ?thesis
      by (intro exI [of _ "chs ! i"] exI [of _ s] exI [of _ t]) (simp add: new_link_by_names_def)
  qed
  with l n order show ?thesis by (intro exI [of _ ios]) simp
qed

text \<open>
  C31: A model that is built is consistent. Its table of system tasks lists the tasks of the description in
  order. There is an environment exactly when there are environment tasks, and exactly when there are I/O
  channels, which are counted. Every channel is a registered link between known tasks, of the system, or
  one of the system and one of the environment for an I/O channel. Every scheduler has a task set of tasks
  of the description, in order and without repetition.\<close>
theorem model_consistent:
  assumes "create_system x e dl p k initial_globals (no_channels l) h = Inr m" and "inj (channel_addr k)"
  shows "task_vector (model_globals m) = map (task_name \<circ> fst) (app_task m)
    \<and> (env_module m \<noteq> None \<longleftrightarrow> env_tasks_by_name m \<noteq> [])
    \<and> (env_module m \<noteq> None \<longleftrightarrow> 0 < number_of_io_channels m)
    \<and> (\<exists>ios. length ios = length (channel_order (model_channels m))
        \<and> number_of_io_channels m = length (filter id ios)
        \<and> (\<forall>i < length ios. channel_placed m (channel_order (model_channels m) ! i) (ios ! i)))
    \<and> (\<forall>s \<in> set (RTOS m). \<exists>ts. tasks_assigned s = Taskset ts
        \<and> proper_taskset (map (task_name \<circ> fst) (app_task m)) ts)"
proof -
  from assms(1) obtain create_env_flag env g1 n_apps g2 n_io ts g3 c ss h1 v v1 v2 where
    env: "create_environment x dl (kn_env_task k) (raw_env_task k) ([], initial_globals) = Inr (create_env_flag, env, g1)"
    and apps: "create_applications x g1 = Inr (n_apps, g2)"
    and tasks: "create_tasks x e dl p (kn_task k) (raw_task k) (channel_addr k) (gen_channel k) create_env_flag env
              n_apps (g2, no_channels l) = Inr (n_io, ts, g3, c)"
    and platform: "create_platform x e k ts h = Inr (ss, h1)"
    and v: "create_env_module (raw_env k) create_env_flag n_io = Inr v"
    and hooks: "create_global_env_init x dl v = Inr v1" "create_global_env_end x dl v1 = Inr v2"
    and m: "m = \<lparr>env_tasks_by_name = env, env_module = v2, model_globals = g3, app_task = ts,
                 number_of_io_channels = n_io, model_channels = c, RTOS = ss, HW = h1\<rparr>"
    by (auto simp: create_system_def rbind_eq_Inr rmap_eq_Inr)
  note flag = environment_effect [OF env]
  from tasks have sys: "create_system_tasks x e dl (kn_task k) (raw_task k) n_apps g2 = Inr (ts, g3)"
    and chans: "create_comm_synchs x dl p (channel_addr k) (gen_channel k) (\<lambda>n. n \<in> set (task_vector g3))
          (in_environment create_env_flag env) (no_channels l) = Inr (n_io, c)"
    unfolding create_tasks_def by (auto simp: rbind_eq_Inr rmap_eq_Inr)
  have names: "task_vector g3 = map (task_name \<circ> fst) ts"
    using system_tasks_registered [OF sys] applications_kept [OF apps] flag(2) by (simp add: initial_globals_def)
  have in_env: "in_environment create_env_flag env n \<longleftrightarrow> map_of env n \<noteq> None" for n
    using flag(1) by (auto simp: in_environment_def)
  have decided: "v2 \<noteq> None \<longleftrightarrow> create_env_flag" "v2 \<noteq> None \<longleftrightarrow> 0 < n_io"
    using env_module_decides [OF v] env_hook_kept(1) [OF hooks(1)] env_hook_kept(2) [OF hooks(2)] by auto
  from platform obtain ss1 where "create_app_to_platform_mapping x e (map (task_name \<circ> fst) ts) ss1 = Inr ss"
    unfolding create_platform_def by (auto simp: rbind_eq_Inr rmap_eq_Inr)
  then have sets: "\<forall>s \<in> set ss. \<exists>us. tasks_assigned s = Taskset us \<and> proper_taskset (map (task_name \<circ> fst) ts) us"
    by (rule mapping_proper)
  from channels_placed [OF chans assms(2)] obtain ios where ios: "length ios = length (channel_order c)"
    "n_io = length (filter id ios)"
    "\<forall>i < length (channel_order c). \<exists>ch s d. channel_at c (channel_order c ! i) = Some ch
        \<and> link_at (channel_links c) (channel_order c ! i) = fb_link ch
        \<and> src_elem_name (fb_link ch) = s \<and> dest_elem_name (fb_link ch) = d
        \<and> fb_role ch = (if ios ! i then IO_COMMSYNCH else SYSTEM_COMMSYNCH)
        \<and> ends_placed (ios ! i) (s \<in> set (task_vector g3), in_environment create_env_flag env s)
            (d \<in> set (task_vector g3), in_environment create_env_flag env d)" by blast
  have "\<forall>i < length ios. channel_placed m (channel_order c ! i) (ios ! i)"
    using ios(1,3) unfolding channel_placed_def placement_def m names in_env by simp
  with ios(1,2) have "\<exists>ios. length ios = length (channel_order c) \<and> n_io = length (filter id ios)
      \<and> (\<forall>i < length ios. channel_placed m (channel_order c ! i) (ios ! i))" by blast
  with names decided flag(1) sets show ?thesis by (simp add: m)
qed

end
