(* ===== verification/Xml_Hardware_Props.thy ===== *)
theory Xml_Hardware_Props
  imports Xml_Hardware Xml_Params TDMA_Slots
begin

text \<open>
  Properties of the hardware platform of a system description: the processing elements, the clock
  period computed from a frequency, the connections, which are those of the whole document, and the
  slots of a TDMA bus.
\<close>

subsection \<open>The clock period\<close>

lemma clock_period_Fin:
  assumes "0 < f"
  shows "clock_period_of (Fin f) =
    (if 1000 / f + 1 / 2 < 2 ^ 32 then Inr (of_nat (nat \<lfloor>1000 / f + 1 / 2\<rfloor>)) else undef ''conversion out of range'')"
proof -
  have "0 < 1000 / f" using assms by simp
  then have "- 1 < 1000 / f + 1 / 2" by linarith
  then show ?thesis using assms by (simp add: clock_period_of_def to_u32_def)
qed

lemma clock_period_near:
  assumes "0 < f" "clock_period_of (Fin f) = Inr t"
  shows "\<bar>of_nat (unat t) - 1000 / f\<bar> \<le> (1 / 2 :: rat) \<and> (t = 0 \<longleftrightarrow> 2000 < f)"
proof -
  let ?q = "1000 / f + 1 / 2 :: rat"
  have q: "?q < 2 ^ 32" and t: "t = of_nat (nat \<lfloor>?q\<rfloor>)"
    using assms by (simp_all add: clock_period_Fin split: if_splits)
  have pos: "0 < 1000 / f" using assms(1) by simp
  then have nn: "0 \<le> \<lfloor>?q\<rfloor>" by simp
  have "\<lfloor>?q\<rfloor> < 2 ^ 32" using q by (simp add: floor_less_iff)
  then have small: "nat \<lfloor>?q\<rfloor> < 2 ^ 32" using nn by (simp add: nat_less_iff)
  have u: "unat t = nat \<lfloor>?q\<rfloor>"
    unfolding t using small by (simp only: unat_of_nat take_bit_eq_mod) simp
  have lo: "of_int \<lfloor>?q\<rfloor> \<le> ?q" and hi: "?q < of_int \<lfloor>?q\<rfloor> + 1" by linarith+
  have e: "(of_nat (unat t) :: rat) = of_int \<lfloor>?q\<rfloor>" using nn by (simp add: u)
  have "t = 0 \<longleftrightarrow> \<lfloor>?q\<rfloor> \<le> 0" using u by (metis nat_0_iff unat_eq_zero)
  also have "\<dots> \<longleftrightarrow> 1000 / f < 1 / 2" by (simp add: floor_le_iff) linarith
  also have "\<dots> \<longleftrightarrow> 2000 < f" using assms(1) by (simp add: field_simps)
  finally have "t = 0 \<longleftrightarrow> 2000 < f" .
  moreover have "\<bar>of_nat (unat t) - 1000 / f\<bar> \<le> (1 / 2 :: rat)"
    unfolding e using lo hi by (intro abs_leI) linarith+
  ultimately show ?thesis by blast
qed

subsection \<open>Connections\<close>

text \<open>The places of the table of names are those of elements with the names.\<close>

definition refs_ok :: "(string \<rightharpoonup> nat) \<Rightarrow> (processing_element \<times> 'n) list \<Rightarrow> bool" where
  "refs_ok refs pes = (\<forall>n i. refs n = Some i \<longrightarrow> i < length pes \<and> pe_name (fst (pes ! i)) = n)"

definition same_but_bound :: "processing_element \<Rightarrow> processing_element \<Rightarrow> bool" where
  "same_but_bound p q = (q = p\<lparr>bound_comm_res_p := bound_comm_res_p q\<rparr>)"

definition pes_frame :: "string \<Rightarrow> (processing_element \<times> 'n) list \<Rightarrow> (processing_element \<times> 'n) list \<Rightarrow> bool" where
  "pes_frame n pes pes' = list_all2 (\<lambda>p p'. snd p' = snd p \<and> same_but_bound (fst p) (fst p')
     \<and> (bound_comm_res_p (fst p') = bound_comm_res_p (fst p) \<or> bound_comm_res_p (fst p') = Some n)) pes pes'"

definition instances :: "xml_front \<Rightarrow> xml_ptr list \<Rightarrow> string list \<Rightarrow> bool" where
  "instances x cs ms = (map (\<lambda>c. xmlGetValueGen x c ''instance'') cs = map (\<lambda>m. Inr (Some m)) ms)"

lemma same_but_bound_refl [simp]: "same_but_bound p p"
  by (simp add: same_but_bound_def)

lemma same_but_bound_trans: "same_but_bound p q \<Longrightarrow> same_but_bound q r \<Longrightarrow> same_but_bound p r"
  by (metis (no_types, lifting) processing_element.surjective processing_element.update_convs(9)
      same_but_bound_def)

lemma same_but_bound_name: "same_but_bound p q \<Longrightarrow> pe_name q = pe_name p"
  unfolding same_but_bound_def by (metis processing_element.select_convs(1) processing_element.surjective
      processing_element.update_convs(9))

lemma pes_frame_refl [simp]: "pes_frame n pes pes"
  by (simp add: pes_frame_def list_all2_refl)

lemma pes_frame_trans: "pes_frame n a b \<Longrightarrow> pes_frame n b c \<Longrightarrow> pes_frame n a c"
  unfolding pes_frame_def
  by (rule list_all2_trans) (auto intro: same_but_bound_trans)

lemma pes_frame_refs: "pes_frame n pes pes' \<Longrightarrow> refs_ok refs pes \<Longrightarrow> refs_ok refs pes'"
  unfolding pes_frame_def refs_ok_def list_all2_conv_all_nth by (metis same_but_bound_name)

lemma pes_frame_update:
  assumes "i < length pes" "same_but_bound (fst (pes ! i)) pe" "bound_comm_res_p pe = Some n"
  shows "pes_frame n pes (pes[i := (pe, snd (pes ! i))])"
  unfolding pes_frame_def list_all2_conv_all_nth
proof (intro conjI allI impI)
  fix k assume "k < length pes"
  with assms show "snd (pes[i := (pe, snd (pes ! i))] ! k) = snd (pes ! k)"
    "same_but_bound (fst (pes ! k)) (fst (pes[i := (pe, snd (pes ! i))] ! k))"
    "bound_comm_res_p (fst (pes[i := (pe, snd (pes ! i))] ! k)) = bound_comm_res_p (fst (pes ! k))
     \<or> bound_comm_res_p (fst (pes[i := (pe, snd (pes ! i))] ! k)) = Some n"
    by (cases "k = i"; simp)+
qed simp

lemma pes_frame_bound:
  "pes_frame n pes pes' \<Longrightarrow> i < length pes \<Longrightarrow> bound_comm_res_p (fst (pes ! i)) = Some n \<Longrightarrow>
     bound_comm_res_p (fst (pes' ! i)) = Some n"
  by (auto simp: pes_frame_def list_all2_conv_all_nth)

lemma pe_connect_Inr:
  "pe_connect e (Some r) pe = Inr (pe', r') \<longleftrightarrow>
     (bound_comm_res_p pe = None \<or> bound_comm_res_p pe = Some (comm_res_name r))
     \<and> is_ok (plug id e (pe_name pe) r) \<and> pe' = pe\<lparr>bound_comm_res_p := Some (comm_res_name r)\<rparr>
     \<and> r' = r\<lparr>connected_elements := connected_elements r @ [pe_name pe]\<rparr>"
  by (auto simp: pe_connect_def connect_element_def plug_def rmap_eq_Inr is_ok_iff)

lemma connect_PE_Inr:
  assumes "connect_PE x e refs c (pes, r) = Inr (pes', r')" "refs_ok refs pes"
  shows "\<exists>m i. xmlGetValueGen x c ''instance'' = Inr (Some m) \<and> refs m = Some i \<and> i < length pes
    \<and> (bound_comm_res_p (fst (pes ! i)) = None \<or> bound_comm_res_p (fst (pes ! i)) = Some (comm_res_name r))
    \<and> pes_frame (comm_res_name r) pes pes' \<and> bound_comm_res_p (fst (pes' ! i)) = Some (comm_res_name r)
    \<and> r' = r\<lparr>connected_elements := connected_elements r @ [m]\<rparr>"
proof -
  from assms(1) obtain inst i pe' where
    inst: "xmlGetValueGen x c ''instance'' = Inr inst" and place: "PE_place refs inst = Inr i" and
    con: "pe_connect e (Some r) (fst (pes ! i)) = Inr (pe', r')" and pes': "pes' = pes[i := (pe', snd (pes ! i))]"
    by (auto simp: connect_PE_def rbind_eq_Inr rmap_eq_Inr)
  from place obtain m where m: "inst = Some m" "refs m = Some i"
    by (auto simp: PE_place_def used_def rbind_eq_Inr split: option.splits)
  with assms(2) have i: "i < length pes" "pe_name (fst (pes ! i)) = m" by (auto simp: refs_ok_def)
  have frame: "pes_frame (comm_res_name r) pes pes'"
    using con i(1) unfolding pe_connect_Inr pes'
    by (intro pes_frame_update) (simp_all add: same_but_bound_def)
  show ?thesis
    using inst m i frame con unfolding pe_connect_Inr by (auto simp: pes')
qed

text \<open>What a series of connections does, for any communication resource.\<close>

lemma connect_PEs_Inr:
  assumes "connect_PEs x e refs cs (pes, r) = Inr (pes', r')" "refs_ok refs pes"
  shows "\<exists>ms. instances x cs ms \<and> pes_frame (comm_res_name r) pes pes'
    \<and> r' = r\<lparr>connected_elements := connected_elements r @ ms\<rparr>
    \<and> (\<forall>m \<in> set ms. \<exists>i < length pes. refs m = Some i
         \<and> (bound_comm_res_p (fst (pes ! i)) = None \<or> bound_comm_res_p (fst (pes ! i)) = Some (comm_res_name r))
         \<and> bound_comm_res_p (fst (pes' ! i)) = Some (comm_res_name r))"
  using assms
proof (induction cs arbitrary: pes r)
  case (Cons c cs)
  then obtain pes1 r1 where one: "connect_PE x e refs c (pes, r) = Inr (pes1, r1)"
    and rest: "connect_PEs x e refs cs (pes1, r1) = Inr (pes', r')" by (auto simp: rbind_eq_Inr)
  let ?n = "comm_res_name r"
  from connect_PE_Inr [OF one Cons.prems(2)] obtain m i where
    m: "xmlGetValueGen x c ''instance'' = Inr (Some m)" "refs m = Some i" "i < length pes"
      "bound_comm_res_p (fst (pes ! i)) = None \<or> bound_comm_res_p (fst (pes ! i)) = Some ?n"
      "bound_comm_res_p (fst (pes1 ! i)) = Some ?n"
      "r1 = r\<lparr>connected_elements := connected_elements r @ [m]\<rparr>" and f1: "pes_frame ?n pes pes1" by blast
  have len: "length pes1 = length pes" using f1 by (simp add: pes_frame_def list_all2_lengthD)
  from Cons.IH [OF rest pes_frame_refs [OF f1 Cons.prems(2)]] obtain ms where
    ms: "instances x cs ms" "r' = r1\<lparr>connected_elements := connected_elements r1 @ ms\<rparr>" and
    f2: "pes_frame ?n pes1 pes'" and
    bnd: "\<And>k. k \<in> set ms \<Longrightarrow> \<exists>i < length pes. refs k = Some i
         \<and> (bound_comm_res_p (fst (pes1 ! i)) = None \<or> bound_comm_res_p (fst (pes1 ! i)) = Some ?n)
         \<and> bound_comm_res_p (fst (pes' ! i)) = Some ?n"
    using m(6) len by auto
  have prior: "bound_comm_res_p (fst (pes ! k)) = None \<or> bound_comm_res_p (fst (pes ! k)) = Some ?n"
    if "k < length pes" "bound_comm_res_p (fst (pes1 ! k)) = None \<or> bound_comm_res_p (fst (pes1 ! k)) = Some ?n"
      "k \<noteq> i" for k
    using one m that by (auto simp: connect_PE_def rbind_eq_Inr rmap_eq_Inr PE_place_def used_def)
  have "\<exists>i < length pes. refs k = Some i
         \<and> (bound_comm_res_p (fst (pes ! i)) = None \<or> bound_comm_res_p (fst (pes ! i)) = Some ?n)
         \<and> bound_comm_res_p (fst (pes' ! i)) = Some ?n" if "k \<in> set (m # ms)" for k
  proof (cases "k = m")
    case True
    then show ?thesis using m(2-5) pes_frame_bound [OF f2, of i] len by auto
  next
    case False
    with that bnd [of k] obtain j where j: "j < length pes" "refs k = Some j"
      "bound_comm_res_p (fst (pes1 ! j)) = None \<or> bound_comm_res_p (fst (pes1 ! j)) = Some ?n"
      "bound_comm_res_p (fst (pes' ! j)) = Some ?n" by auto
    with prior [of j] m(4) show ?thesis by (cases "j = i") auto
  qed
  moreover have "instances x (c # cs) (m # ms)" using m(1) ms(1) by (simp add: instances_def)
  ultimately show ?case using ms(2) m(6) pes_frame_trans [OF f1 f2] by (intro exI [of _ "m # ms"]) simp
qed (auto simp: instances_def)

subsection \<open>The resources of a platform\<close>

text \<open>What the configuration of a bus keeps.\<close>

definition unconfigured_part :: "string tdma_bus \<Rightarrow> string \<times> string list \<times> u32 \<times> (string \<times> u32) list \<times> (string \<times> u32) list" where
  "unconfigured_part b = (comm_res_name b, connected_elements b, n_allocated_channels b,
     channel_allocation_table b, first_slot_allocation_table b)"

lemmas tdma_setters = set_n_channels_def set_slot_time_def set_channel_payload_bits_def
  set_channel_capacity_def set_channel_payload_rate_def set_cycle_time_def set_accuracy_level_def

lemma read_bits_part:
  assumes "read_bits x child msg f b = Inr b'" "\<And>n b1 b2. f n b1 = Inr b2 \<Longrightarrow> g b2 = g b1"
  shows "g b' = g b"
  using assms by (auto simp: read_bits_def rbind_eq_Inr split: option.splits)

lemma attributes_Inr:
  assumes "read_and_set_tdma_bus_attributes x e node b = Inr b'"
  shows "unconfigured_part b' = unconfigured_part b \<and> before_sim e
    \<and> (\<exists>b1. read_n_channels x e node b = Inr b1 \<and> n_channels b' = n_channels b1
        \<and> free_slot_table b' = free_slot_table b1)"
proof -
  from assms obtain b1 b2 b3 b4 b5 b6 where
    s: "read_n_channels x e node b = Inr b1" "read_slot_time x e node b1 = Inr b2"
      "read_payload_rate x e node b4 = Inr b5" "read_cycle_time x e node b5 = Inr b6"
      "read_accuracy x e node b6 = Inr b'" and
    r: "read_bits x (payload_child node)
          ''Unrecognized unit provided for the slot payload attributed of the TDMA bus ''
          (set_channel_payload_bits e) b2 = Inr b3"
       "read_bits x (getFirstChild node ''slot_capacity'')
          ''Unrecognized unit provided for the slot capacity attributed of the TDMA bus ''
          (set_channel_capacity e) b3 = Inr b4"
    unfolding read_and_set_tdma_bus_attributes_def rbind_eq_Inr by blast
  have 1: "unconfigured_part b1 = unconfigured_part b"
    using s(1) by (auto simp: read_n_channels_def unconfigured_part_def tdma_setters rbind_eq_Inr rmap_eq_Inr
        split: option.splits)
  have 2: "unconfigured_part b2 = unconfigured_part b1" "n_channels b2 = n_channels b1"
    "free_slot_table b2 = free_slot_table b1" "before_sim e"
    using s(2) by (auto simp: read_slot_time_def unconfigured_part_def tdma_setters rbind_eq_Inr rmap_eq_Inr
        split: option.splits)
  have 3: "unconfigured_part b4 = unconfigured_part b2" "n_channels b4 = n_channels b2"
    "free_slot_table b4 = free_slot_table b2"
    using read_bits_part [OF r(1), of unconfigured_part] read_bits_part [OF r(2), of unconfigured_part]
      read_bits_part [OF r(1), of n_channels] read_bits_part [OF r(2), of n_channels]
      read_bits_part [OF r(1), of free_slot_table] read_bits_part [OF r(2), of free_slot_table]
    by (auto simp: unconfigured_part_def tdma_setters rmap_eq_Inr)
  have 5: "unconfigured_part b5 = unconfigured_part b4" "n_channels b5 = n_channels b4"
    "free_slot_table b5 = free_slot_table b4"
    using s(3) by (auto simp: read_payload_rate_def unconfigured_part_def tdma_setters rbind_eq_Inr rmap_eq_Inr
        split: option.splits)
  have 6: "unconfigured_part b6 = unconfigured_part b5" "n_channels b6 = n_channels b5"
    "free_slot_table b6 = free_slot_table b5"
    using s(4) by (auto simp: read_cycle_time_def unconfigured_part_def tdma_setters rbind_eq_Inr rmap_eq_Inr
        split: option.splits if_splits)
  have 7: "unconfigured_part b' = unconfigured_part b6" "n_channels b' = n_channels b6"
    "free_slot_table b' = free_slot_table b6"
    using s(5) by (auto simp: read_accuracy_def unconfigured_part_def tdma_setters rbind_eq_Inr rmap_eq_Inr
        split: option.splits)
  show ?thesis using 1 2 3 5 6 7 s(1) by auto
qed

lemma allocate_channels_part:
  "allocate_channels a n b = Inr b' \<Longrightarrow>
     comm_res_name b' = comm_res_name b \<and> connected_elements b' = connected_elements b"
  by (auto simp: allocate_channels_def assign_free_slots_def record_allocation_def rbind_eq_Inr rmap_eq_Inr)

lemma allocate_PEs_part:
  "allocate_PEs x refs pes cs b = Inr b' \<Longrightarrow>
     comm_res_name b' = comm_res_name b \<and> connected_elements b' = connected_elements b"
proof (induction cs arbitrary: b)
  case (Cons c cs)
  then obtain b1 where "allocate_PE x refs pes c b = Inr b1" "allocate_PEs x refs pes cs b1 = Inr b'"
    by (auto simp: rbind_eq_Inr)
  with Cons.IH [of b1] show ?case
    using allocate_channels_part by (fastforce simp: allocate_PE_def rbind_eq_Inr)
qed simp

text \<open>The names of the resources of a platform, with the elements connected to them.\<close>

definition resources :: "'l hw_platform \<Rightarrow> (string \<times> string list) list" where
  "resources h = map (\<lambda>r. (comm_res_name r, connected_elements r)) (generic_comm_res h)
     @ map (\<lambda>b. (comm_res_name b, connected_elements b)) (tdma_bus_res h)"

definition linked :: "'l hw_platform \<Rightarrow> string \<Rightarrow> string list \<Rightarrow> bool" where
  "linked h n ms = (\<forall>m \<in> set ms. \<exists>i < length (PE_cluster h). PEref_by_name h m = Some i
     \<and> bound_comm_res_p (fst (PE_cluster h ! i)) = Some n)"

text \<open>A platform with one resource more, connected to the instances of the connections.\<close>

definition one_more :: "xml_front \<Rightarrow> xml_ptr list \<Rightarrow> string \<Rightarrow> 'l hw_platform \<Rightarrow> 'l hw_platform \<Rightarrow> bool" where
  "one_more x cs n h h' = (\<exists>ms. mset (resources h') = add_mset (n, ms) (mset (resources h))
     \<and> instances x cs ms \<and> linked h' n ms \<and> PEref_by_name h' = PEref_by_name h
     \<and> pes_frame n (PE_cluster h) (PE_cluster h')
     \<and> (\<forall>m \<in> set ms. \<exists>i. PEref_by_name h m = Some i
          \<and> bound_comm_res_p (fst (PE_cluster h ! i)) \<in> {None, Some n}))"

lemma hw_connections_Inr:
  assumes "hw_connections_from_node x e refs node (pes, r) = Inr (pes', r')" "refs_ok refs pes"
  shows "\<exists>cs ms. getHWConnectionsFromNode x node = Inr cs \<and> instances x cs ms
    \<and> pes_frame (comm_res_name r) pes pes' \<and> r' = r\<lparr>connected_elements := connected_elements r @ ms\<rparr>
    \<and> (\<forall>m \<in> set ms. \<exists>i < length pes. refs m = Some i
         \<and> (bound_comm_res_p (fst (pes ! i)) = None \<or> bound_comm_res_p (fst (pes ! i)) = Some (comm_res_name r))
         \<and> bound_comm_res_p (fst (pes' ! i)) = Some (comm_res_name r))"
proof -
  from assms(1) obtain cs where cs: "getHWConnectionsFromNode x node = Inr cs"
    and con: "connect_PEs x e refs cs (pes, r) = Inr (pes', r')"
    by (auto simp: hw_connections_from_node_def rbind_eq_Inr split: if_splits)
  show ?thesis using cs connect_PEs_Inr [OF con assms(2)] by blast
qed

lemma create_generic_step:
  assumes "create_generic x e n node h = Inr h'" "refs_ok (PEref_by_name h) (PE_cluster h)"
  shows "\<exists>cs. getHWConnectionsFromNode x node = Inr cs \<and> one_more x cs n h h'"
proof -
  from assms(1) obtain r tab pes r1 where
    r: "new_phy_comm_res e n (phy_commres_by_name h) = Inr (r, tab)" and
    con: "hw_connections_from_node x e (PEref_by_name h) node (PE_cluster h, r) = Inr (pes, r1)" and
    h': "h' = h\<lparr>PE_cluster := pes, phy_commres_by_name := tab, generic_comm_res := generic_comm_res h @ [r1]\<rparr>"
    by (auto simp: create_generic_def rbind_eq_Inr rmap_eq_Inr)
  have n: "comm_res_name r = n" "connected_elements r = []"
    using r by (auto simp: new_phy_comm_res_def new_comm_res_def rmap_eq_Inr comm_res.defs split: if_splits)
  from hw_connections_Inr [OF con assms(2)] obtain cs ms where
    cs: "getHWConnectionsFromNode x node = Inr cs" "instances x cs ms" "pes_frame n (PE_cluster h) pes"
      "r1 = r\<lparr>connected_elements := connected_elements r @ ms\<rparr>" and
    bnd: "\<forall>m \<in> set ms. \<exists>i < length (PE_cluster h). PEref_by_name h m = Some i
         \<and> (bound_comm_res_p (fst (PE_cluster h ! i)) = None \<or> bound_comm_res_p (fst (PE_cluster h ! i)) = Some n)
         \<and> bound_comm_res_p (fst (pes ! i)) = Some n" unfolding n(1) by blast
  have len: "length pes = length (PE_cluster h)" using cs(3) by (simp add: pes_frame_def list_all2_lengthD)
  have "linked h' n ms" using bnd by (auto simp: linked_def h' len)
  moreover have "mset (resources h') = add_mset (n, ms) (mset (resources h))"
    by (simp add: resources_def h' cs(4) n)
  moreover have "\<forall>m \<in> set ms. \<exists>i. PEref_by_name h m = Some i
          \<and> bound_comm_res_p (fst (PE_cluster h ! i)) \<in> {None, Some n}" using bnd by blast
  ultimately show ?thesis using cs by (auto simp: one_more_def h')
qed

lemma new_tdma_bus_part:
  "new_tdma_bus e n = Inr b \<Longrightarrow> unconfigured_part b = (n, [], 0, [], []) \<and> n_channels b = 0 \<and> free_slot_table b = []"
  by (auto simp: new_tdma_bus_def init_params_def unconfigured_part_def new_comm_res_def rmap_eq_Inr
      set_connections_message_size_invariant_def comm_res.defs tdma_bus.defs split: if_splits)

text \<open>A bus is configured, then the elements are connected, then the slots allocated.\<close>

lemma create_tdma_Inr:
  assumes "create_tdma x e n node h = Inr h'"
  shows "\<exists>b b1 pes b2 cs b3. new_tdma_bus e n = Inr b \<and> read_and_set_tdma_bus_attributes x e node b = Inr b1
    \<and> hw_connections_from_node x e (PEref_by_name h) node (PE_cluster h, b1) = Inr (pes, b2)
    \<and> getHWConnectionsFromNode x node = Inr cs \<and> allocate_PEs x (PEref_by_name h) pes cs b2 = Inr b3
    \<and> h' = h\<lparr>PE_cluster := pes, phy_commres_by_name := (phy_commres_by_name h)(n \<mapsto> n),
              tdma_bus_res := tdma_bus_res h @ [b3]\<rparr>"
  using assms unfolding create_tdma_def tdma_connections_from_node_def rbind_eq_Inr rmap_eq_Inr
  by (auto simp: rbind_eq_Inr rmap_eq_Inr)

lemma create_tdma_step:
  assumes "create_tdma x e n node h = Inr h'" "refs_ok (PEref_by_name h) (PE_cluster h)"
  shows "\<exists>cs. getHWConnectionsFromNode x node = Inr cs \<and> one_more x cs n h h'"
proof -
  from create_tdma_Inr [OF assms(1)] obtain b b1 pes b2 cs b3 where
    b: "new_tdma_bus e n = Inr b" "read_and_set_tdma_bus_attributes x e node b = Inr b1" and
    con: "hw_connections_from_node x e (PEref_by_name h) node (PE_cluster h, b1) = Inr (pes, b2)" and
    cs: "getHWConnectionsFromNode x node = Inr cs" and al: "allocate_PEs x (PEref_by_name h) pes cs b2 = Inr b3" and
    h': "h' = h\<lparr>PE_cluster := pes, phy_commres_by_name := (phy_commres_by_name h)(n \<mapsto> n),
              tdma_bus_res := tdma_bus_res h @ [b3]\<rparr>" by blast
  have n: "comm_res_name b1 = n" "connected_elements b1 = []"
    using new_tdma_bus_part [OF b(1)] attributes_Inr [OF b(2)] by (simp_all add: unconfigured_part_def)
  from hw_connections_Inr [OF con assms(2)] cs obtain ms where
    ms: "instances x cs ms" "pes_frame n (PE_cluster h) pes"
      "b2 = b1\<lparr>connected_elements := connected_elements b1 @ ms\<rparr>" and
    bnd: "\<forall>m \<in> set ms. \<exists>i < length (PE_cluster h). PEref_by_name h m = Some i
         \<and> (bound_comm_res_p (fst (PE_cluster h ! i)) = None \<or> bound_comm_res_p (fst (PE_cluster h ! i)) = Some n)
         \<and> bound_comm_res_p (fst (pes ! i)) = Some n" unfolding n(1) by auto
  have len: "length pes = length (PE_cluster h)" using ms(2) by (simp add: pes_frame_def list_all2_lengthD)
  have "linked h' n ms" using bnd by (auto simp: linked_def h' len)
  moreover have "mset (resources h') = add_mset (n, ms) (mset (resources h))"
    using allocate_PEs_part [OF al] by (simp add: resources_def h' ms(3) n)
  moreover have "\<forall>m \<in> set ms. \<exists>i. PEref_by_name h m = Some i
          \<and> bound_comm_res_p (fst (PE_cluster h ! i)) \<in> {None, Some n}" using bnd by blast
  ultimately show ?thesis using cs ms by (auto simp: one_more_def h')
qed

lemma one_of_three: "(if P then a else if Q then b else Inr c) = Inr d \<Longrightarrow> a = Inr d \<or> b = Inr d \<or> d = c"
  by (auto split: if_splits)

lemma create_comm_res_step:
  assumes "create_comm_res x e kn gen j node h = Inr h'" "refs_ok (PEref_by_name h) (PE_cluster h)"
  shows "h' = h \<or> (\<exists>cs m. getHWConnectionsFromNode x node = Inr cs \<and> one_more x cs (kn (Some m) j) h h')"
proof -
  from assms(1) obtain name k where nk: "xmlGetValueGen x node ''name'' = Inr name"
    "xmlGetValueGen x node ''type'' = Inr (Some k)"
    by (auto simp: create_comm_res_def rbind_eq_Inr split: option.splits)
  obtain m where m: "(case name of None \<Rightarrow> gen k j | Some s \<Rightarrow> s) = m" by simp
  let ?n = "kn (Some m) j"
  have "(if k = ''generic'' then create_generic x e ?n node h
         else if k = ''tdma_bus'' then create_tdma x e ?n node h else Inr h) = Inr h'"
    using assms(1) unfolding create_comm_res_def nk rbind_Inr Let_def option.case m .
  from one_of_three [OF this] consider "create_generic x e ?n node h = Inr h'" | "create_tdma x e ?n node h = Inr h'" | "h' = h"
    by blast
  then show ?thesis
    by cases (use create_generic_step [OF _ assms(2)] create_tdma_step [OF _ assms(2)] in blast)+
qed

subsection \<open>One resource for the whole document\<close>

lemma hw_connections_named:
  assumes "libxml x" "getHWConnectionsFromNode x node = Inr cs"
  shows "cs = named_nodes ''HW_Connection'' (xml_doc x)"
proof -
  have "CHILD_HW_CONNECTION_XPATH = ''//'' @ ''HW_Connection''" "plain_name ''HW_Connection''"
    by (simp_all add: CHILD_HW_CONNECTION_XPATH_def plain_name_def)
  with libxml.everywhere [OF assms(1), of "''HW_Connection''" "xml_doc x" node] assms(2)
  show ?thesis by (auto simp: getHWConnectionsFromNode_def set_nodes_def split: option.splits)
qed

definition one_resource :: "xml_front \<Rightarrow> (string option \<Rightarrow> nat \<Rightarrow> string) \<Rightarrow> nat \<Rightarrow> 'l hw_platform \<Rightarrow> bool" where
  "one_resource x kn j h = (refs_ok (PEref_by_name h) (PE_cluster h) \<and> (resources h = []
     \<or> (\<exists>m i ms. i < j \<and> resources h = [(kn (Some m) i, ms)]
          \<and> instances x (named_nodes ''HW_Connection'' (xml_doc x)) ms \<and> linked h (kn (Some m) i) ms)))"

lemma instances_same: "instances x cs ms \<Longrightarrow> instances x cs ms' \<Longrightarrow> ms = ms'"
  unfolding instances_def by (metis (no_types, lifting) Inr_inject inj_map_eq_map injI option.inject)

lemma one_resource_step:
  assumes "libxml x" "named_nodes ''HW_Connection'' (xml_doc x) \<noteq> []"
    and kn: "\<forall>m k i i'. kn (Some m) i = kn (Some k) i' \<longrightarrow> i = i'"
    and inv: "one_resource x kn j h" and h': "create_comm_res x e kn gen j node h = Inr h'"
  shows "one_resource x kn (Suc j) h'"
proof -
  let ?cs = "named_nodes ''HW_Connection'' (xml_doc x)"
  have refs: "refs_ok (PEref_by_name h) (PE_cluster h)" using inv by (simp add: one_resource_def)
  show ?thesis
  proof (cases "h' = h")
    case True
    with inv show ?thesis unfolding one_resource_def using less_SucI by blast
  next
    case False
    then obtain m where om: "one_more x ?cs (kn (Some m) j) h h'"
      using create_comm_res_step [OF h' refs] hw_connections_named [OF assms(1)] by blast
    let ?n = "kn (Some m) j"
    from om obtain ms where ms: "mset (resources h') = add_mset (?n, ms) (mset (resources h))"
      "instances x ?cs ms" "linked h' ?n ms" "PEref_by_name h' = PEref_by_name h"
      "pes_frame ?n (PE_cluster h) (PE_cluster h')" and
      prior: "\<forall>k \<in> set ms. \<exists>i. PEref_by_name h k = Some i
          \<and> bound_comm_res_p (fst (PE_cluster h ! i)) \<in> {None, Some ?n}"
      by (auto simp: one_more_def)
    have "resources h = []"
    proof (rule ccontr)
      assume "resources h \<noteq> []"
      with inv obtain k i ms1 where one: "i < j" "instances x ?cs ms1" "linked h (kn (Some k) i) ms1"
        by (auto simp: one_resource_def)
      from instances_same [OF ms(2) one(2)] one(3) have "linked h (kn (Some k) i) ms" by simp
      moreover have "ms \<noteq> []" using ms(2) assms(2) by (auto simp: instances_def)
      ultimately obtain a where "a \<in> set ms" "linked h (kn (Some k) i) ms" by (cases ms) auto
      then have "kn (Some k) i = ?n" using prior by (fastforce simp: linked_def)
      with kn one(1) show False by blast
    qed
    with ms(1) have "resources h' = [(?n, ms)]" by simp
    then show ?thesis
      using ms(2-4) pes_frame_refs [OF ms(5) refs] unfolding one_resource_def by auto
  qed
qed

lemma one_resource_all:
  assumes "libxml x" "named_nodes ''HW_Connection'' (xml_doc x) \<noteq> []"
    and "\<forall>m k i i'. kn (Some m) i = kn (Some k) i' \<longrightarrow> i = i'"
  shows "one_resource x kn j h \<Longrightarrow> create_comm_resources x e kn gen j ps h = Inr h' \<Longrightarrow> \<exists>j'. one_resource x kn j' h'"
proof (induction ps arbitrary: j h)
  case (Cons p ps)
  then obtain h1 where "create_comm_res x e kn gen j p h = Inr h1"
    "create_comm_resources x e kn gen (Suc j) ps h1 = Inr h'" by (auto simp: rbind_eq_Inr)
  with Cons.IH one_resource_step [OF assms(1,2,3) Cons.prems(1)] show ?case by blast
qed auto

lemma create_PEs_refs:
  "create_PEs x e kn raw j ps h = Inr h' \<Longrightarrow> refs_ok (PEref_by_name h) (PE_cluster h) \<Longrightarrow>
     refs_ok (PEref_by_name h') (PE_cluster h') \<and> resources h' = resources h"
proof (induction ps arbitrary: j h)
  case (Cons p ps)
  then obtain pe ni where rest: "create_PEs x e kn raw (Suc j) ps
         (h\<lparr>PE_cluster := PE_cluster h @ [(pe, ni)],
            PEref_by_name := (PEref_by_name h)(pe_name pe \<mapsto> length (PE_cluster h))\<rparr>) = Inr h'"
    by (auto simp: rbind_eq_Inr)
  have "refs_ok ((PEref_by_name h)(pe_name pe \<mapsto> length (PE_cluster h))) (PE_cluster h @ [(pe, ni)])"
    using Cons.prems(2) unfolding refs_ok_def by (auto simp: nth_append less_Suc_eq)
  with Cons.IH [OF rest] show ?case by (simp add: resources_def del: fun_upd_apply)
qed simp

lemma empty_platform_ok [simp]:
  "refs_ok (PEref_by_name empty_platform) (PE_cluster empty_platform)" "resources empty_platform = []"
  by (simp_all add: refs_ok_def resources_def empty_platform_def)

text \<open>
  C29: The query for the connections of a resource is absolute, so every resource of a description is
  connected to the processing elements of all the connections of the document, and the second one to ask
  for them is refused: a description with connections that is accepted has at most one generic resource or TDMA bus,
  connected to the instances of all the connections of the document, in their order, each of which is
  bound to it.\<close>
theorem described_connections:
  assumes "libxml x" "named_nodes ''HW_Connection'' (xml_doc x) \<noteq> []"
    and "\<forall>m k i i'. kn (Some m) i = kn (Some k) i' \<longrightarrow> i = i'"
    and "create_HW_platform x e kn gen raw empty_platform = Inr h"
  shows "length (generic_comm_res h) + length (tdma_bus_res h) \<le> 1
    \<and> (\<forall>(n, ms) \<in> set (resources h). instances x (named_nodes ''HW_Connection'' (xml_doc x)) ms \<and> linked h n ms)"
proof -
  let ?r = "\<lambda>h. refs_ok (PEref_by_name h) (PE_cluster h) \<and> resources h = []"
  from assms(4) obtain h1 where
    h1: "(if ThereIsPEs x then rbind (getPEs x) (\<lambda>ps. create_PEs x e kn raw 0 ps empty_platform) else Inr empty_platform) = Inr h1"
    and rest: "(if ThereIsCommResources x then rbind (getCommResources x) (\<lambda>ps. create_comm_resources x e kn gen (length (PE_cluster h1)) ps h1)
       else Inr h1) = Inr h" unfolding create_HW_platform_def rbind_eq_Inr by blast
  have "?r h1"
  proof (cases "ThereIsPEs x")
    case True
    with h1 obtain ps where "create_PEs x e kn raw 0 ps empty_platform = Inr h1" by (auto simp: rbind_eq_Inr)
    from create_PEs_refs [OF this] show ?thesis by simp
  qed (use h1 in auto)
  then have one: "one_resource x kn (length (PE_cluster h1)) h1" by (simp add: one_resource_def)
  have "\<exists>j. one_resource x kn j h"
  proof (cases "ThereIsCommResources x")
    case True
    with rest obtain ps where "create_comm_resources x e kn gen (length (PE_cluster h1)) ps h1 = Inr h" by (auto simp: rbind_eq_Inr)
    from one_resource_all [OF assms(1-3) one this] show ?thesis .
  qed (use rest one in auto)
  then obtain j where "one_resource x kn j h" by blast
  moreover have "length (generic_comm_res h) + length (tdma_bus_res h) = length (resources h)"
    by (simp add: resources_def)
  ultimately show ?thesis by (auto simp: one_resource_def)
qed


subsection \<open>The slots of a described bus\<close>

text \<open>
  The requests of the connections, when each names an element of the platform and a number of slots.
\<close>

definition slot_requests ::
    "xml_front \<Rightarrow> (string \<rightharpoonup> nat) \<Rightarrow> xml_ptr list \<Rightarrow> (string \<times> u32) list \<Rightarrow> bool" where
  "slot_requests x refs cs rs = list_all2 (\<lambda>c r. xmlGetValueGen x c ''instance'' = Inr (Some (fst r))
     \<and> refs (fst r) \<noteq> None
     \<and> (\<exists>s. xmlGetValueGen x c ''slots_number'' = Inr (Some s) \<and> atou s = Inr (snd r))) cs rs"

lemma allocate_PEs_requests:
  "slot_requests x refs cs rs \<Longrightarrow> refs_ok refs pes \<Longrightarrow> allocate_PEs x refs pes cs b = allocate_all rs b"
proof (induction cs arbitrary: rs b)
  case (Cons c cs)
  then obtain a n rs' where rs: "rs = (a, n) # rs'" "slot_requests x refs cs rs'"
    and c: "xmlGetValueGen x c ''instance'' = Inr (Some a)"
    by (auto simp: slot_requests_def list_all2_Cons1)
  from Cons.prems(1) rs obtain i s where i: "refs a = Some i"
    and s: "xmlGetValueGen x c ''slots_number'' = Inr (Some s)" "atou s = Inr n"
    by (auto simp: slot_requests_def)
  have "pe_name (fst (pes ! i)) = a" using Cons.prems(2) i by (simp add: refs_ok_def)
  then have "allocate_PE x refs pes c = allocate_channels a n"
    by (simp add: fun_eq_iff allocate_PE_def c s i shown_def PE_place_def used_def)
  moreover have "allocate_PEs x refs pes cs = allocate_all rs'"
    using Cons.IH [OF rs(2) Cons.prems(2)] by (intro ext)
  ultimately show ?case by (simp add: rs(1))
qed (auto simp: slot_requests_def)

text \<open>An allocation that succeeds fits in the bus, for any sizes of the numbers.\<close>

lemma allocate_channels_fits:
  assumes "auto_inv b" "0 < m" "allocate_channels a m b = Inr b'"
  shows "unat (n_allocated_channels b) + unat m \<le> unat (n_channels b)"
proof -
  let ?k = "n_allocated_channels b" and ?n = "n_channels b"
  from assms(3) obtain r where r: "assign_free_slots m b = Inr r"
    by (auto simp: allocate_channels_def rbind_eq_Inr rmap_eq_Inr)
  have free: "free_slot_table b = (if ?k = ?n then [] else [(?k, ?n - 1)])" and le: "?k \<le> ?n"
    using assms(1) by (simp_all add: auto_inv_def)
  have "m \<le> ?n - ?k"
    using r by (auto simp: assign_free_slots_def free range_size_rest rbind_check split: if_splits)
  then show ?thesis using le by (simp add: word_le_nat_alt unat_sub)
qed

lemma allocate_all_fits:
  "auto_inv b \<Longrightarrow> distinct (map fst rs) \<Longrightarrow> \<forall>(a, m) \<in> set rs. 0 < m \<Longrightarrow>
     \<forall>a \<in> fst ` set rs. map_of (channel_allocation_table b) a = None \<Longrightarrow> allocate_all rs b = Inr b' \<Longrightarrow>
     unat (n_allocated_channels b) + requested rs \<le> unat (n_channels b)"
proof (induction rs arbitrary: b)
  case Nil
  then show ?case by (simp add: requested_def auto_inv_def word_le_nat_alt)
next
  case (Cons r rs)
  obtain a m where r: "r = (a, m)" by (cases r)
  from Cons.prems(5) r obtain b1 where b1: "allocate_channels a m b = Inr b1" "allocate_all rs b1 = Inr b'"
    by (auto simp: rbind_eq_Inr)
  have m: "0 < m" "map_of (channel_allocation_table b) a = None" using Cons.prems(3,4) by (simp_all add: r)
  note fits = allocate_channels_fits [OF Cons.prems(1) m(1) b1(1)]
  obtain b2 where b2: "allocate_channels a m b = Inr b2" "auto_inv b2"
    "n_allocated_channels b2 = n_allocated_channels b + m" "n_channels b2 = n_channels b"
    "map_of (channel_allocation_table b2) = (map_of (channel_allocation_table b))(a \<mapsto> m)"
    using allocate_channels_auto [OF Cons.prems(1) m(1) fits m(2)] by metis
  have e: "b2 = b1" using b1(1) b2(1) by simp
  have u: "unat (n_allocated_channels b1) = unat (n_allocated_channels b) + unat m"
    using b2(3) fits u32_bound [of "n_channels b"] unfolding e by (simp add: unat_word_ariths)
  have "\<forall>k \<in> fst ` set rs. map_of (channel_allocation_table b1) k = None"
    using Cons.prems(2,4) b2(5) unfolding e by (auto simp: r)
  from Cons.IH [OF b2(2) [unfolded e] _ _ this b1(2)] Cons.prems(2,3) u b2(4)
  show ?case unfolding e by (simp add: r requested_def)
qed

lemma allocate_channels_n_channels: "allocate_channels a m b = Inr b' \<Longrightarrow> n_channels b' = n_channels b"
  by (auto simp: allocate_channels_def assign_free_slots_def record_allocation_def rbind_eq_Inr rmap_eq_Inr)

lemma allocate_all_n_channels: "allocate_all rs b = Inr b' \<Longrightarrow> n_channels b' = n_channels b"
  by (induction rs b rule: allocate_all.induct) (auto simp: rbind_eq_Inr dest!: allocate_channels_n_channels)

lemma read_n_channels_table:
  assumes "read_n_channels x e node b = Inr b1" "free_slot_table b = []"
  shows "free_slot_table b1 \<in> {[], [(0, n_channels b1 - 1)]}"
  using assms by (auto simp: read_n_channels_def set_n_channels_def rbind_eq_Inr rmap_eq_Inr split: option.splits)

text \<open>
  The elements that the connections of a description give slots of a TDMA bus get disjoint ranges in the order of the
  document, within the bus, each of the size its connection asks for, the first from the first slot on, and the check of
  the allocation at the end of the elaboration accepts them, provided that the connections are of
  different elements and each asks for some slot. A description that asks for more slots than the bus has, or for
  slots of a bus without any, is never accepted, whatever the sizes of the numbers.\<close>
theorem described_slots:
  assumes "refs_ok (PEref_by_name h) (PE_cluster h)" "getHWConnectionsFromNode x node = Inr cs"
    and "slot_requests x (PEref_by_name h) cs rs" "distinct (map fst rs)" "\<forall>(a, m) \<in> set rs. 0 < m" "rs \<noteq> []"
    and "create_tdma x e n node h = Inr h'"
  shows "\<exists>b. tdma_bus_res h' = tdma_bus_res h @ [b] \<and> check_slot_allocation b = Inr True
    \<and> requested rs \<le> unat (n_channels b)
    \<and> (\<forall>i < length rs. slots_of b (fst (rs ! i)) = {requested (take i rs) ..< requested (take (Suc i) rs)})"
proof -
  from create_tdma_Inr [OF assms(7)] assms(2) obtain b b1 pes b2 b3 where
    b: "new_tdma_bus e n = Inr b" "read_and_set_tdma_bus_attributes x e node b = Inr b1" and
    con: "hw_connections_from_node x e (PEref_by_name h) node (PE_cluster h, b1) = Inr (pes, b2)" and
    al: "allocate_PEs x (PEref_by_name h) pes cs b2 = Inr b3" and
    h': "tdma_bus_res h' = tdma_bus_res h @ [b3]" by auto
  have part: "n_allocated_channels b1 = 0" "channel_allocation_table b1 = []" "first_slot_allocation_table b1 = []"
    and tab: "free_slot_table b1 \<in> {[], [(0, n_channels b1 - 1)]}"
    using new_tdma_bus_part [OF b(1)] attributes_Inr [OF b(2)] read_n_channels_table [of x e node b]
    by (auto simp: unconfigured_part_def)
  from hw_connections_Inr [OF con assms(1)] obtain ms where
    b2: "b2 = b1\<lparr>connected_elements := connected_elements b1 @ ms\<rparr>" and fr: "pes_frame (comm_res_name b1) (PE_cluster h) pes"
    by blast
  have all: "allocate_all rs b2 = Inr b3"
    using al allocate_PEs_requests [OF assms(3) pes_frame_refs [OF fr assms(1)]] by simp
  obtain a m rs' where rs: "rs = (a, m) # rs'" "0 < m" using assms(5,6) by (cases rs) auto
  from all rs(1) obtain b4 where b4: "allocate_channels a m b2 = Inr b4" by (auto simp: rbind_eq_Inr)
  then have ne: "free_slot_table b1 = [(0, n_channels b1 - 1)]" "n_channels b1 \<noteq> 0"
    using tab rs(2) by (auto simp: allocate_channels_def assign_free_slots_def b2 range_size_def rbind_eq_Inr
        rmap_eq_Inr rbind_check split: if_splits)
  then have un: "unallocated b2" using part by (simp add: unallocated_def b2)
  have fits: "requested rs \<le> unat (n_channels b2)"
    using allocate_all_fits [OF unallocated_inv [OF un] assms(4,5) _ all] un by (simp add: unallocated_def)
  have tables: "unat (n_allocated_channels b2) = 0" "channel_allocation_table b2 = []"
    using un by (simp_all add: unallocated_def)
  obtain b' where b': "allocate_all rs b2 = Inr b'" "auto_inv b'"
    "\<And>i. i < length rs \<Longrightarrow> map_of (first_slot_allocation_table b') (fst (rs ! i)) = Some (of_nat (requested (take i rs)))
        \<and> map_of (channel_allocation_table b') (fst (rs ! i)) = Some (snd (rs ! i))"
    using allocate_all_auto [OF unallocated_inv [OF un] assms(4,5)] fits tables by auto
  have e: "b' = b3" using b'(1) all by simp
  have "channel_allocation_table b3 \<noteq> []" using b'(3) [of 0] assms(6) unfolding e by auto
  then have "check_slot_allocation b3 = Inr True" by (rule auto_inv_check [OF b'(2) [unfolded e]])
  moreover note consecutive_slots [OF b'(3) fits, unfolded e]
  ultimately show ?thesis using h' fits allocate_all_n_channels [OF all] by auto
qed

end
