(* ===== verification/Xml_Platform_Props.thy ===== *)
theory Xml_Platform_Props
  imports Xml_Hardware_Props
begin

text \<open>
  The processing elements of a system description, and a description evaluated: two processing elements on a
  TDMA bus.
\<close>

subsection \<open>Processing elements\<close>

text \<open>
  The clock period is the nearest to that of the frequency, 20 ns without one, and the buffer of the network interface is bounded exactly when
  its size has a unit.
\<close>

definition described_clock :: "xml_front \<Rightarrow> xml_ptr \<Rightarrow> u32 \<Rightarrow> bool" where
  "described_clock x p t = (case getFirstChild p ''freq'' of
       None \<Rightarrow> t = 20
     | Some c \<Rightarrow> \<exists>f. readFreqMHz x c = Inr f \<and> (\<forall>q. f = Fin q \<and> 0 < q \<longrightarrow>
         \<bar>of_nat (unat t) - 1000 / q\<bar> \<le> (1 / 2 :: rat) \<and> (t = 0 \<longleftrightarrow> 2000 < q)))"

definition described_buffer :: "xml_front \<Rightarrow> xml_ptr \<Rightarrow> network_interface \<Rightarrow> bool" where
  "described_buffer x n ni = (case getFirstChild n ''tx_buffer_size'' of
       None \<Rightarrow> \<not> finite_buffer_flag ni
     | Some b \<Rightarrow> \<exists>s u sz. xmlGetValueGen x b ''value'' = Inr (Some s) \<and> atou s = Inr sz
         \<and> xmlGetValueGen x b ''unit'' = Inr u \<and> u \<in> {None, Some ''bit'', Some ''byte''}
         \<and> finite_buffer_flag ni = (u \<noteq> None)
         \<and> (u \<noteq> None \<longrightarrow> tx_buffer_size ni = (if u = Some ''byte'' then sz * 8 else sz)
              \<and> room_in_tx_buffer ni = tx_buffer_size ni))"

definition described_netif :: "xml_front \<Rightarrow> xml_ptr \<Rightarrow> string \<Rightarrow> network_interface option \<Rightarrow> bool" where
  "described_netif x p n ni = (case getFirstChild p ''netif'' of
       None \<Rightarrow> ni = None
     | Some c \<Rightarrow> \<exists>s. xmlGetValueGen x c ''value'' = Inr (Some s)
         \<and> (if s = ''true'' then \<exists>i. ni = Some i \<and> owner_PE i = n \<and> described_buffer x c i else ni = None))"

definition described_PE ::
    "xml_front \<Rightarrow> (string option \<Rightarrow> nat \<Rightarrow> string) \<Rightarrow> nat \<Rightarrow> xml_ptr
       \<Rightarrow> processing_element \<times> network_interface option \<Rightarrow> bool" where
  "described_PE x kn j p q = (\<exists>name. xmlGetValueGen x p ''name'' = Inr name \<and> pe_name (fst q) = kn name j
     \<and> described_clock x p (clock_period_ns (fst q)) \<and> getCPI x p = Inr (cpi (fst q))
     \<and> described_netif x p (pe_name (fst q)) (snd q) \<and> (netif_p (fst q) = None \<longleftrightarrow> snd q = None))"

lemma configure_clock_Inr:
  assumes "configure_clock x e name p pe = Inr pe'" "clock_period_ns pe = 20"
  shows "described_clock x p (clock_period_ns pe') \<and> pe' = pe\<lparr>clock_period_ns := clock_period_ns pe'\<rparr>"
proof (cases "getFirstChild p ''freq''")
  case None
  with assms show ?thesis
    by (auto simp: configure_clock_def has_freq_def hasChild_iff described_clock_def rmap_eq_Inr)
next
  case (Some c)
  with assms(1) obtain f t where f: "readFreqMHz x c = Inr f" "clock_period_of f = Inr t"
    and pe': "set_clock_period_ns e t pe = Inr pe'"
    by (auto simp: configure_clock_def has_freq_def hasChild_iff get_freq_MHz_def rbind_eq_Inr)
  have "pe' = pe\<lparr>clock_period_ns := t\<rparr>" using pe' by (auto simp: set_clock_period_ns_def rbind_eq_Inr)
  then show ?thesis using f Some clock_period_near by (auto simp: described_clock_def)
qed

lemma configure_CPI_Inr:
  "configure_CPI x e name p pe = Inr pe' \<Longrightarrow> getCPI x p = Inr (cpi pe') \<and> pe' = pe\<lparr>cpi := cpi pe'\<rparr>"
  by (auto simp: configure_CPI_def set_CPI_def rbind_eq_Inr rmap_eq_Inr)

lemma configure_tx_buffer_Inr:
  assumes "configure_tx_buffer x e n b ni = Inr ni'" "getFirstChild c ''tx_buffer_size'' = Some b"
    and "\<not> finite_buffer_flag ni"
  shows "described_buffer x c ni' \<and> owner_PE ni' = owner_PE ni"
proof -
  from assms(1) obtain s u sz where s: "xmlGetValueGen x b ''value'' = Inr (Some s)" "atou s = Inr sz"
    "xmlGetValueGen x b ''unit'' = Inr u" and
    r: "(case u of None \<Rightarrow> Inr ni | Some t \<Rightarrow> (if t = ''bit'' then set_tx_buffer_size e sz ni
          else if t = ''byte'' then set_tx_buffer_size e (sz * 8) ni
          else report (''Unrecognized unit provided for the transmission buffer size of the PE '' @ n))) = Inr ni'"
    by (auto simp: configure_tx_buffer_def rbind_eq_Inr split: option.splits)
  have set: "set_tx_buffer_size e k ni = Inr ni' \<Longrightarrow> finite_buffer_flag ni' \<and> tx_buffer_size ni' = k
      \<and> room_in_tx_buffer ni' = k \<and> owner_PE ni' = owner_PE ni" for k
    by (auto simp: set_tx_buffer_size_def split: if_splits)
  show ?thesis
  proof (cases u)
    case None
    with r s assms(2,3) show ?thesis by (auto simp: described_buffer_def)
  next
    case (Some t)
    with r consider "t = ''bit''" "set_tx_buffer_size e sz ni = Inr ni'"
      | "t = ''byte''" "set_tx_buffer_size e (sz * 8) ni = Inr ni'"
      by (auto split: if_split_asm split del: if_split)
    then show ?thesis using s Some assms(2) set by cases (auto simp: described_buffer_def)
  qed
qed

lemma configure_netif_Inr:
  assumes "configure_netif x e name p pe = Inr (pe', ni)" "netif_p pe = None"
  shows "described_netif x p (pe_name pe') ni \<and> pe' = pe\<lparr>netif_p := netif_p pe'\<rparr> \<and> (netif_p pe' = None \<longleftrightarrow> ni = None)"
proof (cases "getFirstChild p ''netif''")
  case None
  with assms show ?thesis by (auto simp: configure_netif_def get_netif_node_def described_netif_def)
next
  case (Some c)
  with assms(1) obtain s where s: "xmlGetValueGen x c ''value'' = Inr (Some s)" and
    r: "(if \<not> s = ''true'' then Inr (pe, None) else rbind (set_has_netif e pe) (\<lambda>pe1.
          let ni = new_network_interface (pe_name pe1) in rmap (\<lambda>ni1. (pe1, Some ni1))
             (case get_tx_buffer_size_node c of None \<Rightarrow> Inr ni
              | Some b \<Rightarrow> configure_tx_buffer x e (pe_name pe1) b ni))) = Inr (pe', ni)"
    by (auto simp: configure_netif_def get_netif_node_def read_netif_flag_def rbind_eq_Inr split: option.splits)
  show ?thesis
  proof (cases "s = ''true''")
    case False
    with r have "pe' = pe" "ni = None" by simp_all
    with False s Some assms(2) show ?thesis by (simp add: described_netif_def)
  next
    case True
    with r obtain ni1 where "set_has_netif e pe = Inr pe'" and ni: "ni = Some ni1" and
      b: "(case get_tx_buffer_size_node c of None \<Rightarrow> Inr (new_network_interface (pe_name pe'))
           | Some b \<Rightarrow> configure_tx_buffer x e (pe_name pe') b (new_network_interface (pe_name pe'))) = Inr ni1"
      by (auto simp: rbind_eq_Inr rmap_eq_Inr Let_def)
    then have pe': "pe' = pe\<lparr>netif_p := netif_p pe'\<rparr>" "netif_p pe' \<noteq> None"
      by (auto simp: set_has_netif_def rbind_eq_Inr)
    have "described_buffer x c ni1 \<and> owner_PE ni1 = pe_name pe'"
    proof (cases "getFirstChild c ''tx_buffer_size''")
      case None
      with b show ?thesis
        by (auto simp: get_tx_buffer_size_node_def described_buffer_def new_network_interface_def)
    next
      case (Some q)
      with b configure_tx_buffer_Inr [OF _ Some, of x e "pe_name pe'" "new_network_interface (pe_name pe')" ni1]
      show ?thesis by (simp add: get_tx_buffer_size_node_def new_network_interface_def)
    qed
    with True s Some ni pe' show ?thesis by (simp add: described_netif_def)
  qed
qed

lemma create_PE_Inr:
  assumes "create_PE x e kn raw j p = Inr q"
  shows "described_PE x kn j p q"
proof -
  let ?pe = "\<lambda>n. new_processing_element raw (kn n j)"
  from assms obtain name pe1 pe2 where name: "xmlGetValueGen x p ''name'' = Inr name" and
    s: "configure_clock x e name p (?pe name) = Inr pe1" "configure_CPI x e name p pe1 = Inr pe2"
      "configure_netif x e name p pe2 = Inr q" by (auto simp: create_PE_def rbind_eq_Inr)
  obtain pe ni where q: "q = (pe, ni)" by (cases q)
  have new: "pe_name (?pe name) = kn name j" "clock_period_ns (?pe name) = 20" "netif_p (?pe name) = None"
    by (simp_all add: new_processing_element_def)
  from configure_clock_Inr [OF s(1) new(2)] new have
    1: "described_clock x p (clock_period_ns pe1)" "pe_name pe1 = kn name j" "netif_p pe1 = None"
    by (metis processing_element.surjective processing_element.update_convs(4) processing_element.select_convs(1,6))+
  from configure_CPI_Inr [OF s(2)] 1 have
    2: "getCPI x p = Inr (cpi pe2)" "clock_period_ns pe2 = clock_period_ns pe1" "pe_name pe2 = kn name j" "netif_p pe2 = None"
    by (metis processing_element.surjective processing_element.update_convs(5) processing_element.select_convs(1,4,6))+
  from configure_netif_Inr [OF s(3) [unfolded q] 2(4)] have
    3: "described_netif x p (pe_name pe) ni" "netif_p pe = None \<longleftrightarrow> ni = None" "cpi pe = cpi pe2"
      "clock_period_ns pe = clock_period_ns pe2" "pe_name pe = pe_name pe2"
    by (metis processing_element.surjective processing_element.update_convs(6) processing_element.select_convs(1,4,5))+
  show ?thesis using name 1(1) 2 3 by (simp add: described_PE_def q)
qed

lemma create_PEs_described:
  "create_PEs x e kn raw j ps h = Inr h' \<Longrightarrow> \<exists>qs. PE_cluster h' = PE_cluster h @ qs \<and> length qs = length ps
     \<and> (\<forall>i < length ps. described_PE x kn (j + i) (ps ! i) (qs ! i))"
proof (induction ps arbitrary: j h)
  case (Cons p ps)
  then obtain pe ni where one: "create_PE x e kn (raw j) j p = Inr (pe, ni)"
    and rest: "create_PEs x e kn raw (Suc j) ps
         (h\<lparr>PE_cluster := PE_cluster h @ [(pe, ni)],
            PEref_by_name := (PEref_by_name h)(pe_name pe \<mapsto> length (PE_cluster h))\<rparr>) = Inr h'"
    by (auto simp: rbind_eq_Inr)
  from Cons.IH [OF rest] obtain qs where qs: "PE_cluster h' = PE_cluster h @ (pe, ni) # qs" "length qs = length ps"
    "\<forall>i < length ps. described_PE x kn (Suc j + i) (ps ! i) (qs ! i)" by auto
  have "described_PE x kn (j + i) ((p # ps) ! i) (((pe, ni) # qs) ! i)" if "i < length (p # ps)" for i
    using that create_PE_Inr [OF one] qs(3) by (cases i) auto
  with qs(1,2) show ?case by (intro exI [of _ "(pe, ni) # qs"]) simp
qed simp

text \<open>The resources change nothing of the elements but what they are bound to.\<close>

definition same_PEs :: "'l hw_platform \<Rightarrow> 'l hw_platform \<Rightarrow> bool" where
  "same_PEs h h' = list_all2 (\<lambda>p p'. snd p' = snd p \<and> same_but_bound (fst p) (fst p')) (PE_cluster h) (PE_cluster h')"

lemma same_PEs_trans: "same_PEs a b \<Longrightarrow> same_PEs b c \<Longrightarrow> same_PEs a c"
  unfolding same_PEs_def by (rule list_all2_trans) (auto intro: same_but_bound_trans)

lemma create_comm_resources_same:
  "create_comm_resources x e kn gen j ps h = Inr h' \<Longrightarrow> refs_ok (PEref_by_name h) (PE_cluster h) \<Longrightarrow> same_PEs h h'"
proof (induction ps arbitrary: j h)
  case (Cons p ps)
  then obtain h1 where h1: "create_comm_res x e kn gen j p h = Inr h1"
    "create_comm_resources x e kn gen (Suc j) ps h1 = Inr h'" by (auto simp: rbind_eq_Inr)
  have "same_PEs h h1 \<and> refs_ok (PEref_by_name h1) (PE_cluster h1)"
  proof (cases "h1 = h")
    case True
    then show ?thesis using Cons.prems(2) by (simp add: same_PEs_def list_all2_refl)
  next
    case False
    with create_comm_res_step [OF h1(1) Cons.prems(2)] obtain n cs where "one_more x cs n h h1" by blast
    then have f: "pes_frame n (PE_cluster h) (PE_cluster h1)" "PEref_by_name h1 = PEref_by_name h"
      by (auto simp: one_more_def)
    from pes_frame_refs [OF f(1) Cons.prems(2)] f show ?thesis
      by (auto simp: same_PEs_def pes_frame_def elim: list_all2_mono)
  qed
  with Cons.IH [OF h1(2)] show ?case by (blast intro: same_PEs_trans)
qed (simp add: same_PEs_def list_all2_refl)

lemma described_PE_same:
  assumes "described_PE x kn j p q" "snd q' = snd q" "same_but_bound (fst q) (fst q')"
  shows "described_PE x kn j p q'"
proof -
  have "pe_name (fst q') = pe_name (fst q) \<and> clock_period_ns (fst q') = clock_period_ns (fst q)
      \<and> cpi (fst q') = cpi (fst q) \<and> netif_p (fst q') = netif_p (fst q)"
    using assms(3) unfolding same_but_bound_def
    by (metis processing_element.surjective processing_element.update_convs(9) processing_element.select_convs(1,4,5,6))
  with assms(1,2) show ?thesis by (simp add: described_PE_def)
qed

text \<open>
  C30: The processing elements of an accepted description are those of its nodes, in their order, each with the name the
  kernel gives it, the cycles per instruction of its node and a clock period in nanoseconds that is the nearest to that
  of its frequency, so zero exactly above 2 GHz, or 20 without a frequency. An element has a network interface
  exactly when its node says true, with a bounded buffer of the described size exactly when the size has a
  unit: a size without a unit, which the message of the front end says is in bits, leaves the buffer unbounded.\<close>
theorem described_processing_elements:
  assumes "create_HW_platform x e kn gen raw empty_platform = Inr h"
    and "node_set_of x PE_XPATH = Some ps"
  shows "length (PE_cluster h) = length ps \<and> (\<forall>j < length ps. described_PE x kn j (ps ! j) (PE_cluster h ! j))"
proof -
  from assms obtain h1 where h1: "create_PEs x e kn raw 0 ps empty_platform = Inr h1"
    and rest: "(if ThereIsCommResources x then rbind (getCommResources x)
          (\<lambda>ps. create_comm_resources x e kn gen (length (PE_cluster h1)) ps h1) else Inr h1) = Inr h"
    unfolding create_HW_platform_def rbind_eq_Inr by (auto simp: ThereIsPEs_def getPEs_def)
  have refs: "refs_ok (PEref_by_name h1) (PE_cluster h1)" using create_PEs_refs [OF h1] by simp
  have "same_PEs h1 h"
  proof (cases "ThereIsCommResources x")
    case True
    with rest obtain rs where "create_comm_resources x e kn gen (length (PE_cluster h1)) rs h1 = Inr h"
      by (auto simp: rbind_eq_Inr)
    from create_comm_resources_same [OF this refs] show ?thesis .
  qed (use rest in \<open>auto simp: same_PEs_def list_all2_refl\<close>)
  then have same: "length (PE_cluster h) = length (PE_cluster h1)"
    "\<And>j. j < length (PE_cluster h1) \<Longrightarrow> snd (PE_cluster h ! j) = snd (PE_cluster h1 ! j)
       \<and> same_but_bound (fst (PE_cluster h1 ! j)) (fst (PE_cluster h ! j))"
    by (auto simp: same_PEs_def list_all2_conv_all_nth)
  from create_PEs_described [OF h1] have "length (PE_cluster h1) = length ps"
    "\<forall>j < length ps. described_PE x kn j (ps ! j) (PE_cluster h1 ! j)" by (auto simp: empty_platform_def)
  with same show ?thesis by (auto intro: described_PE_same)
qed

end
