(* ===== verification/Xml_Hw_Example.thy ===== *)
theory Xml_Hw_Example
  imports Xml_Platform_Props
begin

subsection \<open>An example\<close>

text \<open>Two processing elements on a TDMA bus of eight slots.\<close>

definition leaf :: "string \<Rightarrow> (string \<times> string) list \<Rightarrow> xml_node" where
  "leaf n ps = Xml_Node n ps []"

definition cpu0_node :: xml_node where
  "cpu0_node = Xml_Node ''PE'' [(''name'', ''cpu0'')]
     [leaf ''freq'' [(''value'', ''300''), (''unit'', ''MHz'')], leaf ''CPI'' [(''value'', ''2'')],
      Xml_Node ''netif'' [(''value'', ''true'')] [leaf ''tx_buffer_size'' [(''value'', ''16''), (''unit'', ''byte'')]]]"

definition cpu1_node :: xml_node where
  "cpu1_node = Xml_Node ''PE'' [(''name'', ''cpu1'')] []"

definition bus_node :: xml_node where
  "bus_node = Xml_Node ''comm_res'' [(''name'', ''bus''), (''type'', ''tdma_bus'')]
     [leaf ''n_channels'' [(''value'', ''8'')], leaf ''slot_time'' [(''value'', ''1'')],
      leaf ''HW_Connection'' [(''name'', ''c0''), (''instance'', ''cpu0''), (''slots_number'', ''2'')],
      leaf ''HW_Connection'' [(''name'', ''c1''), (''instance'', ''cpu1''), (''slots_number'', ''3'')]]"

definition arch_node :: xml_node where
  "arch_node = Xml_Node ''HW_Architecture'' [] [cpu0_node, cpu1_node, bus_node]"

definition hw_example :: xml_node where
  "hw_example = Xml_Node ''system'' [] [Xml_Node ''platform'' [] [Xml_Node ''HW_platform'' [] [arch_node]]]"

abbreviation hw_front :: xml_front where
  "hw_front \<equiv> front_example hw_example"

definition arch_up :: "xml_node list" where
  "arch_up = [arch_node, Xml_Node ''HW_platform'' [] [arch_node],
     Xml_Node ''platform'' [] [Xml_Node ''HW_platform'' [] [arch_node]], hw_example]"

lemmas hw_nodes = cpu0_node_def cpu1_node_def bus_node_def leaf_def

lemma hw_node_sets:
  "node_set_of hw_front PE_XPATH = Some [(cpu0_node, arch_up), (cpu1_node, arch_up)]"
  "node_set_of hw_front COMM_RES_XPATH = Some [(bus_node, arch_up)]"
  by (simp_all add: node_set_of_def getNodeSet_def front_example_sel tree_lib_def set_nodes_def PE_XPATH_def
      COMM_RES_XPATH_def sysconf_path_def absolute_nodes_def hw_example_def xml_children_def ptr_name_def
      arch_node_def arch_up_def hw_nodes)

definition bus_connections :: "xml_ptr list" where
  "bus_connections = map (\<lambda>c. (c, bus_node # arch_up)) (drop 2 (sub_nodes bus_node))"

lemma hw_connections_example:
  "named_nodes ''HW_Connection'' hw_example = bus_connections"
  "getHWConnectionsFromNode hw_front node = Inr bus_connections"
  "ThereIsHWConnectionsInNode hw_front node"
proof -
  show n: "named_nodes ''HW_Connection'' hw_example = bus_connections"
    by (simp add: named_nodes_def bus_connections_def hw_example_def arch_node_def arch_up_def ptr_name_def hw_nodes)
  show "getHWConnectionsFromNode hw_front node = Inr bus_connections" "ThereIsHWConnectionsInNode hw_front node"
    by (simp_all add: getHWConnectionsFromNode_def ThereIsHWConnectionsInNode_def front_example_sel tree_lib_def
        CHILD_HW_CONNECTION_XPATH_def n)
qed

text \<open>Values of the example: none is a reference.\<close>

lemma hw_value: "xmlGetValueGen hw_front p a = (case map_of (node_props (fst p)) a of None \<Rightarrow> Inr None
    | Some v \<Rightarrow> if is_reference v then rmap Some (scalar_parameter hw_front (tl v)) else Inr (Some v))"
  by (simp add: xmlGetValueGen_def front_example_sel tree_lib_def)

lemma hw_shown [simp]: "shown hw_front s = Inr ()"
  by (simp add: shown_def front_example_sel)

definition example_kernel :: "string option \<Rightarrow> nat \<Rightarrow> string" where
  "example_kernel n j = (if j = 0 then ''cpu0'' else if j = 1 then ''cpu1'' else ''bus'' @ replicate (j - 2) CHR ''_'')"

lemma example_kernel_inj: "example_kernel n i = example_kernel m j \<Longrightarrow> i = j"
proof -
  assume e: "example_kernel n i = example_kernel m j"
  then have "length (example_kernel n i) = length (example_kernel m j)" by simp
  with e show ?thesis by (auto simp: example_kernel_def split: if_splits)
qed

lemma decimal_texts:
  "decimal 1 = ''1''" "decimal 2 = ''2''" "decimal 3 = ''3''" "decimal 8 = ''8''" "decimal 16 = ''16''" "decimal 300 = ''300''"
  by code_simp+

lemma example_numbers [simp]:
  "atou ''2'' = Inr 2" "atou ''3'' = Inr 3" "atou ''8'' = Inr 8" "atou ''16'' = Inr 16"
  "atof ''1'' = Fin 1" "atof ''300'' = Fin 300"
  using atou_decimal [of 2] atou_decimal [of 3] atou_decimal [of 8] atou_decimal [of 16] atof_decimal [of 1]
    atof_decimal [of 300] by (simp_all add: decimal_texts [simplified])

lemma example_clock: "clock_period_of (Fin 300) = Inr 3"
proof -
  have "\<lfloor>23 / 6 :: rat\<rfloor> = 3" by (simp add: floor_eq_iff)
  then show ?thesis by (simp add: clock_period_Fin)
qed

definition hw_elab :: sim_env where
  "hw_elab = \<lparr>sc_status = SC_ELABORATION, sc_running = False, sc_now = 0\<rparr>"

lemma hw_elab [simp]: "before_sim hw_elab" "sc_status hw_elab = SC_ELABORATION"
  by (simp_all add: hw_elab_def before_sim_def)

lemma hw_elab_check [simp]: "check_call_before_sim_start hw_elab n = Inr ()"
  by (simp add: check_call_before_sim_start_def)

definition cpu0_made :: "double \<Rightarrow> processing_element \<times> network_interface option" where
  "cpu0_made raw = ((new_processing_element raw ''cpu0'')\<lparr>clock_period_ns := 3, cpi := 2, netif_p := Some ''cpu0_netif''\<rparr>,
     Some ((new_network_interface ''cpu0'')\<lparr>finite_buffer_flag := True, tx_buffer_size := 128, room_in_tx_buffer := 128\<rparr>))"

definition cpu1_made :: "double \<Rightarrow> processing_element \<times> network_interface option" where
  "cpu1_made raw = (new_processing_element raw ''cpu1'', None)"

lemma example_PEs:
  "create_PE hw_front hw_elab example_kernel raw 0 (cpu0_node, arch_up) = Inr (cpu0_made raw)"
  "create_PE hw_front hw_elab example_kernel raw 1 (cpu1_node, arch_up) = Inr (cpu1_made raw)"
proof -
  show "create_PE hw_front hw_elab example_kernel raw 1 (cpu1_node, arch_up) = Inr (cpu1_made raw)"
    by (simp add: create_PE_def hw_value cpu1_node_def is_reference_def configure_clock_def has_freq_def hasChild_def
        xml_children_def configure_CPI_def getCPI_def getFirstChild_def set_CPI_def
        configure_netif_def get_netif_node_def cpu1_made_def example_kernel_def new_processing_element_def)
  let ?pe = "new_processing_element raw ''cpu0''"
  have 1: "configure_clock hw_front hw_elab name (cpu0_node, arch_up) pe = Inr (pe\<lparr>clock_period_ns := 3\<rparr>)" for name pe
    by (simp add: configure_clock_def has_freq_def hasChild_def cpu0_node_def leaf_def xml_children_def ptr_name_def
        get_freq_MHz_def getFirstChild_def readFreqMHz_def hw_value is_reference_def conv_value_by_unit_def unit_letter_def
        src_factor_def tgt_factor_def example_clock appended_as_char_def front_example_sel set_clock_period_ns_def
       )
  have 2: "configure_CPI hw_front hw_elab name (cpu0_node, arch_up) pe = Inr (pe\<lparr>cpi := 2\<rparr>)" for name pe
    by (simp add: configure_CPI_def getCPI_def getFirstChild_def cpu0_node_def leaf_def xml_children_def ptr_name_def
        hw_value is_reference_def set_CPI_def)
  have 3: "configure_netif hw_front hw_elab name (cpu0_node, arch_up) pe = Inr (pe\<lparr>netif_p := Some (pe_name pe @ ''_netif'')\<rparr>,
     Some ((new_network_interface (pe_name pe))\<lparr>finite_buffer_flag := True, tx_buffer_size := 128, room_in_tx_buffer := 128\<rparr>))" for name pe
    by (simp add: configure_netif_def get_netif_node_def getFirstChild_def cpu0_node_def leaf_def xml_children_def ptr_name_def
        hw_value is_reference_def read_netif_flag_def set_has_netif_def
        get_tx_buffer_size_node_def configure_tx_buffer_def set_tx_buffer_size_def new_network_interface_def)
  have name: "xmlGetValueGen hw_front (cpu0_node, arch_up) ''name'' = Inr (Some ''cpu0'')"
    by (simp add: hw_value cpu0_node_def is_reference_def)
  show "create_PE hw_front hw_elab example_kernel raw 0 (cpu0_node, arch_up) = Inr (cpu0_made raw)"
    by (simp add: create_PE_def 1 2 3 name example_kernel_def cpu0_made_def new_processing_element_def)
qed

definition bus_created :: "string tdma_bus" where
  "bus_created = init_params (\<lparr>comm_res_name = ''bus'', BW_limit = Fin (- 1), connections_limit = 0, time_invariant = False,
             dimension_time_invariant = True, connections_time_invariant = False,
             connections_message_size_invariant = True, connected_elements = [],
             links_table = Map.empty, info_at = (\<lambda>_. new_link_info), next_info = 0\<rparr>)"

definition bus_configured :: "string tdma_bus" where
  "bus_configured = bus_created\<lparr>n_channels := 8, free_slot_table := [(0, 7)], slot_time := 10 ^ 12\<rparr>"

lemma bus_parts:
  "comm_res_name bus_configured = ''bus''" "connected_elements bus_configured = []"
  "time_invariant bus_configured = False" "dimension_time_invariant bus_configured = True" "unallocated bus_configured"
  by (simp_all add: unallocated_def bus_configured_def bus_created_def init_params_def comm_res.defs tdma_bus.defs
      set_connections_message_size_invariant_def)

lemma example_bus_created: "new_tdma_bus hw_elab ''bus'' = Inr bus_created"
  by (simp add: new_tdma_bus_def new_comm_res_def bus_created_def)

lemma example_second: "to_ticks (Fin (10 ^ 12)) = Inr (10 ^ 12)"
  using to_ticks_nat [of "10 ^ 12"] by simp

lemma example_attributes:
  "read_and_set_tdma_bus_attributes hw_front hw_elab (bus_node, arch_up) bus_created = Inr bus_configured"
proof -
  let ?n = "(bus_node, arch_up)"
  have none: "getFirstChild ?n ''slot_payload'' = None" "getFirstChild ?n ''payload'' = None"
    "getFirstChild ?n ''slot_capacity'' = None" "getFirstChild ?n ''slot_payload_rate'' = None"
    "getFirstChild ?n ''cycle_time'' = None" "getFirstChild ?n ''accuracy_level'' = None"
    "getFirstChild ?n ''accuracy'' = None"
    and some: "getFirstChild ?n ''n_channels'' = Some (leaf ''n_channels'' [(''value'', ''8'')], bus_node # arch_up)"
    "getFirstChild ?n ''slot_time'' = Some (leaf ''slot_time'' [(''value'', ''1'')], bus_node # arch_up)"
    by (simp_all add: getFirstChild_def xml_children_def ptr_name_def bus_node_def leaf_def)
  have t: "readTime hw_front (leaf ''slot_time'' [(''value'', ''1'')], up) = Inr (10 ^ 12)" for up
    using example_second
    by (simp add: readTime_def hw_value leaf_def is_reference_def sc_time_sec_def sc_times_def)
  have n: "read_n_channels hw_front hw_elab ?n b = Inr (b\<lparr>n_channels := 8, free_slot_table := free_slot_table b @ [(0, 7)]\<rparr>)" for b
    by (simp add: read_n_channels_def child_or_def some(1)) (simp add: hw_value leaf_def is_reference_def set_n_channels_def)
  have "free_slot_table bus_created = []"
    by (simp add: bus_created_def init_params_def comm_res.defs tdma_bus.defs set_connections_message_size_invariant_def)
  then show ?thesis
    by (simp add: read_and_set_tdma_bus_attributes_def n read_slot_time_def some(2) t set_slot_time_def
        read_bits_def payload_child_def child_or_def none read_payload_rate_def read_cycle_time_def read_accuracy_def
        bus_configured_def)
qed

definition example_slots_requested :: "(string \<times> u32) list" where
  "example_slots_requested = [(''cpu0'', 2), (''cpu1'', 3)]"

definition example_refs :: "string \<rightharpoonup> nat" where
  "example_refs = [''cpu0'' \<mapsto> 0, ''cpu1'' \<mapsto> 1]"

lemma example_slot_requests: "slot_requests hw_front example_refs bus_connections example_slots_requested"
  by (simp add: slot_requests_def bus_connections_def bus_node_def leaf_def hw_value is_reference_def
      example_slots_requested_def example_refs_def)

definition PEs_made :: "(nat \<Rightarrow> double) \<Rightarrow> 'l hw_platform" where
  "PEs_made raw = empty_platform\<lparr>PE_cluster := [cpu0_made (raw 0), cpu1_made (raw 1)], PEref_by_name := example_refs\<rparr>"

lemma made_names: "pe_name (fst (cpu0_made r)) = ''cpu0''" "pe_name (fst (cpu1_made r)) = ''cpu1''"
  "bound_comm_res_p (fst (cpu0_made r)) = None" "bound_comm_res_p (fst (cpu1_made r)) = None"
  by (simp_all add: cpu0_made_def cpu1_made_def new_processing_element_def)

lemma example_PEs_made:
  "create_PEs hw_front hw_elab example_kernel raw 0 [(cpu0_node, arch_up), (cpu1_node, arch_up)] empty_platform
     = Inr (PEs_made raw)"
  using example_PEs(1) [of "raw 0"] example_PEs(2) [of "raw 1"] made_names(1) [of "raw 0"] made_names(2) [of "raw 1"]
  by (cases "cpu0_made (raw 0)"; cases "cpu1_made (raw 1)")
    (simp add: PEs_made_def empty_platform_def example_refs_def)

lemma example_connected:
  "\<exists>pes. connect_PEs hw_front hw_elab example_refs bus_connections ([cpu0_made r, cpu1_made s], bus_configured)
     = Inr (pes, bus_configured\<lparr>connected_elements := [''cpu0'', ''cpu1'']\<rparr>)"
  by (simp add: bus_connections_def bus_node_def leaf_def connect_PE_def hw_value is_reference_def PE_place_def used_def
      example_refs_def pe_connect_def connect_element_def plug_def bus_parts made_names check_time_invariance_def)

lemma made_fields [simp]:
  "PEref_by_name (PEs_made raw) = example_refs" "PE_cluster (PEs_made raw) = [cpu0_made (raw 0), cpu1_made (raw 1)]"
  by (simp_all add: PEs_made_def)

lemma made_refs_ok: "refs_ok example_refs [cpu0_made r, cpu1_made s]"
  by (auto simp: refs_ok_def example_refs_def made_names split: if_splits)

lemma example_bus_made:
  "\<exists>h. create_tdma hw_front hw_elab ''bus'' (bus_node, arch_up) (PEs_made raw) = Inr h"
proof -
  obtain pes where pes: "connect_PEs hw_front hw_elab example_refs bus_connections
      ([cpu0_made (raw 0), cpu1_made (raw 1)], bus_configured)
     = Inr (pes, bus_configured\<lparr>connected_elements := [''cpu0'', ''cpu1'']\<rparr>)"
    using example_connected [of "raw 0" "raw 1"] by blast
  let ?b = "bus_configured\<lparr>connected_elements := [''cpu0'', ''cpu1'']\<rparr>"
  have "unallocated ?b" using bus_parts(5) by (simp add: unallocated_def)
  moreover have "n_channels ?b = 8" by (simp add: bus_configured_def)
  ultimately obtain b where b: "allocate_all example_slots_requested ?b = Inr b"
    using allocate_all_auto [OF unallocated_inv, of ?b example_slots_requested]
    by (auto simp: unallocated_def example_slots_requested_def requested_def)
  have fr: "refs_ok example_refs pes"
    using connect_PEs_Inr [OF pes made_refs_ok] pes_frame_refs [OF _ made_refs_ok] by blast
  show ?thesis
    using pes b
    by (simp add: create_tdma_def example_bus_created example_attributes tdma_connections_from_node_def
        hw_connections_from_node_def hw_connections_example allocate_PEs_requests [OF example_slot_requests fr])
qed

lemma example_platform:
  "create_tdma hw_front hw_elab ''bus'' (bus_node, arch_up) (PEs_made raw) = Inr h \<Longrightarrow>
     create_HW_platform hw_front hw_elab example_kernel gen raw empty_platform = Inr h"
proof -
  assume h: "create_tdma hw_front hw_elab ''bus'' (bus_node, arch_up) (PEs_made raw) = Inr h"
  have "xmlGetValueGen hw_front (bus_node, arch_up) ''name'' = Inr (Some ''bus'')"
    "xmlGetValueGen hw_front (bus_node, arch_up) ''type'' = Inr (Some ''tdma_bus'')"
    by (simp_all add: hw_value bus_node_def is_reference_def)
  then have "create_comm_res hw_front hw_elab example_kernel gen 2 (bus_node, arch_up) (PEs_made raw) = Inr h"
    using h by (simp add: create_comm_res_def example_kernel_def)
  then show ?thesis
    by (simp add: create_HW_platform_def ThereIsPEs_def getPEs_def hw_node_sets example_PEs_made ThereIsCommResources_def
        getCommResources_def numeral_2_eq_2 del: create_PEs.simps)
qed

theorem described_connections_witness:
  "\<exists>h :: nat hw_platform. create_HW_platform hw_front hw_elab example_kernel (\<lambda>k _. k) (\<lambda>_. Fin 0) empty_platform = Inr h
     \<and> length (generic_comm_res h) + length (tdma_bus_res h) \<le> 1 \<and> tdma_bus_res h \<noteq> []"
proof -
  obtain h :: "nat hw_platform" where h: "create_tdma hw_front hw_elab ''bus'' (bus_node, arch_up) (PEs_made (\<lambda>_. Fin 0)) = Inr h"
    using example_bus_made by blast
  have ne: "named_nodes ''HW_Connection'' (xml_doc hw_front) \<noteq> []"
    by (simp add: front_example_sel hw_connections_example bus_connections_def bus_node_def)
  have "tdma_bus_res h \<noteq> []" using create_tdma_Inr [OF h] by auto
  moreover have "\<forall>m k i i'. example_kernel (Some m) i = example_kernel (Some k) i' \<longrightarrow> i = i'"
    using example_kernel_inj by blast
  ultimately show ?thesis
    using described_connections [OF libxml_example ne _ example_platform [OF h]] example_platform [OF h] by blast
qed

theorem described_slots_witness:
  "\<exists>b (h :: nat hw_platform). create_tdma hw_front hw_elab ''bus'' (bus_node, arch_up) (PEs_made (\<lambda>_. Fin 0)) = Inr h \<and> tdma_bus_res h = [b]
     \<and> slots_of b ''cpu0'' = {0 ..< 2} \<and> slots_of b ''cpu1'' = {2 ..< 5}"
proof -
  obtain h :: "nat hw_platform" where h: "create_tdma hw_front hw_elab ''bus'' (bus_node, arch_up) (PEs_made (\<lambda>_. Fin 0)) = Inr h"
    using example_bus_made by blast
  let ?rs = example_slots_requested
  have "\<exists>b. tdma_bus_res h = tdma_bus_res (PEs_made (\<lambda>_. Fin 0) :: nat hw_platform) @ [b] \<and> check_slot_allocation b = Inr True
    \<and> requested ?rs \<le> unat (n_channels b)
    \<and> (\<forall>i < length ?rs. slots_of b (fst (?rs ! i)) = {requested (take i ?rs) ..< requested (take (Suc i) ?rs)})"
    using described_slots [OF _ hw_connections_example(2) _ _ _ _ h, of ?rs] made_refs_ok example_slot_requests
    by (simp add: example_slots_requested_def)
  then obtain b where b: "tdma_bus_res h = tdma_bus_res (PEs_made (\<lambda>_. Fin 0) :: nat hw_platform) @ [b]"
    "\<And>i. i < 2 \<Longrightarrow> slots_of b (fst (?rs ! i)) = {requested (take i ?rs) ..< requested (take (Suc i) ?rs)}"
    by (auto simp: example_slots_requested_def)
  from b(2) [of 0] b(2) [of 1] have "slots_of b ''cpu0'' = {0 ..< 2}" "slots_of b ''cpu1'' = {2 ..< 5}"
    by (simp_all add: example_slots_requested_def requested_def)
  with b(1) h show ?thesis by (auto simp: PEs_made_def empty_platform_def)
qed

theorem described_processing_elements_witness:
  "\<exists>h :: nat hw_platform. create_HW_platform hw_front hw_elab example_kernel (\<lambda>k _. k) (\<lambda>_. Fin 0) empty_platform = Inr h
     \<and> length (PE_cluster h) = 2 \<and> described_PE hw_front example_kernel 0 (cpu0_node, arch_up) (PE_cluster h ! 0)"
proof -
  obtain h :: "nat hw_platform" where h: "create_tdma hw_front hw_elab ''bus'' (bus_node, arch_up) (PEs_made (\<lambda>_. Fin 0)) = Inr h"
    using example_bus_made by blast
  from described_processing_elements [OF example_platform [OF h] hw_node_sets(1)] example_platform [OF h]
  have "length (PE_cluster h) = 2" "described_PE hw_front example_kernel 0 (cpu0_node, arch_up) (PE_cluster h ! 0)"
    by auto
  with example_platform [OF h] show ?thesis by blast
qed

end
