(* ===== verification/Xml_App_Example.thy ===== *)
theory Xml_App_Example
  imports Xml_Main_Props Xml_Hw_Example
begin

subsection \<open>An example\<close>

text \<open>
  Two tasks on one processor; the first reads from a task of the environment and writes to the second.
\<close>

definition period_ms :: "string \<Rightarrow> xml_node" where
  "period_ms v = leaf ''period'' [(''value'', v), (''unit'', ''ms'')]"

definition task_a_node :: xml_node where
  "task_a_node = Xml_Node ''task'' [(''name'', ''a'')] [Xml_Node ''task_properties'' [] [period_ms ''20'']]"

definition task_b_node :: xml_node where
  "task_b_node = leaf ''task'' [(''name'', ''b'')]"

definition properties_node :: xml_node where
  "properties_node = Xml_Node ''task_properties'' [(''task_name'', ''a'')]
     [leaf ''WCET'' [(''value'', ''2''), (''unit'', ''ms'')], period_ms ''10'']"

definition channel_ab_node :: xml_node where
  "channel_ab_node = leaf ''comm_synch'' [(''name'', ''ab''), (''src'', ''a''), (''dest'', ''b''),
     (''comm_type'', ''fifo_buffer''), (''comm_data_type'', ''int'')]"

definition channel_in_node :: xml_node where
  "channel_in_node = leaf ''comm_synch'' [(''name'', ''in''), (''src'', ''sensor''), (''dest'', ''a''), (''io'', ''true''),
     (''comm_type'', ''fifo_buffer''), (''comm_data_type'', ''char''), (''token_size'', ''8'')]"

definition app_node :: xml_node where
  "app_node = Xml_Node ''application'' [] [task_a_node, task_b_node, properties_node, channel_ab_node, channel_in_node]"

definition sensor_node :: xml_node where
  "sensor_node = Xml_Node ''task'' [(''name'', ''sensor'')] [leaf ''function'' [(''name'', ''f''), (''file'', ''env.so'')]]"

definition environment_node :: xml_node where
  "environment_node = Xml_Node ''environment'' [] [sensor_node]"

definition platform_node :: xml_node where
  "platform_node = Xml_Node ''platform'' []
     [Xml_Node ''SW_platform'' [] [rtos_example ''r'' [(''policy'', ''EDF''), (''triggering'', ''preemptive'')]],
      Xml_Node ''HW_platform'' [] [Xml_Node ''HW_Architecture'' [] [cpu1_node]],
      Xml_Node ''platform_mapping'' [] [leaf ''map_rtos'' [(''source'', ''r''), (''target'', ''cpu1'')]]]"

definition mapping_node :: xml_node where
  "mapping_node = Xml_Node ''application_mapping'' []
     [leaf ''map_task'' [(''source'', ''b''), (''target'', ''r'')], leaf ''map_task'' [(''source'', ''a''), (''target'', ''r'')]]"

definition app_example :: xml_node where
  "app_example = Xml_Node ''system'' [] [environment_node, app_node, platform_node, mapping_node]"

abbreviation app_front :: xml_front where
  "app_front \<equiv> front_example app_example"

definition app_up :: "xml_node list" where
  "app_up = [app_node, app_example]"

lemmas app_nodes = task_a_node_def task_b_node_def properties_node_def channel_ab_node_def channel_in_node_def
  sensor_node_def environment_node_def platform_node_def mapping_node_def leaf_def period_ms_def rtos_example_def
  cpu1_node_def

lemmas app_set = node_set_of_def getNodeSet_def front_example_sel tree_lib_def set_nodes_def sysconf_path_def
  absolute_nodes_def xml_children_def ptr_name_def

lemma app_node_sets:
  "node_set_of app_front ''/system/application/task'' = Some [(task_a_node, app_up), (task_b_node, app_up)]"
  "node_set_of app_front ''/system/application'' = Some [(app_node, [app_example])]"
  "node_set_of app_front ''/system/application/task_properties'' = Some [(properties_node, app_up)]"
  "node_set_of app_front ''/system/application/comm_synch'' = Some [(channel_ab_node, app_up), (channel_in_node, app_up)]"
  "node_set_of app_front ''/system/environment/task'' = Some [(sensor_node, [environment_node, app_example])]"
  "node_set_of app_front ''/system/environment/global_init'' = None"
  "node_set_of app_front ''/system/environment/global_end'' = None"
  by (simp_all add: app_set app_example_def app_node_def app_up_def app_nodes)

lemma platform_node_sets:
  "\<exists>up. node_set_of app_front ''/system/platform/SW_platform/rtos'' =
     Some [(rtos_example ''r'' [(''policy'', ''EDF''), (''triggering'', ''preemptive'')], up)]"
  "\<exists>up. node_set_of app_front PE_XPATH = Some [(cpu1_node, up)]"
  "node_set_of app_front COMM_RES_XPATH = None"
  "\<exists>up. node_set_of app_front ''/system/platform/platform_mapping/map_rtos'' =
     Some [(leaf ''map_rtos'' [(''source'', ''r''), (''target'', ''cpu1'')], up)]"
  "\<exists>up. node_set_of app_front ''/system/application_mapping/map_task'' =
     Some [(leaf ''map_task'' [(''source'', ''b''), (''target'', ''r'')], up),
           (leaf ''map_task'' [(''source'', ''a''), (''target'', ''r'')], up)]"
  by (simp_all add: app_set app_example_def app_node_def app_nodes PE_XPATH_def COMM_RES_XPATH_def)

lemma app_value: "xmlGetValueGen app_front p a = (case map_of (node_props (fst p)) a of None \<Rightarrow> Inr None
    | Some v \<Rightarrow> if is_reference v then rmap Some (scalar_parameter app_front (tl v)) else Inr (Some v))"
  by (simp add: xmlGetValueGen_def front_example_sel tree_lib_def)

lemma app_shown [simp]: "shown app_front s = Inr ()"
  by (simp add: shown_def front_example_sel)

subsection \<open>The tasks of the example\<close>

definition same_name :: "string \<Rightarrow> nat \<Rightarrow> string" where
  "same_name n j = n"

definition example_loader :: dl_lib where
  "example_loader = \<lparr>dl_open = (\<lambda>l. if l = ''./env.so'' then Some 1 else None),
     dl_sym = (\<lambda>h f. if f = ''f'' then Some (Some 64) else None)\<rparr>"

lemma app_decimals: "decimal 10 = ''10''" "decimal 20 = ''20''"
  by code_simp+

lemma app_numbers [simp]: "atof ''10'' = Fin 10" "atof ''20'' = Fin 20" "atof ''2'' = Fin 2"
  using atof_decimal [of 10] atof_decimal [of 20] atof_decimal [of 2]
  by (simp_all add: app_decimals decimal_texts [simplified])

lemma ms_time: "n * 10 ^ 9 < 2 ^ 64 \<Longrightarrow>
  sc_time_sec (conv_value_by_unit (Fin (of_nat n)) (Some ''ms'') None) = Inr (n * 10 ^ 9)"
  using to_ticks_nat [of "n * 10 ^ 9"]
  by (simp add: sc_time_sec_def conv_value_by_unit_def unit_letter_def src_factor_def sc_times_def mult.commute)

lemma ms_times [simp]:
  "sc_time_sec (conv_value_by_unit (Fin 10) (Some ''ms'') None) = Inr 10000000000"
  "sc_time_sec (conv_value_by_unit (Fin 20) (Some ''ms'') None) = Inr 20000000000"
  "sc_time_sec (conv_value_by_unit (Fin 2) (Some ''ms'') None) = Inr 2000000000"
  using ms_time [of 10] ms_time [of 20] ms_time [of 2] by simp_all

definition example_new :: "string \<Rightarrow> nat \<Rightarrow> task_info_t" where
  "example_new n i = fst (task_init SYSTEM_TASK ((construct_members example_task n)\<lparr>app_p := None\<rparr>)
     (initial_globals\<lparr>task_vector := replicate i []\<rparr>))"

lemma example_new_sel [simp]: "task_name (example_new n i) = n" "Deadline (example_new n i) = 0"
  "kista_id (example_new n i) = i" "app_p (example_new n i) = None"
  by (simp_all add: example_new_def task_init_def construct_members_def)

definition task_a_made :: task_info_t where
  "task_a_made = (example_new ''a'' 0)\<lparr>WCET := 2000000000, WCET_set := True, Period := 10000000000,
     is_periodic_flag := True, Deadline := 20000000000\<rparr>"

lemma elab_set [simp]: "check_before_simulation hw_elab n t = Inr ()"
  by (simp add: check_before_simulation_def)

lemma task_a_properties:
  "getTaskProperties app_front hw_elab (task_a_node, app_up) (example_new ''a'' 0) = Inr task_a_made"
proof -
  have p1: "read_properties app_front hw_elab (Xml_Node ''task_properties'' [] [period_ms ''20''], up) t
      = readPeriod app_front hw_elab (period_ms ''20'', Xml_Node ''task_properties'' [] [period_ms ''20''] # up) t"
    for up t
    by (cases "readPeriod app_front hw_elab (period_ms ''20'', Xml_Node ''task_properties'' [] [period_ms ''20''] # up) t")
      (simp_all add: read_properties_def read_child_def getFirstChild_def xml_children_def ptr_name_def period_ms_def leaf_def)
  have period: "readPeriod app_front hw_elab (period_ms v, up) t =
      (if w = 0 then report '' to 0.'' else Inr (period_effect w t))"
    if "sc_time_sec (conv_value_by_unit (atof v) (Some ''ms'') None) = Inr w" "\<not> is_reference v" for v w up t
    using that by (simp add: readPeriod_def read_task_time_def app_value period_ms_def leaf_def is_reference_def
        set_Period_def period_effect_def Let_def)
  have wcet: "readWCET app_front hw_elab (leaf ''WCET'' [(''value'', ''2''), (''unit'', ''ms'')], up) t =
      Inr (t\<lparr>WCET := 2000000000, WCET_set := True\<rparr>)" for up t
    by (simp add: readWCET_def read_task_time_def app_value leaf_def is_reference_def set_WCET_def)
  have p2: "read_properties app_front hw_elab (properties_node, up) t =
      Inr (period_effect 10000000000 (t\<lparr>WCET := 2000000000, WCET_set := True\<rparr>))" for up t
    by (simp add: read_properties_def read_child_def getFirstChild_def xml_children_def ptr_name_def
        properties_node_def wcet period is_reference_def)
      (simp add: leaf_def period_ms_def)
  have name: "xmlGetValueGen app_front (properties_node, up) ''task_name'' = Inr (Some ''a'')" for up
    by (simp add: app_value properties_node_def is_reference_def)
  show ?thesis
    by (simp add: getTaskProperties_def getTaskPropertiesFromApplication_def app_node_sets name p2
        task_a_node_def xml_children_def ptr_name_def p1 period is_reference_def)
      (simp add: period_effect_def task_a_made_def)
qed

lemma task_b_properties:
  "getTaskProperties app_front hw_elab (task_b_node, app_up) (example_new ''b'' 1) = Inr (example_new ''b'' 1)"
proof -
  have name: "xmlGetValueGen app_front (properties_node, up) ''task_name'' = Inr (Some ''a'')" for up
    by (simp add: app_value properties_node_def is_reference_def)
  show ?thesis
    by (simp add: getTaskProperties_def getTaskPropertiesFromApplication_def app_node_sets name
        task_b_node_def leaf_def xml_children_def)
qed

definition globals_made :: "string list \<Rightarrow> kista_globals" where
  "globals_made ns = initial_globals\<lparr>app_visibility := SET_IMPLICIT_APPS, task_vector := ns\<rparr>"

lemma example_constructed:
  "new_described_task 1 example_task ''a'' app initial_globals = Inr (example_new ''a'' 0, globals_made [''a''])"
  "new_described_task 1 example_task ''b'' app (globals_made [''a'']) = Inr (example_new ''b'' 1, globals_made [''a'', ''b''])"
  by (simp_all add: new_described_task_def new_task_info_def initial_globals_def globals_made_def task_init_def
      example_new_def construct_members_def)

lemma example_no_function:
  "get_node_function app_front dl (task_a_node, up) ''Task'' name ''function'' = Inr None"
  "get_node_function app_front dl (task_b_node, up) ''Task'' name ''function'' = Inr None"
  "get_node_function app_front dl (channel_ab_node, up) ''Comm&&Synch'' name ''init_function'' = Inr None"
  "get_node_function app_front dl (channel_in_node, up) ''Comm&&Synch'' name ''init_function'' = Inr None"
  by (simp_all add: get_node_function_def getFirstChild_def xml_children_def ptr_name_def task_a_node_def
      task_b_node_def channel_ab_node_def channel_in_node_def leaf_def)

definition tasks_made :: "described_task list" where
  "tasks_made = [(task_a_made, Default_Collaborative), (example_new ''b'' 1, Default_Collaborative)]"

lemma example_tasks:
  "create_system_tasks app_front hw_elab dl same_name (\<lambda>_. example_task) 1 initial_globals =
     Inr (tasks_made, globals_made [''a'', ''b''])"
proof -
  let ?make = "create_task app_front hw_elab dl same_name (\<lambda>_. example_task) 1"
  have names: "xmlGetValueGen app_front (task_a_node, up) ''name'' = Inr (Some ''a'')"
    "xmlGetValueGen app_front (task_b_node, up) ''name'' = Inr (Some ''b'')" for up
    by (simp_all add: app_value task_a_node_def task_b_node_def leaf_def is_reference_def)
  have quiet: "\<not> global_kista_xml_verbosity app_front" by (simp add: front_example_sel)
  have "?make 0 None (task_a_node, app_up) initial_globals = Inr ((task_a_made, Default_Collaborative), globals_made [''a''])"
    by (simp add: create_task_def names example_no_function select_functionality_def quiet same_name_def
        example_constructed [simplified] task_a_properties)
  moreover have "?make (Suc 0) v (task_b_node, app_up) (globals_made [''a'']) =
      Inr ((example_new ''b'' 1, Default_Collaborative), globals_made [''a'', ''b''])" for v
    by (simp add: create_task_def names example_no_function select_functionality_def quiet same_name_def
        example_constructed [simplified] task_b_properties [simplified])
  ultimately show ?thesis
    by (simp add: create_system_tasks_def getNumberOfTasks_def getTasks_def app_node_sets tasks_made_def)
qed


theorem described_tasks_witness:
  "\<exists>ts g'. create_system_tasks app_front hw_elab example_loader same_name (\<lambda>_. example_task) 1 initial_globals = Inr (ts, g')
     \<and> task_vector g' = [''a'', ''b'']
     \<and> task_described app_front example_loader same_name 1 0 0 (task_a_node, app_up) (ts ! 0)
     \<and> task_described app_front example_loader same_name 1 0 1 (task_b_node, app_up) (ts ! 1)"
  using described_tasks [OF example_tasks [of example_loader]] example_tasks [of example_loader]
  by (auto simp: app_node_sets initial_globals_def globals_made_def)

subsection \<open>The channels and the model of the example\<close>

lemma example_channel_values:
  "xmlGetValueGen app_front (channel_ab_node, up) ''name'' = Inr (Some ''ab'')"
  "read_ends app_front (channel_ab_node, up) = Inr (Some ''a'', Some ''b'')"
  "read_io app_front (channel_ab_node, up) name = Inr False"
  "read_comm_type app_front (channel_ab_node, up) name = Inr ''fifo_buffer''"
  "read_comm_data_type app_front (channel_ab_node, up) name = Inr ''int''"
  "read_token_size app_front (channel_ab_node, up) name = Inr None"
  "xmlGetValueGen app_front (channel_in_node, up) ''name'' = Inr (Some ''in'')"
  "read_ends app_front (channel_in_node, up) = Inr (Some ''sensor'', Some ''a'')"
  "read_io app_front (channel_in_node, up) name = Inr True"
  "read_comm_type app_front (channel_in_node, up) name = Inr ''fifo_buffer''"
  "read_comm_data_type app_front (channel_in_node, up) name = Inr ''char''"
  "read_token_size app_front (channel_in_node, up) name = Inr (Some 8)"
  by (simp_all add: read_ends_def read_io_def read_comm_type_def read_comm_data_type_def read_token_size_def
      app_value channel_ab_node_def channel_in_node_def leaf_def is_reference_def used_def
      supported_communication_def sup_comm_def supported_communication_data_type_def sup_comm_dt_def)

lemma all_less_two: "(\<forall>i < Suc (Suc 0). P i) \<longleftrightarrow> P 0 \<and> P (Suc 0)"
  by (auto simp: less_Suc_eq)

lemma example_channels:
  assumes "in_sys ''a''" "in_sys ''b''" "\<not> in_sys ''sensor''" "\<not> in_env ''a''" "\<not> in_env ''b''" "in_env ''sensor''"
  shows "\<exists>c'. create_comm_synchs app_front dl p addr gen in_sys in_env c = Inr (1, c')
    \<and> channel_order c' = channel_order c @ [addr 0, addr 1]"
proof -
  have ok: "check_ends name False (in_sys ''a'', in_env ''a'') (in_sys ''b'', in_env ''b'') = Inr ()"
    "check_ends name True (in_sys ''sensor'', in_env ''sensor'') (in_sys ''a'', in_env ''a'') = Inr ()" for name
    using assms by (simp_all add: check_ends_iff ends_placed_def)
  have "\<exists>c'. create_channel p a ''fifo_buffer'' dt n s d tok role init c = Inr c' \<and> channel_order c' = channel_order c @ [a]"
    if "dt \<in> set sup_comm_dt" for a dt n s d tok role init and c
    using that by (auto simp: create_channel_def supported_communication_data_type_def Let_def register_channel_def
        configure_channel_def new_fifo_buffer_by_names_def new_fifo_def set_role_def set_init_def set_message_size_def
        split: option.split)
  note made = this
  from made [of "''int''" "addr 0" "''ab''" "''a''" "''b''" None SYSTEM_COMMSYNCH None c] obtain c1 where
    c1: "create_channel p (addr 0) ''fifo_buffer'' ''int'' ''ab'' ''a'' ''b'' None SYSTEM_COMMSYNCH None c = Inr c1"
    "channel_order c1 = channel_order c @ [addr 0]" by (auto simp: sup_comm_dt_def)
  from made [of "''char''" "addr 1" "''in''" "''sensor''" "''a''" "Some 8" IO_COMMSYNCH None c1] obtain c2 where
    c2: "create_channel p (addr 1) ''fifo_buffer'' ''char'' ''in'' ''sensor'' ''a'' (Some 8) IO_COMMSYNCH None c1 = Inr c2"
    "channel_order c2 = channel_order c @ [addr 0, addr 1]" using c1(2) by (auto simp: sup_comm_dt_def)
  have "create_comm_synch app_front dl p addr gen in_sys in_env 0 (channel_ab_node, app_up) c = Inr (False, c1)"
    by (simp add: create_comm_synch_def example_channel_values example_no_function used_def ok c1)
  moreover have "create_comm_synch app_front dl p addr gen in_sys in_env (Suc 0) (channel_in_node, app_up) c1 = Inr (True, c2)"
    using c2 by (simp add: create_comm_synch_def example_channel_values example_no_function used_def ok)
  ultimately show ?thesis using c2(2) by (simp add: create_comm_synchs_def getCommSynchNodes_def app_node_sets)
qed

definition example_links :: "nat link_tables" where
  "example_links = \<lparr>sys_conn = [], sys_conn_by_name = Map.empty, link_at = (\<lambda>_. new_link)\<rparr>"

theorem described_channels_witness:
  "\<exists>c' :: (nat, nat, nat fifo_state, nat) channel_tables.
     create_comm_synchs app_front example_loader delta_channels id same_name (\<lambda>n. n \<in> {''a'', ''b''}) (\<lambda>n. n = ''sensor'')
       (no_channels example_links) = Inr (1, c')
     \<and> channel_table c' (''int'', ''ab'') = Some 0 \<and> channel_table c' (''char'', ''in'') = Some 1"
proof -
  let ?c = "no_channels example_links :: (nat, nat, nat fifo_state, nat) channel_tables"
  obtain c' where c': "create_comm_synchs app_front example_loader delta_channels id same_name (\<lambda>n. n \<in> {''a'', ''b''})
      (\<lambda>n. n = ''sensor'') ?c = Inr (1, c')"
    using example_channels [of "\<lambda>n. n \<in> {''a'', ''b''}" "\<lambda>n. n = ''sensor''" example_loader delta_channels id same_name ?c]
    by auto
  let ?ps = "[(channel_ab_node, app_up), (channel_in_node, app_up)]"
  let ?sys = "\<lambda>n. n \<in> {''a'', ''b''}" and ?env = "\<lambda>n. n = ''sensor''"
  have ps: "getCommSynchNodes app_front = Some ?ps" by (simp add: getCommSynchNodes_def app_node_sets)
  have inj: "inj_on id {0..<length ?ps}" by simp
  from described_channels [OF c' ps inj] obtain keys ios and chs :: "(nat, nat, nat fifo_state, nat) fifo_buffer list" where
    l: "length keys = length ?ps"
    and each: "\<forall>i < length ?ps. channel_described app_front example_loader same_name ?sys ?env i (?ps ! i)
        (keys ! i) (ios ! i) (chs ! i)
      \<and> channel_at c' (id i) = Some (chs ! i) \<and> link_at (channel_links c') (id i) = fb_link (chs ! i)"
    and tab: "channel_table c' = channel_table ?c ++ map_of (rev (zip keys (map id [0..<length ?ps])))"
    by blast
  from each have first: "channel_described app_front example_loader same_name ?sys ?env 0 (channel_ab_node, app_up)
      (keys ! 0) (ios ! 0) (chs ! 0)"
    and second: "channel_described app_front example_loader same_name ?sys ?env (Suc 0) (channel_in_node, app_up)
      (keys ! Suc 0) (ios ! Suc 0) (chs ! Suc 0)"
    by (simp_all add: all_less_two)
  have data: "xmlGetValueGen app_front (channel_ab_node, up) ''comm_data_type'' = Inr (Some ''int'')"
    "xmlGetValueGen app_front (channel_in_node, up) ''comm_data_type'' = Inr (Some ''char'')" for up
    by (simp_all add: app_value channel_ab_node_def channel_in_node_def leaf_def is_reference_def)
  have k0: "keys ! 0 = (''int'', ''ab'')"
    using first by (auto simp: channel_described_def data example_channel_values(1) channel_name_def prod_eq_iff)
  have k1: "keys ! Suc 0 = (''char'', ''in'')"
    using second by (auto simp: channel_described_def data example_channel_values(7) channel_name_def prod_eq_iff)
  have "keys = [keys ! 0, keys ! Suc 0]" using l by (cases keys; cases "tl keys") auto
  then have "keys = [(''int'', ''ab''), (''char'', ''in'')]" unfolding k0 k1 .
  with tab c' show ?thesis by (auto simp: upt_rec)
qed

definition example_system :: "string \<rightharpoonup> nat" where
  "example_system = [''a'' \<mapsto> 0, ''b'' \<mapsto> 1]"

definition example_env :: "string \<rightharpoonup> nat" where
  "example_env = [''sensor'' \<mapsto> 2]"

definition example_name :: "nat \<Rightarrow> string" where
  "example_name a = (if a = 0 then ''a'' else if a = 1 then ''b'' else ''sensor'')"

theorem io_channels_settle_witness:
  "\<exists>key. \<exists>ch :: (nat, nat, nat, nat) fifo_buffer. channel_described app_front example_loader same_name
       (\<lambda>n. example_system n \<noteq> None) (\<lambda>n. example_env n \<noteq> None) 1 (channel_in_node, app_up) key True ch
     \<and> (\<forall>(ops :: (nat, nat) delay_ops) pl phy_of call sizeof_T store. \<exists>ch'.
          rbind (fifo_before_end_of_elaboration (get_task_address example_system example_env) ch)
            (fifo_end_of_elaboration ops pl phy_of example_name example_system example_env call sizeof_T store)
          = Inr (ch', store) \<and> fb_io_sense ch' = INPUT)"
proof -
  let ?sys = "\<lambda>n. example_system n \<noteq> None" and ?env = "\<lambda>n. example_env n \<noteq> None"
  obtain ch :: "(nat, nat, nat, nat) fifo_buffer" where ch: "fb_link ch = new_link_by_names ''in'' ''sensor'' ''a''"
    "fb_role ch = IO_COMMSYNCH" "fb_message_size ch = 8" "init_f ch = None"
    by (rule that [of "\<lparr>fb_address = 0, fb_link = new_link_by_names ''in'' ''sensor'' ''a'', fb_fifo = 0, assoc_plink = new_link,
       assoc_comm_res_p = None, fb_message_size = 8, read_th_mon = None, write_th_mon = None,
       fb_role = IO_COMMSYNCH, fb_io_sense = UNSET_IO_SENSE, completed_transactions = 0, init_f = None\<rparr>"]) simp_all
  have vals: "xmlGetValueGen app_front (channel_in_node, up) ''src'' = Inr (Some ''sensor'')"
    "xmlGetValueGen app_front (channel_in_node, up) ''dest'' = Inr (Some ''a'')"
    "xmlGetValueGen app_front (channel_in_node, up) ''comm_data_type'' = Inr (Some ''char'')" for up
    by (simp_all add: app_value channel_in_node_def leaf_def is_reference_def)
  have d: "channel_described app_front example_loader same_name ?sys ?env 1 (channel_in_node, app_up) (''char'', ''in'') True ch"
    unfolding channel_described_def
    by (rule exI [of _ "Some ''in''"], rule exI [of _ "''sensor''"], rule exI [of _ "''a''"], rule exI [of _ "Some 8"],
        rule exI [of _ None])
      (simp add: ch vals example_channel_values example_no_function channel_name_def sup_comm_dt_def ends_placed_def
        example_system_def example_env_def)
  have names: "n \<noteq> '''' \<and> example_name a = n" if "example_system n = Some a \<or> example_env n = Some a" for n a
    using that by (auto simp: example_system_def example_env_def example_name_def split: if_splits)
  have not_sys: "example_system ''sensor'' = None" by (simp add: example_system_def)
  show ?thesis
    using d io_channels_settle [OF d names] vals(1) not_sys by fastforce
qed

end
