(* ===== verification/Xml_Main_Example.thy ===== *)
theory Xml_Main_Example
  imports Xml_App_Example
begin

text \<open>The model of the example document.\<close>

definition example_view :: kernel_view where
  "example_view =
     \<lparr>kn_env_task = same_name, kn_task = same_name, kn_rtos = example_names, kn_hw = (\<lambda>_ _. ''cpu1''),
      gen_channel = same_name, gen_hw = same_name, raw_env_task = (\<lambda>_. example_task), raw_task = (\<lambda>_. example_task),
      raw_rtos = (\<lambda>_. raw_scheduler), raw_pe = (\<lambda>_. Fin 0), raw_env = \<lparr>global_env_init = None, global_env_end = None\<rparr>,
      channel_addr = id\<rparr>"

lemma elab_same: "example_elab = hw_elab"
  by (simp add: example_elab_def hw_elab_def)

lemma example_environment:
  "\<exists>t. create_environment app_front example_loader same_name (\<lambda>_. example_task) ([], g) =
     Inr (True, [(''sensor'', t, Some 64)], g)"
proof -
  have f: "get_env_task_function app_front example_loader (sensor_node, up) ''sensor'' = Inr (Some 64)" for up
    by (simp add: get_env_task_function_def getFirstChild_def xml_children_def ptr_name_def sensor_node_def leaf_def
        app_value is_reference_def load_function_def library_path_def example_loader_def)
  have n: "xmlGetValueGen app_front (sensor_node, up) ''name'' = Inr (Some ''sensor'')" for up
    by (simp add: app_value sensor_node_def is_reference_def)
  show ?thesis
    by (simp add: create_environment_def getNumberOfEnvTasks_def getEnvTasks_def app_node_sets n f
        new_task_info_def task_init_def)
qed

lemma example_software:
  "\<exists>s. create_SW_platform app_front hw_elab st example_names (\<lambda>_. raw_scheduler) = Inr [s] \<and> sched_name s = ''r''"
proof -
  from platform_node_sets(1) obtain up where nodes: "node_set_of app_front ''/system/platform/SW_platform/rtos'' =
     Some [(rtos_example ''r'' [(''policy'', ''EDF''), (''triggering'', ''preemptive'')], up)]" ..
  have verb: "\<not> global_kista_xml_verbosity app_front" by (simp add: front_example_sel)
  note made = rtos_example_made [OF front_example_sel(1) verb, unfolded elab_same]
  note policies = example_policies [OF front_example_sel(1) verb, unfolded elab_same]
  have "\<exists>r. create_rtos app_front hw_elab st example_names (\<lambda>_. raw_scheduler) 0
      (rtos_example ''r'' [(''policy'', ''EDF''), (''triggering'', ''preemptive'')], up) = Inr r \<and> sched_name r = ''r''"
    by (subst made, simp, simp, subst policies) (simp add: default_scheduler_def new_scheduler_def)
  then show ?thesis by (auto simp: create_SW_platform_def getRTOS_def nodes)
qed

lemma example_hardware:
  "\<exists>h. create_HW_platform app_front hw_elab (\<lambda>_ _. ''cpu1'') gen raw (empty_platform :: nat hw_platform) = Inr h
     \<and> map (pe_name \<circ> fst) (PE_cluster h) = [''cpu1'']"
proof -
  from platform_node_sets(2) obtain up where nodes: "node_set_of app_front PE_XPATH = Some [(cpu1_node, up)]" ..
  have "create_PE app_front hw_elab (\<lambda>_ _. ''cpu1'') r 0 (cpu1_node, up) = Inr (new_processing_element r ''cpu1'', None)" for r
    by (simp add: create_PE_def app_value cpu1_node_def is_reference_def configure_clock_def has_freq_def hasChild_def
        xml_children_def configure_CPI_def getCPI_def getFirstChild_def set_CPI_def
        configure_netif_def get_netif_node_def new_processing_element_def)
  then show ?thesis
    by (simp add: create_HW_platform_def ThereIsPEs_def getPEs_def nodes ThereIsCommResources_def platform_node_sets(3)
        empty_platform_def new_processing_element_def)
qed

lemma mapping_values:
  "xmlGetValueGen app_front (leaf n [(''source'', a), (''target'', b)], up) ''source'' =
     (if is_reference a then rmap Some (scalar_parameter app_front (tl a)) else Inr (Some a))"
  "xmlGetValueGen app_front (leaf n [(''source'', a), (''target'', b)], up) ''target'' =
     (if is_reference b then rmap Some (scalar_parameter app_front (tl b)) else Inr (Some b))"
  by (simp_all add: app_value leaf_def)

lemma example_platform_made:
  "\<exists>s h. create_platform app_front hw_elab example_view tasks_made (empty_platform :: nat hw_platform) = Inr ([s], h)
     \<and> tasks_assigned s = Taskset [''a'', ''b'']"
proof -
  let ?st = "described_store example_task tasks_made"
  obtain s where s: "create_SW_platform app_front hw_elab ?st example_names (\<lambda>_. raw_scheduler) = Inr [s]"
    "sched_name s = ''r''" using example_software by blast
  from example_hardware [of same_name "\<lambda>_. Fin 0"] obtain h :: "nat hw_platform" where
    h: "create_HW_platform app_front hw_elab (\<lambda>_ _. ''cpu1'') same_name (\<lambda>_. Fin 0) empty_platform = Inr h"
      "map (pe_name \<circ> fst) (PE_cluster h) = [''cpu1'']" by (elim exE conjE)
  from h(2) obtain pe ni where pe: "PE_cluster h = [(pe, ni)]" "pe_name pe = ''cpu1''" by (auto simp: map_eq_Cons_conv)
  from platform_node_sets(4) obtain up1 where rtos: "node_set_of app_front ''/system/platform/platform_mapping/map_rtos'' =
     Some [(leaf ''map_rtos'' [(''source'', ''r''), (''target'', ''cpu1'')], up1)]" ..
  from platform_node_sets(5) obtain up2 where maps: "node_set_of app_front ''/system/application_mapping/map_task'' =
     Some [(leaf ''map_task'' [(''source'', ''b''), (''target'', ''r'')], up2),
           (leaf ''map_task'' [(''source'', ''a''), (''target'', ''r'')], up2)]" ..
  obtain s1 pe1 where m: "map_to hw_elab pe s = Inr (s1, pe1)" "sched_name s1 = ''r''"
    using s(2) by (simp add: map_to_def map_scheduler_def)
  have one: "create_platform_mapping app_front hw_elab ([s], [pe]) = Inr ([s1], [pe1])"
    using s(2) pe(2) m(1) by (simp add: create_platform_mapping_def rtos map_rtos_def mapping_values is_reference_def
        getRTOSByName_def getPEByName_def index_by_name_def used_def first_index_def)
  have names: "map (task_name \<circ> fst) tasks_made = [''a'', ''b'']" by (simp add: tasks_made_def task_a_made_def)
  have two: "create_app_to_platform_mapping app_front hw_elab [''a'', ''b''] [s1] =
      Inr [s1\<lparr>tasks_assigned := Taskset [''a'', ''b'']\<rparr>]"
    using m(2) by (simp add: create_app_to_platform_mapping_def maps map_task_def mapping_values is_reference_def
        task_by_name used_def taskset_insert_def insort_insert_key_def allocate_def less_char_def)
  show ?thesis
    using s(1) h(1) pe(1) one two names by (simp add: create_platform_def example_view_def)
qed

theorem model_consistent_witness:
  "\<exists>m :: (nat, nat, nat fifo_state, nat, nat) xml_model.
     create_system app_front hw_elab example_loader delta_channels example_view initial_globals (no_channels example_links)
       empty_platform = Inr m
     \<and> task_vector (model_globals m) = [''a'', ''b''] \<and> env_module m \<noteq> None \<and> number_of_io_channels m = 1
     \<and> (\<exists>ts. map tasks_assigned (RTOS m) = [Taskset ts] \<and> proper_taskset [''a'', ''b''] ts)"
proof -
  let ?l = "no_channels example_links :: (nat, nat, nat fifo_state, nat) channel_tables"
  obtain t where env: "create_environment app_front example_loader same_name (\<lambda>_. example_task) ([], initial_globals) =
     Inr (True, [(''sensor'', t, Some 64)], initial_globals)" using example_environment by blast
  have apps: "create_applications app_front initial_globals = Inr (1, initial_globals)"
    by (simp add: create_applications_def getNumberOfApplications_def getApplications_def app_node_sets)
  obtain c where c: "create_comm_synchs app_front example_loader delta_channels id same_name (\<lambda>n. n \<in> {''a'', ''b''})
      (in_environment True [(''sensor'', t, Some 64)]) ?l = Inr (1, c)"
    using example_channels [of "\<lambda>n. n \<in> {''a'', ''b''}" "in_environment True [(''sensor'', t, Some 64)]"
        example_loader delta_channels id same_name ?l]
    by (auto simp: in_environment_def)
  have tasks: "create_tasks app_front hw_elab example_loader delta_channels same_name (\<lambda>_. example_task) id same_name True
      [(''sensor'', t, Some 64)] 1 (initial_globals, ?l) = Inr (1, tasks_made, globals_made [''a'', ''b''], c)"
    using c by (simp add: create_tasks_def example_tasks [simplified] globals_made_def)
  obtain s h where p: "create_platform app_front hw_elab example_view tasks_made (empty_platform :: nat hw_platform) = Inr ([s], h)"
    using example_platform_made by blast
  have sys: "create_system app_front hw_elab example_loader delta_channels example_view initial_globals ?l
      (empty_platform :: nat hw_platform) =
    Inr \<lparr>env_tasks_by_name = [(''sensor'', t, Some 64)], env_module = Some \<lparr>global_env_init = None, global_env_end = None\<rparr>,
      model_globals = globals_made [''a'', ''b''], app_task = tasks_made, number_of_io_channels = 1,
      model_channels = c, RTOS = [s], HW = h\<rparr>" (is "_ = Inr ?m")
    using env apps tasks p
    by (simp add: create_system_def example_view_def create_env_module_def create_global_env_init_def
        create_global_env_end_def set_env_hook_def app_node_sets)
  have "inj (channel_addr example_view)" by (simp add: example_view_def)
  note consistent = model_consistent [OF sys this]
  have names: "map (task_name \<circ> fst) tasks_made = [''a'', ''b'']" by (simp add: tasks_made_def task_a_made_def)
  from consistent obtain ts where "tasks_assigned s = Taskset ts" "proper_taskset (map (task_name \<circ> fst) tasks_made) ts"
    by auto
  with names have ts: "map tasks_assigned [s] = [Taskset ts] \<and> proper_taskset [''a'', ''b''] ts" by simp
  have "task_vector (model_globals ?m) = [''a'', ''b'']" using consistent names by simp
  with sys ts show ?thesis by (intro exI [of _ ?m]) auto
qed

end
