(* ===== verification/Xml_Output.thy ===== *)
theory Xml_Output
  imports Xml_Main Scheduler_Proc Energy_Power
begin

text \<open>
  \<open>xml_if/create_output.cpp\<close>: the documents a run leaves. A document is its tree, as the calls of libxml2
  build it; each definition returns the one that the code saves.

  \<open>run_view\<close> is what the reports read: the kernel, the tasks and schedulers, the processing elements with
  the energies they report, the global probes and what the function of a probe returns. Every figure passes
  through \<open>ext_to_string\<close>, which either prints at least thirteen bytes into a buffer of eleven or returns a
  pointer into a destroyed string; the text found there is \<open>ext_text\<close>.
\<close>

record 'p run_view =
  run_env :: sim_env
  run_store :: task_store
  run_scheds :: "scheduler list"
  run_tasks :: "string list"
  run_pes :: "'p list"
  consumed_energy :: "'p \<Rightarrow> double result"
  consumed_static_energy :: "'p \<Rightarrow> double result"
  consumed_dynamic_energy :: "'p \<Rightarrow> double result"
  run_energy :: energy_globals
  probe_energy :: double
  ext_text :: "double \<Rightarrow> string"

subsection \<open>Selected metrics\<close>

type_synonym metric_defs = "(string \<times> string option) list"

definition metrics_path :: string where
  "metrics_path = concat (map (\<lambda>n. ''/*[local-name()='' @ [CHR 0x27] @ n @ [CHR 0x27] @ '']'')
     [''design_space'', ''system_metrics'', ''system_metric''])"

fun read_metric_defs :: "'b xml_lib_scheme \<Rightarrow> nat \<Rightarrow> xml_ptr list \<Rightarrow> metric_defs \<Rightarrow> metric_defs result" where
  "read_metric_defs x i [] ms = Inr ms"
| "read_metric_defs x i (p # ps) ms =
     (case xml_get_prop x p ''name'' of
        None \<Rightarrow> report (''The '' @ decimal i @ ''-th output system metric definition does not have parameter name.'')
      | Some n \<Rightarrow> read_metric_defs x (Suc i) ps (table_set n (xml_get_prop x p ''unit'') ms))"

text \<open>\<open>smd\<close> is what parsing the file gives. The table is ordered by the names of the metrics.\<close>

definition getSelectedOutputMetrics ::
    "'b xml_lib_scheme \<Rightarrow> string \<Rightarrow> xml_node option \<Rightarrow> metric_defs result" where
  "getSelectedOutputMetrics x smd_file_name smd =
     (case smd of
        None \<Rightarrow> report (''While parsing the System Metric Definition file: '' @ smd_file_name @ ''.'')
      | Some d \<Rightarrow>
          (case getNodeSet x d metrics_path of
             None \<Rightarrow> report ''No metrics were defined for the output''
           | Some ps \<Rightarrow> read_metric_defs x 0 ps []))"

text \<open>The successive results of \<open>strtok\<close> on the name of a metric; it returns null after the last one.\<close>

definition tokens :: "string \<Rightarrow> string list" where
  "tokens s = filter (\<lambda>t. t \<noteq> []) (split_path s)"

definition token :: "string list \<Rightarrow> nat \<Rightarrow> string result" where
  "token ts i = (if i < length ts then Inr (ts ! i) else undef ''null token'')"

subsection \<open>Nodes\<close>

type_synonym attributes = "(string \<times> string) list"

definition metric_root :: "xml_node list \<Rightarrow> xml_node" where
  "metric_root cs = Xml_Node ''simulator_output_interface''
     [(''xmlns'', ''http://www.multicube.eu/''), (''version'', ''1.4'')] cs"

definition metric_node :: "string \<Rightarrow> string \<Rightarrow> attributes \<Rightarrow> xml_node" where
  "metric_node element name as = Xml_Node element ((''name'', name) # as) []"

definition figure :: "'p run_view \<Rightarrow> double \<Rightarrow> attributes" where
  "figure v d = [(''value'', ext_text v d)]"

text \<open>An attribute with a null value is empty.\<close>

definition with_unit :: "string option \<Rightarrow> attributes \<Rightarrow> attributes" where
  "with_unit u as = as @ [(''unit'', case u of None \<Rightarrow> '''' | Some s \<Rightarrow> s)]"

definition counter :: "u64 \<Rightarrow> attributes" where
  "counter w = [(''value'', decimal (unat w))]"

definition true_false :: "bool \<Rightarrow> attributes" where
  "true_false b = [(''value'', if b then ''true'' else ''false'')]"

definition one_zero :: "bool \<Rightarrow> attributes" where
  "one_zero b = [(''value'', if b then ''1'' else ''0'')]"

fun collect :: "'a result list \<Rightarrow> 'a list result" where
  "collect [] = Inr []"
| "collect (r # rs) = rbind r (\<lambda>x. rmap ((#) x) (collect rs))"

definition task_utilization :: "'p run_view \<Rightarrow> string \<Rightarrow> double result" where
  "task_utilization v n =
     (case sched_p (run_store v n) of
        None \<Rightarrow> undef ''null scheduler''
      | Some sn \<Rightarrow>
          (case find (\<lambda>s. sched_name s = sn) (run_scheds v) of
             None \<Rightarrow> undef ''unknown scheduler''
           | Some s \<Rightarrow> get_task_utilization (run_env v) (run_store v) n s))"

subsection \<open>The full output\<close>

definition full_metric :: "string \<Rightarrow> string \<Rightarrow> attributes result \<Rightarrow> xml_node result" where
  "full_metric base m r = rmap (metric_node ''system_metric'' (base @ m)) r"

definition rtos_metrics :: "'p run_view \<Rightarrow> scheduler \<Rightarrow> xml_node list result" where
  "rtos_metrics v s =
     (let base = ''rtos/'' @ sched_name s @ ''/'' in
      collect
        [full_metric base ''tasks_utilization'' (rmap (figure v) (get_tasks_utilization (run_env v) (run_store v) s)),
         full_metric base ''sched_utilization'' (Inr (figure v (get_scheduler_utilization (run_env v) s))),
         full_metric base ''plat_utilization'' (rmap (figure v) (get_platform_utilization (run_env v) (run_store v) s)),
         full_metric base ''number_of_schedulings'' (Inr (counter (n_schedulings s))),
         full_metric base ''number_of_context_switches'' (Inr (counter (n_context_changes s))),
         full_metric base ''starvation'' (rmap true_false (assess_starvation (run_store v) s)),
         full_metric base ''miss_deadlines'' (rmap true_false (miss_deadlines (run_store v) s))])"

text \<open>The element of the location has the name of the metric.\<close>

definition response_metrics :: "'p run_view \<Rightarrow> string \<Rightarrow> xml_node result list" where
  "response_metrics v n =
     (let base = ''task/'' @ n @ ''/''; t = run_store v n in
      if is_periodic t then
        [full_metric base ''max_response_time''
           (rmap (\<lambda>d. with_unit (Some ''s'') (figure v (Fin (to_seconds d)))) (max_response_time (run_env v) t)),
         rmap (\<lambda>d. metric_node ''location_of_worst_case_response_time'' (base @ ''location_of_worst_case_response_time'')
                 (with_unit (Some ''s'') (figure v (Fin (to_seconds d)))))
           (location_of_worst_case_response_time (run_env v) t)]
      else [])"

definition task_metrics :: "'p run_view \<Rightarrow> string \<Rightarrow> xml_node list result" where
  "task_metrics v n =
     (let base = ''task/'' @ n @ ''/'' in
      collect
        ([full_metric base ''utilization'' (rmap (figure v) (task_utilization v n))]
         @ response_metrics v n
         @ [full_metric base ''miss_deadline'' (Inr (true_false (miss_deadline (run_store v n))))]))"

definition energy_metric :: "'p run_view \<Rightarrow> string \<Rightarrow> string \<Rightarrow> double \<Rightarrow> xml_node" where
  "energy_metric v m u d = metric_node ''system_metric'' m (with_unit (Some u) (figure v d))"

text \<open>The metrics of the platform, and the probes after reading them.\<close>

definition energy_metrics :: "'p run_view \<Rightarrow> (xml_node list \<times> energy_globals) result" where
  "energy_metrics v =
     rbind (was_energy_and_power_measurement_enabled (run_env v) (run_energy v)) (\<lambda>enabled.
       if \<not> enabled then Inr ([], run_energy v)
       else
         rbind (collect
           [rmap (energy_metric v ''total_consumed_energy'' ''J'')
              (get_total_consumed_energy_J (consumed_energy v) (run_pes v)),
            rmap (energy_metric v ''total_static_consumed_energy'' ''J'')
              (get_total_static_consumed_energy_J (consumed_static_energy v) (run_pes v)),
            rmap (energy_metric v ''total_dynamic_consumed_energy'' ''J'')
              (get_total_dynamic_consumed_energy_J (consumed_dynamic_energy v) (run_pes v)),
            rmap (energy_metric v ''peak_dynamic_power'' ''W'') (global_get_peak_dyn_power_W (run_energy v)),
            rmap (energy_metric v ''peak_average_power'' ''W'') (get_peak_avg_power_W (run_energy v))]) (\<lambda>ns.
         rmap (\<lambda>(d, g). (ns @ [energy_metric v ''total_average_power'' ''W'' d], g))
           (global_get_total_average_power_W (run_env v) (probe_energy v) (run_energy v))))"

definition create_MULTICUBE_full_output :: "'p run_view \<Rightarrow> (xml_node \<times> energy_globals) result" where
  "create_MULTICUBE_full_output v =
     rbind (collect (map (rtos_metrics v) (run_scheds v))) (\<lambda>rs.
     rbind (collect (map (task_metrics v) (run_tasks v))) (\<lambda>ts.
     rmap (\<lambda>(es, g). (metric_root (concat rs @ concat ts @ es), g)) (energy_metrics v)))"

subsection \<open>The selected output\<close>

text \<open>
  Response times: what is written is the factor of the unit. A unit is read at its first character, and must
  not be null.
\<close>

definition response_figure :: "'p run_view \<Rightarrow> string option \<Rightarrow> string \<Rightarrow> task_info_t \<Rightarrow> sc_time result \<Rightarrow> attributes result" where
  "response_figure v u kind t r =
     (if is_periodic t then
        rbind r (\<lambda>_.
        case u of
          None \<Rightarrow> undef ''null unit''
        | Some s \<Rightarrow> rmap (\<lambda>f. with_unit u (figure v (Fin f))) (conv_isu_factor (first_char s)))
      else report (''Report of metric '' @ kind @ '' for task '' @ task_name t @ '', which is not periodic.''))"

definition task_metric :: "'p run_view \<Rightarrow> string list \<Rightarrow> string option \<Rightarrow> attributes result" where
  "task_metric v ts u =
     rbind (token ts 1) (\<lambda>n.
     if n \<notin> set (run_tasks v)
     then report (''Report of task '' @ n @ '' metric failed because such a task does not exist in the description.'')
     else
       (let t = run_store v n in
        rbind (token ts 2) (\<lambda>m.
          if m = ''utilization'' then rmap (figure v) (task_utilization v n)
          else if m = ''avg_response_time'' \<or> m = ''std_dev_response_time''
            then response_figure v u m t (avg_response_time t)
          else if m = ''max_response_time'' then response_figure v u m t (max_response_time (run_env v) t)
          else if m = ''location_of_worst_case_response_time''
            then response_figure v u m t (location_of_worst_case_response_time (run_env v) t)
          else if m = ''miss_deadline'' then Inr (one_zero (miss_deadline t))
          else report (''Report of task metric '' @ m @ '' failed. Such task metric name is not recognized by KisTA.''))))"

definition rtos_metric :: "'p run_view \<Rightarrow> string list \<Rightarrow> attributes result" where
  "rtos_metric v ts =
     rbind (token ts 1) (\<lambda>n.
     case find (\<lambda>s. sched_name s = n) (run_scheds v) of
       None \<Rightarrow> report (''Report of sched '' @ n @ '' metric failed because such an schedulerdoes not exit in the description.'')
     | Some s \<Rightarrow>
         rbind (token ts 2) (\<lambda>m.
           if m = ''tasks_utilization'' then rmap (figure v) (get_tasks_utilization (run_env v) (run_store v) s)
           else if m = ''sched_utilization'' then Inr (figure v (get_scheduler_utilization (run_env v) s))
           else if m = ''plat_utilization'' then rmap (figure v) (get_platform_utilization (run_env v) (run_store v) s)
           else if m = ''number_of_schedulings'' then Inr (counter (n_schedulings s))
           else if m = ''number_of_context_switches'' then Inr (counter (n_context_changes s))
           else if m = ''starvation'' then rmap one_zero (assess_starvation (run_store v) s)
           else if m = ''miss_deadlines'' then rmap one_zero (miss_deadlines (run_store v) s)
           else report (''Report of task metric '' @ m @ '' failed. Such task metric name is not recognized by KisTA.'')))"

text \<open>The peaks are reported when the measurement was enabled, and left out otherwise.\<close>

definition system_metric ::
    "'p run_view \<Rightarrow> energy_globals \<Rightarrow> string list \<Rightarrow> (attributes \<times> energy_globals) result" where
  "system_metric v g ts =
     (let fig = \<lambda>u d. (with_unit (Some u) (figure v d), g);
          peak = \<lambda>r. rbind (was_energy_and_power_measurement_enabled (run_env v) g) (\<lambda>enabled.
                    if enabled then rmap (fig ''W'') r else Inr ([], g))
      in
      rbind (token ts 1) (\<lambda>m.
        if m = ''total_consumed_energy''
          then rmap (fig ''J'') (get_total_consumed_energy_J (consumed_energy v) (run_pes v))
        else if m = ''total_static_consumed_energy''
          then rmap (fig ''J'') (get_total_static_consumed_energy_J (consumed_static_energy v) (run_pes v))
        else if m = ''total_dynamic_consumed_energy''
          then rmap (fig ''J'') (get_total_dynamic_consumed_energy_J (consumed_dynamic_energy v) (run_pes v))
        else if m = ''peak_dynamic_power'' then peak (global_get_peak_dyn_power_W g)
        else if m = ''peak_average_power'' then peak (get_peak_avg_power_W g)
        else if m = ''total_average_power''
          then rmap (\<lambda>(d, g'). (with_unit (Some ''W'') (figure v d), g'))
            (global_get_total_average_power_W (run_env v) (probe_energy v) g)
        else report (''Global metric '' @ m @ '' not recognized.'')))"

text \<open>
  Channels. A name is looked up in the tables of the nine types of data, in this order, and only there. A
  figure of a rate uses its unit when the monitor has seen more than \<open>n\<close> transfers and time has
  advanced; a period always does.
\<close>

definition lookup_order :: "string list" where
  "lookup_order = [''int'', ''unsigned'', ''short'', ''ushort'', ''float'', ''double'', ''char'', ''voidp'', ''message'']"

fun find_channel :: "(string \<Rightarrow> string \<rightharpoonup> link_ptr) \<Rightarrow> string \<Rightarrow> string list \<Rightarrow> (string \<times> link_ptr) result" where
  "find_channel t n [] = report (''Report of comm&synch element '' @ n @
     '' metric failed because such comm&synch element does not exist in the description.'')"
| "find_channel t n (dt # dts) = (case t dt n of None \<Rightarrow> find_channel t n dts | Some a \<Rightarrow> Inr (dt, a))"

definition channel_of :: "('a, 'h, 'f, 's) channel_tables \<Rightarrow> link_ptr \<Rightarrow> ('a, 'h, 'f, 's) fifo_buffer result" where
  "channel_of c a = (case channel_at c a of None \<Rightarrow> undef ''dangling channel'' | Some ch \<Rightarrow> Inr ch)"

definition unit_needed :: "u64 \<Rightarrow> throughput_monitor option \<Rightarrow> bool" where
  "unit_needed n m = (case m of None \<Rightarrow> False | Some t \<Rightarrow> n_devents t > n \<and> cur_time t \<noteq> 0)"

definition at_unit :: "(string \<Rightarrow> 'x result) \<Rightarrow> bool \<Rightarrow> string option \<Rightarrow> 'x result" where
  "at_unit f needed u =
     (case u of
        Some s \<Rightarrow> f s
      | None \<Rightarrow> rbind (f '''') (\<lambda>d. if needed then undef ''null unit'' else Inr d))"

definition channel_figure ::
    "sim_env \<Rightarrow> string \<Rightarrow> string option \<Rightarrow> (('a, 'h, 'f, 's) fifo_buffer \<Rightarrow> double result) option" where
  "channel_figure e m u =
     (if m = ''normalized_throughput'' \<or> m = ''normalized_write_throughput'' then
        Some (\<lambda>ch. at_unit (\<lambda>s. get_normalized_write_throughput e s ch) (unit_needed 0 (write_th_mon ch)) u)
      else if m = ''normalized_read_throughput'' then
        Some (\<lambda>ch. at_unit (\<lambda>s. get_normalized_read_throughput e s ch) (unit_needed 0 (read_th_mon ch)) u)
      else if m = ''normalized_stationary_throughput'' \<or> m = ''normalized_write_stationary_throughput'' then
        Some (\<lambda>ch. at_unit (\<lambda>s. get_normalized_write_stationary_throughput e s ch) (unit_needed 1 (write_th_mon ch)) u)
      else if m = ''normalized_read_stationary_throughput'' then
        Some (\<lambda>ch. at_unit (\<lambda>s. get_normalized_read_stationary_throughput e s ch) (unit_needed 1 (read_th_mon ch)) u)
      else if m = ''throughput'' \<or> m = ''write_throughput'' then
        Some (\<lambda>ch. at_unit (\<lambda>s. get_write_throughput e s ch) (unit_needed 0 (write_th_mon ch)) u)
      else if m = ''read_throughput'' then
        Some (\<lambda>ch. at_unit (\<lambda>s. get_read_throughput e s ch) (unit_needed 0 (read_th_mon ch)) u)
      else if m = ''stationary_throughput'' \<or> m = ''write_stationary_throughput'' then
        Some (\<lambda>ch. at_unit (\<lambda>s. get_write_stationary_throughput e s ch) (unit_needed 1 (write_th_mon ch)) u)
      else if m = ''read_stationary_throughput'' then
        Some (\<lambda>ch. at_unit (\<lambda>s. get_read_stationary_throughput e s ch) (unit_needed 1 (read_th_mon ch)) u)
      else if m = ''write_period'' then
        Some (\<lambda>ch. rmap Fin (at_unit (\<lambda>s. get_write_period_in e s ch) True u))
      else if m = ''read_period'' then
        Some (\<lambda>ch. rmap Fin (at_unit (\<lambda>s. get_read_period_in e s ch) True u))
      else None)"

text \<open>The metrics whose branch for a channel of messages tests the flag of another type.\<close>

definition message_unexpected :: "string list" where
  "message_unexpected =
     [''normalized_throughput'', ''normalized_write_throughput'', ''normalized_read_stationary_throughput'']"

definition comm_metric ::
    "'p run_view \<Rightarrow> ('a, 'h, 'f, 's) channel_tables \<Rightarrow> string list \<Rightarrow> string option \<Rightarrow> attributes result" where
  "comm_metric v c ts u =
     rbind (token ts 1) (\<lambda>n.
     rbind (find_channel (fb_map c) n lookup_order) (\<lambda>(dt, a).
     rbind (token ts 2) (\<lambda>m.
     case channel_figure (run_env v) m u of
       None \<Rightarrow> report (''Report of synch&comm metric '' @ m
         @ '' failed. Such syn&comm metric name is not recognized by KisTA.'')
     | Some f \<Rightarrow>
         (if dt = ''message'' \<and> m \<in> set message_unexpected
          then report ''Unexpected situation in throughput metric report.''
          else rbind (channel_of c a) (\<lambda>ch. rmap (\<lambda>d. with_unit u (figure v d)) (f ch))))))"

text \<open>One metric, and the probes after it.\<close>

definition selected_metric ::
    "'p run_view \<Rightarrow> ('a, 'h, 'f, 's) channel_tables \<Rightarrow> string \<times> string option \<Rightarrow> energy_globals
       \<Rightarrow> (attributes \<times> energy_globals) result" where
  "selected_metric v c m g =
     (let ts = tokens (fst m); u = snd m in
      rbind (token ts 0) (\<lambda>b.
        if b = ''task'' then rmap (\<lambda>as. (as, g)) (task_metric v ts u)
        else if b = ''comm_synch'' then rmap (\<lambda>as. (as, g)) (comm_metric v c ts u)
        else if b = ''rtos'' then rmap (\<lambda>as. (as, g)) (rtos_metric v ts)
        else if b = ''system'' \<or> b = ''global'' then system_metric v g ts
        else report (''Element '' @ b @ '' not recognized as base element with metric.'')))"

fun selected_metrics ::
    "'p run_view \<Rightarrow> ('a, 'h, 'f, 's) channel_tables \<Rightarrow> metric_defs \<Rightarrow> energy_globals
       \<Rightarrow> (xml_node list \<times> energy_globals) result" where
  "selected_metrics v c [] g = Inr ([], g)"
| "selected_metrics v c (m # ms) g =
     rbind (selected_metric v c m g) (\<lambda>(as, g1).
     rmap (\<lambda>(ns, g2). (metric_node ''system_metric'' (fst m) as # ns, g2)) (selected_metrics v c ms g1))"

definition create_MULTICUBE_selected_output ::
    "'b xml_lib_scheme \<Rightarrow> string \<Rightarrow> xml_node option \<Rightarrow> 'p run_view \<Rightarrow> ('a, 'h, 'f, 's) channel_tables
       \<Rightarrow> (xml_node \<times> energy_globals) result" where
  "create_MULTICUBE_selected_output x smd_file_name smd v c =
     rbind (getSelectedOutputMetrics x smd_file_name smd) (\<lambda>ms.
     rmap (\<lambda>(ns, g). (metric_root ns, g)) (selected_metrics v c ms (run_energy v)))"

subsection \<open>Measurements of the selected metrics\<close>

text \<open>
  Before the simulation, a metric of a channel starts a monitor; the other metrics need none. A metric of
  a channel that is not known is an error already here.
\<close>

definition write_figures :: "string list" where
  "write_figures =
     [''throughput'', ''write_throughput'', ''stationary_throughput'', ''write_stationary_throughput'',
      ''normalized_throughput'', ''normalized_write_throughput'', ''normalized_stationary_throughput'',
      ''normalized_write_stationary_throughput'', ''write_period'']"

definition read_figures :: "string list" where
  "read_figures =
     [''read_throughput'', ''read_stationary_throughput'', ''normalized_read_throughput'',
      ''normalized_read_stationary_throughput'', ''read_period'']"

definition enable_channel ::
    "(('a, 'h, 'f, 's) fifo_buffer \<Rightarrow> ('a, 'h, 'f, 's) fifo_buffer result) \<Rightarrow> link_ptr
       \<Rightarrow> ('a, 'h, 'f, 's) channel_tables \<Rightarrow> ('a, 'h, 'f, 's) channel_tables result" where
  "enable_channel start a c =
     rbind (channel_of c a) (\<lambda>ch. rmap (\<lambda>ch'. c\<lparr>channel_at := (channel_at c)(a \<mapsto> ch')\<rparr>) (start ch))"

definition enable_metric ::
    "sim_env \<Rightarrow> string \<times> string option \<Rightarrow> ('a, 'h, 'f, 's) channel_tables \<Rightarrow> ('a, 'h, 'f, 's) channel_tables result" where
  "enable_metric e m c =
     (let ts = tokens (fst m) in
      rbind (token ts 0) (\<lambda>b.
        if b = ''comm_synch'' then
          rbind (token ts 1) (\<lambda>n.
          rbind (find_channel (fb_map c) n lookup_order) (\<lambda>(dt, a).
          rbind (token ts 2) (\<lambda>k.
            if k \<in> set write_figures then enable_channel (measure_write_throughput e) a c
            else if k \<in> set read_figures then enable_channel (measure_read_throughput e) a c
            else report (''Enabling of comm&synch metric '' @ k
                   @ '' failed. Such comm&synch metric name is not recognized by KisTA.''))))
        else Inr c))"

fun enable_metrics ::
    "sim_env \<Rightarrow> metric_defs \<Rightarrow> ('a, 'h, 'f, 's) channel_tables \<Rightarrow> ('a, 'h, 'f, 's) channel_tables result" where
  "enable_metrics e [] c = Inr c"
| "enable_metrics e (m # ms) c = rbind (enable_metric e m c) (enable_metrics e ms)"

definition enable_measurements_for_MULTICUBE_selected_output ::
    "'b xml_lib_scheme \<Rightarrow> string \<Rightarrow> xml_node option \<Rightarrow> sim_env \<Rightarrow> ('a, 'h, 'f, 's) channel_tables
       \<Rightarrow> ('a, 'h, 'f, 's) channel_tables result" where
  "enable_measurements_for_MULTICUBE_selected_output x smd_file_name smd e c =
     rbind (getSelectedOutputMetrics x smd_file_name smd) (\<lambda>ms. enable_metrics e ms c)"

subsection \<open>The output of a run\<close>

definition create_MULTICUBE_error_output :: "bool \<Rightarrow> string \<Rightarrow> xml_node" where
  "create_MULTICUBE_error_output fatal_for_exploration error_reason_msg =
     metric_root [Xml_Node ''error''
       [(''reason'', error_reason_msg), (''kind'', if fatal_for_exploration then ''fatal'' else ''non-fatal'')] []]"

text \<open>
  What \<open>sc_main\<close> does with them: measurements are started and metrics selected when a definition file was
  named; an error reported in the run gives an error document, with the text \<open>what\<close> of the exception and
  the fatality of errors.
\<close>

definition set_error_stop_exploration :: "bool \<Rightarrow> bool" where
  "set_error_stop_exploration old = True"

definition set_error_does_not_stop_exploration :: "bool \<Rightarrow> bool" where
  "set_error_does_not_stop_exploration old = False"

definition enable_measurements ::
    "'b xml_lib_scheme \<Rightarrow> string \<Rightarrow> xml_node option \<Rightarrow> sim_env \<Rightarrow> ('a, 'h, 'f, 's) channel_tables
       \<Rightarrow> ('a, 'h, 'f, 's) channel_tables result" where
  "enable_measurements x smd_path smd e c =
     (if length smd_path \<ge> 1 then enable_measurements_for_MULTICUBE_selected_output x smd_path smd e c else Inr c)"

definition create_output ::
    "'b xml_lib_scheme \<Rightarrow> string \<Rightarrow> xml_node option \<Rightarrow> 'p run_view \<Rightarrow> ('a, 'h, 'f, 's) channel_tables
       \<Rightarrow> (xml_node \<times> energy_globals) result" where
  "create_output x smd_path smd v c =
     (if length smd_path < 1 then create_MULTICUBE_full_output v
      else create_MULTICUBE_selected_output x smd_path smd v c)"

definition finish_run ::
    "(string \<Rightarrow> string) \<Rightarrow> bool \<Rightarrow> (xml_node \<times> energy_globals) result \<Rightarrow> (int \<times> xml_node) result" where
  "finish_run what error_stop_exploration r =
     (case r of
        Inr (d, g) \<Rightarrow> Inr (0, d)
      | Inl (Report_Error m) \<Rightarrow> Inr (- 1, create_MULTICUBE_error_output error_stop_exploration (what m))
      | Inl (Undefined_Behaviour m) \<Rightarrow> undef m)"

text \<open>
  The format of KisTA itself, which nothing calls: elements with their contents, and \<open>std::to_string\<close> of
  a double as \<open>fixed\<close>.
\<close>

definition rtos_report :: "(double \<Rightarrow> string) \<Rightarrow> 'p run_view \<Rightarrow> scheduler \<Rightarrow> (string \<times> (string \<times> string) list) result" where
  "rtos_report fixed v s =
     rbind (get_platform_utilization (run_env v) (run_store v) s) (\<lambda>u.
     rbind (assess_starvation (run_store v) s) (\<lambda>starving.
     rmap (\<lambda>missed. (''rtos_rpt'',
         [(''name'', sched_name s), (''sched_utilization'', fixed (get_scheduler_utilization (run_env v) s)),
          (''plat_utilization'', fixed u), (''number_of_schedulings'', decimal (unat (n_schedulings s))),
          (''starvation'', if starving then ''true'' else ''false''),
          (''miss_deadlines'', if missed then ''true'' else ''false'')]))
       (miss_deadlines (run_store v) s)))"

definition task_report :: "(double \<Rightarrow> string) \<Rightarrow> 'p run_view \<Rightarrow> string \<Rightarrow> (string \<times> (string \<times> string) list) result" where
  "task_report fixed v n =
     rmap (\<lambda>u. (''task_rpt'',
         [(''name'', n), (''task_utilization'', fixed u),
          (''miss_deadline'', if miss_deadline (run_store v n) then ''true'' else ''false'')]))
       (task_utilization v n)"

definition create_KisTA_XML_output ::
    "(double \<Rightarrow> string) \<Rightarrow> 'p run_view \<Rightarrow> (string \<times> (string \<times> string) list) list result" where
  "create_KisTA_XML_output fixed v =
     collect (map (rtos_report fixed v) (run_scheds v) @ map (task_report fixed v) (run_tasks v))"

end
