(* ===== verification/Xml_Output_Props.thy ===== *)
theory Xml_Output_Props
  imports Xml_Output Xml_Params
begin

text \<open>
  What the outputs of a run contain: the selected output has the metrics of the definition file and no
  other, the figures of the full output are those that selecting their names gives, and the measurements a
  selection starts before the simulation are those its report needs.
\<close>

subsection \<open>The definition file\<close>

locale libxml_metrics = libxml L for L :: "'b xml_lib_scheme" +
  assumes metrics: "\<exists>s. xml_xpath L d metrics_path = Some s
    \<and> set_nodes s = absolute_nodes [''design_space'', ''system_metrics'', ''system_metric''] d"
begin

lemma metrics_set:
  "getNodeSet L d metrics_path =
     (let ps = absolute_nodes [''design_space'', ''system_metrics'', ''system_metric''] d
      in if ps = [] then None else Some ps)"
  using metrics [of d] by (auto simp: getNodeSet_def)

end

definition metrics_lib :: xml_lib where
  "metrics_lib = tree_lib\<lparr>xml_xpath := (\<lambda>d e.
     if e = metrics_path
     then Some (Some (absolute_nodes [''design_space'', ''system_metrics'', ''system_metric''] d))
     else xml_xpath tree_lib d e)\<rparr>"

lemma metrics_path_other: "metrics_path \<noteq> sysconf_path" "list_all plain_name ns \<Longrightarrow> path_expr ns \<noteq> metrics_path"
proof -
  show "metrics_path \<noteq> sysconf_path" by (simp add: metrics_path_def sysconf_path_def)
  show "list_all plain_name ns \<Longrightarrow> path_expr ns \<noteq> metrics_path"
    using star_not_path [of ns] by (auto simp: metrics_path_def)
qed

interpretation metric_xml: libxml_metrics metrics_lib
proof
  fix ns d
  assume "list_all plain_name ns" "ns \<noteq> ([] :: string list)"
  then show "\<exists>s. xml_xpath metrics_lib d (path_expr ns) = Some s \<and> set_nodes s = absolute_nodes ns d"
    using tree_xml.absolute [of ns d] metrics_path_other(2) [of ns] by (simp add: metrics_lib_def)
next
  fix d
  show "\<exists>s. xml_xpath metrics_lib d sysconf_path = Some s
      \<and> set_nodes s = absolute_nodes [''simulator_input_interface'', ''parameter''] d"
    using tree_xml.local_name [of d] metrics_path_other(1) by (simp add: metrics_lib_def)
qed (simp_all add: metrics_lib_def tree_lib_def set_nodes_def)

text \<open>The nodes that define metrics, and the unit that the last definition of a metric gives.\<close>

definition metric_nodes :: "xml_node \<Rightarrow> xml_ptr list" where
  "metric_nodes d = absolute_nodes [''design_space'', ''system_metrics'', ''system_metric''] d"

definition last_unit :: "xml_ptr list \<Rightarrow> string \<Rightarrow> string option option" where
  "last_unit ps n = map_option (prop_of ''unit'') (find (\<lambda>p. prop_of ''name'' p = Some n) (rev ps))"

lemma last_unit_Cons:
  "last_unit (p # ps) n = (case last_unit ps n of Some u \<Rightarrow> Some u
     | None \<Rightarrow> (if prop_of ''name'' p = Some n then Some (prop_of ''unit'' p) else None))"
proof -
  have "find P (xs @ [y]) = (case find P xs of Some q \<Rightarrow> Some q | None \<Rightarrow> (if P y then Some y else None))"
    for P :: "xml_ptr \<Rightarrow> bool" and xs y by (induction xs) auto
  then show ?thesis by (auto simp: last_unit_def split: option.splits)
qed

lemma last_unit_iff: "last_unit ps n \<noteq> None \<longleftrightarrow> (\<exists>p \<in> set ps. prop_of ''name'' p = Some n)"
proof (induction ps)
  case Nil
  show ?case by (simp add: last_unit_def)
next
  case (Cons p ps)
  then show ?case by (cases "last_unit ps n") (auto simp: last_unit_Cons)
qed

lemma read_metric_defs_effect:
  assumes "libxml x" "read_metric_defs x i ps ms = Inr ms'" "sorted_wrt (<) (map fst ms)"
  shows "sorted_wrt (<) (map fst ms')
    \<and> map_of ms' = (\<lambda>n. case last_unit ps n of Some u \<Rightarrow> Some u | None \<Rightarrow> map_of ms n)"
  using assms(2,3)
proof (induction ps arbitrary: i ms)
  case Nil
  then show ?case by (simp add: last_unit_def)
next
  case (Cons p ps)
  have attr: "xml_get_prop x p a = prop_of a p" for a
    using libxml.get_prop [OF assms(1)] by (simp add: prop_of_def)
  from Cons.prems(1) obtain n where n: "prop_of ''name'' p = Some n"
    and rest: "read_metric_defs x (Suc i) ps (table_set n (prop_of ''unit'' p) ms) = Inr ms'"
    by (auto simp: attr split: option.splits)
  from Cons.IH [OF rest] sorted_table_set [OF Cons.prems(2)] map_of_table_set [OF Cons.prems(2)] n
  show ?case by (auto simp: last_unit_Cons fun_eq_iff split: option.splits)
qed

lemma selected_definitions:
  assumes "libxml_metrics x" "getSelectedOutputMetrics x file (Some d) = Inr ms"
  shows "sorted_wrt (<) (map fst ms)" "map_of ms = last_unit (metric_nodes d)"
proof -
  have "libxml x" using assms(1) by (simp add: libxml_metrics_def)
  moreover have "read_metric_defs x 0 (metric_nodes d) [] = Inr ms"
    using assms(2) libxml_metrics.metrics_set [OF assms(1), of d]
    by (auto simp: getSelectedOutputMetrics_def metric_nodes_def Let_def split: if_splits)
  ultimately have "sorted_wrt (<) (map fst ms)
      \<and> map_of ms = (\<lambda>n. case last_unit (metric_nodes d) n of Some u \<Rightarrow> Some u | None \<Rightarrow> map_of [] n)"
    by (rule read_metric_defs_effect) simp
  then show "sorted_wrt (<) (map fst ms)" "map_of ms = last_unit (metric_nodes d)"
    by (simp_all add: fun_eq_iff split: option.splits)
qed

subsection \<open>The selected output\<close>

definition metric_name :: "xml_node \<Rightarrow> string option" where
  "metric_name k = map_of (node_props k) ''name''"

lemma metric_name_node [simp]: "metric_name (metric_node e n as) = Some n"
  by (simp add: metric_name_def metric_node_def)

lemma metric_node_inject: "metric_node e n as = metric_node e' n' as' \<longleftrightarrow> e = e' \<and> n = n' \<and> as = as'"
  by (simp add: metric_node_def)

text \<open>An element that reports the metric \<open>n\<close> with the unit of its last definition.\<close>

definition reports ::
    "'p run_view \<Rightarrow> ('a, 'h, 'f, 's) channel_tables \<Rightarrow> xml_node \<Rightarrow> xml_node \<Rightarrow> bool" where
  "reports v c d k = (\<exists>n u as g g'. k = metric_node ''system_metric'' n as
     \<and> last_unit (metric_nodes d) n = Some u \<and> selected_metric v c (n, u) g = Inr (as, g'))"

lemma selected_metrics_effect:
  "selected_metrics v c ms g = Inr (ns, g') \<Longrightarrow>
     list_all2 (\<lambda>m k. \<exists>as h h'. k = metric_node ''system_metric'' (fst m) as \<and> selected_metric v c m h = Inr (as, h'))
       ms ns"
proof (induction v c ms g arbitrary: ns g' rule: selected_metrics.induct)
  case (2 v c m ms g)
  then obtain as g1 ns1 where m: "selected_metric v c m g = Inr (as, g1)"
    and rest: "selected_metrics v c ms g1 = Inr (ns1, g')" and ns: "ns = metric_node ''system_metric'' (fst m) as # ns1"
    by (auto simp: rbind_eq_Inr rmap_eq_Inr)
  have "list_all2 (\<lambda>m k. \<exists>as h h'. k = metric_node ''system_metric'' (fst m) as \<and> selected_metric v c m h = Inr (as, h'))
      ms ns1" by (rule "2.IH" [OF rest])
  with m ns show ?case by auto
qed simp


subsection \<open>Selected and full outputs\<close>

text \<open>A part of the name of a metric: it is not empty and has no separator.\<close>

definition path_part :: "string \<Rightarrow> bool" where
  "path_part n = (n \<noteq> [] \<and> CHR ''/'' \<notin> set n)"

lemma split_path_part: "CHR ''/'' \<notin> set n \<Longrightarrow> split_path (n @ CHR ''/'' # s) = n # split_path s"
  "CHR ''/'' \<notin> set n \<Longrightarrow> split_path n = [n]"
proof -
  have ne: "split_path s \<noteq> []" for s by (induction s) (auto split: list.splits)
  show "CHR ''/'' \<notin> set n \<Longrightarrow> split_path (n @ CHR ''/'' # s) = n # split_path s"
    using ne [of s] by (induction n) (auto split: list.splits)
  show "CHR ''/'' \<notin> set n \<Longrightarrow> split_path n = [n]"
    by (induction n) auto
qed

lemma tokens_three:
  "path_part a \<Longrightarrow> path_part b \<Longrightarrow> path_part c \<Longrightarrow> tokens (a @ ''/'' @ b @ ''/'' @ c) = [a, b, c]"
  by (simp add: tokens_def path_part_def split_path_part)

lemma token_three [simp]:
  "token [a, b, c] 0 = Inr a" "token [a, b, c] (Suc 0) = Inr b" "token [a, b, c] 1 = Inr b" "token [a, b, c] 2 = Inr c"
  by (simp_all add: token_def)

text \<open>The two outputs write a truth value in two ways.\<close>

definition same_figure :: "attributes \<Rightarrow> attributes \<Rightarrow> bool" where
  "same_figure full sel = (full = sel \<or> (\<exists>b. full = true_false b \<and> sel = one_zero b))"

definition agrees :: "(string \<Rightarrow> (attributes \<times> energy_globals) result) \<Rightarrow> xml_node \<Rightarrow> bool" where
  "agrees select k = (\<exists>n full sel g. k = metric_node ''system_metric'' n full
     \<and> select n = Inr (sel, g) \<and> same_figure full sel)"

lemma agreesI:
  "select n = Inr (sel, g) \<Longrightarrow> same_figure full sel \<Longrightarrow> agrees select (metric_node ''system_metric'' n full)"
  unfolding agrees_def by blast

lemma same_figure_refl [simp]: "same_figure as as"
  by (simp add: same_figure_def)

lemma same_truth [simp]: "same_figure (true_false b) (one_zero b)"
  by (auto simp: same_figure_def)

lemma collect_effect: "collect rs = Inr xs \<Longrightarrow> rs = map Inr xs"
  by (induction rs arbitrary: xs) (auto simp: rbind_eq_Inr rmap_eq_Inr)

lemma selected_rtos:
  assumes "path_part n" "path_part m" "find (\<lambda>s. sched_name s = n) (run_scheds v) = Some s"
  shows "selected_metric v c (''rtos/'' @ n @ ''/'' @ m, u) g = rmap (\<lambda>as. (as, g)) (rtos_metric v [''rtos'', n, m])"
proof -
  have "tokens (''rtos/'' @ n @ ''/'' @ m) = [''rtos'', n, m]"
    using tokens_three [of "''rtos''" n m] assms by (simp add: path_part_def)
  then show ?thesis by (simp add: selected_metric_def)
qed

lemma rtos_agrees:
  assumes "path_part (sched_name s)" "find (\<lambda>t. sched_name t = sched_name s) (run_scheds v) = Some s"
    "rtos_metrics v s = Inr ns" "k \<in> set ns"
  shows "agrees (\<lambda>n. selected_metric v c (n, u) g) k"
proof -
  note sel = selected_rtos [OF assms(1) _ assms(2), of _ c u g]
  have parts: "path_part m" if "m \<in> {''tasks_utilization'', ''sched_utilization'', ''plat_utilization'',
      ''number_of_schedulings'', ''number_of_context_switches'', ''starvation'', ''miss_deadlines''}" for m
    using that by (auto simp: path_part_def)
  note all = collect_effect [OF assms(3) [unfolded rtos_metrics_def Let_def]]
  have find: "find (\<lambda>t. sched_name t = sched_name s) (run_scheds v) = Some s" by (rule assms(2))
  from all assms(4) show ?thesis
    by (auto simp: full_metric_def rmap_eq_Inr Cons_eq_map_conv intro!: agreesI
        simp: sel parts rtos_metric_def find simp del: append.simps)
qed

lemma selected_task:
  assumes "path_part n" "path_part m" "n \<in> set (run_tasks v)"
  shows "selected_metric v c (''task/'' @ n @ ''/'' @ m, u) g = rmap (\<lambda>as. (as, g)) (task_metric v [''task'', n, m] u)"
proof -
  have "tokens (''task/'' @ n @ ''/'' @ m) = [''task'', n, m]"
    using tokens_three [of "''task''" n m] assms by (simp add: path_part_def)
  then show ?thesis by (simp add: selected_metric_def)
qed

text \<open>The metrics of a task whose selection does not lose the figure.\<close>

definition kept_figure :: "string \<Rightarrow> bool" where
  "kept_figure m = (m \<noteq> ''max_response_time'' \<and> m \<noteq> ''location_of_worst_case_response_time'')"

lemma task_agrees:
  assumes n: "path_part n" "n \<in> set (run_tasks v)" and full: "task_metrics v n = Inr ns" "k \<in> set ns"
    and k: "metric_name k = Some nm" "tokens nm = [b, n', m]" "kept_figure m"
  shows "agrees (\<lambda>n. selected_metric v c (n, u) g) k"
proof -
  have parts: "path_part ''utilization''" "path_part ''miss_deadline''" "path_part ''max_response_time''"
    "path_part ''location_of_worst_case_response_time''" by (simp_all add: path_part_def)
  have toks: "tokens (''task/'' @ n @ ''/'' @ x) = [''task'', n, x]" if "path_part x" for x
    using tokens_three [of "''task''" n x] n(1) that by (simp add: path_part_def)
  note sel = selected_task [OF n(1) parts(1) n(2), of c u g] selected_task [OF n(1) parts(2) n(2), of c u g]
  obtain d where
    d: "task_utilization v n = Inr d"
    "k = metric_node ''system_metric'' (''task/'' @ n @ ''/utilization'') (figure v d)
     \<or> k = metric_node ''system_metric'' (''task/'' @ n @ ''/miss_deadline'') (true_false (miss_deadline (run_store v n)))
     \<or> (\<exists>e as. k = metric_node e (''task/'' @ n @ ''/max_response_time'') as)
     \<or> (\<exists>e as. k = metric_node e (''task/'' @ n @ ''/location_of_worst_case_response_time'') as)"
    using collect_effect [OF full(1) [unfolded task_metrics_def Let_def]] full(2)
    by (auto simp: full_metric_def response_metrics_def Let_def rmap_eq_Inr Cons_eq_map_conv append_eq_map_conv
        metric_node_inject split: if_splits)
  then consider "k = metric_node ''system_metric'' (''task/'' @ n @ ''/utilization'') (figure v d)"
    | "k = metric_node ''system_metric'' (''task/'' @ n @ ''/miss_deadline'') (true_false (miss_deadline (run_store v n)))"
    | "\<not> kept_figure m"
    using k toks [OF parts(3)] toks [OF parts(4)] by (auto simp: kept_figure_def)
  then show ?thesis
  proof cases
    case 1
    then show ?thesis using sel(1) d(1) n(2) by (auto simp: task_metric_def intro!: agreesI)
  next
    case 2
    then show ?thesis using sel(2) n(2) by (auto simp: task_metric_def intro!: agreesI)
  next
    case 3
    then show ?thesis using k(3) by simp
  qed
qed

lemma find_distinct: "distinct (map f xs) \<Longrightarrow> x \<in> set xs \<Longrightarrow> find (\<lambda>t. f t = f x) xs = Some x"
  by (induction xs) auto

lemma energy_metrics_named:
  "energy_metrics v = Inr (es, g) \<Longrightarrow> k \<in> set es \<Longrightarrow> metric_name k = Some nm \<Longrightarrow> length (tokens nm) = 1"
proof -
  assume es: "energy_metrics v = Inr (es, g)" and k: "k \<in> set es" "metric_name k = Some nm"
  have "nm \<in> {''total_consumed_energy'', ''total_static_consumed_energy'', ''total_dynamic_consumed_energy'',
      ''peak_dynamic_power'', ''peak_average_power'', ''total_average_power''}"
    using es k
    by (auto simp: energy_metrics_def energy_metric_def rbind_eq_Inr rmap_eq_Inr Cons_eq_map_conv
        split: if_splits dest!: collect_effect)
  then show ?thesis by (auto simp: tokens_def)
qed


text \<open>Selecting a response time writes the factor of the unit, whatever the response time was.\<close>

theorem response_time_lost:
  assumes "path_part n" "n \<in> set (run_tasks v)"
    "selected_metric v c (''task/'' @ n @ ''/'' @ ''max_response_time'', Some s) g = Inr (as, g')"
  shows "\<exists>f. conv_isu_factor (first_char s) = Inr f \<and> as = with_unit (Some s) (figure v (Fin f))"
proof -
  have part: "path_part ''max_response_time''" by (simp add: path_part_def)
  show ?thesis
    using assms(3) assms(2) unfolding selected_task [OF assms(1) part assms(2)]
    by (auto simp: task_metric_def response_figure_def Let_def rbind_eq_Inr rmap_eq_Inr split: if_splits)
qed

subsection \<open>Measurements\<close>

text \<open>The units each figure accepts, and the monitors it reads.\<close>

definition unit_known :: "string \<Rightarrow> string \<Rightarrow> bool" where
  "unit_known k s =
     (if k \<in> {''write_period'', ''read_period''} then is_ok (conv_isu_factor (first_char s))
      else if take 10 k = ''normalized'' then hertz_unit s \<or> is_ok (conv_isu_factor (first_char s))
      else bit_unit s \<or> is_ok (conv_data_rate_factor (first_char s)))"

definition monitors_for :: "string \<Rightarrow> ('a, 'h, 'f, 's) fifo_buffer \<Rightarrow> bool" where
  "monitors_for k ch =
     ((k \<in> set write_figures \<longrightarrow> write_th_mon ch \<noteq> None)
      \<and> (k \<in> set read_figures \<longrightarrow> read_th_mon ch \<noteq> None \<and> (k = ''read_period'' \<or> write_th_mon ch \<noteq> None)))"

lemma monitored_ok:
  "\<not> before_sim e \<Longrightarrow> t \<noteq> None \<Longrightarrow> m = Some w \<Longrightarrow> monitored e what ch t m f = f w"
  by (auto simp: monitored_def rbind_after)

lemma rates_ok:
  "bit_unit s \<or> is_ok (conv_data_rate_factor (first_char s)) \<Longrightarrow> is_ok (get_throughput s w)"
  "bit_unit s \<or> is_ok (conv_data_rate_factor (first_char s)) \<Longrightarrow> is_ok (get_stationary_throughput s w)"
  "hertz_unit s \<or> is_ok (conv_isu_factor (first_char s)) \<Longrightarrow> is_ok (get_normalized_throughput s w)"
  "hertz_unit s \<or> is_ok (conv_isu_factor (first_char s)) \<Longrightarrow> is_ok (get_normalized_stationary_throughput s w)"
  "is_ok (conv_isu_factor (first_char s)) \<Longrightarrow> is_ok (get_period_in s w)"
  by (auto simp: get_throughput_def get_stationary_throughput_def get_normalized_throughput_def
      get_normalized_stationary_throughput_def get_period_in_def is_ok_iff rmap_eq_Inr)

text \<open>The getter of each figure.\<close>

definition write_getter :: "string \<Rightarrow> string \<Rightarrow> throughput_monitor \<Rightarrow> double result" where
  "write_getter k s =
     (if k \<in> {''normalized_throughput'', ''normalized_write_throughput'', ''normalized_read_throughput''}
        then get_normalized_throughput s
      else if k \<in> {''normalized_stationary_throughput'', ''normalized_write_stationary_throughput'',
          ''normalized_read_stationary_throughput''} then get_normalized_stationary_throughput s
      else if k \<in> {''throughput'', ''write_throughput'', ''read_throughput''} then get_throughput s
      else if k \<in> {''stationary_throughput'', ''write_stationary_throughput'', ''read_stationary_throughput''}
        then get_stationary_throughput s
      else (\<lambda>m. rmap Fin (get_period_in s m)))"

lemma getter_ok:
  assumes "k \<in> set write_figures \<union> set read_figures" "unit_known k s"
  shows "is_ok (write_getter k s w)"
proof -
  have period: "is_ok (conv_isu_factor (first_char s)) \<Longrightarrow> is_ok (rmap Fin (get_period_in s w))"
    using rates_ok(5) [of s w] by (auto simp: is_ok_iff)
  show ?thesis using assms unfolding write_figures_def read_figures_def
    by (simp; elim disjE; simp add: write_getter_def unit_known_def rates_ok period)
qed

lemma write_figure:
  assumes "\<not> before_sim e" "write_th_mon ch = Some w" "k \<in> set write_figures"
  shows "\<exists>f. channel_figure e k (Some s) = Some f \<and> f ch = write_getter k s w"
proof -
  have mon: "monitored e what ch (Some w) (Some w) g = g w" for what and g :: "throughput_monitor \<Rightarrow> 'x result"
    by (rule monitored_ok [OF assms(1)]) simp_all
  show ?thesis using assms(3) unfolding write_figures_def
    by (simp; elim disjE; simp add: channel_figure_def at_unit_def getter_defs get_write_period_in_def assms(2) mon
        write_getter_def)
qed

lemma read_figure:
  assumes "\<not> before_sim e" "read_th_mon ch = Some r" "k \<in> set read_figures"
    "k = ''read_period'' \<or> write_th_mon ch \<noteq> None"
  shows "\<exists>f. channel_figure e k (Some s) = Some f \<and> f ch = write_getter k s r"
proof -
  have mon: "monitored e what ch t (Some r) g = g r" if "t \<noteq> None"
    for what t and g :: "throughput_monitor \<Rightarrow> 'x result"
    by (rule monitored_ok [OF assms(1) that]) simp
  show ?thesis using assms(3,4) unfolding read_figures_def
    by (simp; elim disjE; simp add: channel_figure_def at_unit_def getter_defs get_read_period_in_def assms(2) mon
        write_getter_def)
qed

lemma figure_ok:
  assumes sim: "\<not> before_sim e" and k: "k \<in> set write_figures \<union> set read_figures"
    and mon: "monitors_for k ch" and s: "unit_known k s"
  shows "\<exists>f d. channel_figure e k (Some s) = Some f \<and> f ch = Inr d"
proof -
  have "\<exists>f w. channel_figure e k (Some s) = Some f \<and> f ch = write_getter k s w"
    using k mon write_figure [OF sim] read_figure [OF sim] unfolding monitors_for_def by blast
  then show ?thesis using getter_ok [OF k s] by (auto simp: is_ok_iff)
qed

text \<open>Tables of the same channels, in which no monitor was lost.\<close>

definition keeps :: "('a, 'h, 'f, 's) channel_tables \<Rightarrow> ('a, 'h, 'f, 's) channel_tables \<Rightarrow> bool" where
  "keeps c c' = (fb_map c' = fb_map c \<and> (\<forall>a ch. channel_at c a = Some ch \<longrightarrow>
     (\<exists>ch'. channel_at c' a = Some ch' \<and> (write_th_mon ch \<noteq> None \<longrightarrow> write_th_mon ch' \<noteq> None)
        \<and> (read_th_mon ch \<noteq> None \<longrightarrow> read_th_mon ch' \<noteq> None))))"

lemma keeps_refl [simp]: "keeps c c"
  by (simp add: keeps_def)

lemma keeps_trans: "keeps c d \<Longrightarrow> keeps d e \<Longrightarrow> keeps c e"
  unfolding keeps_def by fastforce

text \<open>The monitor that a metric of the channel \<open>n\<close> starts is there.\<close>

definition measured :: "('a, 'h, 'f, 's) channel_tables \<Rightarrow> string \<Rightarrow> string \<Rightarrow> bool" where
  "measured c n k = (\<exists>dt a ch. find_channel (fb_map c) n lookup_order = Inr (dt, a) \<and> channel_at c a = Some ch
     \<and> (k \<in> set write_figures \<and> write_th_mon ch \<noteq> None \<or> k \<in> set read_figures \<and> read_th_mon ch \<noteq> None))"

lemma measured_keeps: "measured c n k \<Longrightarrow> keeps c c' \<Longrightarrow> measured c' n k"
  unfolding measured_def keeps_def by metis

lemma enable_channel_effect:
  assumes "enable_channel start a c = Inr c'"
  obtains ch ch' where "channel_at c a = Some ch" "start ch = Inr ch'" "c' = c\<lparr>channel_at := (channel_at c)(a \<mapsto> ch')\<rparr>"
  using assms by (auto simp: enable_channel_def channel_of_def rbind_eq_Inr rmap_eq_Inr split: option.splits)

lemma measure_effect:
  "measure_write_throughput e ch = Inr ch' \<Longrightarrow> \<exists>w. ch' = ch\<lparr>write_th_mon := Some w\<rparr>"
  "measure_read_throughput e ch = Inr ch' \<Longrightarrow> \<exists>w. ch' = ch\<lparr>read_th_mon := Some w\<rparr>"
  by (auto simp: measure_write_throughput_def measure_read_throughput_def rmap_eq_Inr)

lemma enable_metric_cases:
  assumes "enable_metric e m c = Inr c'"
  obtains "c' = c" "\<not> (\<exists>r. tokens (fst m) = ''comm_synch'' # r)"
  | n k r dt a where "tokens (fst m) = ''comm_synch'' # n # k # r" "find_channel (fb_map c) n lookup_order = Inr (dt, a)"
      "k \<in> set write_figures" "enable_channel (measure_write_throughput e) a c = Inr c'"
  | n k r dt a where "tokens (fst m) = ''comm_synch'' # n # k # r" "find_channel (fb_map c) n lookup_order = Inr (dt, a)"
      "k \<in> set read_figures" "enable_channel (measure_read_throughput e) a c = Inr c'"
proof (cases "\<exists>r. tokens (fst m) = ''comm_synch'' # r")
  case False
  then have "c' = c" using assms
    by (cases "tokens (fst m)") (auto simp: enable_metric_def token_def Let_def)
  with False show ?thesis using that(1) by blast
next
  case True
  then obtain r0 where r0: "tokens (fst m) = ''comm_synch'' # r0" ..
  obtain n k r dt a where r: "r0 = n # k # r" "find_channel (fb_map c) n lookup_order = Inr (dt, a)"
    and k: "(if k \<in> set write_figures then enable_channel (measure_write_throughput e) a c
      else if k \<in> set read_figures then enable_channel (measure_read_throughput e) a c
      else report (''Enabling of comm&synch metric '' @ k
        @ '' failed. Such comm&synch metric name is not recognized by KisTA.'')) = Inr c'"
    using assms r0 unfolding enable_metric_def
    by (cases r0; cases "tl r0") (auto simp: token_def rbind_eq_Inr)
  then show ?thesis using that(2,3) r0 by (simp split: if_splits)
qed

lemma enable_metric_effect:
  assumes "enable_metric e m c = Inr c'"
  shows "keeps c c' \<and> (\<forall>n k r. tokens (fst m) = ''comm_synch'' # n # k # r \<longrightarrow> measured c' n k)"
  using assms
proof (cases rule: enable_metric_cases)
  case 1
  then show ?thesis by simp
next
  case (2 n k r dt a)
  from 2(4) obtain ch w where "channel_at c a = Some ch"
    "c' = c\<lparr>channel_at := (channel_at c)(a \<mapsto> ch\<lparr>write_th_mon := Some w\<rparr>)\<rparr>"
    by (elim enable_channel_effect) (auto dest: measure_effect)
  with 2 show ?thesis by (simp add: keeps_def measured_def)
next
  case (3 n k r dt a)
  from 3(4) obtain ch w where "channel_at c a = Some ch"
    "c' = c\<lparr>channel_at := (channel_at c)(a \<mapsto> ch\<lparr>read_th_mon := Some w\<rparr>)\<rparr>"
    by (elim enable_channel_effect) (auto dest: measure_effect)
  with 3 show ?thesis by (simp add: keeps_def measured_def)
qed

lemma enable_metrics_effect:
  "enable_metrics e ms c = Inr c' \<Longrightarrow>
     keeps c c' \<and> (\<forall>m n k r. m \<in> set ms \<longrightarrow> tokens (fst m) = ''comm_synch'' # n # k # r \<longrightarrow> measured c' n k)"
proof (induction ms arbitrary: c)
  case (Cons m ms)
  then obtain c1 where c1: "enable_metric e m c = Inr c1" "enable_metrics e ms c1 = Inr c'"
    by (auto simp: rbind_eq_Inr)
  note step = enable_metric_effect [OF c1(1)] and rest = Cons.IH [OF c1(2)]
  from step rest have "measured c' n k" if "tokens (fst m) = ''comm_synch'' # n # k # r" for n k r
    using that measured_keeps by blast
  moreover have "keeps c c'" using step rest keeps_trans by blast
  ultimately show ?case using rest by auto
qed simp


text \<open>The operations of a channel keep its monitors.\<close>

definition same_monitors :: "('a, 'h, 'f, 's) fifo_buffer \<Rightarrow> ('a, 'h, 'f, 's) fifo_buffer \<Rightarrow> bool" where
  "same_monitors ch ch' = ((write_th_mon ch' = None \<longleftrightarrow> write_th_mon ch = None)
     \<and> (read_th_mon ch' = None \<longleftrightarrow> read_th_mon ch = None))"

lemma operations_keep_monitors:
  "fifo_read_credit p ch = Some ch' \<Longrightarrow> same_monitors ch ch'"
  "fifo_read_token p now ch = Some (x, ch') \<Longrightarrow> same_monitors ch ch'"
  "fifo_write_begin now ch t = (t', ch') \<Longrightarrow> same_monitors ch ch'"
  "fifo_write_store p x ch = Some ch' \<Longrightarrow> same_monitors ch ch'"
  "same_monitors ch (fifo_transfer_completed p ch)"
  "same_monitors ch (settle_message_size n ch)"
  by (auto simp: same_monitors_def fifo_read_credit_def fifo_read_token_def fifo_write_begin_def fifo_write_store_def
      fifo_transfer_completed_def settle_message_size_def Let_def split: if_splits prod.splits)

lemma keeps_operation:
  "channel_at c a = Some ch \<Longrightarrow> same_monitors ch ch' \<Longrightarrow> keeps c (c\<lparr>channel_at := (channel_at c)(a \<mapsto> ch')\<rparr>)"
  by (auto simp: keeps_def same_monitors_def)

end
