(* ===== verification/Xml_Output_Example.thy ===== *)
theory Xml_Output_Example
  imports Xml_Output_Props
begin

text \<open>
  A definition file with two metrics, one of them defined twice, and a run with a scheduler and a
  channel: the witnesses of the properties of the output.
\<close>

definition channel_metric :: "string \<Rightarrow> xml_node" where
  "channel_metric u = Xml_Node ''system_metric'' [(''name'', ''comm_synch/ab/throughput''), (''unit'', u)] []"

definition sched_metric :: xml_node where
  "sched_metric = Xml_Node ''system_metric'' [(''name'', ''rtos/s/number_of_schedulings'')] []"

definition metrics_file :: xml_node where
  "metrics_file = Xml_Node ''design_space'' []
     [Xml_Node ''system_metrics'' [] [sched_metric, channel_metric ''bps'', channel_metric ''Kbps'']]"

definition output_channel :: "(string, string, nat fifo_state, nat) fifo_buffer" where
  "output_channel =
     \<lparr>fb_address = 0, fb_link = new_link_named ''ab'', fb_fifo = fifo_new delta_channels 1, assoc_plink = new_link,
      assoc_comm_res_p = None, fb_message_size = 0, read_th_mon = None, write_th_mon = None,
      fb_role = SYSTEM_COMMSYNCH, fb_io_sense = UNSET_IO_SENSE, completed_transactions = 0, init_f = None\<rparr>"

definition output_links :: "string link_tables" where
  "output_links = \<lparr>sys_conn = [], sys_conn_by_name = Map.empty, link_at = (\<lambda>_. new_link)\<rparr>"

definition output_tables :: "(string, string, nat fifo_state, nat) channel_tables" where
  "output_tables = (no_channels output_links)\<lparr>channel_at := [0 \<mapsto> output_channel], channel_order := [0],
     fb_map := (\<lambda>_. Map.empty)(''int'' := [''ab'' \<mapsto> 0])\<rparr>"

definition measured_tables :: "(string, string, nat fifo_state, nat) channel_tables" where
  "measured_tables = output_tables\<lparr>channel_at :=
     [0 \<mapsto> output_channel\<lparr>write_th_mon := Some (new_throughput_monitor 0)\<rparr>]\<rparr>"

definition output_view :: "nat run_view" where
  "output_view =
     \<lparr>run_env = \<lparr>sc_status = SC_STOPPED, sc_running = False, sc_now = 10 ^ 12\<rparr>, run_store = (\<lambda>_. example_task),
      run_scheds = [example_sched], run_tasks = [], run_pes = [], consumed_energy = (\<lambda>_. Inr (Fin 0)),
      consumed_static_energy = (\<lambda>_. Inr (Fin 0)), consumed_dynamic_energy = (\<lambda>_. Inr (Fin 0)),
      run_energy = \<lparr>energy_and_power_measurement_enabled = False, global_power_averaging_time = 10 ^ 12,
        global_power_probe = Null_Probe, global_dynamic_power_probe = Null_Probe\<rparr>,
      probe_energy = Fin 0, ext_text = (\<lambda>d. if d = Fin 0 then ''0.000000'' else ''?'')\<rparr>"

lemma example_definitions:
  "getSelectedOutputMetrics metrics_lib ''m.xml'' (Some metrics_file) =
     Inr [(''comm_synch/ab/throughput'', Some ''Kbps''), (''rtos/s/number_of_schedulings'', None)]"
proof -
  have nodes: "getNodeSet metrics_lib metrics_file metrics_path =
    (let up = [Xml_Node ''system_metrics'' [] [sched_metric, channel_metric ''bps'', channel_metric ''Kbps''], metrics_file]
     in Some [(sched_metric, up), (channel_metric ''bps'', up), (channel_metric ''Kbps'', up)])"
    unfolding metric_xml.metrics_set
    by (simp add: metrics_file_def absolute_nodes_def xml_children_def ptr_name_def sched_metric_def channel_metric_def Let_def)
  have "xml_get_prop metrics_lib p a = map_of (node_props (fst p)) a" for p a
    by (rule metric_xml.get_prop)
  then show ?thesis
    by (simp add: getSelectedOutputMetrics_def nodes Let_def sched_metric_def channel_metric_def)
qed

lemma example_tokens:
  "tokens ''comm_synch/ab/throughput'' = [''comm_synch'', ''ab'', ''throughput'']"
  "tokens ''rtos/s/number_of_schedulings'' = [''rtos'', ''s'', ''number_of_schedulings'']"
  by (simp_all add: tokens_def)

lemma example_enabled:
  "enable_measurements_for_MULTICUBE_selected_output metrics_lib ''m.xml'' (Some metrics_file) example_elab output_tables
     = Inr measured_tables"
proof -
  have "find_channel (fb_map output_tables) ''ab'' lookup_order = Inr (''int'', 0)"
    by (simp add: lookup_order_def output_tables_def no_channels_def)
  then have "enable_metric example_elab (''comm_synch/ab/throughput'', Some ''Kbps'') output_tables = Inr measured_tables"
    by (simp add: enable_metric_def example_tokens token_def write_figures_def enable_channel_def channel_of_def
        measure_write_throughput_def measure_throughput_monitor_def example_elab_def measured_tables_def
        output_tables_def no_channels_def)
  moreover have "enable_metric example_elab (''rtos/s/number_of_schedulings'', None) c = Inr c"
    for c :: "(string, string, nat fifo_state, nat) channel_tables"
    by (simp add: enable_metric_def example_tokens token_def)
  ultimately show ?thesis
    by (simp add: enable_measurements_for_MULTICUBE_selected_output_def example_definitions)
qed

lemma example_channel_metric:
  "selected_metric output_view measured_tables (''comm_synch/ab/throughput'', Some ''Kbps'') g =
     Inr ([(''value'', ''0.000000''), (''unit'', ''Kbps'')], g)"
  by (simp add: selected_metric_def example_tokens token_def comm_metric_def lookup_order_def measured_tables_def
      output_tables_def no_channels_def channel_figure_def channel_of_def at_unit_def get_write_throughput_def
      monitored_def rbind_after before_sim_def output_view_def new_throughput_monitor_def get_throughput_def
      figure_def with_unit_def)

lemma example_output:
  "create_MULTICUBE_selected_output metrics_lib ''m.xml'' (Some metrics_file) output_view measured_tables =
     Inr (metric_root
       [metric_node ''system_metric'' ''comm_synch/ab/throughput'' [(''value'', ''0.000000''), (''unit'', ''Kbps'')],
        metric_node ''system_metric'' ''rtos/s/number_of_schedulings'' [(''value'', ''0'')]], run_energy output_view)"
proof -
  have zero: "decimal 0 = ''0''" by code_simp
  have "selected_metric output_view measured_tables (''rtos/s/number_of_schedulings'', None) g = Inr ([(''value'', ''0'')], g)" for g
    by (simp add: selected_metric_def example_tokens token_def rtos_metric_def output_view_def example_sched_def
        new_scheduler_with_tasks_def new_scheduler_def raw_scheduler_def counter_def zero)
  then show ?thesis
    by (simp add: create_MULTICUBE_selected_output_def example_definitions example_channel_metric)
qed

lemma metrics_lib_ok: "libxml_metrics metrics_lib"
  by (rule metric_xml.libxml_metrics_axioms)




end
