(* ===== verification/Xml_Check.thy ===== *)
theory Xml_Check
  imports Xml_Values Text_Out
begin

text \<open>
  \<open>xml_if/kista_xml_check.cpp\<close>, the program that traverses a description, prints what it finds and stops at
  what it takes as an error. A part of the traversal is what it prints, message by message, and how it
  ends: it goes on, exits, or prints a null string.
\<close>

datatype ending = Continues | Exits int | Undefined string

type_synonym console = "string list \<times> ending"

definition quiet :: console where
  "quiet = ([], Continues)"

definition say :: "string \<Rightarrow> console" where
  "say s = ([s @ eol], Continues)"

definition say_with :: "string \<Rightarrow> string option \<Rightarrow> console" where
  "say_with pre t = (case t of None \<Rightarrow> ([], Undefined ''null string'') | Some s \<Rightarrow> say (pre @ s))"

definition exit_with :: "string \<Rightarrow> console" where
  "exit_with s = ([s @ eol], Exits (- 1))"

definition then_run :: "console \<Rightarrow> console \<Rightarrow> console" where
  "then_run r s = (if snd r = Continues then (fst r @ fst s, snd s) else r)"

fun run_all :: "console list \<Rightarrow> console" where
  "run_all [] = quiet"
| "run_all (r # rs) = then_run r (run_all rs)"

text \<open>The children of a node with a name, and a loop over the children that treats each by its name.\<close>

definition named_children :: "string \<Rightarrow> xml_ptr \<Rightarrow> xml_ptr list" where
  "named_children n p = filter (\<lambda>c. ptr_name c = n) (xml_children p)"

definition treat :: "(string \<times> (xml_ptr \<Rightarrow> console)) list \<Rightarrow> xml_ptr \<Rightarrow> console" where
  "treat fs c = run_all (map (\<lambda>(n, f). if ptr_name c = n then f c else quiet) fs)"

definition treat_children :: "(string \<times> (xml_ptr \<Rightarrow> console)) list \<Rightarrow> xml_ptr \<Rightarrow> console" where
  "treat_children fs p = run_all (map (treat fs) (xml_children p))"

subsection \<open>Applications and mappings\<close>

definition parseTask :: "xml_lib \<Rightarrow> xml_ptr \<Rightarrow> console" where
  "parseTask x p = say_with ''Kista-xml INFO: Task name: '' (xml_get_prop x p ''name'')"

definition parseApplication :: "xml_lib \<Rightarrow> xml_ptr \<Rightarrow> console" where
  "parseApplication x p =
     then_run (say_with ''Kista-xml INFO: Found Application '' (xml_get_prop x p ''name''))
       (treat_children [(''task'', parseTask x)] p)"

definition parse_map_task :: "xml_lib \<Rightarrow> xml_ptr \<Rightarrow> console" where
  "parse_map_task x p =
     (case (xml_get_prop x p ''source_app'', xml_get_prop x p ''source_task'', xml_get_prop x p ''target'') of
        (None, _, _) \<Rightarrow> exit_with ''Kista-xml ERROR: No source node in application mapping''
      | (_, None, _) \<Rightarrow> exit_with ''Kista-xml ERROR: No source node in application mapping''
      | (_, _, None) \<Rightarrow> exit_with ''Kista-xml ERROR: No target node in application mapping''
      | (Some a, Some t, Some r) \<Rightarrow> say (''Kista-xml INFO: Task Map: '' @ a @ ''.'' @ t @ '' -> '' @ r))"

definition parseApplicationMapping :: "xml_lib \<Rightarrow> xml_ptr \<Rightarrow> console" where
  "parseApplicationMapping x p = treat_children [(''map_task'', parse_map_task x)] p"

definition parse_map_rtos :: "xml_lib \<Rightarrow> xml_ptr \<Rightarrow> console" where
  "parse_map_rtos x p =
     (case (xml_get_prop x p ''source'', xml_get_prop x p ''target'') of
        (None, _) \<Rightarrow> exit_with ''Kista-xml ERROR: No source node in platform mapping''
      | (_, None) \<Rightarrow> exit_with ''Kista-xml ERROR: No target node in platform mapping''
      | (Some s, Some r) \<Rightarrow> say (''Kista-xml INFO: Platform Map: '' @ s @ '' -> '' @ r))"

definition parsePlatformMapping :: "xml_lib \<Rightarrow> xml_ptr \<Rightarrow> console" where
  "parsePlatformMapping x p = treat_children [(''map_rtos'', parse_map_rtos x)] p"

subsection \<open>Schedulers\<close>

text \<open>
  The names of a static schedule, printed in braces, each with what follows it. A cyclic schedule is an error
  when its node is met.
\<close>

fun print_schedule :: "string option list \<Rightarrow> console" where
  "print_schedule [] = quiet"
| "print_schedule (n # ns) =
     (case n of
        None \<Rightarrow> ([], Undefined ''null string'')
      | Some s \<Rightarrow> then_run ([s, if ns = [] then ''}'' @ eol else '',''], Continues) (print_schedule ns))"

definition cyclic_error :: console where
  "cyclic_error = ([''Kista-xml ERROR: Cyclic schedule specification TO BE SUPPORTED. ''
     @ ''You can however use tasks entries to specifiy it by now.''], Exits (- 1))"

definition parseStaticSchedulingPolicy :: "xml_lib \<Rightarrow> xml_ptr \<Rightarrow> console" where
  "parseStaticSchedulingPolicy x p =
     (let static_schedule = map (\<lambda>c. xml_get_prop x c ''name'') (named_children ''task'' p) in
      then_run (treat_children [(''cyclic'', \<lambda>_. cyclic_error)] p)
        (if static_schedule = [] then
           then_run (say ''Kista-xml ERROR:Static schedule has not been precised.'')
           (then_run (say (''At least one of the following tags has to appear in the XML file, ''
                           @ ''hanging from the <static_scheduling> tag:''))
             (exit_with (''A set of <task> tags, which define the schedule, or a <cyclic> stating the task set.'')))
         else then_run ([''Static Schedule: {''], Continues) (print_schedule static_schedule)))"

definition parseDynamicSchedulingPolicy :: "xml_ptr \<Rightarrow> console" where
  "parseDynamicSchedulingPolicy p = quiet"

definition parseSchedPolicy :: "xml_lib \<Rightarrow> xml_ptr \<Rightarrow> console" where
  "parseSchedPolicy x p =
     then_run
       (treat_children
          [(''static_scheduling'', parseStaticSchedulingPolicy x), (''dynamic_scheduling'', parseDynamicSchedulingPolicy)] p)
       (if hasChild p ''static_scheduling'' \<and> hasChild p ''dynamic_scheduling''
        then say ''Kista-xml ERROR: Both, static and dynamic policies have been stated''
        else if \<not> hasChild p ''static_scheduling'' \<and> \<not> hasChild p ''dynamic_scheduling'' then
          then_run (say ''Kista-xml ERROR: Scheduler Policy has not been specifically stated in the XML file'')
          (then_run (say (''At least one of the following tags has to appear in the XML file, ''
                          @ ''hanging from the <scheduler_policy> tag:''))
            (exit_with ''static_scheduling or dynamic_scheduling''))
        else quiet)"

definition parseRTOS :: "xml_lib \<Rightarrow> xml_ptr \<Rightarrow> console" where
  "parseRTOS x p =
     (let name = xml_get_prop x p ''name'' in
      then_run (say_with ''Kista-xml INFO: (RTOS) id: '' name)
      (then_run (treat_children [(''scheduler_policy'', parseSchedPolicy x)] p)
        (if hasChild p ''scheduler_policy'' then quiet
         else (case name of
                 None \<Rightarrow> ([], Undefined ''null string'')
               | Some n \<Rightarrow> exit_with (''Kista-xml ERROR: Scheduler Policy not defined in the XML file for RTOS '' @ n)))))"

definition parseSWPlatform :: "xml_lib \<Rightarrow> xml_ptr \<Rightarrow> console" where
  "parseSWPlatform x p =
     then_run (treat_children [(''rtos'', \<lambda>c. then_run (say ''Kista-xml INFO: Found RTOS.'') (parseRTOS x c))] p)
       (if hasChild p ''rtos'' then quiet
        else then_run (say ''Kista-xml WARNING: Error in the SW platform.'') ([[CHR 0x09, CHR 0x09] @ ''No RTOS.''], Continues))"

subsection \<open>Hardware\<close>

definition parsePE :: "xml_lib \<Rightarrow> xml_ptr \<Rightarrow> console" where
  "parsePE x p =
     then_run (say_with ''Kista-xml INFO: (PE) id='' (xml_get_prop x p ''name''))
     (then_run (say_with ''Kista-xml INFO: (PE) type='' (xml_get_prop x p ''type''))
       (treat_children [(''freq'', \<lambda>c. say_with ''Kista-xml INFO: (PE) freq. value='' (xml_get_prop x c ''value''))] p))"

definition parseHWPlatform :: "xml_lib \<Rightarrow> xml_ptr \<Rightarrow> console" where
  "parseHWPlatform x p =
     then_run (treat_children [(''PE'', \<lambda>c. then_run (say ''Kista-xml INFO: Found PE.'') (parsePE x c))] p)
       (if hasChild p ''PE'' then quiet
        else then_run (say ''Kista-xml WARNING: Error in the HW platform.'')
               ([[CHR 0x09, CHR 0x09] @ ''No Processing Elements.''], Continues))"

text \<open>The platform. Only a missing hardware platform makes it wrong, and then all that is missing is listed.\<close>

definition more_than_one :: "string \<Rightarrow> string \<Rightarrow> xml_ptr \<Rightarrow> console" where
  "more_than_one n what p =
     (if length (named_children n p) > 1
      then say (''Kista-xml WARNING: Found more than one '' @ what
             @ ''. Current Kista-xml version will only take one into account.'')
      else quiet)"

definition missing :: "string \<Rightarrow> string \<Rightarrow> xml_ptr \<Rightarrow> console" where
  "missing n what p = (if named_children n p = [] then ([[CHR 0x09, CHR 0x09] @ what @ '' is missing.''], Continues) else quiet)"

definition parsePlatform :: "xml_lib \<Rightarrow> xml_ptr \<Rightarrow> console" where
  "parsePlatform x p =
     run_all
       [treat_children
          [(''SW_platform'', \<lambda>c. then_run (say ''Kista-xml INFO: Found SW platform.'') (parseSWPlatform x c)),
           (''HW_platform'', \<lambda>c. then_run (say ''Kista-xml INFO: Found HW platform.'') (parseHWPlatform x c)),
           (''platform_mapping'',
              \<lambda>c. then_run (say ''Kista-xml INFO: Found SW to HW platform mapping.'') (parsePlatformMapping x c))] p,
        more_than_one ''SW_platform'' ''SW platform'' p, more_than_one ''HW_platform'' ''HW platform'' p,
        more_than_one ''platform_mapping'' ''platform mapping'' p,
        if named_children ''HW_platform'' p \<noteq> [] then quiet
        else run_all [say ''Kista-xml WARNING: Error parsing the platform.'', missing ''SW_platform'' ''SW platform'' p,
               missing ''HW_platform'' ''HW platform'' p, missing ''platform_mapping'' ''Platform mapping'' p]]"

subsection \<open>The program\<close>

text \<open>\<open>None\<close> is a document that cannot be parsed, and \<open>Some None\<close> one without a root.\<close>

definition parseXMLfile :: "xml_lib \<Rightarrow> xml_node option option \<Rightarrow> console" where
  "parseXMLfile x doc =
     (case doc of
        None \<Rightarrow> say ''KisTa ERROR: XML file parsing error. ''
      | Some None \<Rightarrow> say ''Kista ERROR: Root element not found, empty XML file''
      | Some (Some d) \<Rightarrow>
          (if node_name d \<noteq> ''system'' then ([''Kista ERROR: root element is not of -system- type''], Continues)
           else treat_children
             [(''application'', parseApplication x), (''application_mapping'', parseApplicationMapping x),
              (''platform'', parsePlatform x)] (d, [])))"

text \<open>The status of the program is 1 whenever the traversal returns, also after an error it printed.\<close>

definition check_main :: "xml_lib \<Rightarrow> string \<Rightarrow> string list \<Rightarrow> (string \<Rightarrow> xml_node option option) \<Rightarrow> string list \<times> ending" where
  "check_main x program argv parse_file =
     (case argv of
        [] \<Rightarrow> ([''Usage: '' @ program @ '' <XML file>'' @ eol], Exits 0)
      | f # _ \<Rightarrow> (case parseXMLfile x (parse_file f) of
                   (out, Continues) \<Rightarrow> (out, Exits 1) | (out, e) \<Rightarrow> (out, e)))"

subsection \<open>What the traversal accepts\<close>

definition well_static :: "xml_ptr \<Rightarrow> bool" where
  "well_static p = (named_children ''task'' p \<noteq> [] \<and> named_children ''cyclic'' p = [])"

definition well_policy :: "xml_ptr \<Rightarrow> bool" where
  "well_policy p = ((hasChild p ''static_scheduling'' \<or> hasChild p ''dynamic_scheduling'')
     \<and> (\<forall>c \<in> set (named_children ''static_scheduling'' p). well_static c))"

definition well_rtos :: "xml_ptr \<Rightarrow> bool" where
  "well_rtos p = (hasChild p ''scheduler_policy'' \<and> (\<forall>c \<in> set (named_children ''scheduler_policy'' p). well_policy c))"

definition has_props :: "xml_lib \<Rightarrow> string list \<Rightarrow> xml_ptr \<Rightarrow> bool" where
  "has_props x as p = (\<forall>a \<in> set as. xml_get_prop x p a \<noteq> None)"

definition well_platform :: "xml_lib \<Rightarrow> xml_ptr \<Rightarrow> bool" where
  "well_platform x p =
     ((\<forall>s \<in> set (named_children ''SW_platform'' p). \<forall>r \<in> set (named_children ''rtos'' s). well_rtos r)
      \<and> (\<forall>m \<in> set (named_children ''platform_mapping'' p). \<forall>c \<in> set (named_children ''map_rtos'' m).
            has_props x [''source'', ''target''] c))"

definition well_system :: "xml_lib \<Rightarrow> xml_ptr \<Rightarrow> bool" where
  "well_system x p =
     ((\<forall>m \<in> set (named_children ''application_mapping'' p). \<forall>c \<in> set (named_children ''map_task'' m).
            has_props x [''source_app'', ''source_task'', ''target''] c)
      \<and> (\<forall>c \<in> set (named_children ''platform'' p). well_platform x c))"

subsection \<open>Correctness\<close>

text \<open>A part of the traversal decides a condition: it goes on only when it holds, and exits only when it does not.\<close>

definition decides :: "console \<Rightarrow> bool \<Rightarrow> bool" where
  "decides r P = ((snd r = Continues \<longrightarrow> P) \<and> (\<forall>k. snd r = Exits k \<longrightarrow> k = - 1 \<and> \<not> P))"

lemma decides_cong: "decides r P \<Longrightarrow> P = Q \<Longrightarrow> decides r Q"
  by simp

lemma decides_basic:
  "decides quiet True" "decides (say s) True" "decides (say_with s t) True" "decides (ls, Continues) True"
  "decides (exit_with s) False" "decides cyclic_error False" "decides (ls, Undefined m) P"
  by (auto simp: decides_def quiet_def say_def say_with_def exit_with_def cyclic_error_def split: option.splits)

lemma decides_then: "decides r P \<Longrightarrow> decides s Q \<Longrightarrow> decides (then_run r s) (P \<and> Q)"
  by (auto simp: decides_def then_run_def split: if_splits)

lemma decides_if: "decides r P \<Longrightarrow> decides s Q \<Longrightarrow> decides (if b then r else s) (if b then P else Q)"
  by simp

lemma decides_all: "(\<And>c. c \<in> set cs \<Longrightarrow> decides (f c) (P c)) \<Longrightarrow> decides (run_all (map f cs)) (\<forall>c \<in> set cs. P c)"
proof (induction cs)
  case Nil
  show ?case using decides_basic(1) by simp
next
  case (Cons c cs)
  from decides_then [OF Cons.prems [of c] Cons.IH] Cons.prems show ?case by simp
qed

text \<open>A loop over the children decides the conditions of each kind of child.\<close>

lemma treat_children_decides:
  assumes "\<forall>t \<in> set ts. \<forall>c. decides (fst (snd t) c) (snd (snd t) c)"
  shows "decides (treat_children (map (\<lambda>(n, f, P). (n, f)) ts) p)
    (\<forall>(n, f, P) \<in> set ts. \<forall>c \<in> set (named_children n p). P c)"
proof -
  have "decides (treat (map (\<lambda>(n, f, P). (n, f)) ts) c) (\<forall>t \<in> set ts. case t of (n, f, P) \<Rightarrow> ptr_name c = n \<longrightarrow> P c)" for c
  proof -
    have "treat (map (\<lambda>(n, f, P). (n, f)) ts) c
        = run_all (map (\<lambda>t. case t of (n, f, P) \<Rightarrow> if ptr_name c = n then f c else quiet) ts)"
      by (simp add: treat_def comp_def split_def cong: if_cong)
    also have "decides \<dots> (\<forall>t \<in> set ts. case t of (n, f, P) \<Rightarrow> ptr_name c = n \<longrightarrow> P c)"
      using assms decides_basic(1) by (intro decides_all) fastforce
    finally show ?thesis .
  qed
  then have "decides (treat_children (map (\<lambda>(n, f, P). (n, f)) ts) p)
      (\<forall>c \<in> set (xml_children p). \<forall>t \<in> set ts. case t of (n, f, P) \<Rightarrow> ptr_name c = n \<longrightarrow> P c)"
    unfolding treat_children_def by (intro decides_all)
  then show ?thesis by (rule decides_cong) (auto simp: named_children_def)
qed

lemma treat_one:
  assumes "\<And>c. decides (f c) (P c)"
  shows "decides (treat_children [(n, f)] p) (\<forall>c \<in> set (named_children n p). P c)"
  using treat_children_decides [of "[(n, f, P)]"] assms by simp

lemma treat_two:
  assumes "\<And>c. decides (f c) (P c)" "\<And>c. decides (g c) (Q c)"
  shows "decides (treat_children [(n, f), (m, g)] p)
    ((\<forall>c \<in> set (named_children n p). P c) \<and> (\<forall>c \<in> set (named_children m p). Q c))"
  using treat_children_decides [of "[(n, f, P), (m, g, Q)]"] assms by simp

lemma treat_three:
  assumes "\<And>c. decides (f c) (P c)" "\<And>c. decides (g c) (Q c)" "\<And>c. decides (h c) (R c)"
  shows "decides (treat_children [(n, f), (m, g), (l, h)] p)
    ((\<forall>c \<in> set (named_children n p). P c) \<and> (\<forall>c \<in> set (named_children m p). Q c)
     \<and> (\<forall>c \<in> set (named_children l p). R c))"
  using treat_children_decides [of "[(n, f, P), (m, g, Q), (l, h, R)]"] assms by simp

lemma print_schedule_decides: "decides (print_schedule ns) True"
proof (induction ns)
  case (Cons n ns)
  then show ?case using decides_then [OF decides_basic(4) Cons] decides_basic(7)
    by (auto split: option.split)
qed (simp add: decides_basic)

lemma parse_parts_decide:
  "decides (parseTask x p) True" "decides (parseApplication x p) True"
  "decides (parse_map_task x p) (has_props x [''source_app'', ''source_task'', ''target''] p)"
  "decides (parse_map_rtos x p) (has_props x [''source'', ''target''] p)"
  "decides (parsePE x p) True" "decides (parseHWPlatform x p) True"
proof -
  have task: "decides (parseTask x p) True" for p by (simp add: parseTask_def decides_basic)
  then show "decides (parseTask x p) True" .
  show "decides (parseApplication x p) True" unfolding parseApplication_def
    by (rule decides_cong [OF decides_then [OF decides_basic(3) treat_one [OF task]]]) simp
  show "decides (parse_map_task x p) (has_props x [''source_app'', ''source_task'', ''target''] p)"
    "decides (parse_map_rtos x p) (has_props x [''source'', ''target''] p)"
    by (auto simp: parse_map_task_def parse_map_rtos_def has_props_def decides_basic split: option.split)
  have pe: "decides (parsePE x p) True" for p unfolding parsePE_def
    by (rule decides_cong [OF decides_then [OF decides_basic(3) decides_then [OF decides_basic(3)
        treat_one [OF decides_basic(3)]]]]) simp
  then show "decides (parsePE x p) True" .
  have found: "decides (then_run (say s) (parsePE x c)) (True \<and> True)" for s c
    by (rule decides_then [OF decides_basic(2) pe])
  show "decides (parseHWPlatform x p) True" unfolding parseHWPlatform_def
    by (rule decides_cong [OF decides_then [OF treat_one [OF found]
        decides_if [OF decides_basic(1) decides_then [OF decides_basic(2,4)]]]]) simp
qed

lemma parseSchedPolicy_decides: "decides (parseSchedPolicy x p) (well_policy p)"
proof -
  have dyn: "decides (parseDynamicSchedulingPolicy c) True" for c
    by (simp add: parseDynamicSchedulingPolicy_def decides_basic)
  have static: "decides (parseStaticSchedulingPolicy x c) (well_static c)" for c
    unfolding parseStaticSchedulingPolicy_def Let_def
    by (rule decides_cong [OF decides_then [OF treat_one [OF decides_basic(6)]
        decides_if [OF decides_then [OF decides_basic(2) decides_then [OF decides_basic(2,5)]]
          decides_then [OF decides_basic(4) print_schedule_decides]]]])
      (cases "named_children ''cyclic'' c"; auto simp: well_static_def)
  show ?thesis unfolding parseSchedPolicy_def
    by (rule decides_cong [OF decides_then [OF treat_two [OF static dyn]
        decides_if [OF decides_basic(2) decides_if [OF decides_then [OF decides_basic(2)
          decides_then [OF decides_basic(2,5)]] decides_basic(1)]]]])
      (auto simp: well_policy_def)
qed

lemma parseRTOS_decides: "decides (parseRTOS x p) (well_rtos p)"
proof -
  have last: "decides (case n of None \<Rightarrow> ([], Undefined m) | Some n \<Rightarrow> exit_with (s @ n)) False" for n m s
    by (simp add: decides_basic split: option.split)
  show ?thesis unfolding parseRTOS_def Let_def
    by (rule decides_cong [OF decides_then [OF decides_basic(3) decides_then [OF treat_one [OF parseSchedPolicy_decides]
        decides_if [OF decides_basic(1) last]]]])
      (auto simp: well_rtos_def)
qed

lemma parsePlatform_decides: "decides (parsePlatform x p) (well_platform x p)"
proof -
  have sw: "decides (parseSWPlatform x c) (\<forall>r \<in> set (named_children ''rtos'' c). well_rtos r)" for c
    unfolding parseSWPlatform_def
    by (rule decides_cong [OF decides_then [OF treat_one [OF decides_then [OF decides_basic(2) parseRTOS_decides]]
        decides_if [OF decides_basic(1) decides_then [OF decides_basic(2,4)]]]]) simp
  have mapping: "decides (parsePlatformMapping x c)
      (\<forall>r \<in> set (named_children ''map_rtos'' c). has_props x [''source'', ''target''] r)" for c
    unfolding parsePlatformMapping_def by (rule treat_one [OF parse_parts_decide(4)])
  have more: "decides (more_than_one n w p) True" "decides (missing n w p) True" for n w
    by (simp_all add: more_than_one_def missing_def decides_basic)
  have miss: "decides (run_all [say a, missing b c p, missing d e p, missing f g p]) True" for a b c d e f g
    using more decides_basic(1,2) by (auto simp: intro!: decides_cong [OF decides_then])
  note children = treat_three [OF decides_then [OF decides_basic(2) sw]
      decides_then [OF decides_basic(2) parse_parts_decide(6)] decides_then [OF decides_basic(2) mapping]]
  show ?thesis unfolding parsePlatform_def run_all.simps
    by (rule decides_cong [OF decides_then [OF children decides_then [OF more(1) decides_then [OF more(1)
        decides_then [OF more(1) decides_then [OF decides_if [OF decides_basic(1) miss [simplified]] decides_basic(1)]]]]]])
      (auto simp: well_platform_def)
qed


definition check_example :: "string \<Rightarrow> xml_node" where
  "check_example policy = Xml_Node ''system'' [] [Xml_Node ''platform'' [] [Xml_Node ''SW_platform'' []
     [Xml_Node ''rtos'' [(''name'', ''r'')] [Xml_Node ''scheduler_policy'' [] [Xml_Node policy [] []]]]]]"

definition is_named :: "ending \<Rightarrow> bool" where
  "is_named e = (case e of Undefined _ \<Rightarrow> False | _ \<Rightarrow> True)"


text \<open>A description without software platform and mapping passes silently, as long as it has a hardware platform.\<close>

lemma missing_software_unreported:
  "named_children ''HW_platform'' p \<noteq> [] \<Longrightarrow> named_children ''SW_platform'' p = [] \<Longrightarrow>
     named_children ''platform_mapping'' p = [] \<Longrightarrow>
     parsePlatform x p = then_run
       (treat_children
          [(''SW_platform'', \<lambda>c. then_run (say ''Kista-xml INFO: Found SW platform.'') (parseSWPlatform x c)),
           (''HW_platform'', \<lambda>c. then_run (say ''Kista-xml INFO: Found HW platform.'') (parseHWPlatform x c)),
           (''platform_mapping'',
              \<lambda>c. then_run (say ''Kista-xml INFO: Found SW to HW platform mapping.'') (parsePlatformMapping x c))] p)
       (more_than_one ''HW_platform'' ''HW platform'' p)"
  by (simp add: parsePlatform_def more_than_one_def then_run_def quiet_def say_def)

end
