(* ===== verification/Sketch.thy ===== *)
theory Sketch
  imports Text_Out Doubles Task_Info "HOL-Library.Char_ord" "HOL-Library.List_Lexorder"
begin

text \<open>
  \<open>draw.cpp\<close>, the sketch of the structure of a model as a TeX file. The picture is a list of items, the text
  of which \<open>item_text\<close> gives; the references between items are then visible. In the fixed texts a bar stands
  for a backslash and a tilde for an apostrophe.

  \<open>sketch_view\<close> is what the drawing reads of the global tables: the names of the tasks in their order, the
  schedulers with their tasks and processing elements, the resources and what they are connected to, the
  channels and the applications. The date, the time of compilation and the text of a \<open>float\<close> are parameters.
\<close>

definition tex :: "string \<Rightarrow> string" where
  "tex s = map (\<lambda>c. if c = CHR ''|'' then CHR 0x5C else if c = CHR ''~'' then CHR 0x27 else c) s"

definition tex_line :: "string \<Rightarrow> string" where
  "tex_line s = tex s @ eol"

definition tex_lines :: "string list \<Rightarrow> string" where
  "tex_lines ss = concat (map tex_line ss)"

subsection \<open>Configuration\<close>

record sketch =
  sketch_file_name :: string
  sketch_content :: "string option"
  sketch_enabled :: bool
  with_sys_level_conn_names :: bool
  environment_box :: bool
  system_box :: bool
  application_box :: bool
  platform_box :: bool
  sketch_only_image :: bool
  sketch_scale :: double

text \<open>The content of the file is \<open>None\<close> until it is opened.\<close>

definition new_sketch :: sketch where
  "new_sketch =
     \<lparr>sketch_file_name = ''system_sketch.tex'', sketch_content = None, sketch_enabled = False,
      with_sys_level_conn_names = False, environment_box = False, system_box = False, application_box = False,
      platform_box = False, sketch_only_image = False, sketch_scale = Fin 1\<rparr>"

definition set_file_name :: "string \<Rightarrow> sketch \<Rightarrow> sketch" where
  "set_file_name n k = k\<lparr>sketch_file_name := n @ ''.tex''\<rparr>"

definition sketch_enable :: "sketch \<Rightarrow> sketch" where
  "sketch_enable k = k\<lparr>sketch_content := Some '''', sketch_enabled := True\<rparr>"

definition sketch_only :: "sim_env \<Rightarrow> sketch \<Rightarrow> sketch result" where
  "sketch_only e k = rmap (\<lambda>_. k\<lparr>sketch_only_image := True\<rparr>) (check_call_before_sim_start e ''only_image'')"

definition sketch_set_scale :: "sim_env \<Rightarrow> double \<Rightarrow> sketch \<Rightarrow> sketch result" where
  "sketch_set_scale e x k = rmap (\<lambda>_. k\<lparr>sketch_scale := x\<rparr>) (check_call_before_sim_start e ''set_scale'')"

definition draw_sys_level_conn :: "sim_env \<Rightarrow> sketch \<Rightarrow> sketch result" where
  "draw_sys_level_conn e k =
     rmap (\<lambda>_. k\<lparr>with_sys_level_conn_names := True\<rparr>) (check_call_before_sim_start e ''draw_sys_level_conn'')"

definition highlight_environment :: "sim_env \<Rightarrow> sketch \<Rightarrow> sketch result" where
  "highlight_environment e k =
     rmap (\<lambda>_. k\<lparr>environment_box := True\<rparr>) (check_call_before_sim_start e ''hilight_environment'')"

definition highlight_system :: "sim_env \<Rightarrow> sketch \<Rightarrow> sketch result" where
  "highlight_system e k = rmap (\<lambda>_. k\<lparr>system_box := True\<rparr>) (check_call_before_sim_start e ''hilight_system'')"

definition highlight_application :: "sim_env \<Rightarrow> sketch \<Rightarrow> sketch result" where
  "highlight_application e k =
     rmap (\<lambda>_. k\<lparr>application_box := True\<rparr>) (check_call_before_sim_start e ''hilight_application'')"

definition highlight_platform :: "sim_env \<Rightarrow> sketch \<Rightarrow> sketch result" where
  "highlight_platform e k =
     rmap (\<lambda>_. k\<lparr>platform_box := True\<rparr>) (check_call_before_sim_start e ''hilight_platform'')"

text \<open>Content is written through a pointer that is set when the sketch is enabled.\<close>

definition add_content :: "string \<Rightarrow> sketch \<Rightarrow> sketch result" where
  "add_content s k =
     (case sketch_content k of
        None \<Rightarrow> undef ''indeterminate stream''
      | Some t \<Rightarrow> Inr (k\<lparr>sketch_content := Some (t @ s)\<rparr>))"

subsection \<open>What is drawn\<close>

record sketch_conn =
  conn_src :: "string option"
  conn_dest :: "string option"
  conn_name :: string
  conn_type :: string

record sketch_view =
  sv_env :: "string list"
  sv_sys :: "string list"
  sv_tasks :: "string list"
  sv_scheds :: "(string \<times> string list option \<times> string option) list"
  sv_pes :: "(string \<times> string option) list"
  sv_phy :: "string list"
  sv_tdma :: "string list"
  sv_mems :: "(string \<times> string option) list"
  sv_conns :: "sketch_conn list"
  sv_apps :: "(string \<times> string list) list"
  sv_visibility :: app_visibility_t

text \<open>The elements register themselves before the end of elaboration; the tables have the tasks of all roles.\<close>

definition draw_task :: "string \<Rightarrow> sketch_view \<Rightarrow> sketch_view" where
  "draw_task n v = v\<lparr>sv_tasks := sv_tasks v @ [n]\<rparr>"

definition draw_scheduler :: "string \<times> string list option \<times> string option \<Rightarrow> sketch_view \<Rightarrow> sketch_view" where
  "draw_scheduler s v = v\<lparr>sv_scheds := sv_scheds v @ [s]\<rparr>"

definition draw_processing_element :: "string \<times> string option \<Rightarrow> sketch_view \<Rightarrow> sketch_view" where
  "draw_processing_element p v = v\<lparr>sv_pes := sv_pes v @ [p]\<rparr>"

definition draw_memory :: "string \<times> string option \<Rightarrow> sketch_view \<Rightarrow> sketch_view" where
  "draw_memory m v = v\<lparr>sv_mems := sv_mems v @ [m]\<rparr>"

definition draw_phy_comm_res :: "string \<Rightarrow> sketch_view \<Rightarrow> sketch_view" where
  "draw_phy_comm_res n v = v\<lparr>sv_phy := sv_phy v @ [n]\<rparr>"

definition draw_tdma_bus :: "string \<Rightarrow> sketch_view \<Rightarrow> sketch_view" where
  "draw_tdma_bus n v = v\<lparr>sv_tdma := sv_tdma v @ [n]\<rparr>"

text \<open>A channel is put in the table of connections by the comparison of links, \<open>put\<close>.\<close>

definition draw_link :: "(sketch_conn \<Rightarrow> sketch_conn list \<Rightarrow> sketch_conn list) \<Rightarrow> sketch_conn \<Rightarrow> sketch_view \<Rightarrow> sketch_view" where
  "draw_link put l v = v\<lparr>sv_conns := put l (sv_conns v)\<rparr>"

text \<open>The items, and their texts.\<close>

datatype place = Anywhere | Below string | Right_Of string

datatype sketch_item =
  Node_Item (item_id: string) string place string
| Link_Item string string "string option" u32 u32 string
| Arrow_Item string string string
| Box_Item string "string list" string string
| Caption_Item string string
| Scope_Open
| Scope_Close
| Blank_Line

definition place_text :: "place \<Rightarrow> string" where
  "place_text p = (case p of Anywhere \<Rightarrow> '''' | Below n \<Rightarrow> '', below=of '' @ n | Right_Of n \<Rightarrow> '', right=of '' @ n)"

fun item_text :: "sketch_item \<Rightarrow> string" where
  "item_text (Node_Item n style p label) =
     tex ''|node ('' @ n @ '') ['' @ style @ place_text p @ ''] {$'' @ label @ ''$};'' @ eol"
| "item_text (Link_Item s style name out_angle in_angle d) =
     tex ''|draw ('' @ s @ '') ['' @ style
     @ (case name of
          None \<Rightarrow> ''''
        | Some n \<Rightarrow> '', postaction={decorate,decoration={text along path,text align=center,text={$'' @ n @ tex ''{|;}$}}}'')
     @ ''] to[out='' @ number_text out_angle @ '',in='' @ number_text in_angle @ ''] ('' @ d @ '');'' @ eol"
| "item_text (Arrow_Item a style b) =
     tex ''|draw ('' @ a @ ''.south) ['' @ style @ ''] -- ('' @ b @ ''.north);'' @ eol"
| "item_text (Box_Item style ns label b) =
     tex ''|node['' @ style @ '',fit = '' @ concat (map (\<lambda>n. ''('' @ n @ '')'') ns) @ label @ ''] ('' @ b @ '') {};'' @ eol"
| "item_text (Caption_Item b t) = tex ''|node [right=of '' @ b @ ''] {$'' @ t @ ''$};'' @ eol"
| "item_text Scope_Open = tex_line ''|begin{scope}[on background layer]''"
| "item_text Scope_Close = tex_line ''|end{scope}''"
| "item_text Blank_Line = eol"

subsection \<open>Elements\<close>

text \<open>Dots of a name are replaced one by one, from the first; a slash is never one.\<close>

definition slashed :: "string \<Rightarrow> string" where
  "slashed n = map (\<lambda>c. if c = CHR ''.'' then CHR ''/'' else c) n"

text \<open>
  The elements of a row are placed right of the one before; \<open>ref\<close> is how a row writes the reference: some
  rows forget to replace the dots.
\<close>

definition row_right :: "string \<Rightarrow> (string \<Rightarrow> string) \<Rightarrow> (string \<Rightarrow> string) \<Rightarrow> string list \<Rightarrow> sketch_item list" where
  "row_right style ref label ns =
     map (\<lambda>(p, n). Node_Item (slashed n) style (Right_Of (ref p)) (label n)) (zip ns (tl ns))"

definition draw_env_tasks :: "sketch_view \<Rightarrow> sketch_item list" where
  "draw_env_tasks v =
     (case sv_env v of
        [] \<Rightarrow> []
      | n # _ \<Rightarrow> Node_Item (slashed n) ''task_style'' Anywhere (slashed n)
                # row_right ''task_style'' slashed slashed (sv_env v))"

definition draw_sys_tasks :: "sketch_view \<Rightarrow> sketch_item list result" where
  "draw_sys_tasks v =
     (case sv_sys v of
        [] \<Rightarrow> report ''While generating sketch. There are no system tasks.''
      | n # _ \<Rightarrow>
          Inr (Node_Item (slashed n) ''task_style'' (case sv_env v of [] \<Rightarrow> Anywhere | e # _ \<Rightarrow> Below e) (slashed n)
               # row_right ''task_style'' slashed slashed (sv_sys v)))"

text \<open>The references to the rows above.\<close>

definition task_ref :: "sketch_view \<Rightarrow> string" where
  "task_ref v = slashed (hd (sv_sys v))"

definition sched_ref :: "sketch_view \<Rightarrow> string" where
  "sched_ref v = fst (hd (sv_scheds v))"

definition pe_ref :: "sketch_view \<Rightarrow> string" where
  "pe_ref v = slashed (fst (hd (sv_pes v)))"

definition commres_ref :: "sketch_view \<Rightarrow> string" where
  "commres_ref v = slashed (if sv_tdma v \<noteq> [] then hd (sv_tdma v) else hd (sv_phy v))"

definition draw_scheds :: "sketch_view \<Rightarrow> sketch_item list" where
  "draw_scheds v =
     (case map fst (sv_scheds v) of
        [] \<Rightarrow> []
      | n # ns \<Rightarrow>
          Node_Item (slashed n) ''sched_style'' (if sv_tasks v \<noteq> [] then Below (task_ref v) else Anywhere) n
          # row_right ''sched_style'' slashed id (n # ns))"

definition draw_pes :: "sketch_view \<Rightarrow> sketch_item list" where
  "draw_pes v =
     (case map fst (sv_pes v) of
        [] \<Rightarrow> []
      | n # ns \<Rightarrow>
          (if sv_scheds v \<noteq> [] then Node_Item (slashed n) ''pe_style'' (Below (sched_ref v)) n
           else if sv_tasks v \<noteq> [] then Node_Item (slashed n) ''pe_style'' (Below (task_ref v)) ('' '' @ n)
           else Node_Item (slashed n) ''pe_style'' Anywhere n)
          # row_right ''pe_style'' id id (n # ns))"

definition first_resource :: "string \<Rightarrow> sketch_view \<Rightarrow> string \<Rightarrow> sketch_item" where
  "first_resource style v n =
     (if sv_pes v \<noteq> [] then Node_Item (slashed n) style (Below (pe_ref v)) n
      else if sv_scheds v \<noteq> [] then Node_Item (slashed n) style (Below (sched_ref v)) n
      else if sv_tasks v \<noteq> [] then Node_Item (slashed n) style (Below (task_ref v)) ('' '' @ n)
      else Node_Item (slashed n) style Anywhere n)"

definition draw_phys :: "sketch_view \<Rightarrow> sketch_item list" where
  "draw_phys v =
     (case sv_phy v of
        [] \<Rightarrow> []
      | n # ns \<Rightarrow> first_resource ''phy_commres_style'' v n # row_right ''phy_commres_style'' slashed id (n # ns))"

text \<open>The loop over the other buses counts the generic resources.\<close>

fun tdma_row :: "string list \<Rightarrow> nat list \<Rightarrow> sketch_item list result" where
  "tdma_row bs [] = Inr []"
| "tdma_row bs (i # is) =
     (if i < length bs
      then rmap (\<lambda>r. Node_Item (slashed (bs ! i)) ''commres_style'' (Right_Of (slashed (bs ! (i - 1)))) (bs ! i) # r)
             (tdma_row bs is)
      else undef ''index out of range'')"

definition draw_tdmas :: "sketch_view \<Rightarrow> sketch_item list result" where
  "draw_tdmas v =
     (case sv_tdma v of
        [] \<Rightarrow> Inr []
      | n # _ \<Rightarrow> rmap (\<lambda>r. first_resource ''tdma_bus_style'' v n # r) (tdma_row (sv_tdma v) [1..<length (sv_phy v)]))"

definition draw_mems :: "sketch_view \<Rightarrow> sketch_item list" where
  "draw_mems v =
     (case map fst (sv_mems v) of
        [] \<Rightarrow> []
      | n # ns \<Rightarrow>
          Node_Item (slashed n) ''mem_style''
            (if sv_phy v \<noteq> [] \<or> sv_tdma v \<noteq> [] then Below (commres_ref v) else Anywhere) n
          # row_right ''mem_style'' id id (n # ns))"

subsection \<open>Connections of tasks\<close>

text \<open>
  The vectors of counts have an entry for each task. A position is looked up by the identifier of the task in
  a map of names, which gives zero for one it does not have.
\<close>

record link_counts =
  outs :: "u32 list"
  inps :: "u32 list"
  env_outs :: "u32 list"
  env_inps :: "u32 list"

definition initial_counts :: "sketch_view \<Rightarrow> link_counts" where
  "initial_counts v =
     \<lparr>outs = replicate (length (sv_sys v)) 0, inps = replicate (length (sv_sys v)) 0,
      env_outs = replicate (length (sv_env v)) 0, env_inps = replicate (length (sv_env v)) 0\<rparr>"

definition position :: "string list \<Rightarrow> string \<Rightarrow> nat" where
  "position ns n = (if n \<in> set ns then length (takeWhile (\<lambda>m. m \<noteq> n) ns) else 0)"

definition count_at :: "u32 list \<Rightarrow> nat \<Rightarrow> u32 result" where
  "count_at xs i = (if i < length xs then Inr (xs ! i) else undef ''index out of range'')"

definition count_up :: "u32 list \<Rightarrow> nat \<Rightarrow> u32 list result" where
  "count_up xs i = rmap (\<lambda>x. xs[i := x + 1]) (count_at xs i)"

text \<open>Two angles from two counts, with a separation of five degrees.\<close>

definition angles_by :: "(u32 \<Rightarrow> u32) \<Rightarrow> (u32 \<Rightarrow> u32) \<Rightarrow> u32 list \<Rightarrow> nat \<Rightarrow> u32 list \<Rightarrow> nat \<Rightarrow> (u32 \<times> u32) result" where
  "angles_by f g xs i ys j = rbind (count_at xs i) (\<lambda>a. rmap (\<lambda>b. (f (a * 5), g (b * 5))) (count_at ys j))"

definition calculate_angles ::
    "string list \<Rightarrow> string list \<Rightarrow> string \<Rightarrow> string \<Rightarrow> link_counts \<Rightarrow> ((u32 \<times> u32) \<times> link_counts) result" where
  "calculate_angles sys env s d k =
     (if s \<in> set sys \<and> d \<in> set sys then
        (let p = position sys s; q = position sys d in
         rbind (if p < q then angles_by (\<lambda>a. 30 + a) (\<lambda>b. 150 - b) (outs k) p (inps k) q
                else if p > q then angles_by (\<lambda>a. 210 + a) (\<lambda>b. 330 - b) (outs k) p (inps k) q
                else Inr (95, 85)) (\<lambda>ab.
         rbind (count_up (outs k) p) (\<lambda>os.
         rmap (\<lambda>is. (ab, k\<lparr>outs := os, inps := is\<rparr>)) (count_up (inps k) q))))
      else if s \<in> set sys \<and> d \<in> set env then
        (let p = position sys s; q = position env d in
         rbind (angles_by (\<lambda>a. 80 - a) (\<lambda>b. 280 + b) (env_inps k) p (outs k) q) (\<lambda>ab.
         rbind (count_up (outs k) p) (\<lambda>os.
         rmap (\<lambda>is. (ab, k\<lparr>outs := os, env_inps := is\<rparr>)) (count_up (env_inps k) q))))
      else if s \<in> set env \<and> d \<in> set sys then
        (let p = position env s; q = position sys d in
         rbind (angles_by (\<lambda>a. 240 + a) (\<lambda>b. 120 - b) (env_outs k) p (inps k) q) (\<lambda>ab.
         rbind (count_up (env_outs k) p) (\<lambda>os.
         rmap (\<lambda>is. (ab, k\<lparr>env_outs := os, inps := is\<rparr>)) (count_up (inps k) q))))
      else
        (let p = position env s; q = position env d in
         rbind (if p < q then angles_by (\<lambda>a. 30 + a) (\<lambda>b. 150 - b) (outs k) p (inps k) q
                else if p > q then angles_by (\<lambda>a. 210 - a) (\<lambda>b. 330 + b) (outs k) p (inps k) q
                else Inr (95, 85)) (\<lambda>ab.
         rbind (count_up (env_outs k) p) (\<lambda>os.
         rmap (\<lambda>is. (ab, k\<lparr>env_outs := os, env_inps := is\<rparr>)) (count_up (env_inps k) q)))))"

definition draw_connection :: "sketch \<Rightarrow> sketch_view \<Rightarrow> sketch_conn \<Rightarrow> link_counts \<Rightarrow> (sketch_item \<times> link_counts) result" where
  "draw_connection c v l k =
     (case (conn_src l, conn_dest l) of
        (Some s, Some d) \<Rightarrow>
          rmap (\<lambda>((a, b), k1).
              (Link_Item (slashed s) (if conn_type l = ''fifo_buffer'' then ''fifo_buffer_style'' else ''logic_link_style'')
                 (if with_sys_level_conn_names c then Some (conn_name l) else None) a b (slashed d), k1))
            (calculate_angles (sv_sys v) (sv_env v) (slashed s) (slashed d) k)
      | _ \<Rightarrow> undef ''null address'')"

fun draw_connections :: "sketch \<Rightarrow> sketch_view \<Rightarrow> sketch_conn list \<Rightarrow> link_counts \<Rightarrow> (sketch_item list \<times> link_counts) result" where
  "draw_connections c v [] k = Inr ([], k)"
| "draw_connections c v (l # ls) k =
     rbind (draw_connection c v l k) (\<lambda>(x, k1). rmap (\<lambda>(xs, k2). (x # xs, k2)) (draw_connections c v ls k1))"

text \<open>The variant with random angles, which nothing calls; \<open>rand\<close> is the sequence of its numbers.\<close>

fun draw_system_level_connections_random :: "sketch_conn list \<Rightarrow> nat list \<Rightarrow> sketch_item list result" where
  "draw_system_level_connections_random (l # ls) (a # b # rand) =
     (case (conn_src l, conn_dest l) of
        (Some s, Some d) \<Rightarrow>
          rmap (\<lambda>xs. Link_Item (slashed s) (if conn_type l = ''fifo_buffer'' then ''fifo_buffer_style'' else ''logic_link_style'')
                 None (of_nat (a mod 360)) (of_nat (b mod 360)) (slashed d) # xs)
            (draw_system_level_connections_random ls rand)
      | _ \<Rightarrow> undef ''null address'')"
| "draw_system_level_connections_random _ _ = Inr []"

subsection \<open>Mappings and connections of the platform\<close>

fun task_mappings :: "(string \<times> string list option \<times> string option) list \<Rightarrow> sketch_item list result" where
  "task_mappings [] = Inr []"
| "task_mappings ((n, ts, _) # ss) =
     (case ts of
        None \<Rightarrow> undef ''task set pointer''
      | Some ns \<Rightarrow> rmap ((@) (map (\<lambda>t. Arrow_Item (slashed t) ''task_map_arrow'' (slashed n)) ns)) (task_mappings ss))"

fun sched_mappings :: "(string \<times> string list option \<times> string option) list \<Rightarrow> sketch_item list result" where
  "sched_mappings [] = Inr []"
| "sched_mappings ((n, _, pe) # ss) =
     (case pe of
        None \<Rightarrow> undef ''null processing element''
      | Some p \<Rightarrow> rmap ((#) (Arrow_Item (slashed n) ''sched_map_arrow'' (slashed p))) (sched_mappings ss))"

fun platform_connections :: "(string \<times> string option) list \<Rightarrow> sketch_item list result" where
  "platform_connections [] = Inr []"
| "platform_connections ((n, r) # es) =
     (case r of
        None \<Rightarrow> undef ''null communication resource''
      | Some c \<Rightarrow> rmap ((#) (Arrow_Item (slashed n) ''platform_conn_style'' (slashed c))) (platform_connections es))"

subsection \<open>Boxes\<close>

text \<open>The boxes wrap elements by their names, with the dots.\<close>

definition platform_names :: "sketch_view \<Rightarrow> string list" where
  "platform_names v = map fst (sv_scheds v) @ map fst (sv_pes v) @ sv_phy v @ sv_tdma v @ map fst (sv_mems v)"

definition box :: "string \<Rightarrow> string list \<Rightarrow> string \<Rightarrow> string \<Rightarrow> sketch_item list" where
  "box style ns b t = [Scope_Open, Box_Item style ns '''' b, Scope_Close, Caption_Item b t]"

text \<open>
  Explicit applications have a box each; the caption is placed by the last application that has the last
  task, an empty name when none has.
\<close>

definition last_application :: "sketch_view \<Rightarrow> string" where
  "last_application v =
     (case filter (\<lambda>a. slashed (last (sv_sys v)) \<in> set (snd a)) (sv_apps v) of [] \<Rightarrow> '''' | as \<Rightarrow> fst (last as))"

definition application_boxes :: "sketch_view \<Rightarrow> sketch_item list" where
  "application_boxes v =
     (case sv_visibility v of
        UNSET_APP_VISIBILITY \<Rightarrow> []
      | SET_IMPLICIT_APPS \<Rightarrow> box ''app_box_st'' (sv_sys v) ''app_box'' ''Application''
      | SET_EXPLICIT_APPS \<Rightarrow>
          [Scope_Open] @ map (\<lambda>(a, ts). Box_Item ''app_box_st'' ts (tex '',label=|color{red}'' @ a) (a @ ''_app_box'')) (sv_apps v)
          @ [Scope_Close, Caption_Item (last_application v @ ''_app_box'') ''Applications''])"

definition draw_boxes :: "sketch \<Rightarrow> sketch_view \<Rightarrow> sketch_item list" where
  "draw_boxes c v =
     (if environment_box c then box ''env_box_st'' (sv_env v) ''env_box'' ''Environment'' else [])
     @ (if system_box c then box ''sys_box_st'' (sv_sys v @ platform_names v) ''sys_box'' ''System''
        else (if application_box c then application_boxes v else [])
          @ (if platform_box c then box ''plat_box_st'' (platform_names v) ''plat_box'' ''Platform'' else []))"

subsection \<open>The picture and the file\<close>

definition draw_elements :: "sketch_view \<Rightarrow> sketch_item list result" where
  "draw_elements v =
     rbind (draw_sys_tasks v) (\<lambda>sys.
     rmap (\<lambda>bs. draw_env_tasks v @ sys @ draw_scheds v @ [Blank_Line] @ draw_pes v @ [Blank_Line] @ draw_phys v @ bs
            @ draw_mems v @ [Blank_Line]) (draw_tdmas v))"

definition draw_relations :: "sketch \<Rightarrow> sketch_view \<Rightarrow> link_counts \<Rightarrow> (sketch_item list \<times> link_counts) result" where
  "draw_relations c v k =
     rbind (draw_connections c v (sv_conns v) k) (\<lambda>(ls, k1).
     rbind (task_mappings (sv_scheds v)) (\<lambda>ms.
     rbind (sched_mappings (sv_scheds v)) (\<lambda>ss.
     rmap (\<lambda>ps. (ls @ ms @ [Blank_Line] @ ss @ [Blank_Line] @ ps, k1))
       (if sv_phy v \<noteq> [] \<or> sv_tdma v \<noteq> [] then platform_connections (sv_pes v @ sv_mems v) else Inr []))))"

definition actual_draw :: "sketch \<Rightarrow> sketch_view \<Rightarrow> link_counts \<Rightarrow> (sketch_item list \<times> link_counts) result" where
  "actual_draw c v k =
     rbind (draw_elements v) (\<lambda>es.
     rmap (\<lambda>(rs, k1). (es @ rs @ draw_boxes c v, k1)) (draw_relations c v k))"

record sketch_texts =
  sx_float :: "double \<Rightarrow> string"
  sx_compilation :: string
  sx_now :: string

definition tikz_macro :: string where
  "tikz_macro = tex_lines
     [''|makeatletter'',
      ''|tikzset{'',
      ''  through point/.style={'',
      ''    to path={%'',
      ''      |pgfextra{%'',
      ''        |tikz@scan@one@point|pgfutil@firstofone(|tikztostart)|relax'',
      ''        |pgfmathsetmacro{|pt@sx}{|pgf@x * 0.03514598035}%'',
      ''        |pgfmathsetmacro{|pt@sy}{|pgf@y * 0.03514598035}%'',
      ''        |tikz@scan@one@point|pgfutil@firstofone#1|relax'',
      ''        |pgfmathsetmacro{|pt@ax}{|pgf@x * 0.03514598035 - |pt@sx}%'',
      ''        |pgfmathsetmacro{|pt@ay}{|pgf@y * 0.03514598035 - |pt@sy}%'',
      ''        |tikz@scan@one@point|pgfutil@firstofone(|tikztotarget)|relax'',
      ''        |pgfmathsetmacro{|pt@ex}{|pgf@x * 0.03514598035 - |pt@sx}%'',
      ''        |pgfmathsetmacro{|pt@ey}{|pgf@y * 0.03514598035 - |pt@sy}%'',
      ''        |pgfmathsetmacro{|pt@len}{|pt@ex * |pt@ex + |pt@ey * |pt@ey}%'',
      ''        |pgfmathsetmacro{|pt@t}{(|pt@ax * |pt@ex + |pt@ay *           |pt@ey)/|pt@len}%'',
      ''        |pgfmathsetmacro{|pt@t}{(|pt@t > .5 ? 1 - |pt@t : |pt@t)}%'',
      ''        |pgfmathsetmacro{|pt@h}{(|pt@ax * |pt@ey - |pt@ay *           |pt@ex)/|pt@len}%'',
      ''        |pgfmathsetmacro{|pt@y}{|pt@h/(3 * |pt@t * (1 - |pt@t))}%'',
      ''      }'',
      ''      (|tikztostart) .. controls +(|pt@t * |pt@ex + |pt@y * |pt@ey, |pt@t * |pt@ey - |pt@y * |pt@ex) and +(-|pt@t * |pt@ex + |pt@y * |pt@ey, -|pt@t * |pt@ey - |pt@y * |pt@ex) .. (|tikztotarget)'',
      ''    }'',
      ''  }'',
      ''}'',
      ''|makeatother'']"

definition style_lines :: "string list" where
  "style_lines =
     [''|tikzstyle{task_style}=[circle, thick, draw=orange!80, fill=orange!25]'',
      ''|tikzstyle{logic_link_style} = [->, >=latex~, shorten >=1pt]'',
      ''|tikzstyle{fifo_buffer_style} = [->, >=latex~, shorten >=1pt, thick]'',
      ''|tikzstyle{task_map_arrow} = [dashed, ->, draw=orange!80, fill=orange!80, >=latex~, shorten >=1pt, thick]'',
      ''|tikzstyle{sched_style} = [rectangle, draw=red!80, fill=red!20, rounded corners, thick]'',
      ''|tikzstyle{sched_map_arrow} = [dashed, ->, draw=red!80, fill=red!80, >=latex~, shorten >=1pt, thick]'',
      ''|tikzstyle{pe_style} = [rectangle, draw=blue!50, fill=blue!20, thick]'',
      ''|tikzstyle{phy_commres_style} = [cloud, draw=blue!50, fill=blue!10, thick]'',
      ''|tikzstyle{tdma_bus_style} = [rectangle, draw=blue!50, fill=blue!10, thick]'',
      ''|tikzstyle{platform_conn_style} = [blue!50, >=latex~, shorten >=1pt]'',
      ''|tikzstyle{mem_style} = [rectangle, draw=blue!50,  fill=blue!5, thick]'']"

definition box_style_lines :: "sketch \<Rightarrow> string list" where
  "box_style_lines k =
     (if environment_box k then [''|tikzstyle{env_box_st} = [draw=green, fill=green!10, very thick, rectangle, rounded corners, inner sep=10pt, inner ysep=10pt]''] else [])
     @ (if system_box k then [''|tikzstyle{sys_box_st} = [draw=black, fill=black!10, very thick, rectangle, rounded corners, inner sep=10pt, inner ysep=10pt]'']
        else (if application_box k then [''|tikzstyle{app_box_st} = [draw=red, fill=red!10, very thick, rectangle, rounded corners, inner sep=10pt, inner ysep=10pt]''] else [])
          @ (if platform_box k then [''|tikzstyle{plat_box_st} = [draw=blue, fill=blue!10, very thick, rectangle, rounded corners, inner sep=10pt, inner ysep=10pt]''] else []))"

definition sketch_remarks :: "sketch_texts \<Rightarrow> sketch \<Rightarrow> string" where
  "sketch_remarks tx k =
     ''File created by KisTA library'' @ eol @ eol @ ''Author: F.Herrera'' @ eol @ eol
     @ ''Institution: KTH (2012-2014, Jul), Univ. of Cantabria (from 2014, Sept.)'' @ eol @ eol
     @ ''Rights reserved by the authors in the terms defined by the KisTA license.'' @ eol @ eol
     @ ''KisTA library compilation date: '' @ sx_compilation tx @ ''.'' @ eol @ eol @ eol @ eol
     @ ''Sketch Creation: '' @ sx_now tx @ eol @ eol @ ''Sketch options enabled:'' @ eol
     @ (if with_sys_level_conn_names k then ''draw system level connections, '' else '''')
     @ (if environment_box k then ''draw environment box, '' else '''')
     @ (if system_box k then ''draw system box, '' else '''')
     @ (if application_box k then ''draw application box(es), '' else '''')
     @ (if platform_box k then ''draw platform box, '' else '''')
     @ ''scale = '' @ sx_float tx (sketch_scale k) @ eol @ tex_line ''|hfill'' @ eol"

definition write_header :: "sketch_texts \<Rightarrow> sketch \<Rightarrow> string" where
  "write_header tx k =
     tex_line (if sketch_only_image k then ''|documentclass[]{article}'' else ''|documentclass[a4paper,10pt]{article}'')
     @ tex_lines [''|usepackage{tikz}'', ''|usepackage{verbatim}'', ''|usepackage[margin=15mm]{geometry}'',
         ''|usetikzlibrary{shapes,arrows,fit,calc,positioning}'']
     @ (if with_sys_level_conn_names k
        then tex_lines [''|usetikzlibrary{decorations.text}'', ''|usetikzlibrary{decorations.pathmorphing}''] else '''')
     @ (if environment_box k \<or> system_box k \<or> application_box k \<or> platform_box k
        then tex_line ''|usetikzlibrary{backgrounds}'' else '''')
     @ tikz_macro @ tex_line ''|begin{document}''
     @ (if sketch_only_image k then '''' else sketch_remarks tx k)
     @ eol @ tex_lines (style_lines @ box_style_lines k)
     @ ''% Use the scale factor for changing the size of the figure and better export to png'' @ eol
     @ ''% You can set if from KisTA with set_scale method, or by editing this .tex file'' @ eol
     @ tex ''|begin{tikzpicture}[scale='' @ sx_float tx (sketch_scale k) @ '', transform shape]'' @ eol"

definition write_tail :: string where
  "write_tail = '' '' @ eol @ tex_lines [''|end{tikzpicture}'', ''|end{document}''] @ eol"

definition sketch_end_of_elaboration :: "sketch_texts \<Rightarrow> sketch_view \<Rightarrow> sketch \<Rightarrow> sketch result" where
  "sketch_end_of_elaboration tx v k =
     (if sketch_enabled k then
        rbind (add_content (write_header tx k) k) (\<lambda>k1.
        rbind (actual_draw k1 v (initial_counts v)) (\<lambda>(xs, _).
        rbind (add_content (concat (map item_text xs)) k1) (add_content write_tail)))
      else Inr k)"

end
