(* ===== verification/Sketch_Props.thy ===== *)
theory Sketch_Props
  imports Sketch
begin

text \<open>
  The picture is well formed: an element refers only to elements that were drawn before it, with styles that the
  header defines, and a model drawn under the restrictions of the drawing is drawn completely.
\<close>

subsection \<open>References\<close>

fun place_refs :: "place \<Rightarrow> string set" where
  "place_refs Anywhere = {}"
| "place_refs (Below n) = {n}"
| "place_refs (Right_Of n) = {n}"

fun item_refs :: "sketch_item \<Rightarrow> string set" where
  "item_refs (Node_Item n s p l) = place_refs p"
| "item_refs (Link_Item s st n a b d) = {s, d}"
| "item_refs (Arrow_Item a st b) = {a, b}"
| "item_refs (Box_Item st ns l b) = set ns"
| "item_refs (Caption_Item b t) = {b}"
| "item_refs _ = {}"

fun item_names :: "sketch_item \<Rightarrow> string set" where
  "item_names (Node_Item n s p l) = {n}"
| "item_names (Box_Item st ns l b) = {b}"
| "item_names _ = {}"

fun item_styles :: "sketch_item \<Rightarrow> string set" where
  "item_styles (Node_Item n s p l) = {s}"
| "item_styles (Link_Item s st n a b d) = {st}"
| "item_styles (Arrow_Item a st b) = {st}"
| "item_styles (Box_Item st ns l b) = {st}"
| "item_styles _ = {}"

definition defined_style :: "sketch \<Rightarrow> string \<Rightarrow> bool" where
  "defined_style k s = (\<exists>l \<in> set (style_lines @ box_style_lines k).
     take (length (''|tikzstyle{'' @ s @ ''}'')) l = ''|tikzstyle{'' @ s @ ''}'')"

text \<open>The items of a picture after the elements \<open>D\<close> have been drawn.\<close>

fun well_drawn :: "sketch \<Rightarrow> string set \<Rightarrow> sketch_item list \<Rightarrow> bool" where
  "well_drawn k D [] = True"
| "well_drawn k D (x # xs) =
     (item_refs x \<subseteq> D \<and> (\<forall>s \<in> item_styles x. defined_style k s) \<and> well_drawn k (D \<union> item_names x) xs)"

definition all_names :: "sketch_item list \<Rightarrow> string set" where
  "all_names xs = \<Union> (item_names ` set xs)"

lemma all_names_simps [simp]:
  "all_names [] = {}" "all_names (x # xs) = item_names x \<union> all_names xs" "all_names (xs @ ys) = all_names xs \<union> all_names ys"
  by (auto simp: all_names_def)

lemma well_drawn_append [simp]:
  "well_drawn k D (xs @ ys) \<longleftrightarrow> well_drawn k D xs \<and> well_drawn k (D \<union> all_names xs) ys"
  by (induction xs arbitrary: D) (auto simp: Un_assoc)

lemma well_drawn_mono: "well_drawn k D xs \<Longrightarrow> D \<subseteq> E \<Longrightarrow> well_drawn k E xs"
proof (induction xs arbitrary: D E)
  case (Cons x xs)
  have "D \<union> item_names x \<subseteq> E \<union> item_names x" using Cons.prems(2) by blast
  with Cons.IH [of "D \<union> item_names x" "E \<union> item_names x"] Cons.prems show ?case by auto
qed simp

lemma well_drawn_flat:
  assumes "\<And>x. x \<in> set xs \<Longrightarrow> item_refs x \<subseteq> D" "\<And>x s. x \<in> set xs \<Longrightarrow> s \<in> item_styles x \<Longrightarrow> defined_style k s"
  shows "well_drawn k D xs"
  using assms
proof (induction xs arbitrary: D)
  case (Cons x xs)
  have "well_drawn k D xs"
  proof (rule Cons.IH)
    show "y \<in> set xs \<Longrightarrow> item_refs y \<subseteq> D" for y using Cons.prems(1) [of y] by simp
    show "y \<in> set xs \<Longrightarrow> s \<in> item_styles y \<Longrightarrow> defined_style k s" for y s using Cons.prems(2) [of y s] by simp
  qed
  then show ?case using Cons.prems by (auto intro: well_drawn_mono)
qed simp

lemma styles_defined:
  "defined_style k ''task_style''" "defined_style k ''logic_link_style''" "defined_style k ''fifo_buffer_style''"
  "defined_style k ''task_map_arrow''" "defined_style k ''sched_style''" "defined_style k ''sched_map_arrow''"
  "defined_style k ''pe_style''" "defined_style k ''phy_commres_style''" "defined_style k ''tdma_bus_style''"
  "defined_style k ''platform_conn_style''" "defined_style k ''mem_style''"
  by (simp_all add: defined_style_def style_lines_def)

lemma box_styles_defined:
  "environment_box k \<Longrightarrow> defined_style k ''env_box_st''" "system_box k \<Longrightarrow> defined_style k ''sys_box_st''"
  "\<not> system_box k \<Longrightarrow> application_box k \<Longrightarrow> defined_style k ''app_box_st''"
  "\<not> system_box k \<Longrightarrow> platform_box k \<Longrightarrow> defined_style k ''plat_box_st''"
  by (auto simp: defined_style_def box_style_lines_def)

subsection \<open>Rows\<close>

definition plain :: "string \<Rightarrow> bool" where
  "plain n = (CHR ''.'' \<notin> set n)"

lemma slashed_plain [simp]: "plain n \<Longrightarrow> slashed n = n"
  unfolding slashed_def plain_def by (induction n) auto

lemma row_right_Cons: "row_right st r l (n # m # ns) = Node_Item (slashed m) st (Right_Of (r n)) (l m) # row_right st r l (m # ns)"
  by (simp add: row_right_def)

lemma row_right_drawn:
  assumes "\<forall>n \<in> set ns. plain n" "\<And>n. plain n \<Longrightarrow> r n = n" "defined_style k st"
  shows "ns = n # ms \<Longrightarrow> n \<in> D \<Longrightarrow> well_drawn k D (row_right st r l ns) \<and> all_names (row_right st r l ns) = set ms"
  using assms(1)
proof (induction ns arbitrary: n ms D)
  case (Cons x xs)
  show ?case
  proof (cases xs)
    case Nil
    then show ?thesis using Cons.prems by (simp add: row_right_def)
  next
    case (Cons y ys)
    have e: "x = n" "ms = y # ys" "xs = y # ys" using Cons Cons.prems by auto
    have "well_drawn k (D \<union> {y}) (row_right st r l xs) \<and> all_names (row_right st r l xs) = set ys"
      using Cons.IH [of y ys "D \<union> {y}"] e Cons.prems by simp
    then show ?thesis using Cons.prems assms(2,3) unfolding e row_right_Cons by simp
  qed
qed simp

text \<open>A row: a first element below one that is there, or anywhere, and the others to its right.\<close>

lemma row_drawn:
  assumes "\<forall>n \<in> set (n # ns). plain n" "\<And>n. plain n \<Longrightarrow> r n = n" "defined_style k st" "place_refs p \<subseteq> D"
  shows "well_drawn k D (Node_Item (slashed n) st p t # row_right st r l (n # ns))"
    "all_names (Node_Item (slashed n) st p t # row_right st r l (n # ns)) = set (n # ns)"
  using row_right_drawn [OF assms(1-3) refl, of "D \<union> {n}" l] assms by auto

subsection \<open>Elements\<close>

text \<open>
  What the drawing handles: names without dots, at most one bus with slots, a processing element and its
  resource for each scheduler, and tasks of the tables.
\<close>

definition names_plain :: "sketch_view \<Rightarrow> bool" where
  "names_plain v = (\<forall>n \<in> set (sv_env v @ sv_sys v @ platform_names v). plain n)"

definition one_bus :: "sketch_view \<Rightarrow> bool" where
  "one_bus v = (length (sv_tdma v) \<le> 1 \<and> (sv_tdma v \<noteq> [] \<longrightarrow> length (sv_phy v) \<le> 1))"

lemma plain_names:
  assumes "names_plain v"
  shows "n \<in> set (sv_env v) \<Longrightarrow> plain n" "n \<in> set (sv_sys v) \<Longrightarrow> plain n" "s \<in> set (sv_scheds v) \<Longrightarrow> plain (fst s)"
    "p \<in> set (sv_pes v) \<Longrightarrow> plain (fst p)" "n \<in> set (sv_phy v) \<Longrightarrow> plain n" "n \<in> set (sv_tdma v) \<Longrightarrow> plain n"
    "p \<in> set (sv_mems v) \<Longrightarrow> plain (fst p)"
  using assms unfolding names_plain_def platform_names_def by auto

definition task_names :: "sketch_view \<Rightarrow> string set" where
  "task_names v = set (sv_env v) \<union> set (sv_sys v)"

definition element_names :: "sketch_view \<Rightarrow> string set" where
  "element_names v = task_names v \<union> set (platform_names v)"

lemma env_tasks_drawn:
  assumes "names_plain v"
  shows "well_drawn k D (draw_env_tasks v)" "all_names (draw_env_tasks v) = set (sv_env v)"
proof -
  have "well_drawn k D (draw_env_tasks v) \<and> all_names (draw_env_tasks v) = set (sv_env v)"
  proof (cases "sv_env v")
    case (Cons n ns)
    have "\<forall>m \<in> set (n # ns). plain m" using plain_names(1) [OF assms] Cons by simp
    from row_drawn [OF this slashed_plain styles_defined(1) [of k], where p = Anywhere and D = D and l = slashed] Cons show ?thesis
      by (simp add: draw_env_tasks_def)
  qed (simp add: draw_env_tasks_def)
  then show "well_drawn k D (draw_env_tasks v)" "all_names (draw_env_tasks v) = set (sv_env v)" by blast+
qed

lemma sys_tasks_drawn:
  assumes "names_plain v" "sv_sys v \<noteq> []"
  shows "\<exists>xs. draw_sys_tasks v = Inr xs \<and> well_drawn k (set (sv_env v)) xs \<and> all_names xs = set (sv_sys v)"
proof (cases "sv_sys v")
  case (Cons n ns)
  define p where "p = (case sv_env v of [] \<Rightarrow> Anywhere | e # _ \<Rightarrow> Below e)"
  have "\<forall>m \<in> set (n # ns). plain m" using plain_names(2) [OF assms(1)] Cons by simp
  from row_drawn [OF this slashed_plain styles_defined(1) [of k], where p = p and D = "set (sv_env v)" and l = slashed] Cons show ?thesis
    by (auto simp: draw_sys_tasks_def p_def split: list.splits)
qed (use assms in simp)

lemma scheds_drawn:
  assumes "names_plain v" "sv_sys v \<noteq> []" "task_names v \<subseteq> D"
  shows "well_drawn k D (draw_scheds v) \<and> all_names (draw_scheds v) = fst ` set (sv_scheds v)"
proof (cases "sv_scheds v")
  case (Cons s ss)
  define p where "p = (if sv_tasks v \<noteq> [] then Below (task_ref v) else Anywhere)"
  have pl: "\<forall>m \<in> set (fst s # map fst ss). plain m" using plain_names(3) [OF assms(1)] Cons by auto
  have "place_refs p \<subseteq> D"
    using assms plain_names(2) [OF assms(1), of "hd (sv_sys v)"] by (auto simp: p_def task_ref_def task_names_def)
  from row_drawn [OF pl _ styles_defined(5) [of k] this, where l = id and r = slashed and t = "fst s"] Cons
  show ?thesis by (simp add: draw_scheds_def p_def)
qed (simp add: draw_scheds_def)

lemma pes_drawn:
  assumes "names_plain v" "sv_sys v \<noteq> []" "task_names v \<union> fst ` set (sv_scheds v) \<subseteq> D"
  shows "well_drawn k D (draw_pes v) \<and> all_names (draw_pes v) = fst ` set (sv_pes v)"
proof (cases "sv_pes v")
  case (Cons s ss)
  define p where "p = (if sv_scheds v \<noteq> [] then Below (sched_ref v) else if sv_tasks v \<noteq> [] then Below (task_ref v) else Anywhere)"
  define t where "t = (if sv_scheds v = [] \<and> sv_tasks v \<noteq> [] then '' '' @ fst s else fst s)"
  have pl: "\<forall>m \<in> set (fst s # map fst ss). plain m" using plain_names(4) [OF assms(1)] Cons by auto
  have "place_refs p \<subseteq> D"
    using assms plain_names(2) [OF assms(1), of "hd (sv_sys v)"]
    by (auto simp: p_def task_ref_def sched_ref_def task_names_def subset_iff)
  from row_drawn [OF pl _ styles_defined(7) [of k] this, where l = id and r = id and t = t] Cons
  show ?thesis
    by (cases "sv_scheds v = []"; cases "sv_tasks v = []") (simp_all add: draw_pes_def p_def t_def)
qed (simp add: draw_pes_def)

text \<open>The first resource of a kind, and the rows of resources.\<close>

lemma first_resource_node:
  assumes "names_plain v" "sv_sys v \<noteq> []" "task_names v \<union> fst ` set (sv_scheds v) \<union> fst ` set (sv_pes v) \<subseteq> D"
  shows "\<exists>p t. first_resource st v n = Node_Item (slashed n) st p t \<and> place_refs p \<subseteq> D"
  using assms plain_names(2) [OF assms(1), of "hd (sv_sys v)"] plain_names(4) [OF assms(1), of "hd (sv_pes v)"]
  by (auto simp: first_resource_def task_ref_def sched_ref_def pe_ref_def task_names_def subset_iff)

lemma phys_drawn:
  assumes "names_plain v" "sv_sys v \<noteq> []" "task_names v \<union> fst ` set (sv_scheds v) \<union> fst ` set (sv_pes v) \<subseteq> D"
  shows "well_drawn k D (draw_phys v) \<and> all_names (draw_phys v) = set (sv_phy v)"
proof (cases "sv_phy v")
  case (Cons n ns)
  have pl: "\<forall>m \<in> set (n # ns). plain m" using plain_names(5) [OF assms(1)] Cons by auto
  obtain p t where f: "first_resource ''phy_commres_style'' v n = Node_Item (slashed n) ''phy_commres_style'' p t"
    and p: "place_refs p \<subseteq> D" using first_resource_node [OF assms] by blast
  from row_drawn [OF pl _ styles_defined(8) [of k] p, where l = id and r = slashed and t = t] Cons
  show ?thesis by (simp add: draw_phys_def f)
qed (simp add: draw_phys_def)

lemma tdmas_drawn:
  assumes "names_plain v" "sv_sys v \<noteq> []" "task_names v \<union> fst ` set (sv_scheds v) \<union> fst ` set (sv_pes v) \<subseteq> D"
    "one_bus v"
  shows "\<exists>xs. draw_tdmas v = Inr xs \<and> well_drawn k D xs \<and> all_names xs = set (sv_tdma v)"
proof (cases "sv_tdma v")
  case (Cons n ns)
  then have one: "ns = []" "[1..<length (sv_phy v)] = []" using assms(4) by (auto simp: one_bus_def)
  have pl: "plain n" using plain_names(6) [OF assms(1)] Cons by auto
  obtain p t where f: "first_resource ''tdma_bus_style'' v n = Node_Item (slashed n) ''tdma_bus_style'' p t"
    and p: "place_refs p \<subseteq> D" using first_resource_node [OF assms(1-3)] by blast
  show ?thesis using Cons one pl p styles_defined(9) [of k]
    by (simp add: draw_tdmas_def f del: upt_eq_Nil_conv)
qed (simp add: draw_tdmas_def)

lemma mems_drawn:
  assumes "names_plain v" "set (sv_phy v) \<union> set (sv_tdma v) \<subseteq> D"
  shows "well_drawn k D (draw_mems v) \<and> all_names (draw_mems v) = fst ` set (sv_mems v)"
proof (cases "sv_mems v")
  case (Cons s ss)
  define p where "p = (if sv_phy v \<noteq> [] \<or> sv_tdma v \<noteq> [] then Below (commres_ref v) else Anywhere)"
  have pl: "\<forall>m \<in> set (fst s # map fst ss). plain m" using plain_names(7) [OF assms(1)] Cons by auto
  have "place_refs p \<subseteq> D"
    using assms plain_names(5) [OF assms(1), of "hd (sv_phy v)"] plain_names(6) [OF assms(1), of "hd (sv_tdma v)"]
    by (auto simp: p_def commres_ref_def subset_iff)
  from row_drawn [OF pl _ styles_defined(11) [of k] this, where l = id and r = id and t = "fst s"] Cons
  show ?thesis by (simp add: draw_mems_def p_def)
qed (simp add: draw_mems_def)

lemma element_names_eq:
  "element_names v = set (sv_env v) \<union> set (sv_sys v) \<union> fst ` set (sv_scheds v) \<union> fst ` set (sv_pes v)
     \<union> set (sv_phy v) \<union> set (sv_tdma v) \<union> fst ` set (sv_mems v)"
  by (auto simp: element_names_def task_names_def platform_names_def)

lemma elements_drawn:
  assumes "names_plain v" "sv_sys v \<noteq> []" "one_bus v"
  shows "\<exists>xs. draw_elements v = Inr xs \<and> well_drawn k {} xs \<and> all_names xs = element_names v"
proof -
  from sys_tasks_drawn [OF assms(1,2), of k] obtain sys where
    sys: "draw_sys_tasks v = Inr sys" "well_drawn k (set (sv_env v)) sys" "all_names sys = set (sv_sys v)" by blast
  let ?D1 = "task_names v" let ?D2 = "?D1 \<union> fst ` set (sv_scheds v)" let ?D3 = "?D2 \<union> fst ` set (sv_pes v)"
  let ?D4 = "?D3 \<union> set (sv_phy v)" let ?D5 = "?D4 \<union> set (sv_tdma v)"
  from tdmas_drawn [OF assms(1,2) _ assms(3), of ?D4 k] obtain bs where
    bs: "draw_tdmas v = Inr bs" "well_drawn k ?D4 bs" "all_names bs = set (sv_tdma v)" by blast
  have mems: "well_drawn k ?D5 (draw_mems v) \<and> all_names (draw_mems v) = fst ` set (sv_mems v)"
    by (rule mems_drawn [OF assms(1)]) auto
  have "set (sv_env v) \<union> set (sv_sys v) = ?D1" by (simp add: task_names_def)
  then have "well_drawn k {} (draw_env_tasks v @ sys @ draw_scheds v @ [Blank_Line] @ draw_pes v @ [Blank_Line]
      @ draw_phys v @ bs @ draw_mems v @ [Blank_Line])"
    using env_tasks_drawn(1) [OF assms(1), of k "{}"] env_tasks_drawn(2) [OF assms(1)] sys scheds_drawn [OF assms(1,2), of ?D1 k] pes_drawn [OF assms(1,2), of ?D2 k]
      phys_drawn [OF assms(1,2), of ?D3 k] bs mems by (simp add: Un_assoc [symmetric])
  then show ?thesis
    using env_tasks_drawn(1) [OF assms(1), of k "{}"] env_tasks_drawn(2) [OF assms(1)] sys scheds_drawn [OF assms(1,2), of ?D1 k] pes_drawn [OF assms(1,2), of ?D2 k]
      phys_drawn [OF assms(1,2), of ?D3 k] bs mems
    by (simp add: draw_elements_def element_names_eq Un_assoc [symmetric])
qed

subsection \<open>Connections\<close>

definition ends_known :: "sketch_view \<Rightarrow> sketch_conn \<Rightarrow> bool" where
  "ends_known v l = (\<exists>s d. conn_src l = Some s \<and> conn_dest l = Some d \<and> s \<in> task_names v \<and> d \<in> set (sv_sys v))"

definition sized :: "sketch_view \<Rightarrow> link_counts \<Rightarrow> bool" where
  "sized v k = (length (outs k) = length (sv_sys v) \<and> length (inps k) = length (sv_sys v)
     \<and> length (env_outs k) = length (sv_env v) \<and> length (env_inps k) = length (sv_env v))"

lemma position_less: "n \<in> set ns \<Longrightarrow> position ns n < length ns"
  unfolding position_def by (induction ns) auto

lemma counts_ok [simp]:
  "i < length xs \<Longrightarrow> count_at xs i = Inr (xs ! i)" "i < length xs \<Longrightarrow> count_up xs i = Inr (xs[i := xs ! i + 1])"
  by (simp_all add: count_at_def count_up_def)

lemma angles_exist:
  assumes "sized v k" "s \<in> task_names v" "d \<in> set (sv_sys v)"
  shows "\<exists>a b k1. calculate_angles (sv_sys v) (sv_env v) s d k = Inr ((a, b), k1) \<and> sized v k1"
proof (cases "s \<in> set (sv_sys v)")
  case True
  then show ?thesis
    using assms(1,3) position_less [OF True] position_less [OF assms(3)]
    by (auto simp: calculate_angles_def angles_by_def sized_def Let_def)
next
  case False
  then have e: "s \<in> set (sv_env v)" using assms(2) by (simp add: task_names_def)
  show ?thesis
    using assms(1,3) False e position_less [OF e] position_less [OF assms(3)]
    by (auto simp: calculate_angles_def angles_by_def sized_def Let_def)
qed

lemma task_names_plain: "names_plain v \<Longrightarrow> n \<in> task_names v \<Longrightarrow> plain n"
  using plain_names(1,2) by (auto simp: task_names_def)

lemma connections_drawn:
  assumes "names_plain v"
  shows "sized v k \<Longrightarrow> \<forall>l \<in> set ls. ends_known v l \<Longrightarrow>
    \<exists>xs k1. draw_connections c v ls k = Inr (xs, k1) \<and> well_drawn c (element_names v) xs \<and> all_names xs = {}"
proof (induction ls arbitrary: k)
  case (Cons l ls)
  from Cons.prems(2) obtain s d where l: "conn_src l = Some s" "conn_dest l = Some d" "s \<in> task_names v" "d \<in> set (sv_sys v)"
    by (auto simp: ends_known_def)
  have sd: "s \<in> element_names v" "d \<in> element_names v" "plain s" "plain d"
    using l task_names_plain [OF assms] by (auto simp: element_names_def task_names_def)
  obtain a b k1 where k1: "calculate_angles (sv_sys v) (sv_env v) s d k = Inr ((a, b), k1)" "sized v k1"
    using angles_exist [OF Cons.prems(1) l(3,4)] by blast
  then show ?case
    using Cons.IH [OF k1(2)] Cons.prems(2) l sd styles_defined(2,3) [of c] by (auto simp: draw_connection_def)
qed simp

subsection \<open>Mappings\<close>

definition sched_known :: "sketch_view \<Rightarrow> string \<times> string list option \<times> string option \<Rightarrow> bool" where
  "sched_known v s = (\<exists>ts p. snd s = (Some ts, Some p) \<and> set ts \<subseteq> task_names v \<and> p \<in> fst ` set (sv_pes v))"

definition resource_known :: "sketch_view \<Rightarrow> string \<times> string option \<Rightarrow> bool" where
  "resource_known v e = (\<exists>c. snd e = Some c \<and> c \<in> set (sv_phy v) \<union> set (sv_tdma v))"

lemma sched_mappings_drawn:
  assumes "names_plain v" "set ss \<subseteq> set (sv_scheds v)" "\<forall>s \<in> set ss. sched_known v s"
  shows "\<exists>xs ys. task_mappings ss = Inr xs \<and> sched_mappings ss = Inr ys \<and> well_drawn k (element_names v) (xs @ ys)
    \<and> all_names (xs @ ys) = {}"
  using assms(2,3)
proof (induction ss)
  case (Cons s ss)
  from Cons.prems(2) obtain n ts p where s: "s = (n, Some ts, Some p)" "set ts \<subseteq> task_names v" "p \<in> fst ` set (sv_pes v)"
    by (cases s) (auto simp: sched_known_def)
  have n: "plain n" "n \<in> element_names v" using Cons.prems(1) s plain_names(3) [OF assms(1), of s]
    by (force simp: element_names_eq)+
  have p: "plain p" "p \<in> element_names v" using s plain_names(4) [OF assms(1)] by (auto simp: element_names_eq)
  have ts: "t \<in> set ts \<Longrightarrow> plain t \<and> t \<in> element_names v" for t
    using s task_names_plain [OF assms(1)] by (auto simp: element_names_def)
  from Cons.IH Cons.prems obtain xs ys where xs: "task_mappings ss = Inr xs" "sched_mappings ss = Inr ys"
    "well_drawn k (element_names v) (xs @ ys)" "all_names (xs @ ys) = {}" by auto
  let ?as = "map (\<lambda>t. Arrow_Item (slashed t) ''task_map_arrow'' (slashed n)) ts"
  have as: "well_drawn k (element_names v) ?as" "all_names ?as = {}"
    using ts n styles_defined(4) [of k] by (auto intro!: well_drawn_flat simp: all_names_def)
  then show ?case using s xs n p styles_defined(6) [of k] by simp
qed simp

lemma platform_connections_drawn:
  assumes "names_plain v" "set es \<subseteq> set (sv_pes v) \<union> set (sv_mems v)" "\<forall>e \<in> set es. resource_known v e"
  shows "\<exists>xs. platform_connections es = Inr xs \<and> well_drawn k (element_names v) xs \<and> all_names xs = {}"
  using assms(2,3)
proof (induction es)
  case (Cons e es)
  from Cons.prems(2) obtain n c where e: "e = (n, Some c)" "c \<in> set (sv_phy v) \<union> set (sv_tdma v)"
    by (cases e) (auto simp: resource_known_def)
  have "e \<in> set (sv_pes v) \<or> e \<in> set (sv_mems v)" using Cons.prems(1) by auto
  then have "plain (fst e)" "fst e \<in> element_names v"
    using plain_names(4,7) [OF assms(1), of e] by (auto simp: element_names_eq)
  then have n: "plain n" "n \<in> element_names v" using e by simp_all
  have c: "plain c" "c \<in> element_names v" using e plain_names(5,6) [OF assms(1)] by (auto simp: element_names_eq)
  from Cons.IH Cons.prems obtain xs where "platform_connections es = Inr xs" "well_drawn k (element_names v) xs"
    "all_names xs = {}" by auto
  then show ?case using n c e styles_defined(10) [of k] by simp
qed simp

subsection \<open>Boxes\<close>

definition apps_known :: "sketch_view \<Rightarrow> bool" where
  "apps_known v = ((\<forall>a \<in> set (sv_apps v). set (snd a) \<subseteq> element_names v)
     \<and> (sv_visibility v = SET_EXPLICIT_APPS \<longrightarrow> (\<exists>a \<in> set (sv_apps v). last (sv_sys v) \<in> set (snd a))))"

lemma box_drawn:
  "defined_style k st \<Longrightarrow> set ns \<subseteq> D \<Longrightarrow> well_drawn k D (box st ns b t)"
  by (simp add: box_def)

lemma last_application_known:
  assumes "names_plain v" "sv_sys v \<noteq> []" "a \<in> set (sv_apps v)" "last (sv_sys v) \<in> set (snd a)"
  shows "last_application v \<in> fst ` set (sv_apps v)"
proof -
  let ?f = "filter (\<lambda>a. slashed (last (sv_sys v)) \<in> set (snd a)) (sv_apps v)"
  have "a \<in> set ?f" using assms plain_names(2) [OF assms(1), of "last (sv_sys v)"] by simp
  then have "?f \<noteq> []" by fastforce
  then have "last_application v = fst (last ?f)" "last ?f \<in> set ?f"
    by (auto simp: last_application_def split: list.splits simp del: set_filter)
  then show ?thesis by auto
qed

lemma application_boxes_drawn:
  assumes "names_plain v" "sv_sys v \<noteq> []" "apps_known v" "element_names v \<subseteq> D" "defined_style k ''app_box_st''"
  shows "well_drawn k D (application_boxes v)"
proof (cases "sv_visibility v")
  case SET_IMPLICIT_APPS
  have "set (sv_sys v) \<subseteq> D" using assms(4) by (auto simp: element_names_eq)
  then show ?thesis using SET_IMPLICIT_APPS box_drawn [OF assms(5)] by (simp add: application_boxes_def)
next
  case SET_EXPLICIT_APPS
  let ?bs = "map (\<lambda>(a, ts). Box_Item ''app_box_st'' ts (tex '',label=|color{red}'' @ a) (a @ ''_app_box'')) (sv_apps v)"
  have bs: "well_drawn k D ?bs"
  proof (rule well_drawn_flat)
    show "x \<in> set ?bs \<Longrightarrow> item_refs x \<subseteq> D" for x
      using assms(3,4) unfolding apps_known_def by (force split: prod.splits)
    show "x \<in> set ?bs \<Longrightarrow> s \<in> item_styles x \<Longrightarrow> defined_style k s" for x s using assms(5) by auto
  qed
  obtain a where "a \<in> set (sv_apps v)" "last (sv_sys v) \<in> set (snd a)"
    using assms(3) SET_EXPLICIT_APPS by (auto simp: apps_known_def)
  then have "last_application v \<in> fst ` set (sv_apps v)" by (rule last_application_known [OF assms(1,2)])
  then have "last_application v @ ''_app_box'' \<in> all_names ?bs" by (force simp: all_names_def)
  then show ?thesis using SET_EXPLICIT_APPS bs by (simp add: application_boxes_def)
qed (simp add: application_boxes_def)

lemma boxes_drawn:
  assumes "names_plain v" "sv_sys v \<noteq> []" "apps_known v" "element_names v \<subseteq> D"
  shows "well_drawn k D (draw_boxes k v)"
proof -
  have sub: "set (sv_env v) \<subseteq> E" "set (sv_sys v @ platform_names v) \<subseteq> E" "set (platform_names v) \<subseteq> E"
    if "D \<subseteq> E" for E
    using assms(4) that by (auto simp: element_names_def task_names_def)
  have env: "environment_box k \<Longrightarrow> well_drawn k D (box ''env_box_st'' (sv_env v) ''env_box'' ''Environment'')"
    using box_drawn [OF box_styles_defined(1)] sub(1) by blast
  have sys: "system_box k \<Longrightarrow> D \<subseteq> E \<Longrightarrow> well_drawn k E (box ''sys_box_st'' (sv_sys v @ platform_names v) ''sys_box'' ''System'')" for E
    by (rule box_drawn [OF box_styles_defined(2) sub(2)])
  have app: "\<not> system_box k \<Longrightarrow> application_box k \<Longrightarrow> D \<subseteq> E \<Longrightarrow> well_drawn k E (application_boxes v)" for E
    using application_boxes_drawn [OF assms(1-3) _ box_styles_defined(3)] assms(4) by blast
  have plat: "\<not> system_box k \<Longrightarrow> platform_box k \<Longrightarrow> D \<subseteq> E \<Longrightarrow>
      well_drawn k E (box ''plat_box_st'' (platform_names v) ''plat_box'' ''Platform'')" for E
    by (rule box_drawn [OF box_styles_defined(4) sub(3)])
  have plat2: "\<not> system_box k \<Longrightarrow> platform_box k \<Longrightarrow>
      well_drawn k (D \<union> A \<union> B) (box ''plat_box_st'' (platform_names v) ''plat_box'' ''Platform'')" for A B
    by (rule plat) auto
  show ?thesis using env sys app plat plat2 by (auto simp: draw_boxes_def)
qed

subsection \<open>The picture\<close>

text \<open>A model that the drawing handles.\<close>

definition drawable :: "sketch_view \<Rightarrow> bool" where
  "drawable v =
     (names_plain v \<and> sv_sys v \<noteq> [] \<and> one_bus v \<and> (\<forall>l \<in> set (sv_conns v). ends_known v l)
      \<and> (\<forall>s \<in> set (sv_scheds v). sched_known v s)
      \<and> (sv_phy v \<noteq> [] \<or> sv_tdma v \<noteq> [] \<longrightarrow> (\<forall>e \<in> set (sv_pes v @ sv_mems v). resource_known v e))
      \<and> apps_known v)"

lemma relations_drawn:
  assumes "drawable v" "sized v k"
  shows "\<exists>xs k1. draw_relations c v k = Inr (xs, k1) \<and> well_drawn c (element_names v) xs \<and> all_names xs = {}"
proof -
  have v: "names_plain v" "\<forall>l \<in> set (sv_conns v). ends_known v l" "\<forall>s \<in> set (sv_scheds v). sched_known v s"
    using assms(1) by (auto simp: drawable_def)
  obtain ls k1 where ls: "draw_connections c v (sv_conns v) k = Inr (ls, k1)" "well_drawn c (element_names v) ls" "all_names ls = {}"
    using connections_drawn [OF v(1) assms(2) v(2)] by blast
  obtain xs ys where xs: "task_mappings (sv_scheds v) = Inr xs" "sched_mappings (sv_scheds v) = Inr ys"
    "well_drawn c (element_names v) (xs @ ys)" "all_names (xs @ ys) = {}"
    using sched_mappings_drawn [OF v(1) subset_refl v(3)] by blast
  have "\<exists>ps. (if sv_phy v \<noteq> [] \<or> sv_tdma v \<noteq> [] then platform_connections (sv_pes v @ sv_mems v) else Inr []) = Inr ps
      \<and> well_drawn c (element_names v) ps \<and> all_names ps = {}"
    using platform_connections_drawn [OF v(1), of "sv_pes v @ sv_mems v" c] assms(1) by (auto simp: drawable_def)
  then show ?thesis using ls xs by (auto simp: draw_relations_def)
qed

lemma picture_drawn:
  assumes "drawable v"
  shows "\<exists>xs k1. actual_draw c v (initial_counts v) = Inr (xs, k1) \<and> well_drawn c {} xs"
proof -
  have v: "names_plain v" "sv_sys v \<noteq> []" "one_bus v" "apps_known v" using assms by (auto simp: drawable_def)
  obtain es where es: "draw_elements v = Inr es" "well_drawn c {} es" "all_names es = element_names v"
    using elements_drawn [OF v(1-3)] by blast
  have "sized v (initial_counts v)" by (simp add: sized_def initial_counts_def)
  then obtain rs k1 where rs: "draw_relations c v (initial_counts v) = Inr (rs, k1)" "well_drawn c (element_names v) rs"
    "all_names rs = {}" using relations_drawn [OF assms] by blast
  then show ?thesis using es boxes_drawn [OF v(1,2,4) subset_refl] by (auto simp: actual_draw_def)
qed

lemma well_drawn_styles:
  assumes "well_drawn (k\<lparr>sketch_content := t\<rparr>) D xs"
  shows "well_drawn k D xs"
proof -
  have "defined_style (k\<lparr>sketch_content := t\<rparr>) = defined_style k"
    by (simp add: fun_eq_iff defined_style_def box_style_lines_def)
  then show ?thesis using assms by (induction xs arbitrary: D) auto
qed

text \<open>
  A channel of a system task to the environment reads a count of the environment at the position of the
  system task; with more system tasks than tasks of the environment that is beyond the vector.
\<close>

theorem system_output_out_of_range:
  assumes "s \<in> set (sv_sys v)" "d \<in> set (sv_env v)" "d \<notin> set (sv_sys v)" "sized v k"
    "position (sv_sys v) s \<ge> length (sv_env v)"
  shows "calculate_angles (sv_sys v) (sv_env v) s d k = undef ''index out of range''"
  using assms by (simp add: calculate_angles_def angles_by_def count_at_def sized_def Let_def undef_def)

text \<open>
  C39: When names have no dots, at most one bus with slots is there, schedulers, resources, tasks and channels
  are known and channels end in the system, an enabled sketch is completed at the end of elaboration: the
  file has the header, the texts of the items of the picture and the tail, and every item refers only to
  elements drawn before it, with styles that the header defines.\<close>
theorem sketch_complete:
  assumes "sketch_enabled k" "sketch_content k = Some t" "drawable v"
  shows "\<exists>xs. sketch_end_of_elaboration tx v k =
      Inr (k\<lparr>sketch_content := Some (t @ write_header tx k @ concat (map item_text xs) @ write_tail)\<rparr>)
    \<and> well_drawn k {} xs"
proof -
  let ?k = "k\<lparr>sketch_content := Some (t @ write_header tx k)\<rparr>"
  from picture_drawn [OF assms(3), of ?k] obtain xs k1 where
    "actual_draw ?k v (initial_counts v) = Inr (xs, k1)" "well_drawn ?k {} xs" by blast
  then show ?thesis
    using assms(1,2) well_drawn_styles by (auto simp: sketch_end_of_elaboration_def add_content_def)
qed

definition sketched :: sketch_view where
  "sketched =
     \<lparr>sv_env = [''src''], sv_sys = [''a'', ''b''], sv_tasks = [''a'', ''b''], sv_scheds = [(''rtos'', Some [''a'', ''b''], Some ''cpu'')],
      sv_pes = [(''cpu'', Some ''bus'')], sv_phy = [], sv_tdma = [''bus''], sv_mems = [(''ram'', Some ''bus'')],
      sv_conns = [\<lparr>conn_src = Some ''src'', conn_dest = Some ''a'', conn_name = ''in'', conn_type = ''fifo_buffer''\<rparr>,
                  \<lparr>conn_src = Some ''a'', conn_dest = Some ''b'', conn_name = ''ab'', conn_type = ''fifo_buffer''\<rparr>],
      sv_apps = [(''app'', [''a'', ''b''])], sv_visibility = SET_EXPLICIT_APPS\<rparr>"

definition sketch_example :: sketch where
  "sketch_example = (sketch_enable new_sketch)\<lparr>platform_box := True, application_box := True\<rparr>"

theorem sketch_complete_witness:
  "\<exists>xs. sketch_end_of_elaboration \<lparr>sx_float = \<lambda>_. ''1'', sx_compilation = ''today'', sx_now = ''now''\<rparr> sketched sketch_example =
      Inr (sketch_example\<lparr>sketch_content := Some (''''
        @ write_header \<lparr>sx_float = \<lambda>_. ''1'', sx_compilation = ''today'', sx_now = ''now''\<rparr> sketch_example
        @ concat (map item_text xs) @ write_tail)\<rparr>)
    \<and> well_drawn sketch_example {} xs"
proof (rule sketch_complete)
  show "sketch_enabled sketch_example" "sketch_content sketch_example = Some ''''"
    by (simp_all add: sketch_example_def sketch_enable_def)
  show "drawable sketched"
    by (simp add: drawable_def sketched_def names_plain_def platform_names_def plain_def one_bus_def ends_known_def
        task_names_def sched_known_def resource_known_def apps_known_def element_names_def)
qed

end
