(* ===== verification/Xml_Analysis.thy ===== *)
theory Xml_Analysis
  imports Xml_Main Xml_Command Tikz_Trace Sketch Static_Analysis Energy_Power
begin

text \<open>
  \<open>xml_if/kista_xml_analysis.cpp\<close>, \<open>xml_if/xml_create_tikz_activity_trace.cpp\<close>,
  \<open>xml_if/xml_validation_vs_kista_schema.cpp\<close> and the configuration of the run in \<open>sc_main\<close> of
  \<open>xml_if/kista_xml.cpp\<close>: the analyses, the traces, the sketch and the validation that a description asks for.

  An analysis is configured by functions without a return statement, so what depends on their result is
  stated for each result it could be.
\<close>

subsection \<open>Analysis\<close>

definition getTraceRTOS :: "xml_front \<Rightarrow> xml_ptr list option" where
  "getTraceRTOS x = node_set_of x ''/system/kista_configuration/analysis/trace_rtos''"

definition getNumberOfTraceRTOS :: "xml_front \<Rightarrow> nat" where
  "getNumberOfTraceRTOS x = (case getTraceRTOS x of None \<Rightarrow> 0 | Some ps \<Rightarrow> length ps)"

definition get_configured_static_sched_analysis :: "xml_front \<Rightarrow> bool result" where
  "get_configured_static_sched_analysis x = no_return (get_configured_boolean_option x
     ''/system/kista_configuration/analysis/static_sched_analysis''
     (''if settled, (default) available static analysis common and specific for the configured scheduling policy ''
      @ ''are applied'') True)"

definition get_configured_worst_case_communication :: "xml_front \<Rightarrow> bool result" where
  "get_configured_worst_case_communication x = no_return (get_configured_boolean_option x
     ''/system/kista_configuration/analysis/worst_case_communication''
     ''if settled, (default) worst case communication times are used, otherwise, current communication times'' True)"

text \<open>
  The traces of schedulers: the name of the file of each, that of the scheduler with a suffix when none is
  given. A scheduler that is not known is a null pointer.
\<close>

definition utilization_trace :: "string \<Rightarrow> string option \<Rightarrow> string \<times> string" where
  "utilization_trace s f = (s, case f of None \<Rightarrow> s @ ''_trace'' | Some n \<Rightarrow> n)"

definition trace_RTOS :: "xml_front \<Rightarrow> string list \<Rightarrow> xml_ptr \<Rightarrow> (string \<times> string) result" where
  "trace_RTOS x scheds p =
     rbind (xmlGetValueGen x p ''name'') (\<lambda>n.
     rbind (xmlGetValueGen x p ''file'') (\<lambda>f.
     case n of
       None \<Rightarrow> report (''While parsing the Analysis Description file.'' @ ''RTOS name for rtos_trace was not given.'')
     | Some s \<Rightarrow> (if s \<in> set scheds then Inr (utilization_trace s f) else undef ''null scheduler'')))"

fun trace_each_RTOS :: "xml_front \<Rightarrow> string list \<Rightarrow> xml_ptr list \<Rightarrow> (string \<times> string) list result" where
  "trace_each_RTOS x scheds [] = Inr []"
| "trace_each_RTOS x scheds (p # ps) = rbind (trace_RTOS x scheds p) (\<lambda>t. rmap ((#) t) (trace_each_RTOS x scheds ps))"

definition trace_schedulers :: "xml_front \<Rightarrow> string list \<Rightarrow> (string \<times> string) list result" where
  "trace_schedulers x scheds = (case getTraceRTOS x of None \<Rightarrow> Inr [] | Some ps \<Rightarrow> trace_each_RTOS x scheds ps)"

definition set_static_analysis :: "bool \<Rightarrow> analysis_globals \<Rightarrow> analysis_globals" where
  "set_static_analysis b g = (if b then enable_sched_static_analysis g else disable_sched_static_analysis g)"

definition set_worst_case :: "sim_env \<Rightarrow> bool \<Rightarrow> bool \<Rightarrow> bool result" where
  "set_worst_case e b w = (if b then enable_worst_case_communication e w else disable_worst_case_communication e w)"

definition configure_kista_analysis ::
    "xml_front \<Rightarrow> sim_env \<Rightarrow> string list \<Rightarrow> analysis_globals \<times> bool
       \<Rightarrow> ((analysis_globals \<times> bool) \<times> (string \<times> string) list) result" where
  "configure_kista_analysis x e scheds s =
     rbind (get_configured_static_sched_analysis x) (\<lambda>b.
     rbind (get_configured_worst_case_communication x) (\<lambda>c.
     rbind (set_worst_case e c (snd s)) (\<lambda>w.
     rmap (Pair (set_static_analysis b (fst s), w)) (trace_schedulers x scheds))))"

subsection \<open>Elements of a trace\<close>

text \<open>The first child with a name, its flag and the number, time or real number it has.\<close>

definition child_or_error :: "xml_ptr \<Rightarrow> string \<Rightarrow> xml_ptr result" where
  "child_or_error p n =
     (case getFirstChild p n of None \<Rightarrow> report (''Unexpected error. No '' @ n @ '' found.'') | Some c \<Rightarrow> Inr c)"

definition child_flag :: "xml_front \<Rightarrow> xml_ptr \<Rightarrow> string \<Rightarrow> string \<Rightarrow> bool result" where
  "child_flag x p n a = rmap (\<lambda>c. xml_get_prop x c a = Some ''true'') (child_or_error p n)"

definition child_number :: "xml_front \<Rightarrow> xml_ptr \<Rightarrow> string \<Rightarrow> u32 result" where
  "child_number x p n = rbind (child_or_error p n) (\<lambda>c. rmap word_of_int (readNumber x c))"

definition has_cluster :: "xml_ptr \<Rightarrow> bool" where
  "has_cluster p = hasChild p ''cluster''"

definition get_cluster_value :: "xml_front \<Rightarrow> xml_ptr \<Rightarrow> bool result" where
  "get_cluster_value x p = child_flag x p ''cluster'' ''value''"

definition get_cluster_compact :: "xml_front \<Rightarrow> xml_ptr \<Rightarrow> bool result" where
  "get_cluster_compact x p = child_flag x p ''cluster'' ''compact''"

definition has_time_stamps_max_separation :: "xml_ptr \<Rightarrow> bool" where
  "has_time_stamps_max_separation p = hasChild p ''time_stamps_max_separation''"

definition get_time_stamps_max_separation :: "xml_front \<Rightarrow> xml_ptr \<Rightarrow> u32 result" where
  "get_time_stamps_max_separation x p = child_number x p ''time_stamps_max_separation''"

definition has_max_number_of_time_stamps :: "xml_ptr \<Rightarrow> bool" where
  "has_max_number_of_time_stamps p = hasChild p ''max_number_of_time_stamps''"

definition get_max_number_of_time_stamps :: "xml_front \<Rightarrow> xml_ptr \<Rightarrow> u32 result" where
  "get_max_number_of_time_stamps x p = child_number x p ''max_number_of_time_stamps''"

definition has_start_time :: "xml_ptr \<Rightarrow> bool" where
  "has_start_time p = hasChild p ''start_time''"

definition get_start_time :: "xml_front \<Rightarrow> xml_ptr \<Rightarrow> sc_time result" where
  "get_start_time x p = rbind (child_or_error p ''start_time'') (readTime x)"

definition has_base_lines_separation :: "xml_ptr \<Rightarrow> bool" where
  "has_base_lines_separation p = hasChild p ''base_lines_separation''"

definition get_base_lines_separation :: "xml_front \<Rightarrow> xml_ptr \<Rightarrow> u32 result" where
  "get_base_lines_separation x p = child_number x p ''base_lines_separation''"

definition has_no_text_in_traces :: "xml_ptr \<Rightarrow> bool" where
  "has_no_text_in_traces p = hasChild p ''no_text_in_traces''"

definition get_no_text_in_traces_flag :: "xml_front \<Rightarrow> xml_ptr \<Rightarrow> bool result" where
  "get_no_text_in_traces_flag x p = child_flag x p ''no_text_in_traces'' ''value''"

definition has_do_not_show_unactive_boxes :: "xml_ptr \<Rightarrow> bool" where
  "has_do_not_show_unactive_boxes p = hasChild p ''do_not_show_unactive_boxes''"

definition get_do_not_show_unactive_boxes_flag :: "xml_front \<Rightarrow> xml_ptr \<Rightarrow> bool result" where
  "get_do_not_show_unactive_boxes_flag x p = child_flag x p ''do_not_show_unactive_boxes'' ''value''"

definition has_do_not_show_schedulers :: "xml_ptr \<Rightarrow> bool" where
  "has_do_not_show_schedulers p = hasChild p ''do_not_show_schedulers''"

definition get_do_not_show_schedulers_flag :: "xml_front \<Rightarrow> xml_ptr \<Rightarrow> bool result" where
  "get_do_not_show_schedulers_flag x p = child_flag x p ''do_not_show_schedulers'' ''value''"

definition has_set_scale :: "xml_ptr \<Rightarrow> bool" where
  "has_set_scale p = hasChild p ''set_scale''"

definition get_scale :: "xml_front \<Rightarrow> xml_ptr \<Rightarrow> double result" where
  "get_scale x p = rbind (child_or_error p ''set_scale'') (readRealNumber x)"

definition has_set_landscape :: "xml_ptr \<Rightarrow> bool" where
  "has_set_landscape p = hasChild p ''set_landscape''"

definition get_landscape_flag :: "xml_front \<Rightarrow> xml_ptr \<Rightarrow> bool result" where
  "get_landscape_flag x p = child_flag x p ''set_landscape'' ''value''"

definition has_only_image :: "xml_ptr \<Rightarrow> bool" where
  "has_only_image p = hasChild p ''only_image''"

definition get_only_image_flag :: "xml_front \<Rightarrow> xml_ptr \<Rightarrow> bool result" where
  "get_only_image_flag x p = child_flag x p ''only_image'' ''value''"

subsection \<open>Traces\<close>

text \<open>
  The configuration of a trace is a sequence of settings. Each ends with a message in a verbose run, with the
  name of the trace and, for a flag, its variable: the variables are declared outside of the loop without
  a value, and \<open>seen\<close> are those that have been assigned.
\<close>

definition value_setting ::
    "xml_front \<Rightarrow> string option \<Rightarrow> bool \<Rightarrow> 'v result \<Rightarrow> ('v \<Rightarrow> tikz_trace \<Rightarrow> tikz_trace result)
       \<Rightarrow> tikz_trace \<times> string list \<Rightarrow> (tikz_trace \<times> string list) result" where
  "value_setting x name present v act s =
     (if present then rbind v (\<lambda>a. rbind (shown x name) (\<lambda>_. rmap (\<lambda>t. (t, snd s)) (act a (fst s))))
      else rmap (\<lambda>_. s) (shown x name))"

definition flag_message :: "xml_front \<Rightarrow> string option \<Rightarrow> string \<Rightarrow> string list \<Rightarrow> unit result" where
  "flag_message x name variable seen =
     rbind (shown x name) (\<lambda>_.
       if global_kista_xml_verbosity x \<and> variable \<notin> set seen then undef ''indeterminate value'' else Inr ())"

definition flag_setting ::
    "xml_front \<Rightarrow> string option \<Rightarrow> string \<Rightarrow> bool \<Rightarrow> bool result \<Rightarrow> (tikz_trace \<Rightarrow> tikz_trace result)
       \<Rightarrow> tikz_trace \<times> string list \<Rightarrow> (tikz_trace \<times> string list) result" where
  "flag_setting x name variable present v act s =
     rbind (if present then rbind v (\<lambda>b. rmap (\<lambda>t. (t, variable # snd s)) (if b then act (fst s) else Inr (fst s)))
            else Inr s) (\<lambda>s1.
     rmap (\<lambda>_. s1) (flag_message x name variable (snd s1)))"

definition cluster_trace :: "xml_front \<Rightarrow> sim_env \<Rightarrow> xml_ptr \<Rightarrow> tikz_trace \<Rightarrow> tikz_trace result" where
  "cluster_trace x e p t =
     rbind (user_cluster e t) (\<lambda>t1.
     rbind (get_cluster_compact x p) (\<lambda>c. if c then user_compact e t1 else Inr t1))"

definition configure_tikz_trace ::
    "xml_front \<Rightarrow> sim_env \<Rightarrow> xml_ptr \<Rightarrow> string option \<Rightarrow> tikz_trace \<times> string list
       \<Rightarrow> (tikz_trace \<times> string list) result" where
  "configure_tikz_trace x e p name s0 =
     rbind (value_setting x name (has_start_time p) (get_start_time x p) (user_set_start_time e) s0) (\<lambda>s1.
     rbind (value_setting x name (has_max_number_of_time_stamps p) (get_max_number_of_time_stamps x p)
              (user_set_max_number_of_time_stamps e) s1) (\<lambda>s2.
     rbind (value_setting x name (has_time_stamps_max_separation p) (get_time_stamps_max_separation x p)
              (user_set_time_stamps_max_separation e) s2) (\<lambda>s3.
     rbind (flag_setting x name ''cluster_flag'' (has_cluster p) (get_cluster_value x p) (cluster_trace x e p) s3) (\<lambda>s4.
     rbind (value_setting x name (has_base_lines_separation p) (get_base_lines_separation x p)
              (user_set_base_lines_separation e) s4) (\<lambda>s5.
     rbind (flag_setting x name ''no_text_in_traces_flag'' (has_no_text_in_traces p) (get_no_text_in_traces_flag x p)
              (user_no_text_in_traces e) s5) (\<lambda>s6.
     rbind (flag_setting x name ''do_not_show_unactive_boxes_flag'' (has_do_not_show_unactive_boxes p)
              (get_do_not_show_unactive_boxes_flag x p) (user_do_not_show_unactive_boxes e) s6) (\<lambda>s7.
     rbind (flag_setting x name ''do_not_show_schedulers_flag'' (has_do_not_show_schedulers p)
              (get_do_not_show_schedulers_flag x p) (user_do_not_show_schedulers e) s7) (\<lambda>s8.
     rbind (value_setting x name (has_set_scale p) (get_scale x p) (user_set_scale e) s8) (\<lambda>s9.
     rbind (flag_setting x name ''set_landscape_flag'' (has_set_landscape p) (get_landscape_flag x p)
              (user_set_landscape e) s9) (\<lambda>s10.
     flag_setting x name ''only_image_flag'' (has_only_image p) (get_only_image_flag x p) (user_only_image e) s10))))))))))"

definition getTiKZtraces :: "xml_front \<Rightarrow> xml_ptr list option" where
  "getTiKZtraces x = node_set_of x ''/system/kista_configuration/analysis/tikz_trace''"

definition ThereIsTiKZtraces :: "xml_front \<Rightarrow> bool" where
  "ThereIsTiKZtraces x = (getTiKZtraces x \<noteq> None)"

text \<open>A new trace is the last of the handlers; \<open>gen\<close> gives the unique names of the kernel.\<close>

definition new_trace :: "(nat \<Rightarrow> string \<Rightarrow> string) \<Rightarrow> string option \<Rightarrow> tikz_trace list \<Rightarrow> tikz_trace list" where
  "new_trace gen name hs =
     (case name of
        None \<Rightarrow> create_tikz_activity_trace_unnamed (gen (length hs)) hs
      | Some n \<Rightarrow> create_tikz_activity_trace n hs)"

text \<open>The loop ends at the first trace that is not enabled.\<close>

fun create_tikz_traces ::
    "xml_front \<Rightarrow> sim_env \<Rightarrow> (nat \<Rightarrow> string \<Rightarrow> string) \<Rightarrow> xml_ptr list \<Rightarrow> tikz_trace list \<times> string list
       \<Rightarrow> (tikz_trace list \<times> string list) result" where
  "create_tikz_traces x e gen [] s = Inr s"
| "create_tikz_traces x e gen (p # ps) (hs, seen) =
     rbind (xmlGetValueGen x p ''enabled'') (\<lambda>v.
       if v \<noteq> Some ''true'' then Inr (hs, seen)
       else
         rbind (xmlGetValueGen x p ''name'') (\<lambda>name.
         let hs1 = new_trace gen name hs in
         rbind (configure_tikz_trace x e p name (last hs1, seen)) (\<lambda>(t, seen1).
         create_tikz_traces x e gen ps (butlast hs1 @ [t], seen1))))"

definition xml_create_tikz_activity_trace ::
    "xml_front \<Rightarrow> sim_env \<Rightarrow> (nat \<Rightarrow> string \<Rightarrow> string) \<Rightarrow> tikz_trace list \<Rightarrow> (bool \<times> tikz_trace list) result" where
  "xml_create_tikz_activity_trace x e gen hs =
     (case getTiKZtraces x of
        None \<Rightarrow> Inr (False, hs)
      | Some ps \<Rightarrow> rmap (\<lambda>(hs1, _). (True, hs1)) (create_tikz_traces x e gen ps (hs, [])))"

text \<open>In \<open>sc_main\<close> the traces are configured in the condition of a message, so only in a verbose run.\<close>

definition report_traces ::
    "xml_front \<Rightarrow> sim_env \<Rightarrow> (nat \<Rightarrow> string \<Rightarrow> string) \<Rightarrow> tikz_trace list \<Rightarrow> tikz_trace list result" where
  "report_traces x e gen hs =
     (if global_kista_xml_verbosity x then rmap snd (xml_create_tikz_activity_trace x e gen hs) else Inr hs)"

subsection \<open>The sketch and the reports of a run\<close>

text \<open>
  The options of the description, as their functions return them; that of the name of the file is null when it
  is not used. The boxes of the applications and the platform are asked for only without that of the system.
\<close>

record sketch_options =
  opt_conn_names :: bool
  opt_environment :: bool
  opt_system :: bool
  opt_application :: bool
  opt_platform :: bool
  opt_only_image :: bool
  opt_scale :: "string option"

definition on_demand :: "bool \<Rightarrow> ('k \<Rightarrow> 'k result) \<Rightarrow> 'k \<Rightarrow> 'k result" where
  "on_demand b f k = (if b then f k else Inr k)"

definition enable_sketch :: "sim_env \<Rightarrow> string option \<Rightarrow> sketch_options \<Rightarrow> sketch \<Rightarrow> sketch result" where
  "enable_sketch e file ops k =
     rbind (on_demand (opt_conn_names ops) (draw_sys_level_conn e)
              (sketch_enable (case file of None \<Rightarrow> k | Some f \<Rightarrow> set_file_name f k))) (\<lambda>k1.
     rbind (on_demand (opt_environment ops) (highlight_environment e) k1) (\<lambda>k2.
     rbind (if opt_system ops then highlight_system e k2
            else rbind (on_demand (opt_application ops) (highlight_application e) k2)
                   (on_demand (opt_platform ops) (highlight_platform e))) (\<lambda>k3.
     rbind (on_demand (opt_only_image ops) (sketch_only e) k3) (\<lambda>k4.
     case opt_scale ops of None \<Rightarrow> Inr k4 | Some s \<Rightarrow> sketch_set_scale e (atof s) k4))))"

record run_reports =
  rr_sketch :: sketch
  rr_monitor :: functionality_monitor
  rr_stop_exploration :: bool
  rr_energy :: energy_globals

definition enable_energy :: "xml_front \<Rightarrow> sim_env \<Rightarrow> power_probe \<Rightarrow> energy_globals \<Rightarrow> energy_globals result" where
  "enable_energy x e raw g =
     rbind (enable_energy_and_power_measurement raw e g) (\<lambda>g1.
     rbind (get_configured_global_power_averaging_time x (10 ^ 12)) (\<lambda>(b, t).
     if b then set_global_power_averaging_time e t g1 else Inr g1))"

definition configure_reports ::
    "xml_front \<Rightarrow> sim_env \<Rightarrow> power_probe \<Rightarrow> bool \<Rightarrow> string option \<Rightarrow> sketch_options \<Rightarrow> bool \<Rightarrow> bool \<Rightarrow> bool
       \<Rightarrow> run_reports \<Rightarrow> run_reports result" where
  "configure_reports x e raw export file ops functional fatal energy r =
     rbind (on_demand export (enable_sketch e file ops) (rr_sketch r)) (\<lambda>k.
     rbind (on_demand functional (enable_functional_validation e) (rr_monitor r)) (\<lambda>m.
     rmap (\<lambda>g. \<lparr>rr_sketch = k, rr_monitor = m, rr_stop_exploration = fatal, rr_energy = g\<rparr>)
       (on_demand energy (enable_energy x e raw) (rr_energy r))))"

subsection \<open>Validation against a schema\<close>

text \<open>
  The functions of libxml2 for schemas, each of which may give a null pointer, are parameters; \<open>released\<close> is
  what is freed, in order.
\<close>

record 'o schema_lib =
  read_schema :: "string \<Rightarrow> 'o option"
  new_parser_context :: "'o \<Rightarrow> 'o option"
  parse_schema :: "'o \<Rightarrow> 'o option"
  new_valid_context :: "'o \<Rightarrow> 'o option"
  validate_doc :: "'o \<Rightarrow> xml_node \<Rightarrow> int"

definition validation :: "'o schema_lib \<Rightarrow> xml_node \<Rightarrow> string \<Rightarrow> int \<times> 'o list" where
  "validation l doc schema_filename =
     (case read_schema l schema_filename of
        None \<Rightarrow> (- 1, [])
      | Some d \<Rightarrow>
          (case new_parser_context l d of
             None \<Rightarrow> (- 2, [d])
           | Some c \<Rightarrow>
               (case parse_schema l c of
                  None \<Rightarrow> (- 3, [c, d])
                | Some s \<Rightarrow>
                    (case new_valid_context l s of
                       None \<Rightarrow> (- 4, [s, c, d])
                     | Some v \<Rightarrow> (if validate_doc l v doc = 0 then 1 else 0, [v, s, c, d])))))"

definition xml_validation_vs_kista_schema :: "xml_node \<Rightarrow> int result" where
  "xml_validation_vs_kista_schema doc = undef ''missing return value''"

end
