(* ===== verification/Xml_Analysis_Props.thy ===== *)
theory Xml_Analysis_Props
  imports Xml_Analysis Xml_Platform_Props
begin

text \<open>
  What a description configures: the traces, with each setting from its element, the traces of schedulers,
  the sketch, and the validation, which releases what it acquires.
\<close>

subsection \<open>Settings\<close>

text \<open>A value is the one read from an element, or the default without the element.\<close>

definition given :: "bool \<Rightarrow> 'v result \<Rightarrow> 'v \<Rightarrow> 'v \<Rightarrow> bool" where
  "given present r d v = (if present then r = Inr v else v = d)"

definition turned :: "xml_front \<Rightarrow> xml_ptr \<Rightarrow> string \<Rightarrow> string \<Rightarrow> bool" where
  "turned x p n a = (case getFirstChild p n of None \<Rightarrow> False | Some c \<Rightarrow> xml_get_prop x c a = Some ''true'')"

lemma hasChild_getFirstChild: "hasChild p n \<longleftrightarrow> getFirstChild p n \<noteq> None"
  by (auto simp: hasChild_def getFirstChild_def list_ex_iff find_None_iff)

lemma child_flag_turned: "child_flag x p n a = Inr b \<Longrightarrow> b = turned x p n a"
  by (auto simp: child_flag_def child_or_error_def turned_def rmap_eq_Inr split: option.splits)

lemma value_setting_effect:
  assumes "value_setting x name present v act (t, seen) = Inr (t', seen')"
    and "\<And>a t t'. act a t = Inr t' \<Longrightarrow> t' = upd a t" "upd (get t) t = t"
  shows "\<exists>a. t' = upd a t \<and> given present v (get t) a"
proof (cases present)
  case True
  with assms(1) obtain a where "v = Inr a" "act a t = Inr t'"
    by (auto simp: value_setting_def rbind_eq_Inr rmap_eq_Inr)
  with assms(2) True show ?thesis unfolding given_def by auto
next
  case False
  with assms(1) have "t' = t" by (auto simp: value_setting_def rmap_eq_Inr)
  with assms(3) False show ?thesis unfolding given_def by auto
qed

lemma flag_setting_effect:
  assumes "flag_setting x name var (hasChild p n) (child_flag x p n a) act (t, seen) = Inr (t', seen')"
  shows "if turned x p n a then act t = Inr t' else t' = t"
proof (cases "hasChild p n")
  case True
  with assms have "rbind (child_flag x p n a) (\<lambda>b. rmap (\<lambda>t. (t, var # seen)) (if b then act t else Inr t)) = Inr (t', seen')"
    by (simp add: flag_setting_def rbind_eq_Inr [where m = "rbind u w" for u w] rmap_eq_Inr [where f = "\<lambda>_. s" for s] cong del: if_weak_cong)
  then obtain b where b: "child_flag x p n a = Inr b" "(if b then act t else Inr t) = Inr t'"
    unfolding rbind_eq_Inr rmap_eq_Inr prod.inject by metis
  from child_flag_turned [OF b(1)] b(2) show ?thesis by (auto split: if_splits)
next
  case False
  then have "\<not> turned x p n a"
    by (cases "getFirstChild p n") (simp_all add: hasChild_getFirstChild turned_def)
  moreover have "t' = t" using assms False by (simp add: flag_setting_def rmap_eq_Inr)
  ultimately show ?thesis by simp
qed

subsection \<open>A described trace\<close>

text \<open>
  The settings of a trace, on top of those of a new one. Schedulers are always shown: the option not to show
  them sets the landscape format.
\<close>

definition trace_described :: "xml_front \<Rightarrow> xml_ptr \<Rightarrow> tikz_trace \<Rightarrow> bool" where
  "trace_described x p t =
     (given (hasChild p ''start_time'') (get_start_time x p) 0 (ttikz_start_trace_time t)
      \<and> given (hasChild p ''max_number_of_time_stamps'') (get_max_number_of_time_stamps x p) 15 (ttikz_max_n_time_stamps t)
      \<and> given (hasChild p ''time_stamps_max_separation'') (get_time_stamps_max_separation x p) 1 (time_stamps_max_separation t)
      \<and> given (hasChild p ''base_lines_separation'') (get_base_lines_separation x p) 1 (base_lines_separation t)
      \<and> given (hasChild p ''set_scale'') (get_scale x p) (Fin 1) (ttikz_trace_scale t)
      \<and> clustered_style t = turned x p ''cluster'' ''value''
      \<and> compact_style t = (turned x p ''cluster'' ''value'' \<and> turned x p ''cluster'' ''compact'')
      \<and> show_text_in_traces t = (\<not> turned x p ''no_text_in_traces'' ''value'')
      \<and> show_unactive_boxes t = (\<not> turned x p ''do_not_show_unactive_boxes'' ''value'')
      \<and> show_schedulers_activity t
      \<and> ttikz_trace_landscape t =
          (turned x p ''set_landscape'' ''value'' \<or> turned x p ''do_not_show_schedulers'' ''value'')
      \<and> only_image_flag t = turned x p ''only_image'' ''value'')"

text \<open>Each flag as the update of its field.\<close>

lemmas flag_settings =
  get_cluster_value_def get_cluster_compact_def get_no_text_in_traces_flag_def get_do_not_show_unactive_boxes_flag_def
  get_do_not_show_schedulers_flag_def get_landscape_flag_def get_only_image_flag_def has_cluster_def
  has_no_text_in_traces_def has_do_not_show_unactive_boxes_def has_do_not_show_schedulers_def has_set_landscape_def
  has_only_image_def

lemma user_effects:
  "user_set_start_time e a t = Inr t' \<Longrightarrow> t' = t\<lparr>ttikz_start_trace_time := a\<rparr>"
  "user_set_max_number_of_time_stamps e n t = Inr t' \<Longrightarrow> t' = t\<lparr>ttikz_max_n_time_stamps := n\<rparr>"
  "user_set_time_stamps_max_separation e n t = Inr t' \<Longrightarrow> t' = t\<lparr>time_stamps_max_separation := n\<rparr>"
  "user_set_base_lines_separation e n t = Inr t' \<Longrightarrow> t' = t\<lparr>base_lines_separation := n\<rparr>"
  "user_set_scale e d t = Inr t' \<Longrightarrow> t' = t\<lparr>ttikz_trace_scale := d\<rparr>"
  "user_cluster e t = Inr t' \<Longrightarrow> t' = t\<lparr>clustered_style := True\<rparr>"
  "user_compact e t = Inr t' \<Longrightarrow> t' = t\<lparr>compact_style := True\<rparr>"
  "user_no_text_in_traces e t = Inr t' \<Longrightarrow> t' = t\<lparr>show_text_in_traces := False\<rparr>"
  "user_do_not_show_unactive_boxes e t = Inr t' \<Longrightarrow> t' = t\<lparr>show_unactive_boxes := False\<rparr>"
  "user_do_not_show_schedulers e t = Inr t' \<Longrightarrow> t' = t\<lparr>ttikz_trace_landscape := True\<rparr>"
  "user_set_landscape e t = Inr t' \<Longrightarrow> t' = t\<lparr>ttikz_trace_landscape := True\<rparr>"
  "user_only_image e t = Inr t' \<Longrightarrow> t' = t\<lparr>only_image_flag := True\<rparr>"
  by (auto simp: user_set_start_time_def user_set_max_number_of_time_stamps_def user_set_time_stamps_max_separation_def
      user_set_base_lines_separation_def user_set_scale_def user_cluster_def user_compact_def user_no_text_in_traces_def
      user_do_not_show_unactive_boxes_def user_do_not_show_schedulers_def user_set_landscape_def user_only_image_def
      tikz_set_start_time_def tikz_set_max_number_of_time_stamps_def tikz_set_time_stamps_max_separation_def
      tikz_set_base_lines_separation_def tikz_set_scale_def tikz_cluster_def tikz_compact_def tikz_no_text_in_traces_def
      tikz_do_not_show_unactive_boxes_def tikz_set_landscape_def tikz_only_image_def rbind_eq_Inr rmap_eq_Inr)

lemma cluster_effect:
  assumes "cluster_trace x e p t = Inr t'"
  shows "t' = t\<lparr>clustered_style := True, compact_style := turned x p ''cluster'' ''compact'' \<or> compact_style t\<rparr>"
proof -
  from assms have "\<exists>t1 c. user_cluster e t = Inr t1 \<and> child_flag x p ''cluster'' ''compact'' = Inr c
      \<and> (if c then user_compact e t1 else Inr t1) = Inr t'"
    unfolding cluster_trace_def get_cluster_compact_def rbind_eq_Inr by blast
  then obtain t1 c where t1: "user_cluster e t = Inr t1" "child_flag x p ''cluster'' ''compact'' = Inr c"
    "(if c then user_compact e t1 else Inr t1) = Inr t'" by blast
  show ?thesis using user_effects(6) [OF t1(1)] child_flag_turned [OF t1(2)] t1(3) user_effects(7) [of e t1 t']
    by (cases c) auto
qed

text \<open>Each step as the update of its field.\<close>

lemma value_steps:
  "value_setting x name (has_start_time p) (get_start_time x p) (user_set_start_time e) (t, seen) = Inr (t', seen')
    \<Longrightarrow> \<exists>a. t' = t\<lparr>ttikz_start_trace_time := a\<rparr>
      \<and> given (hasChild p ''start_time'') (get_start_time x p) (ttikz_start_trace_time t) a"
  "value_setting x name (has_max_number_of_time_stamps p) (get_max_number_of_time_stamps x p)
      (user_set_max_number_of_time_stamps e) (t, seen) = Inr (t', seen')
    \<Longrightarrow> \<exists>a. t' = t\<lparr>ttikz_max_n_time_stamps := a\<rparr> \<and> given (hasChild p ''max_number_of_time_stamps'')
      (get_max_number_of_time_stamps x p) (ttikz_max_n_time_stamps t) a"
  "value_setting x name (has_time_stamps_max_separation p) (get_time_stamps_max_separation x p)
      (user_set_time_stamps_max_separation e) (t, seen) = Inr (t', seen')
    \<Longrightarrow> \<exists>a. t' = t\<lparr>time_stamps_max_separation := a\<rparr> \<and> given (hasChild p ''time_stamps_max_separation'')
      (get_time_stamps_max_separation x p) (time_stamps_max_separation t) a"
  "value_setting x name (has_base_lines_separation p) (get_base_lines_separation x p)
      (user_set_base_lines_separation e) (t, seen) = Inr (t', seen')
    \<Longrightarrow> \<exists>a. t' = t\<lparr>base_lines_separation := a\<rparr> \<and> given (hasChild p ''base_lines_separation'')
      (get_base_lines_separation x p) (base_lines_separation t) a"
  "value_setting x name (has_set_scale p) (get_scale x p) (user_set_scale e) (t, seen) = Inr (t', seen')
    \<Longrightarrow> \<exists>a. t' = t\<lparr>ttikz_trace_scale := a\<rparr> \<and> given (hasChild p ''set_scale'') (get_scale x p) (ttikz_trace_scale t) a"
  unfolding has_start_time_def has_max_number_of_time_stamps_def has_time_stamps_max_separation_def
    has_base_lines_separation_def has_set_scale_def
  by (rule value_setting_effect [where upd = "\<lambda>a t. t\<lparr>ttikz_start_trace_time := a\<rparr>"] value_setting_effect
      [where upd = "\<lambda>a t. t\<lparr>ttikz_max_n_time_stamps := a\<rparr>"] value_setting_effect
      [where upd = "\<lambda>a t. t\<lparr>time_stamps_max_separation := a\<rparr>"] value_setting_effect
      [where upd = "\<lambda>a t. t\<lparr>base_lines_separation := a\<rparr>"] value_setting_effect
      [where upd = "\<lambda>a t. t\<lparr>ttikz_trace_scale := a\<rparr>"]; (assumption | erule user_effects | simp))+

lemma flag_steps:
  "flag_setting x name v (has_cluster p) (get_cluster_value x p) (cluster_trace x e p) (t, seen) = Inr (t', seen')
    \<Longrightarrow> t' = t\<lparr>clustered_style := turned x p ''cluster'' ''value'' \<or> clustered_style t,
        compact_style := (turned x p ''cluster'' ''value'' \<and> turned x p ''cluster'' ''compact'') \<or> compact_style t\<rparr>"
  "flag_setting x name v (has_no_text_in_traces p) (get_no_text_in_traces_flag x p) (user_no_text_in_traces e) (t, seen) = Inr (t', seen')
    \<Longrightarrow> t' = t\<lparr>show_text_in_traces := \<not> turned x p ''no_text_in_traces'' ''value'' \<and> show_text_in_traces t\<rparr>"
  "flag_setting x name v (has_do_not_show_unactive_boxes p) (get_do_not_show_unactive_boxes_flag x p)
      (user_do_not_show_unactive_boxes e) (t, seen) = Inr (t', seen')
    \<Longrightarrow> t' = t\<lparr>show_unactive_boxes := \<not> turned x p ''do_not_show_unactive_boxes'' ''value'' \<and> show_unactive_boxes t\<rparr>"
  "flag_setting x name v (has_do_not_show_schedulers p) (get_do_not_show_schedulers_flag x p)
      (user_do_not_show_schedulers e) (t, seen) = Inr (t', seen')
    \<Longrightarrow> t' = t\<lparr>ttikz_trace_landscape := turned x p ''do_not_show_schedulers'' ''value'' \<or> ttikz_trace_landscape t\<rparr>"
  "flag_setting x name v (has_set_landscape p) (get_landscape_flag x p) (user_set_landscape e) (t, seen) = Inr (t', seen')
    \<Longrightarrow> t' = t\<lparr>ttikz_trace_landscape := turned x p ''set_landscape'' ''value'' \<or> ttikz_trace_landscape t\<rparr>"
  "flag_setting x name v (has_only_image p) (get_only_image_flag x p) (user_only_image e) (t, seen) = Inr (t', seen')
    \<Longrightarrow> t' = t\<lparr>only_image_flag := turned x p ''only_image'' ''value'' \<or> only_image_flag t\<rparr>"
  unfolding flag_settings
  by (drule flag_setting_effect; force split: if_splits dest: cluster_effect user_effects)+

lemma configure_steps:
  assumes "configure_tikz_trace x e p name (t0, seen) = Inr (t, seen')"
  obtains t1 v1 t2 v2 t3 v3 t4 v4 t5 v5 t6 v6 t7 v7 t8 v8 t9 v9 t10 v10 where
    "value_setting x name (has_start_time p) (get_start_time x p) (user_set_start_time e) (t0, seen) = Inr (t1, v1)"
    "value_setting x name (has_max_number_of_time_stamps p) (get_max_number_of_time_stamps x p)
          (user_set_max_number_of_time_stamps e) (t1, v1) = Inr (t2, v2)"
    "value_setting x name (has_time_stamps_max_separation p) (get_time_stamps_max_separation x p)
          (user_set_time_stamps_max_separation e) (t2, v2) = Inr (t3, v3)"
    "flag_setting x name ''cluster_flag'' (has_cluster p) (get_cluster_value x p) (cluster_trace x e p) (t3, v3) = Inr (t4, v4)"
    "value_setting x name (has_base_lines_separation p) (get_base_lines_separation x p)
          (user_set_base_lines_separation e) (t4, v4) = Inr (t5, v5)"
    "flag_setting x name ''no_text_in_traces_flag'' (has_no_text_in_traces p) (get_no_text_in_traces_flag x p)
          (user_no_text_in_traces e) (t5, v5) = Inr (t6, v6)"
    "flag_setting x name ''do_not_show_unactive_boxes_flag'' (has_do_not_show_unactive_boxes p)
          (get_do_not_show_unactive_boxes_flag x p) (user_do_not_show_unactive_boxes e) (t6, v6) = Inr (t7, v7)"
    "flag_setting x name ''do_not_show_schedulers_flag'' (has_do_not_show_schedulers p)
          (get_do_not_show_schedulers_flag x p) (user_do_not_show_schedulers e) (t7, v7) = Inr (t8, v8)"
    "value_setting x name (has_set_scale p) (get_scale x p) (user_set_scale e) (t8, v8) = Inr (t9, v9)"
    "flag_setting x name ''set_landscape_flag'' (has_set_landscape p) (get_landscape_flag x p)
          (user_set_landscape e) (t9, v9) = Inr (t10, v10)"
    "flag_setting x name ''only_image_flag'' (has_only_image p) (get_only_image_flag x p) (user_only_image e) (t10, v10) = Inr (t, seen')"
  using assms unfolding configure_tikz_trace_def rbind_eq_Inr split_paired_Ex by blast

lemma configured_trace:
  assumes "configure_tikz_trace x e p name (new_tikz_trace n, seen) = Inr (t, seen')"
  shows "trace_described x p t \<and> ttikz_file_name t = n @ ''.tex''"
proof -
  let ?t0 = "new_tikz_trace n"
  obtain t1 v1 t2 v2 t3 v3 t4 v4 t5 v5 t6 v6 t7 v7 t8 v8 t9 v9 t10 v10 where
    1: "value_setting x name (has_start_time p) (get_start_time x p) (user_set_start_time e) (?t0, seen) = Inr (t1, v1)" and
    2: "value_setting x name (has_max_number_of_time_stamps p) (get_max_number_of_time_stamps x p)
          (user_set_max_number_of_time_stamps e) (t1, v1) = Inr (t2, v2)" and
    3: "value_setting x name (has_time_stamps_max_separation p) (get_time_stamps_max_separation x p)
          (user_set_time_stamps_max_separation e) (t2, v2) = Inr (t3, v3)" and
    4: "flag_setting x name ''cluster_flag'' (has_cluster p) (get_cluster_value x p) (cluster_trace x e p) (t3, v3) = Inr (t4, v4)" and
    5: "value_setting x name (has_base_lines_separation p) (get_base_lines_separation x p)
          (user_set_base_lines_separation e) (t4, v4) = Inr (t5, v5)" and
    6: "flag_setting x name ''no_text_in_traces_flag'' (has_no_text_in_traces p) (get_no_text_in_traces_flag x p)
          (user_no_text_in_traces e) (t5, v5) = Inr (t6, v6)" and
    7: "flag_setting x name ''do_not_show_unactive_boxes_flag'' (has_do_not_show_unactive_boxes p)
          (get_do_not_show_unactive_boxes_flag x p) (user_do_not_show_unactive_boxes e) (t6, v6) = Inr (t7, v7)" and
    8: "flag_setting x name ''do_not_show_schedulers_flag'' (has_do_not_show_schedulers p)
          (get_do_not_show_schedulers_flag x p) (user_do_not_show_schedulers e) (t7, v7) = Inr (t8, v8)" and
    9: "value_setting x name (has_set_scale p) (get_scale x p) (user_set_scale e) (t8, v8) = Inr (t9, v9)" and
    10: "flag_setting x name ''set_landscape_flag'' (has_set_landscape p) (get_landscape_flag x p)
          (user_set_landscape e) (t9, v9) = Inr (t10, v10)" and
    11: "flag_setting x name ''only_image_flag'' (has_only_image p) (get_only_image_flag x p) (user_only_image e) (t10, v10) = Inr (t, seen')"
    by (rule configure_steps [OF assms]) (rule that)
  obtain a where a: "t1 = ?t0\<lparr>ttikz_start_trace_time := a\<rparr>"
    "given (hasChild p ''start_time'') (get_start_time x p) 0 a"
    using value_steps(1) [OF 1] by (auto simp: new_tikz_trace_def sc_time_ns_def)
  obtain b where b: "t2 = t1\<lparr>ttikz_max_n_time_stamps := b\<rparr>"
    "given (hasChild p ''max_number_of_time_stamps'') (get_max_number_of_time_stamps x p) 15 b"
    using value_steps(2) [OF 2] a by (auto simp: new_tikz_trace_def)
  obtain c where c: "t3 = t2\<lparr>time_stamps_max_separation := c\<rparr>"
    "given (hasChild p ''time_stamps_max_separation'') (get_time_stamps_max_separation x p) 1 c"
    using value_steps(3) [OF 3] a b by (auto simp: new_tikz_trace_def)
  note t4 = flag_steps(1) [OF 4]
  obtain d where d: "t5 = t4\<lparr>base_lines_separation := d\<rparr>"
    "given (hasChild p ''base_lines_separation'') (get_base_lines_separation x p) 1 d"
    using value_steps(4) [OF 5] a b c t4 by (auto simp: new_tikz_trace_def)
  note t8 = flag_steps(2) [OF 6] flag_steps(3) [OF 7] flag_steps(4) [OF 8]
  obtain s where s: "t9 = t8\<lparr>ttikz_trace_scale := s\<rparr>"
    "given (hasChild p ''set_scale'') (get_scale x p) (Fin 1) s"
    using value_steps(5) [OF 9] a b c t4 d t8 by (auto simp: new_tikz_trace_def)
  note t = flag_steps(5) [OF 10] flag_steps(6) [OF 11]
  show ?thesis unfolding trace_described_def
    using a(2) b(2) c(2) d(2) s(2) unfolding t s(1) t8 d(1) t4 c(1) b(1) a(1)
    by (simp add: new_tikz_trace_def)
qed

subsection \<open>The traces of a description\<close>

definition enabled_trace :: "xml_front \<Rightarrow> xml_ptr \<Rightarrow> bool" where
  "enabled_trace x p = (xmlGetValueGen x p ''enabled'' = Inr (Some ''true''))"

text \<open>The trace of a node, the \<open>i\<close>-th of all traces.\<close>

definition trace_of_node :: "xml_front \<Rightarrow> (nat \<Rightarrow> string \<Rightarrow> string) \<Rightarrow> nat \<Rightarrow> xml_ptr \<Rightarrow> tikz_trace \<Rightarrow> bool" where
  "trace_of_node x gen i p t =
     (trace_described x p t \<and> (\<exists>name. xmlGetValueGen x p ''name'' = Inr name
        \<and> ttikz_file_name t = (case name of None \<Rightarrow> gen i ''tikz_activity_trace'' | Some n \<Rightarrow> n) @ ''.tex''))"

fun traces_of_nodes :: "xml_front \<Rightarrow> (nat \<Rightarrow> string \<Rightarrow> string) \<Rightarrow> nat \<Rightarrow> xml_ptr list \<Rightarrow> tikz_trace list \<Rightarrow> bool" where
  "traces_of_nodes x gen i [] ts = (ts = [])"
| "traces_of_nodes x gen i (p # ps) ts =
     (case ts of [] \<Rightarrow> False | t # us \<Rightarrow> trace_of_node x gen i p t \<and> traces_of_nodes x gen (Suc i) ps us)"

lemma created_traces:
  "create_tikz_traces x e gen ps (hs, seen) = Inr (hs', seen') \<Longrightarrow>
    \<exists>ts. hs' = hs @ ts \<and> traces_of_nodes x gen (length hs) (takeWhile (enabled_trace x) ps) ts"
proof (induction ps arbitrary: hs seen)
  case (Cons p ps)
  obtain v where v: "xmlGetValueGen x p ''enabled'' = Inr v" using Cons.prems by (auto simp: rbind_eq_Inr)
  show ?case
  proof (cases "v = Some ''true''")
    case False
    then show ?thesis using Cons.prems v by (simp add: enabled_trace_def)
  next
    case True
    define n where "n = (\<lambda>name. case name of None \<Rightarrow> gen (length hs) ''tikz_activity_trace'' | Some n \<Rightarrow> n)"
    have new: "new_trace gen name hs = hs @ [new_tikz_trace (n name)]" for name
      by (simp add: new_trace_def n_def create_tikz_activity_trace_def create_tikz_activity_trace_unnamed_def split: option.splits)
    from Cons.prems v True obtain name t seen1 where
      name: "xmlGetValueGen x p ''name'' = Inr name"
      and t: "configure_tikz_trace x e p name (new_tikz_trace (n name), seen) = Inr (t, seen1)"
      and rest: "create_tikz_traces x e gen ps (hs @ [t], seen1) = Inr (hs', seen')"
      by (auto simp: rbind_eq_Inr new)
    from Cons.IH [OF rest] configured_trace [OF t] name v True show ?thesis
      by (auto simp: enabled_trace_def trace_of_node_def n_def)
  qed
qed simp


subsection \<open>The other analyses\<close>

text \<open>
  The functions that look the options of the analyses up have no return statement, so no description lets the
  configuration of the analysis finish.
\<close>

theorem analysis_never_configured: "configure_kista_analysis x e scheds s \<noteq> Inr r"
  by (auto simp: configure_kista_analysis_def get_configured_static_sched_analysis_def no_return_def rbind_eq_Inr undef_def)

text \<open>The traces of schedulers: one of a known scheduler for each element, with its file or the default one.\<close>

theorem described_scheduler_traces:
  assumes "getTraceRTOS x = Some ps" "trace_schedulers x scheds = Inr ts"
  shows "list_all2 (\<lambda>p t. fst t \<in> set scheds \<and> xmlGetValueGen x p ''name'' = Inr (Some (fst t))
      \<and> (\<exists>f. xmlGetValueGen x p ''file'' = Inr f \<and> snd t = (case f of None \<Rightarrow> fst t @ ''_trace'' | Some n \<Rightarrow> n))) ps ts"
proof -
  have "trace_each_RTOS x scheds ps = Inr ts" using assms by (simp add: trace_schedulers_def)
  then show ?thesis
  proof (induction ps arbitrary: ts)
    case (Cons p ps)
    then obtain t us where t: "trace_RTOS x scheds p = Inr t" and us: "trace_each_RTOS x scheds ps = Inr us" "ts = t # us"
      by (auto simp: rbind_eq_Inr rmap_eq_Inr)
    from t obtain n f where "xmlGetValueGen x p ''name'' = Inr (Some n)" "xmlGetValueGen x p ''file'' = Inr f"
      "n \<in> set scheds" "t = utilization_trace n f"
      by (auto simp: trace_RTOS_def rbind_eq_Inr report_def undef_def split: option.splits if_splits)
    then show ?case using Cons.IH [OF us(1)] us(2) by (cases f) (auto simp: utilization_trace_def)
  qed simp
qed

subsection \<open>The sketch of a description\<close>

text \<open>Before the simulation every option is taken, those of the parts only without the whole system.\<close>

theorem sketch_options_taken:
  assumes "before_sim e"
  shows "enable_sketch e fn ops k = Inr (k\<lparr>
      sketch_file_name := (case fn of None \<Rightarrow> sketch_file_name k | Some f \<Rightarrow> f @ ''.tex''),
      sketch_content := Some '''', sketch_enabled := True,
      with_sys_level_conn_names := opt_conn_names ops \<or> with_sys_level_conn_names k,
      environment_box := opt_environment ops \<or> environment_box k, system_box := opt_system ops \<or> system_box k,
      application_box := (\<not> opt_system ops \<and> opt_application ops) \<or> application_box k,
      platform_box := (\<not> opt_system ops \<and> opt_platform ops) \<or> platform_box k,
      sketch_only_image := opt_only_image ops \<or> sketch_only_image k,
      sketch_scale := (case opt_scale ops of None \<Rightarrow> sketch_scale k | Some s \<Rightarrow> atof s)\<rparr>)"
proof -
  have ok: "check_call_before_sim_start e n = Inr ()" for n
    using rbind_before [of e n Inr] assms by simp
  note defs = on_demand_def draw_sys_level_conn_def highlight_environment_def highlight_system_def
    highlight_application_def highlight_platform_def sketch_only_def sketch_set_scale_def ok
  show ?thesis
    by (cases fn; cases "opt_scale ops"; cases "opt_system ops")
      (auto simp: enable_sketch_def defs sketch_enable_def set_file_name_def)
qed

subsection \<open>The validation\<close>

text \<open>What each function gives is released, the last first, and the result tells how far it came.\<close>

fun acquired :: "'o schema_lib \<Rightarrow> string \<Rightarrow> 'o list \<Rightarrow> bool" where
  "acquired l f [] = (read_schema l f = None)"
| "acquired l f [d] = (read_schema l f = Some d \<and> new_parser_context l d = None)"
| "acquired l f [d, c] = (read_schema l f = Some d \<and> new_parser_context l d = Some c \<and> parse_schema l c = None)"
| "acquired l f [d, c, s] =
     (read_schema l f = Some d \<and> new_parser_context l d = Some c \<and> parse_schema l c = Some s \<and> new_valid_context l s = None)"
| "acquired l f [d, c, s, v] =
     (read_schema l f = Some d \<and> new_parser_context l d = Some c \<and> parse_schema l c = Some s \<and> new_valid_context l s = Some v)"
| "acquired l f _ = False"

theorem validation_releases:
  "\<exists>os. acquired l f os \<and> snd (validation l doc f) = rev os
     \<and> fst (validation l doc f) = (if length os = 4 then (if validate_doc l (last os) doc = 0 then 1 else 0) else - 1 - int (length os))"
proof (cases "read_schema l f")
  case None
  then have "acquired l f []" by simp
  with None show ?thesis by (intro exI [of _ "[]"]) (simp add: validation_def)
next
  case d: (Some d)
  show ?thesis
  proof (cases "new_parser_context l d")
    case None
    with d show ?thesis by (intro exI [of _ "[d]"]) (simp add: validation_def)
  next
    case c: (Some c)
    show ?thesis
    proof (cases "parse_schema l c")
      case None
      with d c show ?thesis by (intro exI [of _ "[d, c]"]) (simp add: validation_def)
    next
      case s: (Some s)
      show ?thesis
      proof (cases "new_valid_context l s")
        case None
        with d c s show ?thesis by (intro exI [of _ "[d, c, s]"]) (simp add: validation_def)
      next
        case v: (Some v)
        with d c s show ?thesis by (intro exI [of _ "[d, c, s, v]"]) (simp add: validation_def)
      qed
    qed
  qed
qed

text \<open>
  A verbose run appends the name of each trace to messages and reads the variables of all flags, so the first
  trace must have a name and an element for each flag.
\<close>

lemma verbose_value:
  assumes "global_kista_xml_verbosity x" "value_setting x name b r act (t, seen) = Inr (t', seen')"
  shows "name \<noteq> None \<and> seen' = seen"
  using assms by (cases b) (auto simp: value_setting_def shown_def rbind_eq_Inr rmap_eq_Inr undef_def split: if_splits)

lemma verbose_flag:
  assumes "global_kista_xml_verbosity x" "flag_setting x name var b r act (t, seen) = Inr (t', seen')"
  shows "seen' = (if b then var # seen else seen) \<and> var \<in> set seen'"
proof (cases b)
  case True
  then have "seen' = var # seen"
    using assms(2) by (cases r) (auto simp: flag_setting_def rbind_eq_Inr [where f = "\<lambda>s. rmap (g s) (h s)" for g h] rmap_eq_Inr)
  with True show ?thesis by simp
next
  case False
  with assms have "flag_message x name var seen = Inr ()" "seen' = seen"
    by (auto simp: flag_setting_def rmap_eq_Inr)
  then show ?thesis using assms(1) False by (auto simp: flag_message_def rbind_eq_Inr undef_def split: if_splits)
qed

theorem verbose_traces_complete:
  assumes "global_kista_xml_verbosity x" "configure_tikz_trace x e p name (t0, []) = Inr (t, seen')"
  shows "name \<noteq> None \<and> has_cluster p \<and> has_no_text_in_traces p \<and> has_do_not_show_unactive_boxes p
    \<and> has_do_not_show_schedulers p \<and> has_set_landscape p \<and> has_only_image p"
proof (rule configure_steps [OF assms(2)])
  note val = verbose_value [OF assms(1)] and flag = verbose_flag [OF assms(1)]
  fix t1 v1 t2 v2 t3 v3 t4 v4 t5 v5 t6 v6 t7 v7 t8 v8 t9 v9 t10 v10
  assume 1: "value_setting x name (has_start_time p) (get_start_time x p) (user_set_start_time e) (t0, []) = Inr (t1, v1)"
    and 2: "value_setting x name (has_max_number_of_time_stamps p) (get_max_number_of_time_stamps x p)
          (user_set_max_number_of_time_stamps e) (t1, v1) = Inr (t2, v2)"
    and 3: "value_setting x name (has_time_stamps_max_separation p) (get_time_stamps_max_separation x p)
          (user_set_time_stamps_max_separation e) (t2, v2) = Inr (t3, v3)"
    and 4: "flag_setting x name ''cluster_flag'' (has_cluster p) (get_cluster_value x p) (cluster_trace x e p) (t3, v3) = Inr (t4, v4)"
    and 5: "value_setting x name (has_base_lines_separation p) (get_base_lines_separation x p)
          (user_set_base_lines_separation e) (t4, v4) = Inr (t5, v5)"
    and 6: "flag_setting x name ''no_text_in_traces_flag'' (has_no_text_in_traces p) (get_no_text_in_traces_flag x p)
          (user_no_text_in_traces e) (t5, v5) = Inr (t6, v6)"
    and 7: "flag_setting x name ''do_not_show_unactive_boxes_flag'' (has_do_not_show_unactive_boxes p)
          (get_do_not_show_unactive_boxes_flag x p) (user_do_not_show_unactive_boxes e) (t6, v6) = Inr (t7, v7)"
    and 8: "flag_setting x name ''do_not_show_schedulers_flag'' (has_do_not_show_schedulers p)
          (get_do_not_show_schedulers_flag x p) (user_do_not_show_schedulers e) (t7, v7) = Inr (t8, v8)"
    and 9: "value_setting x name (has_set_scale p) (get_scale x p) (user_set_scale e) (t8, v8) = Inr (t9, v9)"
    and 10: "flag_setting x name ''set_landscape_flag'' (has_set_landscape p) (get_landscape_flag x p)
          (user_set_landscape e) (t9, v9) = Inr (t10, v10)"
    and 11: "flag_setting x name ''only_image_flag'' (has_only_image p) (get_only_image_flag x p) (user_only_image e) (t10, v10) = Inr (t, seen')"
  note v = val [OF 1] val [OF 2] val [OF 3] val [OF 5] val [OF 9]
    and f = flag [OF 4] flag [OF 6] flag [OF 7] flag [OF 8] flag [OF 10] flag [OF 11]
  show ?thesis using v f by (auto split: if_splits)
qed

subsection \<open>A description with traces\<close>

definition trace_node :: "string \<Rightarrow> xml_node list \<Rightarrow> xml_node" where
  "trace_node enabled cs = Xml_Node ''tikz_trace'' [(''enabled'', enabled), (''name'', ''activity'')] cs"

definition traced_nodes :: "xml_node list" where
  "traced_nodes =
     [trace_node ''true'' [Xml_Node ''cluster'' [(''value'', ''true'')] [],
                            Xml_Node ''do_not_show_schedulers'' [(''value'', ''true'')] []],
      trace_node ''false'' [], trace_node ''true'' []]"

definition analysis_node :: xml_node where
  "analysis_node = Xml_Node ''analysis'' [] traced_nodes"

definition configuration_node :: xml_node where
  "configuration_node = Xml_Node ''kista_configuration'' [] [analysis_node]"

definition traced_system :: xml_node where
  "traced_system = Xml_Node ''system'' [] [configuration_node]"

definition traced_ptrs :: "xml_ptr list" where
  "traced_ptrs = map (\<lambda>n. (n, [analysis_node, configuration_node, traced_system])) traced_nodes"

lemma traced_set: "getTiKZtraces (front_example traced_system) = Some traced_ptrs"
  by (simp add: getTiKZtraces_def node_set_of_def getNodeSet_def front_example_sel tree_lib_def set_nodes_def
      sysconf_path_def absolute_nodes_def traced_system_def xml_children_def ptr_name_def configuration_node_def
      analysis_node_def traced_nodes_def traced_ptrs_def trace_node_def)

lemma traced_value: "xmlGetValueGen (front_example traced_system) p a =
    (case map_of (node_props (fst p)) a of None \<Rightarrow> Inr None
     | Some v \<Rightarrow> if is_reference v then rmap Some (scalar_parameter (front_example traced_system) (tl v)) else Inr (Some v))"
  by (simp add: xmlGetValueGen_def front_example_sel tree_lib_def)

lemma traced_prop: "xml_get_prop (front_example traced_system) p a = map_of (node_props (fst p)) a"
  by (simp add: front_example_sel tree_lib_def)

definition elaboration :: sim_env where
  "elaboration = \<lparr>sc_status = SC_ELABORATION, sc_running = False, sc_now = 0\<rparr>"

lemma elaboration_call [simp]: "check_call_at_elaboration elaboration n = Inr ()"
  by (simp add: check_call_at_elaboration_def elaboration_def)

lemma traced_child:
  "hasChild (hd traced_ptrs) n \<longleftrightarrow> n = ''cluster'' \<or> n = ''do_not_show_schedulers''"
  "getFirstChild (hd traced_ptrs) n =
     (if n = ''cluster'' then Some (Xml_Node ''cluster'' [(''value'', ''true'')] [], fst (hd traced_ptrs) # snd (hd traced_ptrs))
      else if n = ''do_not_show_schedulers''
        then Some (Xml_Node ''do_not_show_schedulers'' [(''value'', ''true'')] [], fst (hd traced_ptrs) # snd (hd traced_ptrs))
      else None)"
  by (auto simp: hasChild_def getFirstChild_def traced_ptrs_def traced_nodes_def trace_node_def xml_children_def ptr_name_def)

lemma traced_configured:
  "\<exists>t s. configure_tikz_trace (front_example traced_system) elaboration (hd traced_ptrs) (Some ''activity'')
     (new_tikz_trace ''activity'', []) = Inr (t, s)"
  by (simp add: configure_tikz_trace_def value_setting_def flag_setting_def flag_message_def shown_def front_example_sel(6)
      has_start_time_def has_max_number_of_time_stamps_def has_time_stamps_max_separation_def has_base_lines_separation_def
      has_set_scale_def flag_settings child_flag_def child_or_error_def traced_child traced_prop cluster_trace_def
      user_cluster_def user_do_not_show_schedulers_def)


end
