(* ===== verification/Spec2Isabelle.thy ===== *)
theory Spec2Isabelle
  imports Sim_Phase Task_FSM Static_Analysis Dispatch_Contract Scheduler_Props User_Constructs
    Load_Analysis Throughput_Monitor Scheduler_Elab TDMA_Slots Hardware_Props Shared_Bus Messages
    Fifo_Elab Shared_Var Energy_Power Tikz_Export Xml_Command Xml_Software_Props Xml_Main_Example Xml_Output_Example Xml_Check Sketch_Props Xml_Analysis_Props
begin

text \<open>
  KisTA is a library for the performance simulation of real time systems on SystemC: tasks execute on
  processing elements under schedulers, communicate over links through network interfaces and
  communication resources, and the simulation reports response times, deadlines missed, utilisation,
  energy and throughput. This development models its core, the files of \<open>src/src\<close> named below.

  \<^bold>\<open>How the parts interact.\<close> A task is a \<open>task_info_t\<close>. Its state machine and its accounting are SystemC
  processes sensitive to its signals (active, state, waits). A scheduler owns a set of tasks and a
  processing element; its process waits for the events that trigger it, removes the task in
  execution, dispatches another, spends the scheduling time and grants the processor by the active
  signal. The functions of tasks call \<open>consume\<close>, \<open>yield\<close> and \<open>wait_period\<close>, which wait for simulated time
  and change the signals. A channel hands its transfers to the network interface of the processing
  element, which queues them, chooses one, waits for the delay of the communication resource and
  posts a semaphore; that delay comes from the virtual operations of the resource, a TDMA bus say, through
  the link the channel was mapped to. Probes sample the energy of the processing elements, and the
  activity trace observes the state signals and turns them into a picture. Before the simulation, the end of elaboration of each scheduler checks and
  sorts its tasks, prepares its static schedules, and settles scheduling times and the simulation time;
  that of each bus allocates and checks its slots, and that of each channel settles its mapping.

  \<^bold>\<open>Theories.\<close>
  \<^item> \<open>Prelude\<close>: results (\<open>error + 'a\<close>, an error being a report or undefined behaviour), their combinators
    and lemmas, the types of addresses and times, lists and words.
  \<^item> \<open>Doubles\<close>: \<open>double\<close> as exact rationals with the infinities and NaN, and \<open>sc_time\<close> with its conversions.
  \<^item> \<open>Sim_Phase\<close> (\<open>utils.cpp\<close>, \<open>utils.hpp\<close>): what the code observes of the kernel, the guards that allow a
    call only before or after the start of the simulation, unit factors, validators.
  \<^item> \<open>Auxiliar\<close> (\<open>auxiliar.hpp\<close>): \<open>gcd2\<close>, \<open>lcm2\<close>, \<open>lcm\<close> at 64 bits.
  \<^item> \<open>Sched_Types\<close> (\<open>sched_types.cpp\<close>): the policies, the key of a scheduler type and its order.
  \<^item> \<open>Processing_Element\<close> (\<open>processing_element.cpp\<close>): frequency, cycles per instruction, energy and power.
  \<^item> \<open>Task_Info\<close> (\<open>task_info_t.cpp\<close>, \<open>application_t.cpp\<close>, the tables of \<open>global_elements.cpp\<close>): the record of a
    task, construction, attributes, accounting of occupation, response time, energy and deadlines.
  \<^item> \<open>Task_FSM\<close> (\<open>update_state_proc\<close>): the state machine of a task, as a function of its state and
    signals that returns the new state, the events notified and the signals it waits for.
  \<^item> \<open>Taskset\<close> (\<open>taskset_by_name_t.cpp\<close>), \<open>Static_Analysis\<close> (\<open>static_sched_analysis.cpp\<close>).
  \<^item> \<open>Scheduler\<close>, \<open>Dispatch\<close>, \<open>Scheduler_Proc\<close> (\<open>scheduler.cpp\<close>, \<open>scheduler_penalties.cpp\<close>,
    \<open>scheduling_time_calculators.cpp\<close>): the record, the configuration, the dispatcher of each policy, the
    end of elaboration, the process between two of its waits, and its step relation.
  \<^item> \<open>Dispatch_Contract\<close>, \<open>Priority_Order\<close>, \<open>Scheduler_Props\<close>: their properties. \<open>Dispatch_Contract\<close> states
    the contract of a dispatcher as a locale, interpreted on the policies; \<open>Priority_Order\<close> states what
    the code needs of \<open>std::sort\<close> as a locale, interpreted on a stable insertion sort.
  \<^item> \<open>User_Constructs\<close> (\<open>user_task_constructs.cpp\<close>): \<open>consume\<close>, \<open>yield\<close>, \<open>wait_period\<close>.
  \<^item> \<open>Load_Analysis\<close> (\<open>load_analysis/load_analysis.cpp\<close>): the precise bound of the response times.
  \<^item> \<open>Throughput_Monitor\<close> (\<open>synch_comm/throughput_monitor.cpp\<close>).
  \<^item> \<open>Links\<close> (\<open>link_t.hpp\<close>, \<open>logic_link.cpp\<close>), \<open>Network_Interface\<close> (\<open>network_interface.cpp\<close>): links, the
    transmission buffer and queue, the process; \<open>Netif_Props\<close>: their properties, with the contract of a
    queue of requests as a locale.
  \<^item> \<open>Comm_Res\<close> (\<open>comm_res/comm_res.hpp\<close>, \<open>link_info_t.cpp\<close>, \<open>phy_link_t.cpp\<close>): the properties that a
    communication resource keeps for each link and message size; \<open>TDMA_Bus\<close> (\<open>comm_res/buses/tdma_bus.cpp\<close>):
    slots, offsets and delays; \<open>TDMA_Props\<close>, \<open>TDMA_Slots\<close>: their properties. \<open>Shared_Bus\<close>
    (\<open>comm_res/buses/shared_bus.cpp\<close>): its configuration. \<open>Comm_Dispatch\<close>: the virtual delay operations of
    the three kinds of resource.
  \<^item> \<open>Hardware\<close> (\<open>hw_resource.cpp\<close>, \<open>app_element.cpp\<close>, \<open>memory_resource.cpp\<close>, \<open>comm_res/phy_comm_res.cpp\<close>,
    \<open>mapped_links_t.cpp\<close>): elements of the platform, connections, mapping of logic links to physical
    ones; \<open>Hardware_Props\<close>.
  \<^item> \<open>Messages\<close> (\<open>types.cpp\<close>): messages with their bytes on an explicit heap.
  \<^item> \<open>Sc_Primitives\<close>: what the code uses of \<open>sc_fifo\<close> and \<open>sc_semaphore\<close>, as operations and a locale of
    laws, interpreted on lists and counters. \<open>Synch_Events\<close> (\<open>semaphore.cpp\<close>, \<open>memoryless_event.cpp\<close>,
    \<open>registered_event.cpp\<close>): blocking calls composed with the state machine of the task.
  \<^item> \<open>Fifo_Buffer\<close>, \<open>Fifo_Channel\<close>, \<open>Fifo_Elab\<close> (\<open>synch_comm/fifo_buffer.hpp\<close>): the channel, its runs with writer,
    reader and transfers, and its mapping at the end of elaboration. \<open>Shared_Var\<close> (\<open>synch_comm/shared_var.hpp\<close>).
  \<^item> \<open>Energy_Power\<close> (\<open>energy_power/power_measurement_probe.cpp\<close>, \<open>energy_power/global_energy_power_metrics.cpp\<close>).
  \<^item> \<open>Tikz_Trace\<close>, \<open>Tikz_Draw\<close> (\<open>tikz_activity_trace.cpp\<close>): recording of the states, layout of the time axis and
    the whole exported text; \<open>Text_Out\<close>: decimal numerals; \<open>Tikz_Props\<close>, \<open>Tikz_Export\<close>: their properties.
  \<^item> \<open>Scheduler_Elab\<close>: the whole \<open>scheduler::end_of_elaboration\<close>, and what it establishes for the dispatches
    of the simulation and for the network interface.

  \<^item> \<open>Text_In\<close>, \<open>Xml_Values\<close> (\<open>xml_if/kista_xml_utils.cpp\<close>): the C library's reading of numbers from text
    (\<open>strtoul\<close>, \<open>strtod\<close>, \<open>atoi\<close>) and the conversion of a value with its unit. \<open>Xml_Tree\<close>: what the code uses of
    libxml2, as operations on nodes and XPath queries with the locale \<open>libxml\<close> of their laws, interpreted
    on finite trees. \<open>Xml_Params\<close> (\<open>read_sysconf_parameters.cpp\<close>): parameters and references to them.
  \<^item> \<open>Xml_Command\<close> (\<open>parse_kista_xml_command.cpp\<close>, \<open>kista_xml_configuration.cpp\<close>): the command line and names.
  \<^item> \<open>Xml_Software\<close> (\<open>create_sw_platform.cpp\<close>, \<open>create_app_to_platform_mapping.cpp\<close>, \<open>create_platform_mapping.cpp\<close>):
    schedulers, tasksets and mappings out of the description; \<open>Xml_Software_Props\<close>.
  \<^item> \<open>Xml_Hardware\<close> (\<open>create_hw_platform.cpp\<close>): processing elements, memories, buses, connections and TDMA
    slots out of the description; \<open>Xml_Hardware_Props\<close>, \<open>Xml_Platform_Props\<close>, \<open>Xml_Hw_Example\<close>: the properties,
    and one description on which they are all instantiated.
  \<^item> \<open>Xml_Functions\<close> (\<open>create_global_init.cpp\<close>, \<open>get_node_function\<close>, \<open>sc_env\<close>): functions out of dynamic
    libraries and hooks; \<open>Xml_Application\<close> (\<open>create_application.cpp\<close>, \<open>create_environment.cpp\<close>): tasks of the
    system and of the environment, with their properties; \<open>Xml_Channels\<close>: the channels. \<open>Xml_Main\<close>
    (\<open>kista_xml.cpp\<close>): the construction of the whole model. \<open>Xml_Application_Props\<close>, \<open>Xml_Channels_Props\<close>,
    \<open>Xml_Main_Props\<close>, \<open>Xml_App_Example\<close>, \<open>Xml_Main_Example\<close>: their properties and an example.
  \<^item> \<open>Xml_Output\<close> (\<open>create_output.cpp\<close>, the end of \<open>sc_main\<close>): the full and the selected output of metrics, the
    measurements a selection needs, the document of an error; \<open>Xml_Output_Props\<close>, with the locale
    \<open>libxml_metrics\<close> of the query for a definition file, and \<open>Xml_Output_Example\<close>.
  \<^item> \<open>Xml_Check\<close> (\<open>kista_xml_check.cpp\<close>): the program that checks a description, as what it prints and how it ends.
  \<^item> \<open>Sketch\<close> (\<open>draw.cpp\<close>): the sketch of a model as a list of items with their texts; \<open>Sketch_Props\<close>.
  \<^item> \<open>Xml_Analysis\<close> (\<open>kista_xml_analysis.cpp\<close>, \<open>xml_create_tikz_activity_trace.cpp\<close>, the configuration in
    \<open>sc_main\<close>, \<open>xml_validation_vs_kista_schema.cpp\<close>): analyses, traces, sketch and reports that a description asks
    for, and the validation against a schema; \<open>Xml_Analysis_Props\<close>.

  \<^bold>\<open>Correspondence.\<close> A class is a record with the members the modelled code uses, a method a definition
  of its name that takes and returns the record. \<open>SC_REPORT_ERROR\<close> throws, so it is an error value
  that ends the operation; its texts are kept, at times shortened. Warnings, infos, prints and
  VCD traces are left out. Reading an indeterminate member, dereferencing a null pointer or an end
  iterator and falling off a function is \<open>Undefined_Behaviour\<close>, unless the value read is a parameter
  (\<open>raw\<close>, \<open>flag\<close>) over which a property quantifies. A wait of a process is the boundary between two
  definitions; events notified are outputs; a signal is a field, read as its value in the delta
  cycle. Integers keep their width (\<open>u32\<close>, \<open>u64\<close>); times are natural multiples of the picosecond;
  finite doubles are exact rationals, so that statements about them hold up to rounding. Tasks and
  processing elements are known by name, in stores that map names to records; link objects by address.
  A \<open>std::map\<close> is an association list in the order of its keys. The SystemC fifo and semaphore are the
  operations \<open>sc_ops\<close>, under the laws of the locale \<open>sc_channels\<close>; \<open>std::sort\<close>, the search of addresses, \<open>rand\<close>,
  the date, the text of times and floats and the key read at an end iterator are parameters.
  The XML front end reads its description through the record \<open>xml_lib\<close> (children, names, attributes,
  parent, the nodes an XPath query selects), so that a document is whatever libxml2 answers; the names the
  kernel gives to unnamed modules are parameters (\<open>kn\<close>, \<open>gen\<close>). Its verbose messages are not modelled, but
  a null string appended to one is undefined behaviour (\<open>shown\<close>, \<open>used\<close>).

  \<^bold>\<open>Groups of properties.\<close> The scheduler process keeps mutual exclusion on the processor; each dispatcher
  is work conserving and has an exact characterisation (static priorities, cycle executive, static
  schedule, EDF); after an elaboration without error every dispatch succeeds. The state machine of
  a task reaches no error and notifies exactly the right events. Occupation, response times,
  deadlines, consumption and utilisation are exact. Hyperperiod, Liu and Layland test and load
  analysis are compared with their mathematical counterparts. The network interface accounts its
  buffer exactly, serves in the order of request times, and with an unbounded buffer strands no
  request; with a bounded one it can. A fifo channel refines a bounded queue, and its reads follow the
  credits of completed transfers. The TDMA bus gives its elements disjoint slots, and its delays and offsets
  are compared with the times of bits on the bus. The exported trace tiles the time axis with boxes that
  show the recorded states. Of the XML front end: a command line that shows its options is read back, references to
  parameters are resolved, and the schedulers, allocations, processing elements, connections and slots
  of the platform are those that the description lists; so are the tasks with their properties and the
  channels, and a model that is built is consistent across its components. The selected output reports each
  defined metric once, from monitors that the selection started, and agrees with the full output; the
  activity traces have the settings of their elements. The check of a description exits with an error exactly when
  it is wrong. A sketch is complete, and refers only to what it has drawn before.

  \<^bold>\<open>Bounds and fuel.\<close> Every operation is total. \<open>fixed_point_loop\<close> counts down the 1000 iterations that
  the code allows, and \<open>load_analysis_closed_form\<close> shows that it always ends after two rounds. \<open>consume_loop\<close> recurses over the
  list of processor windows granted. Arithmetic on words wraps as in the code; where a property
  needs absence of wrap-around it says so.

  \<^bold>\<open>Not modelled.\<close> The SystemC kernel (its observations are \<open>sim_env\<close>), libxml2 (\<open>xml_lib\<close>, \<open>schema_lib\<close>) and the
  dynamic loader (\<open>dl_lib\<close>), with the layout of the XML files that libxml2 writes; the text of a double in a report;
  VCD files of signals; the classes of \<open>annotation_plugin\<close> and \<open>system_level_bypass\<close>, which glue the library to
  other tools, the vendored libraries, examples and tests.
\<close>

end
